(* ===== verification/Prelude.thy ===== *)
theory Prelude
  imports Complex_Main "HOL-Library.Word" "HOL-Library.Char_ord"
    "HOL-Library.List_Lexorder" "HOL-Library.Multiset"
begin

text \<open>
  What every component shares: Go's error values and the result type of a fallible call, the
  clock readings, 64-bit integer wrap-around, and generic facts on lists.

  Strings are Go strings, that is byte sequences: HOL's \<^typ>\<open>string\<close>, whose characters are the
  256 byte values.  Code points (Go's \<^verbatim>\<open>rune\<close>) are \<^typ>\<open>int\<close>.
\<close>

named_theorems res_simps \<open>unfolding of the result combinators\<close>

section \<open>Error values\<close>

text \<open>
  The sentinel errors of \<^verbatim>\<open>internal/domain/errors.go\<close>, an opaque error carrying its text
  (\<^verbatim>\<open>errors.New\<close>, a driver error) and \<^verbatim>\<open>fmt.Errorf("ctx: %w", err)\<close>.
\<close>

datatype gerror =
    ErrNotFound | ErrAlreadyExists | ErrInvalidInput | ErrUnauthorized | ErrForbidden
  | ErrPasswordMismatch | ErrPasswordTooWeak | ErrUsernameInvalid | ErrRateLimited
  | ErrSessionExpired | ErrTokenInvalid | ErrTokenExpired | ErrIntegrityMismatch
  | ErrText string
  | ErrWrap string gerror

text \<open>\<^verbatim>\<open>errors.Is\<close>: equal to the target, or wrapping an error that is.\<close>

fun errors_is :: "gerror \<Rightarrow> gerror \<Rightarrow> bool" where
  "errors_is (ErrWrap m e) t = (ErrWrap m e = t \<or> errors_is e t)"
| "errors_is e t = (e = t)"

text \<open>\<^verbatim>\<open>err.Error()\<close>\<close>

fun error_text :: "gerror \<Rightarrow> string" where
  "error_text ErrNotFound = ''domain: not found''"
| "error_text ErrAlreadyExists = ''domain: already exists''"
| "error_text ErrInvalidInput = ''domain: invalid input''"
| "error_text ErrUnauthorized = ''domain: unauthorized''"
| "error_text ErrForbidden = ''domain: forbidden''"
| "error_text ErrPasswordMismatch = ''domain: password mismatch''"
| "error_text ErrPasswordTooWeak = ''domain: password too weak''"
| "error_text ErrUsernameInvalid = ''domain: username invalid''"
| "error_text ErrRateLimited = ''domain: rate limited''"
| "error_text ErrSessionExpired = ''domain: session expired''"
| "error_text ErrTokenInvalid = ''domain: token invalid''"
| "error_text ErrTokenExpired = ''domain: token expired''"
| "error_text ErrIntegrityMismatch = ''domain: integrity mismatch''"
| "error_text (ErrText m) = m"
| "error_text (ErrWrap m e) = m @ '': '' @ error_text e"

type_synonym 'a res = "gerror + 'a"

fun is_ok :: "'a res \<Rightarrow> bool" where
  "is_ok (Inr _) = True"
| "is_ok (Inl _) = False"

fun wrap_err :: "string \<Rightarrow> 'a res \<Rightarrow> 'a res" where
  "wrap_err m (Inl e) = Inl (ErrWrap m e)"
| "wrap_err m (Inr x) = Inr x"

lemma errors_is_refl [simp]: "errors_is e e"
  by (cases e) simp_all

lemma is_ok_iff: "is_ok r \<longleftrightarrow> (\<exists>x. r = Inr x)"
  by (cases r) simp_all

lemma wrap_err_Inr [simp]: "wrap_err m r = Inr x \<longleftrightarrow> r = Inr x"
  by (cases r) simp_all

section \<open>Clock readings\<close>

text \<open>
  A \<^verbatim>\<open>time.Time\<close> in UTC is its distance from the Unix epoch in nanoseconds; a
  \<^verbatim>\<open>time.Duration\<close> is a number of nanoseconds.
\<close>

type_synonym time = int
type_synonym duration = int

abbreviation second :: int where "second \<equiv> 1000000000"
abbreviation millisecond :: int where "millisecond \<equiv> 1000000"

definition unix :: "time \<Rightarrow> int" where
  "unix t = t div second"

definition unix_milli :: "time \<Rightarrow> int" where
  "unix_milli t = t div millisecond"

text \<open>\<^verbatim>\<open>time.Unix(s, 0).UTC()\<close>\<close>

definition of_unix :: "int \<Rightarrow> time" where
  "of_unix s = s * second"

text \<open>The zero \<^verbatim>\<open>time.Time\<close> is midnight of 1 January of the year 1.\<close>

definition zero_time :: time where
  "zero_time = -62135596800 * second"

abbreviation is_zero_time :: "time \<Rightarrow> bool" where
  "is_zero_time t \<equiv> t = zero_time"

lemma unix_of_unix [simp]: "unix (of_unix s) = s"
  by (simp add: unix_def of_unix_def)

lemma of_unix_unix_le: "of_unix (unix t) \<le> t"
  unfolding of_unix_def unix_def by presburger

lemma less_of_unix_unix: "t < of_unix (unix t) + second"
  unfolding of_unix_def unix_def by presburger

lemma of_unix_less: "s < unix t \<Longrightarrow> of_unix s + t mod second < t"
  unfolding of_unix_def unix_def
  using div_mult_mod_eq [of t second] mult_strict_right_mono [of s "t div second" second] by simp

lemma unix_mono: "s \<le> t \<Longrightarrow> unix s \<le> unix t"
  unfolding unix_def by (rule zdiv_mono1) simp_all

section \<open>64-bit integers\<close>

text \<open>Two's complement wrap-around of Go's \<^verbatim>\<open>int\<close> and \<^verbatim>\<open>int64\<close>.\<close>

definition i64 :: "int \<Rightarrow> int" where
  "i64 x = (x + 2 ^ 63) mod 2 ^ 64 - 2 ^ 63"

definition in_i64 :: "int \<Rightarrow> bool" where
  "in_i64 x \<longleftrightarrow> - (2 ^ 63) \<le> x \<and> x < 2 ^ 63"

lemma i64_id [simp]: "in_i64 x \<Longrightarrow> i64 x = x"
  by (simp add: i64_def in_i64_def)

lemma in_i64_i64 [simp]: "in_i64 (i64 x)"
  by (simp add: i64_def in_i64_def)

lemma i64_shift: "in_i64 (x - 2 ^ 64 * k) \<Longrightarrow> i64 x = x - 2 ^ 64 * k"
proof -
  assume *: "in_i64 (x - 2 ^ 64 * k)"
  have "(x + 2 ^ 63) mod 2 ^ 64 = (x - 2 ^ 64 * k + 2 ^ 63) mod 2 ^ 64"
    using mod_mult_self1 [of "x - 2 ^ 64 * k + 2 ^ 63" k "2 ^ 64"] by (simp add: algebra_simps)
  with i64_id [OF *] show ?thesis by (simp add: i64_def)
qed

lemma i64_word: "i64 x = sint (word_of_int x :: 64 word)"
  by (simp add: i64_def int_word_sint)

section \<open>Lists\<close>

text \<open>The first element satisfying a predicate: Go's \<^verbatim>\<open>for range\<close> with an early return.\<close>

lemma find_Some_iff_in: "List.find P xs = Some x \<Longrightarrow> x \<in> set xs \<and> P x"
  by (induction xs) (auto split: if_splits)

lemma find_None_conv: "List.find P xs = None \<longleftrightarrow> (\<forall>x\<in>set xs. \<not> P x)"
  by (induction xs) auto

lemma find_append: "List.find P (xs @ ys) =
    (case List.find P xs of None \<Rightarrow> List.find P ys | Some x \<Rightarrow> Some x)"
  by (induction xs) auto

lemma find_filter_same: "List.find P (filter Q xs) = List.find (\<lambda>x. Q x \<and> P x) xs"
  by (induction xs) auto

lemma find_cong_set:
  "(\<And>x. x \<in> set xs \<Longrightarrow> P x = Q x) \<Longrightarrow> List.find P xs = List.find Q xs"
  by (induction xs) auto

text \<open>An insertion-order independent test that two lists hold the same elements.\<close>

lemma sort_eq_iff_mset_eq: "sort xs = sort ys \<longleftrightarrow> mset xs = mset (ys :: 'a::linorder list)"
proof
  assume "sort xs = sort ys"
  then have "mset (sort xs) = mset (sort ys)" by simp
  then show "mset xs = mset ys" by simp
next
  assume "mset xs = mset ys"
  then show "sort xs = sort ys" by (simp add: properties_for_sort)
qed

end
