(* ===== verification/Float64.thy ===== *)
theory Float64
  imports Prelude
begin

text \<open>
  Go's \<^verbatim>\<open>float64\<close>: a value is the rational number it denotes, and every operation rounds its
  exact result to the nearest number with a 53-bit significand, ties to even.  The exponent is
  not bounded: the quantities of this program (ease factors, accuracy rates, token counts,
  pixel coordinates) stay far from the overflow and underflow thresholds, and it never divides
  by a zero that it has not tested.
\<close>

type_synonym float64 = rat

section \<open>The binary exponent of a positive rational\<close>

function bits :: "int \<Rightarrow> int" where
  "bits n = (if n \<le> 0 then 0 else 1 + bits (n div 2))"
  by pat_completeness auto
termination
  by (relation "measure nat") auto

declare bits.simps [simp del]

lemma bits_nonneg: "0 \<le> bits n"
  by (induction n rule: bits.induct) (subst bits.simps, simp)

lemma bits_bounds: "0 < n \<Longrightarrow> 2 ^ nat (bits n - 1) \<le> n \<and> n < 2 ^ nat (bits n)"
proof (induction n rule: bits.induct)
  case (1 n)
  show ?case
  proof (cases "n = 1")
    case True
    then show ?thesis by (simp add: bits.simps [of 1] bits.simps [of 0])
  next
    case False
    with 1 have IH: "2 ^ nat (bits (n div 2) - 1) \<le> n div 2" "n div 2 < 2 ^ nat (bits (n div 2))"
      and n2: "0 < n div 2" by auto
    have b: "bits n = 1 + bits (n div 2)" using "1.prems" by (simp add: bits.simps [of n])
    have pos: "1 \<le> bits (n div 2)"
      using n2 bits_nonneg [of "n div 2 div 2"] by (simp add: bits.simps [of "n div 2"])
    have "nat (bits n - 1) = Suc (nat (bits (n div 2) - 1))"
      and "nat (bits n) = Suc (nat (bits (n div 2)))"
      using b pos by simp_all
    moreover have "A \<le> n div 2 \<Longrightarrow> 2 * A \<le> n" "n div 2 < A \<Longrightarrow> n < 2 * A" for A :: int
      by presburger+
    ultimately show ?thesis using IH by (simp only: power_Suc)
  qed
qed

text \<open>The greatest \<open>e\<close> with \<open>2^e \<le> x\<close>.\<close>

definition ilog2 :: "rat \<Rightarrow> int" where
  "ilog2 x = (let (n, d) = quotient_of x; e = bits n - bits d
              in if 2 powi e \<le> x then e else e - 1)"

lemma powi_nat: "0 \<le> e \<Longrightarrow> (2 :: rat) powi e = 2 ^ nat e"
  by (simp add: power_int_def)

lemma powi_pos [simp]: "0 < (2 :: rat) powi e"
  by (simp add: zero_less_power_int)

lemma powi_mono: "e \<le> f \<Longrightarrow> (2 :: rat) powi e \<le> 2 powi f"
  by (simp add: power_int_increasing)

lemma powi_less_iff: "(2 :: rat) powi e < 2 powi f \<longleftrightarrow> e < f"
  by (meson linorder_not_less one_less_numeral_iff power_int_mono_iff power_int_strict_increasing
      powi_mono semiring_norm(76))

lemma powi_Suc: "(2 :: rat) powi (e + 1) = 2 * 2 powi e"
  by (simp add: power_int_add)

lemma powi_of_int:
  assumes "0 \<le> k"
  shows "2 powi k \<le> (of_int n :: rat) \<longleftrightarrow> 2 ^ nat k \<le> n"
    and "(of_int n :: rat) < 2 powi k \<longleftrightarrow> n < 2 ^ nat k"
proof -
  have "(2 :: rat) powi k = of_int (2 ^ nat k)" using assms by (simp add: powi_nat)
  then show "2 powi k \<le> (of_int n :: rat) \<longleftrightarrow> 2 ^ nat k \<le> n"
    and "(of_int n :: rat) < 2 powi k \<longleftrightarrow> n < 2 ^ nat k"
    by (simp_all only: of_int_le_iff of_int_less_iff)
qed

lemma bits_pos: "0 < n \<Longrightarrow> 1 \<le> bits n"
  using bits_nonneg [of "n div 2"] by (simp add: bits.simps [of n])

lemma bits_powi:
  assumes "0 < n"
  shows "2 powi (bits n - 1) \<le> (of_int n :: rat)" and "(of_int n :: rat) < 2 powi bits n"
  using bits_bounds [OF assms] bits_pos [OF assms] by (simp_all add: powi_of_int)

text \<open>The exponent of a quotient is the difference of the bit lengths or one less.\<close>

lemma ratio_bounds:
  assumes n: "0 < n" and d: "0 < d"
  shows "2 powi (bits n - bits d - 1) \<le> (of_int n / of_int d :: rat)"
    and "(of_int n / of_int d :: rat) < 2 powi (bits n - bits d + 1)"
proof -
  have "2 powi (bits n - bits d - 1) * (of_int d :: rat)
      \<le> 2 powi (bits n - bits d - 1) * 2 powi bits d"
    using bits_powi(2) [OF d] by (intro mult_left_mono) simp_all
  also have "\<dots> = 2 powi (bits n - 1)" by (simp flip: power_int_add)
  also have "\<dots> \<le> of_int n" by (rule bits_powi) (rule n)
  finally show "2 powi (bits n - bits d - 1) \<le> (of_int n / of_int d :: rat)"
    using d by (simp add: pos_le_divide_eq)
  have "(of_int n :: rat) < 2 powi bits n" by (rule bits_powi) (rule n)
  also have "\<dots> = 2 powi (bits n - bits d + 1) * 2 powi (bits d - 1)"
    by (simp flip: power_int_add)
  also have "\<dots> \<le> 2 powi (bits n - bits d + 1) * of_int d"
    using bits_powi(1) [OF d] by (intro mult_left_mono) simp_all
  finally show "(of_int n / of_int d :: rat) < 2 powi (bits n - bits d + 1)"
    using d by (simp add: pos_divide_less_eq)
qed

lemma ilog2_bounds:
  assumes "0 < x"
  shows "2 powi ilog2 x \<le> x" and "x < 2 powi (ilog2 x + 1)"
proof -
  obtain n d where q: "quotient_of x = (n, d)" by fastforce
  have d: "0 < d" using q by (rule quotient_of_denom_pos)
  have x: "x = of_int n / of_int d" using q by (rule quotient_of_div)
  with assms d have n: "0 < n" by (simp add: zero_less_divide_iff)
  have e: "ilog2 x = (if 2 powi (bits n - bits d) \<le> x then bits n - bits d else bits n - bits d - 1)"
    by (simp add: ilog2_def q Let_def)
  show "2 powi ilog2 x \<le> x" using ratio_bounds(1) [OF n d] e x by simp
  show "x < 2 powi (ilog2 x + 1)" using ratio_bounds(2) [OF n d] e x by auto
qed

lemma ilog2_mono:
  assumes "0 < x" "x \<le> y"
  shows "ilog2 x \<le> ilog2 y"
proof (rule ccontr)
  assume "\<not> ?thesis"
  then have "(2 :: rat) powi (ilog2 y + 1) \<le> 2 powi ilog2 x" by (intro powi_mono) simp
  also have "\<dots> \<le> x" by (rule ilog2_bounds) (rule assms)
  also have "\<dots> < 2 powi (ilog2 y + 1)" using assms ilog2_bounds(2) [of y] by simp
  finally show False by simp
qed

lemma ilog2_eqI: "2 powi e \<le> x \<Longrightarrow> x < 2 powi (e + 1) \<Longrightarrow> ilog2 x = e"
proof -
  assume *: "2 powi e \<le> x" "x < 2 powi (e + 1)"
  have pos: "0 < x" using *(1) powi_pos [of e] by (rule order.strict_trans2 [rotated])
  note b = ilog2_bounds [OF pos]
  have "(2 :: rat) powi e < 2 powi (ilog2 x + 1)" "(2 :: rat) powi (ilog2 x) < 2 powi (e + 1)"
    using * b by (auto intro: le_less_trans)
  then have "e < ilog2 x + 1" "ilog2 x < e + 1"
    by (simp_all add: powi_less_iff)
  then show ?thesis by simp
qed

section \<open>Rounding\<close>

text \<open>Round half to even.\<close>

definition rhe :: "rat \<Rightarrow> int" where
  "rhe q = (let f = \<lfloor>q\<rfloor>; r = q - of_int f in
     if r < 1 / 2 then f else if 1 / 2 < r then f + 1 else if even f then f else f + 1)"

lemma rhe_of_int [simp]: "rhe (of_int n) = n"
  by (simp add: rhe_def Let_def)

lemma rhe_near: "\<bar>of_int (rhe q) - q\<bar> \<le> 1 / 2"
proof -
  have "of_int \<lfloor>q\<rfloor> \<le> q" "q < of_int \<lfloor>q\<rfloor> + 1" by linarith+
  then show ?thesis by (auto simp: rhe_def Let_def abs_le_iff)
qed

lemma rhe_mono:
  assumes "p \<le> q"
  shows "rhe p \<le> rhe q"
proof -
  have "\<lfloor>p\<rfloor> \<le> \<lfloor>q\<rfloor>" using assms by (rule floor_mono)
  then consider "\<lfloor>p\<rfloor> = \<lfloor>q\<rfloor>" | "\<lfloor>p\<rfloor> + 1 \<le> \<lfloor>q\<rfloor>" by linarith
  then show ?thesis
  proof cases
    case 1
    with assms show ?thesis by (auto simp: rhe_def Let_def)
  next
    case 2
    have "rhe p \<le> \<lfloor>p\<rfloor> + 1" "\<lfloor>q\<rfloor> \<le> rhe q" by (auto simp: rhe_def Let_def)
    with 2 show ?thesis by simp
  qed
qed

lemma rhe_ge: "of_int n \<le> q \<Longrightarrow> n \<le> rhe q"
  using rhe_mono [of "of_int n" q] by simp

lemma rhe_le: "q \<le> of_int n \<Longrightarrow> rhe q \<le> n"
  using rhe_mono [of q "of_int n"] by simp

text \<open>The unit in the last place, and rounding to the nearest double.\<close>

definition ulp :: "rat \<Rightarrow> rat" where
  "ulp x = 2 powi (ilog2 \<bar>x\<bar> - 52)"

definition rnd :: "rat \<Rightarrow> float64" where
  "rnd x = (if x = 0 then 0 else of_int (rhe (x / ulp x)) * ulp x)"

definition is_float :: "rat \<Rightarrow> bool" where
  "is_float x \<longleftrightarrow> rnd x = x"

definition fadd :: "float64 \<Rightarrow> float64 \<Rightarrow> float64" where "fadd x y = rnd (x + y)"
definition fsub :: "float64 \<Rightarrow> float64 \<Rightarrow> float64" where "fsub x y = rnd (x - y)"
definition fmul :: "float64 \<Rightarrow> float64 \<Rightarrow> float64" where "fmul x y = rnd (x * y)"
definition fdiv :: "float64 \<Rightarrow> float64 \<Rightarrow> float64" where "fdiv x y = rnd (x / y)"

text \<open>\<^verbatim>\<open>float64(n)\<close> for an integer, and \<^verbatim>\<open>int(x)\<close>: truncation, and the value the amd64
  conversion yields when the result does not fit.\<close>

definition float_of_int :: "int \<Rightarrow> float64" where "float_of_int n = rnd (of_int n)"

definition trunc :: "rat \<Rightarrow> int" where
  "trunc x = (if x < 0 then - \<lfloor>- x\<rfloor> else \<lfloor>x\<rfloor>)"

definition int_of_float :: "float64 \<Rightarrow> int" where
  "int_of_float x = (if in_i64 (trunc x) then trunc x else - (2 ^ 63))"

text \<open>\<^verbatim>\<open>math.Round\<close>: half away from zero.\<close>

definition round_away :: "float64 \<Rightarrow> float64" where
  "round_away x = of_int (if x < 0 then - \<lfloor>- x + 1 / 2\<rfloor> else \<lfloor>x + 1 / 2\<rfloor>)"

section \<open>Laws of rounding\<close>

lemma ulp_pos [simp]: "0 < ulp x"
  by (simp add: ulp_def)

lemma rnd_0 [simp]: "rnd 0 = 0"
  by (simp add: rnd_def)

lemma rnd_minus: "rhe (- q) = - rhe q"
proof -
  consider (int) "of_int \<lfloor>q\<rfloor> = q" | (frac) "\<lfloor>- q\<rfloor> = - \<lfloor>q\<rfloor> - 1"
    by (metis ceiling_def ceiling_altdef add.commute minus_diff_eq minus_minus uminus_add_conv_diff)
  then show ?thesis
  proof cases
    case int
    then show ?thesis by (metis of_int_minus rhe_of_int)
  next
    case frac
    then show ?thesis by (auto simp: rhe_def Let_def)
  qed
qed

lemma rnd_uminus: "rnd (- x) = - rnd x"
  by (simp add: rnd_def ulp_def rnd_minus flip: minus_divide_left)

lemma rnd_nonneg: "0 \<le> x \<Longrightarrow> 0 \<le> rnd x"
proof (cases "x = 0")
  case False
  assume "0 \<le> x"
  then have "0 \<le> x / ulp x" by (simp add: less_imp_le)
  then have "0 \<le> rhe (x / ulp x)" using rhe_ge [of 0 "x / ulp x"] by simp
  with False show ?thesis by (simp add: rnd_def less_imp_le)
qed simp

lemma rnd_error: "\<bar>rnd x - x\<bar> \<le> ulp x / 2"
proof (cases "x = 0")
  case False
  have "rnd x - x = (of_int (rhe (x / ulp x)) - x / ulp x) * ulp x"
    using False by (simp add: rnd_def left_diff_distrib less_imp_neq [THEN not_sym])
  then have "\<bar>rnd x - x\<bar> = \<bar>of_int (rhe (x / ulp x)) - x / ulp x\<bar> * ulp x"
    by (simp add: abs_mult abs_of_pos)
  also have "\<dots> \<le> 1 / 2 * ulp x" by (intro mult_right_mono rhe_near) (simp add: less_imp_le)
  finally show ?thesis by simp
qed (simp add: less_imp_le)

text \<open>A multiple of \<open>ulp\<close> with a 53-bit significand is a fixed point.\<close>

lemma rnd_eq_if_ulp: "of_int k * ulp x = x \<Longrightarrow> rnd x = x"
proof (cases "x = 0")
  case False
  assume k: "of_int k * ulp x = x"
  then have "x / ulp x = of_int k"
    using less_imp_neq [OF ulp_pos [of x]] by (simp add: nonzero_divide_eq_eq)
  with False k show ?thesis by (simp add: rnd_def)
qed simp

lemma powi_shift: "of_int (2 ^ k) * (2 :: rat) powi (e - int k) = 2 powi e"
proof -
  have "of_int (2 ^ k) = (2 :: rat) powi int k" by (simp add: powi_nat)
  then have "of_int (2 ^ k) * (2 :: rat) powi (e - int k) = 2 powi (int k + (e - int k))"
    using power_int_add [of "2 :: rat" "int k" "e - int k"] by simp
  then show ?thesis by simp
qed

lemma rnd_powi: "rnd (2 powi e) = 2 powi e"
proof -
  have "ilog2 (2 powi e) = e" by (rule ilog2_eqI) (simp_all add: powi_Suc)
  then have "of_int (2 ^ 52) * ulp (2 powi e) = 2 powi e"
    using powi_shift [of 52 e] by (simp add: ulp_def)
  then show ?thesis by (rule rnd_eq_if_ulp)
qed

lemma rnd_between:
  assumes "0 < x"
  shows "2 powi ilog2 x \<le> rnd x" and "rnd x \<le> 2 powi (ilog2 x + 1)"
proof -
  let ?u = "ulp x"
  have u: "?u = 2 powi (ilog2 x - 52)" using assms by (simp add: ulp_def)
  have lo: "of_int (2 ^ 52) * ?u = 2 powi ilog2 x"
    using powi_shift [of 52 "ilog2 x"] by (simp add: u)
  have hi: "of_int (2 ^ 53) * ?u = 2 powi (ilog2 x + 1)"
    using powi_shift [of 53 "ilog2 x + 1"] by (simp add: u)
  have "of_int (2 ^ 52) \<le> x / ?u"
    using ilog2_bounds(1) [OF assms] lo by (simp add: pos_le_divide_eq)
  then have "2 ^ 52 \<le> rhe (x / ?u)" by (rule rhe_ge)
  then have "of_int (2 ^ 52) * ?u \<le> of_int (rhe (x / ?u)) * ?u"
    by (intro mult_right_mono) (simp_all only: of_int_le_iff ulp_pos order.strict_implies_order)
  with lo assms show "2 powi ilog2 x \<le> rnd x" by (simp add: rnd_def)
  have "x / ?u \<le> of_int (2 ^ 53)"
    using ilog2_bounds(2) [OF assms] hi by (simp add: pos_divide_le_eq)
  then have "rhe (x / ?u) \<le> 2 ^ 53" by (rule rhe_le)
  then have "of_int (rhe (x / ?u)) * ?u \<le> of_int (2 ^ 53) * ?u"
    by (intro mult_right_mono) (simp_all only: of_int_le_iff ulp_pos order.strict_implies_order)
  with hi assms show "rnd x \<le> 2 powi (ilog2 x + 1)" by (simp add: rnd_def)
qed

lemma rnd_mono_pos:
  assumes "0 < x" "x \<le> y"
  shows "rnd x \<le> rnd y"
proof (cases "ilog2 x = ilog2 y")
  case True
  with assms have u: "ulp x = ulp y" by (simp add: ulp_def)
  have "rhe (x / ulp y) \<le> rhe (y / ulp y)"
    using assms by (intro rhe_mono divide_right_mono) (simp_all add: less_imp_le)
  with assms u show ?thesis by (simp add: rnd_def mult_right_mono less_imp_le)
next
  case False
  with ilog2_mono [OF assms] have "ilog2 x + 1 \<le> ilog2 y" by simp
  then have "(2 :: rat) powi (ilog2 x + 1) \<le> 2 powi ilog2 y" by (rule powi_mono)
  with rnd_between(2) [OF assms(1)] rnd_between(1) [of y] assms show ?thesis
    by (meson order.trans order.strict_trans2)
qed

lemma rnd_mono:
  assumes "x \<le> y"
  shows "rnd x \<le> rnd y"
proof -
  consider "0 < x" | "x \<le> 0" "0 \<le> y" | "y < 0" by linarith
  then show ?thesis
  proof cases
    case 1
    then show ?thesis using assms by (rule rnd_mono_pos)
  next
    case 2
    then show ?thesis using rnd_nonneg [of y] rnd_nonneg [of "- x"] by (simp add: rnd_uminus)
  next
    case 3
    then show ?thesis using rnd_mono_pos [of "- y" "- x"] assms by (simp add: rnd_uminus)
  qed
qed

text \<open>Integers of at most 53 bits are exact.\<close>

lemma rnd_of_int_pos:
  assumes "0 < n" "n < 2 ^ 53"
  shows "rnd (of_int n) = of_int n"
proof -
  let ?e = "ilog2 (of_int n)"
  have n: "0 < (of_int n :: rat)" "(of_int n :: rat) < 2 powi 53"
    using assms by (simp_all add: powi_of_int)
  have "(2 :: rat) powi ?e < 2 powi 53" using ilog2_bounds(1) [OF n(1)] n(2) by (rule le_less_trans)
  then have "?e < 53" by (simp only: powi_less_iff)
  then have k: "?e - 52 = 0 - int (nat (52 - ?e))" by simp
  have "of_int (2 ^ nat (52 - ?e)) * ulp (of_int n) = 1"
    using powi_shift [of "nat (52 - ?e)" 0] assms(1) unfolding ulp_def by (simp add: k)
  then have "of_int (n * 2 ^ nat (52 - ?e)) * ulp (of_int n) = of_int n"
    by (simp add: mult.assoc)
  then show ?thesis by (rule rnd_eq_if_ulp)
qed

lemma rnd_of_int: "\<bar>n\<bar> < 2 ^ 53 \<Longrightarrow> rnd (of_int n) = of_int n"
  using rnd_of_int_pos [of n] rnd_of_int_pos [of "- n"] rnd_uminus [of "of_int n"]
  by (cases "n = 0"; cases "0 < n") auto

lemma float_of_int_exact: "\<bar>n\<bar> < 2 ^ 53 \<Longrightarrow> float_of_int n = of_int n"
  by (simp add: float_of_int_def rnd_of_int)

lemma rnd_1 [simp]: "rnd 1 = 1"
  using rnd_of_int [of 1] by simp

text \<open>A quotient of counts is a rate between 0 and 1.\<close>

lemma fdiv_rate:
  assumes "0 \<le> a" "a \<le> b" "0 < b"
  shows "0 \<le> fdiv a b" and "fdiv a b \<le> 1"
proof -
  show "0 \<le> fdiv a b" using assms by (simp add: fdiv_def rnd_nonneg)
  have "a / b \<le> 1" using assms by simp
  then have "rnd (a / b) \<le> rnd 1" by (rule rnd_mono)
  then show "fdiv a b \<le> 1" using rnd_of_int [of 1] by (simp add: fdiv_def)
qed

section \<open>Conversions\<close>

lemma round_away_mono: "x \<le> y \<Longrightarrow> round_away x \<le> round_away y"
proof -
  assume *: "x \<le> y"
  have "- \<lfloor>- x + 1 / 2\<rfloor> \<le> \<lfloor>y + 1 / 2\<rfloor>" if "x < 0" "\<not> y < 0" using that by linarith
  with * show ?thesis by (auto simp: round_away_def intro: floor_mono)
qed

lemma round_away_of_int [simp]: "round_away (of_int n) = of_int n"
  by (simp add: round_away_def) linarith

lemma trunc_of_int [simp]: "trunc (of_int n) = n"
  by (simp add: trunc_def)

lemma round_away_is_int: "of_int (trunc (round_away x)) = round_away x"
  unfolding round_away_def by (simp only: trunc_of_int)

lemma int_of_round_bounds:
  assumes "of_int a \<le> round_away x" "round_away x \<le> of_int b" "- (2 ^ 63) \<le> a" "b < 2 ^ 63"
  shows "a \<le> int_of_float (round_away x)" and "int_of_float (round_away x) \<le> b"
proof -
  let ?t = "trunc (round_away x)"
  have "of_int a \<le> (of_int ?t :: rat)" "(of_int ?t :: rat) \<le> of_int b"
    using assms(1,2) by (simp_all only: round_away_is_int)
  then have t: "a \<le> ?t" "?t \<le> b" by (simp_all only: of_int_le_iff)
  moreover have "in_i64 ?t" using t assms(3,4) by (simp add: in_i64_def)
  ultimately show "a \<le> int_of_float (round_away x)" "int_of_float (round_away x) \<le> b"
    by (simp_all add: int_of_float_def)
qed

section \<open>Evaluation\<close>

text \<open>
  Floats met in an evaluation are dyadic: a significand and an exponent.  The rules below
  compute the operations on these integers, so the simplifier evaluates a closed term.
\<close>

named_theorems float_eval \<open>evaluation of float operations on dyadic numbers\<close>

definition dy :: "int \<Rightarrow> int \<Rightarrow> rat" where
  "dy m e = of_int m * 2 powi e"

definition rhe_div :: "int \<Rightarrow> int \<Rightarrow> int" where
  "rhe_div n d = (let q = n div d; r = n mod d in
     if 2 * r < d then q else if d < 2 * r then q + 1 else if even q then q else q + 1)"

lemma rhe_ratio:
  assumes "0 < d"
  shows "rhe (of_int n / of_int d) = rhe_div n d"
proof -
  let ?x = "of_int n / of_int d :: rat"
  have f: "\<lfloor>?x\<rfloor> = n div d" by (rule floor_divide_of_int_eq)
  have "(of_int n :: rat) = of_int (n div d) * of_int d + of_int (n mod d)"
    by (metis div_mult_mod_eq of_int_add of_int_mult)
  then have r: "?x - of_int (n div d) = of_int (n mod d) / of_int d"
    using assms by (simp add: field_simps)
  have two: "of_int (2 * k) = (2 * of_int k :: rat)" for k by simp
  have d: "0 < (of_int d :: rat)" using assms by simp
  have "(of_int (n mod d) / of_int d < (1 / 2 :: rat)) = (of_int (2 * (n mod d)) < (of_int d :: rat))"
    and "((1 / 2 :: rat) < of_int (n mod d) / of_int d) = ((of_int d :: rat) < of_int (2 * (n mod d)))"
    using d unfolding two by (simp_all add: pos_divide_less_eq pos_less_divide_eq) linarith+
  then have "(of_int (n mod d) / of_int d < (1 / 2 :: rat)) = (2 * (n mod d) < d)"
    and "((1 / 2 :: rat) < of_int (n mod d) / of_int d) = (d < 2 * (n mod d))"
    by (simp_all only: of_int_less_iff)
  then show ?thesis unfolding rhe_def rhe_div_def f Let_def r by presburger
qed

lemma rnd_scale: "rnd (x * 2 powi k) = rnd x * 2 powi k"
proof (cases "x = 0")
  case False
  then have pos: "0 < \<bar>x\<bar>" by simp
  have "ilog2 (\<bar>x\<bar> * 2 powi k) = ilog2 \<bar>x\<bar> + k"
  proof (rule ilog2_eqI)
    show "2 powi (ilog2 \<bar>x\<bar> + k) \<le> \<bar>x\<bar> * 2 powi k"
      using ilog2_bounds(1) [OF pos] by (simp add: power_int_add)
    have "2 powi (ilog2 \<bar>x\<bar> + k + 1) = (2 :: rat) powi (ilog2 \<bar>x\<bar> + 1) * 2 powi k"
      by (simp add: power_int_add)
    then show "\<bar>x\<bar> * 2 powi k < 2 powi (ilog2 \<bar>x\<bar> + k + 1)"
      using ilog2_bounds(2) [OF pos] by simp
  qed
  then have "ulp (x * 2 powi k) = ulp x * 2 powi k"
    by (simp add: ulp_def abs_mult power_int_add power_int_diff)
  with False show ?thesis by (simp add: rnd_def)
qed simp

lemma ilog2_of_int:
  assumes "0 < m"
  shows "ilog2 (of_int m) = bits m - 1"
proof (rule ilog2_eqI)
  have "1 \<le> bits m" using assms bits_nonneg [of "m div 2"] by (simp add: bits.simps [of m])
  then show "2 powi (bits m - 1) \<le> (of_int m :: rat)" "(of_int m :: rat) < 2 powi (bits m - 1 + 1)"
    using bits_bounds [OF assms] by (simp_all add: powi_of_int)
qed

lemma rnd_of_int_eval:
  "rnd (of_int m) = (let k = bits \<bar>m\<bar> - 53 in
     if k \<le> 0 then of_int m else of_int (rhe_div m (2 ^ nat k)) * 2 ^ nat k)"
proof (cases "m = 0")
  case False
  then have pos: "0 < \<bar>m\<bar>" by simp
  let ?k = "bits \<bar>m\<bar> - 53"
  show ?thesis
  proof (cases "?k \<le> 0")
    case True
    have "\<bar>m\<bar> < 2 ^ nat (bits \<bar>m\<bar>)" using bits_bounds [OF pos] by simp
    also have "\<dots> \<le> 2 ^ 53" using True by (intro power_increasing) simp_all
    finally have "\<bar>m\<bar> < 2 ^ 53" .
    with True show ?thesis by (simp add: rnd_of_int)
  next
    case f: False
    have "ulp (of_int m) = 2 powi ?k"
      using ilog2_of_int [OF pos] by (simp add: ulp_def)
    also have "\<dots> = of_int (2 ^ nat ?k)" using f by (simp add: powi_nat)
    finally have "ulp (of_int m) = of_int (2 ^ nat ?k)" .
    with f False show ?thesis
      using rhe_ratio [of "2 ^ nat ?k" m] by (simp add: rnd_def Let_def)
  qed
qed (simp add: bits.simps)

lemma rnd_dy_exact: "\<bar>m\<bar> < 2 ^ 53 \<Longrightarrow> rnd (dy m e) = dy m e"
  by (simp add: dy_def rnd_scale rnd_of_int)

lemma rnd_rnd_pos:
  assumes "0 < x"
  shows "rnd (rnd x) = rnd x"
proof -
  let ?k = "rhe (x / ulp x)" and ?e = "ilog2 x - 52"
  have u: "ulp x = 2 powi ?e" using assms by (simp add: ulp_def)
  have r: "rnd x = dy ?k ?e" using assms by (simp add: rnd_def dy_def u)
  have "(2 :: rat) powi (ilog2 x + 1) = of_int (2 ^ 53) * 2 powi ?e"
    using powi_shift [of 53 "ilog2 x + 1"] by simp
  then have "of_int ?k * (2 :: rat) powi ?e \<le> of_int (2 ^ 53) * 2 powi ?e"
    using rnd_between(2) [OF assms] r by (simp add: dy_def)
  then have "?k \<le> 2 ^ 53" by (simp only: mult_le_cancel_right_pos [OF powi_pos] of_int_le_iff)
  moreover have "0 \<le> ?k" using rhe_ge [of 0 "x / ulp x"] assms by (simp add: less_imp_le)
  ultimately consider "?k = 2 ^ 53" | "\<bar>?k\<bar> < 2 ^ 53" by linarith
  then show ?thesis
  proof cases
    case 1
    then have "rnd x = 2 powi (ilog2 x + 1)"
      using powi_shift [of 53 "ilog2 x + 1"] by (simp add: r dy_def)
    then show ?thesis by (simp add: rnd_powi)
  next
    case 2
    then show ?thesis by (simp add: r rnd_dy_exact)
  qed
qed

lemma is_float_rnd [simp]: "is_float (rnd x)"
proof -
  consider "0 < x" | "x = 0" | "0 < - x" by linarith
  then show ?thesis
  proof cases
    case 3
    then have "rnd (rnd (- x)) = rnd (- x)" by (rule rnd_rnd_pos)
    then show ?thesis by (simp add: is_float_def rnd_uminus)
  qed (simp_all add: is_float_def rnd_rnd_pos)
qed

lemma is_float_of_int: "\<bar>n\<bar> < 2 ^ 53 \<Longrightarrow> is_float (of_int n)"
  by (simp add: is_float_def rnd_of_int)

definition round_dy :: "int \<Rightarrow> int \<Rightarrow> rat" where
  "round_dy m e = rnd (dy m e)"

lemma round_dy_eval [float_eval]:
  "round_dy m e = (let k = bits \<bar>m\<bar> - 53 in
     if k \<le> 0 then dy m e else dy (rhe_div m (2 ^ nat k)) (e + k))"
proof -
  have "(2 :: rat) ^ nat k * 2 powi e = 2 powi (e + k)" if "0 < k" for k
    using that by (simp add: power_int_add powi_nat flip: mult.commute)
  then show ?thesis
    by (simp add: round_dy_def dy_def rnd_scale rnd_of_int_eval Let_def mult.assoc)
qed

lemma dy_align: "e \<le> f \<Longrightarrow> dy n f = dy (n * 2 ^ nat (f - e)) e"
  by (simp add: dy_def powi_nat [symmetric] flip: power_int_add)

lemma dy_add_same: "dy m e + dy n e = dy (m + n) e"
  by (simp add: dy_def algebra_simps)

lemma dy_minus: "- dy m e = dy (- m) e"
  by (simp add: dy_def)

lemma dy_neg: "dy m e < 0 \<longleftrightarrow> m < 0"
proof -
  have "\<not> (2 :: rat) powi e < 0" using powi_pos [of e] by linarith
  then show ?thesis by (simp add: dy_def mult_less_0_iff)
qed

lemma dy_plus: "dy m e + dy n f =
    (if e \<le> f then dy (m + n * 2 ^ nat (f - e)) e else dy (m * 2 ^ nat (e - f) + n) f)"
  using dy_align [of e f n] dy_align [of f e m] by (simp add: dy_add_same)

lemma fadd_dy [float_eval]: "fadd (dy m e) (dy n f) =
    (if e \<le> f then round_dy (m + n * 2 ^ nat (f - e)) e else round_dy (m * 2 ^ nat (e - f) + n) f)"
  by (simp add: fadd_def dy_plus round_dy_def)

lemma fsub_dy [float_eval]: "fsub (dy m e) (dy n f) = fadd (dy m e) (dy (- n) f)"
  by (simp add: fsub_def fadd_def flip: dy_minus)

lemma fmul_dy [float_eval]: "fmul (dy m e) (dy n f) = round_dy (m * n) (e + f)"
  by (simp add: fmul_def round_dy_def dy_def power_int_add mult.assoc mult.left_commute)

lemma float_of_int_dy [float_eval]: "float_of_int m = round_dy m 0"
  by (simp add: float_of_int_def round_dy_def dy_def)

lemma dy_le_same: "dy m e \<le> dy n e \<longleftrightarrow> m \<le> n"
  by (simp add: dy_def)

lemma dy_le [float_eval]: "dy m e \<le> dy n f \<longleftrightarrow>
    (if e \<le> f then m \<le> n * 2 ^ nat (f - e) else m * 2 ^ nat (e - f) \<le> n)"
  using dy_align [of e f n] dy_align [of f e m] by (simp add: dy_le_same)

lemma dy_less [float_eval]: "dy m e < dy n f \<longleftrightarrow>
    (if e \<le> f then m < n * 2 ^ nat (f - e) else m * 2 ^ nat (e - f) < n)"
  using dy_le [of n f m e] by (auto simp: not_le [symmetric])

text \<open>A ratio of integers, as the decimal constants of the source are.\<close>

definition ratio :: "int \<Rightarrow> int \<Rightarrow> rat" where
  "ratio n d = of_int n / of_int d"

lemma ratio_test:
  assumes "0 < d"
  shows "2 powi k \<le> ratio n d \<longleftrightarrow>
    (if 0 \<le> k then 2 ^ nat k * d \<le> n else d \<le> n * 2 ^ nat (- k))"
proof (cases "0 \<le> k")
  case True
  have "(2 ^ nat k * of_int d \<le> (of_int n :: rat)) = (of_int (2 ^ nat k * d) \<le> (of_int n :: rat))"
    by simp
  with True assms show ?thesis
    unfolding of_int_le_iff by (simp add: ratio_def powi_nat pos_le_divide_eq)
next
  case False
  then have k: "(2 :: rat) powi k = 1 / 2 ^ nat (- k)"
    by (simp add: power_int_def power_one_over inverse_eq_divide)
  have d: "0 < (of_int d :: rat)" using assms by simp
  have "2 powi k \<le> ratio n d \<longleftrightarrow> (of_int d :: rat) \<le> of_int n * 2 ^ nat (- k)"
    unfolding k ratio_def using d by (simp add: divide_le_eq le_divide_eq)
  also have "\<dots> \<longleftrightarrow> of_int d \<le> (of_int (n * 2 ^ nat (- k)) :: rat)"
    by simp
  finally show ?thesis using False by (simp only: of_int_le_iff if_False)
qed

lemma rnd_ratio_eval [float_eval]:
  assumes "0 < n" "0 < d"
  shows "rnd (ratio n d) =
    (let k = bits n - bits d;
         e = (if (if 0 \<le> k then 2 ^ nat k * d \<le> n else d \<le> n * 2 ^ nat (- k)) then k else k - 1);
         s = 52 - e
     in if 0 \<le> s then dy (rhe_div (n * 2 ^ nat s) d) (- s)
        else dy (rhe_div n (d * 2 ^ nat (- s))) (- s))"
proof -
  define k where "k = bits n - bits d"
  define e where "e = (if 2 powi k \<le> ratio n d then k else k - 1)"
  define s where "s = 52 - e"
  have pos: "0 < ratio n d" using assms by (simp add: ratio_def)
  have "ilog2 (ratio n d) = e"
    using ratio_bounds [OF assms] unfolding e_def k_def ratio_def [symmetric]
    by (auto intro!: ilog2_eqI)
  then have u: "ulp (ratio n d) = 2 powi (- s)" using pos by (simp add: ulp_def s_def)
  have q: "ratio n d / ulp (ratio n d) =
      (if 0 \<le> s then of_int (n * 2 ^ nat s) / of_int d else of_int n / of_int (d * 2 ^ nat (- s)))"
  proof (cases "0 \<le> s")
    case True
    have "(2 :: rat) powi (- s) * 2 ^ nat s = 1"
      using True power_int_add [of "2 :: rat" "- s" s] by (simp add: powi_nat)
    then have "x / 2 powi (- s) = x * 2 ^ nat s" for x :: rat
      by (simp add: field_simps)
    with True show ?thesis unfolding u by (simp add: ratio_def)
  next
    case False
    then show ?thesis unfolding u by (simp add: ratio_def powi_nat)
  qed
  have "rnd (ratio n d) = dy (rhe (ratio n d / ulp (ratio n d))) (- s)"
    using pos by (simp add: rnd_def dy_def u)
  also have "\<dots> = (if 0 \<le> s then dy (rhe_div (n * 2 ^ nat s) d) (- s)
      else dy (rhe_div n (d * 2 ^ nat (- s))) (- s))"
    using assms unfolding q by (cases "0 \<le> s") (simp_all only: if_True if_False rhe_ratio
        zero_less_mult_iff zero_less_power zero_less_numeral simp_thms)
  finally show ?thesis
    using assms by (simp only: Let_def s_def e_def k_def ratio_test)
qed

lemma rnd_numerals [float_eval]:
  "rnd (numeral a / numeral b) = rnd (ratio (numeral a) (numeral b))"
  "rnd (1 / numeral b) = rnd (ratio 1 (numeral b))"
  "rnd (numeral a) = round_dy (numeral a) 0"
  by (simp_all add: ratio_def round_dy_def dy_def)

text \<open>Bit lengths of numerals, by the shape of the numeral.\<close>

lemma bits_numeral [float_eval]:
  "bits 0 = 0" "bits 1 = 1" "bits (numeral Num.One) = 1"
  "bits (numeral (Num.Bit0 k)) = 1 + bits (numeral k)"
  "bits (numeral (Num.Bit1 k)) = 1 + bits (numeral k)"
  by (simp_all add: bits.simps [of 0] bits.simps [of 1] bits.simps [of "numeral (Num.Bit0 k)"]
      bits.simps [of "numeral (Num.Bit1 k)"])

text \<open>\<^verbatim>\<open>math.Round\<close> followed by the conversion to an integer.\<close>

lemma round_away_dy [float_eval]:
  "round_away (dy m e) = (if m < 0 then - round_away (dy (- m) e)
     else if 0 \<le> e then dy m e else dy ((2 * m + 2 ^ nat (- e)) div (2 * 2 ^ nat (- e))) 0)"
proof -
  have half: "\<lfloor>dy m e + 1 / 2\<rfloor> = (2 * m + 2 ^ nat (- e)) div (2 * 2 ^ nat (- e))" if "e < 0"
  proof -
    have "dy m e = of_int m / 2 ^ nat (- e)"
      using that by (simp add: dy_def power_int_def power_one_over inverse_eq_divide)
    then have "dy m e + 1 / 2 = of_int (2 * m + 2 ^ nat (- e)) / of_int (2 * 2 ^ nat (- e))"
      by (simp add: field_simps)
    then show ?thesis by (simp only: floor_divide_of_int_eq)
  qed
  have int: "\<lfloor>dy m e + 1 / 2\<rfloor> = m * 2 ^ nat e" if "0 \<le> e"
  proof -
    have "dy m e = of_int (m * 2 ^ nat e)" using that by (simp add: dy_def powi_nat)
    then show ?thesis by linarith
  qed
  note neg = dy_neg [of m e]
  show ?thesis
  proof (cases "m < 0")
    case True
    then have "\<not> dy (- m) e < 0" by (simp add: dy_neg)
    with True neg show ?thesis by (simp add: round_away_def flip: dy_minus)
  next
    case False
    then show ?thesis
      using neg half int by (auto simp: round_away_def dy_def powi_nat)
  qed
qed

lemma trunc_dy [float_eval]:
  "trunc (dy m e) = (if m < 0 then - trunc (dy (- m) e)
     else if 0 \<le> e then m * 2 ^ nat e else m div 2 ^ nat (- e))"
proof (cases "m < 0")
  case True
  then have "dy m e < 0" "\<not> dy (- m) e < 0" by (simp_all add: dy_neg)
  with True show ?thesis by (simp add: trunc_def dy_minus)
next
  case False
  then have nonneg: "\<not> dy m e < 0" by (simp add: dy_neg)
  show ?thesis
  proof (cases "0 \<le> e")
    case True
    then have "dy m e = of_int (m * 2 ^ nat e)" by (simp add: dy_def powi_nat)
    with True False nonneg show ?thesis by (simp add: trunc_def del: of_int_mult of_int_power)
  next
    case f: False
    then have "dy m e = of_int m / of_int (2 ^ nat (- e))"
      by (simp add: dy_def power_int_def power_one_over inverse_eq_divide)
    then have "\<lfloor>dy m e\<rfloor> = m div 2 ^ nat (- e)" by (simp only: floor_divide_of_int_eq)
    with f False nonneg show ?thesis by (simp add: trunc_def)
  qed
qed

lemma int_of_float_dy [float_eval]:
  "int_of_float (dy m e) = (let t = trunc (dy m e) in if in_i64 t then t else - (2 ^ 63))"
  by (simp add: int_of_float_def Let_def)

lemmas float_eval_helpers [float_eval] = Let_def rhe_div_def in_i64_def dy_minus

end
