(* ===== verification/Utf8.thy ===== *)
theory Utf8
  imports Prelude
begin

text \<open>
  UTF-8 as Go reads and writes it: \<^verbatim>\<open>for _, r := range s\<close>, \<^verbatim>\<open>[]rune(s)\<close>,
  \<^verbatim>\<open>utf8.RuneCountInString\<close> and \<^verbatim>\<open>string([]rune)\<close>.  An ill-formed byte decodes to U+FFFD and
  advances by one byte; a code point that is not a scalar value is written as U+FFFD.
\<close>

named_theorems utf8_simps \<open>evaluation of the decoder on encoded text\<close>

definition byte :: "char \<Rightarrow> int" where
  "byte c = of_char c"

definition chr :: "int \<Rightarrow> char" where
  "chr n = char_of n"

lemma byte_chr [simp]: "0 \<le> n \<Longrightarrow> n < 256 \<Longrightarrow> byte (chr n) = n"
  by (simp add: byte_def chr_def)

lemma chr_byte [simp]: "chr (byte c) = c"
  by (simp add: byte_def chr_def)

lemma byte_range: "0 \<le> byte c \<and> byte c < 256"
  unfolding byte_def
  by (metis Euclidean_Rings.pos_mod_bound Euclidean_Rings.pos_mod_sign of_char_mod_256
      zero_less_numeral)

lemma byte_inject [simp]: "byte c = byte d \<longleftrightarrow> c = d"
  by (metis chr_byte)

definition rune_error :: int where
  "rune_error = 0xFFFD"

definition scalar :: "int \<Rightarrow> bool" where
  "scalar r \<longleftrightarrow> 0 \<le> r \<and> r < 0x110000 \<and> \<not> (0xD800 \<le> r \<and> r < 0xE000)"

definition cont :: "char \<Rightarrow> bool" where
  "cont c \<longleftrightarrow> 0x80 \<le> byte c \<and> byte c < 0xC0"

text \<open>One step of the decoder: the code point and the bytes that remain.\<close>

fun decode_rune :: "char \<Rightarrow> string \<Rightarrow> int \<times> string" where
  "decode_rune c s =
     (let b = byte c in
      if b < 0x80 then (b, s)
      else if 0xC2 \<le> b \<and> b < 0xE0 then
        (case s of
           c1 # s1 \<Rightarrow> if cont c1 then ((b - 0xC0) * 0x40 + (byte c1 - 0x80), s1) else (rune_error, s)
         | _ \<Rightarrow> (rune_error, s))
      else if 0xE0 \<le> b \<and> b < 0xF0 then
        (case s of
           c1 # c2 # s2 \<Rightarrow>
             (let r = (b - 0xE0) * 0x1000 + (byte c1 - 0x80) * 0x40 + (byte c2 - 0x80)
              in if cont c1 \<and> cont c2 \<and> 0x800 \<le> r \<and> scalar r then (r, s2) else (rune_error, s))
         | _ \<Rightarrow> (rune_error, s))
      else if 0xF0 \<le> b \<and> b < 0xF5 then
        (case s of
           c1 # c2 # c3 # s3 \<Rightarrow>
             (let r = (b - 0xF0) * 0x40000 + (byte c1 - 0x80) * 0x1000
                      + (byte c2 - 0x80) * 0x40 + (byte c3 - 0x80)
              in if cont c1 \<and> cont c2 \<and> cont c3 \<and> 0x10000 \<le> r \<and> scalar r
                 then (r, s3) else (rune_error, s))
         | _ \<Rightarrow> (rune_error, s))
      else (rune_error, s))"

lemma decode_rune_shorter: "length (snd (decode_rune c s)) \<le> length s"
  by (auto simp: Let_def split: list.splits if_splits)

declare decode_rune.simps [simp del]

function runes :: "string \<Rightarrow> int list" where
  "runes [] = []"
| "runes (c # s) = fst (decode_rune c s) # runes (snd (decode_rune c s))"
  by pat_completeness auto
termination
  by (relation "measure length") (auto simp: le_imp_less_Suc decode_rune_shorter)

definition rune_count :: "string \<Rightarrow> nat" where
  "rune_count s = length (runes s)"

definition encode_rune :: "int \<Rightarrow> string" where
  "encode_rune r0 =
     (let r = (if scalar r0 then r0 else rune_error) in
      if r < 0x80 then [chr r]
      else if r < 0x800 then [chr (0xC0 + r div 0x40), chr (0x80 + r mod 0x40)]
      else if r < 0x10000 then
        [chr (0xE0 + r div 0x1000), chr (0x80 + r div 0x40 mod 0x40), chr (0x80 + r mod 0x40)]
      else
        [chr (0xF0 + r div 0x40000), chr (0x80 + r div 0x1000 mod 0x40),
         chr (0x80 + r div 0x40 mod 0x40), chr (0x80 + r mod 0x40)])"

definition of_runes :: "int list \<Rightarrow> string" where
  "of_runes rs = concat (map encode_rune rs)"

lemma of_runes_Nil [simp]: "of_runes [] = []"
  by (simp add: of_runes_def)

lemma of_runes_Cons [simp]: "of_runes (r # rs) = encode_rune r @ of_runes rs"
  by (simp add: of_runes_def)

lemma of_runes_append [simp]: "of_runes (rs @ qs) = of_runes rs @ of_runes qs"
  by (simp add: of_runes_def)

section \<open>Decoding what was encoded\<close>

lemma cont_chr [simp]: "0 \<le> x \<Longrightarrow> x < 0x40 \<Longrightarrow> cont (chr (0x80 + x))"
  by (simp add: cont_def)

lemma scalar_range: "scalar r \<Longrightarrow> 0 \<le> r \<and> r < 0x110000"
  by (simp add: scalar_def)

lemma div_mod_64:
  fixes r :: int
  shows "r div 0x40 * 0x40 + r mod 0x40 = r"
    and "r div 0x1000 * 0x40 + r div 0x40 mod 0x40 = r div 0x40"
    and "r div 0x40000 * 0x40 + r div 0x1000 mod 0x40 = r div 0x1000"
proof -
  show "r div 0x40 * 0x40 + r mod 0x40 = r" by simp
  have "r div 0x1000 = r div 0x40 div 0x40" by (simp flip: zdiv_zmult2_eq)
  then show "r div 0x1000 * 0x40 + r div 0x40 mod 0x40 = r div 0x40" by simp
  have "r div 0x40000 = r div 0x1000 div 0x40" by (simp flip: zdiv_zmult2_eq)
  then show "r div 0x40000 * 0x40 + r div 0x1000 mod 0x40 = r div 0x1000" by simp
qed

lemma runes_encode_1: "0 \<le> r \<Longrightarrow> r < 0x80 \<Longrightarrow> runes ([chr r] @ s) = r # runes s"
  by (simp add: decode_rune.simps)

lemma runes_encode_2:
  assumes "0x80 \<le> r" "r < 0x800"
  shows "runes ([chr (0xC0 + r div 0x40), chr (0x80 + r mod 0x40)] @ s) = r # runes s"
proof -
  have "2 \<le> r div 0x40" "r div 0x40 < 0x20" using assms by presburger+
  moreover have "0 \<le> r mod 0x40" "r mod 0x40 < 0x40" by simp_all
  moreover have "r div 0x40 * 0x40 + r mod 0x40 = r" by presburger
  ultimately show ?thesis by (simp add: decode_rune.simps Let_def)
qed

lemma runes_bytes_3:
  assumes "0 \<le> x" "x < 0x10" "0 \<le> y" "y < 0x40" "0 \<le> z" "z < 0x40"
    and "0x800 \<le> x * 0x1000 + y * 0x40 + z" "scalar (x * 0x1000 + y * 0x40 + z)"
  shows "runes (chr (0xE0 + x) # chr (0x80 + y) # chr (0x80 + z) # s)
    = (x * 0x1000 + y * 0x40 + z) # runes s"
  using assms by (simp add: decode_rune.simps Let_def)

lemma runes_bytes_4:
  assumes "0 \<le> w" "w < 5" "0 \<le> x" "x < 0x40" "0 \<le> y" "y < 0x40" "0 \<le> z" "z < 0x40"
    and "0x10000 \<le> w * 0x40000 + x * 0x1000 + y * 0x40 + z"
    and "scalar (w * 0x40000 + x * 0x1000 + y * 0x40 + z)"
  shows "runes (chr (0xF0 + w) # chr (0x80 + x) # chr (0x80 + y) # chr (0x80 + z) # s)
    = (w * 0x40000 + x * 0x1000 + y * 0x40 + z) # runes s"
  using assms by (simp add: decode_rune.simps Let_def add.assoc)

lemma radix_64_3: "x * 0x40 + y = u \<Longrightarrow> u * 0x40 + z = r \<Longrightarrow>
    x * 0x1000 + y * 0x40 + z = (r :: int)"
  by simp

lemma radix_64_4: "w * 0x40 + x = v \<Longrightarrow> v * 0x40 + y = u \<Longrightarrow> u * 0x40 + z = r \<Longrightarrow>
    w * 0x40000 + x * 0x1000 + y * 0x40 + z = (r :: int)"
  by simp

lemma mod_64_bounds: "0 \<le> (x :: int) mod 0x40" "x mod 0x40 < 0x40"
  by simp_all

lemma runes_encode_3:
  assumes "0x800 \<le> r" "r < 0x10000" "scalar r"
  shows "runes ([chr (0xE0 + r div 0x1000), chr (0x80 + r div 0x40 mod 0x40),
      chr (0x80 + r mod 0x40)] @ s) = r # runes s"
proof -
  have eq: "r div 0x1000 * 0x1000 + r div 0x40 mod 0x40 * 0x40 + r mod 0x40 = r"
    by (rule radix_64_3 [OF div_mod_64(2,1)])
  have bounds: "0 \<le> r div 0x1000" "r div 0x1000 < 0x10"
    using assms by (simp_all add: div_less_iff_less_mult pos_imp_zdiv_nonneg_iff)
  have "runes (chr (0xE0 + r div 0x1000) # chr (0x80 + r div 0x40 mod 0x40)
      # chr (0x80 + r mod 0x40) # s)
    = (r div 0x1000 * 0x1000 + r div 0x40 mod 0x40 * 0x40 + r mod 0x40) # runes s"
    by (rule runes_bytes_3) (simp_all only: eq assms bounds mod_64_bounds)
  then show ?thesis by (simp only: eq append.simps)
qed

lemma runes_encode_4:
  assumes "0x10000 \<le> r" "scalar r"
  shows "runes ([chr (0xF0 + r div 0x40000), chr (0x80 + r div 0x1000 mod 0x40),
      chr (0x80 + r div 0x40 mod 0x40), chr (0x80 + r mod 0x40)] @ s) = r # runes s"
proof -
  have eq: "r div 0x40000 * 0x40000 + r div 0x1000 mod 0x40 * 0x1000
      + r div 0x40 mod 0x40 * 0x40 + r mod 0x40 = r"
    by (rule radix_64_4 [OF div_mod_64(3,2,1)])
  have bounds: "0 \<le> r div 0x40000" "r div 0x40000 < 5"
    using assms scalar_range [of r]
    by (simp_all add: div_less_iff_less_mult pos_imp_zdiv_nonneg_iff)
  have "runes (chr (0xF0 + r div 0x40000) # chr (0x80 + r div 0x1000 mod 0x40)
      # chr (0x80 + r div 0x40 mod 0x40) # chr (0x80 + r mod 0x40) # s)
    = (r div 0x40000 * 0x40000 + r div 0x1000 mod 0x40 * 0x1000
      + r div 0x40 mod 0x40 * 0x40 + r mod 0x40) # runes s"
    by (rule runes_bytes_4) (simp_all only: eq assms bounds mod_64_bounds)
  then show ?thesis by (simp only: eq append.simps)
qed

lemma runes_encode_rune: "scalar r \<Longrightarrow> runes (encode_rune r @ s) = r # runes s"
  using runes_encode_1 [of r s] runes_encode_2 [of r s] runes_encode_3 [of r s]
    runes_encode_4 [of r s]
  by (auto simp: encode_rune_def Let_def scalar_range simp del: runes.simps append.simps)

lemma runes_of_runes_append:
  "list_all scalar rs \<Longrightarrow> runes (of_runes rs @ s) = rs @ runes s"
  by (induction rs) (simp_all add: runes_encode_rune)

lemma runes_of_runes [utf8_simps]: "list_all scalar rs \<Longrightarrow> runes (of_runes rs) = rs"
  using runes_of_runes_append [of rs "[]"] by simp

lemma of_runes_inject:
  "list_all scalar rs \<Longrightarrow> list_all scalar qs \<Longrightarrow> of_runes rs = of_runes qs \<longleftrightarrow> rs = qs"
  by (metis runes_of_runes)

section \<open>Every decoded code point is a scalar value\<close>

lemma scalar_rune_error [simp]: "scalar rune_error"
  by (simp add: scalar_def rune_error_def)

lemma decode_rune_scalar: "scalar (fst (decode_rune c s))"
proof -
  consider (ascii) "byte c < 0x80" | (two) "0xC2 \<le> byte c" "byte c < 0xE0"
    | (other) "\<not> byte c < 0x80" "\<not> (0xC2 \<le> byte c \<and> byte c < 0xE0)"
    by linarith
  then show ?thesis
  proof cases
    case ascii
    then show ?thesis using byte_range [of c]
      by (simp add: decode_rune.simps scalar_def)
  next
    case two
    have "scalar ((byte c - 0xC0) * 0x40 + (byte d - 0x80))" if "cont d" for d
      using two that by (simp add: scalar_def cont_def)
    with two show ?thesis by (simp add: decode_rune.simps Let_def split: list.split)
  next
    case other
    then show ?thesis
      by (simp only: decode_rune.simps Let_def if_False)
        (auto split: list.split if_split)
  qed
qed

lemma runes_scalar: "list_all scalar (runes s)"
  by (induction s rule: runes.induct) (simp_all add: decode_rune_scalar)

lemma runes_of_runes_runes [simp]: "runes (of_runes (runes s)) = runes s"
  by (simp add: runes_of_runes runes_scalar)

text \<open>ASCII text is its own code points.\<close>

lemma runes_ascii: "(\<forall>c\<in>set s. byte c < 0x80) \<Longrightarrow> runes s = map byte s"
  by (induction s) (simp_all add: decode_rune.simps Let_def)

end
