(* ===== verification/GoText.thy ===== *)
theory GoText
  imports Utf8
begin

text \<open>
  The parts of Go's \<^verbatim>\<open>strings\<close>, \<^verbatim>\<open>strconv\<close>, \<^verbatim>\<open>encoding/hex\<close> and \<^verbatim>\<open>encoding/base64\<close> packages
  that the program uses, with the laws its components rely on: decimal text and base64 text
  read back to what was written, splitting undoes joining.
\<close>

section \<open>strings\<close>

text \<open>The decoded code points of a string, each with the bytes it was decoded from.\<close>

function segs :: "string \<Rightarrow> (int \<times> string) list" where
  "segs [] = []"
| "segs (c # s) =
     (fst (decode_rune c s), take (Suc (length s) - length (snd (decode_rune c s))) (c # s))
       # segs (snd (decode_rune c s))"
  by pat_completeness auto
termination
  by (relation "measure length") (auto simp: le_imp_less_Suc decode_rune_shorter)

lemma map_fst_segs: "map fst (segs s) = runes s"
  by (induction s rule: runes.induct) simp_all

lemma decode_rune_suffix: "\<exists>p. s = p @ snd (decode_rune c s)"
  by (auto simp: decode_rune.simps Let_def split: list.splits)

lemma concat_segs: "concat (map snd (segs s)) = s"
proof (induction s rule: segs.induct)
  case (2 c s)
  obtain p where p: "s = p @ snd (decode_rune c s)" using decode_rune_suffix by blast
  then have "take (length s - length (snd (decode_rune c s))) s = p"
    by (metis append_eq_conv_conj diff_add_inverse2 length_append)
  moreover have "Suc (length s) - length (snd (decode_rune c s))
      = Suc (length s - length (snd (decode_rune c s)))"
    by (simp add: Suc_diff_le decode_rune_shorter)
  ultimately show ?case using 2 p by simp
qed simp

text \<open>\<^verbatim>\<open>unicode.IsSpace\<close>\<close>

definition is_space :: "int \<Rightarrow> bool" where
  "is_space r \<longleftrightarrow> (0x09 \<le> r \<and> r \<le> 0x0D) \<or> r = 0x20 \<or> r = 0x85 \<or> r = 0xA0 \<or> r = 0x1680
     \<or> (0x2000 \<le> r \<and> r \<le> 0x200A) \<or> r = 0x2028 \<or> r = 0x2029 \<or> r = 0x202F \<or> r = 0x205F
     \<or> r = 0x3000"

definition trim_space :: "string \<Rightarrow> string" where
  "trim_space s = concat (map snd
     (rev (dropWhile (is_space \<circ> fst) (rev (dropWhile (is_space \<circ> fst) (segs s))))))"

definition has_prefix :: "string \<Rightarrow> string \<Rightarrow> bool" where
  "has_prefix s p \<longleftrightarrow> take (length p) s = p"

definition has_suffix :: "string \<Rightarrow> string \<Rightarrow> bool" where
  "has_suffix s p \<longleftrightarrow> length p \<le> length s \<and> drop (length s - length p) s = p"

text \<open>The text of \<^verbatim>\<open>%q\<close> is not interpreted by the program; it is written without escapes here.\<close>

definition quoted :: "string \<Rightarrow> string" where
  "quoted s = CHR 0x22 # s @ [CHR 0x22]"

definition trim_prefix :: "string \<Rightarrow> string \<Rightarrow> string" where
  "trim_prefix s p = (if has_prefix s p then drop (length p) s else s)"

fun contains :: "string \<Rightarrow> string \<Rightarrow> bool" where
  "contains [] p = (p = [])"
| "contains (c # s) p = (has_prefix (c # s) p \<or> contains s p)"

text \<open>\<^verbatim>\<open>strings.Split\<close> and \<^verbatim>\<open>strings.Cut\<close> at a separator of one byte.\<close>

fun split_at :: "char \<Rightarrow> string \<Rightarrow> string list" where
  "split_at c [] = [[]]"
| "split_at c (x # s) =
     (if x = c then [] # split_at c s
      else (case split_at c s of w # ws \<Rightarrow> (x # w) # ws | [] \<Rightarrow> [[x]]))"

fun cut_at :: "char \<Rightarrow> string \<Rightarrow> (string \<times> string) option" where
  "cut_at c [] = None"
| "cut_at c (x # s) =
     (if x = c then Some ([], s)
      else map_option (\<lambda>(a, b). (x # a, b)) (cut_at c s))"

text \<open>\<^verbatim>\<open>strings.IndexByte\<close> and \<^verbatim>\<open>strings.LastIndexByte\<close>, -1 when the byte does not occur.\<close>

fun index_byte :: "string \<Rightarrow> char \<Rightarrow> int" where
  "index_byte [] c = -1"
| "index_byte (x # s) c =
     (if x = c then 0 else let i = index_byte s c in if i < 0 then -1 else i + 1)"

fun last_index_byte :: "string \<Rightarrow> char \<Rightarrow> int" where
  "last_index_byte [] c = -1"
| "last_index_byte (x # s) c =
     (let i = last_index_byte s c in if 0 \<le> i then i + 1 else if x = c then 0 else -1)"

fun join :: "string \<Rightarrow> string list \<Rightarrow> string" where
  "join sep [] = []"
| "join sep [w] = w"
| "join sep (w # v # ws) = w @ sep @ join sep (v # ws)"

lemma split_at_nonempty [simp]: "split_at c s \<noteq> []"
  by (induction s) (auto split: list.splits)

lemma split_at_append: "c \<notin> set w \<Longrightarrow> split_at c (w @ c # s) = w # split_at c s"
  by (induction w) auto

lemma split_at_id: "c \<notin> set w \<Longrightarrow> split_at c w = [w]"
  by (induction w) auto

lemma split_at_join:
  "ws \<noteq> [] \<Longrightarrow> \<forall>w\<in>set ws. c \<notin> set w \<Longrightarrow> split_at c (join [c] ws) = ws"
  by (induction "[c]" ws rule: join.induct) (auto simp: split_at_id split_at_append)

lemma split_at_no_sep: "w \<in> set (split_at c s) \<Longrightarrow> c \<notin> set w"
  by (induction s arbitrary: w) (auto split: if_splits list.splits)

lemma join_split_at: "join [c] (split_at c s) = s"
proof (induction s)
  case (Cons x s)
  obtain w ws where "split_at c s = w # ws" by (meson list.exhaust split_at_nonempty)
  with Cons show ?case by (cases ws) auto
qed simp

lemma cut_at_append: "c \<notin> set w \<Longrightarrow> cut_at c (w @ c # s) = Some (w, s)"
  by (induction w) auto

lemma cut_at_Some: "cut_at c s = Some (a, b) \<Longrightarrow> s = a @ c # b \<and> c \<notin> set a"
  by (induction s arbitrary: a) (auto split: if_splits)

lemma has_prefix_append [simp]: "has_prefix (p @ s) p"
  by (simp add: has_prefix_def)

lemma trim_prefix_append [simp]: "trim_prefix (p @ s) p = s"
  by (simp add: trim_prefix_def)

lemma has_prefix_iff: "has_prefix s p \<longleftrightarrow> (\<exists>t. s = p @ t)"
  by (metis append_eq_conv_conj append_take_drop_id has_prefix_def)

lemma contains_Nil [simp]: "contains s []"
  by (cases s) (simp_all add: has_prefix_def)

lemma contains_prefix: "contains (p @ b) p"
  by (cases p) (auto simp: has_prefix_iff)

lemma contains_append: "contains (a @ p @ b) p"
  by (induction a) (simp_all add: contains_prefix)

section \<open>strconv\<close>

text \<open>Decimal digits, and \<^verbatim>\<open>strconv.Itoa\<close> / \<^verbatim>\<open>FormatInt(n, 10)\<close>.\<close>

definition digit :: "int \<Rightarrow> char" where
  "digit d = chr (0x30 + d)"

definition is_digit :: "char \<Rightarrow> bool" where
  "is_digit c \<longleftrightarrow> 0x30 \<le> byte c \<and> byte c \<le> 0x39"

definition digit_val :: "char \<Rightarrow> int" where
  "digit_val c = byte c - 0x30"

function digits :: "int \<Rightarrow> string" where
  "digits n = (if n \<le> 0 then [] else digits (n div 10) @ [digit (n mod 10)])"
  by pat_completeness auto
termination
  by (relation "measure nat") auto

declare digits.simps [simp del]

definition itoa :: "int \<Rightarrow> string" where
  "itoa n = (if n = 0 then ''0'' else if n < 0 then CHR ''-'' # digits (- n)
     else digits n)"

text \<open>
  \<^verbatim>\<open>strconv.ParseInt(s, 10, 64)\<close> returns a value and an error: 0 on a syntax error, the
  nearest representable value on a range error.  \<^verbatim>\<open>strconv.Atoi\<close> is the same on a 64-bit
  platform.
\<close>

definition digits_value :: "string \<Rightarrow> int" where
  "digits_value s = foldl (\<lambda>v c. 10 * v + digit_val c) 0 s"

definition err_syntax :: gerror where "err_syntax = ErrText ''strconv: invalid syntax''"
definition err_range :: gerror where "err_range = ErrText ''strconv: value out of range''"

definition parse_int :: "string \<Rightarrow> int \<times> gerror option" where
  "parse_int s =
     (let neg = (case s of c # _ \<Rightarrow> c = CHR ''-'' | [] \<Rightarrow> False);
          ds = (case s of c # t \<Rightarrow> if c = CHR ''-'' \<or> c = CHR ''+'' then t else s | [] \<Rightarrow> s);
          v = digits_value ds
      in if ds = [] \<or> \<not> list_all is_digit ds then (0, Some err_syntax)
         else if neg then (if v \<le> 2 ^ 63 then (- v, None) else (- (2 ^ 63), Some err_range))
         else if v < 2 ^ 63 then (v, None) else (2 ^ 63 - 1, Some err_range))"

definition atoi :: "string \<Rightarrow> int res" where
  "atoi s = (case parse_int s of (v, None) \<Rightarrow> Inr v | (_, Some e) \<Rightarrow> Inl e)"

lemma digit_props [simp]:
  assumes "0 \<le> d" "d < 10"
  shows "is_digit (digit d)" and "digit_val (digit d) = d"
  using assms by (simp_all add: is_digit_def digit_def digit_val_def)

lemma digits_value_snoc [simp]: "digits_value (s @ [c]) = 10 * digits_value s + digit_val c"
  by (simp add: digits_value_def)

lemma digits_value_digits: "0 \<le> n \<Longrightarrow> digits_value (digits n) = n"
proof (induction n rule: digits.induct)
  case (1 n)
  show ?case
  proof (cases "n = 0")
    case True
    then show ?thesis by (simp add: digits.simps digits_value_def)
  next
    case False
    with 1 have "digits_value (digits (n div 10)) = n div 10" by simp
    with False "1.prems" show ?thesis by (simp add: digits.simps [of n])
  qed
qed

lemma list_all_digits: "list_all is_digit (digits n)"
  by (induction n rule: digits.induct) (subst digits.simps, simp)

lemma digits_nonempty: "0 < n \<Longrightarrow> digits n \<noteq> []"
  by (subst digits.simps) simp

lemma is_digit_not_sign: "is_digit c \<Longrightarrow> c \<noteq> CHR ''-'' \<and> c \<noteq> CHR ''+''"
  by (auto simp: is_digit_def byte_def)

lemma digits_cases:
  assumes "0 < n"
  obtains c t where "digits n = c # t" "c \<noteq> CHR ''-''" "c \<noteq> CHR ''+''"
  using digits_nonempty [OF assms] list_all_digits [of n] is_digit_not_sign
  by (cases "digits n") auto

lemma parse_int_digits:
  assumes "0 < n"
  shows "parse_int (digits n) = (if n < 2 ^ 63 then (n, None) else (2 ^ 63 - 1, Some err_range))"
proof -
  obtain c t where ct: "digits n = c # t" "c \<noteq> CHR ''-''" "c \<noteq> CHR ''+''"
    using digits_cases [OF assms] .
  have "digits_value (c # t) = n" "list_all is_digit (c # t)"
    using digits_value_digits [of n] list_all_digits [of n] assms ct by simp_all
  with ct show ?thesis by (simp add: parse_int_def Let_def)
qed

lemma parse_int_neg_digits:
  assumes "0 < n" "n \<le> 2 ^ 63"
  shows "parse_int (CHR ''-'' # digits n) = (- n, None)"
  using assms digits_nonempty [of n] list_all_digits [of n] digits_value_digits [of n]
  by (simp add: parse_int_def Let_def)

lemma parse_int_itoa: "in_i64 n \<Longrightarrow> parse_int (itoa n) = (n, None)"
proof -
  assume n: "in_i64 n"
  consider "n = 0" | "0 < n" | "n < 0" by linarith
  then show ?thesis
  proof cases
    case 1
    then show ?thesis
      by (simp add: itoa_def parse_int_def is_digit_def digits_value_def digit_val_def byte_def)
  next
    case 2
    with n show ?thesis by (simp add: itoa_def parse_int_digits in_i64_def)
  next
    case 3
    with n show ?thesis using parse_int_neg_digits [of "- n"] by (simp add: itoa_def in_i64_def)
  qed
qed

lemma atoi_itoa: "in_i64 n \<Longrightarrow> atoi (itoa n) = Inr n"
  by (simp add: atoi_def parse_int_itoa)

lemma atoi_range: "atoi s = Inr n \<Longrightarrow> in_i64 n"
proof -
  have nn: "0 \<le> digits_value ds" if "list_all is_digit ds" for ds
    using that
    by (induction ds rule: rev_induct) (auto simp: digits_value_def is_digit_def digit_val_def)
  have nn': "- 9223372036854775808 \<le> digits_value (x # ds)"
    if "list_all is_digit ds" "is_digit x" for x ds
    using nn [of "x # ds"] that by simp
  show "in_i64 n" if "atoi s = Inr n"
    using that
    by (auto simp: atoi_def parse_int_def Let_def in_i64_def split: if_splits list.splits
        dest: nn nn')
qed

text \<open>Decimal text has no byte but digits and a sign.\<close>

lemma itoa_chars: "c \<in> set (itoa n) \<Longrightarrow> is_digit c \<or> c = CHR ''-''"
  using list_all_digits [of n] list_all_digits [of "- n"]
  by (auto simp: itoa_def list_all_iff is_digit_def byte_def split: if_splits)

lemma itoa_inject: "in_i64 m \<Longrightarrow> in_i64 n \<Longrightarrow> itoa m = itoa n \<longleftrightarrow> m = n"
  by (metis atoi_itoa sum.inject(2))

section \<open>encoding/hex\<close>

definition hex_digit :: "int \<Rightarrow> char" where
  "hex_digit d = (if d < 10 then chr (0x30 + d) else chr (0x57 + d))"

definition hex_val :: "char \<Rightarrow> int option" where
  "hex_val c = (let b = byte c in
     if 0x30 \<le> b \<and> b \<le> 0x39 then Some (b - 0x30)
     else if 0x61 \<le> b \<and> b \<le> 0x66 then Some (b - 0x57)
     else if 0x41 \<le> b \<and> b \<le> 0x46 then Some (b - 0x37) else None)"

definition hex_encode :: "string \<Rightarrow> string" where
  "hex_encode s = concat (map (\<lambda>c. [hex_digit (byte c div 16), hex_digit (byte c mod 16)]) s)"

fun hex_decode :: "string \<Rightarrow> string res" where
  "hex_decode [] = Inr []"
| "hex_decode [c] = Inl (ErrText ''encoding/hex: odd length hex string'')"
| "hex_decode (c # d # s) =
     (case (hex_val c, hex_val d) of
        (Some h, Some l) \<Rightarrow>
          (case hex_decode s of Inl e \<Rightarrow> Inl e | Inr t \<Rightarrow> Inr (chr (h * 16 + l) # t))
      | _ \<Rightarrow> Inl (ErrText ''encoding/hex: invalid byte''))"

lemma hex_val_digit [simp]: "0 \<le> d \<Longrightarrow> d < 16 \<Longrightarrow> hex_val (hex_digit d) = Some d"
  by (auto simp: hex_val_def hex_digit_def Let_def)

lemma hex_decode_encode: "hex_decode (hex_encode s) = Inr s"
proof (induction s)
  case (Cons c s)
  have b: "0 \<le> byte c div 16" "byte c div 16 < 16"
    using byte_range [of c] zdiv_mono1 [of "byte c" 255 16]
    by (simp_all add: pos_imp_zdiv_nonneg_iff)
  have "chr (byte c div 16 * 16 + byte c mod 16) = c" by simp
  with Cons b show ?case by (simp add: hex_encode_def)
qed (simp add: hex_encode_def)

lemma length_hex_encode [simp]: "length (hex_encode s) = 2 * length s"
  by (induction s) (simp_all add: hex_encode_def)

lemma hex_encode_inject: "hex_encode s = hex_encode t \<longleftrightarrow> s = t"
  by (metis hex_decode_encode sum.inject(2))

end
