(* ===== verification/Domain.thy ===== *)
theory Domain
  imports Float64 GoText
begin

text \<open>
  The value objects of \<^verbatim>\<open>internal/domain\<close>.  A \<^verbatim>\<open>QuestionType\<close> and a \<^verbatim>\<open>QuizMode\<close> are strings,
  as in the code: requests and rows can hold any text.  A \<^verbatim>\<open>JournalEntry\<close> is a datatype, so that
  the order the grader sorts by can be its class order.
\<close>

section \<open>Question types and quiz modes\<close>

type_synonym question_type = string
type_synonym quiz_mode = string

definition qt_journal :: question_type where "qt_journal = ''journal''"
definition qt_ledger :: question_type where "qt_ledger = ''ledger''"
definition qt_subbook :: question_type where "qt_subbook = ''subbook''"
definition qt_trial_balance :: question_type where "qt_trial_balance = ''trial_balance''"
definition qt_worksheet :: question_type where "qt_worksheet = ''worksheet''"
definition qt_fs :: question_type where "qt_fs = ''fs''"
definition qt_slip :: question_type where "qt_slip = ''slip''"

lemmas qt_defs = qt_journal_def qt_ledger_def qt_subbook_def qt_trial_balance_def
  qt_worksheet_def qt_fs_def qt_slip_def

definition question_type_is_valid :: "question_type \<Rightarrow> bool" where
  "question_type_is_valid q \<longleftrightarrow> q = qt_journal \<or> q = qt_ledger \<or> q = qt_subbook
     \<or> q = qt_trial_balance \<or> q = qt_worksheet \<or> q = qt_fs \<or> q = qt_slip"

definition mode_srs :: quiz_mode where "mode_srs = ''srs''"
definition mode_sequential :: quiz_mode where "mode_sequential = ''sequential''"
definition mode_random :: quiz_mode where "mode_random = ''random''"

lemmas mode_defs = mode_srs_def mode_sequential_def mode_random_def

definition quiz_mode_is_valid :: "quiz_mode \<Rightarrow> bool" where
  "quiz_mode_is_valid m \<longleftrightarrow> m = mode_srs \<or> m = mode_sequential \<or> m = mode_random"

section \<open>Journal entries and their order\<close>

datatype journal_entry = JournalEntry (account: string) (amount: int)

text \<open>By account name, byte by byte, then by amount.\<close>

instantiation journal_entry :: linorder
begin

definition less_eq_journal_entry :: "journal_entry \<Rightarrow> journal_entry \<Rightarrow> bool" where
  "less_eq_journal_entry d e \<longleftrightarrow>
     (if account d \<noteq> account e then account d < account e else amount d \<le> amount e)"

definition less_journal_entry :: "journal_entry \<Rightarrow> journal_entry \<Rightarrow> bool" where
  "less_journal_entry d e \<longleftrightarrow>
     (if account d \<noteq> account e then account d < account e else amount d < amount e)"

instance
  by standard
    (auto simp: less_eq_journal_entry_def less_journal_entry_def journal_entry.expand
      split: if_splits)

end

record answer_payload =
  ans_type :: question_type
  ans_debits :: "journal_entry list"
  ans_credits :: "journal_entry list"
  ans_choice :: string
  ans_text :: string

definition empty_answer :: answer_payload where
  "empty_answer = \<lparr>ans_type = [], ans_debits = [], ans_credits = [], ans_choice = [], ans_text = []\<rparr>"

section \<open>Questions, topics and sets\<close>

record question =
  q_id :: int
  q_code :: string
  q_topic_id :: int
  q_type :: question_type
  q_difficulty :: int
  q_prompt :: string
  q_payload_json :: string
  q_answer_json :: string
  q_explanation :: string
  q_references_json :: string
  q_created_at :: time

record question_filter =
  qf_topic_codes :: "string list"
  qf_types :: "question_type list"
  qf_set_code :: string
  qf_limit :: int
  qf_offset :: int

record topic =
  t_id :: int
  t_code :: string
  t_name :: string
  t_ord :: int

definition topics :: "topic list" where
  "topics = [
   \<lparr>t_id = 1, t_code = ''basics'', t_name = of_runes [0x7C3F, 0x8A18, 0x306E, 0x57FA, 0x672C, 0x539F, 0x7406], t_ord = 1\<rparr>,
   \<lparr>t_id = 2, t_code = ''books_slips'', t_name = of_runes [0x5E33, 0x7C3F, 0x30FB, 0x4F1D, 0x7968, 0x30FB, 0x8A3C, 0x3072, 0x3087, 0x3046], t_ord = 2\<rparr>,
   \<lparr>t_id = 3, t_code = ''cash'', t_name = of_runes [0x73FE, 0x91D1, 0x9810, 0x91D1], t_ord = 3\<rparr>,
   \<lparr>t_id = 4, t_code = ''ar_ap'', t_name = of_runes [0x58F2, 0x639B, 0x91D1, 0x3068, 0x8CB7, 0x639B, 0x91D1], t_ord = 4\<rparr>,
   \<lparr>t_id = 5, t_code = ''other_claims'', t_name = of_runes [0x305D, 0x306E, 0x4ED6, 0x306E, 0x50B5, 0x6A29, 0x3068, 0x50B5, 0x52D9], t_ord = 5\<rparr>,
   \<lparr>t_id = 6, t_code = ''bills'', t_name = of_runes [0x624B, 0x5F62, 0x30FB, 0x96FB, 0x5B50, 0x8A18, 0x9332, 0x50B5, 0x6A29, 0x2F, 0x50B5, 0x52D9], t_ord = 6\<rparr>,
   \<lparr>t_id = 7, t_code = ''credit_ar'', t_name = of_runes [0x30AF, 0x30EC, 0x30B8, 0x30C3, 0x30C8, 0x58F2, 0x639B, 0x91D1], t_ord = 7\<rparr>,
   \<lparr>t_id = 8, t_code = ''allowance'', t_name = of_runes [0x8CB8, 0x5012, 0x5F15, 0x5F53, 0x91D1, 0x20, 0x28, 0x5B9F, 0x7E3E, 0x6CD5, 0x29], t_ord = 8\<rparr>,
   \<lparr>t_id = 9, t_code = ''merchandise'', t_name = of_runes [0x5546, 0x54C1, 0x58F2, 0x8CB7, 0x20, 0x28, 0x33, 0x20, 0x5206, 0x6CD5, 0x29], t_ord = 9\<rparr>,
   \<lparr>t_id = 10, t_code = ''fixed_assets'', t_name = of_runes [0x6709, 0x5F62, 0x56FA, 0x5B9A, 0x8CC7, 0x7523], t_ord = 10\<rparr>,
   \<lparr>t_id = 11, t_code = ''income_expense'', t_name = of_runes [0x53CE, 0x76CA, 0x3068, 0x8CBB, 0x7528], t_ord = 11\<rparr>,
   \<lparr>t_id = 12, t_code = ''taxes'', t_name = of_runes [0x7A0E, 0x91D1], t_ord = 12\<rparr>,
   \<lparr>t_id = 13, t_code = ''closing'', t_name = of_runes [0x6C7A, 0x7B97, 0x6574, 0x7406], t_ord = 13\<rparr>,
   \<lparr>t_id = 14, t_code = ''statements'', t_name = of_runes [0x8A66, 0x7B97, 0x8868, 0x2F, 0x7CBE, 0x7B97, 0x8868, 0x2F, 0x8CA1, 0x52D9, 0x8AF8, 0x8868], t_ord = 14\<rparr>,
   \<lparr>t_id = 15, t_code = ''corp_equity'', t_name = of_runes [0x682A, 0x5F0F, 0x4F1A, 0x793E, 0x4F1A, 0x8A08], t_ord = 15\<rparr>]"

definition topic_by_code :: "string \<Rightarrow> topic option" where
  "topic_by_code code = List.find (\<lambda>t. t_code t = code) topics"

record question_set =
  qs_id :: int
  qs_code :: string
  qs_name :: string
  qs_description :: string
  qs_target_size :: int

definition set_code_core :: string where "set_code_core = ''core_300''"
definition set_code_journal :: string where "set_code_journal = ''journal_240''"
definition set_code_comprehensive :: string where "set_code_comprehensive = ''comprehensive_300''"

definition default_set_codes :: "string list" where
  "default_set_codes = [set_code_core, set_code_journal, set_code_comprehensive]"

section \<open>Attempts and statistics\<close>

record attempt =
  a_id :: int
  a_user_id :: int
  a_question_id :: int
  a_set_id :: "int option"
  a_is_correct :: bool
  a_duration_ms :: int
  a_submitted_json :: string
  a_answered_at :: time

text \<open>
  Go tells a nil slice from an empty one when it encodes it; the two flags say which of the two
  an empty side of the answer is.
\<close>

record submit_input =
  si_question_id :: int
  si_set_code :: string
  si_answer :: answer_payload
  si_debits_nil :: bool
  si_credits_nil :: bool
  si_duration_ms :: int

record graded_attempt =
  ga_attempt :: attempt
  ga_explanation :: string
  ga_next_due_at :: time

definition graded_is_correct :: "graded_attempt \<Rightarrow> bool" where
  "graded_is_correct g = a_is_correct (ga_attempt g)"

record topic_stat =
  ts_code :: string
  ts_name :: string
  ts_total :: int
  ts_correct :: int

definition accuracy :: "topic_stat \<Rightarrow> float64" where
  "accuracy s = (if ts_total s = 0 then 0
     else fdiv (float_of_int (ts_correct s)) (float_of_int (ts_total s)))"

record daily_accuracy =
  da_date :: time
  da_total :: int
  da_correct :: int

record stats_summary =
  ss_total_attempts :: int
  ss_total_correct :: int
  ss_overall_rate :: float64
  ss_due_count :: int

section \<open>Users, sessions, tokens\<close>

record user =
  u_id :: int
  u_username :: string
  u_password_hash :: string
  u_password_salt :: string
  u_password_params :: string
  u_password_updated_at :: time
  u_created_at :: time
  u_updated_at :: time

record session =
  s_id :: string
  s_user_id :: int
  s_csrf_token :: string
  s_user_agent :: string
  s_ip :: string
  s_created_at :: time
  s_expires_at :: time
  s_last_seen_at :: time

text \<open>Expired from the expiry instant on.\<close>

definition is_expired :: "session \<Rightarrow> time \<Rightarrow> bool" where
  "is_expired s now \<longleftrightarrow> \<not> now < s_expires_at s"

record user_prefs =
  up_user_id :: int
  up_quiz_set :: string
  up_quiz_mode :: quiz_mode
  up_updated_at :: time

record jwt_claims =
  jc_subject :: int
  jc_issuer :: string
  jc_audience :: string
  jc_issued_at :: time
  jc_expires_at :: time
  jc_jti :: string

section \<open>Facts\<close>

lemma accuracy_range:
  assumes "0 \<le> ts_correct s" "ts_correct s \<le> ts_total s" "ts_total s < 2 ^ 53"
  shows "0 \<le> accuracy s \<and> accuracy s \<le> 1"
  using assms fdiv_rate [of "of_int (ts_correct s)" "of_int (ts_total s)"]
  by (auto simp: accuracy_def float_of_int_exact)

lemma topic_by_code_Some: "topic_by_code c = Some t \<Longrightarrow> t \<in> set topics \<and> t_code t = c"
  unfolding topic_by_code_def by (drule find_Some_iff_in) simp

lemma default_set_codes_distinct: "distinct default_set_codes"
  by (simp add: default_set_codes_def set_code_core_def set_code_journal_def
      set_code_comprehensive_def)

end
