(* ===== verification/Accounts.thy ===== *)
theory Accounts
  imports Domain
begin

text \<open>
  \<^verbatim>\<open>internal/domain/accounts\<close>: the standard account names, the table of alternative spellings
  and the normalisation of an account name typed by a learner.  Names are listed by their
  Unicode code points.
\<close>

definition standard_runes :: "int list list" where
  "standard_runes = [
   [0x73FE, 0x91D1], [0x5C0F, 0x53E3, 0x73FE, 0x91D1], [0x5F53, 0x5EA7, 0x9810, 0x91D1],
   [0x666E, 0x901A, 0x9810, 0x91D1], [0x5B9A, 0x671F, 0x9810, 0x91D1], [0x58F2, 0x639B, 0x91D1],
   [0x30AF, 0x30EC, 0x30B8, 0x30C3, 0x30C8, 0x58F2, 0x639B, 0x91D1],
   [0x53D7, 0x53D6, 0x624B, 0x5F62], [0x96FB, 0x5B50, 0x8A18, 0x9332, 0x50B5, 0x6A29],
   [0x7E70, 0x8D8A, 0x5546, 0x54C1], [0x8CB8, 0x4ED8, 0x91D1],
   [0x624B, 0x5F62, 0x8CB8, 0x4ED8, 0x91D1], [0x7ACB, 0x66FF, 0x91D1], [0x524D, 0x6255, 0x91D1],
   [0x4EEE, 0x6255, 0x91D1], [0x672A, 0x53CE, 0x5165, 0x91D1],
   [0x53D7, 0x53D6, 0x5546, 0x54C1, 0x5238], [0x5DEE, 0x5165, 0x4FDD, 0x8A3C, 0x91D1],
   [0x8CAF, 0x8535, 0x54C1], [0x4EEE, 0x6255, 0x6D88, 0x8CBB, 0x7A0E],
   [0x4EEE, 0x6255, 0x6CD5, 0x4EBA, 0x7A0E, 0x7B49], [0x524D, 0x6255, 0x4FDD, 0x967A, 0x6599],
   [0x524D, 0x6255, 0x5BB6, 0x8CC3], [0x672A, 0x53CE, 0x5229, 0x606F],
   [0x672A, 0x53CE, 0x5BB6, 0x8CC3], [0x5EFA, 0x7269], [0x5099, 0x54C1],
   [0x8ECA, 0x4E21, 0x904B, 0x642C, 0x5177], [0x571F, 0x5730], [0x8CB7, 0x639B, 0x91D1],
   [0x652F, 0x6255, 0x624B, 0x5F62], [0x96FB, 0x5B50, 0x8A18, 0x9332, 0x50B5, 0x52D9],
   [0x501F, 0x5165, 0x91D1], [0x624B, 0x5F62, 0x501F, 0x5165, 0x91D1], [0x9810, 0x308A, 0x91D1],
   [0x6240, 0x5F97, 0x7A0E, 0x9810, 0x308A, 0x91D1],
   [0x793E, 0x4F1A, 0x4FDD, 0x967A, 0x6599, 0x9810, 0x308A, 0x91D1], [0x524D, 0x53D7, 0x91D1],
   [0x4EEE, 0x53D7, 0x91D1], [0x672A, 0x6255, 0x91D1], [0x672A, 0x6255, 0x914D, 0x5F53, 0x91D1],
   [0x4EEE, 0x53D7, 0x6D88, 0x8CBB, 0x7A0E], [0x672A, 0x6255, 0x6D88, 0x8CBB, 0x7A0E],
   [0x672A, 0x6255, 0x6CD5, 0x4EBA, 0x7A0E, 0x7B49], [0x672A, 0x6255, 0x5229, 0x606F],
   [0x672A, 0x6255, 0x5BB6, 0x8CC3], [0x524D, 0x53D7, 0x5BB6, 0x8CC3],
   [0x524D, 0x53D7, 0x5730, 0x4EE3], [0x5F53, 0x5EA7, 0x501F, 0x8D8A],
   [0x8CB8, 0x5012, 0x5F15, 0x5F53, 0x91D1],
   [0x5EFA, 0x7269, 0x6E1B, 0x4FA1, 0x511F, 0x5374, 0x7D2F, 0x8A08, 0x984D],
   [0x5099, 0x54C1, 0x6E1B, 0x4FA1, 0x511F, 0x5374, 0x7D2F, 0x8A08, 0x984D],
   [0x8ECA, 0x4E21, 0x904B, 0x642C, 0x5177, 0x6E1B, 0x4FA1, 0x511F, 0x5374, 0x7D2F, 0x8A08, 0x984D],
   [0x8CC7, 0x672C, 0x91D1], [0x5229, 0x76CA, 0x6E96, 0x5099, 0x91D1],
   [0x7E70, 0x8D8A, 0x5229, 0x76CA, 0x5270, 0x4F59, 0x91D1], [0x58F2, 0x4E0A],
   [0x53D7, 0x53D6, 0x624B, 0x6570, 0x6599], [0x53D7, 0x53D6, 0x5BB6, 0x8CC3],
   [0x53D7, 0x53D6, 0x5730, 0x4EE3], [0x53D7, 0x53D6, 0x5229, 0x606F], [0x96D1, 0x76CA],
   [0x511F, 0x5374, 0x50B5, 0x6A29, 0x53D6, 0x7ACB, 0x76CA],
   [0x56FA, 0x5B9A, 0x8CC7, 0x7523, 0x58F2, 0x5374, 0x76CA], [0x4ED5, 0x5165],
   [0x767A, 0x9001, 0x8CBB], [0x7D66, 0x6599], [0x6CD5, 0x5B9A, 0x798F, 0x5229, 0x8CBB],
   [0x5E83, 0x544A, 0x5BA3, 0x4F1D, 0x8CBB], [0x652F, 0x6255, 0x624B, 0x6570, 0x6599],
   [0x652F, 0x6255, 0x5229, 0x606F], [0x65C5, 0x8CBB, 0x4EA4, 0x901A, 0x8CBB],
   [0x8CB8, 0x5012, 0x5F15, 0x5F53, 0x91D1, 0x7E70, 0x5165], [0x8CB8, 0x5012, 0x640D, 0x5931],
   [0x6E1B, 0x4FA1, 0x511F, 0x5374, 0x8CBB], [0x901A, 0x4FE1, 0x8CBB],
   [0x6D88, 0x8017, 0x54C1, 0x8CBB], [0x6C34, 0x9053, 0x5149, 0x71B1, 0x8CBB],
   [0x652F, 0x6255, 0x5BB6, 0x8CC3], [0x652F, 0x6255, 0x5730, 0x4EE3], [0x4FDD, 0x967A, 0x6599],
   [0x4FEE, 0x7E55, 0x8CBB], [0x96D1, 0x640D],
   [0x56FA, 0x5B9A, 0x8CC7, 0x7523, 0x58F2, 0x5374, 0x640D], [0x79DF, 0x7A0E, 0x516C, 0x8AB2],
   [0x6CD5, 0x4EBA, 0x7A0E, 0x7B49], [0x640D, 0x76CA], [0x73FE, 0x91D1, 0x904E, 0x4E0D, 0x8DB3]]"

definition alias_runes :: "(int list \<times> int list) list" where
  "alias_runes = [
   ([0x58F2, 0x308A, 0x4E0A, 0x3052], [0x58F2, 0x4E0A]),
   ([0x58F2, 0x4E0A, 0x3052], [0x58F2, 0x4E0A]), ([0x4ED5, 0x5165, 0x308C], [0x4ED5, 0x5165]),
   ([0x7E70, 0x8D8A, 0x3057, 0x5546, 0x54C1], [0x7E70, 0x8D8A, 0x5546, 0x54C1]),
   ([0x7E70, 0x308A, 0x8D8A, 0x3057, 0x5546, 0x54C1], [0x7E70, 0x8D8A, 0x5546, 0x54C1]),
   ([0x58F2, 0x639B, 0x3051, 0x91D1], [0x58F2, 0x639B, 0x91D1]),
   ([0x8CB7, 0x639B, 0x3051, 0x91D1], [0x8CB7, 0x639B, 0x91D1]),
   ([0x53D7, 0x53D6, 0x308A, 0x624B, 0x5F62], [0x53D7, 0x53D6, 0x624B, 0x5F62]),
   ([0x53D7, 0x3051, 0x53D6, 0x308A, 0x624B, 0x5F62], [0x53D7, 0x53D6, 0x624B, 0x5F62]),
   ([0x652F, 0x6255, 0x3044, 0x624B, 0x5F62], [0x652F, 0x6255, 0x624B, 0x5F62]),
   ([0x8CB8, 0x4ED8, 0x3051, 0x91D1], [0x8CB8, 0x4ED8, 0x91D1]),
   ([0x501F, 0x5165, 0x308C, 0x91D1], [0x501F, 0x5165, 0x91D1]),
   ([0x624B, 0x5F62, 0x8CB8, 0x4ED8, 0x3051, 0x91D1], [0x624B, 0x5F62, 0x8CB8, 0x4ED8, 0x91D1]),
   ([0x624B, 0x5F62, 0x501F, 0x5165, 0x308C, 0x91D1], [0x624B, 0x5F62, 0x501F, 0x5165, 0x91D1]),
   ([0x7ACB, 0x66FF, 0x3048, 0x91D1], [0x7ACB, 0x66FF, 0x91D1]),
   ([0x9810, 0x304B, 0x308A, 0x91D1], [0x9810, 0x308A, 0x91D1]),
   ([0x524D, 0x6255, 0x3044, 0x91D1], [0x524D, 0x6255, 0x91D1]),
   ([0x524D, 0x53D7, 0x3051, 0x91D1], [0x524D, 0x53D7, 0x91D1]),
   ([0x4EEE, 0x6255, 0x3044, 0x91D1], [0x4EEE, 0x6255, 0x91D1]),
   ([0x4EEE, 0x53D7, 0x3051, 0x91D1], [0x4EEE, 0x53D7, 0x91D1]),
   ([0x672A, 0x6255, 0x3044, 0x91D1], [0x672A, 0x6255, 0x91D1]),
   ([0x672A, 0x53CE, 0x91D1], [0x672A, 0x53CE, 0x5165, 0x91D1]),
   ([0x53D7, 0x53D6, 0x308A, 0x5546, 0x54C1, 0x5238], [0x53D7, 0x53D6, 0x5546, 0x54C1, 0x5238]),
   ([0x5DEE, 0x5165, 0x308C, 0x4FDD, 0x8A3C, 0x91D1], [0x5DEE, 0x5165, 0x4FDD, 0x8A3C, 0x91D1]),
   ([0x4EEE, 0x6255, 0x3044, 0x6D88, 0x8CBB, 0x7A0E], [0x4EEE, 0x6255, 0x6D88, 0x8CBB, 0x7A0E]),
   ([0x4EEE, 0x53D7, 0x3051, 0x6D88, 0x8CBB, 0x7A0E], [0x4EEE, 0x53D7, 0x6D88, 0x8CBB, 0x7A0E]),
   ([0x672A, 0x6255, 0x3044, 0x6D88, 0x8CBB, 0x7A0E], [0x672A, 0x6255, 0x6D88, 0x8CBB, 0x7A0E]),
   ([0x4EEE, 0x6255, 0x3044, 0x6CD5, 0x4EBA, 0x7A0E, 0x7B49], [0x4EEE, 0x6255, 0x6CD5, 0x4EBA, 0x7A0E, 0x7B49]),
   ([0x672A, 0x6255, 0x3044, 0x6CD5, 0x4EBA, 0x7A0E, 0x7B49], [0x672A, 0x6255, 0x6CD5, 0x4EBA, 0x7A0E, 0x7B49]),
   ([0x672A, 0x6255, 0x3044, 0x914D, 0x5F53, 0x91D1], [0x672A, 0x6255, 0x914D, 0x5F53, 0x91D1]),
   ([0x524D, 0x6255, 0x3044, 0x4FDD, 0x967A, 0x6599], [0x524D, 0x6255, 0x4FDD, 0x967A, 0x6599]),
   ([0x524D, 0x6255, 0x3044, 0x5BB6, 0x8CC3], [0x524D, 0x6255, 0x5BB6, 0x8CC3]),
   ([0x672A, 0x6255, 0x3044, 0x5229, 0x606F], [0x672A, 0x6255, 0x5229, 0x606F]),
   ([0x672A, 0x6255, 0x3044, 0x5BB6, 0x8CC3], [0x672A, 0x6255, 0x5BB6, 0x8CC3]),
   ([0x524D, 0x53D7, 0x3051, 0x5BB6, 0x8CC3], [0x524D, 0x53D7, 0x5BB6, 0x8CC3]),
   ([0x524D, 0x53D7, 0x3051, 0x5730, 0x4EE3], [0x524D, 0x53D7, 0x5730, 0x4EE3]),
   ([0x53D7, 0x53D6, 0x308A, 0x624B, 0x6570, 0x6599], [0x53D7, 0x53D6, 0x624B, 0x6570, 0x6599]),
   ([0x53D7, 0x53D6, 0x308A, 0x5BB6, 0x8CC3], [0x53D7, 0x53D6, 0x5BB6, 0x8CC3]),
   ([0x53D7, 0x53D6, 0x308A, 0x5730, 0x4EE3], [0x53D7, 0x53D6, 0x5730, 0x4EE3]),
   ([0x53D7, 0x53D6, 0x308A, 0x5229, 0x606F], [0x53D7, 0x53D6, 0x5229, 0x606F]),
   ([0x652F, 0x6255, 0x3044, 0x624B, 0x6570, 0x6599], [0x652F, 0x6255, 0x624B, 0x6570, 0x6599]),
   ([0x652F, 0x6255, 0x3044, 0x5229, 0x606F], [0x652F, 0x6255, 0x5229, 0x606F]),
   ([0x652F, 0x6255, 0x3044, 0x5BB6, 0x8CC3], [0x652F, 0x6255, 0x5BB6, 0x8CC3]),
   ([0x652F, 0x6255, 0x3044, 0x5730, 0x4EE3], [0x652F, 0x6255, 0x5730, 0x4EE3]),
   ([0x8CB8, 0x5012, 0x308C, 0x5F15, 0x5F53, 0x91D1], [0x8CB8, 0x5012, 0x5F15, 0x5F53, 0x91D1]),
   ([0x8CB8, 0x5012, 0x308C, 0x5F15, 0x5F53, 0x91D1, 0x7E70, 0x5165], [0x8CB8, 0x5012, 0x5F15, 0x5F53, 0x91D1, 0x7E70, 0x5165]),
   ([0x8CB8, 0x5012, 0x5F15, 0x5F53, 0x91D1, 0x7E70, 0x5165, 0x308C], [0x8CB8, 0x5012, 0x5F15, 0x5F53, 0x91D1, 0x7E70, 0x5165]),
   ([0x8CB8, 0x5012, 0x308C, 0x5F15, 0x5F53, 0x91D1, 0x7E70, 0x5165, 0x308C], [0x8CB8, 0x5012, 0x5F15, 0x5F53, 0x91D1, 0x7E70, 0x5165]),
   ([0x8CB8, 0x5012, 0x308C, 0x640D, 0x5931], [0x8CB8, 0x5012, 0x640D, 0x5931]),
   ([0x511F, 0x5374, 0x50B5, 0x6A29, 0x53D6, 0x7ACB, 0x3066, 0x76CA], [0x511F, 0x5374, 0x50B5, 0x6A29, 0x53D6, 0x7ACB, 0x76CA]),
   ([0x511F, 0x5374, 0x50B5, 0x6A29, 0x53D6, 0x308A, 0x7ACB, 0x3066, 0x76CA], [0x511F, 0x5374, 0x50B5, 0x6A29, 0x53D6, 0x7ACB, 0x76CA])]"

definition standard :: "string list" where
  "standard = map of_runes standard_runes"

definition aliases :: "(string \<times> string) list" where
  "aliases = map (\<lambda>(a, c). (of_runes a, of_runes c)) alias_runes"

text \<open>A space, a tab or an ideographic space.\<close>

definition is_blank :: "int \<Rightarrow> bool" where
  "is_blank r \<longleftrightarrow> r = 0x20 \<or> r = 0x09 \<or> r = 0x3000"

definition strip_blanks :: "string \<Rightarrow> string" where
  "strip_blanks s = of_runes (filter (\<lambda>r. \<not> is_blank r) (runes s))"

definition normalize :: "string \<Rightarrow> string" where
  "normalize input = (let s = strip_blanks input in
     case map_of aliases s of Some canonical \<Rightarrow> canonical | None \<Rightarrow> s)"

section \<open>The two tables\<close>

text \<open>
  Facts about the tables are evaluated on code points; encoding is injective on them, so they
  hold of the encoded names.
\<close>

lemma tables_scalar:
  "list_all (list_all scalar) standard_runes"
  "list_all (\<lambda>(a, c). list_all scalar a \<and> list_all scalar c) alias_runes"
  by code_simp+

lemma tables_no_blank:
  "list_all (list_all (\<lambda>r. \<not> is_blank r)) standard_runes"
  "list_all (\<lambda>(a, c). list_all (\<lambda>r. \<not> is_blank r) a \<and> list_all (\<lambda>r. \<not> is_blank r) c) alias_runes"
  by code_simp+

lemma standard_runes_distinct: "distinct standard_runes"
  by code_simp

lemma alias_runes_distinct: "distinct (map fst alias_runes)"
  by code_simp

lemma alias_targets_standard: "list_all (\<lambda>(a, c). c \<in> set standard_runes) alias_runes"
  by code_simp

lemma standard_not_alias: "list_all (\<lambda>r. r \<notin> set (map fst alias_runes)) standard_runes"
  by code_simp

section \<open>Normalisation\<close>

lemma standard_rune_cases:
  assumes "s \<in> set standard"
  obtains r where "s = of_runes r" "r \<in> set standard_runes" "list_all scalar r"
    "list_all (\<lambda>x. \<not> is_blank x) r" "r \<notin> set (map fst alias_runes)"
  using assms tables_scalar(1) tables_no_blank(1) standard_not_alias
  by (auto simp: standard_def list_all_iff)

lemma map_of_encoded:
  assumes "list_all scalar r" "list_all (\<lambda>(a, c). list_all scalar a \<and> list_all scalar c) t"
  shows "map_of (map (\<lambda>(a, c). (of_runes a, of_runes c)) t) (of_runes r)
    = map_option of_runes (map_of t r)"
  using assms(2) by (induction t) (auto simp: of_runes_inject assms(1))

lemma aliases_lookup:
  "list_all scalar r \<Longrightarrow> map_of aliases (of_runes r) = map_option of_runes (map_of alias_runes r)"
  unfolding aliases_def by (rule map_of_encoded) (simp_all add: tables_scalar)

lemma runes_strip_blanks: "runes (strip_blanks s) = filter (\<lambda>r. \<not> is_blank r) (runes s)"
  using runes_scalar [of s] by (auto simp: strip_blanks_def list_all_iff intro!: runes_of_runes)

lemma strip_blanks_idem [simp]: "strip_blanks (strip_blanks s) = strip_blanks s"
  by (simp add: strip_blanks_def [of "strip_blanks s"] runes_strip_blanks)
    (simp add: strip_blanks_def)

lemma strip_blanks_id:
  "list_all scalar r \<Longrightarrow> list_all (\<lambda>x. \<not> is_blank x) r \<Longrightarrow> strip_blanks (of_runes r) = of_runes r"
  by (simp add: strip_blanks_def runes_of_runes list_all_iff)

lemma alias_canonical_standard: "map_of aliases s = Some c \<Longrightarrow> c \<in> set standard"
  using alias_targets_standard
  by (auto simp: aliases_def standard_def list_all_iff intro!: imageI dest!: map_of_SomeD)

lemma normalize_standard: "s \<in> set standard \<Longrightarrow> normalize s = s"
proof -
  assume "s \<in> set standard"
  then obtain r where r: "s = of_runes r" "list_all scalar r"
    "list_all (\<lambda>x. \<not> is_blank x) r" "r \<notin> set (map fst alias_runes)"
    by (rule standard_rune_cases)
  then have "map_of aliases s = None"
    by (simp add: aliases_lookup map_of_eq_None_iff)
  with r show ?thesis by (simp add: normalize_def strip_blanks_id)
qed

lemma normalize_cases:
  obtains "normalize s \<in> set standard"
  | "normalize s = strip_blanks s" "map_of aliases (strip_blanks s) = None"
  by (cases "map_of aliases (strip_blanks s)")
    (auto simp: normalize_def dest: alias_canonical_standard)

lemma normalize_idem: "normalize (normalize s) = normalize s"
  by (rule normalize_cases [of s]) (simp_all add: normalize_standard, simp add: normalize_def)

lemma normalize_cong_blanks:
  "filter (\<lambda>r. \<not> is_blank r) (runes s) = filter (\<lambda>r. \<not> is_blank r) (runes t)
    \<Longrightarrow> normalize s = normalize t"
  by (simp add: normalize_def strip_blanks_def)

lemma standard_distinct: "distinct standard"
  using standard_runes_distinct tables_scalar(1)
  by (auto simp: standard_def distinct_map list_all_iff inj_on_def of_runes_inject)

text \<open>The normalised name is the only standard name an input stands for.\<close>

definition denotes :: "string \<Rightarrow> string \<Rightarrow> bool" where
  "denotes s c \<longleftrightarrow> c \<in> set standard \<and> (strip_blanks s = c \<or> (strip_blanks s, c) \<in> set aliases)"

lemma aliases_distinct: "distinct (map fst aliases)"
proof -
  have "inj_on of_runes (set (map fst alias_runes))"
    using tables_scalar(2) by (auto simp: inj_on_def list_all_iff of_runes_inject split_beta)
  with alias_runes_distinct have "distinct (map of_runes (map fst alias_runes))"
    using distinct_map [of of_runes "map fst alias_runes"] by blast
  moreover have "map fst aliases = map of_runes (map fst alias_runes)"
    by (simp add: aliases_def split_beta comp_def)
  ultimately show ?thesis by simp
qed

lemma normalize_denotes:
  assumes "denotes s c"
  shows "normalize s = c"
proof -
  from assms consider "strip_blanks s = c" "c \<in> set standard" | "(strip_blanks s, c) \<in> set aliases"
    by (auto simp: denotes_def)
  then show ?thesis
  proof cases
    case 1
    then have "normalize (strip_blanks s) = c" by (simp add: normalize_standard)
    then show ?thesis by (simp add: normalize_def)
  next
    case 2
    then show ?thesis by (simp add: normalize_def map_of_is_SomeI [OF aliases_distinct])
  qed
qed

lemma normalize_standard_iff: "normalize s \<in> set standard \<longleftrightarrow> (\<exists>c. denotes s c)"
proof
  assume std: "normalize s \<in> set standard"
  show "\<exists>c. denotes s c"
  proof (cases "map_of aliases (strip_blanks s)")
    case None
    with std show ?thesis by (auto simp: denotes_def normalize_def)
  next
    case (Some c)
    then show ?thesis
      using alias_canonical_standard [OF Some] map_of_SomeD [OF Some] by (auto simp: denotes_def)
  qed
next
  assume "\<exists>c. denotes s c"
  then show "normalize s \<in> set standard" using normalize_denotes denotes_def by metis
qed

section \<open>Properties\<close>

text \<open>
  C35: normalisation sends an input to the one standard account name it denotes (the name itself
  or one of its aliases, blanks aside) and to no standard name when it denotes none; it is
  idempotent, and blanks never matter.
\<close>

theorem normalize_spec:
  "(\<forall>c. denotes s c \<longleftrightarrow> c \<in> set standard \<and> normalize s = c)
   \<and> (normalize s \<in> set standard \<or> normalize s = strip_blanks s)
   \<and> normalize (normalize s) = normalize s \<and> normalize (strip_blanks s) = normalize s"
proof -
  have "normalize s \<in> set standard \<or> normalize s = strip_blanks s"
    by (rule normalize_cases [of s]) simp_all
  moreover have "denotes s c \<longleftrightarrow> c \<in> set standard \<and> normalize s = c" for c
  proof
    assume "denotes s c"
    then show "c \<in> set standard \<and> normalize s = c"
      using normalize_denotes denotes_def by blast
  next
    assume "c \<in> set standard \<and> normalize s = c"
    then show "denotes s c" using normalize_denotes normalize_standard_iff by metis
  qed
  ultimately show ?thesis by (simp add: normalize_idem) (simp add: normalize_def)
qed

end
