(* ===== verification/Ratelimit.thy ===== *)
theory Ratelimit
  imports Float64 "HOL-Library.AList"
begin

text \<open>
  \<^verbatim>\<open>internal/auth/ratelimit\<close>: three limiters behind the port \<^verbatim>\<open>RateLimiter\<close>.  A limiter holds a
  map from keys to a small per-key state, an association list here; \<^verbatim>\<open>Allow\<close> runs under the
  mutex, so a history of calls is a list of requests, each with the time its clock read.
\<close>

section \<open>Durations\<close>

text \<open>\<^verbatim>\<open>a.Sub(b)\<close> saturates; \<^verbatim>\<open>d.Seconds()\<close> splits off the whole seconds, rounding toward zero.\<close>

definition sub_time :: "time \<Rightarrow> time \<Rightarrow> duration" where
  "sub_time a b = max (- (2 ^ 63)) (min (2 ^ 63 - 1) (a - b))"

definition seconds :: "duration \<Rightarrow> float64" where
  "seconds d = (let sec = sgn d * (\<bar>d\<bar> div second); nsec = d - sec * second
     in fadd (float_of_int sec) (fdiv (float_of_int nsec) (float_of_int second)))"

lemma sub_time_ge: "0 \<le> w \<Longrightarrow> w < 2 ^ 63 \<Longrightarrow> w \<le> sub_time a b \<longleftrightarrow> w \<le> a - b"
  by (auto simp: sub_time_def)

lemma sub_time_same [simp]: "sub_time a a = 0"
  by (simp add: sub_time_def)

lemma sub_time_nonneg: "b \<le> a \<Longrightarrow> 0 \<le> sub_time a b"
  by (simp add: sub_time_def)

lemma seconds_0 [simp]: "seconds 0 = 0"
  by (simp add: seconds_def float_of_int_def fdiv_def fadd_def)

lemma seconds_nonneg: "0 \<le> d \<Longrightarrow> 0 \<le> seconds d"
proof -
  assume d: "0 \<le> d"
  then have s: "sgn d * (\<bar>d\<bar> div second) = d div second" by (cases "d = 0") auto
  have "0 \<le> d - d div second * second"
    using pos_mod_sign [of second d] by (simp add: minus_div_mult_eq_mod)
  with d show ?thesis unfolding seconds_def s Let_def fadd_def fdiv_def float_of_int_def
    by (intro rnd_nonneg add_nonneg_nonneg divide_nonneg_nonneg) (simp_all add: div_int_pos_iff)
qed

section \<open>The limiters\<close>

subsection \<open>Sliding window\<close>

record sliding_window =
  sw_events :: "(string \<times> time list) list"
  sw_max :: int
  sw_window :: duration

definition new_sliding_window :: "int \<Rightarrow> duration \<Rightarrow> sliding_window" where
  "new_sliding_window m w = \<lparr>sw_events = [], sw_max = m, sw_window = w\<rparr>"

definition sw_lookup :: "sliding_window \<Rightarrow> string \<Rightarrow> time list" where
  "sw_lookup s key = (case map_of (sw_events s) key of None \<Rightarrow> [] | Some evs \<Rightarrow> evs)"

definition sw_allow :: "sliding_window \<Rightarrow> time \<Rightarrow> string \<Rightarrow> bool \<times> sliding_window" where
  "sw_allow s now key =
     (let cutoff = now + i64 (- sw_window s);
          pruned = filter (\<lambda>t. cutoff < t) (sw_lookup s key)
      in if sw_max s \<le> int (length pruned)
         then (False, s\<lparr>sw_events := AList.update key pruned (sw_events s)\<rparr>)
         else (True, s\<lparr>sw_events := AList.update key (pruned @ [now]) (sw_events s)\<rparr>))"

definition sw_sweep :: "sliding_window \<Rightarrow> time \<Rightarrow> int \<times> sliding_window" where
  "sw_sweep s now =
     (let cutoff = now + i64 (- sw_window s);
          stale = (\<lambda>(k, evs). evs = [] \<or> \<not> cutoff < last evs)
      in (int (length (filter stale (sw_events s))),
          s\<lparr>sw_events := filter (\<lambda>e. \<not> stale e) (sw_events s)\<rparr>))"

subsection \<open>Fixed window\<close>

record fw_state =
  window_start :: time
  fw_count :: int

record fixed_window =
  fw_states :: "(string \<times> fw_state) list"
  fw_max :: int
  fw_window :: duration

definition new_fixed_window :: "int \<Rightarrow> duration \<Rightarrow> fixed_window" where
  "new_fixed_window m w = \<lparr>fw_states = [], fw_max = m, fw_window = w\<rparr>"

definition fw_allow :: "fixed_window \<Rightarrow> time \<Rightarrow> string \<Rightarrow> bool \<times> fixed_window" where
  "fw_allow f now key =
     (let fresh = (True, f\<lparr>fw_states := AList.update key \<lparr>window_start = now, fw_count = 1\<rparr>
                                          (fw_states f)\<rparr>)
      in case map_of (fw_states f) key of
        None \<Rightarrow> fresh
      | Some st \<Rightarrow>
          if fw_window f \<le> sub_time now (window_start st) then fresh
          else if fw_max f \<le> fw_count st then (False, f)
          else (True, f\<lparr>fw_states :=
                 AList.update key (st\<lparr>fw_count := i64 (fw_count st + 1)\<rparr>) (fw_states f)\<rparr>))"

definition fw_reset :: "fixed_window \<Rightarrow> string \<Rightarrow> fixed_window" where
  "fw_reset f key = f\<lparr>fw_states := AList.delete key (fw_states f)\<rparr>"

definition fw_sweep :: "fixed_window \<Rightarrow> time \<Rightarrow> int \<times> fixed_window" where
  "fw_sweep f now =
     (let cutoff = now + i64 (- fw_window f);
          stale = (\<lambda>(k, st). \<not> cutoff < window_start st)
      in (int (length (filter stale (fw_states f))),
          f\<lparr>fw_states := filter (\<lambda>e. \<not> stale e) (fw_states f)\<rparr>))"

subsection \<open>Token bucket\<close>

record tb_state =
  tokens :: float64
  last_fill :: time

record token_bucket =
  tb_buckets :: "(string \<times> tb_state) list"
  tb_capacity :: float64
  tb_refill :: float64

definition new_token_bucket :: "float64 \<Rightarrow> float64 \<Rightarrow> token_bucket" where
  "new_token_bucket c r = \<lparr>tb_buckets = [], tb_capacity = c, tb_refill = r\<rparr>"

definition tb_allow :: "token_bucket \<Rightarrow> time \<Rightarrow> string \<Rightarrow> bool \<times> token_bucket" where
  "tb_allow b now key =
     (case map_of (tb_buckets b) key of
        None \<Rightarrow> (True, b\<lparr>tb_buckets := AList.update key
            \<lparr>tokens = fsub (tb_capacity b) 1, last_fill = now\<rparr> (tb_buckets b)\<rparr>)
      | Some st \<Rightarrow>
          (let elapsed = seconds (sub_time now (last_fill st));
               filled = fadd (tokens st) (fmul elapsed (tb_refill b));
               level = (if tb_capacity b < filled then tb_capacity b else filled);
               store = (\<lambda>x. b\<lparr>tb_buckets := AList.update key
                          \<lparr>tokens = x, last_fill = now\<rparr> (tb_buckets b)\<rparr>)
           in if level < 1 then (False, store level) else (True, store (fsub level 1))))"

definition tb_sweep :: "token_bucket \<Rightarrow> time \<Rightarrow> duration \<Rightarrow> int \<times> token_bucket" where
  "tb_sweep b now ttl =
     (let cutoff = now + i64 (- ttl);
          stale = (\<lambda>(k, st). \<not> cutoff < last_fill st)
      in (int (length (filter stale (tb_buckets b))),
          b\<lparr>tb_buckets := filter (\<lambda>e. \<not> stale e) (tb_buckets b)\<rparr>))"

section \<open>Histories of calls\<close>

text \<open>The verdicts of a sequence of \<^verbatim>\<open>Allow\<close> calls, and the limiter after them.\<close>

fun decisions :: "('l \<Rightarrow> time \<Rightarrow> string \<Rightarrow> bool \<times> 'l) \<Rightarrow> 'l \<Rightarrow> (time \<times> string) list
    \<Rightarrow> (time \<times> string \<times> bool) list" where
  "decisions allow l [] = []"
| "decisions allow l ((t, k) # rs) =
     (let (b, l') = allow l t k in (t, k, b) # decisions allow l' rs)"

fun after :: "('l \<Rightarrow> time \<Rightarrow> string \<Rightarrow> bool \<times> 'l) \<Rightarrow> 'l \<Rightarrow> (time \<times> string) list \<Rightarrow> 'l" where
  "after allow l [] = l"
| "after allow l ((t, k) # rs) = after allow (snd (allow l t k)) rs"

text \<open>The same for one key, given how its own state evolves.\<close>

fun run :: "('v \<Rightarrow> time \<Rightarrow> bool \<times> 'v) \<Rightarrow> 'v \<Rightarrow> time list \<Rightarrow> (time \<times> bool) list" where
  "run step v [] = []"
| "run step v (t # ts) = (let (b, v') = step v t in (t, b) # run step v' ts)"

fun run_state :: "('v \<Rightarrow> time \<Rightarrow> bool \<times> 'v) \<Rightarrow> 'v \<Rightarrow> time list \<Rightarrow> 'v" where
  "run_state step v [] = v"
| "run_state step v (t # ts) = run_state step (snd (step v t)) ts"

definition times_of :: "string \<Rightarrow> (time \<times> string) list \<Rightarrow> time list" where
  "times_of key rs = map fst (filter (\<lambda>(t, k). k = key) rs)"

definition granted_times :: "(time \<times> bool) list \<Rightarrow> time list" where
  "granted_times ds = map fst (filter snd ds)"

definition grants :: "string \<Rightarrow> (time \<times> string \<times> bool) list \<Rightarrow> time list" where
  "grants key ds = map fst (filter (\<lambda>(t, k, b). k = key \<and> b) ds)"

text \<open>How many of the times lie in the window of length \<open>w\<close> that ends at \<open>T\<close>.\<close>

definition in_window :: "duration \<Rightarrow> time \<Rightarrow> time list \<Rightarrow> nat" where
  "in_window w T ts = length (filter (\<lambda>t. T - w < t \<and> t \<le> T) ts)"

lemma run_Cons: "run step v (t # ts) = (t, fst (step v t)) # run step (snd (step v t)) ts"
  by (simp add: Let_def split: prod.splits)

lemma times_of_simps:
  "times_of key [] = []"
  "times_of key ((t, k) # rs) = (if k = key then t # times_of key rs else times_of key rs)"
  by (simp_all add: times_of_def)

lemma grants_simps:
  "grants key [] = []"
  "grants key ((t, k, b) # ds) = (if k = key \<and> b then t # grants key ds else grants key ds)"
  by (simp_all add: grants_def)

lemma granted_times_simps:
  "granted_times [] = []"
  "granted_times ((t, b) # ds) = (if b then t # granted_times ds else granted_times ds)"
  by (simp_all add: granted_times_def)

lemma times_of_filter: "times_of key (filter (\<lambda>r. snd r = key) rs) = times_of key rs"
  by (induction rs) (auto simp: times_of_simps)

lemma run_append:
  "run step v (ts @ [t]) = run step v ts @ [(t, fst (step (run_state step v ts) t))]"
  by (induction ts arbitrary: v) (auto simp: Let_def split: prod.splits)

lemma run_state_append: "run_state step v (ts @ [t]) = snd (step (run_state step v ts) t)"
  by (induction ts arbitrary: v) auto

lemma granted_times_append: "granted_times (ds @ [(t, b)]) =
    granted_times ds @ (if b then [t] else [])"
  by (simp add: granted_times_def)

lemma set_granted_run: "set (granted_times (run step v ts)) \<subseteq> set ts"
  by (induction ts arbitrary: v) (auto simp: granted_times_def Let_def split: prod.splits)

text \<open>
  The contract of a limiter: the verdict for a key and its next state depend on that key's state
  alone, and a call leaves the state of every other key untouched.
\<close>

locale rate_limiter =
  fixes allow :: "'l \<Rightarrow> time \<Rightarrow> string \<Rightarrow> bool \<times> 'l"
    and view :: "'l \<Rightarrow> string \<Rightarrow> 'v"
    and config :: "'l \<Rightarrow> 'c"
    and step :: "'c \<Rightarrow> 'v \<Rightarrow> time \<Rightarrow> bool \<times> 'v"
  assumes allow_verdict: "fst (allow l t k) = fst (step (config l) (view l k) t)"
    and allow_own: "view (snd (allow l t k)) k = snd (step (config l) (view l k) t)"
    and allow_other: "j \<noteq> k \<Longrightarrow> view (snd (allow l t k)) j = view l j"
    and allow_config: "config (snd (allow l t k)) = config l"
begin

lemma after_config: "config (after allow l rs) = config l"
  by (induction rs arbitrary: l) (auto simp: allow_config)

lemma after_view:
  "view (after allow l rs) key = run_state (step (config l)) (view l key) (times_of key rs)"
proof (induction rs arbitrary: l)
  case (Cons r rs)
  obtain t k where "r = (t, k)" by fastforce
  then show ?case
    using Cons.IH [of "snd (allow l t k)"]
    by (cases "k = key") (simp_all add: times_of_def allow_own allow_other allow_config)
qed (simp add: times_of_def)

lemma grants_run:
  "grants key (decisions allow l rs)
    = granted_times (run (step (config l)) (view l key) (times_of key rs))"
proof (induction rs arbitrary: l)
  case (Cons r rs)
  obtain t k where r: "r = (t, k)" by fastforce
  obtain b l' where a: "allow l t k = (b, l')" by fastforce
  then have "b = fst (step (config l) (view l k) t)" "config l' = config l"
    and "view l' k = snd (step (config l) (view l k) t)"
    and "key \<noteq> k \<Longrightarrow> view l' key = view l key"
    and "decisions allow l (r # rs) = (t, k, b) # decisions allow l' rs"
    using r allow_verdict [of l t k] allow_config [of l t k] allow_own [of l t k]
      allow_other [of key k l t] by simp_all
  then show ?case using Cons.IH [of l']
    by (cases "k = key") (simp_all add: r grants_simps times_of_simps granted_times_simps
        run_Cons del: run.simps decisions.simps)
qed (simp add: times_of_def grants_def granted_times_def)

text \<open>Requests for other keys can be dropped from a history.\<close>

lemma key_isolation:
  "grants key (decisions allow l rs) = grants key (decisions allow l (filter (\<lambda>r. snd r = key) rs))"
  by (simp add: grants_run times_of_filter)

end

section \<open>The sliding window\<close>

definition sw_config :: "sliding_window \<Rightarrow> int \<times> duration" where
  "sw_config s = (sw_max s, sw_window s)"

fun sw_step :: "int \<times> duration \<Rightarrow> time list \<Rightarrow> time \<Rightarrow> bool \<times> time list" where
  "sw_step (m, w) evs now =
     (let pruned = filter (\<lambda>t. now + i64 (- w) < t) evs
      in if m \<le> int (length pruned) then (False, pruned) else (True, pruned @ [now]))"

declare sw_step.simps [simp del]

interpretation sw: rate_limiter sw_allow sw_lookup sw_config sw_step
  by unfold_locales
    (auto simp: sw_allow_def sw_config_def sw_lookup_def sw_step.simps Let_def update_conv')

text \<open>The recorded events are the granted times that can still matter.\<close>

lemma filter_filter_le:
  "c \<le> (d :: int) \<Longrightarrow> filter (\<lambda>t. d < t) (filter (\<lambda>t. c < t) xs) = filter (\<lambda>t. d < t) xs"
  by (induction xs) auto

lemma sw_run_state:
  assumes "in_i64 w" "0 \<le> w" "sorted ts" "\<forall>t\<in>set ts. t \<le> now"
  shows "filter (\<lambda>t. now - w < t) (run_state (sw_step (m, w)) [] ts)
    = filter (\<lambda>t. now - w < t) (granted_times (run (sw_step (m, w)) [] ts))"
  using assms(3,4)
proof (induction ts arbitrary: now rule: rev_induct)
  case (snoc t ts)
  have w: "i64 (- w) = - w" using assms(1,2) by (simp add: in_i64_def)
  have le: "t - w \<le> now - w" "sorted ts" "\<forall>s\<in>set ts. s \<le> t"
    using snoc.prems by (auto simp: sorted_append)
  let ?v = "run_state (sw_step (m, w)) [] ts" and ?g = "granted_times (run (sw_step (m, w)) [] ts)"
  have IH: "filter (\<lambda>s. t - w < s) ?v = filter (\<lambda>s. t - w < s) ?g"
    by (rule snoc.IH [OF le(2,3)])
  have "filter (\<lambda>s. now - w < s) (filter (\<lambda>s. t - w < s) ?v) = filter (\<lambda>s. now - w < s) ?g"
    unfolding IH by (rule filter_filter_le [OF le(1)])
  then show ?case
    by (auto simp: run_state_append run_append granted_times_append sw_step.simps [of m w ?v t]
        Let_def w filter_filter_le [OF le(1)] simp del: filter_filter)
qed (simp add: granted_times_def)

lemma in_window_append: "in_window w T (xs @ ys) = in_window w T xs + in_window w T ys"
  by (simp add: in_window_def)

lemma in_window_le: "in_window w T xs \<le> length (filter (\<lambda>t. T - w < t) xs)"
  unfolding in_window_def by (induction xs) auto

lemma in_window_late:
  "\<forall>t\<in>set xs. t \<le> T \<Longrightarrow> in_window w T xs = length (filter (\<lambda>t. T - w < t) xs)"
  unfolding in_window_def by (rule arg_cong [where f = length], rule filter_cong) auto

lemma in_window_antimono:
  assumes "T \<le> T'" "\<forall>t\<in>set xs. t \<le> T"
  shows "in_window w T' xs \<le> in_window w T xs"
  unfolding in_window_def using assms by (induction xs) auto

lemma sw_run_bound:
  assumes "in_i64 w" "0 \<le> w" "sorted ts"
  shows "in_window w T (granted_times (run (sw_step (m, w)) [] ts)) \<le> nat m"
  using assms(3)
proof (induction ts rule: rev_induct)
  case (snoc t ts)
  have w: "i64 (- w) = - w" using assms(1,2) by (simp add: in_i64_def)
  let ?v = "run_state (sw_step (m, w)) [] ts" and ?g = "granted_times (run (sw_step (m, w)) [] ts)"
  have ts: "sorted ts" "\<forall>s\<in>set ts. s \<le> t" using snoc.prems by (auto simp: sorted_append)
  have IH: "in_window w T ?g \<le> nat m" by (rule snoc.IH [OF ts(1)])
  have g: "\<forall>s\<in>set ?g. s \<le> t" using ts(2) set_granted_run by (meson subsetD)
  show ?case
  proof (cases "fst (sw_step (m, w) ?v t) \<and> T - w < t \<and> t \<le> T")
    case True
    then have "length (filter (\<lambda>s. t - w < s) ?v) < nat m"
      by (auto simp: sw_step.simps [of m w ?v t] Let_def w split: if_splits)
    then have "length (filter (\<lambda>s. t - w < s) ?g) < nat m"
      by (simp only: sw_run_state [OF assms(1,2) ts])
    then have "in_window w t ?g < nat m" by (simp add: in_window_late [OF g])
    then have "in_window w T ?g < nat m"
      using in_window_antimono [OF _ g, of T w] True by (meson le_less_trans)
    then show ?thesis
      by (simp add: run_append granted_times_append in_window_append) (simp add: in_window_def)
  next
    case False
    then have "in_window w T (if fst (sw_step (m, w) ?v t) then [t] else []) = 0"
      by (auto simp: in_window_def)
    with IH show ?thesis by (simp only: run_append granted_times_append in_window_append)
  qed
qed (simp add: granted_times_def in_window_def)

section \<open>The fixed window\<close>

definition fw_config :: "fixed_window \<Rightarrow> int \<times> duration" where
  "fw_config f = (fw_max f, fw_window f)"

fun fw_step :: "int \<times> duration \<Rightarrow> fw_state option \<Rightarrow> time \<Rightarrow> bool \<times> fw_state option" where
  "fw_step (m, w) None now = (True, Some \<lparr>window_start = now, fw_count = 1\<rparr>)"
| "fw_step (m, w) (Some st) now =
     (if w \<le> sub_time now (window_start st) then (True, Some \<lparr>window_start = now, fw_count = 1\<rparr>)
      else if m \<le> fw_count st then (False, Some st)
      else (True, Some (st\<lparr>fw_count := i64 (fw_count st + 1)\<rparr>)))"

declare fw_step.simps [simp del]

interpretation fw: rate_limiter fw_allow "\<lambda>f. map_of (fw_states f)" fw_config fw_step
  by unfold_locales
    (auto simp: fw_allow_def fw_config_def fw_step.simps Let_def update_conv' split: option.splits)

text \<open>The grants since the start of the current window are counted, and so were those before it.\<close>

definition fw_inv :: "int \<Rightarrow> duration \<Rightarrow> time list \<Rightarrow> fw_state option \<Rightarrow> bool" where
  "fw_inv m w gs v = (case v of None \<Rightarrow> gs = []
     | Some st \<Rightarrow> window_start st \<in> set gs \<and> (\<forall>s\<in>set gs. s < window_start st + w) \<and> 1 \<le> fw_count st \<and> fw_count st \<le> max 1 m
         \<and> int (length (filter (\<lambda>s. window_start st \<le> s) gs)) = fw_count st
         \<and> int (length (filter (\<lambda>s. window_start st - w < s \<and> s < window_start st) gs)) \<le> max 1 m)"

lemma fw_inv_step:
  assumes inv: "fw_inv m w gs v" and "in_i64 m" "in_i64 w" "0 < w" "\<forall>s\<in>set gs. s \<le> t"
  shows "fw_inv m w (gs @ (if fst (fw_step (m, w) v t) then [t] else [])) (snd (fw_step (m, w) v t))"
proof -
  have w: "w \<le> sub_time a b \<longleftrightarrow> w \<le> a - b" for a b
    using assms by (simp add: sub_time_ge in_i64_def)
  have len: "length (filter P xs) \<le> length (filter Q xs)" if "\<And>x. P x \<Longrightarrow> Q x" for P Q xs
    using that by (induction xs) auto
  show ?thesis
  proof (cases v)
    case None
    with inv assms(4) show ?thesis by (simp add: fw_inv_def fw_step.simps(1))
  next
    case (Some st)
    note i = inv [unfolded fw_inv_def Some option.case]
    show ?thesis
    proof (cases "w \<le> t - window_start st")
      case True
      with i have old: "\<forall>s\<in>set gs. s < t" by auto
      then have "filter (\<lambda>s. t \<le> s) gs = []" by (simp add: filter_empty_conv not_le)
      moreover have "length (filter (\<lambda>s. t - w < s \<and> s < t) gs)
          \<le> length (filter (\<lambda>s. window_start st \<le> s) gs)"
        by (rule len) (use True in auto)
      ultimately show ?thesis using Some True i old assms(4)
        by (auto simp: fw_inv_def fw_step.simps w)
    next
      case False
      show ?thesis
      proof (cases "m \<le> fw_count st")
        case True
        with inv Some False show ?thesis by (simp add: fw_step.simps w)
      next
        case less: False
        then have "i64 (fw_count st + 1) = fw_count st + 1"
          using i assms(2) by (simp add: in_i64_def)
        with Some False less i show ?thesis
          using assms(5) by (cases "window_start st \<le> t") (auto simp: fw_inv_def fw_step.simps w)
      qed
    qed
  qed
qed

lemma fw_run_inv:
  assumes "in_i64 m" "in_i64 w" "0 < w" "sorted ts"
  shows "fw_inv m w (granted_times (run (fw_step (m, w)) None ts)) (run_state (fw_step (m, w)) None ts)"
  using assms(4)
proof (induction ts rule: rev_induct)
  case (snoc t ts)
  have "sorted ts" "\<forall>s\<in>set ts. s \<le> t" using snoc.prems by (auto simp: sorted_append)
  moreover have "\<forall>s\<in>set (granted_times (run (fw_step (m, w)) None ts)). s \<le> t"
    using calculation(2) set_granted_run by (meson subsetD)
  ultimately show ?case
    using fw_inv_step [OF snoc.IH assms(1-3), of t]
    by (simp only: run_append run_state_append granted_times_append)
qed (simp add: fw_inv_def granted_times_def)

lemma fw_inv_window:
  assumes "fw_inv m w gs v" "t \<in> set gs" "\<forall>s\<in>set gs. s \<le> t" "t \<le> T"
  shows "int (in_window w T gs) \<le> 2 * max 1 m"
proof -
  obtain st where v: "v = Some st" using assms(1,2) by (cases v) (auto simp: fw_inv_def)
  note i = assms(1) [unfolded fw_inv_def v option.case]
  have "window_start st \<le> T" using i assms(3,4) by (meson order_trans)
  then have "in_window w T gs \<le> length (filter (\<lambda>s. window_start st \<le> s) gs)
      + length (filter (\<lambda>s. window_start st - w < s \<and> s < window_start st) gs)"
    unfolding in_window_def by (induction gs) auto
  then show ?thesis using i by linarith
qed

lemma fw_run_bound:
  assumes "in_i64 m" "in_i64 w" "0 < w" "sorted ts"
  shows "int (in_window w T (granted_times (run (fw_step (m, w)) None ts))) \<le> 2 * max 1 m"
  using assms(4)
proof (induction ts rule: rev_induct)
  case (snoc t ts)
  have ts: "sorted ts" "\<forall>s\<in>set ts. s \<le> t" using snoc.prems by (auto simp: sorted_append)
  let ?g = "granted_times (run (fw_step (m, w)) None ts)"
  have g: "\<forall>s\<in>set ?g. s \<le> t" using ts(2) set_granted_run by (meson subsetD)
  show ?case
  proof (cases "fst (fw_step (m, w) (run_state (fw_step (m, w)) None ts) t) \<and> t \<le> T")
    case True
    show ?thesis
      by (rule fw_inv_window [OF fw_run_inv [OF assms(1-3) snoc.prems], of t])
        (use True g in \<open>auto simp: run_append granted_times_append\<close>)
  next
    case False
    then have "in_window w T (if fst (fw_step (m, w) (run_state (fw_step (m, w)) None ts) t)
        then [t] else []) = 0"
      by (auto simp: in_window_def)
    with snoc.IH [OF ts(1)] show ?thesis
      by (simp only: run_append granted_times_append in_window_append add_0_right)
  qed
qed (simp add: granted_times_def in_window_def)

section \<open>The token bucket\<close>

definition tb_config :: "token_bucket \<Rightarrow> float64 \<times> float64" where
  "tb_config b = (tb_capacity b, tb_refill b)"

fun tb_step :: "float64 \<times> float64 \<Rightarrow> tb_state option \<Rightarrow> time \<Rightarrow> bool \<times> tb_state option" where
  "tb_step (c, r) None now = (True, Some \<lparr>tokens = fsub c 1, last_fill = now\<rparr>)"
| "tb_step (c, r) (Some st) now =
     (let filled = fadd (tokens st) (fmul (seconds (sub_time now (last_fill st))) r);
          level = (if c < filled then c else filled)
      in if level < 1 then (False, Some \<lparr>tokens = level, last_fill = now\<rparr>)
         else (True, Some \<lparr>tokens = fsub level 1, last_fill = now\<rparr>))"

declare tb_step.simps [simp del]

interpretation tb: rate_limiter tb_allow "\<lambda>b. map_of (tb_buckets b)" tb_config tb_step
  by unfold_locales
    (auto simp: tb_allow_def tb_config_def tb_step.simps Let_def update_conv' split: option.splits)

text \<open>The level of a bucket stays between nothing and its capacity.\<close>

definition tb_inv :: "float64 \<Rightarrow> tb_state option \<Rightarrow> bool" where
  "tb_inv c v = (case v of None \<Rightarrow> True | Some st \<Rightarrow> 0 \<le> tokens st \<and> tokens st \<le> c)"

lemma fsub_1_bounds:
  assumes "is_float x" "1 \<le> x"
  shows "0 \<le> fsub x 1" "fsub x 1 \<le> x"
  using assms rnd_mono [of "x - 1" x] by (simp_all add: fsub_def rnd_nonneg is_float_def)

lemma tb_inv_step:
  assumes "tb_inv c v" "is_float c" "1 \<le> c" "0 \<le> r"
    and "case v of None \<Rightarrow> True | Some st \<Rightarrow> last_fill st \<le> now"
  shows "tb_inv c (snd (tb_step (c, r) v now))"
proof (cases v)
  case None
  then show ?thesis using assms fsub_1_bounds [of c] by (simp add: tb_inv_def tb_step.simps)
next
  case (Some st)
  let ?filled = "fadd (tokens st) (fmul (seconds (sub_time now (last_fill st))) r)"
  let ?level = "if c < ?filled then c else ?filled"
  have "0 \<le> fmul (seconds (sub_time now (last_fill st))) r"
    using assms(4,5) Some
    by (simp add: fmul_def rnd_nonneg seconds_nonneg sub_time_nonneg)
  then have "0 \<le> ?filled" using assms(1) Some by (simp add: tb_inv_def fadd_def rnd_nonneg)
  then have l: "0 \<le> ?level" "?level \<le> c" using assms(3) by auto
  have "is_float ?level" using assms(2) by (simp add: fadd_def is_float_rnd)
  then show ?thesis using l Some fsub_1_bounds [of ?level]
    by (auto simp: tb_inv_def tb_step.simps Let_def)
qed

text \<open>At one instant a bucket of \<open>n\<close> tokens grants \<open>n\<close> requests and then refuses.\<close>

lemma fsub_int: "0 < n \<Longrightarrow> n < 2 ^ 53 \<Longrightarrow> fsub (of_int n) 1 = of_int (n - 1)"
  using rnd_of_int [of "n - 1"] by (simp add: fsub_def)

lemma tb_step_same:
  assumes "0 \<le> n" "n < 2 ^ 53" "of_int n \<le> c"
  shows "tb_step (c, r) (Some \<lparr>tokens = of_int n, last_fill = t\<rparr>) t =
    (0 < n, Some \<lparr>tokens = of_int (if 0 < n then n - 1 else 0), last_fill = t\<rparr>)"
proof -
  have "fadd (of_int n) (fmul (seconds (sub_time t t)) r) = of_int n"
    using rnd_of_int [of n] assms by (simp add: fadd_def fmul_def)
  moreover have "(of_int n < (1 :: rat)) = (n < 1)" using of_int_less_iff [of n 1] by simp
  ultimately show ?thesis
    using assms fsub_int [of n] by (auto simp: tb_step.simps Let_def not_less)
qed

lemma tb_burst:
  "0 \<le> n \<Longrightarrow> n < 2 ^ 53 \<Longrightarrow> of_int n \<le> c \<Longrightarrow>
   map snd (run (tb_step (c, r)) (Some \<lparr>tokens = of_int n, last_fill = t\<rparr>) (replicate k t))
     = replicate (min (nat n) k) True @ replicate (k - nat n) False"
proof (induction k arbitrary: n)
  case (Suc k)
  show ?case
  proof (cases "0 < n")
    case True
    then have "nat n = Suc (nat (n - 1))" by simp
    with True show ?thesis using Suc.IH [of "n - 1"] Suc.prems
      by (simp add: run_Cons tb_step_same del: run.simps)
  next
    case False
    then show ?thesis using Suc.IH [of 0] Suc.prems
      by (simp add: run_Cons tb_step_same [of 0, simplified] del: run.simps)
  qed
qed simp

section \<open>Sweeping\<close>

lemma map_of_filter_entry:
  "distinct (map fst al) \<Longrightarrow>
   map_of (filter P al) k = (case map_of al k of None \<Rightarrow> None | Some v \<Rightarrow> if P (k, v) then Some v else None)"
proof (induction al)
  case (Cons e al)
  have "map_of (filter P al) j = None" if "j \<notin> fst ` set al" for j
    using that by (auto simp: map_of_eq_None_iff)
  with Cons show ?case by (cases e) (auto split: option.splits)
qed simp

lemma allow_distinct:
  "distinct (map fst (sw_events l)) \<Longrightarrow> distinct (map fst (sw_events (snd (sw_allow l t k))))"
  "distinct (map fst (fw_states f)) \<Longrightarrow> distinct (map fst (fw_states (snd (fw_allow f t k))))"
  by (simp_all add: sw_allow_def fw_allow_def Let_def AList.distinct_update split: option.splits)

lemma sw_distinct:
  "distinct (map fst (sw_events l)) \<Longrightarrow> distinct (map fst (sw_events (after sw_allow l rs)))"
  by (induction rs arbitrary: l) (auto simp: allow_distinct)

lemma fw_distinct:
  "distinct (map fst (fw_states l)) \<Longrightarrow> distinct (map fst (fw_states (after fw_allow l rs)))"
  by (induction rs arbitrary: l) (auto simp: allow_distinct)

lemma sw_state_sorted:
  "sorted ts \<Longrightarrow> sorted (run_state (sw_step c) [] ts) \<and> set (run_state (sw_step c) [] ts) \<subseteq> set ts"
proof (induction ts rule: rev_induct)
  case (snoc t ts)
  obtain m w where c: "c = (m, w)" by fastforce
  let ?v = "run_state (sw_step c) [] ts"
  have "sorted ?v" "set ?v \<subseteq> set ts" "\<forall>s\<in>set ts. s \<le> t"
    using snoc by (auto simp: sorted_append)
  then have "sorted (snd (sw_step c ?v t)) \<and> set (snd (sw_step c ?v t)) \<subseteq> set (ts @ [t])"
    unfolding c sw_step.simps Let_def
    by (auto simp: sorted_append sorted_wrt_filter)
  then show ?case by (simp add: run_state_append)
qed simp

lemma sorted_last_ge: "sorted xs \<Longrightarrow> x \<in> set xs \<Longrightarrow> x \<le> last xs"
  by (induction xs) auto

lemma run_cong_first:
  "(\<And>t us. ts = t # us \<Longrightarrow> step v t = step v' t) \<Longrightarrow> run step v ts = run step v' ts"
  by (cases ts) (simp_all add: run_Cons del: run.simps(2))

lemma sw_step_filter:
  "in_i64 w \<Longrightarrow> 0 \<le> w \<Longrightarrow> filter (\<lambda>s. now - w < s) v = filter (\<lambda>s. now - w < s) v' \<Longrightarrow> now \<le> t
   \<Longrightarrow> sw_step (m, w) v t = sw_step (m, w) v' t"
  using filter_filter_le [of "now - w" "t - w" v] filter_filter_le [of "now - w" "t - w" v']
  by (simp add: sw_step.simps in_i64_def del: filter_filter)

lemma sw_swept_view:
  assumes "distinct (map fst (sw_events l))" "sorted (sw_lookup l key)"
    and "in_i64 (sw_window l)" "0 \<le> sw_window l"
  shows "filter (\<lambda>s. now - sw_window l < s) (sw_lookup (snd (sw_sweep l now)) key)
    = filter (\<lambda>s. now - sw_window l < s) (sw_lookup l key)"
proof -
  have w: "i64 (- sw_window l) = - sw_window l" using assms(3,4) by (simp add: in_i64_def)
  have stale: "filter (\<lambda>s. c < s) evs = []" if "sorted evs" "\<not> c < last evs" for evs c
    using that sorted_last_ge [of evs] by (force simp: filter_empty_conv)
  show ?thesis
  proof (cases "map_of (sw_events l) key")
    case None
    then show ?thesis
      by (simp add: sw_sweep_def sw_lookup_def Let_def map_of_filter_entry [OF assms(1)])
  next
    case (Some evs)
    then have "sorted evs" using assms(2) by (simp add: sw_lookup_def)
    with Some show ?thesis
      using stale [of evs "now - sw_window l"]
      by (simp add: sw_sweep_def sw_lookup_def Let_def map_of_filter_entry [OF assms(1)] w)
  qed
qed

lemma sw_lookup_new [simp]: "sw_lookup (new_sliding_window m w) key = []"
  by (simp add: sw_lookup_def new_sliding_window_def)

lemma map_fst_run: "map fst (run step v ts) = ts"
  by (induction ts arbitrary: v) (simp_all add: run_Cons del: run.simps(2))

lemma times_of_sorted: "sorted (map fst rs) \<Longrightarrow> sorted (times_of key rs)"
  by (induction rs) (auto simp: times_of_def)

lemma set_times_of: "set (times_of key rs) \<subseteq> fst ` set rs"
  by (auto simp: times_of_def)

section \<open>Properties\<close>

text \<open>
  C15: the sliding window keeps its promise over any history of calls with a monotone clock, for
  any mix of keys: in every interval of the window's length at most \<^verbatim>\<open>max\<close> calls with one key
  are allowed.
\<close>

theorem sliding_window_bound:
  assumes "0 \<le> w" "in_i64 w" "sorted (map fst rs)"
  shows "in_window w T (grants key (decisions sw_allow (new_sliding_window m w) rs)) \<le> nat m"
  using sw_run_bound [OF assms(2,1) times_of_sorted [OF assms(3)], of T m key]
  by (simp add: sw.grants_run sw_config_def new_sliding_window_def sw_lookup_def)

theorem sliding_window_bound_witness:
  "in_window 60 70 (grants ''a'' (decisions sw_allow (new_sliding_window 2 60)
     [(1, ''a''), (2, ''a''), (3, ''b''), (61, ''a''), (62, ''a'')])) \<le> nat 2"
  by (rule sliding_window_bound) (simp_all add: in_i64_def)

text \<open>
  C37: the fixed window allows, over any history of calls with a monotone clock, at most
  \<open>2 * max 1 m\<close> calls with one key in any interval of its length: \<open>max 1 m\<close> in each of the two
  windows the interval can touch.
\<close>

theorem fixed_window_bound:
  assumes "0 < w" "in_i64 w" "in_i64 m" "sorted (map fst rs)"
  shows "int (in_window w T (grants key (decisions fw_allow (new_fixed_window m w) rs))) \<le> 2 * max 1 m"
  using fw_run_bound [OF assms(3,2,1) times_of_sorted [OF assms(4)], of T key]
  by (simp add: fw.grants_run fw_config_def new_fixed_window_def)

theorem fixed_window_bound_witness:
  "int (in_window 60 70 (grants ''a'' (decisions fw_allow (new_fixed_window 1 60)
     [(1, ''a''), (2, ''a''), (61, ''a''), (62, ''a'')]))) \<le> 2 * max 1 1"
  by (rule fixed_window_bound) (simp_all add: in_i64_def)

text \<open>
  A fresh token bucket of an integral capacity \<open>n\<close> allows, at one instant, exactly the first
  \<open>n\<close> calls with a key and refuses the rest, whatever other keys do in between.
\<close>

theorem token_bucket_burst:
  assumes "1 \<le> n" "n < 2 ^ 53" "times_of key rs = replicate k t"
  shows "grants key (decisions tb_allow (new_token_bucket (of_int n) r) rs)
    = replicate (min (nat n) k) t"
proof -
  have g: "granted_times ds = replicate (length (filter id (map snd ds))) t"
    if "\<forall>d\<in>set ds. fst d = t" for ds :: "(time \<times> bool) list"
    using that by (induction ds) (auto simp: granted_times_def)
  let ?run = "run (tb_step (of_int n, r)) None (replicate k t)"
  have "map snd ?run = replicate (min (nat n) k) True @ replicate (k - nat n) False"
  proof (cases k)
    case (Suc j)
    have "nat n = Suc (nat (n - 1))" using assms(1) by simp
    then show ?thesis
      using tb_burst [of "n - 1" "of_int n" r t j] assms(1,2)
      by (simp add: Suc run_Cons tb_step.simps(1) fsub_int del: run.simps)
  qed simp
  moreover have "map fst ?run = replicate k t" by (rule map_fst_run)
  then have "\<forall>d\<in>set ?run. fst d = t"
    by (metis (no_types, lifting) in_set_replicate list.set_map rev_image_eqI)
  ultimately have "granted_times ?run = replicate (min (nat n) k) t"
    by (simp add: g)
  then show ?thesis by (simp add: tb.grants_run tb_config_def new_token_bucket_def assms(3))
qed

theorem token_bucket_burst_witness:
  "grants ''u'' (decisions tb_allow (new_token_bucket (of_int 2) 1)
     [(7, ''u''), (7, ''v''), (7, ''u''), (7, ''u'')]) = [7, 7]"
  using token_bucket_burst [of 2 "''u''" "[(7, ''u''), (7, ''v''), (7, ''u''), (7, ''u'')]" 3 7 1]
  by (simp add: times_of_def eval_nat_numeral)

text \<open>
  The level of every bucket stays between zero and the capacity over any history of calls
  with a monotone clock, in floating-point arithmetic: rounding never creates a negative level
  or an overfull bucket.
\<close>

theorem token_bucket_level:
  assumes "is_float c" "1 \<le> c" "0 \<le> r" "sorted (map fst rs)"
    and "map_of (tb_buckets (after tb_allow (new_token_bucket c r) rs)) key = Some st"
  shows "0 \<le> tokens st \<and> tokens st \<le> c"
proof -
  have "sorted ts \<Longrightarrow> tb_inv c (run_state (tb_step (c, r)) None ts)
      \<and> (case run_state (tb_step (c, r)) None ts of None \<Rightarrow> ts = [] | Some st \<Rightarrow> last_fill st = last ts)"
    for ts
  proof (induction ts rule: rev_induct)
    case (snoc t ts)
    have le: "sorted ts" "\<forall>s\<in>set ts. s \<le> t" using snoc.prems by (auto simp: sorted_append)
    let ?v = "run_state (tb_step (c, r)) None ts"
    note IH = snoc.IH [OF le(1)]
    have "ts \<noteq> []" if "?v \<noteq> None" using that by auto
    then have last: "case ?v of None \<Rightarrow> True | Some st \<Rightarrow> last_fill st \<le> t"
      using IH le(2) by (cases "?v") auto
    have filled: "case snd (tb_step (c, r) v t) of None \<Rightarrow> False | Some st \<Rightarrow> last_fill st = t" for v
      by (cases v) (auto simp: tb_step.simps Let_def)
    then have "case run_state (tb_step (c, r)) None (ts @ [t]) of None \<Rightarrow> ts @ [t] = []
        | Some st \<Rightarrow> last_fill st = last (ts @ [t])"
      using filled [of ?v] by (cases "snd (tb_step (c, r) ?v t)") (simp_all add: run_state_append)
    moreover have "tb_inv c (run_state (tb_step (c, r)) None (ts @ [t]))"
      unfolding run_state_append by (rule tb_inv_step) (use IH assms(1-3) last in simp_all)
    ultimately show ?case by (intro conjI)
  qed (simp add: tb_inv_def)
  from this [OF times_of_sorted [OF assms(4)], of key] assms(5) show ?thesis
    by (simp add: tb.after_view tb_config_def new_token_bucket_def tb_inv_def)
qed

theorem token_bucket_level_witness:
  "\<exists>st. map_of (tb_buckets (after tb_allow (new_token_bucket 3 1) [(5, ''u'')])) ''u'' = Some st
     \<and> 0 \<le> tokens st \<and> tokens st \<le> 3"
proof -
  let ?l = "after tb_allow (new_token_bucket 3 1) [(5, ''u'')]"
  have "\<exists>st. map_of (tb_buckets ?l) ''u'' = Some st"
    by (simp add: tb_allow_def new_token_bucket_def)
  then show ?thesis
    using token_bucket_level [of 3 1 "[(5, ''u'')]" "''u''"] is_float_of_int [of 3] by auto
qed

text \<open>
  The three limiters treat keys independently: what is allowed for one key is the same when
  every request with another key is dropped from the history.
\<close>

theorem limiters_isolate_keys:
  "grants key (decisions sw_allow s rs) = grants key (decisions sw_allow s (filter (\<lambda>r. snd r = key) rs))
   \<and> grants key (decisions fw_allow f rs) = grants key (decisions fw_allow f (filter (\<lambda>r. snd r = key) rs))
   \<and> grants key (decisions tb_allow b rs) = grants key (decisions tb_allow b (filter (\<lambda>r. snd r = key) rs))"
  by (intro conjI sw.key_isolation fw.key_isolation tb.key_isolation)

text \<open>
  sweeping is invisible to callers: after any history from a new limiter, a sweep at the
  present moment changes no later verdict, for the sliding and for the fixed window.
\<close>

theorem sweep_transparent:
  assumes "0 \<le> w" "in_i64 w" "sorted (map fst rs)" "\<forall>r\<in>set rs'. now \<le> fst r"
    and "s = after sw_allow (new_sliding_window m w) rs" "f = after fw_allow (new_fixed_window m w) rs"
  shows "grants key (decisions sw_allow (snd (sw_sweep s now)) rs') = grants key (decisions sw_allow s rs')
    \<and> grants key (decisions fw_allow (snd (fw_sweep f now)) rs') = grants key (decisions fw_allow f rs')"
proof
  have later: "now \<le> t" if "times_of key rs' = t # us" for t us
    using set_times_of [of key rs'] assms(4) that by auto
  have w: "sw_window s = w" "sw_config s = (m, w)"
    using sw.after_config [of "new_sliding_window m w" rs]
    by (simp_all add: assms(5) sw_config_def new_sliding_window_def)
  have "sorted (sw_lookup s key)"
    using sw_state_sorted [OF times_of_sorted [OF assms(3)], of "(m, w)" key]
    by (simp add: assms(5) sw.after_view) (simp add: sw_config_def new_sliding_window_def)
  moreover have "distinct (map fst (sw_events s))"
    unfolding assms(5) by (rule sw_distinct) (simp add: new_sliding_window_def)
  ultimately have v: "filter (\<lambda>x. now - w < x) (sw_lookup (snd (sw_sweep s now)) key)
      = filter (\<lambda>x. now - w < x) (sw_lookup s key)"
    using sw_swept_view [of s key now] assms(1,2) w by simp
  have "sw_config (snd (sw_sweep s now)) = (m, w)"
    using w by (simp add: sw_sweep_def sw_config_def Let_def)
  moreover have "run (sw_step (m, w)) (sw_lookup (snd (sw_sweep s now)) key) (times_of key rs')
      = run (sw_step (m, w)) (sw_lookup s key) (times_of key rs')"
    by (rule run_cong_first, rule sw_step_filter [OF assms(2,1) v]) (rule later)
  ultimately show "grants key (decisions sw_allow (snd (sw_sweep s now)) rs')
      = grants key (decisions sw_allow s rs')"
    by (simp add: sw.grants_run w)
next
  have later: "now \<le> t" if "times_of key rs' = t # us" for t us
    using set_times_of [of key rs'] assms(4) that by auto
  have c: "fw_window f = w" "fw_config f = (m, w)"
    using fw.after_config [of "new_fixed_window m w" rs]
    by (simp_all add: assms(6) fw_config_def new_fixed_window_def)
  have d: "distinct (map fst (fw_states f))"
    unfolding assms(6) by (rule fw_distinct) (simp add: new_fixed_window_def)
  have "i64 (- w) = - w" using assms(1,2) by (simp add: in_i64_def)
  then have v: "map_of (fw_states (snd (fw_sweep f now))) key = (case map_of (fw_states f) key of
      None \<Rightarrow> None | Some st \<Rightarrow> if now - w < window_start st then Some st else None)"
    using c by (simp add: fw_sweep_def Let_def map_of_filter_entry [OF d] split: option.split)
  have "fw_step (m, w) (map_of (fw_states (snd (fw_sweep f now))) key) t
      = fw_step (m, w) (map_of (fw_states f) key) t" if "now \<le> t" for t
    using that assms(1,2) by (auto simp: v fw_step.simps sub_time_ge in_i64_def split: option.splits)
  then have "run (fw_step (m, w)) (map_of (fw_states (snd (fw_sweep f now))) key) (times_of key rs')
      = run (fw_step (m, w)) (map_of (fw_states f) key) (times_of key rs')"
    using later by (intro run_cong_first) blast
  then show "grants key (decisions fw_allow (snd (fw_sweep f now)) rs')
      = grants key (decisions fw_allow f rs')"
    using c by (simp add: fw.grants_run) (simp add: fw_sweep_def fw_config_def Let_def)
qed

theorem sweep_transparent_witness:
  "grants ''a'' (decisions sw_allow (snd (sw_sweep (after sw_allow (new_sliding_window 1 60)
       [(1, ''a''), (2, ''b'')]) 61)) [(61, ''a'')])
   = grants ''a'' (decisions sw_allow (after sw_allow (new_sliding_window 1 60)
       [(1, ''a''), (2, ''b'')]) [(61, ''a'')])"
  by (rule sweep_transparent [THEN conjunct1, OF _ _ _ _ refl refl]) (simp_all add: in_i64_def)

end
