(* ===== verification/Srs.thy ===== *)
theory Srs
  imports Domain
begin

text \<open>
  \<^verbatim>\<open>internal/domain/srs\<close>: the grade of an answer and the SM-2 style scheduling step.
\<close>

type_synonym grade = int

definition grade_worst :: grade where "grade_worst = 0"
definition grade_fail :: grade where "grade_fail = 2"
definition grade_slow :: grade where "grade_slow = 3"
definition grade_good :: grade where "grade_good = 4"
definition grade_perfect :: grade where "grade_perfect = 5"

lemmas grade_defs = grade_worst_def grade_fail_def grade_slow_def grade_good_def grade_perfect_def

definition grade_from_result :: "bool \<Rightarrow> int \<Rightarrow> grade" where
  "grade_from_result correct duration_ms =
     (if \<not> correct then grade_worst
      else if duration_ms < 0 then grade_good
      else if duration_ms < 5000 then grade_perfect
      else if duration_ms < 15000 then grade_good
      else grade_slow)"

record srs_state =
  sr_user_id :: int
  sr_question_id :: int
  sr_efactor :: float64
  sr_interval_days :: int
  sr_repetitions :: int
  sr_due_at :: time
  sr_last_grade :: grade
  sr_updated_at :: time

definition new_state :: "time \<Rightarrow> srs_state" where
  "new_state now = \<lparr>sr_user_id = 0, sr_question_id = 0, sr_efactor = 5 / 2, sr_interval_days = 0,
     sr_repetitions = 0, sr_due_at = now, sr_last_grade = grade_worst, sr_updated_at = now\<rparr>"

text \<open>
  \<^verbatim>\<open>now.AddDate(0, 0, n)\<close> in UTC: the second count wraps around like the 64-bit arithmetic of
  \<^verbatim>\<open>time.Date\<close>.
\<close>

definition add_days :: "time \<Rightarrow> int \<Rightarrow> time" where
  "add_days now n = of_unix (i64 (unix now + 86400 * n)) + now mod second"

text \<open>The change of the ease factor, each operation rounded.\<close>

definition efactor_delta :: "grade \<Rightarrow> float64" where
  "efactor_delta g =
     fsub (rnd (1 / 10)) (fmul (float_of_int (5 - g))
       (fadd (rnd (8 / 100)) (fmul (float_of_int (5 - g)) (rnd (2 / 100)))))"

definition min_efactor :: float64 where
  "min_efactor = rnd (13 / 10)"

definition next_interval :: "srs_state \<Rightarrow> int" where
  "next_interval s =
     (if sr_repetitions s = 0 then 1
      else if sr_repetitions s = 1 then 6
      else int_of_float (round_away (fmul (float_of_int (sr_interval_days s)) (sr_efactor s))))"

definition next_efactor :: "float64 \<Rightarrow> grade \<Rightarrow> float64" where
  "next_efactor ef g =
     (let next = fadd ef (efactor_delta g) in if min_efactor < next then next else min_efactor)"

definition next_state :: "srs_state \<Rightarrow> grade \<Rightarrow> time \<Rightarrow> srs_state" where
  "next_state s g now =
     (let s1 = (if g < grade_slow then s\<lparr>sr_repetitions := 0, sr_interval_days := 1\<rparr>
                else s\<lparr>sr_interval_days := next_interval s,
                       sr_repetitions := i64 (sr_repetitions s + 1)\<rparr>);
          s2 = s1\<lparr>sr_efactor := next_efactor (sr_efactor s1) g\<rparr>
      in s2\<lparr>sr_due_at := add_days now (sr_interval_days s2), sr_last_grade := g,
            sr_updated_at := now\<rparr>)"

section \<open>Grades\<close>

lemma grade_from_result_values:
  "grade_from_result c d \<in> {grade_worst, grade_slow, grade_good, grade_perfect}"
  by (simp add: grade_from_result_def)

lemma grade_from_result_passes: "grade_slow \<le> grade_from_result c d \<longleftrightarrow> c"
  by (simp add: grade_from_result_def grade_defs)

lemma grade_from_result_antimono:
  "0 \<le> d \<Longrightarrow> d \<le> e \<Longrightarrow> grade_from_result c e \<le> grade_from_result c d"
  by (simp add: grade_from_result_def grade_defs)

section \<open>The ease factor\<close>

lemma min_efactor_le: "min_efactor \<le> next_efactor ef g"
  by (simp add: next_efactor_def Let_def)

lemma min_efactor_value: "min_efactor = dy 5854679515581645 (- 52)"
  by (simp add: min_efactor_def float_eval)

lemma min_efactor_bounds: "13 / 10 \<le> min_efactor" "min_efactor \<le> 131 / 100"
proof -
  have "min_efactor = 5854679515581645 / 4503599627370496"
    by (simp add: min_efactor_value dy_def power_int_def power_one_over inverse_eq_divide)
  then show "13 / 10 \<le> min_efactor" "min_efactor \<le> 131 / 100" by simp_all
qed

lemma efactor_delta_values:
  "efactor_delta 0 = dy (- 7205759403792793) (- 53)"
  "efactor_delta 1 = dy (- 4863887597560136) (- 53)"
  "efactor_delta 2 = dy (- 5764607523034236) (- 54)"
  "efactor_delta 3 = dy (- 5044031582654955) (- 55)"
  "efactor_delta 4 = dy 0 (- 56)"
  "efactor_delta 5 = dy 7205759403792794 (- 56)"
  by (simp_all add: efactor_delta_def float_eval)

definition is_grade :: "grade \<Rightarrow> bool" where
  "is_grade g \<longleftrightarrow> g \<in> {0, 1, 2, 3, 4, 5}"

lemma efactor_delta_le: "is_grade g \<Longrightarrow> efactor_delta g \<le> efactor_delta 5"
  by (auto simp: is_grade_def efactor_delta_values float_eval)

lemma efactor_delta_sign:
  "is_grade g \<Longrightarrow> 4 \<le> g \<Longrightarrow> 0 \<le> efactor_delta g"
  "is_grade g \<Longrightarrow> g < 4 \<Longrightarrow> efactor_delta g < 0"
  using dy_le [of 0 0] dy_less [of _ _ 0 0]
  by (auto simp: is_grade_def efactor_delta_values dy_neg) (simp_all add: dy_def)

lemma next_efactor_mono:
  "is_grade g \<Longrightarrow> ef \<le> e \<Longrightarrow> min_efactor \<le> fadd e (efactor_delta 5)
   \<Longrightarrow> next_efactor ef g \<le> fadd e (efactor_delta 5)"
  using efactor_delta_le [of g] by (auto simp: next_efactor_def Let_def fadd_def intro!: rnd_mono)

section \<open>Intervals\<close>

lemma next_interval_grows:
  assumes n: "2 \<le> sr_interval_days s" "sr_interval_days s < 2 ^ 50"
    and e: "min_efactor \<le> sr_efactor s" "sr_efactor s \<le> 1000" and r: "2 \<le> sr_repetitions s"
  shows "sr_interval_days s < next_interval s"
proof -
  let ?n = "sr_interval_days s" and ?e = "sr_efactor s"
  have e13: "13 / 10 \<le> ?e" using min_efactor_bounds(1) e(1) by simp
  have n2: "2 \<le> (of_int ?n :: rat)" "(of_int ?n :: rat) \<le> of_int (2 ^ 50)"
  proof -
    have "of_int 2 \<le> (of_int ?n :: rat)" using n(1) by (rule iffD2 [OF of_int_le_iff])
    then show "2 \<le> (of_int ?n :: rat)" by simp
    show "(of_int ?n :: rat) \<le> of_int (2 ^ 50)" using n(2) by (intro iffD2 [OF of_int_le_iff]) simp
  qed
  have half: "dy (2 * ?n + 1) (- 1) = of_int ?n + 1 / 2"
    by (simp add: dy_def power_int_def field_simps)
  have "of_int ?n * (13 / 10) \<le> of_int ?n * ?e"
    using e13 n2 by (intro mult_left_mono) simp_all
  then have "dy (2 * ?n + 1) (- 1) \<le> of_int ?n * ?e"
    using n2 unfolding half by linarith
  then have "rnd (dy (2 * ?n + 1) (- 1)) \<le> fmul (float_of_int ?n) ?e"
    using n by (simp add: fmul_def float_of_int_exact rnd_mono)
  moreover have "rnd (dy (2 * ?n + 1) (- 1)) = dy (2 * ?n + 1) (- 1)"
    by (rule rnd_dy_exact) (use n in simp)
  ultimately have half_le: "of_int ?n + 1 / 2 \<le> fmul (float_of_int ?n) ?e"
    by (simp only: half)
  then have "of_int (?n + 1) \<le> fmul (float_of_int ?n) ?e + 1 / 2" by simp
  then have "?n + 1 \<le> \<lfloor>fmul (float_of_int ?n) ?e + 1 / 2\<rfloor>" by (simp only: le_floor_iff)
  then have lo: "of_int (?n + 1) \<le> round_away (fmul (float_of_int ?n) ?e)"
    using n2 half_le unfolding round_away_def of_int_le_iff by simp
  have "of_int ?n * ?e \<le> of_int (2 ^ 50) * 1000"
    using n2 e e13 by (intro mult_mono) simp_all
  also have "\<dots> \<le> 2 powi 60" by (simp add: power_int_def)
  finally have "rnd (of_int ?n * ?e) \<le> rnd (2 powi 60)" by (rule rnd_mono)
  moreover have "float_of_int ?n = of_int ?n" by (rule float_of_int_exact) (use n in simp)
  ultimately have "fmul (float_of_int ?n) ?e \<le> 2 powi 60" by (simp only: fmul_def rnd_powi)
  then have "round_away (fmul (float_of_int ?n) ?e) \<le> round_away (of_int (2 ^ 60))"
    by (intro round_away_mono) (simp add: power_int_def)
  then have hi: "round_away (fmul (float_of_int ?n) ?e) \<le> of_int (2 ^ 60)"
    by (simp only: round_away_of_int)
  have "?n + 1 \<le> int_of_float (round_away (fmul (float_of_int ?n) ?e))"
    by (rule int_of_round_bounds(1) [OF lo hi]) (use n in simp_all)
  then show ?thesis using r by (simp add: next_interval_def)
qed

section \<open>Review histories\<close>

definition review :: "srs_state \<Rightarrow> (grade \<times> time) list \<Rightarrow> srs_state" where
  "review = foldl (\<lambda>s (g, now). next_state s g now)"

lemma review_simps [simp]:
  "review s [] = s" "review s ((g, now) # hs) = review (next_state s g now) hs"
  "review s (hs @ [(g, now)]) = next_state (review s hs) g now"
  by (simp_all add: review_def)

lemma next_state_fields:
  "sr_interval_days (next_state s g now) = (if g < grade_slow then 1 else next_interval s)"
  "sr_repetitions (next_state s g now) = (if g < grade_slow then 0 else i64 (sr_repetitions s + 1))"
  "sr_efactor (next_state s g now) = next_efactor (sr_efactor s) g"
  "sr_due_at (next_state s g now) = add_days now (if g < grade_slow then 1 else next_interval s)"
  "sr_last_grade (next_state s g now) = g"
  "sr_updated_at (next_state s g now) = now"
  "sr_user_id (next_state s g now) = sr_user_id s"
  "sr_question_id (next_state s g now) = sr_question_id s"
  by (simp_all add: next_state_def Let_def)

lemma review_efactor: "min_efactor \<le> sr_efactor s \<Longrightarrow> min_efactor \<le> sr_efactor (review s hs)"
  by (induction hs rule: rev_induct) (auto simp: next_state_fields min_efactor_le)

lemma add_days_eq:
  "in_i64 (unix now + 86400 * n) \<Longrightarrow> add_days now n = now + 86400 * n * second"
  by (simp add: add_days_def unix_def of_unix_def algebra_simps)

text \<open>
  A perfect run dominates every other history.  \<open>perfect_ok k e n\<close> checks that the next
  \<open>k\<close> perfect answers from ease \<open>e\<close> and interval \<open>n\<close> keep the interval growing, inside the
  64-bit range, and end at \<open>max_interval\<close> at most.
\<close>

definition max_interval :: int where "max_interval = 90107140251106"

definition grown :: "float64 \<Rightarrow> int \<Rightarrow> float64" where
  "grown e n = round_away (fmul (float_of_int n) e)"

fun perfect_ok :: "nat \<Rightarrow> float64 \<Rightarrow> int \<Rightarrow> bool" where
  "perfect_ok 0 e n \<longleftrightarrow> n \<le> max_interval"
| "perfect_ok (Suc k) e n \<longleftrightarrow> grown e n \<le> dy 1 62 \<and> n \<le> int_of_float (grown e n) \<and>
     min_efactor \<le> fadd e (efactor_delta 5) \<and>
     perfect_ok k (fadd e (efactor_delta 5)) (int_of_float (grown e n))"

lemma perfect_run_23: "perfect_ok 23 (dy 6079859496950170 (- 51)) 6"
  by (simp add: eval_nat_numeral grown_def float_eval efactor_delta_values max_interval_def
      min_efactor_value)

lemma perfect_ok_le: "perfect_ok k e n \<Longrightarrow> n \<le> max_interval"
  by (induction k arbitrary: e n) (simp, fastforce)

lemma float_of_int_mono: "a \<le> b \<Longrightarrow> float_of_int a \<le> float_of_int b"
  by (simp add: float_of_int_def rnd_mono)

lemma float_of_int_nonneg: "0 \<le> a \<Longrightarrow> 0 \<le> float_of_int a"
  by (simp add: float_of_int_def rnd_nonneg)

lemma grown_mono:
  assumes "0 \<le> m" "m \<le> n" "0 \<le> f" "f \<le> e"
  shows "grown f m \<le> grown e n"
  unfolding grown_def fmul_def using assms
  by (intro round_away_mono rnd_mono mult_mono float_of_int_mono float_of_int_nonneg) auto

lemma grown_ge_1:
  assumes "1 \<le> m" "1 \<le> f"
  shows "of_int 1 \<le> grown f m"
proof -
  have "float_of_int 1 \<le> float_of_int m" using assms(1) by (rule float_of_int_mono)
  then have m: "1 \<le> float_of_int m" by (simp add: float_of_int_exact)
  then have "1 * 1 \<le> float_of_int m * f" using assms(2) by (intro mult_mono) auto
  then have "rnd (of_int 1) \<le> rnd (float_of_int m * f)" by (intro rnd_mono) simp
  then have "of_int 1 \<le> fmul (float_of_int m) f" by (simp add: fmul_def rnd_of_int)
  then have "round_away (of_int 1) \<le> grown f m" unfolding grown_def by (rule round_away_mono)
  then show ?thesis by (simp only: round_away_of_int)
qed

lemma next_interval_bounds:
  assumes s: "0 \<le> sr_repetitions s"
    "1 \<le> sr_interval_days s \<or> sr_interval_days s = 0 \<and> sr_repetitions s = 0"
    "sr_interval_days s \<le> n" "min_efactor \<le> sr_efactor s" "sr_efactor s \<le> e"
    and n: "6 \<le> n" "grown e n \<le> dy 1 62" "n \<le> int_of_float (grown e n)"
  shows "1 \<le> next_interval s \<and> next_interval s \<le> int_of_float (grown e n)"
proof (cases "sr_repetitions s = 0 \<or> sr_repetitions s = 1")
  case True
  with n show ?thesis by (auto simp: next_interval_def)
next
  case False
  then have r: "2 \<le> sr_repetitions s" and i: "1 \<le> sr_interval_days s" using s by auto
  have f: "1 \<le> sr_efactor s" using s(4) min_efactor_bounds(1) by simp
  have lo: "of_int 1 \<le> grown (sr_efactor s) (sr_interval_days s)" by (rule grown_ge_1 [OF i f])
  have le: "grown (sr_efactor s) (sr_interval_days s) \<le> grown e n"
    using i s(3,5) f by (intro grown_mono) simp_all
  have "dy 1 62 = of_int (2 ^ 62)" by (simp add: dy_def power_int_def)
  then have "(of_int (trunc (grown e n)) :: rat) \<le> of_int (2 ^ 62)"
    and "of_int 1 \<le> (of_int (trunc (grown e n)) :: rat)"
    using n(2) lo le round_away_is_int by (simp_all add: grown_def)
  then have "trunc (grown e n) \<le> 2 ^ 62" "1 \<le> trunc (grown e n)"
    by (simp_all only: of_int_le_iff)
  then have "in_i64 (trunc (grown e n))" and b: "trunc (grown e n) < 2 ^ 63"
    by (simp_all add: in_i64_def)
  then have t: "int_of_float (grown e n) = trunc (grown e n)" by (simp add: int_of_float_def)
  have hi: "grown (sr_efactor s) (sr_interval_days s) \<le> of_int (trunc (grown e n))"
    using le round_away_is_int by (simp add: grown_def)
  have "1 \<le> int_of_float (grown (sr_efactor s) (sr_interval_days s))"
    "int_of_float (grown (sr_efactor s) (sr_interval_days s)) \<le> trunc (grown e n)"
    using int_of_round_bounds [OF lo [unfolded grown_def] hi [unfolded grown_def]] b
    unfolding grown_def by simp_all
  with r t show ?thesis by (simp add: next_interval_def grown_def)
qed

lemma review_dominated:
  "perfect_ok k e n \<Longrightarrow> 6 \<le> n \<Longrightarrow> length hs \<le> k \<Longrightarrow> \<forall>h\<in>set hs. is_grade (fst h) \<Longrightarrow>
   0 \<le> sr_repetitions s \<Longrightarrow> sr_repetitions s + int k < 2 ^ 62 \<Longrightarrow>
   1 \<le> sr_interval_days s \<Longrightarrow> sr_interval_days s \<le> n \<Longrightarrow>
   min_efactor \<le> sr_efactor s \<Longrightarrow> sr_efactor s \<le> e \<Longrightarrow>
   1 \<le> sr_interval_days (review s hs) \<and> sr_interval_days (review s hs) \<le> max_interval"
proof (induction hs arbitrary: s k e n)
  case Nil
  then show ?case using perfect_ok_le [of k e n] by simp
next
  case (Cons h hs)
  obtain g now where h: "h = (g, now)" by fastforce
  obtain k' where k: "k = Suc k'" using Cons.prems(3) by (cases k) auto
  let ?s = "next_state s g now" and ?e = "fadd e (efactor_delta 5)" and ?n = "int_of_float (grown e n)"
  have g: "is_grade g" using Cons.prems(4) by (simp add: h)
  have ok: "grown e n \<le> dy 1 62" "n \<le> ?n" "min_efactor \<le> ?e" "perfect_ok k' ?e ?n"
    using Cons.prems(1) by (simp_all add: k)
  have iv: "1 \<le> next_interval s" "next_interval s \<le> ?n"
    using next_interval_bounds [of s n e] Cons.prems ok by simp_all
  have ef: "next_efactor (sr_efactor s) g \<le> ?e"
    by (rule next_efactor_mono [OF g Cons.prems(10) ok(3)])
  have reps: "i64 (sr_repetitions s + 1) = sr_repetitions s + 1"
    using Cons.prems(5,6) by (simp add: in_i64_def k)
  have "1 \<le> sr_interval_days (review ?s hs) \<and> sr_interval_days (review ?s hs) \<le> max_interval"
  proof (rule Cons.IH [OF ok(4)])
    show "6 \<le> ?n" using ok(2) Cons.prems(2) by simp
    show "length hs \<le> k'" "\<forall>h\<in>set hs. is_grade (fst h)"
      using Cons.prems(3,4) by (simp_all add: k)
    show "0 \<le> sr_repetitions ?s" "sr_repetitions ?s + int k' < 2 ^ 62"
      using Cons.prems(5,6) by (simp_all add: next_state_fields reps k)
    show "1 \<le> sr_interval_days ?s" "sr_interval_days ?s \<le> ?n"
      using iv ok(2) Cons.prems(2) by (simp_all add: next_state_fields)
    show "min_efactor \<le> sr_efactor ?s" "sr_efactor ?s \<le> ?e"
      using ef by (simp_all add: next_state_fields min_efactor_le)
  qed
  then show ?case by (simp add: h)
qed

lemma new_state_efactor:
  assumes "is_grade g" "is_grade g'"
  shows "next_efactor (5 / 2) g \<le> dy 6079859496950170 (- 51)"
    and "next_efactor (next_efactor (5 / 2) g) g' \<le> dy 6079859496950170 (- 51)"
proof -
  have e: "(5 / 2 :: rat) = dy 5 (- 1)" by (simp add: dy_def power_int_def)
  have 1: "next_efactor (5 / 2) g \<le> fadd (dy 5 (- 1)) (efactor_delta 5)"
    unfolding e using assms(1)
    by (rule next_efactor_mono) (simp_all add: efactor_delta_values float_eval min_efactor_value)
  then show "next_efactor (5 / 2) g \<le> dy 6079859496950170 (- 51)"
    by (rule order_trans) (simp add: efactor_delta_values float_eval)
  have "next_efactor (next_efactor (5 / 2) g) g'
      \<le> fadd (fadd (dy 5 (- 1)) (efactor_delta 5)) (efactor_delta 5)"
    using assms(2) 1
    by (rule next_efactor_mono) (simp_all add: efactor_delta_values float_eval min_efactor_value)
  then show "next_efactor (next_efactor (5 / 2) g) g' \<le> dy 6079859496950170 (- 51)"
    by (rule order_trans) (simp add: efactor_delta_values float_eval)
qed

lemma review_interval:
  assumes "hs \<noteq> []" "length hs \<le> 25" "\<forall>h\<in>set hs. is_grade (fst h)"
  shows "1 \<le> sr_interval_days (review (new_state t) hs)
       \<and> sr_interval_days (review (new_state t) hs) \<le> max_interval"
proof -
  obtain g now hs1 where hs: "hs = (g, now) # hs1" using assms(1) by (cases hs) auto
  have new: "sr_repetitions (new_state t) = 0" "sr_efactor (new_state t) = 5 / 2"
    by (simp_all add: new_state_def)
  let ?s = "next_state (new_state t) g now"
  have g: "is_grade g" using assms(3) by (simp add: hs)
  show ?thesis
  proof (cases hs1)
    case Nil
    then show ?thesis
      by (simp add: hs next_state_fields next_interval_def new max_interval_def)
  next
    case (Cons h hs2)
    obtain g' now' where h: "h = (g', now')" by fastforce
    let ?s2 = "next_state ?s g' now'"
    have g': "is_grade g'" using assms(3) by (simp add: hs Cons h)
    have r1: "sr_repetitions ?s = 0 \<or> sr_repetitions ?s = 1"
      by (simp add: next_state_fields new i64_def)
    then have r2: "0 \<le> sr_repetitions ?s2 \<and> sr_repetitions ?s2 \<le> 2"
      by (auto simp: next_state_fields [of ?s] i64_def)
    have i2: "1 \<le> sr_interval_days ?s2 \<and> sr_interval_days ?s2 \<le> 6"
      using r1 by (auto simp: next_state_fields [of ?s] next_interval_def)
    have "1 \<le> sr_interval_days (review ?s2 hs2) \<and> sr_interval_days (review ?s2 hs2) \<le> max_interval"
      by (rule review_dominated [OF perfect_run_23])
        (use assms(2,3) r2 i2 new_state_efactor(2) [OF g g'] in
          \<open>simp_all add: hs Cons h next_state_fields(3) min_efactor_le new\<close>)
    then show ?thesis by (simp add: hs Cons h)
  qed
qed

text \<open>A run of perfect answers, on the fields that evolve.\<close>

fun perfect_run :: "nat \<Rightarrow> float64 \<times> int \<Rightarrow> float64 \<times> int" where
  "perfect_run 0 (e, n) = (e, n)"
| "perfect_run (Suc k) (e, n) = perfect_run k (fadd e (efactor_delta 5), int_of_float (grown e n))"

lemma perfect_rises:
  assumes "min_efactor \<le> e"
  shows "min_efactor < fadd e (efactor_delta 5)"
proof -
  have "min_efactor < fadd min_efactor (efactor_delta 5)"
    by (simp add: min_efactor_value efactor_delta_values float_eval)
  also have "\<dots> \<le> fadd e (efactor_delta 5)"
    unfolding fadd_def by (rule rnd_mono) (simp add: assms)
  finally show ?thesis .
qed

lemma perfect_run_review:
  "2 \<le> sr_repetitions s \<Longrightarrow> sr_repetitions s + int k < 2 ^ 62 \<Longrightarrow> min_efactor \<le> sr_efactor s \<Longrightarrow>
   perfect_run k (sr_efactor s, sr_interval_days s) =
     (let s' = review s (replicate k (grade_perfect, t)) in (sr_efactor s', sr_interval_days s'))"
proof (induction k arbitrary: s)
  case (Suc k)
  let ?s = "next_state s grade_perfect t"
  have r: "sr_repetitions ?s = sr_repetitions s + 1"
    using Suc.prems(1,2) by (simp add: next_state_fields grade_defs in_i64_def)
  have e: "sr_efactor ?s = fadd (sr_efactor s) (efactor_delta 5)"
    using perfect_rises [OF Suc.prems(3)]
    by (simp add: next_state_fields next_efactor_def grade_defs Let_def)
  have n: "sr_interval_days ?s = int_of_float (grown (sr_efactor s) (sr_interval_days s))"
    using Suc.prems(1) by (simp add: next_state_fields next_interval_def grown_def grade_defs)
  have "min_efactor \<le> sr_efactor ?s" using perfect_rises [OF Suc.prems(3)] by (simp add: e less_imp_le)
  then show ?case using Suc.IH [of ?s] Suc.prems r by (simp add: e n)
qed (simp add: Let_def)

lemma perfect_run_values:
  "snd (perfect_run 23 (dy 6079859496950170 (- 51), 6)) = max_interval"
  "snd (perfect_run 25 (dy 6079859496950170 (- 51), 6)) = 2297732076403202"
  "snd (perfect_run 30 (dy 6079859496950170 (- 51), 6)) = - (2 ^ 63)"
  by (simp_all add: eval_nat_numeral grown_def float_eval efactor_delta_values max_interval_def)

lemma perfect_reviews:
  assumes "k < 2 ^ 20"
  shows "sr_interval_days (review (new_state t) (replicate (Suc (Suc k)) (grade_perfect, t)))
    = snd (perfect_run k (dy 6079859496950170 (- 51), 6))"
proof -
  have h: "(5 / 2 :: rat) = dy 5 (- 1)" by (simp add: dy_def power_int_def)
  let ?s = "next_state (next_state (new_state t) grade_perfect t) grade_perfect t"
  have s: "sr_repetitions ?s = 2" "sr_interval_days ?s = 6"
      "sr_efactor ?s = dy 6079859496950170 (- 51)"
    by (simp_all add: next_state_fields new_state_def grade_defs i64_def next_interval_def h
        next_efactor_def efactor_delta_values min_efactor_value float_eval)
  then show ?thesis
    using perfect_run_review [of ?s k t] assms
    by (simp add: Let_def min_efactor_value float_eval prod_eq_iff)
qed

section \<open>Properties\<close>

text \<open>
  C14: every review history of at most 25 answers keeps the schedule sane: after its last answer
  the ease factor is at least 1.3, the interval is between one day and \<open>max_interval\<close> days, and
  the question falls due exactly that many days later, never before the answer.  The bound is
  tight: a run of 25 perfect answers reaches it, whenever they are given.
\<close>

theorem srs_schedule_safe:
  assumes "length hs \<le> 24" "\<forall>h\<in>set hs. is_grade (fst h)" "is_grade g"
    and "0 \<le> unix now" "unix now < 2 ^ 60"
    and "s = review (new_state t) (hs @ [(g, now)])"
  shows "min_efactor \<le> sr_efactor s \<and> 1 \<le> sr_interval_days s \<and> sr_interval_days s \<le> max_interval
    \<and> sr_due_at s = now + 86400 * sr_interval_days s * second \<and> now < sr_due_at s
    \<and> sr_interval_days (review (new_state t') (replicate 25 (grade_perfect, t'))) = max_interval"
proof -
  have 25: "(25 :: nat) = Suc (Suc 23)" by simp
  have tight: "sr_interval_days (review (new_state t') (replicate 25 (grade_perfect, t'))) = max_interval"
    using perfect_reviews [of 23 t'] perfect_run_values(1) unfolding 25 by simp
  have iv: "1 \<le> sr_interval_days s \<and> sr_interval_days s \<le> max_interval"
    unfolding assms(6) by (rule review_interval) (use assms(1-3) in auto)
  then have "in_i64 (unix now + 86400 * sr_interval_days s)"
    using assms(4,5) by (simp add: in_i64_def max_interval_def)
  then have "sr_due_at s = now + 86400 * sr_interval_days s * second"
    by (simp add: assms(6) next_state_fields(1,4) add_days_eq split: if_splits)
  with iv tight show ?thesis by (simp add: assms(6) next_state_fields(3) min_efactor_le)
qed

theorem srs_schedule_safe_witness:
  "min_efactor \<le> sr_efactor (review (new_state 0) ([(5, 0), (4, 0)] @ [(3, 1000000000)]))
   \<and> sr_interval_days (review (new_state 0) (replicate 25 (grade_perfect, 0))) = max_interval"
  using srs_schedule_safe [of "[(5, 0), (4, 0)]" 3 1000000000 _ 0 0, OF _ _ _ _ _ refl]
  by (simp add: is_grade_def unix_def)

text \<open>
  Once a question has been passed twice, another pass strictly lengthens its interval (for
  intervals below 2^50 days and ease factors up to 1000); a failure resets the ladder to one day
  and zero repetitions.
\<close>

theorem srs_interval_ladder:
  assumes "2 \<le> sr_repetitions s" "2 \<le> sr_interval_days s" "sr_interval_days s < 2 ^ 50"
    and "min_efactor \<le> sr_efactor s" "sr_efactor s \<le> 1000"
  shows "if grade_slow \<le> g then sr_interval_days s < sr_interval_days (next_state s g now)
    else sr_interval_days (next_state s g now) = 1 \<and> sr_repetitions (next_state s g now) = 0"
  using next_interval_grows [OF assms(2,3,4,5,1)] by (simp add: next_state_fields)

theorem srs_interval_ladder_witness:
  "if grade_slow \<le> 4 then 6 < sr_interval_days (next_state ((new_state 0)\<lparr>sr_repetitions := 2,
     sr_interval_days := 6\<rparr>) 4 0) else False"
  using srs_interval_ladder [of "(new_state 0)\<lparr>sr_repetitions := 2, sr_interval_days := 6\<rparr>" 4 0]
    min_efactor_bounds by (simp add: new_state_def grade_defs)

text \<open>
  The interval is not bounded by the code.  After 27 perfect answers in a row the day count
  no longer fits the clock and the question is due before the answer itself; after 32 the
  conversion to an integer overflows and the interval is the least 64-bit integer.
\<close>

theorem srs_overflow:
  assumes "0 \<le> unix t" "unix t < 2 ^ 60"
  shows "sr_due_at (review (new_state t) (replicate 27 (grade_perfect, t))) < t
    \<and> sr_interval_days (review (new_state t) (replicate 32 (grade_perfect, t))) = - (2 ^ 63)"
proof -
  have 27: "(27 :: nat) = Suc (Suc 25)" and 32: "(32 :: nat) = Suc (Suc 30)" by simp_all
  let ?s = "review (new_state t) (replicate 26 (grade_perfect, t))"
  have app: "replicate 27 (grade_perfect, t) = replicate 26 (grade_perfect, t) @ [(grade_perfect, t)]"
    by (simp add: replicate_append_same [symmetric] eval_nat_numeral)
  have iv: "sr_interval_days (next_state ?s grade_perfect t) = 2297732076403202"
    using perfect_reviews [of 25 t] perfect_run_values(2) unfolding 27 [symmetric] app by simp
  have "i64 (unix t + 86400 * 2297732076403202) = unix t + 86400 * 2297732076403202 - 2 ^ 64 * 11"
    by (rule i64_shift) (use assms in \<open>simp add: in_i64_def\<close>)
  then have "add_days t 2297732076403202 < t"
    unfolding add_days_def by (intro of_unix_less) simp
  moreover have "sr_due_at (next_state ?s grade_perfect t) = add_days t 2297732076403202"
    using iv by (simp only: next_state_fields)
  moreover have "sr_interval_days (review (new_state t) (replicate 32 (grade_perfect, t))) = - (2 ^ 63)"
    using perfect_reviews [of 30 t] perfect_run_values(3) unfolding 32 [symmetric] by simp
  ultimately show ?thesis unfolding app by (simp only: review_simps simp_thms)
qed

theorem srs_overflow_witness:
  "sr_due_at (review (new_state 0) (replicate 27 (grade_perfect, 0))) < 0"
  using srs_overflow [of 0] by (simp add: unix_def )

end
