(* ===== verification/Ports.thy ===== *)
theory Ports
  imports Srs GoText
begin

text \<open>
  The interfaces of \<^verbatim>\<open>internal/port\<close>: each is a record of operations over the state \<open>'s\<close> of the
  implementation, as an interface value is in the code, and a locale states what its callers
  rely on.  An operation returns its result and the state it leaves; the context argument of the
  code carries cancellation only, which shows up as an error of the operation.
\<close>

section \<open>Records of operations\<close>

record 's user_port =
  usr_create :: "user \<Rightarrow> 's \<Rightarrow> user res \<times> 's"
  usr_find_by_username :: "string \<Rightarrow> 's \<Rightarrow> user res \<times> 's"
  usr_find_by_id :: "int \<Rightarrow> 's \<Rightarrow> user res \<times> 's"
  usr_update_password :: "int \<Rightarrow> string \<Rightarrow> string \<Rightarrow> string \<Rightarrow> time \<Rightarrow> 's \<Rightarrow> unit res \<times> 's"

record 's session_port =
  ses_create :: "session \<Rightarrow> 's \<Rightarrow> session res \<times> 's"
  ses_find_by_id :: "string \<Rightarrow> 's \<Rightarrow> session res \<times> 's"
  ses_touch :: "string \<Rightarrow> time \<Rightarrow> 's \<Rightarrow> unit res \<times> 's"
  ses_delete :: "string \<Rightarrow> 's \<Rightarrow> unit res \<times> 's"
  ses_delete_all_for_user :: "int \<Rightarrow> 's \<Rightarrow> unit res \<times> 's"
  ses_delete_all_for_user_except :: "int \<Rightarrow> string \<Rightarrow> 's \<Rightarrow> unit res \<times> 's"
  ses_purge_expired :: "time \<Rightarrow> 's \<Rightarrow> int res \<times> 's"

record 's jwt_revocation_port =
  jrv_revoke :: "string \<Rightarrow> int \<Rightarrow> time \<Rightarrow> 's \<Rightarrow> unit res \<times> 's"
  jrv_is_revoked :: "string \<Rightarrow> 's \<Rightarrow> bool res \<times> 's"
  jrv_revoke_all_for_user :: "int \<Rightarrow> time \<Rightarrow> 's \<Rightarrow> unit res \<times> 's"
  jrv_purge_expired :: "time \<Rightarrow> 's \<Rightarrow> int res \<times> 's"

record 's question_port =
  qst_get_by_id :: "int \<Rightarrow> 's \<Rightarrow> question res \<times> 's"
  qst_get_by_code :: "string \<Rightarrow> 's \<Rightarrow> question res \<times> 's"
  qst_list_by_set :: "string \<Rightarrow> 's \<Rightarrow> question list res \<times> 's"
  qst_search :: "question_filter \<Rightarrow> 's \<Rightarrow> question list res \<times> 's"

record 's topic_port =
  tpc_list_all :: "'s \<Rightarrow> topic list res \<times> 's"

record 's set_port =
  set_get_by_code :: "string \<Rightarrow> 's \<Rightarrow> question_set res \<times> 's"
  set_list_all :: "'s \<Rightarrow> question_set list res \<times> 's"

record 's attempt_port =
  att_create :: "attempt \<Rightarrow> 's \<Rightarrow> attempt res \<times> 's"
  att_list_by_user :: "int \<Rightarrow> int \<Rightarrow> int \<Rightarrow> 's \<Rightarrow> attempt list res \<times> 's"
  att_delete_by_id :: "int \<Rightarrow> int \<Rightarrow> 's \<Rightarrow> unit res \<times> 's"
  att_delete_all_for_user :: "int \<Rightarrow> 's \<Rightarrow> unit res \<times> 's"
  att_stats_by_topic :: "int \<Rightarrow> 's \<Rightarrow> topic_stat list res \<times> 's"
  att_daily_accuracy :: "int \<Rightarrow> int \<Rightarrow> time \<Rightarrow> 's \<Rightarrow> daily_accuracy list res \<times> 's"
  att_summary_for_user :: "int \<Rightarrow> 's \<Rightarrow> (int \<times> int) res \<times> 's"
  att_last_question_id_in_set :: "int \<Rightarrow> int \<Rightarrow> 's \<Rightarrow> int res \<times> 's"
  att_weak_topic_ids :: "int \<Rightarrow> time \<Rightarrow> int \<Rightarrow> 's \<Rightarrow> int list res \<times> 's"
  att_attempted_question_ids :: "int \<Rightarrow> 's \<Rightarrow> int list res \<times> 's"

record 's user_prefs_port =
  prf_get :: "int \<Rightarrow> 's \<Rightarrow> user_prefs res \<times> 's"
  prf_upsert :: "user_prefs \<Rightarrow> 's \<Rightarrow> unit res \<times> 's"

record 's srs_state_port =
  srs_upsert :: "srs_state \<Rightarrow> 's \<Rightarrow> unit res \<times> 's"
  srs_due_for_user :: "int \<Rightarrow> time \<Rightarrow> int \<Rightarrow> 's \<Rightarrow> srs_state list res \<times> 's"
  srs_get :: "int \<Rightarrow> int \<Rightarrow> 's \<Rightarrow> srs_state res \<times> 's"
  srs_delete_all_for_user :: "int \<Rightarrow> 's \<Rightarrow> unit res \<times> 's"
  srs_count_due_for_user :: "int \<Rightarrow> time \<Rightarrow> 's \<Rightarrow> int res \<times> 's"

text \<open>A source of random tokens; each call is given its own random bytes.\<close>

record id_generator =
  gen_token :: "(int \<Rightarrow> string res) \<Rightarrow> int \<Rightarrow> string res"
  gen_uuid :: "(int \<Rightarrow> string res) \<Rightarrow> string res"

record password_hasher =
  hash_plain :: "(int \<Rightarrow> string res) \<Rightarrow> string \<Rightarrow> (string \<times> string \<times> string) res"
  verify_plain :: "string \<Rightarrow> string \<Rightarrow> string \<Rightarrow> string \<Rightarrow> bool res"

record jwt_signer =
  sign_claims :: "jwt_claims \<Rightarrow> string res"
  parse_token :: "time \<Rightarrow> string \<Rightarrow> jwt_claims res"

section \<open>Contracts\<close>

text \<open>What a time column keeps: whole seconds.\<close>

definition secs :: "time \<Rightarrow> time" where
  "secs t = of_unix (unix t)"

lemma unix_secs [simp]: "unix (secs t) = unix t"
  by (simp add: secs_def)

lemma secs_secs [simp]: "secs (secs t) = secs t"
  by (simp add: secs_def)

text \<open>The \<^verbatim>\<open>NOCASE\<close> collation of user names folds the ASCII letters.\<close>

definition nocase :: "string \<Rightarrow> int list" where
  "nocase s = map (\<lambda>c. let b = byte c in if 0x41 \<le> b \<and> b \<le> 0x5A then b + 0x20 else b) s"

definition stored_user :: "user \<Rightarrow> user" where
  "stored_user u = u\<lparr>u_password_updated_at := secs (u_password_updated_at u),
     u_created_at := secs (u_created_at u), u_updated_at := secs (u_updated_at u)\<rparr>"

definition with_password :: "string \<Rightarrow> string \<Rightarrow> string \<Rightarrow> time \<Rightarrow> user \<Rightarrow> user" where
  "with_password hash salt params stamp u = u\<lparr>u_password_hash := hash, u_password_salt := salt,
     u_password_params := params, u_password_updated_at := secs stamp, u_updated_at := secs stamp\<rparr>"

text \<open>
  The accounts by id.  Every operation either reports an error and leaves them alone or does
  what it says; names are unique up to case.
\<close>

locale user_repository =
  fixes repo :: "'s user_port" and account :: "'s \<Rightarrow> int \<Rightarrow> user option" and ok :: "'s \<Rightarrow> bool"
  assumes create_error:
      "ok s \<Longrightarrow> usr_create repo u s = (Inl e, s') \<Longrightarrow> ok s' \<and> account s' = account s"
    and create_done:
      "ok s \<Longrightarrow> usr_create repo u s = (Inr v, s') \<Longrightarrow>
       ok s' \<and> account s (u_id v) = None \<and> account s' = (account s)(u_id v \<mapsto> stored_user v)
       \<and> u_username v = u_username u \<and> u_password_hash v = u_password_hash u
       \<and> u_password_salt v = u_password_salt u \<and> u_password_params v = u_password_params u
       \<and> (\<forall>i w. account s i = Some w \<longrightarrow> nocase (u_username w) \<noteq> nocase (u_username u))"
    and find_by_username:
      "ok s \<Longrightarrow> usr_find_by_username repo name s = (r, s') \<Longrightarrow>
       ok s' \<and> account s' = account s
       \<and> (\<forall>u. r = Inr u \<longrightarrow> account s (u_id u) = Some u \<and> nocase (u_username u) = nocase name)
       \<and> (r = Inl ErrNotFound \<longrightarrow> (\<forall>i u. account s i = Some u \<longrightarrow> nocase (u_username u) \<noteq> nocase name))"
    and find_by_id:
      "ok s \<Longrightarrow> usr_find_by_id repo i s = (r, s') \<Longrightarrow>
       ok s' \<and> account s' = account s \<and> (\<forall>u. r = Inr u \<longrightarrow> account s i = Some u)
       \<and> (r = Inl ErrNotFound \<longrightarrow> account s i = None)"
    and update_error:
      "ok s \<Longrightarrow> usr_update_password repo i h sl p t s = (Inl e, s') \<Longrightarrow>
       ok s' \<and> account s' = account s"
    and update_done:
      "ok s \<Longrightarrow> usr_update_password repo i h sl p t s = (Inr x, s') \<Longrightarrow>
       ok s' \<and> (\<exists>u. account s i = Some u \<and> account s' = (account s)(i \<mapsto> with_password h sl p t u))"
    and account_id: "ok s \<Longrightarrow> account s i = Some u \<Longrightarrow> u_id u = i"

text \<open>The sessions by id.\<close>

definition stored_session :: "session \<Rightarrow> session" where
  "stored_session x = x\<lparr>s_created_at := secs (s_created_at x), s_expires_at := secs (s_expires_at x),
     s_last_seen_at := secs (s_last_seen_at x)\<rparr>"

definition drop_sessions :: "(session \<Rightarrow> bool) \<Rightarrow> (string \<Rightarrow> session option) \<Rightarrow> string \<Rightarrow> session option" where
  "drop_sessions P m i = (case m i of Some x \<Rightarrow> if P x then None else Some x | None \<Rightarrow> None)"

locale session_repository =
  fixes sess :: "'s session_port" and live :: "'s \<Rightarrow> string \<Rightarrow> session option" and sok :: "'s \<Rightarrow> bool"
  assumes session_create_error:
      "sok s \<Longrightarrow> ses_create sess x s = (Inl e, s') \<Longrightarrow> sok s' \<and> live s' = live s"
    and session_create_done:
      "sok s \<Longrightarrow> ses_create sess x s = (Inr y, s') \<Longrightarrow>
       sok s' \<and> live s (s_id y) = None \<and> live s' = (live s)(s_id y \<mapsto> stored_session y)
       \<and> s_id y = s_id x \<and> s_user_id y = s_user_id x \<and> s_csrf_token y = s_csrf_token x
       \<and> s_expires_at y = s_expires_at x"
    and session_find:
      "sok s \<Longrightarrow> ses_find_by_id sess i s = (r, s') \<Longrightarrow>
       sok s' \<and> live s' = live s \<and> (\<forall>x. r = Inr x \<longrightarrow> live s i = Some x)
       \<and> (r = Inl ErrNotFound \<longrightarrow> live s i = None)"
    and session_touch_error:
      "sok s \<Longrightarrow> ses_touch sess i t s = (Inl e, s') \<Longrightarrow> sok s' \<and> live s' = live s"
    and session_touch_done:
      "sok s \<Longrightarrow> ses_touch sess i t s = (Inr u, s') \<Longrightarrow>
       sok s' \<and> (\<exists>x. live s i = Some x \<and> live s' = (live s)(i \<mapsto> x\<lparr>s_last_seen_at := secs t\<rparr>))"
    and session_delete_error:
      "sok s \<Longrightarrow> ses_delete sess i s = (Inl e, s') \<Longrightarrow> sok s' \<and> live s' = live s"
    and session_delete_done:
      "sok s \<Longrightarrow> ses_delete sess i s = (Inr u, s') \<Longrightarrow> sok s' \<and> live s' = (live s)(i := None)"
    and session_delete_all_error:
      "sok s \<Longrightarrow> ses_delete_all_for_user sess uid s = (Inl e, s') \<Longrightarrow> sok s' \<and> live s' = live s"
    and session_delete_all_done:
      "sok s \<Longrightarrow> ses_delete_all_for_user sess uid s = (Inr u, s') \<Longrightarrow>
       sok s' \<and> live s' = drop_sessions (\<lambda>x. s_user_id x = uid) (live s)"
    and session_delete_except_error:
      "sok s \<Longrightarrow> ses_delete_all_for_user_except sess uid keep s = (Inl e, s') \<Longrightarrow>
       sok s' \<and> live s' = live s"
    and session_delete_except_done:
      "sok s \<Longrightarrow> ses_delete_all_for_user_except sess uid keep s = (Inr u, s') \<Longrightarrow>
       sok s' \<and> live s' = drop_sessions (\<lambda>x. s_user_id x = uid \<and> s_id x \<noteq> keep) (live s)"
    and live_id: "sok s \<Longrightarrow> live s i = Some x \<Longrightarrow> s_id x = i"

text \<open>The set of revoked token ids.\<close>

locale jwt_revocation_repository =
  fixes jwts :: "'s jwt_revocation_port" and revoked :: "'s \<Rightarrow> string set"
  assumes is_revoked:
      "jrv_is_revoked jwts j s = (r, s') \<Longrightarrow>
       revoked s' = revoked s \<and> (\<forall>b. r = Inr b \<longrightarrow> b = (j \<in> revoked s))"
    and revoke_error: "jrv_revoke jwts j uid t s = (Inl e, s') \<Longrightarrow> revoked s' = revoked s"
    and revoke_done: "jrv_revoke jwts j uid t s = (Inr u, s') \<Longrightarrow> revoked s' = insert j (revoked s)"
    and revoke_all: "jrv_revoke_all_for_user jwts uid t s = (q, s') \<Longrightarrow> revoked s \<subseteq> revoked s'"

text \<open>
  The three repositories share one store and leave each other's rows alone.  Deleting is the
  only way a session of an account disappears.
\<close>

locale account_store =
  user_repository repo account ok + session_repository sess live ok + jwt_revocation_repository jwts revoked
  for repo :: "'s user_port" and account and ok and sess :: "'s session_port" and live
    and jwts :: "'s jwt_revocation_port" and revoked +
  assumes user_create_frame:
      "usr_create repo u s = (ru, s') \<Longrightarrow>
       live s' = live s \<and> revoked s' = revoked s"
    and user_find_name_frame:
      "usr_find_by_username repo name s = (ru, s') \<Longrightarrow>
       live s' = live s \<and> revoked s' = revoked s"
    and user_find_id_frame:
      "usr_find_by_id repo i s = (ru, s') \<Longrightarrow>
       live s' = live s \<and> revoked s' = revoked s"
    and user_update_frame:
      "usr_update_password repo i h sl p t s = (rn, s') \<Longrightarrow>
       live s' = live s \<and> revoked s' = revoked s"
    and session_create_frame:
      "ses_create sess x s = (rx, s') \<Longrightarrow>
       account s' = account s \<and> revoked s' = revoked s"
    and session_find_frame:
      "ses_find_by_id sess j s = (rx, s') \<Longrightarrow>
       account s' = account s \<and> revoked s' = revoked s"
    and session_touch_frame:
      "ses_touch sess j t s = (rn, s') \<Longrightarrow>
       account s' = account s \<and> revoked s' = revoked s"
    and session_delete_frame:
      "ses_delete sess j s = (rn, s') \<Longrightarrow>
       account s' = account s \<and> revoked s' = revoked s"
    and session_delete_all_frame:
      "ses_delete_all_for_user sess i s = (rn, s') \<Longrightarrow>
       account s' = account s \<and> revoked s' = revoked s"
    and session_delete_except_frame:
      "ses_delete_all_for_user_except sess i j s = (rn, s') \<Longrightarrow>
       account s' = account s \<and> revoked s' = revoked s"
    and revoke_frame:
      "ok s \<Longrightarrow> jrv_revoke jwts j i t s = (rn, s') \<Longrightarrow>
       ok s' \<and> account s' = account s \<and> live s' = live s"
    and is_revoked_frame:
      "ok s \<Longrightarrow> jrv_is_revoked jwts j s = (rb, s') \<Longrightarrow>
       ok s' \<and> account s' = account s \<and> live s' = live s"
    and revoke_all_frame:
      "ok s \<Longrightarrow> jrv_revoke_all_for_user jwts i t s = (rn, s') \<Longrightarrow>
       ok s' \<and> account s' = account s \<and> live s' = live s"
begin

lemmas user_frames = user_create_frame user_find_name_frame user_find_id_frame user_update_frame

lemmas session_frames = session_create_frame session_find_frame session_touch_frame
  session_delete_frame session_delete_all_frame session_delete_except_frame

lemmas jwt_frames = revoke_frame is_revoked_frame revoke_all_frame

end

end
