(* ===== verification/QuizPorts.thy ===== *)
theory QuizPorts
  imports Ports "HOL-Library.Product_Lexorder"
begin

text \<open>
  The contracts of the repositories behind the quiz and the statistics, as the services rely on
  them: a question bank that is only read, the log of attempts, the spaced-repetition states by
  user and question, and the three of them in one store.  The relation \<open>same\<close> says that an
  operation left every table alone.
\<close>

section \<open>Orders on attempts\<close>

definition latest_first :: "attempt list \<Rightarrow> attempt list" where
  "latest_first = sort_key (\<lambda>a. (- unix (a_answered_at a), - a_id a))"

definition stored_attempt :: "attempt \<Rightarrow> attempt" where
  "stored_attempt a = a\<lparr>a_answered_at := secs (a_answered_at a)\<rparr>"

definition srs_key :: "srs_state \<Rightarrow> int \<times> int" where
  "srs_key s = (sr_user_id s, sr_question_id s)"

definition stored_state :: "srs_state \<Rightarrow> srs_state" where
  "stored_state s = s\<lparr>sr_due_at := secs (sr_due_at s), sr_updated_at := secs (sr_updated_at s)\<rparr>"

definition count_correct :: "attempt list \<Rightarrow> int" where
  "count_correct as = int (length (filter a_is_correct as))"

lemma set_latest_first [simp]: "set (latest_first as) = set as"
  by (simp add: latest_first_def)

lemma latest_first_Nil [simp]: "latest_first as = [] \<longleftrightarrow> as = []"
  by (metis latest_first_def length_0_conv length_sort)

lemma sorted_key_hd: "sorted (map f xs) \<Longrightarrow> x \<in> set xs \<Longrightarrow> f (hd xs) \<le> f x"
  by (cases xs) auto

lemma latest_first_empty [simp]: "latest_first [] = []"
  by (simp add: latest_first_def)

text \<open>An attempt that is newer than all the others comes first.\<close>

lemma latest_first_newest:
  assumes "\<forall>b\<in>set as. unix (a_answered_at b) \<le> unix (a_answered_at a) \<and> a_id b < a_id a"
  shows "hd (latest_first (as @ [a])) = a"
proof -
  let ?k = "\<lambda>a. (- unix (a_answered_at a), - a_id a)"
  let ?ys = "latest_first (as @ [a])"
  have ys: "set ?ys = insert a (set as)" "?ys \<noteq> []" by auto
  have "sorted (map ?k ?ys)" by (simp add: latest_first_def)
  then have least: "?k (hd ?ys) \<le> ?k a" by (rule sorted_key_hd) simp
  have "hd ?ys \<in> insert a (set as)" using ys hd_in_set by metis
  then show ?thesis
  proof
    assume "hd ?ys \<in> set as"
    then have "?k a < ?k (hd ?ys)" using assms by (auto simp: less_prod_def)
    with least show ?thesis by (simp add: not_less [symmetric])
  qed
qed

section \<open>Contracts\<close>

locale question_bank =
  fixes bank :: "'s question_port" and sets :: "'s set_port" and same :: "'s \<Rightarrow> 's \<Rightarrow> bool"
    and set_qs :: "'s \<Rightarrow> string \<Rightarrow> question list" and question_of :: "'s \<Rightarrow> int \<Rightarrow> question option"
    and set_of :: "'s \<Rightarrow> string \<Rightarrow> question_set option"
  assumes same_refl: "same s s"
    and same_trans: "same s s' \<Longrightarrow> same s' s'' \<Longrightarrow> same s s''"
    and bank_same: "same s s' \<Longrightarrow> set_qs s' = set_qs s \<and> question_of s' = question_of s \<and> set_of s' = set_of s"
    and list_by_set:
      "qst_list_by_set bank c s = (r, s') \<Longrightarrow> same s s' \<and> (\<forall>xs. r = Inr xs \<longrightarrow> xs = set_qs s c)"
    and get_by_id:
      "qst_get_by_id bank i s = (rq, s') \<Longrightarrow>
       same s s' \<and> (\<forall>q. rq = Inr q \<longrightarrow> question_of s i = Some q)
       \<and> (\<forall>e. rq = Inl e \<longrightarrow> errors_is e ErrNotFound \<longrightarrow> question_of s i = None)"
    and set_by_code:
      "set_get_by_code sets c s = (rs, s') \<Longrightarrow>
       same s s' \<and> (\<forall>x. rs = Inr x \<longrightarrow> set_of s c = Some x)
       \<and> (\<forall>e. rs = Inl e \<longrightarrow> errors_is e ErrNotFound \<longrightarrow> set_of s c = None)"
    and question_id: "question_of s i = Some q \<Longrightarrow> q_id q = i"

text \<open>The attempts of all users in the order of their creation.\<close>

locale attempt_log =
  fixes atts :: "'s attempt_port" and same :: "'s \<Rightarrow> 's \<Rightarrow> bool" and log :: "'s \<Rightarrow> attempt list"
  assumes log_same: "same s s' \<Longrightarrow> log s' = log s"
    and create_error: "att_create atts a s = (Inl e, s') \<Longrightarrow> same s s'"
    and create_done:
      "\<not> is_zero_time (a_answered_at a) \<Longrightarrow> att_create atts a s = (Inr b, s') \<Longrightarrow>
       b = a\<lparr>a_id := a_id b\<rparr> \<and> log s' = log s @ [stored_attempt b] \<and> (\<forall>x\<in>set (log s). a_id x < a_id b)"
    and list_by_user:
      "att_list_by_user atts uid limit offset s = (rl, s') \<Longrightarrow>
       same s s' \<and> (\<forall>xs. rl = Inr xs \<longrightarrow>
         xs = (let ys = drop (nat offset) (latest_first (filter (\<lambda>a. a_user_id a = uid) (log s)))
               in take (nat (if limit \<le> 0 then 50 else limit)) ys))"
    and last_in_set:
      "att_last_question_id_in_set atts uid sid s = (ri, s') \<Longrightarrow>
       same s s'
       \<and> (let xs = latest_first (filter (\<lambda>a. a_user_id a = uid \<and> a_set_id a = Some sid) (log s)) in
          (\<forall>q. ri = Inr q \<longrightarrow> xs \<noteq> [] \<and> q = a_question_id (hd xs))
          \<and> (\<forall>e. ri = Inl e \<longrightarrow> errors_is e ErrNotFound \<longrightarrow> xs = []))"
    and weak_topics: "att_weak_topic_ids atts uid since limit s = (rw, s') \<Longrightarrow> same s s'"
    and attempted:
      "att_attempted_question_ids atts uid s = (rw, s') \<Longrightarrow>
       same s s' \<and> (\<forall>is. rw = Inr is \<longrightarrow> set is = a_question_id ` {a\<in>set (log s). a_user_id a = uid})"
    and delete_error: "att_delete_by_id atts uid aid s = (Inl e, s') \<Longrightarrow> same s s'"
    and delete_missing:
      "att_delete_by_id atts uid aid s = (Inl e, s') \<Longrightarrow> errors_is e ErrNotFound \<Longrightarrow>
       \<forall>a\<in>set (log s). \<not> (a_id a = aid \<and> a_user_id a = uid)"
    and delete_done:
      "att_delete_by_id atts uid aid s = (Inr u, s') \<Longrightarrow>
       (\<exists>a\<in>set (log s). a_id a = aid \<and> a_user_id a = uid)
       \<and> log s' = filter (\<lambda>a. \<not> (a_id a = aid \<and> a_user_id a = uid)) (log s)"
    and delete_all_error: "att_delete_all_for_user atts uid s = (Inl e, s') \<Longrightarrow> same s s'"
    and delete_all_done:
      "att_delete_all_for_user atts uid s = (Inr u, s') \<Longrightarrow>
       log s' = filter (\<lambda>a. a_user_id a \<noteq> uid) (log s)"
    and summary:
      "att_summary_for_user atts uid s = (rp, s') \<Longrightarrow>
       same s s' \<and> (\<forall>n c. rp = Inr (n, c) \<longrightarrow>
         n = int (length (filter (\<lambda>a. a_user_id a = uid) (log s)))
         \<and> c = count_correct (filter (\<lambda>a. a_user_id a = uid) (log s)))"

locale srs_memory =
  fixes states :: "'s srs_state_port" and same :: "'s \<Rightarrow> 's \<Rightarrow> bool"
    and memory :: "'s \<Rightarrow> int \<times> int \<Rightarrow> srs_state option" and ok :: "'s \<Rightarrow> bool"
  assumes memory_same: "same s s' \<Longrightarrow> memory s' = memory s \<and> (ok s' \<longleftrightarrow> ok s)"
    and memory_key: "memory s k = Some st \<Longrightarrow> srs_key st = k"
    and upsert_error: "srs_upsert states st s = (Inl e, s') \<Longrightarrow> same s s'"
    and upsert_done:
      "\<not> is_zero_time (sr_updated_at st) \<Longrightarrow> srs_upsert states st s = (Inr u, s') \<Longrightarrow>
       memory s' = (memory s)(srs_key st \<mapsto> stored_state st)"
    and get_state:
      "srs_get states uid qid s = (rs, s') \<Longrightarrow>
       same s s' \<and> (\<forall>st. rs = Inr st \<longrightarrow> memory s (uid, qid) = Some st)
       \<and> (\<forall>e. rs = Inl e \<longrightarrow> errors_is e ErrNotFound \<longrightarrow> memory s (uid, qid) = None)"
    and due:
      "ok s \<Longrightarrow> srs_due_for_user states uid now limit s = (rd, s') \<Longrightarrow>
       same s s' \<and> (\<forall>xs. rd = Inr xs \<longrightarrow> (\<forall>st\<in>set xs.
         memory s (uid, sr_question_id st) = Some st \<and> unix (sr_due_at st) \<le> unix now))"
    and forget_error: "srs_delete_all_for_user states uid s = (Inl e, s') \<Longrightarrow> same s s'"
    and forget_done:
      "srs_delete_all_for_user states uid s = (Inr u, s') \<Longrightarrow>
       memory s' = (\<lambda>k. if fst k = uid then None else memory s k)"
    and count_due:
      "srs_count_due_for_user states uid now s = (rn, s') \<Longrightarrow>
       same s s' \<and> (\<forall>n. rn = Inr n \<longrightarrow> 0 \<le> n \<and> ((\<forall>q. memory s (uid, q) = None) \<longrightarrow> n = 0))"

text \<open>The three in one store: a change of one leaves the other two alone.\<close>

locale quiz_store =
  question_bank bank sets same set_qs question_of set_of + attempt_log atts same log
  + srs_memory states same memory ok
  for bank :: "'s question_port" and sets and same and set_qs and question_of and set_of
    and atts :: "'s attempt_port" and log and states :: "'s srs_state_port" and memory and ok +
  assumes create_frame:
      "ok s \<Longrightarrow> att_create atts a s = (rb, s') \<Longrightarrow>
       ok s' \<and> memory s' = memory s \<and> set_qs s' = set_qs s \<and> question_of s' = question_of s \<and> set_of s' = set_of s"
    and delete_frame:
      "ok s \<Longrightarrow> att_delete_by_id atts uid aid s = (ru, s') \<Longrightarrow>
       ok s' \<and> memory s' = memory s \<and> set_qs s' = set_qs s \<and> question_of s' = question_of s \<and> set_of s' = set_of s"
    and delete_all_frame:
      "ok s \<Longrightarrow> att_delete_all_for_user atts uid s = (ru, s') \<Longrightarrow>
       ok s' \<and> memory s' = memory s \<and> set_qs s' = set_qs s \<and> question_of s' = question_of s \<and> set_of s' = set_of s"
    and upsert_frame:
      "ok s \<Longrightarrow> srs_upsert states st s = (ru, s') \<Longrightarrow>
       ok s' \<and> log s' = log s \<and> set_qs s' = set_qs s \<and> question_of s' = question_of s \<and> set_of s' = set_of s"
    and forget_frame:
      "ok s \<Longrightarrow> srs_delete_all_for_user states uid s = (ru, s') \<Longrightarrow>
       ok s' \<and> log s' = log s \<and> set_qs s' = set_qs s \<and> question_of s' = question_of s \<and> set_of s' = set_of s"

end
