(* ===== verification/Grading.thy ===== *)
theory Grading
  imports Accounts
begin

text \<open>
  \<^verbatim>\<open>internal/domain/grading\<close>: whether a submitted answer is the expected one.  The parameter
  \<open>cf\<close> is the case folding of the Unicode tables behind \<^verbatim>\<open>strings.EqualFold\<close>: it sends a code
  point to a representative of its simple-folding orbit.
\<close>

definition equal_fold :: "(int \<Rightarrow> int) \<Rightarrow> string \<Rightarrow> string \<Rightarrow> bool" where
  "equal_fold cf s t \<longleftrightarrow> map cf (runes s) = map cf (runes t)"

text \<open>The folding restricted to the ASCII letters, for evaluation.\<close>

definition ascii_fold :: "int \<Rightarrow> int" where
  "ascii_fold r = (if 0x41 \<le> r \<and> r \<le> 0x5A then r + 0x20 else r)"

fun keep_entries :: "journal_entry list \<Rightarrow> journal_entry list" where
  "keep_entries [] = []"
| "keep_entries (e # es) =
     (let acct = normalize (trim_space (account e)) in
      if acct = [] \<and> amount e = 0 then keep_entries es
      else JournalEntry acct (amount e) # keep_entries es)"

definition normalize_entries :: "journal_entry list \<Rightarrow> journal_entry list" where
  "normalize_entries entries = sort (keep_entries entries)"

definition entry_set_equal :: "journal_entry list \<Rightarrow> journal_entry list \<Rightarrow> bool" where
  "entry_set_equal a b =
     (let na = normalize_entries a; nb = normalize_entries b
      in length na = length nb \<and> list_all2 (=) na nb)"

definition is_correct :: "(int \<Rightarrow> int) \<Rightarrow> answer_payload \<Rightarrow> answer_payload \<Rightarrow> bool" where
  "is_correct cf want got =
     (if ans_type want \<noteq> ans_type got then False
      else if ans_type want = qt_journal \<or> ans_type want = qt_ledger \<or> ans_type want = qt_slip then
        entry_set_equal (ans_debits want) (ans_debits got)
        \<and> entry_set_equal (ans_credits want) (ans_credits got)
      else if ans_type want = qt_subbook \<or> ans_type want = qt_trial_balance
        \<or> ans_type want = qt_worksheet \<or> ans_type want = qt_fs then
        (if ans_choice want \<noteq> [] \<or> ans_choice got \<noteq> [] then
           equal_fold cf (trim_space (ans_choice want)) (trim_space (ans_choice got))
         else trim_space (ans_text want) = trim_space (ans_text got))
      else False)"

section \<open>What the comparison means\<close>

text \<open>One side of a journal entry as a multiset of account and amount.\<close>

definition line :: "journal_entry \<Rightarrow> journal_entry" where
  "line e = JournalEntry (normalize (trim_space (account e))) (amount e)"

definition blank_line :: "journal_entry \<Rightarrow> bool" where
  "blank_line e \<longleftrightarrow> account e = [] \<and> amount e = 0"

definition side_of :: "journal_entry list \<Rightarrow> journal_entry multiset" where
  "side_of es = filter_mset (\<lambda>e. \<not> blank_line e) (image_mset line (mset es))"

lemma mset_keep_entries: "mset (keep_entries es) = side_of es"
  by (induction es) (auto simp: side_of_def line_def blank_line_def Let_def)

lemma entry_set_equal_iff: "entry_set_equal a b \<longleftrightarrow> side_of a = side_of b"
  by (simp add: entry_set_equal_def normalize_entries_def list_all2_eq [symmetric] Let_def
      sort_eq_iff_mset_eq flip: mset_keep_entries)
    (metis mset_sort size_mset sort_eq_iff_mset_eq)

lemma side_of_perm: "mset a = mset b \<Longrightarrow> side_of a = side_of b"
  by (simp add: side_of_def)

lemma side_of_blank:
  "blank_line (line e) \<Longrightarrow> side_of (xs @ e # ys) = side_of (xs @ ys)"
  by (simp add: side_of_def)

lemma equal_fold_refl [simp]: "equal_fold f s s"
  by (simp add: equal_fold_def)

lemma equal_fold_sym: "equal_fold f s t \<longleftrightarrow> equal_fold f t s"
  by (auto simp: equal_fold_def)

definition by_entries :: "question_type \<Rightarrow> bool" where
  "by_entries t \<longleftrightarrow> t = qt_journal \<or> t = qt_ledger \<or> t = qt_slip"

definition by_choice :: "question_type \<Rightarrow> bool" where
  "by_choice t \<longleftrightarrow> t = qt_subbook \<or> t = qt_trial_balance \<or> t = qt_worksheet \<or> t = qt_fs"

lemma kinds_disjoint: "by_entries t \<Longrightarrow> \<not> by_choice t"
  by (auto simp: by_entries_def by_choice_def qt_defs)

lemma kinds_cover: "question_type_is_valid t \<longleftrightarrow> by_entries t \<or> by_choice t"
  by (auto simp: by_entries_def by_choice_def question_type_is_valid_def)

lemma is_correct_entries:
  "by_entries (ans_type want) \<Longrightarrow> is_correct f want got \<longleftrightarrow>
     ans_type got = ans_type want
     \<and> side_of (ans_debits want) = side_of (ans_debits got)
     \<and> side_of (ans_credits want) = side_of (ans_credits got)"
  by (auto simp: is_correct_def by_entries_def entry_set_equal_iff)

lemma is_correct_choice:
  "by_choice (ans_type want) \<Longrightarrow> is_correct f want got \<longleftrightarrow>
     ans_type got = ans_type want
     \<and> (if ans_choice want \<noteq> [] \<or> ans_choice got \<noteq> []
        then equal_fold f (trim_space (ans_choice want)) (trim_space (ans_choice got))
        else trim_space (ans_text want) = trim_space (ans_text got))"
  using kinds_disjoint [of "ans_type want"]
  by (auto simp: is_correct_def by_entries_def by_choice_def)

lemma is_correct_valid: "is_correct f want got \<Longrightarrow> question_type_is_valid (ans_type want)"
  by (auto simp: is_correct_def question_type_is_valid_def split: if_splits)

lemma is_correct_refl: "question_type_is_valid (ans_type w) \<Longrightarrow> is_correct f w w"
  by (auto simp: kinds_cover is_correct_entries is_correct_choice)

lemma is_correct_sym: "is_correct f a b \<Longrightarrow> is_correct f b a"
proof -
  assume c: "is_correct f a b"
  then have t: "ans_type b = ans_type a" by (auto simp: is_correct_def split: if_splits)
  from is_correct_valid [OF c] have "by_entries (ans_type a) \<or> by_choice (ans_type a)"
    by (simp add: kinds_cover)
  then show ?thesis
  proof
    assume "by_entries (ans_type a)"
    with c t show ?thesis by (simp add: is_correct_entries)
  next
    assume "by_choice (ans_type a)"
    with c t show ?thesis
      by (auto simp: is_correct_choice equal_fold_sym [of f _ "trim_space (ans_choice b)"]
          split: if_splits)
  qed
qed

section \<open>Properties\<close>

text \<open>
  C13: a journal, ledger or slip question is graded by its entries alone: the answer is correct
  iff it has the question's type and, on each side, the same multiset of lines, where a line is
  the normalised account with its amount and blank lines are ignored.  The order of the lines,
  the spelling of an account and the choice and text fields do not matter.
\<close>

theorem grade_entries:
  assumes "ans_type want \<in> {qt_journal, qt_ledger, qt_slip}"
  shows "is_correct cf want got \<longleftrightarrow> ans_type got = ans_type want
    \<and> side_of (ans_debits want) = side_of (ans_debits got)
    \<and> side_of (ans_credits want) = side_of (ans_credits got)"
  using assms by (intro is_correct_entries) (simp add: by_entries_def)

theorem grade_entries_witness:
  "\<not> is_correct id \<lparr>ans_type = qt_journal, ans_debits = [JournalEntry ''a'' 5],
      ans_credits = [], ans_choice = [], ans_text = []\<rparr>
     \<lparr>ans_type = qt_slip, ans_debits = [JournalEntry ''a'' 5],
      ans_credits = [], ans_choice = [], ans_text = []\<rparr>"
  by (subst grade_entries) (simp_all add: qt_defs)

text \<open>
  C34: the other question kinds are graded by the choice when either side gives one (blanks
  trimmed, letter case folded), and by the trimmed text otherwise; every valid question accepts
  its own answer, and only valid kinds are ever graded correct.
\<close>

theorem grade_choices:
  "is_correct cf want want = question_type_is_valid (ans_type want)
   \<and> is_correct cf want got = is_correct cf got want
   \<and> (ans_type want \<notin> {qt_journal, qt_ledger, qt_slip} \<longrightarrow>
      is_correct cf want got = (by_choice (ans_type want) \<and> ans_type got = ans_type want
        \<and> (if ans_choice want \<noteq> [] \<or> ans_choice got \<noteq> []
           then equal_fold cf (trim_space (ans_choice want)) (trim_space (ans_choice got))
           else trim_space (ans_text want) = trim_space (ans_text got))))"
proof -
  have "is_correct cf want got = (by_choice (ans_type want) \<and> ans_type got = ans_type want
        \<and> (if ans_choice want \<noteq> [] \<or> ans_choice got \<noteq> []
           then equal_fold cf (trim_space (ans_choice want)) (trim_space (ans_choice got))
           else trim_space (ans_text want) = trim_space (ans_text got)))"
    if "\<not> by_entries (ans_type want)"
    using that is_correct_valid [of cf want got] is_correct_choice [of want cf got]
    by (auto simp: kinds_cover)
  moreover have "is_correct cf want want = question_type_is_valid (ans_type want)"
    using is_correct_refl is_correct_valid by blast
  moreover have "is_correct cf want got = is_correct cf got want"
    using is_correct_sym by blast
  ultimately show ?thesis unfolding by_entries_def by blast
qed

theorem grade_choices_witness:
  "is_correct ascii_fold \<lparr>ans_type = qt_fs, ans_debits = [], ans_credits = [], ans_choice = ''Ab '', ans_text = []\<rparr>
     \<lparr>ans_type = qt_fs, ans_debits = [], ans_credits = [], ans_choice = ''aB'', ans_text = []\<rparr>"
  by (subst grade_choices [THEN conjunct2, THEN conjunct2, rule_format])
    (simp add: qt_defs, code_simp)

text \<open>
  A ledger or slip question that expects a choice and no entries accepts every choice: any
  answer of its type whose entries are blank is graded correct, whatever it chooses.
\<close>

theorem grade_ignores_choice:
  assumes "ans_type want \<in> {qt_ledger, qt_slip}" "ans_type got = ans_type want"
    and "ans_debits want = []" "ans_credits want = []"
    and "ans_debits got = []" "ans_credits got = []"
  shows "is_correct cf want (got\<lparr>ans_choice := c, ans_text := t\<rparr>)"
  using assms by (subst is_correct_entries) (auto simp: by_entries_def side_of_def)

theorem grade_ignores_choice_witness:
  "is_correct ascii_fold
     \<lparr>ans_type = qt_ledger, ans_debits = [], ans_credits = [], ans_choice = ''A'', ans_text = []\<rparr>
     \<lparr>ans_type = qt_ledger, ans_debits = [], ans_credits = [], ans_choice = ''B'', ans_text = []\<rparr>"
  using grade_ignores_choice [of
    "\<lparr>ans_type = qt_ledger, ans_debits = [], ans_credits = [], ans_choice = ''A'', ans_text = []\<rparr>"
    "\<lparr>ans_type = qt_ledger, ans_debits = [], ans_credits = [], ans_choice = [], ans_text = []\<rparr>"
    ascii_fold "[]" "''B''"] by simp

end
