(* ===== verification/Json.thy ===== *)
theory Json
  imports GoText
begin

text \<open>
  \<^verbatim>\<open>encoding/json\<close> as the program uses it: the compact writer, which escapes HTML, and the
  reader into values, with its treatment of field names, \<^verbatim>\<open>null\<close> and type mismatches.  A
  number keeps its literal text.
\<close>

datatype json =
    JNull | JBool bool | JNum string | JStr string | JArr "json list" | JObj "(string \<times> json) list"

section \<open>Writing\<close>

definition hex4 :: "int \<Rightarrow> string" where
  "hex4 r = [hex_digit (r div 0x1000), hex_digit (r div 0x100 mod 16), hex_digit (r div 16 mod 16),
     hex_digit (r mod 16)]"

text \<open>One decoded code point with its bytes; an ill-formed byte is written as an escape.\<close>

definition quote_seg :: "int \<Rightarrow> string \<Rightarrow> string" where
  "quote_seg r bs =
     (if r = 0x22 then [chr 0x5C, chr 0x22] else if r = 0x5C then [chr 0x5C, chr 0x5C]
      else if r = 8 then [chr 0x5C, CHR ''b''] else if r = 12 then [chr 0x5C, CHR ''f'']
      else if r = 10 then [chr 0x5C, CHR ''n''] else if r = 13 then [chr 0x5C, CHR ''r'']
      else if r = 9 then [chr 0x5C, CHR ''t'']
      else if r < 0x20 \<or> r = 0x3C \<or> r = 0x3E \<or> r = 0x26 \<or> r = 0x2028 \<or> r = 0x2029
        \<or> (r = rune_error \<and> length bs = 1)
      then chr 0x5C # CHR ''u'' # hex4 r
      else bs)"

definition quote_json :: "string \<Rightarrow> string" where
  "quote_json s = chr 0x22 # concat (map (\<lambda>(r, bs). quote_seg r bs) (segs s)) @ [chr 0x22]"

fun print_json :: "json \<Rightarrow> string" where
  "print_json JNull = ''null''"
| "print_json (JBool b) = (if b then ''true'' else ''false'')"
| "print_json (JNum s) = s"
| "print_json (JStr s) = quote_json s"
| "print_json (JArr vs) = ''['' @ join '','' (map print_json vs) @ '']''"
| "print_json (JObj ms) =
     ''{'' @ join '','' (map (\<lambda>(k, v). quote_json k @ '':'' @ print_json v) ms) @ ''}''"

section \<open>Reading\<close>

definition is_ws :: "char \<Rightarrow> bool" where
  "is_ws c \<longleftrightarrow> byte c = 0x20 \<or> byte c = 9 \<or> byte c = 10 \<or> byte c = 13"

definition skip_ws :: "string \<Rightarrow> string" where
  "skip_ws s = dropWhile is_ws s"

text \<open>Four hexadecimal digits.\<close>

fun read_hex4 :: "string \<Rightarrow> (int \<times> string) option" where
  "read_hex4 (a # b # c # d # s) =
     (case (hex_val a, hex_val b, hex_val c, hex_val d) of
        (Some p, Some q, Some r, Some t) \<Rightarrow> Some (((p * 16 + q) * 16 + r) * 16 + t, s)
      | _ \<Rightarrow> None)"
| "read_hex4 _ = None"

definition is_high :: "int \<Rightarrow> bool" where "is_high r \<longleftrightarrow> 0xD800 \<le> r \<and> r < 0xDC00"
definition is_low :: "int \<Rightarrow> bool" where "is_low r \<longleftrightarrow> 0xDC00 \<le> r \<and> r < 0xE000"

text \<open>
  After \<open>\u\<close>: a code unit, joined with a following low surrogate when it is a high one; a lone
  surrogate is read as U+FFFD.
\<close>

definition read_unicode :: "string \<Rightarrow> (int \<times> string) option" where
  "read_unicode s = (case read_hex4 s of
     None \<Rightarrow> None
   | Some (r, s1) \<Rightarrow>
       if is_high r then
         (case s1 of
            b # u # s2 \<Rightarrow>
              if b = chr 0x5C \<and> u = CHR ''u'' then
                (case read_hex4 s2 of
                   Some (r2, s3) \<Rightarrow>
                     if is_low r2 then Some ((r - 0xD800) * 0x400 + (r2 - 0xDC00) + 0x10000, s3)
                     else Some (rune_error, s1)
                 | None \<Rightarrow> Some (rune_error, s1))
              else Some (rune_error, s1)
          | _ \<Rightarrow> Some (rune_error, s1))
       else if is_low r then Some (rune_error, s1) else Some (r, s1))"

definition escape_char :: "char \<Rightarrow> int option" where
  "escape_char c = (let b = byte c in
     if b = 0x22 \<or> b = 0x5C \<or> b = 0x2F then Some b
     else if c = CHR ''b'' then Some 8 else if c = CHR ''f'' then Some 12
     else if c = CHR ''n'' then Some 10 else if c = CHR ''r'' then Some 13
     else if c = CHR ''t'' then Some 9 else None)"

lemma read_hex4_shorter: "read_hex4 s = Some (r, t) \<Longrightarrow> length t < length s"
  by (cases s rule: read_hex4.cases) (auto split: option.splits)

lemma read_unicode_shorter: "read_unicode s = Some (r, t) \<Longrightarrow> length t < length s"
  by (auto simp: read_unicode_def split: option.splits if_splits list.splits
      dest!: read_hex4_shorter)

text \<open>The rest of a string literal, after its opening quote.\<close>

function read_string :: "string \<Rightarrow> (string \<times> string) option" where
  "read_string [] = None"
| "read_string (c # s) =
     (if byte c = 0x22 then Some ([], s)
      else if byte c < 0x20 then None
      else if byte c = 0x5C then
        (case s of
           [] \<Rightarrow> None
         | e # s1 \<Rightarrow>
             if e = CHR ''u'' then
               (case read_unicode s1 of
                  None \<Rightarrow> None
                | Some (r, s2) \<Rightarrow> map_option (\<lambda>(w, t). (encode_rune r @ w, t)) (read_string s2))
             else (case escape_char e of
                  None \<Rightarrow> None
                | Some r \<Rightarrow> map_option (\<lambda>(w, t). (chr r # w, t)) (read_string s1)))
      else map_option (\<lambda>(w, t). (encode_rune (fst (decode_rune c s)) @ w, t))
             (read_string (snd (decode_rune c s))))"
  by pat_completeness auto
termination
  by (relation "measure length")
    (auto simp: le_imp_less_Suc decode_rune_shorter dest: read_unicode_shorter)

text \<open>A number literal: the longest prefix of the JSON grammar.\<close>

definition take_digits :: "string \<Rightarrow> string \<times> string" where
  "take_digits s = (takeWhile is_digit s, dropWhile is_digit s)"

definition read_int :: "string \<Rightarrow> (string \<times> string) option" where
  "read_int s =
     (let (sg, s1) = (case s of c # t \<Rightarrow> if c = CHR ''-'' then ([c], t) else ([], s) | [] \<Rightarrow> ([], s))
      in case s1 of
           [] \<Rightarrow> None
         | d # t \<Rightarrow>
             if d = CHR ''0'' then Some (sg @ [d], t)
             else if is_digit d then Some (sg @ takeWhile is_digit s1, dropWhile is_digit s1)
             else None)"

definition read_frac :: "string \<Rightarrow> (string \<times> string) option" where
  "read_frac s = (case s of
     c # t \<Rightarrow> if c = CHR ''.'' then
         (if takeWhile is_digit t = [] then None
          else Some (c # takeWhile is_digit t, dropWhile is_digit t))
       else Some ([], s)
   | [] \<Rightarrow> Some ([], s))"

definition read_exp :: "string \<Rightarrow> (string \<times> string) option" where
  "read_exp s = (case s of
     c # t \<Rightarrow> if c = CHR ''e'' \<or> c = CHR ''E'' then
         (let (sg, u) = (case t of d # v \<Rightarrow> if d = CHR ''+'' \<or> d = CHR ''-'' then ([d], v) else ([], t)
                         | [] \<Rightarrow> ([], t))
          in if takeWhile is_digit u = [] then None
             else Some (c # sg @ takeWhile is_digit u, dropWhile is_digit u))
       else Some ([], s)
   | [] \<Rightarrow> Some ([], s))"

definition read_number :: "string \<Rightarrow> (string \<times> string) option" where
  "read_number s = (case read_int s of
     None \<Rightarrow> None
   | Some (a, s1) \<Rightarrow> (case read_frac s1 of
       None \<Rightarrow> None
     | Some (b, s2) \<Rightarrow> (case read_exp s2 of
         None \<Rightarrow> None
       | Some (c, s3) \<Rightarrow> Some (a @ b @ c, s3))))"

text \<open>
  Values, elements and members.  A call consumes a byte before it calls itself again, after at
  most one other call, so a fuel of twice the length and one is enough (\<open>parse_json_fuel\<close> below).
\<close>

fun read_value :: "nat \<Rightarrow> string \<Rightarrow> (json \<times> string) option"
  and read_elements :: "nat \<Rightarrow> string \<Rightarrow> (json list \<times> string) option"
  and read_members :: "nat \<Rightarrow> string \<Rightarrow> ((string \<times> json) list \<times> string) option" where
  "read_value 0 s = None"
| "read_value (Suc n) s =
     (case skip_ws s of
        [] \<Rightarrow> None
      | c # t \<Rightarrow>
          if c = CHR ''{'' then
            (case skip_ws t of
               d # u \<Rightarrow> if d = CHR ''}'' then Some (JObj [], u)
                        else map_option (\<lambda>(ms, r). (JObj ms, r)) (read_members n (d # u))
             | [] \<Rightarrow> None)
          else if c = CHR ''['' then
            (case skip_ws t of
               d # u \<Rightarrow> if d = CHR '']'' then Some (JArr [], u)
                        else map_option (\<lambda>(vs, r). (JArr vs, r)) (read_elements n (d # u))
             | [] \<Rightarrow> None)
          else if byte c = 0x22 then map_option (\<lambda>(w, r). (JStr w, r)) (read_string t)
          else if has_prefix (c # t) ''null'' then Some (JNull, drop 4 (c # t))
          else if has_prefix (c # t) ''true'' then Some (JBool True, drop 4 (c # t))
          else if has_prefix (c # t) ''false'' then Some (JBool False, drop 5 (c # t))
          else map_option (\<lambda>(w, r). (JNum w, r)) (read_number (c # t)))"
| "read_elements 0 s = None"
| "read_elements (Suc n) s =
     (case read_value n s of
        None \<Rightarrow> None
      | Some (v, t) \<Rightarrow>
          (case skip_ws t of
             c # u \<Rightarrow> if c = CHR '','' then map_option (\<lambda>(vs, r). (v # vs, r)) (read_elements n u)
                      else if c = CHR '']'' then Some ([v], u) else None
           | [] \<Rightarrow> None))"
| "read_members 0 s = None"
| "read_members (Suc n) s =
     (case skip_ws s of
        c # t \<Rightarrow>
          if byte c = 0x22 then
            (case read_string t of
               None \<Rightarrow> None
             | Some (k, t1) \<Rightarrow>
                 (case skip_ws t1 of
                    d # t2 \<Rightarrow>
                      if d = CHR '':'' then
                        (case read_value n t2 of
                           None \<Rightarrow> None
                         | Some (v, t3) \<Rightarrow>
                             (case skip_ws t3 of
                                e # u \<Rightarrow>
                                  if e = CHR '','' then
                                    map_option (\<lambda>(ms, r). ((k, v) # ms, r)) (read_members n u)
                                  else if e = CHR ''}'' then Some ([(k, v)], u) else None
                              | [] \<Rightarrow> None))
                      else None
                  | [] \<Rightarrow> None))
          else None
      | [] \<Rightarrow> None)"

definition parse_json :: "string \<Rightarrow> json option" where
  "parse_json s = (case read_value (2 * length s + 1) s of
     Some (v, t) \<Rightarrow> if skip_ws t = [] then Some v else None | None \<Rightarrow> None)"

section \<open>Enough fuel\<close>

text \<open>
  A value that is read is not empty, so the fuel of \<open>parse_json\<close> is enough: no larger one gives
  another result.
\<close>

lemma skip_ws_length: "length (skip_ws s) \<le> length s"
  by (simp add: skip_ws_def length_dropWhile_le)

lemma skip_ws_ConsD: "skip_ws s = c # t \<Longrightarrow> length t < length s"
  using skip_ws_length [of s] by simp

lemma read_string_shorter: "read_string s = Some (w, t) \<Longrightarrow> length t < length s"
proof (induction s arbitrary: w rule: read_string.induct)
  case (2 c s)
  consider "byte c = 0x22" | "byte c \<noteq> 0x22" "byte c < 0x20" | "byte c = 0x5C" | "byte c \<noteq> 0x22" "\<not> byte c < 0x20" "byte c \<noteq> 0x5C"
    by blast
  then show ?case
  proof cases
    case 3
    with "2.prems" obtain e s1 where s: "s = e # s1" by (cases s) auto
    show ?thesis
    proof (cases "e = CHR ''u''")
      case True
      with 3 s "2.prems" obtain r s2 w' where r: "read_unicode s1 = Some (r, s2)" "read_string s2 = Some (w', t)"
        by (auto split: option.splits)
      from "2.IH"(1) [OF _ _ 3 s True r(1) refl r(2)] 3 read_unicode_shorter [OF r(1)] s show ?thesis by simp
    next
      case False
      with 3 s "2.prems" obtain r w' where r: "escape_char e = Some r" "read_string s1 = Some (w', t)"
        by (auto split: option.splits)
      from "2.IH"(2) [OF _ _ 3 s False r] 3 s show ?thesis by simp
    qed
  next
    case 4
    with "2.prems" obtain w' where "read_string (snd (decode_rune c s)) = Some (w', t)" by auto
    from "2.IH"(3) [OF 4 this] decode_rune_shorter [of c s] show ?thesis by simp
  qed (use "2.prems" in auto)
qed simp

lemma read_number_shorter: "read_number s = Some (w, t) \<Longrightarrow> length t < length s"
proof -
  have i: "length u < length s" if "read_int s = Some (a, u)" for a u
    using that length_dropWhile_le [of is_digit "tl s"] length_dropWhile_le [of is_digit "tl (tl s)"]
    by (auto simp: read_int_def Let_def split: list.splits if_splits prod.splits)
  have f: "length u \<le> length v" if "read_frac v = Some (a, u)" for a u v
    using that length_dropWhile_le [of is_digit "tl v"] by (auto simp: read_frac_def split: list.splits if_splits)
  have e: "length u \<le> length v" if "read_exp v = Some (a, u)" for a u v
    using that length_dropWhile_le [of is_digit "tl v"] length_dropWhile_le [of is_digit "tl (tl v)"]
    by (auto simp: read_exp_def Let_def split: list.splits if_splits prod.splits)
  show "read_number s = Some (w, t) \<Longrightarrow> length t < length s"
    by (auto simp: read_number_def split: option.splits dest!: i f e)
qed

lemma read_shorter:
  "(\<forall>s v t. read_value n s = Some (v, t) \<longrightarrow> length t < length s)
   \<and> (\<forall>s vs t. read_elements n s = Some (vs, t) \<longrightarrow> length t < length s)
   \<and> (\<forall>s ms t. read_members n s = Some (ms, t) \<longrightarrow> length t < length s)"
proof (induction n)
  case (Suc n)
  then have IH: "read_value n s = Some (v, t) \<Longrightarrow> length t < length s"
    "read_elements n s = Some (vs, t) \<Longrightarrow> length t < length s"
    "read_members n s = Some (ms, t) \<Longrightarrow> length t < length s" for s v vs ms t by blast+
  have ws: "length (c # u) \<le> length s" if "skip_ws s = c # u" for c u s
    using skip_ws_length [of s] that by simp
  have "length t < length s" if "read_value (Suc n) s = Some (v, t)" for s v t
  proof (cases "skip_ws s")
    case (Cons c u)
    have u: "length u < length s" using ws [OF Cons] by simp
    have "length t < length (c # u)"
      using that Cons
      by (auto split: list.splits if_splits dest!: IH(2,3) read_string_shorter read_number_shorter ws
          simp: has_prefix_def simp del: length_Cons) 
    with u show ?thesis by simp
  qed (use that in simp)
  moreover have "length t < length s" if "read_elements (Suc n) s = Some (vs, t)" for s vs t
    using that by (auto split: option.splits list.splits if_splits dest!: IH(1,2) ws)
  moreover have "length t < length s" if "read_members (Suc n) s = Some (ms, t)" for s ms t
    using that by (auto split: option.splits list.splits if_splits dest!: IH(1,3) ws read_string_shorter)
  ultimately show ?case by blast
qed simp

lemma read_value_shorter: "read_value n s = Some (v, t) \<Longrightarrow> length t < length s"
  using read_shorter [of n] by blast

lemma read_fuel:
  "(\<forall>s m. 2 * length s + 1 \<le> n \<and> 2 * length s + 1 \<le> m \<longrightarrow> read_value n s = read_value m s)
   \<and> (\<forall>s m. 2 * length s + 2 \<le> n \<and> 2 * length s + 2 \<le> m \<longrightarrow> read_elements n s = read_elements m s)
   \<and> (\<forall>s m. 2 * length s + 1 \<le> n \<and> 2 * length s + 1 \<le> m \<longrightarrow> read_members n s = read_members m s)"
proof (induction n)
  case (Suc n)
  then have IH: "2 * length s + 1 \<le> n \<Longrightarrow> 2 * length s + 1 \<le> m \<Longrightarrow> read_value n s = read_value m s"
    "2 * length s + 2 \<le> n \<Longrightarrow> 2 * length s + 2 \<le> m \<Longrightarrow> read_elements n s = read_elements m s"
    "2 * length s + 1 \<le> n \<Longrightarrow> 2 * length s + 1 \<le> m \<Longrightarrow> read_members n s = read_members m s" for s m by blast+
  have ws: "length (c # u) \<le> length s" if "skip_ws s = c # u" for c u s
    using skip_ws_length [of s] that by simp
  have "read_value (Suc n) s = read_value m s" if "2 * length s + 1 \<le> Suc n" "2 * length s + 1 \<le> m" for s m
  proof -
    from that(2) obtain k where m: "m = Suc k" by (cases m) auto
    have inner: "read_elements n (d # u) = read_elements k (d # u)" "read_members n (d # u) = read_members k (d # u)"
      if "skip_ws s = c # t" "skip_ws t = d # u" for c t d u
      by (rule IH; use that ws [OF that(1)] ws [OF that(2)] \<open>2 * length s + 1 \<le> Suc n\<close> \<open>2 * length s + 1 \<le> m\<close> m in simp)+
    show ?thesis unfolding m by (auto split: list.split simp: inner)
  qed
  moreover have "read_elements (Suc n) s = read_elements m s" if "2 * length s + 2 \<le> Suc n" "2 * length s + 2 \<le> m" for s m
  proof -
    from that(2) obtain k where m: "m = Suc k" by (cases m) auto
    have first: "read_value n s = read_value k s" by (rule IH(1); use that m in simp)
    have others: "read_elements n u = read_elements k u" if "read_value k s = Some (v, t)" "skip_ws t = c # u" for v t c u
      by (rule IH(2); use that ws [OF that(2)] read_value_shorter [OF that(1)] \<open>2 * length s + 2 \<le> Suc n\<close> \<open>2 * length s + 2 \<le> m\<close> m in simp)
    show ?thesis unfolding m by (auto split: option.split list.split simp: first others)
  qed
  moreover have "read_members (Suc n) s = read_members m s" if "2 * length s + 1 \<le> Suc n" "2 * length s + 1 \<le> m" for s m
  proof -
    from that(2) obtain k where m: "m = Suc k" by (cases m) auto
    have val: "read_value n t2 = read_value k t2"
      if "skip_ws s = c # t" "read_string t = Some (key, t1)" "skip_ws t1 = d # t2" for c t key t1 d t2
      by (rule IH(1); use that ws [OF that(1)] ws [OF that(3)] read_string_shorter [OF that(2)]
          \<open>2 * length s + 1 \<le> Suc n\<close> \<open>2 * length s + 1 \<le> m\<close> m in simp)
    have others: "read_members n u = read_members k u"
      if "skip_ws s = c # t" "read_string t = Some (key, t1)" "skip_ws t1 = d # t2" "read_value k t2 = Some (v, t3)"
        "skip_ws t3 = e # u" for c t key t1 d t2 v t3 e u
      by (rule IH(3); use that ws [OF that(1)] ws [OF that(3)] ws [OF that(5)] read_string_shorter [OF that(2)]
          read_value_shorter [OF that(4)] \<open>2 * length s + 1 \<le> Suc n\<close> \<open>2 * length s + 1 \<le> m\<close> m in simp)
    show ?thesis unfolding m by (auto split: option.split list.split simp: val others)
  qed
  ultimately show ?case by blast
qed simp

lemma parse_json_fuel:
  assumes "2 * length s + 1 \<le> n"
  shows "parse_json s = (case read_value n s of
     Some (v, t) \<Rightarrow> if skip_ws t = [] then Some v else None | None \<Rightarrow> None)"
  using read_fuel [of n, THEN conjunct1, rule_format, of s "2 * length s + 1"] assms
  by (simp only: parse_json_def) simp

section \<open>What is written reads back\<close>

text \<open>
  The decoder looks at the bytes it consumes only; an error consumes none of them.  \<open>tail k\<close>
  consumes \<open>k\<close> bytes when they are well-formed.
\<close>

definition tail :: "nat \<Rightarrow> (string \<Rightarrow> int option) \<Rightarrow> string \<Rightarrow> int \<times> string" where
  "tail k f s = (if k \<le> length s then
       (case f (take k s) of Some r \<Rightarrow> (r, drop k s) | None \<Rightarrow> (rune_error, s))
     else (rune_error, s))"

lemma tail_ext:
  assumes "tail k f (p @ t) = (r, t)" "r \<noteq> rune_error \<or> p \<noteq> []"
  shows "tail k f (p @ x) = (r, x)"
proof -
  have "p @ t = t \<longleftrightarrow> p = []" by simp
  then have ok: "k \<le> length (p @ t)" "f (take k (p @ t)) = Some r" "drop k (p @ t) = t"
    using assms by (auto simp: tail_def split: if_splits option.splits)
  from ok(3) have "length (drop k (p @ t)) = length t" by (rule arg_cong)
  with ok(1) have "length p = k" unfolding length_drop length_append by arith
  then show ?thesis using ok(2) by (simp add: tail_def)
qed

definition one_cont :: "char \<Rightarrow> string \<Rightarrow> int option" where
  "one_cont c w = (if cont (w ! 0) then Some ((byte c - 0xC0) * 0x40 + (byte (w ! 0) - 0x80)) else None)"

definition two_cont :: "char \<Rightarrow> string \<Rightarrow> int option" where
  "two_cont c w = (let r = (byte c - 0xE0) * 0x1000 + (byte (w ! 0) - 0x80) * 0x40 + (byte (w ! 1) - 0x80)
     in if cont (w ! 0) \<and> cont (w ! 1) \<and> 0x800 \<le> r \<and> scalar r then Some r else None)"

definition three_cont :: "char \<Rightarrow> string \<Rightarrow> int option" where
  "three_cont c w = (let r = (byte c - 0xF0) * 0x40000 + (byte (w ! 0) - 0x80) * 0x1000
       + (byte (w ! 1) - 0x80) * 0x40 + (byte (w ! 2) - 0x80)
     in if cont (w ! 0) \<and> cont (w ! 1) \<and> cont (w ! 2) \<and> 0x10000 \<le> r \<and> scalar r
        then Some r else None)"

lemma decode_rune_tail:
  "decode_rune c s = (let b = byte c in
     if b < 0x80 then tail 0 (\<lambda>_. Some b) s
     else if 0xC2 \<le> b \<and> b < 0xE0 then tail 1 (one_cont c) s
     else if 0xE0 \<le> b \<and> b < 0xF0 then tail 2 (two_cont c) s
     else if 0xF0 \<le> b \<and> b < 0xF5 then tail 3 (three_cont c) s
     else tail 0 (\<lambda>_. None) s)"
proof -
  have 1: "tail 1 (one_cont c) s = (case s of c1 # s1 \<Rightarrow>
      if cont c1 then ((byte c - 0xC0) * 0x40 + (byte c1 - 0x80), s1) else (rune_error, s)
      | _ \<Rightarrow> (rune_error, s))"
    by (cases s) (simp_all add: tail_def one_cont_def)
  have 2: "tail 2 (two_cont c) s = (case s of c1 # c2 # s2 \<Rightarrow>
      (let r = (byte c - 0xE0) * 0x1000 + (byte c1 - 0x80) * 0x40 + (byte c2 - 0x80)
       in if cont c1 \<and> cont c2 \<and> 0x800 \<le> r \<and> scalar r then (r, s2) else (rune_error, s))
      | _ \<Rightarrow> (rune_error, s))"
    by (simp add: tail_def two_cont_def Let_def numeral_2_eq_2 split: list.split)
  have 3: "tail 3 (three_cont c) s = (case s of c1 # c2 # c3 # s3 \<Rightarrow>
      (let r = (byte c - 0xF0) * 0x40000 + (byte c1 - 0x80) * 0x1000
         + (byte c2 - 0x80) * 0x40 + (byte c3 - 0x80)
       in if cont c1 \<and> cont c2 \<and> cont c3 \<and> 0x10000 \<le> r \<and> scalar r then (r, s3)
          else (rune_error, s))
      | _ \<Rightarrow> (rune_error, s))"
    by (simp add: tail_def three_cont_def Let_def numeral_2_eq_2 numeral_3_eq_3 split: list.split)
  show ?thesis unfolding decode_rune.simps [of c s] 1 2 3 by (simp add: tail_def Let_def)
qed

lemma decode_rune_ext:
  "decode_rune c (p @ t) = (r, t) \<Longrightarrow> r \<noteq> rune_error \<or> p \<noteq> [] \<Longrightarrow> decode_rune c (p @ x) = (r, x)"
  unfolding decode_rune_tail Let_def by (auto intro: tail_ext split: if_splits)

lemma hex_parts:
  fixes r :: int
  shows "r div 0x1000 * 16 + r div 0x100 mod 16 = r div 0x100"
    and "r div 0x100 * 16 + r div 16 mod 16 = r div 16"
    and "r div 16 * 16 + r mod 16 = r"
proof -
  have "r div 0x1000 = r div 0x100 div 16" by (simp flip: zdiv_zmult2_eq)
  then show "r div 0x1000 * 16 + r div 0x100 mod 16 = r div 0x100" by simp
  have "r div 0x100 = r div 16 div 16" by (simp flip: zdiv_zmult2_eq)
  then show "r div 0x100 * 16 + r div 16 mod 16 = r div 16" by simp
  show "r div 16 * 16 + r mod 16 = r" by simp
qed

lemma read_hex4_hex4:
  assumes "0 \<le> r" "r < 0x10000"
  shows "read_hex4 (hex4 r @ s) = Some (r, s)"
proof -
  have "0 \<le> k mod 16" "k mod 16 < 16" for k :: int by simp_all
  moreover have "0 \<le> r div 0x1000" "r div 0x1000 < 16"
    using assms by (simp_all add: pos_imp_zdiv_nonneg_iff div_less_iff_less_mult)
  ultimately show ?thesis
    by (simp only: hex4_def append.simps read_hex4.simps hex_val_digit hex_parts option.case prod.case)
qed

lemma byte_literals: "byte (chr 0x5C) = 0x5C" "byte (chr 0x22) = 0x22" "byte CHR ''u'' = 0x75"
  "byte CHR ''b'' = 0x62" "byte CHR ''f'' = 0x66" "byte CHR ''n'' = 0x6E" "byte CHR ''r'' = 0x72"
  "byte CHR ''t'' = 0x74"
  by (simp_all add: byte_def chr_def)

lemma read_string_escape:
  assumes "escape_char e = Some r" "e \<noteq> CHR ''u''"
  shows "read_string (chr 0x5C # e # s) = map_option (\<lambda>(w, t). (chr r # w, t)) (read_string s)"
  using assms by (simp add: byte_literals)

lemma read_string_hex4:
  assumes "0 \<le> r" "r < 0x10000" "scalar r"
  shows "read_string (chr 0x5C # CHR ''u'' # hex4 r @ s)
    = map_option (\<lambda>(w, t). (encode_rune r @ w, t)) (read_string s)"
proof -
  have "\<not> is_high r" "\<not> is_low r" using assms(3) by (auto simp: is_high_def is_low_def scalar_def)
  then show ?thesis using assms(1,2) by (simp add: byte_literals read_unicode_def read_hex4_hex4)
qed

lemma read_string_raw:
  assumes "decode_rune c p = (r, [])" "byte c \<noteq> 0x22" "0x20 \<le> byte c" "byte c \<noteq> 0x5C"
    and "decode_rune c (p @ s) = (r, s)"
  shows "read_string (c # p @ s) = map_option (\<lambda>(w, t). (encode_rune r @ w, t)) (read_string s)"
  using assms by simp

text \<open>The text of one code point reads back, whatever follows.\<close>

lemma read_string_seg:
  assumes "p = take (length s - length (snd (decode_rune c s))) s" and "r = fst (decode_rune c s)"
  shows "read_string (quote_seg r (c # p) @ u)
    = map_option (\<lambda>(w, t). (encode_rune r @ w, t)) (read_string u)"
proof -
  let ?t = "snd (decode_rune c s)"
  have s: "s = p @ ?t"
    using decode_rune_suffix [of s c] assms(1) by (metis append_eq_conv_conj length_append add_diff_cancel_right')
  have sc: "scalar r" using decode_rune_scalar [of c s] by (simp add: assms(2))
  have dec: "decode_rune c (p @ u) = (r, u)" if "r \<noteq> rune_error \<or> p \<noteq> []"
    using that decode_rune_ext [of c p ?t r u] s assms(2) by simp
  have asc: "encode_rune k = [chr k]" if "0 \<le> k" "k < 0x80" for k
    using that by (simp add: encode_rune_def scalar_def)
  show ?thesis
  proof (cases "r \<in> {0x22, 0x5C, 8, 12, 10, 13, 9}")
    case True
    have esc: "escape_char (chr 0x22) = Some 0x22" "escape_char (chr 0x5C) = Some 0x5C"
      "escape_char CHR ''b'' = Some 8" "escape_char CHR ''f'' = Some 12"
      "escape_char CHR ''n'' = Some 10" "escape_char CHR ''r'' = Some 13"
      "escape_char CHR ''t'' = Some 9" "chr 0x22 \<noteq> CHR ''u''" "chr 0x5C \<noteq> CHR ''u''"
      by code_simp+
    show ?thesis using True
      by (auto simp: quote_seg_def read_string_escape esc asc simp del: read_string.simps)
  next
    case False
    let ?esc = "r < 0x20 \<or> r = 0x3C \<or> r = 0x3E \<or> r = 0x26 \<or> r = 0x2028 \<or> r = 0x2029
      \<or> (r = rune_error \<and> p = [])"
    have q: "quote_seg r (c # p) = (if ?esc then chr 0x5C # CHR ''u'' # hex4 r else c # p)"
      using False by (simp add: quote_seg_def)
    show ?thesis
    proof (cases ?esc)
      case True
      then have "r < 0x10000" by (auto simp: rune_error_def)
      with True show ?thesis using read_string_hex4 [of r u] sc scalar_range by (simp add: q)
    next
      case raw: False
      have "byte c < 0x80 \<Longrightarrow> r = byte c" by (simp add: assms(2) decode_rune.simps)
      then have "byte c \<noteq> 0x22" "\<not> byte c < 0x20" "byte c \<noteq> 0x5C" using raw False by auto
      moreover have "decode_rune c (p @ u) = (r, u)" using raw dec by blast
      moreover have "quote_seg r (c # p) = c # p" unfolding q using raw by (rule if_not_P)
      ultimately show ?thesis by simp
    qed
  qed
qed

lemma read_string_quote:
  "read_string (concat (map (\<lambda>(r, bs). quote_seg r bs) (segs s)) @ chr 0x22 # u)
    = Some (of_runes (runes s), u)"
proof (induction s rule: segs.induct)
  case (2 c s)
  let ?t = "snd (decode_rune c s)"
  have "take (Suc (length s) - length ?t) (c # s) = c # take (length s - length ?t) s"
    by (simp add: Suc_diff_le decode_rune_shorter)
  then show ?case using 2 by (simp add: read_string_seg)
qed (simp add: byte_literals)

lemma quote_json_read:
  "read_string (tl (quote_json s) @ u) = Some (of_runes (runes s), u)"
  "quote_json s = chr 0x22 # tl (quote_json s)"
  using read_string_quote [of s u] by (simp_all add: quote_json_def)

section \<open>Numbers\<close>

definition ends_number :: "string \<Rightarrow> bool" where
  "ends_number s \<longleftrightarrow> (case s of [] \<Rightarrow> True
     | c # _ \<Rightarrow> c = CHR '','' \<or> c = CHR '']'' \<or> c = CHR ''}'' \<or> is_ws c)"

lemma ends_number_facts:
  assumes "ends_number s"
  shows "takeWhile is_digit s = []" "dropWhile is_digit s = s"
    "read_frac s = Some ([], s)" "read_exp s = Some ([], s)"
  using assms
  by (cases s; auto simp: ends_number_def read_frac_def read_exp_def is_digit_def is_ws_def byte_def)+

lemma digits_first: "0 < n \<Longrightarrow> \<exists>c t. digits n = c # t \<and> c \<noteq> CHR ''0''"
proof (induction n rule: digits.induct)
  case (1 n)
  show ?case
  proof (cases "n < 10")
    case True
    then have "digits n = [digit n]" using "1.prems" by (simp add: digits.simps [of n] digits.simps [of 0])
    moreover have "digit n \<noteq> CHR ''0''"
      using True "1.prems" digit_props(2) [of n] by (auto simp: digit_val_def byte_def)
    ultimately show ?thesis by simp
  next
    case False
    then have "0 < n div 10" by (simp add: pos_imp_zdiv_pos_iff)
    then obtain c t where "digits (n div 10) = c # t" "c \<noteq> CHR ''0''" using "1.IH" "1.prems" by force
    then show ?thesis using "1.prems" by (simp add: digits.simps [of n])
  qed
qed

lemma read_number_itoa:
  assumes "ends_number s"
  shows "read_number (itoa n @ s) = Some (itoa n, s)"
proof -
  have pos: "read_int (digits k @ s) = Some (digits k, s)"
    "read_int (CHR ''-'' # digits k @ s) = Some (CHR ''-'' # digits k, s)" if "0 < k" for k
  proof -
    obtain c t where d: "digits k = c # t" "c \<noteq> CHR ''0''" using digits_first [OF \<open>0 < k\<close>] by blast
    have "list_all is_digit (c # t)" using list_all_digits [of k] d by simp
    then have "takeWhile is_digit ((c # t) @ s) = c # t" "dropWhile is_digit ((c # t) @ s) = s"
        "is_digit c" "c \<noteq> CHR ''-''"
      using ends_number_facts(1,2) [OF assms] is_digit_not_sign
      by (auto simp: takeWhile_append dropWhile_append list_all_iff)
    with d show "read_int (digits k @ s) = Some (digits k, s)"
      "read_int (CHR ''-'' # digits k @ s) = Some (CHR ''-'' # digits k, s)"
      by (simp_all add: read_int_def Let_def)
  qed
  have "read_int (itoa n @ s) = Some (itoa n, s)"
    using pos [of n] pos [of "- n"] by (simp add: itoa_def) (simp add: read_int_def)
  then show ?thesis by (simp add: read_number_def ends_number_facts [OF assms])
qed

section \<open>Values\<close>

definition int_literal :: "string \<Rightarrow> bool" where
  "int_literal s \<longleftrightarrow> (case atoi s of Inl _ \<Rightarrow> False | Inr n \<Rightarrow> s = itoa n)"

text \<open>The values the program writes: their numbers are 64-bit integers.\<close>

fun json_ok :: "json \<Rightarrow> bool" where
  "json_ok (JNum s) = int_literal s"
| "json_ok (JArr vs) = list_all json_ok vs"
| "json_ok (JObj ms) = list_all (\<lambda>(k, v). json_ok v) ms"
| "json_ok _ = True"

text \<open>Ill-formed bytes are replaced by U+FFFD on the way.\<close>

definition clean_text :: "string \<Rightarrow> string" where
  "clean_text s = of_runes (runes s)"

fun clean :: "json \<Rightarrow> json" where
  "clean (JStr s) = JStr (clean_text s)"
| "clean (JArr vs) = JArr (map clean vs)"
| "clean (JObj ms) = JObj (map (\<lambda>(k, v). (clean_text k, clean v)) ms)"
| "clean v = v"

lemma itoa_first: "\<exists>c t. itoa n = c # t \<and> (is_digit c \<or> c = CHR ''-'')"
proof -
  have "itoa n \<noteq> []" using digits_nonempty [of n] by (simp add: itoa_def)
  then show ?thesis using itoa_chars [of _ n] by (cases "itoa n") auto
qed

definition opens_value :: "char \<Rightarrow> bool" where
  "opens_value c \<longleftrightarrow> c \<in> {CHR ''n'', CHR ''t'', CHR ''f'', CHR ''['', CHR ''{'', chr 0x22, CHR ''-''}
     \<or> is_digit c"

lemma print_first:
  assumes "json_ok v"
  obtains c t where "print_json v = c # t" "opens_value c"
proof (cases v)
  case (JNum s)
  then obtain n where "s = itoa n" using assms by (auto simp: int_literal_def split: sum.splits)
  with JNum itoa_first [of n] that show ?thesis by (auto simp: opens_value_def)
next
  case (JStr s)
  then show ?thesis using that quote_json_read(2) [of s] by (auto simp: opens_value_def)
next
  case (JBool b)
  then show ?thesis using that by (cases b) (auto simp: opens_value_def)
qed (use that in \<open>auto simp: opens_value_def\<close>)

lemma chr_quote: "chr 0x22 = CHR 0x22"
  by code_simp

lemma opens_value_facts:
  assumes "opens_value c"
  shows "\<not> is_ws c" "c \<noteq> CHR '']''" "c \<noteq> CHR ''}''"
  using assms by (auto simp: opens_value_def chr_quote is_ws_def is_digit_def byte_def)

lemma skip_ws_print: "json_ok v \<Longrightarrow> skip_ws (print_json v @ s) = print_json v @ s"
  by (rule print_first [of v]) (auto simp: skip_ws_def opens_value_facts)

definition comma_or :: "char \<Rightarrow> string \<Rightarrow> bool" where
  "comma_or c s \<longleftrightarrow> (\<exists>t. s = c # t)"

lemma skip_ws_simps [simp]:
  "skip_ws (CHR '','' # s) = CHR '','' # s" "skip_ws (CHR '']'' # s) = CHR '']'' # s"
  "skip_ws (CHR ''}'' # s) = CHR ''}'' # s" "skip_ws (CHR '':'' # s) = CHR '':'' # s"
  "skip_ws (CHR ''['' # s) = CHR ''['' # s" "skip_ws (CHR ''{'' # s) = CHR ''{'' # s"
  "skip_ws (CHR ''n'' # s) = CHR ''n'' # s" "skip_ws (CHR ''t'' # s) = CHR ''t'' # s"
  "skip_ws (CHR ''f'' # s) = CHR ''f'' # s" "skip_ws (chr 0x22 # s) = chr 0x22 # s"
  by (simp_all add: skip_ws_def is_ws_def byte_def chr_def)

lemma ends_number_simps [simp]:
  "ends_number (CHR '','' # s)" "ends_number (CHR '']'' # s)" "ends_number (CHR ''}'' # s)"
  "ends_number []"
  by (simp_all add: ends_number_def)

definition reads_back :: "json \<Rightarrow> bool" where
  "reads_back v \<longleftrightarrow> (\<forall>n s. 2 * length (print_json v) \<le> n \<longrightarrow> ends_number s \<longrightarrow>
     read_value n (print_json v @ s) = Some (clean v, s))"

lemma reads_backD:
  "reads_back v \<Longrightarrow> 2 * length (print_json v) \<le> n \<Longrightarrow> ends_number s \<Longrightarrow>
   read_value n (print_json v @ s) = Some (clean v, s)"
  by (simp add: reads_back_def)

lemma read_elements_join:
  "vs \<noteq> [] \<Longrightarrow> \<forall>v\<in>set vs. reads_back v \<Longrightarrow>
   2 * length (join '','' (map print_json vs)) + 1 \<le> n \<Longrightarrow>
   read_elements n (join '','' (map print_json vs) @ '']'' @ s) = Some (map clean vs, s)"
proof (induction vs arbitrary: n)
  case (Cons v vs)
  obtain m where n: "n = Suc m" using Cons.prems(3) by (cases n) auto
  show ?case
  proof (cases vs)
    case Nil
    with Cons.prems show ?thesis by (simp add: n reads_backD)
  next
    case (Cons w ws)
    with Cons.IH [of m] Cons.prems show ?thesis by (simp add: n reads_backD)
  qed
qed simp

abbreviation print_member :: "string \<times> json \<Rightarrow> string" where
  "print_member \<equiv> \<lambda>(k, v). quote_json k @ '':'' @ print_json v"

lemma read_members_join:
  "ms \<noteq> [] \<Longrightarrow> \<forall>(k, v)\<in>set ms. reads_back v \<Longrightarrow>
   2 * length (join '','' (map print_member ms)) + 1 \<le> n \<Longrightarrow>
   read_members n (join '','' (map print_member ms) @ ''}'' @ s)
     = Some (map (\<lambda>(k, v). (clean_text k, clean v)) ms, s)"
proof (induction ms arbitrary: n)
  case (Cons e ms)
  obtain k v where e: "e = (k, v)" by fastforce
  obtain m where n: "n = Suc m" using Cons.prems(3) by (cases n) auto
  obtain q where q: "quote_json k = chr 0x22 # q" "q = tl (quote_json k)"
    using quote_json_read(2) [of k] by simp
  note read = quote_json_read(1) [of k, folded q(2)]
  show ?case
  proof (cases ms)
    case Nil
    with Cons.prems show ?thesis by (simp add: n e q(1) read byte_literals clean_text_def reads_backD)
  next
    case (Cons f fs)
    with Cons.IH [of m] Cons.prems show ?thesis
      by (simp add: n e q(1) read byte_literals clean_text_def reads_backD)
  qed
qed simp

lemma eight_le: "8 \<le> n \<Longrightarrow> \<exists>m. n = Suc m" "10 \<le> n \<Longrightarrow> \<exists>m. n = Suc m"
  by presburger+

lemma reads_back: "json_ok v \<Longrightarrow> reads_back v"
proof (induction v)
  case (JNum w)
  then obtain k where w: "w = itoa k" by (auto simp: int_literal_def split: sum.splits)
  obtain c t where ct: "itoa k = c # t" "is_digit c \<or> c = CHR ''-''" using itoa_first by blast
  have c: "\<not> is_ws c" "c \<noteq> CHR ''{''" "c \<noteq> CHR ''[''" "byte c \<noteq> 0x22" "c \<noteq> CHR ''n''"
      "c \<noteq> CHR ''t''" "c \<noteq> CHR ''f''"
    using ct(2) by (auto simp: is_ws_def is_digit_def byte_def)
  have read: "read_value (Suc n) (c # t @ s) = Some (JNum (c # t), s)" if "ends_number s" for n s
    using c read_number_itoa [OF that, of k] ct(1) by (simp add: skip_ws_def has_prefix_def)
  show ?case unfolding reads_back_def
  proof (intro allI impI)
    fix n s
    assume "2 * length (print_json (JNum w)) \<le> n" and s: "ends_number s"
    then obtain m where "n = Suc m" by (cases n) (auto simp: w ct(1))
    then show "read_value n (print_json (JNum w) @ s) = Some (clean (JNum w), s)"
      using read [OF s] by (simp add: w ct(1) del: read_value.simps)
  qed
next
  case (JStr w)
  obtain q where q: "quote_json w = chr 0x22 # q" "q = tl (quote_json w)"
    using quote_json_read(2) [of w] by simp
  note read = quote_json_read(1) [of w, folded q(2)]
  show ?case unfolding reads_back_def
  proof (intro allI impI)
    fix n s
    assume "2 * length (print_json (JStr w)) \<le> n"
    then obtain m where "n = Suc m" by (cases n) (auto simp: q(1))
    then show "read_value n (print_json (JStr w) @ s) = Some (clean (JStr w), s)"
      by (simp add: q(1) read byte_literals clean_text_def) (simp add: chr_quote)
  qed
next
  case (JArr vs)
  then have vs: "\<forall>v\<in>set vs. reads_back v" by (auto simp: list_all_iff)
  show ?case unfolding reads_back_def
  proof (intro allI impI)
    fix n s
    assume len: "2 * length (print_json (JArr vs)) \<le> n"
    then obtain m where n: "n = Suc m" by (cases n) auto
    show "read_value n (print_json (JArr vs) @ s) = Some (clean (JArr vs), s)"
    proof (cases vs)
      case (Cons v ws)
      then have "json_ok v" using JArr.prems by simp
      then obtain c t where ct: "print_json v = c # t" "opens_value c" by (rule print_first)
      obtain u where u: "join '','' (map print_json vs) = c # u"
        using Cons ct by (cases ws) simp_all
      have "read_elements m (join '','' (map print_json vs) @ '']'' @ s) = Some (map clean vs, s)"
        using len Cons by (intro read_elements_join vs) (simp_all add: n)
      then show ?thesis
        using opens_value_facts [OF ct(2)] by (simp add: n u skip_ws_def [of "c # _"])
    qed (simp add: n)
  qed
next
  case (JObj ms)
  then have ms: "\<forall>(k, v)\<in>set ms. reads_back v" by (force simp: list_all_iff)
  show ?case unfolding reads_back_def
  proof (intro allI impI)
    fix n s
    assume len: "2 * length (print_json (JObj ms)) \<le> n"
    then obtain m where n: "n = Suc m" by (cases n) auto
    show "read_value n (print_json (JObj ms) @ s) = Some (clean (JObj ms), s)"
    proof (cases ms)
      case (Cons e es)
      obtain u where u: "join '','' (map print_member ms) = chr 0x22 # u"
        using Cons by (cases es; cases e) (auto simp: quote_json_def)
      have "read_members m (join '','' (map print_member ms) @ ''}'' @ s)
          = Some (map (\<lambda>(k, v). (clean_text k, clean v)) ms, s)"
        using len Cons by (intro read_members_join ms) (simp_all add: n)
      moreover have "chr 0x22 \<noteq> CHR ''}''" by (simp add: chr_quote)
      ultimately show ?thesis using u by (simp add: n)
    qed (simp add: n)
  qed
next
  case JNull
  have "read_value (Suc n) (''null'' @ s) = Some (JNull, s)" for n s
    by (simp add: has_prefix_def byte_def)
  then show ?case by (auto simp: reads_back_def dest!: eight_le simp del: read_value.simps)
next
  case (JBool b)
  have "read_value (Suc n) (''true'' @ s) = Some (JBool True, s)"
    "read_value (Suc n) (''false'' @ s) = Some (JBool False, s)" for n s
    by (simp_all add: has_prefix_def byte_def)
  then show ?case
    by (auto simp: reads_back_def dest!: eight_le simp del: read_value.simps split: if_splits)
qed

lemma parse_print: "json_ok v \<Longrightarrow> parse_json (print_json v) = Some (clean v)"
  using reads_backD [OF reads_back, of v "2 * length (print_json v) + 1" "[]"]
  by (simp add: parse_json_def skip_ws_def)

section \<open>Decoding into structures\<close>

text \<open>
  Field names match exactly or, failing that, by case folding.  The names are ASCII, so two code
  points outside ASCII matter: U+017F folds to \<open>S\<close> and U+212A to \<open>K\<close>.
\<close>

definition fold_rune :: "int \<Rightarrow> int" where
  "fold_rune r = (if 0x61 \<le> r \<and> r \<le> 0x7A then r - 0x20 else if r = 0x17F then 0x53
     else if r = 0x212A then 0x4B else r)"

definition fold_name :: "string \<Rightarrow> int list" where
  "fold_name s = map fold_rune (runes s)"

definition pick_field :: "(string \<times> 'f) list \<Rightarrow> string \<Rightarrow> 'f option" where
  "pick_field fields k = (case map_of fields k of
     Some f \<Rightarrow> Some f
   | None \<Rightarrow> map_option snd (List.find (\<lambda>(n, f). fold_name n = fold_name k) fields))"

text \<open>
  Each member of the object is stored into its field, in order; unknown members are ignored,
  \<^verbatim>\<open>null\<close> changes nothing, a value of another type is an error.
\<close>

fun decode_members :: "(string \<times> (json \<Rightarrow> 'r \<Rightarrow> 'r option)) list \<Rightarrow> (string \<times> json) list \<Rightarrow> 'r \<Rightarrow> 'r option" where
  "decode_members fields [] r = Some r"
| "decode_members fields ((k, v) # ms) r =
     (case pick_field fields k of
        None \<Rightarrow> decode_members fields ms r
      | Some put \<Rightarrow> (case put v r of None \<Rightarrow> None | Some r' \<Rightarrow> decode_members fields ms r'))"

definition decode_struct :: "(string \<times> (json \<Rightarrow> 'r \<Rightarrow> 'r option)) list \<Rightarrow> json \<Rightarrow> 'r \<Rightarrow> 'r option" where
  "decode_struct fields v r =
     (case v of JNull \<Rightarrow> Some r | JObj ms \<Rightarrow> decode_members fields ms r | _ \<Rightarrow> None)"

definition string_field :: "(string \<Rightarrow> 'r \<Rightarrow> 'r) \<Rightarrow> json \<Rightarrow> 'r \<Rightarrow> 'r option" where
  "string_field put v r = (case v of JNull \<Rightarrow> Some r | JStr s \<Rightarrow> Some (put s r) | _ \<Rightarrow> None)"

definition int_field :: "(int \<Rightarrow> 'r \<Rightarrow> 'r) \<Rightarrow> json \<Rightarrow> 'r \<Rightarrow> 'r option" where
  "int_field put v r = (case v of
     JNull \<Rightarrow> Some r
   | JNum s \<Rightarrow> (case atoi s of Inr n \<Rightarrow> Some (put n r) | Inl _ \<Rightarrow> None)
   | _ \<Rightarrow> None)"

fun decode_all :: "(json \<Rightarrow> 'e option) \<Rightarrow> json list \<Rightarrow> 'e list option" where
  "decode_all f [] = Some []"
| "decode_all f (v # vs) = (case (f v, decode_all f vs) of
     (Some x, Some xs) \<Rightarrow> Some (x # xs) | _ \<Rightarrow> None)"

definition list_field :: "(json \<Rightarrow> 'e option) \<Rightarrow> ('e list \<Rightarrow> 'r \<Rightarrow> 'r) \<Rightarrow> json \<Rightarrow> 'r \<Rightarrow> 'r option" where
  "list_field elem put v r = (case v of
     JNull \<Rightarrow> Some (put [] r)
   | JArr vs \<Rightarrow> map_option (\<lambda>xs. put xs r) (decode_all elem vs)
   | _ \<Rightarrow> None)"

text \<open>\<^verbatim>\<open>json.Unmarshal\<close> into a structure.\<close>

definition err_json :: gerror where
  "err_json = ErrText ''json: cannot unmarshal''"

definition unmarshal :: "(string \<times> (json \<Rightarrow> 'r \<Rightarrow> 'r option)) list \<Rightarrow> 'r \<Rightarrow> string \<Rightarrow> 'r res" where
  "unmarshal fields zero s =
     (case parse_json s of
        None \<Rightarrow> Inl err_json
      | Some v \<Rightarrow> (case decode_struct fields v zero of None \<Rightarrow> Inl err_json | Some r \<Rightarrow> Inr r))"

lemma clean_text_ascii: "(\<forall>c\<in>set s. byte c < 0x80) \<Longrightarrow> clean_text s = s"
proof (induction s)
  case (Cons c s)
  have "encode_rune (byte c) = [c]"
    using Cons.prems byte_range [of c] by (simp add: encode_rune_def scalar_def)
  with Cons show ?case
    by (simp add: clean_text_def decode_rune.simps)
qed (simp add: clean_text_def)

lemma clean_text_idem [simp]: "clean_text (clean_text s) = clean_text s"
  by (simp add: clean_text_def)

text \<open>Text of scalar values, which is what a decoded document and a source literal hold.\<close>

definition well_formed :: "string \<Rightarrow> bool" where
  "well_formed s \<longleftrightarrow> clean_text s = s"

lemma well_formed_of_runes [simp]: "list_all scalar rs \<Longrightarrow> well_formed (of_runes rs)"
  by (simp add: well_formed_def clean_text_def runes_of_runes)

lemma int_literal_itoa [simp]: "in_i64 n \<Longrightarrow> int_literal (itoa n)"
  by (simp add: int_literal_def atoi_itoa)

end
