(* ===== verification/Quiz.thy ===== *)
theory Quiz
  imports QuizPorts Grading Json
begin

text \<open>
  \<^verbatim>\<open>internal/service/quiz_service.go\<close> and \<^verbatim>\<open>stats_service.go\<close> over the interfaces: choosing the
  next question, grading a submission, history and statistics.

  The random generator of \<^verbatim>\<open>math/rand/v2\<close> is a list of drawn 64-bit numbers, used in order: a
  statement over all lists of draws is one over all outcomes of the generator.
\<close>

section \<open>Random choices\<close>

type_synonym draws = "int list"

definition draw :: "draws \<Rightarrow> int \<times> draws" where
  "draw ds = (case ds of [] \<Rightarrow> (0, []) | d # rest \<Rightarrow> (d, rest))"

definition int_n :: "nat \<Rightarrow> draws \<Rightarrow> nat \<times> draws" where
  "int_n n ds = (let (d, rest) = draw ds in (nat (d mod int n), rest))"

definition float_draw :: "draws \<Rightarrow> float64 \<times> draws" where
  "float_draw ds = (let (d, rest) = draw ds in (of_int (d mod 2 ^ 53) / 2 ^ 53, rest))"

definition due_share :: float64 where "due_share = rnd (7 / 10)"
definition weak_share :: float64 where "weak_share = rnd (2 / 3)"

lemma int_n_less: "0 < n \<Longrightarrow> int_n n ds = (i, ds') \<Longrightarrow> i < n"
  by (auto simp: int_n_def draw_def nat_less_iff split: list.splits)

section \<open>The answer as JSON\<close>

definition entry_fields :: "(string \<times> (json \<Rightarrow> journal_entry \<Rightarrow> journal_entry option)) list" where
  "entry_fields = [(''Account'', string_field (\<lambda>s e. JournalEntry s (amount e))),
     (''Amount'', int_field (\<lambda>n e. JournalEntry (account e) n))]"

definition read_entry :: "json \<Rightarrow> journal_entry option" where
  "read_entry v = decode_struct entry_fields v (JournalEntry [] 0)"

definition answer_fields :: "(string \<times> (json \<Rightarrow> answer_payload \<Rightarrow> answer_payload option)) list" where
  "answer_fields = [(''Type'', string_field (\<lambda>s a. a\<lparr>ans_type := s\<rparr>)),
     (''Debits'', list_field read_entry (\<lambda>es a. a\<lparr>ans_debits := es\<rparr>)),
     (''Credits'', list_field read_entry (\<lambda>es a. a\<lparr>ans_credits := es\<rparr>)),
     (''Choice'', string_field (\<lambda>s a. a\<lparr>ans_choice := s\<rparr>)),
     (''Text'', string_field (\<lambda>s a. a\<lparr>ans_text := s\<rparr>))]"

definition read_answer :: "string \<Rightarrow> answer_payload res" where
  "read_answer s = unmarshal answer_fields empty_answer s"

definition entry_json :: "journal_entry \<Rightarrow> json" where
  "entry_json e = JObj [(''Account'', JStr (account e)), (''Amount'', JNum (itoa (amount e)))]"

text \<open>A nil slice is written \<^verbatim>\<open>null\<close>, an empty one \<^verbatim>\<open>[]\<close>.\<close>

definition entries_json :: "bool \<Rightarrow> journal_entry list \<Rightarrow> json" where
  "entries_json is_nil es = (if is_nil \<and> es = [] then JNull else JArr (map entry_json es))"

definition answer_json :: "bool \<Rightarrow> bool \<Rightarrow> answer_payload \<Rightarrow> json" where
  "answer_json debits_nil credits_nil a = JObj [(''Type'', JStr (ans_type a)),
     (''Debits'', entries_json debits_nil (ans_debits a)),
     (''Credits'', entries_json credits_nil (ans_credits a)),
     (''Choice'', JStr (ans_choice a)), (''Text'', JStr (ans_text a))]"

definition write_answer :: "submit_input \<Rightarrow> string" where
  "write_answer i = print_json (answer_json (si_debits_nil i) (si_credits_nil i) (si_answer i))"

section \<open>The next question\<close>

record 's quiz_service =
  qz_questions :: "'s question_port"
  qz_sets :: "'s set_port"
  qz_attempts :: "'s attempt_port"
  qz_srs :: "'s srs_state_port"

definition pick_candidate :: "question list \<Rightarrow> draws \<Rightarrow> (question \<Rightarrow> bool) \<Rightarrow> question option \<times> draws" where
  "pick_candidate all ds cond =
     (let cands = filter cond all in
      if cands = [] then (None, ds)
      else let (i, ds') = int_n (length cands) ds in (Some (cands ! i), ds'))"

definition pick_random_avoid :: "question list \<Rightarrow> int \<Rightarrow> draws \<Rightarrow> question \<times> draws" where
  "pick_random_avoid all recent ds =
     (case pick_candidate all ds (\<lambda>q. q_id q \<noteq> recent) of
        (Some q, ds') \<Rightarrow> (q, ds')
      | (None, ds') \<Rightarrow> (let (i, ds'') = int_n (length all) ds' in (all ! i, ds'')))"

definition pick_unattempted ::
    "'s quiz_service \<Rightarrow> int \<Rightarrow> question list \<Rightarrow> draws \<Rightarrow> 's \<Rightarrow> question option \<times> draws \<times> 's" where
  "pick_unattempted z uid all ds s =
     (case att_attempted_question_ids (qz_attempts z) uid s of
        (Inl _, s') \<Rightarrow> (None, ds, s')
      | (Inr ids, s') \<Rightarrow> (let (q, ds') = pick_candidate all ds (\<lambda>q. q_id q \<notin> set ids) in (q, ds', s')))"

definition weak_topic_window_days :: int where "weak_topic_window_days = 7"
definition weak_topic_limit :: int where "weak_topic_limit = 3"

definition pick_weak_topic_avoid ::
    "'s quiz_service \<Rightarrow> int \<Rightarrow> question list \<Rightarrow> int \<Rightarrow> time \<Rightarrow> draws \<Rightarrow> 's
     \<Rightarrow> question option \<times> draws \<times> 's" where
  "pick_weak_topic_avoid z uid all recent now ds s =
     (case att_weak_topic_ids (qz_attempts z) uid (add_days now (- weak_topic_window_days)) weak_topic_limit s of
        (Inl _, s') \<Rightarrow> (None, ds, s')
      | (Inr ids, s') \<Rightarrow>
          if ids = [] then (None, ds, s')
          else (let (q, ds') = pick_candidate all ds (\<lambda>q. q_topic_id q \<in> set ids \<and> q_id q \<noteq> recent)
                in (q, ds', s')))"

text \<open>As many draws as there are candidates, until one of them can be loaded.\<close>

fun try_due :: "'s quiz_service \<Rightarrow> nat \<Rightarrow> srs_state list \<Rightarrow> draws \<Rightarrow> 's \<Rightarrow> question option \<times> draws \<times> 's" where
  "try_due z 0 cands ds s = (None, ds, s)"
| "try_due z (Suc n) cands ds s =
     (let (i, ds') = int_n (length cands) ds in
      case qst_get_by_id (qz_questions z) (sr_question_id (cands ! i)) s of
        (Inr q, s') \<Rightarrow> (Some q, ds', s')
      | (Inl _, s') \<Rightarrow> try_due z n cands ds' s')"

definition pick_due_avoid ::
    "'s quiz_service \<Rightarrow> srs_state list \<Rightarrow> int \<Rightarrow> draws \<Rightarrow> 's \<Rightarrow> question option \<times> draws \<times> 's" where
  "pick_due_avoid z due recent ds s =
     (let others = filter (\<lambda>st. sr_question_id st \<noteq> recent) due;
          cands = (if others = [] then due else others)
      in try_due z (length cands) cands ds s)"

definition last_question :: "'s quiz_service \<Rightarrow> int \<Rightarrow> 's \<Rightarrow> int \<times> 's" where
  "last_question z uid s =
     (case att_list_by_user (qz_attempts z) uid 1 0 s of
        (Inr (a # _), s') \<Rightarrow> (a_question_id a, s')
      | (_, s') \<Rightarrow> (0, s'))"

text \<open>The three shares of the mode, each falling through to the next when it finds nothing.\<close>

definition srs_due_step ::
    "'s quiz_service \<Rightarrow> srs_state list \<Rightarrow> int \<Rightarrow> draws \<Rightarrow> 's \<Rightarrow> question option \<times> draws \<times> 's" where
  "srs_due_step z due recent ds s =
     (if due = [] then (None, ds, s)
      else let (f, ds') = float_draw ds in
        if f < due_share then pick_due_avoid z due recent ds' s else (None, ds', s))"

definition srs_weak_step ::
    "'s quiz_service \<Rightarrow> int \<Rightarrow> question list \<Rightarrow> int \<Rightarrow> time \<Rightarrow> draws \<Rightarrow> 's
     \<Rightarrow> question option \<times> draws \<times> 's" where
  "srs_weak_step z uid all recent now ds s =
     (let (f, ds') = float_draw ds in
      if f < weak_share then pick_weak_topic_avoid z uid all recent now ds' s else (None, ds', s))"

definition pick_srs ::
    "'s quiz_service \<Rightarrow> time \<Rightarrow> draws \<Rightarrow> int \<Rightarrow> question list \<Rightarrow> 's \<Rightarrow> question res \<times> 's" where
  "pick_srs z now ds uid all s =
     (case srs_due_for_user (qz_srs z) uid now 50 s of
        (Inl e, s1) \<Rightarrow> (Inl (ErrWrap ''quiz srs due'' e), s1)
      | (Inr due, s1) \<Rightarrow>
     (let (recent, s2) = last_question z uid s1 in
      case srs_due_step z due recent ds s2 of
        (Some q, ds3, s3) \<Rightarrow> (Inr q, s3)
      | (None, ds3, s3) \<Rightarrow>
     (case srs_weak_step z uid all recent now ds3 s3 of
        (Some q, ds4, s4) \<Rightarrow> (Inr q, s4)
      | (None, ds4, s4) \<Rightarrow>
     (case pick_unattempted z uid all ds4 s4 of
        (Some q, ds5, s5) \<Rightarrow> (Inr q, s5)
      | (None, ds5, s5) \<Rightarrow> (Inr (fst (pick_random_avoid all recent ds5)), s5)))))"

fun next_after :: "int \<Rightarrow> question list \<Rightarrow> question list \<Rightarrow> question option" where
  "next_after recent all [] = None"
| "next_after recent all (q # qs) =
     (if q_id q = recent then Some (case qs of [] \<Rightarrow> hd all | q' # _ \<Rightarrow> q') else next_after recent all qs)"

definition pick_sequential ::
    "'s quiz_service \<Rightarrow> int \<Rightarrow> string \<Rightarrow> question list \<Rightarrow> 's \<Rightarrow> question res \<times> 's" where
  "pick_sequential z uid code all s =
     (case set_get_by_code (qz_sets z) code s of
        (Inl e, s1) \<Rightarrow> (Inl (ErrWrap ''quiz sequential set'' e), s1)
      | (Inr st, s1) \<Rightarrow>
     (case att_last_question_id_in_set (qz_attempts z) uid (qs_id st) s1 of
        (Inl e, s2) \<Rightarrow>
          if errors_is e ErrNotFound then (Inr (hd all), s2)
          else (Inl (ErrWrap ''quiz sequential last'' e), s2)
      | (Inr recent, s2) \<Rightarrow>
          (case next_after recent all all of Some q \<Rightarrow> (Inr q, s2) | None \<Rightarrow> (Inr (hd all), s2))))"

definition next_question ::
    "'s quiz_service \<Rightarrow> time \<Rightarrow> draws \<Rightarrow> int \<Rightarrow> string \<Rightarrow> quiz_mode \<Rightarrow> 's \<Rightarrow> question res \<times> 's" where
  "next_question z now ds uid code m s =
     (case qst_list_by_set (qz_questions z) code s of
        (Inl e, s1) \<Rightarrow> (Inl (ErrWrap ''quiz next list'' e), s1)
      | (Inr all, s1) \<Rightarrow>
          if all = [] then (Inl ErrNotFound, s1)
          else if m = mode_random then (Inr (all ! fst (int_n (length all) ds)), s1)
          else if m = mode_sequential then pick_sequential z uid code all s1
          else if m = mode_srs \<or> m = [] then pick_srs z now ds uid all s1
          else (Inl ErrInvalidInput, s1))"

section \<open>Submitting an answer\<close>

text \<open>The set of the attempt: a code that cannot be looked up leaves it out.\<close>

definition submit_set :: "'s quiz_service \<Rightarrow> string \<Rightarrow> 's \<Rightarrow> int option \<times> 's" where
  "submit_set z code s =
     (if code = [] then (None, s)
      else case set_get_by_code (qz_sets z) code s of
        (Inr st, s') \<Rightarrow> (Some (qs_id st), s') | (Inl _, s') \<Rightarrow> (None, s'))"

definition submit ::
    "(int \<Rightarrow> int) \<Rightarrow> 's quiz_service \<Rightarrow> time \<Rightarrow> int \<Rightarrow> submit_input \<Rightarrow> 's \<Rightarrow> graded_attempt res \<times> 's" where
  "submit cf z now uid i s =
     (case qst_get_by_id (qz_questions z) (si_question_id i) s of
        (Inl e, s1) \<Rightarrow> (Inl e, s1)
      | (Inr q, s1) \<Rightarrow>
     (case read_answer (q_answer_json q) of
        Inl e \<Rightarrow> (Inl (ErrWrap ''quiz submit answer json'' e), s1)
      | Inr want \<Rightarrow>
     (let correct = is_correct cf want (si_answer i);
          (sid, s2) = submit_set z (si_set_code i) s1
      in case att_create (qz_attempts z) \<lparr>a_id = 0, a_user_id = uid, a_question_id = si_question_id i,
                a_set_id = sid, a_is_correct = correct, a_duration_ms = si_duration_ms i,
                a_submitted_json = write_answer i, a_answered_at = now\<rparr> s2 of
        (Inl e, s3) \<Rightarrow> (Inl (ErrWrap ''quiz submit create attempt'' e), s3)
      | (Inr att, s3) \<Rightarrow>
     (case srs_get (qz_srs z) uid (si_question_id i) s3 of
        (r, s4) \<Rightarrow>
     (case (case r of Inr st \<Rightarrow> Inr st
            | Inl e \<Rightarrow> if errors_is e ErrNotFound
                then Inr ((new_state now)\<lparr>sr_user_id := uid, sr_question_id := si_question_id i\<rparr>)
                else Inl (ErrWrap ''quiz submit srs get'' e)) of
        Inl e \<Rightarrow> (Inl e, s4)
      | Inr st \<Rightarrow>
     (let new = next_state st (grade_from_result correct (si_duration_ms i)) now
      in case srs_upsert (qz_srs z) new s4 of
        (Inl e, s5) \<Rightarrow> (Inl (ErrWrap ''quiz submit srs upsert'' e), s5)
      | (Inr _, s5) \<Rightarrow> (Inr \<lparr>ga_attempt = att, ga_explanation = q_explanation q,
                             ga_next_due_at = sr_due_at new\<rparr>, s5)))))))"

section \<open>History\<close>

definition delete_attempt :: "'s quiz_service \<Rightarrow> int \<Rightarrow> int \<Rightarrow> 's \<Rightarrow> unit res \<times> 's" where
  "delete_attempt z uid aid s = att_delete_by_id (qz_attempts z) uid aid s"

definition delete_all_for_user :: "'s quiz_service \<Rightarrow> int \<Rightarrow> 's \<Rightarrow> unit res \<times> 's" where
  "delete_all_for_user z uid s =
     (case att_delete_all_for_user (qz_attempts z) uid s of
        (Inl e, s1) \<Rightarrow> (Inl (ErrWrap ''quiz delete attempts'' e), s1)
      | (Inr _, s1) \<Rightarrow>
     (case srs_delete_all_for_user (qz_srs z) uid s1 of
        (Inl e, s2) \<Rightarrow> (Inl (ErrWrap ''quiz delete srs'' e), s2)
      | (Inr _, s2) \<Rightarrow> (Inr (), s2)))"

definition history :: "'s quiz_service \<Rightarrow> int \<Rightarrow> int \<Rightarrow> int \<Rightarrow> 's \<Rightarrow> attempt list res \<times> 's" where
  "history z uid limit offset s = att_list_by_user (qz_attempts z) uid limit offset s"

section \<open>Statistics\<close>

record 's stats_service =
  st_attempts :: "'s attempt_port"
  st_srs :: "'s srs_state_port"

definition stats_summary_of :: "'s stats_service \<Rightarrow> time \<Rightarrow> int \<Rightarrow> 's \<Rightarrow> stats_summary res \<times> 's" where
  "stats_summary_of z now uid s =
     (case att_summary_for_user (st_attempts z) uid s of
        (Inl e, s1) \<Rightarrow> (Inl (ErrWrap ''stats summary attempts'' e), s1)
      | (Inr (n, correct), s1) \<Rightarrow>
     (case srs_count_due_for_user (st_srs z) uid now s1 of
        (Inl e, s2) \<Rightarrow> (Inl (ErrWrap ''stats summary due'' e), s2)
      | (Inr due, s2) \<Rightarrow>
          (Inr \<lparr>ss_total_attempts = n, ss_total_correct = correct,
             ss_overall_rate = (if 0 < n then fdiv (float_of_int correct) (float_of_int n) else 0),
             ss_due_count = due\<rparr>, s2)))"

definition topic_stats_of :: "'s stats_service \<Rightarrow> int \<Rightarrow> 's \<Rightarrow> topic_stat list res \<times> 's" where
  "topic_stats_of z uid s = att_stats_by_topic (st_attempts z) uid s"

definition daily_accuracy_of ::
    "'s stats_service \<Rightarrow> time \<Rightarrow> int \<Rightarrow> int \<Rightarrow> 's \<Rightarrow> daily_accuracy list res \<times> 's" where
  "daily_accuracy_of z now uid days s = att_daily_accuracy (st_attempts z) uid days now s"

section \<open>The answer reads back\<close>

definition answer_ok :: "answer_payload \<Rightarrow> bool" where
  "answer_ok a \<longleftrightarrow> well_formed (ans_type a) \<and> well_formed (ans_choice a) \<and> well_formed (ans_text a)
     \<and> list_all (\<lambda>e. well_formed (account e) \<and> in_i64 (amount e)) (ans_debits a @ ans_credits a)"

lemma pick_field_exact: "map_of fs k = Some f \<Longrightarrow> pick_field fs k = Some f"
  by (simp add: pick_field_def)

lemma read_entry_json: "in_i64 (amount e) \<Longrightarrow> read_entry (entry_json e) = Some e"
  by (cases e) (simp add: read_entry_def entry_json_def entry_fields_def decode_struct_def
      pick_field_exact string_field_def int_field_def atoi_itoa)

lemma read_entries_json:
  "list_all (\<lambda>e. in_i64 (amount e)) es \<Longrightarrow> decode_all read_entry (map entry_json es) = Some es"
  by (induction es) (simp_all add: read_entry_json)

lemma entries_field_json:
  "list_all (\<lambda>e. in_i64 (amount e)) es \<Longrightarrow>
   list_field read_entry put (entries_json n es) r = Some (put es r)"
  by (simp add: entries_json_def list_field_def read_entries_json)

lemma clean_entry: "well_formed (account e) \<Longrightarrow> clean (entry_json e) = entry_json e"
  by (simp add: entry_json_def well_formed_def clean_text_ascii byte_def)

lemma clean_entries:
  "list_all (\<lambda>e. well_formed (account e)) es \<Longrightarrow> clean (entries_json n es) = entries_json n es"
  by (auto simp: entries_json_def list_all_iff clean_entry)

lemma json_ok_entries:
  "list_all (\<lambda>e. in_i64 (amount e)) es \<Longrightarrow> json_ok (entries_json n es)"
  by (auto simp: entries_json_def entry_json_def list_all_iff)

lemma read_write_answer:
  assumes "answer_ok a"
  shows "read_answer (print_json (answer_json n m a)) = Inr a"
proof -
  let ?v = "answer_json n m a"
  have d: "list_all (\<lambda>e. in_i64 (amount e)) (ans_debits a)" "list_all (\<lambda>e. in_i64 (amount e)) (ans_credits a)"
    and w: "list_all (\<lambda>e. well_formed (account e)) (ans_debits a)"
      "list_all (\<lambda>e. well_formed (account e)) (ans_credits a)"
    using assms by (auto simp: answer_ok_def list_all_iff)
  have "json_ok ?v" using d by (simp add: answer_json_def json_ok_entries)
  moreover have "clean ?v = ?v"
    using assms w by (simp add: answer_json_def answer_ok_def well_formed_def clean_entries
        clean_text_ascii byte_def)
  ultimately have "parse_json (print_json ?v) = Some ?v" by (simp add: parse_print)
  then show ?thesis
    using d by (simp add: read_answer_def unmarshal_def answer_json_def decode_struct_def answer_fields_def
        pick_field_exact string_field_def entries_field_json empty_answer_def)
qed

section \<open>What the choices return\<close>

lemma pick_candidate_Some:
  assumes "pick_candidate all ds cond = (Some q, ds')"
  shows "q \<in> set all \<and> cond q"
proof -
  obtain i ds'' where i: "int_n (length (filter cond all)) ds = (i, ds'')" by fastforce
  have "filter cond all \<noteq> []" and q: "q = filter cond all ! i"
    using assms i by (auto simp: pick_candidate_def Let_def split: if_splits)
  then have "i < length (filter cond all)" using int_n_less [OF _ i] by blast
  then have "q \<in> set (filter cond all)" unfolding q by (rule nth_mem)
  then show ?thesis by simp
qed

lemma pick_candidate_None: "pick_candidate all ds cond = (None, ds') \<Longrightarrow> \<forall>q\<in>set all. \<not> cond q"
  by (auto simp: pick_candidate_def Let_def filter_empty_conv split: if_splits prod.splits)

lemma pick_random_avoid_in:
  assumes "all \<noteq> []"
  shows "fst (pick_random_avoid all recent ds) \<in> set all
    \<and> (q_id (fst (pick_random_avoid all recent ds)) = recent \<longrightarrow> (\<forall>q\<in>set all. q_id q = recent))"
proof (cases "pick_candidate all ds (\<lambda>q. q_id q \<noteq> recent)")
  case (Pair r ds')
  show ?thesis
  proof (cases r)
    case None
    obtain i ds'' where "int_n (length all) ds' = (i, ds'')" by fastforce
    moreover have "\<forall>q\<in>set all. q_id q = recent" using pick_candidate_None Pair None by fastforce
    ultimately show ?thesis
      using assms int_n_less [of "length all" ds' i] Pair None by (auto simp: pick_random_avoid_def)
  next
    case (Some q)
    with Pair pick_candidate_Some [of all ds] show ?thesis by (auto simp: pick_random_avoid_def)
  qed
qed

lemma next_after_in: "next_after recent all qs = Some q \<Longrightarrow> q \<in> set (hd all # qs)"
  by (induction qs) (auto split: if_splits list.splits)

lemma next_after_nth:
  assumes "distinct (map q_id qs)" "i < length qs"
  shows "next_after (q_id (qs ! i)) all qs = Some (if Suc i < length qs then qs ! Suc i else hd all)"
  using assms
proof (induction qs arbitrary: i)
  case (Cons q qs)
  show ?case
  proof (cases i)
    case 0
    then show ?thesis by (cases qs) auto
  next
    case (Suc j)
    then have "q_id (qs ! j) \<in> q_id ` set qs" using Cons.prems by auto
    then have "q_id q \<noteq> q_id (qs ! j)" using Cons.prems by auto
    with Suc Cons show ?thesis by simp
  qed
qed simp

context quiz_store
begin

lemma try_due_done:
  assumes "qz_questions z = bank" "cands \<noteq> []" "try_due z n cands ds s = (r, ds', s')"
  shows "same s s' \<and> (\<forall>q. r = Some q \<longrightarrow> (\<exists>st\<in>set cands. question_of s (sr_question_id st) = Some q))"
  using assms(3)
proof (induction n arbitrary: ds s)
  case 0
  then show ?case using same_refl by auto
next
  case (Suc n)
  obtain i ds1 where i: "int_n (length cands) ds = (i, ds1)" by fastforce
  then have "i < length cands" using int_n_less assms(2) by blast
  then have mem: "cands ! i \<in> set cands" by simp
  obtain rq s1 where g: "qst_get_by_id bank (sr_question_id (cands ! i)) s = (rq, s1)" by fastforce
  show ?case
  proof (cases rq)
    case (Inr q)
    with Suc.prems i g assms(1) get_by_id [OF g] mem show ?thesis by auto
  next
    case (Inl e)
    with Suc.prems i g assms(1) have "try_due z n cands ds1 s1 = (r, ds', s')" by simp
    from Suc.IH [OF this] get_by_id [OF g] show ?thesis
      using bank_same same_trans by (metis (no_types, lifting))
  qed
qed

lemma last_question_done:
  assumes "qz_attempts z = atts" "last_question z uid s = (i, s')"
  shows "same s s'"
proof -
  obtain r s1 where l: "att_list_by_user atts uid 1 0 s = (r, s1)" by fastforce
  with assms have "s' = s1"
    by (auto simp: last_question_def split: sum.splits list.splits)
  with list_by_user [OF l] show ?thesis by simp
qed

lemma srs_due_step_done:
  assumes "qz_questions z = bank" "srs_due_step z due recent ds s = (r, ds', s')"
  shows "same s s' \<and> (\<forall>q. r = Some q \<longrightarrow> (\<exists>st\<in>set due. question_of s (sr_question_id st) = Some q
    \<and> (q_id q = recent \<longrightarrow> (\<forall>x\<in>set due. sr_question_id x = recent))))"
proof (cases "due = [] \<or> \<not> fst (float_draw ds) < due_share")
  case True
  with assms(2) same_refl show ?thesis by (auto simp: srs_due_step_def Let_def split: prod.splits if_splits)
next
  case False
  define cands where "cands = (if filter (\<lambda>st. sr_question_id st \<noteq> recent) due = [] then due
    else filter (\<lambda>st. sr_question_id st \<noteq> recent) due)"
  have c: "cands \<noteq> []" "set cands \<subseteq> set due" using False by (auto simp: cands_def)
  obtain ds1 where "try_due z (length cands) cands ds1 s = (r, ds', s')"
    using False assms(2)
    by (auto simp: srs_due_step_def pick_due_avoid_def cands_def Let_def split: prod.splits)
  from try_due_done [OF assms(1) c(1) this]
  have st: "same s s'" "\<forall>q. r = Some q \<longrightarrow> (\<exists>st\<in>set cands. question_of s (sr_question_id st) = Some q)" by auto
  have "\<forall>x\<in>set due. sr_question_id x = recent"
    if "st \<in> set cands" "sr_question_id st = recent" for st
    using that by (auto simp: cands_def filter_empty_conv split: if_splits)
  then have one: "\<forall>x\<in>set due. sr_question_id x = recent"
    if "st \<in> set cands" "question_of s (sr_question_id st) = Some q" "q_id q = recent" for st q
    using that question_id [OF that(2)] by simp
  show ?thesis
  proof (intro conjI allI impI st(1))
    fix q assume "r = Some q"
    with st(2) obtain st' where "st' \<in> set cands" "question_of s (sr_question_id st') = Some q" by blast
    with one c(2) show "\<exists>st\<in>set due. question_of s (sr_question_id st) = Some q
        \<and> (q_id q = recent \<longrightarrow> (\<forall>x\<in>set due. sr_question_id x = recent))"
      by (intro bexI [of _ st']) auto
  qed
qed

lemma srs_weak_step_done:
  assumes "qz_attempts z = atts" "srs_weak_step z uid all recent now ds s = (r, ds', s')"
  shows "same s s' \<and> (\<forall>q. r = Some q \<longrightarrow> q \<in> set all \<and> q_id q \<noteq> recent)"
proof -
  obtain rw s1 where w: "att_weak_topic_ids atts uid (add_days now (- weak_topic_window_days)) weak_topic_limit s
      = (rw, s1)" by fastforce
  have "(r = None \<and> (s' = s \<or> s' = s1)) \<or> (s' = s1 \<and> (\<exists>ids ds1.
      pick_candidate all ds1 (\<lambda>q. q_topic_id q \<in> set ids \<and> q_id q \<noteq> recent) = (r, ds')))"
    using assms w by (auto simp: srs_weak_step_def pick_weak_topic_avoid_def Let_def
        split: prod.splits sum.splits if_splits)
  then show ?thesis
    using weak_topics [OF w] same_refl pick_candidate_Some by blast
qed

lemma pick_unattempted_done:
  assumes "qz_attempts z = atts" "pick_unattempted z uid all ds s = (r, ds', s')"
  shows "same s s' \<and> (\<forall>q. r = Some q \<longrightarrow>
    q \<in> set all \<and> q_id q \<notin> a_question_id ` {a\<in>set (log s). a_user_id a = uid})"
proof -
  obtain rw s1 where w: "att_attempted_question_ids atts uid s = (rw, s1)" by fastforce
  have "s' = s1 \<and> (r = None \<or> (\<exists>ids. rw = Inr ids
      \<and> pick_candidate all ds (\<lambda>q. q_id q \<notin> set ids) = (r, ds')))"
    using assms w by (auto simp: pick_unattempted_def split: prod.splits sum.splits)
  then consider "r = None" "s' = s1" | ids where "s' = s1" "rw = Inr ids"
      "pick_candidate all ds (\<lambda>q. q_id q \<notin> set ids) = (r, ds')" by blast
  then show ?thesis
  proof cases
    case (2 ids)
    with attempted [OF w] have "set ids = a_question_id ` {a\<in>set (log s). a_user_id a = uid}" by simp
    with 2 attempted [OF w] pick_candidate_Some [of all ds] show ?thesis by auto
  qed (use attempted [OF w] in simp)
qed

lemma pick_srs_done:
  assumes "ok s" "qz_questions z = bank" "qz_attempts z = atts" "qz_srs z = states" "all \<noteq> []"
    and "pick_srs z now ds uid all s = (Inr q, s')"
  obtains due s1 recent s2 where "srs_due_for_user states uid now 50 s = (Inr due, s1)"
    "last_question z uid s1 = (recent, s2)" "same s s1" "same s s'"
    "(q \<in> set all \<and> (q_id q = recent \<longrightarrow> recent \<in> a_question_id ` {a\<in>set (log s). a_user_id a = uid}
          \<longrightarrow> (\<forall>x\<in>set all. q_id x = recent)))
     \<or> (\<exists>st\<in>set due. question_of s (sr_question_id st) = Some q
          \<and> (q_id q = recent \<longrightarrow> (\<forall>x\<in>set due. sr_question_id x = recent)))"
proof -
  obtain due s1 where d: "srs_due_for_user states uid now 50 s = (Inr due, s1)"
    using assms(4,6) by (auto simp: pick_srs_def split: prod.splits sum.splits)
  obtain recent s2 where l: "last_question z uid s1 = (recent, s2)" by fastforce
  obtain r3 ds3 s3 where 3: "srs_due_step z due recent ds s2 = (r3, ds3, s3)" by (metis prod_cases3)
  obtain r4 ds4 s4 where 4: "srs_weak_step z uid all recent now ds3 s3 = (r4, ds4, s4)" by (metis prod_cases3)
  obtain r5 ds5 s5 where 5: "pick_unattempted z uid all ds4 s4 = (r5, ds5, s5)" by (metis prod_cases3)
  have c: "(r3 = Some q \<and> s' = s3) \<or> (r4 = Some q \<and> s' = s4) \<or> (r5 = Some q \<and> s' = s5)
      \<or> (q = fst (pick_random_avoid all recent ds5) \<and> s' = s5)"
    using assms(4,6) d l 3 4 5 by (auto simp: pick_srs_def split: option.splits)
  have 2: "same s s1" "same s1 s2"
    using due [OF assms(1) d] last_question_done [OF assms(3) l] by simp_all
  note three = srs_due_step_done [OF assms(2) 3]
  note four = srs_weak_step_done [OF assms(3) 4]
  note five = pick_unattempted_done [OF assms(3) 5]
  have to2: "same s s2" using 2 same_trans by blast
  have to3: "same s s3" using to2 three same_trans by blast
  have to4: "same s s4" using to3 four same_trans by blast
  have to5: "same s s5" using to4 five same_trans by blast
  have "log s4 = log s" "question_of s2 = question_of s"
    using log_same [OF to4] bank_same [OF to2] by simp_all
  with c three four five pick_random_avoid_in [OF assms(5), of recent ds5] to3 to4 to5
  show thesis by (intro that [OF d l 2(1)]) auto
qed

lemma pick_srs_error:
  assumes "ok s" "qz_questions z = bank" "qz_attempts z = atts" "qz_srs z = states"
    and "pick_srs z now ds uid all s = (Inl e, s')"
  shows "same s s'"
proof -
  obtain e' where "srs_due_for_user states uid now 50 s = (Inl e', s')"
    using assms(4,5) by (auto simp: pick_srs_def Let_def split: prod.splits sum.splits option.splits)
  from due [OF assms(1) this] show ?thesis by simp
qed

lemma pick_sequential_done:
  assumes "qz_sets z = sets" "qz_attempts z = atts" "all \<noteq> []" "set_of s c = Some st"
    and "pick_sequential z uid c all s = (r, s')"
  shows "same s s' \<and> (\<forall>q. r = Inr q \<longrightarrow> q \<in> set all)
    \<and> (\<forall>q. r = Inr q \<longrightarrow> (let xs = latest_first (filter (\<lambda>a. a_user_id a = uid \<and> a_set_id a = Some (qs_id st)) (log s)) in
         if xs = [] then q = hd all
         else q = (case next_after (a_question_id (hd xs)) all all of Some x \<Rightarrow> x | None \<Rightarrow> hd all)))"
proof -
  obtain r1 s1 where 1: "set_get_by_code sets c s = (r1, s1)" by fastforce
  note one = set_by_code [OF 1]
  show ?thesis
  proof (cases r1)
    case (Inl e)
    with 1 one assms show ?thesis by (auto simp: pick_sequential_def)
  next
    case (Inr x)
    with one assms(4) have x: "x = st" by simp
    obtain r2 s2 where 2: "att_last_question_id_in_set atts uid (qs_id st) s1 = (r2, s2)" by fastforce
    note two = last_in_set [OF 2]
    have same2: "same s s2" "log s1 = log s" using one two same_trans log_same by blast+
    have hd: "hd all \<in> set all" using assms(3) by simp
    have aft: "q \<in> set all" if "next_after i all all = Some q" for i q
      using next_after_in [OF that] hd by auto
    show ?thesis
    proof (cases r2)
      case (Inr j)
      with 1 2 assms(1,2,5) \<open>r1 = Inr x\<close> x
      have "(r, s') = (case next_after j all all of Some q \<Rightarrow> (Inr q, s2) | None \<Rightarrow> (Inr (hd all), s2))"
        by (simp add: pick_sequential_def)
      with two same2 hd aft Inr show ?thesis by (auto simp: Let_def split: option.splits)
    next
      case (Inl e)
      show ?thesis
      proof (cases "errors_is e ErrNotFound")
        case True
        with 1 2 assms(1,2,5) \<open>r1 = Inr x\<close> x Inl have "r = Inr (hd all)" "s' = s2"
          by (simp_all add: pick_sequential_def)
        then show ?thesis using two same2 hd Inl True by (auto simp: Let_def)
      next
        case False
        with 1 2 assms(1,2,5) \<open>r1 = Inr x\<close> x Inl have "r = Inl (ErrWrap ''quiz sequential last'' e)" "s' = s2"
          by (auto simp: pick_sequential_def)
        with same2 show ?thesis by simp
      qed
    qed
  qed
qed

text \<open>A question of the set, or in the mode for spaced repetition one that is due.\<close>

lemma next_question_done:
  assumes "ok s" "qz_questions z = bank" "qz_sets z = sets" "qz_attempts z = atts" "qz_srs z = states"
    and "next_question z now ds uid c m s = (Inr q, s')"
  shows "same s s' \<and> set_qs s c \<noteq> [] \<and> (q \<in> set (set_qs s c)
    \<or> (m = mode_srs \<or> m = []) \<and> (\<exists>st. memory s (uid, sr_question_id st) = Some st
        \<and> unix (sr_due_at st) \<le> unix now \<and> question_of s (sr_question_id st) = Some q))"
proof -
  obtain all s1 where l: "qst_list_by_set bank c s = (Inr all, s1)" and ne: "all \<noteq> []"
    using assms(2,6) by (auto simp: next_question_def split: prod.splits sum.splits if_splits)
  have all: "same s s1" "all = set_qs s c" using list_by_set [OF l] by simp_all
  have ok1: "ok s1" using memory_same [OF all(1)] assms(1) by simp
  consider (rand) "m = mode_random" "q = all ! fst (int_n (length all) ds)" "s' = s1"
    | (seq) "m = mode_sequential" "pick_sequential z uid c all s1 = (Inr q, s')"
    | (srs) "m = mode_srs \<or> m = []" "pick_srs z now ds uid all s1 = (Inr q, s')"
    using assms(2,6) l ne by (auto simp: next_question_def split: if_splits)
  then show ?thesis
  proof cases
    case rand
    have "fst (int_n (length all) ds) < length all"
      using int_n_less [of "length all" ds "fst (int_n (length all) ds)" "snd (int_n (length all) ds)"] ne
      by simp
    with rand all ne show ?thesis by simp
  next
    case seq
    obtain r1 s2 where 1: "set_get_by_code sets c s1 = (r1, s2)" by fastforce
    with seq(2) assms(3) obtain st where "r1 = Inr st" by (auto simp: pick_sequential_def split: sum.splits)
    with set_by_code [OF 1] have "set_of s1 c = Some st" by simp
    from pick_sequential_done [OF assms(3,4) ne this seq(2)] all ne show ?thesis
      using same_trans by auto
  next
    case srs
    obtain due s2 recent s3 where d: "srs_due_for_user states uid now 50 s1 = (Inr due, s2)" "same s1 s'"
      "q \<in> set all \<or> (\<exists>st\<in>set due. question_of s1 (sr_question_id st) = Some q)"
      by (rule pick_srs_done [OF ok1 assms(2,4,5) ne srs(2)]) blast
    have "memory s1 = memory s" "question_of s1 = question_of s"
      using memory_same [OF all(1)] bank_same [OF all(1)] by simp_all
    with due [OF ok1 d(1)] d srs(1) all ne show ?thesis using same_trans by auto
  qed
qed

lemma next_question_error:
  assumes "ok s" "qz_questions z = bank" "qz_sets z = sets" "qz_attempts z = atts" "qz_srs z = states"
    and "next_question z now ds uid c m s = (Inl e, s')"
  shows "same s s'"
proof -
  obtain r s1 where l: "qst_list_by_set bank c s = (r, s1)" by fastforce
  have all: "same s s1" using list_by_set [OF l] by simp
  then have ok1: "ok s1" using memory_same assms(1) by simp
  have "s' = s1 \<or> (\<exists>all. all \<noteq> [] \<and> pick_sequential z uid c all s1 = (Inl e, s'))
      \<or> (\<exists>all. pick_srs z now ds uid all s1 = (Inl e, s'))"
    using assms(2,6) l by (auto simp: next_question_def split: sum.splits if_splits)
  then show ?thesis
  proof (elim disjE exE conjE)
    fix all assume p: "all \<noteq> []" "pick_sequential z uid c all s1 = (Inl e, s')"
    obtain r1 s2 where 1: "set_get_by_code sets c s1 = (r1, s2)" by fastforce
    show ?thesis
    proof (cases r1)
      case (Inl e')
      with p(2) 1 assms(3) have "s' = s2" by (auto simp: pick_sequential_def)
      with set_by_code [OF 1] all same_trans show ?thesis by blast
    next
      case (Inr st)
      with set_by_code [OF 1] have "set_of s1 c = Some st" by simp
      from pick_sequential_done [OF assms(3,4) p(1) this p(2)] all same_trans show ?thesis by blast
    qed
  next
    fix all assume "pick_srs z now ds uid all s1 = (Inl e, s')"
    from pick_srs_error [OF ok1 assms(2,4,5) this] all same_trans show ?thesis by blast
  qed (use all in simp)
qed

lemma submit_set_done:
  assumes "qz_sets z = sets" "submit_set z c s = (sid, s')"
  shows "same s s' \<and> (\<forall>i. sid = Some i \<longrightarrow> c \<noteq> [] \<and> (\<exists>st. set_of s c = Some st \<and> i = qs_id st))"
  using assms set_by_code [of c s "fst (set_get_by_code sets c s)" "snd (set_get_by_code sets c s)"] same_refl
  by (auto simp: submit_set_def split: if_splits prod.splits sum.splits)

text \<open>
  What a submission does.  It is graded against the stored answer, logged, and the state of the
  question moves on by one step; a failure after the log entry leaves the entry in place.
\<close>

lemma submit_outcome:
  assumes "ok s" "\<not> is_zero_time now"
    and "qz_questions z = bank" "qz_sets z = sets" "qz_attempts z = atts" "qz_srs z = states"
    and "submit cf z now uid i s = (r, s')"
  shows "ok s' \<and> set_qs s' = set_qs s \<and> question_of s' = question_of s \<and> set_of s' = set_of s
    \<and> ((\<exists>e. r = Inl e) \<and> log s' = log s \<and> memory s' = memory s
      \<or> (\<exists>q want b st. question_of s (si_question_id i) = Some q \<and> read_answer (q_answer_json q) = Inr want
          \<and> b = \<lparr>a_id = a_id b, a_user_id = uid, a_question_id = si_question_id i, a_set_id = a_set_id b,
              a_is_correct = is_correct cf want (si_answer i), a_duration_ms = si_duration_ms i,
              a_submitted_json = write_answer i, a_answered_at = now\<rparr>
          \<and> (\<forall>k. a_set_id b = Some k \<longrightarrow> (\<exists>t. set_of s (si_set_code i) = Some t \<and> k = qs_id t))
          \<and> log s' = log s @ [stored_attempt b] \<and> (\<forall>x\<in>set (log s). a_id x < a_id b)
          \<and> ((\<exists>e. r = Inl e) \<and> memory s' = memory s
            \<or> st = (case memory s (uid, si_question_id i) of Some st \<Rightarrow> st
                 | None \<Rightarrow> (new_state now)\<lparr>sr_user_id := uid, sr_question_id := si_question_id i\<rparr>)
              \<and> (let new = next_state st (grade_from_result (a_is_correct b) (si_duration_ms i)) now
                 in r = Inr \<lparr>ga_attempt = b, ga_explanation = q_explanation q, ga_next_due_at = sr_due_at new\<rparr>
                    \<and> memory s' = (memory s)((uid, si_question_id i) \<mapsto> stored_state new)))))"
proof -
  obtain rq s1 where 1: "qst_get_by_id bank (si_question_id i) s = (rq, s1)" by fastforce
  note one = get_by_id [OF 1]
  have quiet: "ok t \<and> set_qs t = set_qs s \<and> question_of t = question_of s \<and> set_of t = set_of s
      \<and> log t = log s \<and> memory t = memory s" if "same s t" for t
    using bank_same [OF that] memory_same [OF that] log_same [OF that] assms(1) by simp
  show ?thesis
  proof (cases "\<exists>q want. rq = Inr q \<and> read_answer (q_answer_json q) = Inr want")
    case False
    with 1 assms(3,7) have "s' = s1" "\<exists>e. r = Inl e"
      by (auto simp: submit_def split: sum.splits)
    with quiet one show ?thesis by simp
  next
    case True
    then obtain q want where q: "rq = Inr q" "read_answer (q_answer_json q) = Inr want" by blast
    obtain sid s2 where 2: "submit_set z (si_set_code i) s1 = (sid, s2)" by fastforce
    note two = submit_set_done [OF assms(4) 2]
    let ?a = "\<lparr>a_id = 0, a_user_id = uid, a_question_id = si_question_id i, a_set_id = sid,
        a_is_correct = is_correct cf want (si_answer i), a_duration_ms = si_duration_ms i,
        a_submitted_json = write_answer i, a_answered_at = now\<rparr>"
    have to2: "same s s2" using one two same_trans by blast
    obtain rb s3 where 3: "att_create atts ?a s2 = (rb, s3)" by fastforce
    have ok2: "ok s2" using quiet [OF to2] by simp
    show ?thesis
    proof (cases rb)
      case (Inl e)
      with 1 2 3 q assms(3,5,7) have "s' = s3" "\<exists>e. r = Inl e" by (auto simp: submit_def)
      with quiet same_trans [OF to2 create_error [OF 3 [unfolded Inl]]] show ?thesis by simp
    next
      case (Inr b)
      have b: "b = ?a\<lparr>a_id := a_id b\<rparr>" "log s3 = log s2 @ [stored_attempt b]"
          "\<forall>x\<in>set (log s2). a_id x < a_id b"
        using create_done [OF _ 3 [unfolded Inr]] assms(2) by auto
      have b': "a_set_id b = sid" "a_is_correct b = is_correct cf want (si_answer i)"
          "b = \<lparr>a_id = a_id b, a_user_id = uid, a_question_id = si_question_id i, a_set_id = a_set_id b,
              a_is_correct = is_correct cf want (si_answer i), a_duration_ms = si_duration_ms i,
              a_submitted_json = write_answer i, a_answered_at = now\<rparr>"
        by (subst b(1); simp)+
      note fr3 = create_frame [OF ok2 3]
      obtain rs s4 where 4: "srs_get states uid (si_question_id i) s3 = (rs, s4)" by fastforce
      note four = get_state [OF 4]
      have q4: "ok s4" "log s4 = log s3" "memory s4 = memory s3" "set_qs s4 = set_qs s3"
          "question_of s4 = question_of s3" "set_of s4 = set_of s3"
        using four bank_same memory_same log_same fr3 by auto
      define st where "st = (case memory s (uid, si_question_id i) of Some st \<Rightarrow> st
          | None \<Rightarrow> (new_state now)\<lparr>sr_user_id := uid, sr_question_id := si_question_id i\<rparr>)"
      define new where "new = next_state st (grade_from_result (is_correct cf want (si_answer i)) (si_duration_ms i)) now"
      have mem: "memory s3 = memory s" "log s3 = log s @ [stored_attempt b]" "log s2 = log s"
        using fr3 b(2) quiet [OF to2] by simp_all
      have frame4: "ok s4" "set_qs s4 = set_qs s" "question_of s4 = question_of s" "set_of s4 = set_of s"
          "log s4 = log s @ [stored_attempt b]" "memory s4 = memory s"
        using q4 fr3 quiet [OF to2] mem by simp_all
      have left: "(\<forall>k. a_set_id b = Some k \<longrightarrow> (\<exists>t. set_of s (si_set_code i) = Some t \<and> k = qs_id t))
          \<and> question_of s (si_question_id i) = Some q \<and> (\<forall>x\<in>set (log s). a_id x < a_id b)"
        using two b' one q bank_same [of s s1] b(3) mem by auto
      consider (failed) e where "s' = s4" "r = Inl e"
        | (upsert) ru where "srs_upsert states new s4 = (ru, s')"
            "r = (case ru of Inl e \<Rightarrow> Inl (ErrWrap ''quiz submit srs upsert'' e)
              | Inr _ \<Rightarrow> Inr \<lparr>ga_attempt = b, ga_explanation = q_explanation q, ga_next_due_at = sr_due_at new\<rparr>)"
      proof (cases rs)
        case (Inr x)
        then have "x = st" using four mem by (simp add: st_def)
        then show thesis
          using assms(3,5,6,7) 1 2 3 4 q Inr \<open>rb = Inr b\<close> upsert
          by (cases "srs_upsert states new s4"; cases "fst (srs_upsert states new s4)")
            (auto simp: submit_def new_def)
      next
        case (Inl e)
        show thesis
        proof (cases "errors_is e ErrNotFound")
          case True
          then have "st = (new_state now)\<lparr>sr_user_id := uid, sr_question_id := si_question_id i\<rparr>"
            using four mem Inl by (simp add: st_def)
          then show thesis
            using assms(3,5,6,7) 1 2 3 4 q Inl True \<open>rb = Inr b\<close> upsert
            by (cases "srs_upsert states new s4"; cases "fst (srs_upsert states new s4)")
              (auto simp: submit_def new_def)
        next
          case False
          then show thesis
            using assms(3,5,6,7) 1 2 3 4 q Inl \<open>rb = Inr b\<close> failed by (auto simp: submit_def)
        qed
      qed
      then show ?thesis
      proof cases
        case (failed e)
        with frame4 left b'(3) q show ?thesis by (intro conjI disjI2 exI [of _ q] exI [of _ want] exI [of _ b]) auto
      next
        case (upsert ru)
        show ?thesis
        proof (cases ru)
          case (Inl e)
          have quiet5: "ok s' \<and> set_qs s' = set_qs s \<and> question_of s' = question_of s \<and> set_of s' = set_of s
              \<and> log s' = log s4 \<and> memory s' = memory s"
            using upsert_error [OF upsert(1) [unfolded Inl]] bank_same memory_same log_same frame4 by simp
          with upsert Inl frame4 left b'(3) q show ?thesis
            by (intro conjI disjI2 exI [of _ q] exI [of _ want] exI [of _ b]) auto
        next
          case (Inr u)
          have "srs_key st = (uid, si_question_id i)"
            using memory_key by (auto simp: st_def srs_key_def split: option.splits)
          then have key: "srs_key new = (uid, si_question_id i)" "sr_updated_at new = now"
            by (simp_all add: new_def next_state_def srs_key_def Let_def)
          have m: "memory s' = (memory s)((uid, si_question_id i) \<mapsto> stored_state new)"
            using upsert_done [OF _ upsert(1) [unfolded Inr]] key assms(2) frame4 by simp
          have ok5: "ok s' \<and> set_qs s' = set_qs s \<and> question_of s' = question_of s \<and> set_of s' = set_of s
              \<and> log s' = log s @ [stored_attempt b]"
            using upsert_frame [OF frame4(1) upsert(1)] frame4 by simp
          have "new = next_state st (grade_from_result (a_is_correct b) (si_duration_ms i)) now"
            using b'(2) by (simp add: new_def)
          with ok5 m upsert(2) Inr left b'(3) q(2) st_def show ?thesis
            by (intro conjI disjI2 exI [of _ q] exI [of _ want] exI [of _ b] exI [of _ st]) (simp_all add: Let_def)
        qed
      qed
    qed
  qed
qed

lemma submit_done:
  assumes "ok s" "\<not> is_zero_time now"
    and "qz_questions z = bank" "qz_sets z = sets" "qz_attempts z = atts" "qz_srs z = states"
    and "submit cf z now uid i s = (Inr g, s')"
  obtains q want b where "question_of s (si_question_id i) = Some q" "read_answer (q_answer_json q) = Inr want"
    "ga_attempt g = b" "a_user_id b = uid" "a_question_id b = si_question_id i" "a_answered_at b = now"
    "a_is_correct b = is_correct cf want (si_answer i)" "a_submitted_json b = write_answer i"
    "ok s'" "set_qs s' = set_qs s" "question_of s' = question_of s" "set_of s' = set_of s"
    "log s' = log s @ [stored_attempt b]" "\<forall>x\<in>set (log s). a_id x < a_id b"
    "memory s' = (memory s)((uid, si_question_id i) \<mapsto> stored_state (next_state
        (case memory s (uid, si_question_id i) of Some st \<Rightarrow> st
           | None \<Rightarrow> (new_state now)\<lparr>sr_user_id := uid, sr_question_id := si_question_id i\<rparr>)
        (grade_from_result (a_is_correct b) (si_duration_ms i)) now))"
    "ga_explanation g = q_explanation q"
proof -
  have fields: "a_user_id b = u \<and> a_question_id b = k \<and> a_is_correct b = c \<and> a_submitted_json b = j \<and> a_answered_at b = t"
    if "b = \<lparr>a_id = n, a_user_id = u, a_question_id = k, a_set_id = x, a_is_correct = c, a_duration_ms = m,
      a_submitted_json = j, a_answered_at = t\<rparr>" for b n u k x c m j t
    unfolding that by simp
  show thesis
    using submit_outcome [OF assms]
  proof (elim conjE disjE exE)
    fix q want b st
    assume b: "b = \<lparr>a_id = a_id b, a_user_id = uid, a_question_id = si_question_id i, a_set_id = a_set_id b,
              a_is_correct = is_correct cf want (si_answer i), a_duration_ms = si_duration_ms i,
              a_submitted_json = write_answer i, a_answered_at = now\<rparr>"
      and q: "question_of s (si_question_id i) = Some q" "read_answer (q_answer_json q) = Inr want"
      and st: "st = (case memory s (uid, si_question_id i) of Some st \<Rightarrow> st
                 | None \<Rightarrow> (new_state now)\<lparr>sr_user_id := uid, sr_question_id := si_question_id i\<rparr>)"
      and l: "log s' = log s @ [stored_attempt b]" "\<forall>x\<in>set (log s). a_id x < a_id b"
      and rest: "ok s'" "set_qs s' = set_qs s" "question_of s' = question_of s" "set_of s' = set_of s"
      and new: "let new = next_state st (grade_from_result (a_is_correct b) (si_duration_ms i)) now
                 in Inr g = (Inr \<lparr>ga_attempt = b, ga_explanation = q_explanation q, ga_next_due_at = sr_due_at new\<rparr> :: graded_attempt res)
                    \<and> memory s' = (memory s)((uid, si_question_id i) \<mapsto> stored_state new)"
    show thesis
      using new by (intro that [OF q _ _ _ _ _ _ rest l]) (simp_all add: fields [OF b] st Let_def)
  qed simp_all
qed

lemma delete_attempt_outcome:
  assumes "ok s" "qz_attempts z = atts" "delete_attempt z uid aid s = (r, s')"
  shows "ok s' \<and> memory s' = memory s \<and> set_qs s' = set_qs s \<and> question_of s' = question_of s
    \<and> (case r of
         Inr _ \<Rightarrow> (\<exists>a\<in>set (log s). a_id a = aid \<and> a_user_id a = uid)
           \<and> log s' = filter (\<lambda>a. \<not> (a_id a = aid \<and> a_user_id a = uid)) (log s)
       | Inl e \<Rightarrow> log s' = log s \<and> (errors_is e ErrNotFound \<longrightarrow>
           (\<forall>a\<in>set (log s). \<not> (a_id a = aid \<and> a_user_id a = uid))))"
proof -
  have d: "att_delete_by_id atts uid aid s = (r, s')" using assms(2,3) by (simp add: delete_attempt_def)
  show ?thesis
    using delete_frame [OF assms(1) d] delete_done [of uid aid s] delete_error [of uid aid s]
      delete_missing [of uid aid s] log_same d
    by (cases r) auto
qed

lemma delete_all_outcome:
  assumes "ok s" "qz_attempts z = atts" "qz_srs z = states" "delete_all_for_user z uid s = (r, s')"
  shows "ok s' \<and> set_qs s' = set_qs s \<and> question_of s' = question_of s
    \<and> (log s' = log s \<or> log s' = filter (\<lambda>a. a_user_id a \<noteq> uid) (log s))
    \<and> (r = Inr () \<longrightarrow> log s' = filter (\<lambda>a. a_user_id a \<noteq> uid) (log s)
         \<and> memory s' = (\<lambda>k. if fst k = uid then None else memory s k))
    \<and> (r \<noteq> Inr () \<longrightarrow> memory s' = memory s)"
proof -
  obtain r1 s1 where 1: "att_delete_all_for_user atts uid s = (r1, s1)" by fastforce
  note one = delete_all_frame [OF assms(1) 1]
  show ?thesis
  proof (cases r1)
    case (Inl e)
    with 1 assms(2,4) have "s' = s1" "r \<noteq> Inr ()" by (auto simp: delete_all_for_user_def)
    with one log_same [OF delete_all_error [OF 1 [unfolded Inl]]] show ?thesis by simp
  next
    case (Inr u)
    obtain r2 where 2: "srs_delete_all_for_user states uid s1 = (r2, s')" and
      r: "r = (case r2 of Inl e \<Rightarrow> Inl (ErrWrap ''quiz delete srs'' e) | Inr _ \<Rightarrow> Inr ())"
      using 1 Inr assms(2-4) by (auto simp: delete_all_for_user_def split: prod.splits sum.splits)
    note two = forget_frame [OF conjunct1 [OF one] 2]
    have l: "log s1 = filter (\<lambda>a. a_user_id a \<noteq> uid) (log s)"
      using delete_all_done [OF 1 [unfolded Inr]] .
    show ?thesis
    proof (cases r2)
      case (Inl e)
      with r two l one memory_same [OF forget_error [OF 2 [unfolded Inl]]] show ?thesis by simp
    next
      case (Inr v)
      with r two l one forget_done [OF 2 [unfolded Inr]] show ?thesis by (simp add: fun_eq_iff)
    qed
  qed
qed

lemma summary_done:
  assumes "ok s" "st_attempts z = atts" "st_srs z = states" "stats_summary_of z now uid s = (Inr x, s')"
  shows "same s s' \<and> ss_total_attempts x = int (length (filter (\<lambda>a. a_user_id a = uid) (log s)))
    \<and> ss_total_correct x = count_correct (filter (\<lambda>a. a_user_id a = uid) (log s))
    \<and> ss_overall_rate x = (if 0 < ss_total_attempts x
        then fdiv (float_of_int (ss_total_correct x)) (float_of_int (ss_total_attempts x)) else 0)
    \<and> 0 \<le> ss_due_count x \<and> ((\<forall>q. memory s (uid, q) = None) \<longrightarrow> ss_due_count x = 0)"
proof -
  obtain n c s1 due where 1: "att_summary_for_user atts uid s = (Inr (n, c), s1)"
    and 2: "srs_count_due_for_user states uid now s1 = (Inr due, s')"
    and x: "x = \<lparr>ss_total_attempts = n, ss_total_correct = c,
             ss_overall_rate = (if 0 < n then fdiv (float_of_int c) (float_of_int n) else 0),
             ss_due_count = due\<rparr>"
    using assms(2-4) by (auto simp: stats_summary_of_def split: sum.splits prod.splits)
  have "same s s1" using summary [OF 1] by simp
  moreover have "memory s1 = memory s" using calculation memory_same by simp
  ultimately show ?thesis
    using summary [OF 1] count_due [OF 2] x same_trans by auto
qed

text \<open>After the answer to a question of the set, the sequential mode continues with its successor.\<close>

lemma sequential_after_submit:
  assumes "ok s" "\<not> is_zero_time now"
    and z: "qz_questions z = bank" "qz_sets z = sets" "qz_attempts z = atts" "qz_srs z = states"
    and sub: "submit cf z now uid i s = (Inr g, s')" "a_set_id (ga_attempt g) = Some (qs_id st)"
    and set: "set_of s c = Some st"
    and "distinct (map q_id (set_qs s c))" "k < length (set_qs s c)" "si_question_id i = q_id (set_qs s c ! k)"
    and newest: "\<forall>a\<in>set (log s). a_user_id a = uid \<longrightarrow> a_set_id a = Some (qs_id st) \<longrightarrow>
         unix (a_answered_at a) \<le> unix now"
    and "next_question z now2 ds uid c mode_sequential s' = (Inr q, s'')"
  shows "q = set_qs s c ! (Suc k mod length (set_qs s c))"
proof -
  let ?P = "\<lambda>a. a_user_id a = uid \<and> a_set_id a = Some (qs_id st)"
  let ?b = "ga_attempt g"
  have fr: "ok s'" "set_qs s' = set_qs s" "set_of s' = set_of s"
    and b: "a_user_id ?b = uid" "a_question_id ?b = si_question_id i" "a_answered_at ?b = now"
    and l: "log s' = log s @ [stored_attempt ?b]" "\<forall>x\<in>set (log s). a_id x < a_id ?b"
    by (rule submit_done [OF assms(1,2) z sub(1)]; simp)+
  obtain all s1 where la: "qst_list_by_set bank c s' = (Inr all, s1)" and ne: "all \<noteq> []"
    using assms(14) z(1) by (auto simp: next_question_def split: prod.splits sum.splits if_splits)
  have all: "same s' s1" "all = set_qs s c" using list_by_set [OF la] fr by simp_all
  have p: "pick_sequential z uid c all s1 = (Inr q, s'')"
    using assms(14) z(1) la ne by (simp add: next_question_def mode_defs)
  have st1: "set_of s1 c = Some st" using bank_same [OF all(1)] fr set by simp
  have "latest_first (filter ?P (log s1)) = latest_first (filter ?P (log s) @ [stored_attempt ?b])"
    using log_same [OF all(1)] l b sub(2) by (simp add: stored_attempt_def)
  moreover have "hd (latest_first (filter ?P (log s) @ [stored_attempt ?b])) = stored_attempt ?b"
    using newest l(2) b by (intro latest_first_newest) (auto simp: stored_attempt_def)
  ultimately have hd: "latest_first (filter ?P (log s1)) \<noteq> []"
      "a_question_id (hd (latest_first (filter ?P (log s1)))) = q_id (all ! k)"
    using b assms(12) all by (auto simp: stored_attempt_def)
  have "next_after (q_id (all ! k)) all all = Some (if Suc k < length all then all ! Suc k else hd all)"
    using next_after_nth assms(10,11) all by blast
  with pick_sequential_done [OF z(2,3) ne st1 p] hd
  have "q = (if Suc k < length all then all ! Suc k else hd all)" by (auto simp: Let_def)
  moreover have "Suc k mod length all = 0" if "\<not> Suc k < length all"
  proof -
    have "Suc k = length all" using that assms(11) all by simp
    then show ?thesis by simp
  qed
  ultimately show ?thesis using all ne by (auto simp: hd_conv_nth)
qed

end

end
