(* ===== verification/Store.thy ===== *)
theory Store
  imports Ports "HOL-Library.Product_Lexorder"
begin

text \<open>
  The SQLite database behind \<^verbatim>\<open>internal/repo/sqlite\<close>: one list of rows per table, in insertion
  order.  A row is the value its scan returns; a time column keeps whole seconds.  The database
  engine and its driver are not part of the program: what the repositories rely on is written
  out here (row ids, UNIQUE and FOREIGN KEY checks, ordering), and every statement can fail.
  Which statements fail, and with which text, is the list \<open>faults\<close>, consumed one entry per
  statement or row iteration; an empty list means that the engine works.
\<close>

section \<open>Tables\<close>

record revocation =
  rv_jti :: string
  rv_user_id :: int
  rv_revoked_at :: time
  rv_expires_at :: time

record set_member =
  m_set_id :: int
  m_question_id :: int
  m_ord :: int

record db =
  users :: "user list"
  sessions :: "session list"
  revocations :: "revocation list"
  topic_rows :: "topic list"
  questions :: "question list"
  question_sets :: "question_set list"
  members :: "set_member list"
  attempts :: "attempt list"
  srs_states :: "srs_state list"
  prefs :: "user_prefs list"
  faults :: "string option list"

definition empty_db :: db where
  "empty_db = \<lparr>users = [], sessions = [], revocations = [], topic_rows = [], questions = [],
     question_sets = [], members = [], attempts = [], srs_states = [], prefs = [], faults = []\<rparr>"

text \<open>The row id of an insertion without one.\<close>

definition next_id :: "int list \<Rightarrow> int" where
  "next_id ids = (if ids = [] then 1 else foldr max ids (hd ids) + 1)"

definition err_unique :: gerror where
  "err_unique = ErrText ''constraint failed: UNIQUE constraint failed (2067)''"

definition err_foreign_key :: gerror where
  "err_foreign_key = ErrText ''constraint failed: FOREIGN KEY constraint failed (787)''"

definition is_unique_constraint :: "gerror \<Rightarrow> bool" where
  "is_unique_constraint e \<longleftrightarrow> contains (error_text e) ''UNIQUE constraint failed''
     \<or> contains (error_text e) ''constraint failed: UNIQUE''"

section \<open>Statements\<close>

definition tick :: "db \<Rightarrow> gerror option \<times> db" where
  "tick d = (case faults d of [] \<Rightarrow> (None, d) | f # fs \<Rightarrow> (map_option ErrText f, d\<lparr>faults := fs\<rparr>))"

text \<open>One statement: it fails as a whole or runs as a whole.\<close>

definition statement :: "(db \<Rightarrow> 'a res \<times> db) \<Rightarrow> db \<Rightarrow> 'a res \<times> db" where
  "statement body d = (case tick d of (Some e, d') \<Rightarrow> (Inl e, d') | (None, d') \<Rightarrow> body d')"

text \<open>\<^verbatim>\<open>QueryRow ... Scan\<close>: the first row, \<open>None\<close> for \<^verbatim>\<open>sql.ErrNoRows\<close>.\<close>

definition query_row :: "(db \<Rightarrow> 'a option) \<Rightarrow> db \<Rightarrow> 'a option res \<times> db" where
  "query_row sel = statement (\<lambda>d. (Inr (sel d), d))"

text \<open>A query and the iteration over its rows, with the contexts their errors are wrapped in.\<close>

definition query_rows :: "string \<Rightarrow> string \<Rightarrow> (db \<Rightarrow> 'a list) \<Rightarrow> db \<Rightarrow> 'a list res \<times> db" where
  "query_rows ctx iter sel d =
     (case statement (\<lambda>d. (Inr (sel d), d)) d of
        (Inl e, d1) \<Rightarrow> (Inl (ErrWrap ctx e), d1)
      | (Inr rows, d1) \<Rightarrow>
          (case tick d1 of (Some e, d2) \<Rightarrow> (Inl (ErrWrap iter e), d2) | (None, d2) \<Rightarrow> (Inr rows, d2)))"

text \<open>\<^verbatim>\<open>LIMIT ? OFFSET ?\<close>: a negative offset counts as none.\<close>

definition window :: "int \<Rightarrow> int \<Rightarrow> 'a list \<Rightarrow> 'a list" where
  "window limit offset xs = (let ys = drop (nat offset) xs in if limit < 0 then ys else take (nat limit) ys)"

text \<open>The tables of a database, without the faults to come.\<close>

definition same_tables :: "db \<Rightarrow> db \<Rightarrow> bool" where
  "same_tables d d' \<longleftrightarrow> d' = d\<lparr>faults := faults d'\<rparr>"

lemma same_tables_refl [simp]: "same_tables d d"
  by (simp add: same_tables_def)

lemma same_tables_trans: "same_tables d d1 \<Longrightarrow> same_tables d1 d2 \<Longrightarrow> same_tables d d2"
  unfolding same_tables_def by (metis db.surjective db.update_convs(11))

lemma same_tablesD:
  "same_tables d d' \<Longrightarrow> users d' = users d \<and> sessions d' = sessions d \<and> revocations d' = revocations d
    \<and> topic_rows d' = topic_rows d \<and> questions d' = questions d \<and> question_sets d' = question_sets d
    \<and> members d' = members d \<and> attempts d' = attempts d \<and> srs_states d' = srs_states d
    \<and> prefs d' = prefs d"
  unfolding same_tables_def by (metis db.select_convs(1-10) db.surjective db.update_convs(11))

lemma same_tables_sessions: "same_tables d d1 \<Longrightarrow> d1\<lparr>sessions := sessions d\<rparr> = d1"
  using same_tablesD [of d d1] by simp

lemma same_tables_users: "same_tables d d1 \<Longrightarrow> d1\<lparr>users := users d\<rparr> = d1"
  using same_tablesD [of d d1] by simp

lemma tick_tables: "tick d = (f, d') \<Longrightarrow> same_tables d d'"
  by (auto simp: tick_def same_tables_def split: list.splits)

lemma tick_no_faults: "faults d = [] \<Longrightarrow> tick d = (None, d)"
  by (simp add: tick_def)

lemma statement_no_faults: "faults d = [] \<Longrightarrow> statement body d = body d"
  by (simp add: statement_def tick_no_faults)

lemma query_row_no_faults: "faults d = [] \<Longrightarrow> query_row sel d = (Inr (sel d), d)"
  by (simp add: query_row_def statement_no_faults)

lemma query_rows_no_faults: "faults d = [] \<Longrightarrow> query_rows c i sel d = (Inr (sel d), d)"
  by (simp add: query_rows_def statement_no_faults tick_no_faults)

lemma statement_cases:
  assumes "statement body d = (r, d')"
  obtains (fault) m where "r = Inl (ErrText m)" "same_tables d d'"
  | (run) d1 where "same_tables d d1" "body d1 = (r, d')"
proof -
  obtain f d1 where t: "tick d = (f, d1)" by fastforce
  have s: "same_tables d d1" using t by (rule tick_tables)
  show thesis
  proof (cases f)
    case None
    with assms t show thesis by (intro run [OF s]) (simp add: statement_def)
  next
    case (Some e)
    then obtain m where "e = ErrText m" using t by (auto simp: tick_def split: list.splits)
    with Some assms t s show thesis by (intro fault [of m]) (auto simp: statement_def)
  qed
qed

lemma query_row_cases:
  assumes "query_row sel d = (r, d')"
  obtains (error) m where "r = Inl (ErrText m)" "same_tables d d'"
  | (row) "r = Inr (sel d')" "same_tables d d'"
  using assms unfolding query_row_def
  by (cases rule: statement_cases) auto

lemma query_row_same: "query_row sel d = (r, d') \<Longrightarrow> same_tables d d'"
  by (erule query_row_cases)

text \<open>Reading never changes a table, and returns what is stored or an error.\<close>

definition reads :: "(db \<Rightarrow> 'a) \<Rightarrow> db \<Rightarrow> 'a res \<times> db \<Rightarrow> bool" where
  "reads sel d rd \<longleftrightarrow> same_tables d (snd rd) \<and> (\<forall>x. fst rd = Inr x \<longrightarrow> x = sel d)"

definition table_view :: "(db \<Rightarrow> 'a) \<Rightarrow> bool" where
  "table_view sel \<longleftrightarrow> (\<forall>d d'. same_tables d d' \<longrightarrow> sel d' = sel d)"

lemma query_row_reads: "table_view sel \<Longrightarrow> reads sel d (query_row sel d)"
  using tick_tables [of d]
  by (auto simp: reads_def query_row_def statement_def table_view_def split: prod.splits option.splits)

lemma query_rows_reads: "table_view sel \<Longrightarrow> reads sel d (query_rows c i sel d)"
  using tick_tables [of d] tick_tables same_tables_trans
  by (auto simp: reads_def query_rows_def statement_def table_view_def
      split: prod.splits option.splits sum.splits) blast+

lemma next_id_fresh: "next_id ids \<notin> set ids"
proof -
  have le: "x \<le> foldr max ids k" if "x \<in> set ids" for x k
    using that by (induction ids) (auto simp: le_max_iff_disj)
  have "foldr max ids (hd ids) + 1 \<notin> set ids"
  proof
    assume "foldr max ids (hd ids) + 1 \<in> set ids"
    from le [OF this, of "hd ids"] show False by simp
  qed
  then show ?thesis by (simp add: next_id_def)
qed

lemma is_unique_constraint_unique [simp]: "is_unique_constraint err_unique"
  by (simp add: is_unique_constraint_def err_unique_def has_prefix_def)

lemma is_unique_constraint_fk [simp]: "\<not> is_unique_constraint err_foreign_key"
  by (simp add: is_unique_constraint_def err_foreign_key_def has_prefix_def)

section \<open>Rows by key\<close>

abbreviation row :: "('a \<Rightarrow> 'k) \<Rightarrow> 'a list \<Rightarrow> 'k \<Rightarrow> 'a option" where
  "row f xs k \<equiv> List.find (\<lambda>x. f x = k) xs"

lemma row_Some: "row f xs k = Some x \<Longrightarrow> x \<in> set xs \<and> f x = k"
  by (rule find_Some_iff_in)

lemma row_None: "row f xs k = None \<longleftrightarrow> k \<notin> f ` set xs"
  by (auto simp: find_None_conv)

lemma row_key: "distinct (map f xs) \<Longrightarrow> x \<in> set xs \<Longrightarrow> row f xs (f x) = Some x"
  by (induction xs) auto

lemma row_append: "f x \<notin> f ` set xs \<Longrightarrow> row f (xs @ [x]) = (row f xs)(f x \<mapsto> x)"
  by (induction xs) (auto simp: fun_eq_iff)

lemma row_map: "(\<And>x. f (g x) = f x) \<Longrightarrow> row f (map g xs) k = map_option g (row f xs k)"
  by (induction xs) auto

lemma row_filter: "distinct (map f xs) \<Longrightarrow>
    row f (filter P xs) k = (case row f xs k of None \<Rightarrow> None | Some x \<Rightarrow> if P x then Some x else None)"
proof (induction xs)
  case (Cons x xs)
  have "row f (filter P xs) (f x) = None" using Cons.prems by (auto simp: row_None)
  with Cons show ?case by (auto split: option.splits)
qed simp

lemma row_update:
  assumes "\<And>x. f (g x) = f x" "row f xs k = Some x"
  shows "row f (map (\<lambda>x. if f x = k then g x else x) xs) = (row f xs)(k \<mapsto> g x)"
proof
  fix j
  have "row f (map (\<lambda>x. if f x = k then g x else x) xs) j
      = map_option (\<lambda>x. if f x = k then g x else x) (row f xs j)"
    by (rule row_map) (simp add: assms(1))
  also have "\<dots> = ((row f xs)(k \<mapsto> g x)) j"
    using assms(2) by (cases "row f xs j") (auto dest: row_Some)
  finally show "row f (map (\<lambda>x. if f x = k then g x else x) xs) j = ((row f xs)(k \<mapsto> g x)) j" .
qed

lemma map_update_keys: "(\<And>x. f (g x) = f x) \<Longrightarrow> map f (map (\<lambda>x. if P x then g x else x) xs) = map f xs"
  by (induction xs) auto

lemma distinct_map_filter_same: "distinct (map f xs) \<Longrightarrow> distinct (map f (filter P xs))"
  by (rule distinct_map_filter)

end
