(* ===== verification/QuizStore.thy ===== *)
theory QuizStore
  imports Store QuizPorts
begin

text \<open>
  The repositories of questions, sets, topics, attempts and spaced-repetition states:
  \<^verbatim>\<open>question_repo.go\<close>, \<^verbatim>\<open>set_repo.go\<close>, \<^verbatim>\<open>topic_repo.go\<close>, \<^verbatim>\<open>attempt_repo.go\<close>, \<^verbatim>\<open>srs_repo.go\<close>.
  A join is a list comprehension over its tables, \<open>ORDER BY\<close> a stable sort by key.
\<close>

section \<open>Questions\<close>

definition scan_question :: "question option res \<Rightarrow> question res" where
  "scan_question r = (case r of
     Inl e \<Rightarrow> Inl (ErrWrap ''question scan'' e) | Inr None \<Rightarrow> Inl ErrNotFound | Inr (Some q) \<Rightarrow> Inr q)"

definition question_get_by_id :: "int \<Rightarrow> db \<Rightarrow> question res \<times> db" where
  "question_get_by_id i d = apfst scan_question (query_row (\<lambda>d. row q_id (questions d) i) d)"

definition question_get_by_code :: "string \<Rightarrow> db \<Rightarrow> question res \<times> db" where
  "question_get_by_code c d = apfst scan_question (query_row (\<lambda>d. row q_code (questions d) c) d)"

text \<open>The members of the sets with a code, each with its question.\<close>

definition set_rows :: "string \<Rightarrow> db \<Rightarrow> (set_member \<times> question) list" where
  "set_rows code d = [(m, q). q \<leftarrow> questions d, m \<leftarrow> members d, m_question_id m = q_id q,
     s \<leftarrow> question_sets d, qs_id s = m_set_id m, qs_code s = code]"

definition set_questions :: "string \<Rightarrow> db \<Rightarrow> question list" where
  "set_questions code d = map snd (sort_key (\<lambda>(m, q). (m_ord m, q_id q)) (set_rows code d))"

definition question_list_by_set :: "string \<Rightarrow> db \<Rightarrow> question list res \<times> db" where
  "question_list_by_set code = query_rows ''question list by set'' ''question iter'' (set_questions code)"

text \<open>
  \<^verbatim>\<open>Search\<close> builds its text from the filter.  An offset without a limit makes a text that SQLite
  does not parse: \<^verbatim>\<open>OFFSET\<close> is only allowed after \<^verbatim>\<open>LIMIT\<close>.
\<close>

definition err_sql_syntax :: gerror where
  "err_sql_syntax = ErrText ''SQL logic error: near \"OFFSET\": syntax error (1)''"

definition search_rows :: "question_filter \<Rightarrow> db \<Rightarrow> question list" where
  "search_rows f d =
     (let src = (if qf_set_code f \<noteq> [] then map snd (set_rows (qf_set_code f) d) else questions d);
          topic_ok = (\<lambda>q. qf_topic_codes f = []
            \<or> (\<exists>t\<in>set (topic_rows d). t_id t = q_topic_id q \<and> t_code t \<in> set (qf_topic_codes f)));
          type_ok = (\<lambda>q. qf_types f = [] \<or> q_type q \<in> set (qf_types f))
      in sort_key q_id (filter (\<lambda>q. topic_ok q \<and> type_ok q) src))"

definition question_search :: "question_filter \<Rightarrow> db \<Rightarrow> question list res \<times> db" where
  "question_search f d =
     (if 0 < qf_offset f \<and> qf_limit f \<le> 0
      then apfst (wrap_err ''question search'') (statement (\<lambda>d. (Inl err_sql_syntax, d)) d)
      else query_rows ''question search'' ''question iter''
        (\<lambda>d. window (if 0 < qf_limit f then qf_limit f else - 1)
               (if 0 < qf_offset f then qf_offset f else 0) (search_rows f d)) d)"

section \<open>Sets and topics\<close>

definition question_set_get_by_code :: "string \<Rightarrow> db \<Rightarrow> question_set res \<times> db" where
  "question_set_get_by_code c d =
     (case query_row (\<lambda>d. row qs_code (question_sets d) c) d of
        (Inl e, d') \<Rightarrow> (Inl (ErrWrap ''set get'' e), d')
      | (Inr None, d') \<Rightarrow> (Inl ErrNotFound, d')
      | (Inr (Some s), d') \<Rightarrow> (Inr s, d'))"

definition question_set_list_all :: "db \<Rightarrow> question_set list res \<times> db" where
  "question_set_list_all = query_rows ''set list'' ''set iter'' (\<lambda>d. sort_key qs_id (question_sets d))"

definition topic_list_all :: "db \<Rightarrow> topic list res \<times> db" where
  "topic_list_all = query_rows ''topics list'' ''topic iter''
     (\<lambda>d. sort_key (\<lambda>t. (t_ord t, t_id t)) (topic_rows d))"

section \<open>Attempts\<close>

definition insert_attempt :: "attempt \<Rightarrow> db \<Rightarrow> int res \<times> db" where
  "insert_attempt a d =
     (if a_user_id a \<notin> u_id ` set (users d) \<or> a_question_id a \<notin> q_id ` set (questions d)
         \<or> (\<exists>s. a_set_id a = Some s \<and> s \<notin> qs_id ` set (question_sets d))
      then (Inl err_foreign_key, d)
      else let i = next_id (map a_id (attempts d)) in
        (Inr i, d\<lparr>attempts := attempts d @ [a\<lparr>a_id := i, a_answered_at := secs (a_answered_at a)\<rparr>]\<rparr>))"

definition attempt_create :: "time \<Rightarrow> attempt \<Rightarrow> db \<Rightarrow> attempt res \<times> db" where
  "attempt_create wall a d =
     (let a1 = (if is_zero_time (a_answered_at a) then a\<lparr>a_answered_at := wall\<rparr> else a)
      in case statement (insert_attempt a1) d of
           (Inl e, d') \<Rightarrow> (Inl (ErrWrap ''attempt create'' e), d')
         | (Inr i, d') \<Rightarrow> (Inr (a1\<lparr>a_id := i\<rparr>), d'))"

text \<open>The attempts of a user, the latest first.\<close>

definition user_attempts :: "int \<Rightarrow> db \<Rightarrow> attempt list" where
  "user_attempts uid d = filter (\<lambda>a. a_user_id a = uid) (attempts d)"

definition attempt_list_by_user :: "int \<Rightarrow> int \<Rightarrow> int \<Rightarrow> db \<Rightarrow> attempt list res \<times> db" where
  "attempt_list_by_user uid limit offset =
     query_rows ''attempt list'' ''attempt iter''
       (\<lambda>d. window (if limit \<le> 0 then 50 else limit) offset (latest_first (user_attempts uid d)))"

definition delete_attempts :: "(attempt \<Rightarrow> bool) \<Rightarrow> db \<Rightarrow> nat res \<times> db" where
  "delete_attempts P = statement (\<lambda>d. (Inr (length (filter P (attempts d))),
     d\<lparr>attempts := filter (\<lambda>a. \<not> P a) (attempts d)\<rparr>))"

definition attempt_delete_by_id :: "int \<Rightarrow> int \<Rightarrow> db \<Rightarrow> unit res \<times> db" where
  "attempt_delete_by_id uid aid d =
     (case delete_attempts (\<lambda>a. a_id a = aid \<and> a_user_id a = uid) d of
        (Inl e, d') \<Rightarrow> (Inl (ErrWrap ''attempt delete'' e), d')
      | (Inr n, d') \<Rightarrow> (if n = 0 then (Inl ErrNotFound, d') else (Inr (), d')))"

definition attempt_delete_all_for_user :: "int \<Rightarrow> db \<Rightarrow> unit res \<times> db" where
  "attempt_delete_all_for_user uid d = (case delete_attempts (\<lambda>a. a_user_id a = uid) d of
     (Inl e, d') \<Rightarrow> (Inl (ErrWrap ''attempt delete all'' e), d') | (Inr _, d') \<Rightarrow> (Inr (), d'))"

definition topic_attempts :: "int \<Rightarrow> int \<Rightarrow> db \<Rightarrow> attempt list" where
  "topic_attempts uid tid d = [a. q \<leftarrow> questions d, q_topic_id q = tid,
     a \<leftarrow> attempts d, a_question_id a = q_id q, a_user_id a = uid]"

definition attempt_stats_by_topic :: "int \<Rightarrow> db \<Rightarrow> topic_stat list res \<times> db" where
  "attempt_stats_by_topic uid =
     query_rows ''attempt stats by topic'' ''topic stat iter''
       (\<lambda>d. map (\<lambda>t. let as = topic_attempts uid (t_id t) d in
              \<lparr>ts_code = t_code t, ts_name = t_name t, ts_total = int (length as),
               ts_correct = count_correct as\<rparr>)
            (sort_key (\<lambda>t. (t_ord t, t_id t)) (topic_rows d)))"

text \<open>
  The day of a stored time.  SQLite formats the days of its calendar only, and \<^verbatim>\<open>time.Parse\<close>
  reads back those with a year of four digits.
\<close>

definition day_of :: "int \<Rightarrow> int" where "day_of s = s div 86400"

definition sqlite_day :: "int \<Rightarrow> bool" where
  "sqlite_day s \<longleftrightarrow> -210866760000 \<le> s \<and> s \<le> 253402300799"

definition four_digit_year :: "int \<Rightarrow> bool" where
  "four_digit_year s \<longleftrightarrow> -62167219200 \<le> s"

definition err_scan_null :: gerror where
  "err_scan_null = ErrText ''sql: Scan error: converting NULL to string is unsupported''"

definition err_parse_time :: gerror where
  "err_parse_time = ErrText ''parsing time''"

definition days_of :: "attempt list \<Rightarrow> int list" where
  "days_of as = sort (remdups (map (\<lambda>a. day_of (unix (a_answered_at a))) as))"

definition day_row :: "attempt list \<Rightarrow> int \<Rightarrow> daily_accuracy" where
  "day_row as n = (let xs = filter (\<lambda>a. day_of (unix (a_answered_at a)) = n) as
     in \<lparr>da_date = of_unix (86400 * n), da_total = int (length xs), da_correct = count_correct xs\<rparr>)"

definition midnight :: "time \<Rightarrow> time" where
  "midnight t = of_unix (86400 * day_of (unix t))"

definition attempt_daily_accuracy :: "int \<Rightarrow> int \<Rightarrow> time \<Rightarrow> db \<Rightarrow> daily_accuracy list res \<times> db" where
  "attempt_daily_accuracy uid days now d =
     (let n = (if days \<le> 0 then 7 else days);
          start = unix (add_days (midnight now) (- (n - 1)))
      in case query_rows ''daily accuracy'' ''daily iter''
                (\<lambda>d. filter (\<lambda>a. start \<le> unix (a_answered_at a)) (user_attempts uid d)) d of
           (Inl e, d') \<Rightarrow> (Inl e, d')
         | (Inr as, d') \<Rightarrow>
             if \<not> list_all (\<lambda>a. sqlite_day (unix (a_answered_at a))) as
             then (Inl (ErrWrap ''daily scan'' err_scan_null), d')
             else if \<not> list_all (\<lambda>a. four_digit_year (unix (a_answered_at a))) as
             then (Inl (ErrWrap ''daily parse'' err_parse_time), d')
             else (Inr (map (day_row as) (days_of as)), d'))"

definition attempt_last_question_id_in_set :: "int \<Rightarrow> int \<Rightarrow> db \<Rightarrow> int res \<times> db" where
  "attempt_last_question_id_in_set uid sid d =
     (case query_row (\<lambda>d. case latest_first (filter (\<lambda>a. a_set_id a = Some sid) (user_attempts uid d)) of
                [] \<Rightarrow> None | a # _ \<Rightarrow> Some (a_question_id a)) d of
        (Inl e, d') \<Rightarrow> (Inl (ErrWrap ''attempt last in set'' e), d')
      | (Inr None, d') \<Rightarrow> (Inl ErrNotFound, d')
      | (Inr (Some q), d') \<Rightarrow> (Inr q, d'))"

text \<open>The attempts of a user since a time, joined with the topics of their questions.\<close>

definition topic_results :: "int \<Rightarrow> int \<Rightarrow> db \<Rightarrow> (int \<times> bool) list" where
  "topic_results uid since d = [(q_topic_id q, a_is_correct a). a \<leftarrow> attempts d,
     a_user_id a = uid, since \<le> unix (a_answered_at a), q \<leftarrow> questions d, q_id q = a_question_id a]"

definition wrong_answers :: "(int \<times> bool) list \<Rightarrow> int \<Rightarrow> int" where
  "wrong_answers rs t = int (length (filter (\<lambda>(t', ok). t' = t \<and> \<not> ok) rs))"

definition all_answers :: "(int \<times> bool) list \<Rightarrow> int \<Rightarrow> int" where
  "all_answers rs t = int (length (filter (\<lambda>(t', ok). t' = t) rs))"

definition weak_topics :: "(int \<times> bool) list \<Rightarrow> int list" where
  "weak_topics rs =
     sort_key (\<lambda>t. (- fdiv (float_of_int (wrong_answers rs t)) (float_of_int (all_answers rs t)), t))
       (filter (\<lambda>t. 0 < wrong_answers rs t) (remdups (map fst rs)))"

definition attempt_weak_topic_ids :: "int \<Rightarrow> time \<Rightarrow> int \<Rightarrow> db \<Rightarrow> int list res \<times> db" where
  "attempt_weak_topic_ids uid since limit =
     query_rows ''attempt weak topics'' ''weak topic iter''
       (\<lambda>d. window (if limit \<le> 0 then 3 else limit) 0 (weak_topics (topic_results uid (unix since) d)))"

definition attempt_attempted_question_ids :: "int \<Rightarrow> db \<Rightarrow> int list res \<times> db" where
  "attempt_attempted_question_ids uid =
     query_rows ''attempt attempted ids'' ''attempted id iter''
       (\<lambda>d. sort (remdups (map a_question_id (user_attempts uid d))))"

definition attempt_summary_for_user :: "int \<Rightarrow> db \<Rightarrow> (int \<times> int) res \<times> db" where
  "attempt_summary_for_user uid d =
     (case query_row (\<lambda>d. Some (int (length (user_attempts uid d)), count_correct (user_attempts uid d))) d of
        (Inl e, d') \<Rightarrow> (Inl (ErrWrap ''attempt summary'' e), d')
      | (Inr None, d') \<Rightarrow> (Inr (0, 0), d')
      | (Inr (Some p), d') \<Rightarrow> (Inr p, d'))"

section \<open>Spaced-repetition states\<close>

definition upsert_state :: "srs_state \<Rightarrow> db \<Rightarrow> unit res \<times> db" where
  "upsert_state s d =
     (if srs_key s \<in> srs_key ` set (srs_states d)
      then (Inr (), d\<lparr>srs_states := map (\<lambda>x. if srs_key x = srs_key s then stored_state s else x) (srs_states d)\<rparr>)
      else if sr_user_id s \<notin> u_id ` set (users d) \<or> sr_question_id s \<notin> q_id ` set (questions d)
      then (Inl err_foreign_key, d)
      else (Inr (), d\<lparr>srs_states := srs_states d @ [stored_state s]\<rparr>))"

definition state_upsert :: "time \<Rightarrow> srs_state \<Rightarrow> db \<Rightarrow> unit res \<times> db" where
  "state_upsert wall s d =
     (let s1 = (if is_zero_time (sr_updated_at s) then s\<lparr>sr_updated_at := wall\<rparr> else s)
      in case statement (upsert_state s1) d of
           (Inl e, d') \<Rightarrow> (Inl (ErrWrap ''srs upsert'' e), d') | (Inr _, d') \<Rightarrow> (Inr (), d'))"

definition due_states :: "int \<Rightarrow> time \<Rightarrow> db \<Rightarrow> srs_state list" where
  "due_states uid now d =
     filter (\<lambda>s. sr_user_id s = uid \<and> unix (sr_due_at s) \<le> unix now) (srs_states d)"

definition state_due_for_user :: "int \<Rightarrow> time \<Rightarrow> int \<Rightarrow> db \<Rightarrow> srs_state list res \<times> db" where
  "state_due_for_user uid now limit =
     query_rows ''srs due'' ''srs iter''
       (\<lambda>d. window (if limit \<le> 0 then 50 else limit) 0 (sort_key (\<lambda>s. unix (sr_due_at s)) (due_states uid now d)))"

definition state_get :: "int \<Rightarrow> int \<Rightarrow> db \<Rightarrow> srs_state res \<times> db" where
  "state_get uid qid d =
     (case query_row (\<lambda>d. row srs_key (srs_states d) (uid, qid)) d of
        (Inl e, d') \<Rightarrow> (Inl (ErrWrap ''srs get'' e), d')
      | (Inr None, d') \<Rightarrow> (Inl ErrNotFound, d')
      | (Inr (Some s), d') \<Rightarrow> (Inr s, d'))"

definition state_delete_all_for_user :: "int \<Rightarrow> db \<Rightarrow> unit res \<times> db" where
  "state_delete_all_for_user uid d =
     (case statement (\<lambda>d. (Inr (), d\<lparr>srs_states := filter (\<lambda>s. sr_user_id s \<noteq> uid) (srs_states d)\<rparr>)) d of
        (Inl e, d') \<Rightarrow> (Inl (ErrWrap ''srs delete all'' e), d') | (Inr _, d') \<Rightarrow> (Inr (), d'))"

definition state_count_due_for_user :: "int \<Rightarrow> time \<Rightarrow> db \<Rightarrow> int res \<times> db" where
  "state_count_due_for_user uid now d =
     (case query_row (\<lambda>d. Some (int (length (due_states uid now d)))) d of
        (Inl e, d') \<Rightarrow> (Inl (ErrWrap ''srs count due'' e), d')
      | (Inr None, d') \<Rightarrow> (Inl ErrNotFound, d')
      | (Inr (Some n), d') \<Rightarrow> (Inr n, d'))"

section \<open>The repositories behind the interfaces\<close>

definition sqlite_questions :: "db question_port" where
  "sqlite_questions = \<lparr>qst_get_by_id = question_get_by_id, qst_get_by_code = question_get_by_code,
     qst_list_by_set = question_list_by_set, qst_search = question_search\<rparr>"

definition sqlite_topics :: "db topic_port" where
  "sqlite_topics = \<lparr>tpc_list_all = topic_list_all\<rparr>"

definition sqlite_sets :: "db set_port" where
  "sqlite_sets = \<lparr>set_get_by_code = question_set_get_by_code, set_list_all = question_set_list_all\<rparr>"

definition sqlite_attempts :: "time \<Rightarrow> db attempt_port" where
  "sqlite_attempts wall = \<lparr>att_create = attempt_create wall, att_list_by_user = attempt_list_by_user,
     att_delete_by_id = attempt_delete_by_id, att_delete_all_for_user = attempt_delete_all_for_user,
     att_stats_by_topic = attempt_stats_by_topic, att_daily_accuracy = attempt_daily_accuracy,
     att_summary_for_user = attempt_summary_for_user,
     att_last_question_id_in_set = attempt_last_question_id_in_set,
     att_weak_topic_ids = attempt_weak_topic_ids,
     att_attempted_question_ids = attempt_attempted_question_ids\<rparr>"

definition sqlite_states :: "time \<Rightarrow> db srs_state_port" where
  "sqlite_states wall = \<lparr>srs_upsert = state_upsert wall, srs_due_for_user = state_due_for_user,
     srs_get = state_get, srs_delete_all_for_user = state_delete_all_for_user,
     srs_count_due_for_user = state_count_due_for_user\<rparr>"

section \<open>The tables as maps\<close>

definition question_of :: "db \<Rightarrow> int \<Rightarrow> question option" where
  "question_of d = row q_id (questions d)"

definition set_of :: "db \<Rightarrow> string \<Rightarrow> question_set option" where
  "set_of d = row qs_code (question_sets d)"

definition memory_of :: "db \<Rightarrow> int \<times> int \<Rightarrow> srs_state option" where
  "memory_of d = row srs_key (srs_states d)"

text \<open>The key and reference constraints of the schema.\<close>

definition quiz_ok :: "db \<Rightarrow> bool" where
  "quiz_ok d \<longleftrightarrow> distinct (map t_id (topic_rows d)) \<and> distinct (map t_code (topic_rows d))
     \<and> distinct (map q_id (questions d))
     \<and> distinct (map q_code (questions d)) \<and> distinct (map qs_id (question_sets d))
     \<and> distinct (map qs_code (question_sets d)) \<and> distinct (map (\<lambda>m. (m_set_id m, m_question_id m)) (members d))
     \<and> distinct (map a_id (attempts d)) \<and> distinct (map srs_key (srs_states d))
     \<and> (\<forall>q\<in>set (questions d). q_topic_id q \<in> t_id ` set (topic_rows d))
     \<and> (\<forall>m\<in>set (members d). m_set_id m \<in> qs_id ` set (question_sets d) \<and> m_question_id m \<in> q_id ` set (questions d))
     \<and> (\<forall>a\<in>set (attempts d). a_user_id a \<in> u_id ` set (users d) \<and> a_question_id a \<in> q_id ` set (questions d)
          \<and> (\<forall>k. a_set_id a = Some k \<longrightarrow> k \<in> qs_id ` set (question_sets d)))
     \<and> (\<forall>s\<in>set (srs_states d). sr_user_id s \<in> u_id ` set (users d) \<and> sr_question_id s \<in> q_id ` set (questions d))"

lemmas quiz_views = question_of_def set_of_def memory_of_def set_questions_def set_rows_def

lemma quiz_views_same:
  "same_tables d d' \<Longrightarrow> question_of d' = question_of d \<and> set_of d' = set_of d \<and> memory_of d' = memory_of d
    \<and> set_questions c d' = set_questions c d \<and> attempts d' = attempts d \<and> (quiz_ok d' \<longleftrightarrow> quiz_ok d)"
  by (drule same_tablesD) (simp add: quiz_views quiz_ok_def cong: if_cong)

lemma views_with_attempts:
  "question_of (d\<lparr>attempts := x\<rparr>) = question_of d" "set_of (d\<lparr>attempts := x\<rparr>) = set_of d"
  "memory_of (d\<lparr>attempts := x\<rparr>) = memory_of d" "set_questions c (d\<lparr>attempts := x\<rparr>) = set_questions c d"
  "question_of (d\<lparr>srs_states := y\<rparr>) = question_of d" "set_of (d\<lparr>srs_states := y\<rparr>) = set_of d"
  "set_questions c (d\<lparr>srs_states := y\<rparr>) = set_questions c d"
  by (simp_all add: quiz_views cong: if_cong)

lemma next_id_above: "i \<in> set ids \<Longrightarrow> i < next_id ids"
proof -
  have le: "x \<le> foldr max xs k" if "x \<in> set xs" for x :: int and xs k
    using that by (induction xs) (auto simp: le_max_iff_disj)
  assume "i \<in> set ids"
  with le [OF this, of "hd ids"] show ?thesis by (auto simp: next_id_def)
qed

subsection \<open>Attempts\<close>

lemma insert_attempt_cases:
  assumes "insert_attempt a d = (r, d')"
  obtains (refused) "r = Inl err_foreign_key" "d' = d"
  | (inserted) i where "r = Inr i" "d' = d\<lparr>attempts := attempts d @ [stored_attempt (a\<lparr>a_id := i\<rparr>)]\<rparr>"
      "\<forall>x\<in>set (attempts d). a_id x < i" "a_user_id a \<in> u_id ` set (users d)"
      "a_question_id a \<in> q_id ` set (questions d)" "\<forall>k. a_set_id a = Some k \<longrightarrow> k \<in> qs_id ` set (question_sets d)"
proof (cases "a_user_id a \<notin> u_id ` set (users d) \<or> a_question_id a \<notin> q_id ` set (questions d)
         \<or> (\<exists>s. a_set_id a = Some s \<and> s \<notin> qs_id ` set (question_sets d))")
  case True
  with assms show thesis by (intro refused) (simp_all add: insert_attempt_def)
next
  case False
  have "\<forall>x\<in>set (attempts d). a_id x < next_id (map a_id (attempts d))"
    using next_id_above [of _ "map a_id (attempts d)"] by simp
  moreover have "r = Inr (next_id (map a_id (attempts d)))
      \<and> d' = d\<lparr>attempts := attempts d @ [stored_attempt (a\<lparr>a_id := next_id (map a_id (attempts d))\<rparr>)]\<rparr>"
    using assms unfolding insert_attempt_def if_not_P [OF False] Let_def by (auto simp: stored_attempt_def)
  ultimately show thesis using False by (intro inserted [of "next_id (map a_id (attempts d))"]) auto
qed

lemma quiz_ok_insert:
  assumes "quiz_ok d" "\<forall>x\<in>set (attempts d). a_id x < i" "a_user_id a \<in> u_id ` set (users d)"
    "a_question_id a \<in> q_id ` set (questions d)" "\<forall>k. a_set_id a = Some k \<longrightarrow> k \<in> qs_id ` set (question_sets d)"
  shows "quiz_ok (d\<lparr>attempts := attempts d @ [stored_attempt (a\<lparr>a_id := i\<rparr>)]\<rparr>)"
  using assms by (auto simp: quiz_ok_def stored_attempt_def)

lemma attempt_create_cases:
  assumes "attempt_create wall a d = (r, d')"
  obtains (error) e where "r = Inl e" "same_tables d d'"
  | (created) d1 i b where "r = Inr (b\<lparr>a_id := i\<rparr>)" "same_tables d d1"
      "b = (if is_zero_time (a_answered_at a) then a\<lparr>a_answered_at := wall\<rparr> else a)"
      "insert_attempt b d1 = (Inr i, d')"
proof -
  define b where "b = (if is_zero_time (a_answered_at a) then a\<lparr>a_answered_at := wall\<rparr> else a)"
  obtain q d2 where q: "statement (insert_attempt b) d = (q, d2)" by fastforce
  have r: "(r, d') = (case (q, d2) of (Inl e, d') \<Rightarrow> (Inl (ErrWrap ''attempt create'' e), d')
      | (Inr i, d') \<Rightarrow> (Inr (b\<lparr>a_id := i\<rparr>), d'))"
    using assms q unfolding attempt_create_def Let_def b_def by simp
  from q show thesis
  proof (cases rule: statement_cases)
    case (fault m)
    with r show thesis by (intro error) auto
  next
    case (run d1)
    from run(2) show thesis
    proof (cases rule: insert_attempt_cases)
      case refused
      with r run show thesis by (intro error) auto
    next
      case (inserted i)
      with r run b_def show thesis by (intro created [of i b d1]) auto
    qed
  qed
qed

lemma delete_attempts_cases:
  assumes "delete_attempts P d = (r, d')"
  obtains (error) m where "r = Inl (ErrText m)" "same_tables d d'"
  | (deleted) d1 where "r = Inr (length (filter P (attempts d)))" "same_tables d d1"
      "d' = d1\<lparr>attempts := filter (\<lambda>a. \<not> P a) (attempts d)\<rparr>"
  using assms unfolding delete_attempts_def
proof (cases rule: statement_cases)
  case (run d1)
  with same_tablesD [OF run(1)] show thesis by (intro deleted [of d1]) auto
qed (auto intro: error)

lemma quiz_ok_delete: "quiz_ok d \<Longrightarrow> quiz_ok (d\<lparr>attempts := filter P (attempts d)\<rparr>)"
  by (auto simp: quiz_ok_def distinct_map_filter)

text \<open>A read of rows: the rows as they are, or an error that is not a missing row.\<close>

lemma query_rows_cases:
  assumes "query_rows c i sel d = (r, d')" "table_view sel"
  obtains (error) k m where "r = Inl (ErrWrap k (ErrText m))" "same_tables d d'"
  | (rows) "r = Inr (sel d)" "same_tables d d'"
proof -
  obtain q d1 where q: "query_row (\<lambda>d. Some (sel d)) d = (q, d1)" by fastforce
  have s1: "statement (\<lambda>d. (Inr (sel d), d)) d = (case q of Inl e \<Rightarrow> (Inl e, d1) | Inr x \<Rightarrow> (Inr (the x), d1))"
    using q by (auto simp: query_row_def statement_def split: prod.splits option.splits)
  obtain f d2 where t: "tick d1 = (f, d2)" by fastforce
  from q show thesis
  proof (cases rule: query_row_cases)
    case (error m)
    with assms(1) s1 that(1) show thesis by (auto simp: query_rows_def)
  next
    case row
    have "sel d1 = sel d" using assms(2) row(2) by (simp add: table_view_def)
    moreover have "same_tables d d2" using row(2) tick_tables [OF t] same_tables_trans by blast
    ultimately show thesis
      using assms(1) s1 t row that by (auto simp: query_rows_def tick_def split: option.splits list.splits)
  qed
qed

lemma quiz_table_views:
  "table_view (\<lambda>d. f (attempts d))" "table_view (\<lambda>d. g (srs_states d))" "table_view (set_questions c)"
  "table_view (\<lambda>d. h (attempts d) (questions d))"
  by (auto simp: table_view_def set_questions_def set_rows_def dest: same_tablesD cong: if_cong)

interpretation sqlite_question_bank:
  question_bank sqlite_questions sqlite_sets same_tables "\<lambda>d c. set_questions c d" question_of set_of
proof (unfold_locales; (simp only: sqlite_questions_def sqlite_sets_def question_port.simps set_port.simps)?)
  fix d d' assume "same_tables d d'"
  then show "(\<lambda>c. set_questions c d') = (\<lambda>c. set_questions c d) \<and> question_of d' = question_of d \<and> set_of d' = set_of d"
    using quiz_views_same by auto
next
  fix c d r d' assume "question_list_by_set c d = (r, d')"
  then show "same_tables d d' \<and> (\<forall>xs. r = Inr xs \<longrightarrow> xs = set_questions c d)"
    unfolding question_list_by_set_def by (cases rule: query_rows_cases [OF _ quiz_table_views(3)]) auto
next
  fix i d r d' assume g: "question_get_by_id i d = (r, d')"
  obtain q d2 where q: "query_row (\<lambda>d. row q_id (questions d) i) d = (q, d2)" by fastforce
  note same = query_row_same [OF q] same_tablesD [OF query_row_same [OF q]]
  from q g show "same_tables d d' \<and> (\<forall>x. r = Inr x \<longrightarrow> question_of d i = Some x)
      \<and> (\<forall>e. r = Inl e \<longrightarrow> errors_is e ErrNotFound \<longrightarrow> question_of d i = None)"
    by (cases rule: query_row_cases)
      (use same in \<open>auto simp: q question_get_by_id_def scan_question_def question_of_def split: option.splits\<close>)
next
  fix c d r d' assume g: "question_set_get_by_code c d = (r, d')"
  obtain q d2 where q: "query_row (\<lambda>d. row qs_code (question_sets d) c) d = (q, d2)" by fastforce
  note same = query_row_same [OF q] same_tablesD [OF query_row_same [OF q]]
  from q g show "same_tables d d' \<and> (\<forall>x. r = Inr x \<longrightarrow> set_of d c = Some x)
      \<and> (\<forall>e. r = Inl e \<longrightarrow> errors_is e ErrNotFound \<longrightarrow> set_of d c = None)"
    by (cases rule: query_row_cases)
      (use same in \<open>auto simp: q question_set_get_by_code_def set_of_def split: option.splits\<close>)
next
  fix d i q assume "question_of d i = Some q"
  then show "q_id q = i" by (auto simp: question_of_def dest: row_Some)
qed (auto intro: same_tables_trans)

lemma attempt_last_views:
  assumes "attempt_last_question_id_in_set uid sid d = (r, d')"
  shows "same_tables d d'
    \<and> (let xs = latest_first (filter (\<lambda>a. a_user_id a = uid \<and> a_set_id a = Some sid) (attempts d)) in
       (\<forall>q. r = Inr q \<longrightarrow> xs \<noteq> [] \<and> q = a_question_id (hd xs))
       \<and> (\<forall>e. r = Inl e \<longrightarrow> errors_is e ErrNotFound \<longrightarrow> xs = []))"
proof -
  let ?sel = "\<lambda>d. case latest_first (filter (\<lambda>a. a_set_id a = Some sid) (user_attempts uid d)) of
      [] \<Rightarrow> None | a # _ \<Rightarrow> Some (a_question_id a)"
  obtain q d2 where q: "query_row ?sel d = (q, d2)" by fastforce
  have "?sel d2 = ?sel d"
    using same_tablesD [OF query_row_same [OF q]] by (simp add: user_attempts_def)
  then have sel: "q = Inr (?sel d2) \<Longrightarrow> q = Inr (?sel d)" by simp
  have eq: "filter (\<lambda>a. a_set_id a = Some sid) (user_attempts uid d)
      = filter (\<lambda>a. a_user_id a = uid \<and> a_set_id a = Some sid) (attempts d)"
    by (simp add: user_attempts_def conj_commute)
  from q show ?thesis
  proof (cases rule: query_row_cases)
    case (error m)
    with q assms show ?thesis by (auto simp: attempt_last_question_id_in_set_def Let_def)
  next
    case row
    with sel have "q = Inr (?sel d)" by blast
    with q row assms show ?thesis
      by (auto simp: attempt_last_question_id_in_set_def Let_def eq split: list.splits)
  qed
qed

lemma attempt_summary_views:
  assumes "attempt_summary_for_user uid d = (r, d')"
  shows "same_tables d d' \<and> (\<forall>n c. r = Inr (n, c) \<longrightarrow>
    n = int (length (user_attempts uid d)) \<and> c = count_correct (user_attempts uid d))"
proof -
  let ?sel = "\<lambda>d. Some (int (length (user_attempts uid d)), count_correct (user_attempts uid d))"
  obtain q d2 where q: "query_row ?sel d = (q, d2)" by fastforce
  have same: "same_tables d d2" "user_attempts uid d2 = user_attempts uid d"
    using query_row_same [OF q] same_tablesD [OF query_row_same [OF q]] by (simp_all add: user_attempts_def)
  from q assms show ?thesis
    by (cases rule: query_row_cases) (use same in \<open>auto simp: q attempt_summary_for_user_def\<close>)
qed

interpretation sqlite_attempt_log: attempt_log "sqlite_attempts wall" same_tables attempts
proof (unfold_locales; (simp only: sqlite_attempts_def attempt_port.simps)?)
  fix d d' assume "same_tables d d'"
  then show "attempts d' = attempts d" using same_tablesD by blast
next
  fix a d e d' assume "attempt_create wall a d = (Inl e, d')"
  then show "same_tables d d'" by (cases rule: attempt_create_cases) simp_all
next
  fix a d b d' assume z: "\<not> is_zero_time (a_answered_at a)" and "attempt_create wall a d = (Inr b, d')"
  from this(2) show "b = a\<lparr>a_id := a_id b\<rparr> \<and> attempts d' = attempts d @ [stored_attempt b]
      \<and> (\<forall>x\<in>set (attempts d). a_id x < a_id b)"
  proof (cases rule: attempt_create_cases)
    case (created d1 i v)
    have "attempts d1 = attempts d" using same_tablesD [OF created(2)] by simp
    with created(1,3) z show ?thesis
      by (cases rule: insert_attempt_cases [OF created(4)]) auto
  qed simp
next
  fix uid limit offset d r d' assume "attempt_list_by_user uid limit offset d = (r, d')"
  then show "same_tables d d' \<and> (\<forall>xs. r = Inr xs \<longrightarrow>
      xs = (let ys = drop (nat offset) (latest_first (filter (\<lambda>a. a_user_id a = uid) (attempts d)))
            in take (nat (if limit \<le> 0 then 50 else limit)) ys))"
    unfolding attempt_list_by_user_def user_attempts_def
    by (cases rule: query_rows_cases [OF _ quiz_table_views(1)]) (auto simp: window_def Let_def)
next
  fix uid sid d r d' assume "attempt_last_question_id_in_set uid sid d = (r, d')"
  then show "same_tables d d'
    \<and> (let xs = latest_first (filter (\<lambda>a. a_user_id a = uid \<and> a_set_id a = Some sid) (attempts d)) in
       (\<forall>q. r = Inr q \<longrightarrow> xs \<noteq> [] \<and> q = a_question_id (hd xs))
       \<and> (\<forall>e. r = Inl e \<longrightarrow> errors_is e ErrNotFound \<longrightarrow> xs = []))"
    by (rule attempt_last_views)
next
  fix uid since limit d r d' assume w: "attempt_weak_topic_ids uid since limit d = (r, d')"
  have "table_view (\<lambda>d. window (if limit \<le> 0 then 3 else limit) 0 (weak_topics (topic_results uid (unix since) d)))"
    by (auto simp: table_view_def topic_results_def dest: same_tablesD cong: if_cong)
  from w [unfolded attempt_weak_topic_ids_def] this show "same_tables d d'" by (cases rule: query_rows_cases) auto
next
  fix uid d r d' assume "attempt_attempted_question_ids uid d = (r, d')"
  then show "same_tables d d' \<and> (\<forall>is. r = Inr is \<longrightarrow> set is = a_question_id ` {a\<in>set (attempts d). a_user_id a = uid})"
    unfolding attempt_attempted_question_ids_def user_attempts_def
    by (cases rule: query_rows_cases [OF _ quiz_table_views(1)]) auto
next
  fix uid aid d e d' assume "attempt_delete_by_id uid aid d = (Inl e, d')"
  then obtain n where n: "delete_attempts (\<lambda>a. a_id a = aid \<and> a_user_id a = uid) d = (n, d')"
    and e: "case n of Inl e' \<Rightarrow> True | Inr k \<Rightarrow> k = 0"
    by (auto simp: attempt_delete_by_id_def split: prod.splits sum.splits if_splits)
  from n show "same_tables d d'"
  proof (cases rule: delete_attempts_cases)
    case (deleted d1)
    with e have "filter (\<lambda>a. \<not> (a_id a = aid \<and> a_user_id a = uid)) (attempts d) = attempts d1"
      using same_tablesD [OF deleted(2)] by (auto simp: filter_empty_conv filter_id_conv)
    with deleted show ?thesis by simp
  qed simp
next
  fix uid aid d e d' assume "attempt_delete_by_id uid aid d = (Inl e, d')" "errors_is e ErrNotFound"
  moreover obtain n d2 where n: "delete_attempts (\<lambda>a. a_id a = aid \<and> a_user_id a = uid) d = (n, d2)" by fastforce
  ultimately show "\<forall>a\<in>set (attempts d). \<not> (a_id a = aid \<and> a_user_id a = uid)"
    by (cases rule: delete_attempts_cases [OF n])
      (auto simp: attempt_delete_by_id_def filter_empty_conv split: if_splits)
next
  fix uid aid d u d' assume "attempt_delete_by_id uid aid d = (Inr u, d')"
  moreover obtain n d2 where n: "delete_attempts (\<lambda>a. a_id a = aid \<and> a_user_id a = uid) d = (n, d2)" by fastforce
  ultimately show "(\<exists>a\<in>set (attempts d). a_id a = aid \<and> a_user_id a = uid)
      \<and> attempts d' = filter (\<lambda>a. \<not> (a_id a = aid \<and> a_user_id a = uid)) (attempts d)"
    by (cases rule: delete_attempts_cases [OF n])
      (auto simp: attempt_delete_by_id_def filter_empty_conv split: if_splits)
next
  fix uid d e d' assume "attempt_delete_all_for_user uid d = (Inl e, d')"
  moreover obtain n d2 where n: "delete_attempts (\<lambda>a. a_user_id a = uid) d = (n, d2)" by fastforce
  ultimately show "same_tables d d'"
    by (cases rule: delete_attempts_cases [OF n]) (auto simp: attempt_delete_all_for_user_def)
next
  fix uid d u d' assume "attempt_delete_all_for_user uid d = (Inr u, d')"
  moreover obtain n d2 where n: "delete_attempts (\<lambda>a. a_user_id a = uid) d = (n, d2)" by fastforce
  ultimately show "attempts d' = filter (\<lambda>a. a_user_id a \<noteq> uid) (attempts d)"
    by (cases rule: delete_attempts_cases [OF n]) (auto simp: attempt_delete_all_for_user_def)
next
  fix uid d r d' assume "attempt_summary_for_user uid d = (r, d')"
  then show "same_tables d d' \<and> (\<forall>n c. r = Inr (n, c) \<longrightarrow>
      n = int (length (filter (\<lambda>a. a_user_id a = uid) (attempts d)))
      \<and> c = count_correct (filter (\<lambda>a. a_user_id a = uid) (attempts d)))"
    using attempt_summary_views by (simp add: user_attempts_def)
qed

subsection \<open>Spaced-repetition states\<close>

lemma upsert_state_cases:
  assumes "upsert_state s d = (r, d')"
  obtains (refused) "r = Inl err_foreign_key" "d' = d"
  | (stored) "r = Inr ()" "memory_of d' = (memory_of d)(srs_key s \<mapsto> stored_state s)"
      "\<exists>x. d' = d\<lparr>srs_states := x\<rparr>" "quiz_ok d \<Longrightarrow> quiz_ok d'"
proof -
  have key: "srs_key (stored_state s) = srs_key s" "sr_user_id (stored_state s) = sr_user_id s"
      "sr_question_id (stored_state s) = sr_question_id s"
    by (simp_all add: srs_key_def stored_state_def)
  show thesis
  proof (cases "srs_key s \<in> srs_key ` set (srs_states d)")
    case True
    let ?g = "\<lambda>x. if srs_key x = srs_key s then stored_state s else x"
    obtain x0 where x0: "row srs_key (srs_states d) (srs_key s) = Some x0"
      using True row_None [of srs_key "srs_key s" "srs_states d"] by auto
    have d': "d' = d\<lparr>srs_states := map ?g (srs_states d)\<rparr>" "r = Inr ()"
      using True assms by (simp_all add: upsert_state_def)
    have gk: "srs_key (?g x) = srs_key x" for x using key by simp
    have row': "row srs_key (map ?g xs) k = map_option ?g (row srs_key xs k)" for xs k
      by (rule row_map) (rule gk)
    have "memory_of d' k = ((memory_of d)(srs_key s \<mapsto> stored_state s)) k" for k
      using row' [of k "srs_states d"] x0
      by (cases "row srs_key (srs_states d) k") (auto simp: d' memory_of_def dest: row_Some)
    moreover have "quiz_ok d'" if ok: "quiz_ok d"
    proof -
      have "sr_user_id (?g x) \<in> u_id ` set (users d) \<and> sr_question_id (?g x) \<in> q_id ` set (questions d)"
        if "x \<in> set (srs_states d)" for x
        using ok that key gk [of x] by (auto simp: quiz_ok_def srs_key_def split: if_splits)
      moreover have "map srs_key (map ?g (srs_states d)) = map srs_key (srs_states d)" using gk by simp
      ultimately show ?thesis
        using ok unfolding d'(1) quiz_ok_def by (simp del: map_map if_image_distrib)
    qed
    ultimately show thesis using d' by (intro stored) auto
  next
    case False
    show thesis
    proof (cases "sr_user_id s \<notin> u_id ` set (users d) \<or> sr_question_id s \<notin> q_id ` set (questions d)")
      case True
      with False assms show thesis by (intro refused) (simp_all add: upsert_state_def)
    next
      case ok: False
      then have d': "d' = d\<lparr>srs_states := srs_states d @ [stored_state s]\<rparr>" "r = Inr ()"
        using False assms by (simp_all add: upsert_state_def)
      have "memory_of d' = (memory_of d)(srs_key s \<mapsto> stored_state s)"
        using row_append [of srs_key "stored_state s" "srs_states d"] False by (simp add: d' memory_of_def key)
      moreover have "quiz_ok d'" if "quiz_ok d"
        using that False ok by (auto simp: d' quiz_ok_def key)
      ultimately show thesis using d' by (intro stored) auto
    qed
  qed
qed

lemma state_upsert_cases:
  assumes "state_upsert wall s d = (r, d')"
  obtains (error) e where "r = Inl e" "same_tables d d'"
  | (stored) d1 t where "r = Inr ()" "same_tables d d1" "upsert_state t d1 = (Inr (), d')"
      "t = (if is_zero_time (sr_updated_at s) then s\<lparr>sr_updated_at := wall\<rparr> else s)"
proof -
  define t where "t = (if is_zero_time (sr_updated_at s) then s\<lparr>sr_updated_at := wall\<rparr> else s)"
  obtain q d2 where q: "statement (upsert_state t) d = (q, d2)" by fastforce
  have r: "(r, d') = (case (q, d2) of (Inl e, d') \<Rightarrow> (Inl (ErrWrap ''srs upsert'' e), d') | (Inr _, d') \<Rightarrow> (Inr (), d'))"
    using assms q unfolding state_upsert_def Let_def t_def by simp
  from q show thesis
  proof (cases rule: statement_cases)
    case (fault m)
    with r show thesis by (intro error) auto
  next
    case (run d1)
    from run(2) show thesis
    proof (cases rule: upsert_state_cases)
      case refused
      with r run show thesis by (intro error) auto
    next
      case stored
      with r run t_def that(2) [of d1 t] show thesis by auto
    qed
  qed
qed

lemma state_get_views:
  assumes "state_get uid qid d = (r, d')"
  shows "same_tables d d' \<and> (\<forall>st. r = Inr st \<longrightarrow> memory_of d (uid, qid) = Some st)
    \<and> (\<forall>e. r = Inl e \<longrightarrow> errors_is e ErrNotFound \<longrightarrow> memory_of d (uid, qid) = None)"
proof -
  obtain q d2 where q: "query_row (\<lambda>d. row srs_key (srs_states d) (uid, qid)) d = (q, d2)" by fastforce
  note same = query_row_same [OF q] same_tablesD [OF query_row_same [OF q]]
  from q assms show ?thesis
    by (cases rule: query_row_cases)
      (use same in \<open>auto simp: q state_get_def memory_of_def split: option.splits\<close>)
qed

lemma state_forget_cases:
  assumes "state_delete_all_for_user uid d = (r, d')"
  obtains (error) e where "r = Inl e" "same_tables d d'"
  | (deleted) d1 where "r = Inr ()" "same_tables d d1"
      "d' = d1\<lparr>srs_states := filter (\<lambda>s. sr_user_id s \<noteq> uid) (srs_states d)\<rparr>"
proof -
  obtain q d2 where q: "statement (\<lambda>d. (Inr () :: unit res,
      d\<lparr>srs_states := filter (\<lambda>s. sr_user_id s \<noteq> uid) (srs_states d)\<rparr>)) d = (q, d2)" by fastforce
  from q show thesis
  proof (cases rule: statement_cases)
    case (fault m)
    with assms q error show thesis by (auto simp: state_delete_all_for_user_def)
  next
    case (run d1)
    with assms q deleted [of d1] same_tablesD [OF run(1)] show thesis
      by (auto simp: state_delete_all_for_user_def)
  qed
qed

lemma due_states_memory:
  assumes "quiz_ok d" "s \<in> set (due_states uid now d)"
  shows "memory_of d (uid, sr_question_id s) = Some s \<and> unix (sr_due_at s) \<le> unix now"
  using assms row_key [of srs_key "srs_states d" s]
  by (auto simp: due_states_def memory_of_def quiz_ok_def srs_key_def)

interpretation sqlite_srs_memory: srs_memory "sqlite_states wall" same_tables memory_of quiz_ok
proof (unfold_locales; (simp only: sqlite_states_def srs_state_port.simps)?)
  fix d d' assume "same_tables d d'"
  then show "memory_of d' = memory_of d \<and> quiz_ok d' = quiz_ok d" using quiz_views_same by blast
next
  fix d k s assume "memory_of d k = Some s"
  then show "srs_key s = k" by (auto simp: memory_of_def dest: row_Some)
next
  fix s d e d' assume "state_upsert wall s d = (Inl e, d')"
  then show "same_tables d d'" by (cases rule: state_upsert_cases) simp_all
next
  fix s d u d' assume z: "\<not> is_zero_time (sr_updated_at s)" and "state_upsert wall s d = (Inr u, d')"
  from this(2) show "memory_of d' = (memory_of d)(srs_key s \<mapsto> stored_state s)"
  proof (cases rule: state_upsert_cases)
    case (stored d1 t)
    have "memory_of d1 = memory_of d" using quiz_views_same [OF stored(2)] by simp
    with stored(4) z show ?thesis by (cases rule: upsert_state_cases [OF stored(3)]) auto
  qed simp
next
  fix uid qid d r d' assume "state_get uid qid d = (r, d')"
  then show "same_tables d d' \<and> (\<forall>st. r = Inr st \<longrightarrow> memory_of d (uid, qid) = Some st)
      \<and> (\<forall>e. r = Inl e \<longrightarrow> errors_is e ErrNotFound \<longrightarrow> memory_of d (uid, qid) = None)"
    by (rule state_get_views)
next
  fix d uid now limit r d' assume ok: "quiz_ok d" and due: "state_due_for_user uid now limit d = (r, d')"
  let ?sel = "\<lambda>d. window (if limit \<le> 0 then 50 else limit) 0 (sort_key (\<lambda>s. unix (sr_due_at s)) (due_states uid now d))"
  have "table_view ?sel" unfolding due_states_def by (rule quiz_table_views(2))
  have "same_tables d d' \<and> (\<forall>xs. r = Inr xs \<longrightarrow> xs = ?sel d)"
    by (rule query_rows_cases [OF due [unfolded state_due_for_user_def] \<open>table_view ?sel\<close>]) simp_all
  moreover have "st \<in> set (due_states uid now d)" if "st \<in> set (?sel d)" for st
    using that by (auto simp: window_def Let_def dest!: in_set_takeD split: if_splits)
  ultimately show "same_tables d d' \<and> (\<forall>xs. r = Inr xs \<longrightarrow> (\<forall>st\<in>set xs.
      memory_of d (uid, sr_question_id st) = Some st \<and> unix (sr_due_at st) \<le> unix now))"
    using due_states_memory [OF ok] by blast
next
  fix uid d e d' assume "state_delete_all_for_user uid d = (Inl e, d')"
  then show "same_tables d d'" by (cases rule: state_forget_cases) simp_all
next
  fix uid d u d' assume "state_delete_all_for_user uid d = (Inr u, d')"
  then show "memory_of d' = (\<lambda>k. if fst k = uid then None else memory_of d k)"
  proof (cases rule: state_forget_cases)
    case (deleted d1)
    have "row srs_key (filter (\<lambda>s. sr_user_id s \<noteq> uid) xs) k
        = (if fst k = uid then None else row srs_key xs k)" for xs k
      by (induction xs) (auto simp: srs_key_def)
    then show ?thesis by (simp add: deleted(3) memory_of_def fun_eq_iff)
  qed simp
next
  fix uid now d r d' assume c: "state_count_due_for_user uid now d = (r, d')"
  obtain q d2 where q: "query_row (\<lambda>d. Some (int (length (due_states uid now d)))) d = (q, d2)" by fastforce
  have same: "same_tables d d2" "due_states uid now d2 = due_states uid now d"
    using query_row_same [OF q] same_tablesD [OF query_row_same [OF q]] by (simp_all add: due_states_def)
  have none: "due_states uid now d = []" if "\<forall>q. memory_of d (uid, q) = None"
  proof (rule ccontr)
    assume "due_states uid now d \<noteq> []"
    then obtain s where "s \<in> set (srs_states d)" "sr_user_id s = uid"
      by (auto simp: due_states_def filter_empty_conv)
    with that row_None [of srs_key "(uid, sr_question_id s)" "srs_states d"] show False
      by (auto simp: memory_of_def srs_key_def)
  qed
  from q c show "same_tables d d' \<and> (\<forall>n. r = Inr n \<longrightarrow> 0 \<le> n
      \<and> ((\<forall>q. memory_of d (uid, q) = None) \<longrightarrow> n = 0))"
    by (cases rule: query_row_cases) (use same none in \<open>auto simp: q state_count_due_for_user_def\<close>)
qed

end
