(* ===== verification/Study.thy ===== *)
theory Study
  imports Quiz QuizStore
begin

text \<open>
  The quiz and statistics services on the SQLite repositories, as \<^verbatim>\<open>cmd/boki3-quiz/main.go\<close> wires
  them, and what a learner can rely on.
\<close>

definition new_quiz_service :: "time \<Rightarrow> db quiz_service" where
  "new_quiz_service wall = \<lparr>qz_questions = sqlite_questions, qz_sets = sqlite_sets,
     qz_attempts = sqlite_attempts wall, qz_srs = sqlite_states wall\<rparr>"

definition new_stats_service :: "time \<Rightarrow> db stats_service" where
  "new_stats_service wall = \<lparr>st_attempts = sqlite_attempts wall, st_srs = sqlite_states wall\<rparr>"

lemma new_quiz_service_simps [simp]:
  "qz_questions (new_quiz_service w) = sqlite_questions" "qz_sets (new_quiz_service w) = sqlite_sets"
  "qz_attempts (new_quiz_service w) = sqlite_attempts w" "qz_srs (new_quiz_service w) = sqlite_states w"
  "st_attempts (new_stats_service w) = sqlite_attempts w" "st_srs (new_stats_service w) = sqlite_states w"
  by (simp_all add: new_quiz_service_def new_stats_service_def)

section \<open>One store\<close>

lemma quiz_ok_same: "same_tables d d' \<Longrightarrow> quiz_ok d \<Longrightarrow> quiz_ok d'"
  using quiz_views_same by blast

lemma attempt_create_frame:
  assumes "quiz_ok d" "attempt_create wall a d = (r, d')"
  shows "quiz_ok d' \<and> memory_of d' = memory_of d \<and> (\<lambda>c. set_questions c d') = (\<lambda>c. set_questions c d)
    \<and> question_of d' = question_of d \<and> set_of d' = set_of d"
  using assms(2)
proof (cases rule: attempt_create_cases)
  case (error e)
  with assms(1) quiz_views_same show ?thesis by auto
next
  case (created d1 i b)
  have ok1: "quiz_ok d1" using created(2) assms(1) by (rule quiz_ok_same)
  show ?thesis
    using created(4)
  proof (cases rule: insert_attempt_cases)
    case (inserted j)
    with quiz_ok_insert [OF ok1, of j b] quiz_views_same [OF created(2)] show ?thesis
      by (auto simp: views_with_attempts)
  qed simp
qed

lemma delete_attempts_frame:
  assumes "quiz_ok d" "delete_attempts P d = (r, d')"
  shows "quiz_ok d' \<and> memory_of d' = memory_of d \<and> (\<lambda>c. set_questions c d') = (\<lambda>c. set_questions c d)
    \<and> question_of d' = question_of d \<and> set_of d' = set_of d"
  using assms(2)
proof (cases rule: delete_attempts_cases)
  case (error e)
  with assms(1) quiz_views_same show ?thesis by auto
next
  case (deleted d1)
  have "attempts d1 = attempts d" using same_tablesD [OF deleted(2)] by simp
  then have d': "d' = d1\<lparr>attempts := filter (\<lambda>a. \<not> P a) (attempts d1)\<rparr>" using deleted(3) by simp
  have "quiz_ok d'" unfolding d' by (intro quiz_ok_delete quiz_ok_same [OF deleted(2) assms(1)])
  then show ?thesis using quiz_views_same [OF deleted(2)] by (simp add: d' views_with_attempts)
qed

lemma state_upsert_frame:
  assumes "quiz_ok d" "state_upsert wall s d = (r, d')"
  shows "quiz_ok d' \<and> attempts d' = attempts d \<and> (\<lambda>c. set_questions c d') = (\<lambda>c. set_questions c d)
    \<and> question_of d' = question_of d \<and> set_of d' = set_of d"
  using assms(2)
proof (cases rule: state_upsert_cases)
  case (error e)
  with assms(1) quiz_views_same show ?thesis by auto
next
  case (stored d1 t)
  have ok1: "quiz_ok d1" using stored(2) assms(1) by (rule quiz_ok_same)
  show ?thesis
    by (cases rule: upsert_state_cases [OF stored(3)])
      (use ok1 quiz_views_same [OF stored(2)] in \<open>auto simp: views_with_attempts\<close>)
qed

lemma state_forget_frame:
  assumes "quiz_ok d" "state_delete_all_for_user uid d = (r, d')"
  shows "quiz_ok d' \<and> attempts d' = attempts d \<and> (\<lambda>c. set_questions c d') = (\<lambda>c. set_questions c d)
    \<and> question_of d' = question_of d \<and> set_of d' = set_of d"
  using assms(2)
proof (cases rule: state_forget_cases)
  case (error e)
  with assms(1) quiz_views_same show ?thesis by auto
next
  case (deleted d1)
  have "quiz_ok d1" using deleted(2) assms(1) by (rule quiz_ok_same)
  moreover have "srs_states d = srs_states d1" using same_tablesD [OF deleted(2)] by simp
  ultimately have "quiz_ok d'" by (auto simp: deleted(3) quiz_ok_def distinct_map_filter)
  with quiz_views_same [OF deleted(2)] show ?thesis by (auto simp: deleted(3) views_with_attempts)
qed

interpretation sqlite_quiz_store: quiz_store sqlite_questions sqlite_sets same_tables
    "\<lambda>d c. set_questions c d" question_of set_of "sqlite_attempts wall" attempts "sqlite_states wall"
    memory_of quiz_ok
proof (unfold_locales; (simp only: sqlite_attempts_def sqlite_states_def attempt_port.simps srs_state_port.simps)?)
  fix d a r d' assume "quiz_ok d" "attempt_create wall a d = (r, d')"
  then show "quiz_ok d' \<and> memory_of d' = memory_of d \<and> (\<lambda>c. set_questions c d') = (\<lambda>c. set_questions c d)
    \<and> question_of d' = question_of d \<and> set_of d' = set_of d" by (rule attempt_create_frame)
next
  fix d uid aid r d' assume ok: "quiz_ok d" and "attempt_delete_by_id uid aid d = (r, d')"
  moreover obtain n d2 where n: "delete_attempts (\<lambda>a. a_id a = aid \<and> a_user_id a = uid) d = (n, d2)" by fastforce
  ultimately have "d2 = d'" by (auto simp: attempt_delete_by_id_def split: sum.splits if_splits)
  with delete_attempts_frame [OF ok n] show "quiz_ok d' \<and> memory_of d' = memory_of d
    \<and> (\<lambda>c. set_questions c d') = (\<lambda>c. set_questions c d) \<and> question_of d' = question_of d \<and> set_of d' = set_of d"
    by simp
next
  fix d uid r d' assume ok: "quiz_ok d" and "attempt_delete_all_for_user uid d = (r, d')"
  moreover obtain n d2 where n: "delete_attempts (\<lambda>a. a_user_id a = uid) d = (n, d2)" by fastforce
  ultimately have "d2 = d'" by (auto simp: attempt_delete_all_for_user_def split: sum.splits)
  with delete_attempts_frame [OF ok n] show "quiz_ok d' \<and> memory_of d' = memory_of d
    \<and> (\<lambda>c. set_questions c d') = (\<lambda>c. set_questions c d) \<and> question_of d' = question_of d \<and> set_of d' = set_of d"
    by simp
next
  fix d s r d' assume "quiz_ok d" "state_upsert wall s d = (r, d')"
  then show "quiz_ok d' \<and> attempts d' = attempts d \<and> (\<lambda>c. set_questions c d') = (\<lambda>c. set_questions c d)
    \<and> question_of d' = question_of d \<and> set_of d' = set_of d" by (rule state_upsert_frame)
next
  fix d uid r d' assume "quiz_ok d" "state_delete_all_for_user uid d = (r, d')"
  then show "quiz_ok d' \<and> attempts d' = attempts d \<and> (\<lambda>c. set_questions c d') = (\<lambda>c. set_questions c d)
    \<and> question_of d' = question_of d \<and> set_of d' = set_of d" by (rule state_forget_frame)
qed

section \<open>When the engine works\<close>

lemma question_get_runs:
  "faults d = [] \<Longrightarrow> question_of d i = Some q \<Longrightarrow> question_get_by_id i d = (Inr q, d)"
  by (simp add: question_get_by_id_def query_row_no_faults scan_question_def question_of_def)

lemma set_get_runs: "faults d = [] \<Longrightarrow> set_of d c = Some s \<Longrightarrow> question_set_get_by_code c d = (Inr s, d)"
  by (simp add: question_set_get_by_code_def query_row_no_faults set_of_def)

lemma list_by_set_runs: "faults d = [] \<Longrightarrow> question_list_by_set c d = (Inr (set_questions c d), d)"
  by (simp add: question_list_by_set_def query_rows_no_faults)

lemma state_get_runs:
  "faults d = [] \<Longrightarrow> state_get u q d = ((case memory_of d (u, q) of None \<Rightarrow> Inl ErrNotFound | Some s \<Rightarrow> Inr s), d)"
  by (simp add: state_get_def query_row_no_faults memory_of_def split: option.splits)

lemma last_in_set_runs:
  assumes "faults d = []"
  shows "attempt_last_question_id_in_set uid sid d =
    ((case latest_first (filter (\<lambda>a. a_user_id a = uid \<and> a_set_id a = Some sid) (attempts d)) of
        [] \<Rightarrow> Inl ErrNotFound | a # _ \<Rightarrow> Inr (a_question_id a)), d)"
proof -
  have "filter (\<lambda>a. a_set_id a = Some sid) (user_attempts uid d)
      = filter (\<lambda>a. a_user_id a = uid \<and> a_set_id a = Some sid) (attempts d)"
    by (simp add: user_attempts_def conj_commute)
  with assms show ?thesis
    by (simp add: attempt_last_question_id_in_set_def query_row_no_faults split: list.splits)
qed

text \<open>The learner, the question, its answer and the set exist.\<close>

definition can_submit :: "db \<Rightarrow> int \<Rightarrow> submit_input \<Rightarrow> bool" where
  "can_submit d uid i \<longleftrightarrow> uid \<in> u_id ` set (users d)
     \<and> (\<exists>q want. question_of d (si_question_id i) = Some q \<and> read_answer (q_answer_json q) = Inr want)
     \<and> (si_set_code i = [] \<or> (\<exists>s. set_of d (si_set_code i) = Some s))"

lemma attempt_create_runs:
  assumes "faults d = []" "a_user_id a \<in> u_id ` set (users d)" "a_question_id a \<in> q_id ` set (questions d)"
    and "\<not> (\<exists>s. a_set_id a = Some s \<and> s \<notin> qs_id ` set (question_sets d))"
  obtains b d1 where "attempt_create wall a d = (Inr b, d1)" "a_set_id b = a_set_id a" "faults d1 = []"
    "users d1 = users d" "questions d1 = questions d" "srs_states d1 = srs_states d"
proof -
  define v where "v = (if is_zero_time (a_answered_at a) then a\<lparr>a_answered_at := wall\<rparr> else a)"
  have v: "a_user_id v = a_user_id a" "a_question_id v = a_question_id a" "a_set_id v = a_set_id a"
    by (simp_all add: v_def)
  have no: "\<not> (a_user_id v \<notin> u_id ` set (users d) \<or> a_question_id v \<notin> q_id ` set (questions d)
      \<or> (\<exists>s. a_set_id v = Some s \<and> s \<notin> qs_id ` set (question_sets d)))"
    using assms v by simp
  have ins: "insert_attempt v d = (let i = next_id (map a_id (attempts d)) in
        (Inr i, d\<lparr>attempts := attempts d @ [v\<lparr>a_id := i, a_answered_at := secs (a_answered_at v)\<rparr>]\<rparr>))"
    unfolding insert_attempt_def if_not_P [OF no] by (rule refl)
  have c: "attempt_create wall a d = (case statement (insert_attempt v) d of
           (Inl e, d') \<Rightarrow> (Inl (ErrWrap ''attempt create'' e), d')
         | (Inr i, d') \<Rightarrow> (Inr (v\<lparr>a_id := i\<rparr>), d'))"
    unfolding attempt_create_def Let_def v_def by (rule refl)
  let ?i = "next_id (map a_id (attempts d))"
  show thesis
    by (rule that [of "v\<lparr>a_id := ?i\<rparr>"
          "d\<lparr>attempts := attempts d @ [v\<lparr>a_id := ?i, a_answered_at := secs (a_answered_at v)\<rparr>]\<rparr>"])
      (simp_all add: c statement_no_faults assms(1) ins Let_def v)
qed

lemma state_upsert_runs:
  assumes "faults d = []" "sr_user_id s \<in> u_id ` set (users d)" "sr_question_id s \<in> q_id ` set (questions d)"
  obtains d1 where "state_upsert wall s d = (Inr (), d1)" "faults d1 = []" "users d1 = users d"
proof -
  define v where "v = (if is_zero_time (sr_updated_at s) then s\<lparr>sr_updated_at := wall\<rparr> else s)"
  have v: "sr_user_id v = sr_user_id s" "sr_question_id v = sr_question_id s" by (simp_all add: v_def)
  have u: "state_upsert wall s d = (case statement (upsert_state v) d of
           (Inl e, d') \<Rightarrow> (Inl (ErrWrap ''srs upsert'' e), d') | (Inr _, d') \<Rightarrow> (Inr (), d'))"
    unfolding state_upsert_def Let_def v_def by (rule refl)
  have "\<exists>d1. upsert_state v d = (Inr (), d1) \<and> faults d1 = [] \<and> users d1 = users d"
    using assms v by (cases "srs_key v \<in> srs_key ` set (srs_states d)") (simp_all add: upsert_state_def)
  then obtain d1 where "upsert_state v d = (Inr (), d1)" "faults d1 = []" "users d1 = users d" by blast
  then show thesis using u assms(1) that by (simp add: statement_no_faults)
qed

lemma submit_runs:
  assumes "quiz_ok d" "faults d = []" "can_submit d uid i"
  shows "\<exists>g d'. submit cf (new_quiz_service wall) now uid i d = (Inr g, d') \<and> faults d' = []
    \<and> a_set_id (ga_attempt g) = (if si_set_code i = [] then None else map_option qs_id (set_of d (si_set_code i)))
    \<and> users d' = users d"
proof -
  obtain q want where q: "question_of d (si_question_id i) = Some q" "read_answer (q_answer_json q) = Inr want"
    using assms(3) by (auto simp: can_submit_def)
  define sid where "sid = (if si_set_code i = [] then None else map_option qs_id (set_of d (si_set_code i)))"
  have set: "submit_set (new_quiz_service wall) (si_set_code i) d = (sid, d)"
    using assms(2,3) set_get_runs by (auto simp: submit_set_def sqlite_sets_def sid_def can_submit_def)
  have uid: "uid \<in> u_id ` set (users d)" "si_question_id i \<in> q_id ` set (questions d)"
    using assms(3) row_Some [OF q(1) [unfolded question_of_def]] by (simp add: can_submit_def, metis imageI)
  have sid_ok: "\<not> (\<exists>s. sid = Some s \<and> s \<notin> qs_id ` set (question_sets d))"
    by (auto simp: sid_def set_of_def dest: row_Some split: if_splits)
  let ?a = "\<lparr>a_id = 0, a_user_id = uid, a_question_id = si_question_id i, a_set_id = sid,
     a_is_correct = is_correct cf want (si_answer i), a_duration_ms = si_duration_ms i,
     a_submitted_json = write_answer i, a_answered_at = now\<rparr>"
  obtain b d1 where c: "attempt_create wall ?a d = (Inr b, d1)" "a_set_id b = sid" "faults d1 = []"
      "users d1 = users d" "questions d1 = questions d" "srs_states d1 = srs_states d"
    by (rule attempt_create_runs [OF assms(2), of ?a wall]) (use uid sid_ok in simp_all)
  define st where "st = (case memory_of d (uid, si_question_id i) of Some st \<Rightarrow> st
    | None \<Rightarrow> (new_state now)\<lparr>sr_user_id := uid, sr_question_id := si_question_id i\<rparr>)"
  have mem: "memory_of d1 = memory_of d" using c(6) by (simp add: memory_of_def)
  have st_key: "sr_user_id st = uid" "sr_question_id st = si_question_id i"
    using sqlite_srs_memory.memory_key [of d "(uid, si_question_id i)"]
    by (auto simp: st_def srs_key_def split: option.splits)
  let ?new = "next_state st (grade_from_result (is_correct cf want (si_answer i)) (si_duration_ms i)) now"
  have new_key: "sr_user_id ?new = uid" "sr_question_id ?new = si_question_id i"
    using st_key by (simp_all add: next_state_def Let_def)
  obtain d2 where u: "state_upsert wall ?new d1 = (Inr (), d2)" "faults d2 = []" "users d2 = users d1"
    by (rule state_upsert_runs [of d1 ?new wall]) (use c(3-5) uid new_key in simp_all)
  have "submit cf (new_quiz_service wall) now uid i d =
      (Inr \<lparr>ga_attempt = b, ga_explanation = q_explanation q, ga_next_due_at = sr_due_at ?new\<rparr>, d2)"
    using question_get_runs [OF assms(2) q(1)] q(2) set c(1) u(1) state_get_runs [OF c(3)] mem
    by (auto simp: submit_def sqlite_questions_def sqlite_attempts_def sqlite_states_def st_def split: option.splits)
  with u c sid_def show ?thesis by simp
qed

end
