(* ===== verification/Auth.thy ===== *)
theory Auth
  imports Ports Json
begin

text \<open>
  \<^verbatim>\<open>internal/service/auth_service.go\<close> and \<^verbatim>\<open>api_auth_service.go\<close> over the interfaces.  The clock
  reading and the random bytes of each call are arguments, in the order the code takes them.
\<close>

section \<open>Account rules\<close>

record auth_config =
  ac_session_ttl :: duration
  ac_session_token_len :: int
  ac_csrf_token_len :: int
  ac_min_password_len :: int

definition default_auth_config :: auth_config where
  "default_auth_config = \<lparr>ac_session_ttl = 14 * 24 * 3600 * second, ac_session_token_len = 32,
     ac_csrf_token_len = 32, ac_min_password_len = 12\<rparr>"

definition is_lower :: "int \<Rightarrow> bool" where "is_lower r \<longleftrightarrow> 0x61 \<le> r \<and> r \<le> 0x7A"
definition is_upper :: "int \<Rightarrow> bool" where "is_upper r \<longleftrightarrow> 0x41 \<le> r \<and> r \<le> 0x5A"
definition is_number :: "int \<Rightarrow> bool" where "is_number r \<longleftrightarrow> 0x30 \<le> r \<and> r \<le> 0x39"

definition username_rune :: "int \<Rightarrow> bool" where
  "username_rune r \<longleftrightarrow> is_lower r \<or> is_upper r \<or> is_number r \<or> r = 0x5F \<or> r = 0x2D"

definition validate_username :: "string \<Rightarrow> unit res" where
  "validate_username u =
     (if u = [] then Inl ErrUsernameInvalid
      else if rune_count u < 3 \<or> 32 < rune_count u then Inl ErrUsernameInvalid
      else if list_all username_rune (runes u) then Inr () else Inl ErrUsernameInvalid)"

text \<open>\<^verbatim>\<open>!@#$%^&*()-_=+[]{};:,.<>/?\|`~'"\<close>\<close>

definition symbols :: "int list" where
  "symbols = [0x21, 0x40, 0x23, 0x24, 0x25, 0x5E, 0x26, 0x2A, 0x28, 0x29, 0x2D, 0x5F, 0x3D, 0x2B,
     0x5B, 0x5D, 0x7B, 0x7D, 0x3B, 0x3A, 0x2C, 0x2E, 0x3C, 0x3E, 0x2F, 0x3F, 0x5C, 0x7C, 0x60, 0x7E,
     0x27, 0x22]"

definition is_symbol :: "int \<Rightarrow> bool" where
  "is_symbol r \<longleftrightarrow> r \<in> set symbols"

definition validate_password :: "auth_config \<Rightarrow> string \<Rightarrow> unit res" where
  "validate_password cfg p =
     (if int (rune_count p) < ac_min_password_len cfg then Inl ErrPasswordTooWeak
      else let rs = runes p;
               kinds = [list_ex is_lower rs, list_ex is_upper rs, list_ex is_number rs,
                        list_ex is_symbol rs]
           in if length (filter id kinds) < 3 then Inl ErrPasswordTooWeak else Inr ())"

definition truncate_runes :: "string \<Rightarrow> int \<Rightarrow> string" where
  "truncate_runes s max_runes =
     (if max_runes \<le> 0 then []
      else let r = runes s in
        if int (length r) \<le> max_runes then s else of_runes (take (nat max_runes) r))"

section \<open>The service\<close>

record 's auth_service =
  au_users :: "'s user_port"
  au_sessions :: "'s session_port"
  au_jwts :: "'s jwt_revocation_port"
  au_hasher :: password_hasher
  au_idgen :: id_generator
  au_cfg :: auth_config

definition register ::
    "'s auth_service \<Rightarrow> time \<Rightarrow> (int \<Rightarrow> string res) \<Rightarrow> string \<Rightarrow> string \<Rightarrow> 's \<Rightarrow> user res \<times> 's" where
  "register a now rand username plain s =
     (case validate_username username of Inl e \<Rightarrow> (Inl e, s) | Inr _ \<Rightarrow>
     (case validate_password (au_cfg a) plain of Inl e \<Rightarrow> (Inl e, s) | Inr _ \<Rightarrow>
     (case hash_plain (au_hasher a) rand plain of
        Inl e \<Rightarrow> (Inl (ErrWrap ''auth register hash'' e), s)
      | Inr (hash, salt, params) \<Rightarrow>
          usr_create (au_users a) \<lparr>u_id = 0, u_username = username, u_password_hash = hash,
            u_password_salt = salt, u_password_params = params, u_password_updated_at = now,
            u_created_at = now, u_updated_at = now\<rparr> s)))"

definition login ::
    "'s auth_service \<Rightarrow> time \<Rightarrow> (int \<Rightarrow> string res) \<Rightarrow> (int \<Rightarrow> string res) \<Rightarrow> string \<Rightarrow> string \<Rightarrow> string
     \<Rightarrow> string \<Rightarrow> 's \<Rightarrow> session res \<times> 's" where
  "login a now rand1 rand2 username plain user_agent ip s =
     (case usr_find_by_username (au_users a) username s of
        (Inl _, s1) \<Rightarrow> (Inl ErrUnauthorized, s1)
      | (Inr u, s1) \<Rightarrow>
     (case verify_plain (au_hasher a) plain (u_password_hash u) (u_password_salt u)
             (u_password_params u) of
        Inl e \<Rightarrow> (Inl (ErrWrap ''auth login verify'' e), s1)
      | Inr False \<Rightarrow> (Inl ErrUnauthorized, s1)
      | Inr True \<Rightarrow>
     (case gen_token (au_idgen a) rand1 (ac_session_token_len (au_cfg a)) of
        Inl e \<Rightarrow> (Inl (ErrWrap ''auth login sid'' e), s1)
      | Inr sid \<Rightarrow>
     (case gen_token (au_idgen a) rand2 (ac_csrf_token_len (au_cfg a)) of
        Inl e \<Rightarrow> (Inl (ErrWrap ''auth login csrf'' e), s1)
      | Inr csrf \<Rightarrow>
     (case ses_create (au_sessions a) \<lparr>s_id = sid, s_user_id = u_id u, s_csrf_token = csrf,
             s_user_agent = truncate_runes user_agent 1024, s_ip = truncate_runes ip 64, s_created_at = now,
             s_expires_at = now + ac_session_ttl (au_cfg a), s_last_seen_at = now\<rparr> s1 of
        (Inl e, s2) \<Rightarrow> (Inl (ErrWrap ''auth login session'' e), s2)
      | (Inr x, s2) \<Rightarrow> (Inr x, s2))))))"

definition logout :: "'s auth_service \<Rightarrow> string \<Rightarrow> 's \<Rightarrow> unit res \<times> 's" where
  "logout a sid s = ses_delete (au_sessions a) sid s"

definition change_password ::
    "'s auth_service \<Rightarrow> time \<Rightarrow> (int \<Rightarrow> string res) \<Rightarrow> int \<Rightarrow> string \<Rightarrow> string \<Rightarrow> string \<Rightarrow> 's
     \<Rightarrow> unit res \<times> 's" where
  "change_password a now rand uid current_plain new_plain keep s =
     (case validate_password (au_cfg a) new_plain of Inl e \<Rightarrow> (Inl e, s) | Inr _ \<Rightarrow>
     (case usr_find_by_id (au_users a) uid s of
        (Inl e, s1) \<Rightarrow> (Inl e, s1)
      | (Inr u, s1) \<Rightarrow>
     (case verify_plain (au_hasher a) current_plain (u_password_hash u) (u_password_salt u)
             (u_password_params u) of
        Inl e \<Rightarrow> (Inl (ErrWrap ''auth change pw verify'' e), s1)
      | Inr False \<Rightarrow> (Inl ErrPasswordMismatch, s1)
      | Inr True \<Rightarrow>
     (case hash_plain (au_hasher a) rand new_plain of
        Inl e \<Rightarrow> (Inl (ErrWrap ''auth change pw hash'' e), s1)
      | Inr (hash, salt, params) \<Rightarrow>
     (case usr_update_password (au_users a) uid hash salt params now s1 of
        (Inl e, s2) \<Rightarrow> (Inl (ErrWrap ''auth change pw update'' e), s2)
      | (Inr _, s2) \<Rightarrow>
     (case (if keep \<noteq> [] then ses_delete_all_for_user_except (au_sessions a) uid keep s2
            else ses_delete_all_for_user (au_sessions a) uid s2) of
        (Inl e, s3) \<Rightarrow> (Inl (ErrWrap ''auth change pw sessions'' e), s3)
      | (Inr _, s3) \<Rightarrow>
     (case jrv_revoke_all_for_user (au_jwts a) uid now s3 of
        (Inl e, s4) \<Rightarrow> (Inl (ErrWrap ''auth change pw jwt'' e), s4)
      | (Inr _, s4) \<Rightarrow> (Inr (), s4))))))))"

text \<open>The session as it was found: a failing touch is ignored, and so is a failing deletion.\<close>

definition session_by_id ::
    "'s auth_service \<Rightarrow> time \<Rightarrow> time \<Rightarrow> string \<Rightarrow> 's \<Rightarrow> (session \<times> user) res \<times> 's" where
  "session_by_id a now now' sid s =
     (case ses_find_by_id (au_sessions a) sid s of
        (Inl e, s1) \<Rightarrow> (Inl e, s1)
      | (Inr x, s1) \<Rightarrow>
          if is_expired x now then (Inl ErrSessionExpired, snd (ses_delete (au_sessions a) sid s1))
          else (case usr_find_by_id (au_users a) (s_user_id x) s1 of
                  (Inl e, s2) \<Rightarrow> (Inl e, s2)
                | (Inr u, s2) \<Rightarrow> (Inr (x, u), snd (ses_touch (au_sessions a) sid now' s2))))"

section \<open>Tokens for the API\<close>

record 's api_auth_service =
  aa_signer :: jwt_signer
  aa_jwts :: "'s jwt_revocation_port"
  aa_idgen :: id_generator
  aa_issuer :: string
  aa_audience :: string

definition issue_token ::
    "'s api_auth_service \<Rightarrow> time \<Rightarrow> (int \<Rightarrow> string res) \<Rightarrow> int \<Rightarrow> duration
     \<Rightarrow> (string \<times> string \<times> time) res" where
  "issue_token a now rand uid ttl =
     (case gen_uuid (aa_idgen a) rand of
        Inl e \<Rightarrow> Inl (ErrWrap ''api auth jti'' e)
      | Inr jti \<Rightarrow>
          (case sign_claims (aa_signer a) \<lparr>jc_subject = uid, jc_issuer = aa_issuer a,
                  jc_audience = aa_audience a, jc_issued_at = now, jc_expires_at = now + ttl,
                  jc_jti = jti\<rparr> of
             Inl e \<Rightarrow> Inl (ErrWrap ''api auth sign'' e)
           | Inr token \<Rightarrow> Inr (token, jti, now + ttl)))"

definition verify_token ::
    "'s api_auth_service \<Rightarrow> time \<Rightarrow> time \<Rightarrow> string \<Rightarrow> 's \<Rightarrow> int res \<times> 's" where
  "verify_token a now now' token s =
     (case parse_token (aa_signer a) now token of
        Inl _ \<Rightarrow> (Inl ErrTokenInvalid, s)
      | Inr c \<Rightarrow>
          if \<not> now' < jc_expires_at c then (Inl ErrTokenExpired, s)
          else if jc_issuer c \<noteq> aa_issuer a \<or> jc_audience c \<noteq> aa_audience a
          then (Inl ErrTokenInvalid, s)
          else (case jrv_is_revoked (aa_jwts a) (jc_jti c) s of
                  (Inl e, s1) \<Rightarrow> (Inl (ErrWrap ''api auth jwt revoked check'' e), s1)
                | (Inr True, s1) \<Rightarrow> (Inl ErrTokenInvalid, s1)
                | (Inr False, s1) \<Rightarrow> (Inr (jc_subject c), s1)))"

definition revoke_token :: "'s api_auth_service \<Rightarrow> string \<Rightarrow> int \<Rightarrow> time \<Rightarrow> 's \<Rightarrow> unit res \<times> 's" where
  "revoke_token a jti uid expires_at s = jrv_revoke (aa_jwts a) jti uid expires_at s"

definition extract_jti :: "'s api_auth_service \<Rightarrow> time \<Rightarrow> string \<Rightarrow> (string \<times> time) res" where
  "extract_jti a now token =
     (case parse_token (aa_signer a) now token of
        Inl e \<Rightarrow> Inl e | Inr c \<Rightarrow> Inr (jc_jti c, jc_expires_at c))"

section \<open>Names and passwords\<close>

lemma decode_rune_ascii: "fst (decode_rune c s) < 0x80 \<Longrightarrow> byte c < 0x80 \<and> snd (decode_rune c s) = s"
proof -
  assume r: "fst (decode_rune c s) < 0x80"
  have "\<not> r < 0x80" if "one_cont c w = Some r" "0xC2 \<le> byte c" for r w
    using that byte_range [of "w ! 0"] by (auto simp: one_cont_def cont_def split: if_splits)
  moreover have "\<not> r < 0x80" if "two_cont c w = Some r" for r w
    using that by (auto simp: two_cont_def Let_def split: if_splits)
  moreover have "\<not> r < 0x80" if "three_cont c w = Some r" for r w
    using that by (auto simp: three_cont_def Let_def split: if_splits)
  ultimately show ?thesis using r
    by (auto simp: decode_rune_tail tail_def Let_def rune_error_def split: if_splits option.splits)
qed

lemma runes_all_ascii: "list_all (\<lambda>r. r < 0x80) (runes s) \<Longrightarrow> runes s = map byte s"
proof (induction s rule: runes.induct)
  case (2 c s)
  then have "fst (decode_rune c s) < 0x80" by simp
  then have "byte c < 0x80" "snd (decode_rune c s) = s" using decode_rune_ascii by auto
  with 2 show ?case by (simp add: decode_rune.simps)
qed simp

definition username_ok :: "string \<Rightarrow> bool" where
  "username_ok u \<longleftrightarrow> 3 \<le> length u \<and> length u \<le> 32 \<and> list_all (\<lambda>c. username_rune (byte c)) u"

lemma username_rune_ascii: "username_rune r \<Longrightarrow> 0 \<le> r \<and> r < 0x80"
  by (auto simp: username_rune_def is_lower_def is_upper_def is_number_def)

lemma validate_username_iff: "validate_username u = Inr () \<longleftrightarrow> username_ok u"
proof
  assume v: "validate_username u = Inr ()"
  then have all: "list_all username_rune (runes u)"
    by (auto simp: validate_username_def split: if_splits)
  then have "list_all (\<lambda>r. r < 0x80) (runes u)"
    using username_rune_ascii by (auto simp: list_all_iff)
  then have "runes u = map byte u" by (rule runes_all_ascii)
  with v all show "username_ok u"
    by (auto simp: validate_username_def username_ok_def rune_count_def list_all_iff split: if_splits)
next
  assume u: "username_ok u"
  then have "\<forall>c\<in>set u. byte c < 0x80"
    using username_rune_ascii by (auto simp: username_ok_def list_all_iff)
  then have "runes u = map byte u" by (rule runes_ascii)
  with u show "validate_username u = Inr ()"
    by (auto simp: validate_username_def username_ok_def rune_count_def list_all_iff)
qed

lemma truncate_count:
  assumes "0 \<le> n"
  shows "rune_count (truncate_runes s n) \<le> nat n" and "int (rune_count s) \<le> n \<Longrightarrow> 0 < n \<Longrightarrow> truncate_runes s n = s"
proof -
  have "runes (of_runes (take k (runes s))) = take k (runes s)" for k
    using runes_scalar [of s] by (intro runes_of_runes) (auto simp: list_all_iff dest: in_set_takeD)
  then show "rune_count (truncate_runes s n) \<le> nat n"
    using assms by (auto simp: truncate_runes_def rune_count_def Let_def)
  show "int (rune_count s) \<le> n \<Longrightarrow> 0 < n \<Longrightarrow> truncate_runes s n = s"
    by (simp add: truncate_runes_def rune_count_def Let_def)
qed

section \<open>What the service guarantees over any such store\<close>

context account_store
begin

lemma register_done:
  assumes "ok s" "au_users a = repo" "register a now rand name plain s = (Inr v, s')"
  shows "username_ok name \<and> validate_password (au_cfg a) plain = Inr ()
    \<and> (\<forall>i w. account s i = Some w \<longrightarrow> nocase (u_username w) \<noteq> nocase name)
    \<and> account s (u_id v) = None \<and> account s' = (account s)(u_id v \<mapsto> stored_user v)
    \<and> u_username v = name
    \<and> hash_plain (au_hasher a) rand plain = Inr (u_password_hash v, u_password_salt v, u_password_params v)
    \<and> ok s' \<and> live s' = live s \<and> revoked s' = revoked s"
proof -
  obtain h sl p where u: "validate_username name = Inr ()"
    and pw: "validate_password (au_cfg a) plain = Inr ()"
    and h: "hash_plain (au_hasher a) rand plain = Inr (h, sl, p)"
    and c: "usr_create repo \<lparr>u_id = 0, u_username = name, u_password_hash = h, u_password_salt = sl,
       u_password_params = p, u_password_updated_at = now, u_created_at = now, u_updated_at = now\<rparr> s
       = (Inr v, s')"
    using assms(2,3) by (auto simp: register_def split: sum.splits)
  show ?thesis
    using create_done [OF assms(1) c] user_create_frame [OF c] h u pw
    by (auto simp: validate_username_iff)
qed

lemma register_error:
  assumes "ok s" "au_users a = repo" "register a now rand name plain s = (Inl e, s')"
  shows "ok s' \<and> account s' = account s \<and> live s' = live s \<and> revoked s' = revoked s"
proof -
  have "s' = s \<or> (\<exists>u. usr_create repo u s = (Inl e, s'))"
    using assms(2,3) by (auto simp: register_def split: sum.splits)
  then show ?thesis using assms(1) create_error user_create_frame by metis
qed

lemma login_done:
  assumes "ok s" "au_users a = repo" "au_sessions a = sess"
    and "login a now r1 r2 name plain ua ip s = (Inr x, s')"
  obtains u where "account s (u_id u) = Some u" "nocase (u_username u) = nocase name"
    "verify_plain (au_hasher a) plain (u_password_hash u) (u_password_salt u) (u_password_params u) = Inr True"
    "s_user_id x = u_id u" "s_expires_at x = now + ac_session_ttl (au_cfg a)"
    "live s (s_id x) = None" "live s' = (live s)(s_id x \<mapsto> stored_session x)"
    "gen_token (au_idgen a) r1 (ac_session_token_len (au_cfg a)) = Inr (s_id x)"
    "gen_token (au_idgen a) r2 (ac_csrf_token_len (au_cfg a)) = Inr (s_csrf_token x)"
    "ok s'" "account s' = account s" "revoked s' = revoked s"
proof -
  obtain u s1 sid csrf where f: "usr_find_by_username repo name s = (Inr u, s1)"
    and v: "verify_plain (au_hasher a) plain (u_password_hash u) (u_password_salt u) (u_password_params u) = Inr True"
    and g: "gen_token (au_idgen a) r1 (ac_session_token_len (au_cfg a)) = Inr sid"
      "gen_token (au_idgen a) r2 (ac_csrf_token_len (au_cfg a)) = Inr csrf"
    and c: "ses_create sess \<lparr>s_id = sid, s_user_id = u_id u, s_csrf_token = csrf,
             s_user_agent = truncate_runes ua 1024, s_ip = truncate_runes ip 64, s_created_at = now,
             s_expires_at = now + ac_session_ttl (au_cfg a), s_last_seen_at = now\<rparr> s1 = (Inr x, s')"
    using assms(2-4) by (auto simp: login_def split: sum.splits prod.splits bool.splits)
  have f1: "ok s1" "account s1 = account s" "account s (u_id u) = Some u"
      "nocase (u_username u) = nocase name"
    using find_by_username [OF assms(1) f] by auto
  have "live s1 = live s" "revoked s1 = revoked s"
    using user_find_name_frame [OF f] by auto
  moreover have "account s' = account s1" "revoked s' = revoked s1"
    using session_create_frame [OF c] by auto
  moreover note session_create_done [OF f1(1) c, simplified]
  ultimately have "ok s' \<and> live s (s_id x) = None \<and> live s' = (live s)(s_id x \<mapsto> stored_session x)
      \<and> sid = s_id x \<and> s_user_id x = u_id u \<and> csrf = s_csrf_token x
      \<and> s_expires_at x = now + ac_session_ttl (au_cfg a) \<and> account s' = account s
      \<and> revoked s' = revoked s"
    using f1(2) by metis
  then show thesis using that [OF f1(3,4) v] g by blast
qed

lemma login_denied:
  assumes "ok s" "au_users a = repo" "au_sessions a = sess"
    and "login a now r1 r2 name plain ua ip s = (Inl e, s')"
  shows "ok s' \<and> account s' = account s \<and> live s' = live s \<and> revoked s' = revoked s"
proof -
  obtain r s1 where f: "usr_find_by_username repo name s = (r, s1)" by fastforce
  have f1: "ok s1" "account s1 = account s"
    using find_by_username [OF assms(1) f] by auto
  have f2: "live s1 = live s" "revoked s1 = revoked s"
    using user_find_name_frame [OF f] by auto
  have "s' = s1 \<or> (\<exists>x e. ses_create sess x s1 = (Inl e, s'))"
    using assms(2-4) f by (auto simp: login_def split: sum.splits prod.splits bool.splits)
  then show ?thesis
    using f1 f2 session_create_error [OF f1(1)] session_create_frame by metis
qed

lemma change_password_done:
  assumes "ok s" "au_users a = repo" "au_sessions a = sess" "au_jwts a = jwts"
    and "change_password a now rand uid cur new keep s = (Inr x, s')"
  obtains u h sl p where "account s uid = Some u"
    "verify_plain (au_hasher a) cur (u_password_hash u) (u_password_salt u) (u_password_params u) = Inr True"
    "validate_password (au_cfg a) new = Inr ()" "hash_plain (au_hasher a) rand new = Inr (h, sl, p)"
    "account s' = (account s)(uid \<mapsto> with_password h sl p now u)"
    "live s' = drop_sessions (\<lambda>y. s_user_id y = uid \<and> (keep = [] \<or> s_id y \<noteq> keep)) (live s)"
    "revoked s \<subseteq> revoked s'" "ok s'"
proof -
  obtain u s1 h sl p s2 s3 where
    pw: "validate_password (au_cfg a) new = Inr ()" and
    f: "usr_find_by_id repo uid s = (Inr u, s1)" and
    v: "verify_plain (au_hasher a) cur (u_password_hash u) (u_password_salt u) (u_password_params u) = Inr True" and
    h: "hash_plain (au_hasher a) rand new = Inr (h, sl, p)" and
    up: "usr_update_password repo uid h sl p now s1 = (Inr (), s2)" and
    d: "(if keep \<noteq> [] then ses_delete_all_for_user_except sess uid keep s2
         else ses_delete_all_for_user sess uid s2) = (Inr (), s3)" and
    j: "jrv_revoke_all_for_user jwts uid now s3 = (Inr (), s')"
    using assms(2-5) by (auto simp: change_password_def split: sum.splits prod.splits bool.splits)
  have 1: "ok s1" "account s1 = account s" "account s uid = Some u" "live s1 = live s"
      "revoked s1 = revoked s"
    using find_by_id [OF assms(1) f] user_find_id_frame [OF f] by auto
  have 2: "ok s2" "account s2 = (account s)(uid \<mapsto> with_password h sl p now u)" "live s2 = live s"
      "revoked s2 = revoked s"
    using update_done [OF 1(1) up] user_update_frame [OF up] 1 by auto
  have all: "(\<lambda>y. s_user_id y = uid \<and> (keep = [] \<or> s_id y \<noteq> keep))
      = (if keep = [] then (\<lambda>y. s_user_id y = uid) else (\<lambda>y. s_user_id y = uid \<and> s_id y \<noteq> keep))"
    by auto
  have 3: "ok s3" "live s3 = drop_sessions (\<lambda>y. s_user_id y = uid \<and> (keep = [] \<or> s_id y \<noteq> keep)) (live s2)"
      "account s3 = account s2" "revoked s3 = revoked s2"
    using session_delete_except_done [OF 2(1), of uid keep "()" s3]
      session_delete_all_done [OF 2(1), of uid "()" s3] d
    by (auto simp: all split: if_splits dest: session_delete_all_frame session_delete_except_frame)
  have 4: "ok s'" "account s' = account s3" "live s' = live s3" "revoked s3 \<subseteq> revoked s'"
    using revoke_all_frame [OF 3(1) j] revoke_all [OF j] by auto
  show thesis by (rule that [OF 1(3) v pw h]) (use 2 3 4 in auto)
qed

lemma session_by_id_done:
  assumes "ok s" "au_users a = repo" "au_sessions a = sess"
    and "session_by_id a now now' sid s = (Inr (x, u), s')"
  shows "live s sid = Some x \<and> s_id x = sid \<and> now < s_expires_at x
    \<and> account s (s_user_id x) = Some u \<and> u_id u = s_user_id x
    \<and> ok s' \<and> account s' = account s \<and> revoked s' = revoked s
    \<and> (live s' = live s \<or> live s' = (live s)(sid \<mapsto> x\<lparr>s_last_seen_at := secs now'\<rparr>))"
proof -
  obtain s1 s2 where f: "ses_find_by_id sess sid s = (Inr x, s1)" and e: "\<not> is_expired x now"
    and g: "usr_find_by_id repo (s_user_id x) s1 = (Inr u, s2)"
    and t: "s' = snd (ses_touch sess sid now' s2)"
    using assms(2-4) by (auto simp: session_by_id_def split: sum.splits prod.splits if_splits)
  have 1: "ok s1" "live s1 = live s" "live s sid = Some x" "account s1 = account s" "revoked s1 = revoked s"
    using session_find [OF assms(1) f] session_find_frame [OF f] by auto
  have 2: "ok s2" "account s2 = account s" "account s (s_user_id x) = Some u" "live s2 = live s"
      "revoked s2 = revoked s"
    using find_by_id [OF 1(1) g] user_find_id_frame [OF g] 1 by auto
  obtain r where r: "ses_touch sess sid now' s2 = (r, s')" using t by (metis prod.collapse)
  have 3: "account s' = account s2" "revoked s' = revoked s2"
    using session_touch_frame [OF r] by auto
  have "ok s' \<and> (live s' = live s2 \<or> live s' = (live s2)(sid \<mapsto> x\<lparr>s_last_seen_at := secs now'\<rparr>))"
    using session_touch_error [OF 2(1)] session_touch_done [OF 2(1)] r 1(3) 2(4)
    by (cases r) fastforce+
  then show ?thesis using e 1 2 3 live_id [OF assms(1)] account_id [OF assms(1)]
    by (auto simp: is_expired_def)
qed

text \<open>A session that has expired is refused, and gone if the deletion works.\<close>

lemma session_by_id_expired:
  assumes "ok s" "au_sessions a = sess" "ses_find_by_id sess sid s = (Inr x, s1)"
    and "\<not> now < s_expires_at x"
  shows "fst (session_by_id a now now' sid s) = Inl ErrSessionExpired
    \<and> (fst (ses_delete sess sid s1) = Inr () \<longrightarrow> live (snd (session_by_id a now now' sid s)) sid = None)"
proof -
  have 1: "ok s1" using session_find [OF assms(1,3)] by auto
  show ?thesis
    using assms session_delete_done [OF 1, of sid "()"] 
    by (cases "ses_delete sess sid s1") (auto simp: session_by_id_def is_expired_def)
qed

lemma verify_token_done:
  assumes "aa_jwts a = jwts" "verify_token a now now' tok s = (Inr uid, s')"
  shows "\<exists>c. parse_token (aa_signer a) now tok = Inr c \<and> jc_subject c = uid \<and> now' < jc_expires_at c
    \<and> jc_issuer c = aa_issuer a \<and> jc_audience c = aa_audience a \<and> jc_jti c \<notin> revoked s
    \<and> revoked s' = revoked s"
proof -
  obtain c where c: "parse_token (aa_signer a) now tok = Inr c" "now' < jc_expires_at c"
      "jc_issuer c = aa_issuer a" "jc_audience c = aa_audience a" "jc_subject c = uid"
    and r: "jrv_is_revoked jwts (jc_jti c) s = (Inr False, s')"
    using assms by (auto simp: verify_token_def split: sum.splits prod.splits if_splits bool.splits)
  then show ?thesis using is_revoked [OF r] by auto
qed

end

end
