(* ===== verification/AccountStore.thy ===== *)
theory AccountStore
  imports Store
begin

text \<open>
  The repositories of users, sessions, revoked tokens and preferences:
  \<^verbatim>\<open>user_repo.go\<close>, \<^verbatim>\<open>session_repo.go\<close>, \<^verbatim>\<open>jwt_repo.go\<close>, \<^verbatim>\<open>user_prefs_repo.go\<close>.  The argument
  \<open>wall\<close> is the reading of \<^verbatim>\<open>time.Now\<close> where a repository takes one itself.
\<close>

section \<open>Users\<close>

definition insert_user :: "user \<Rightarrow> db \<Rightarrow> int res \<times> db" where
  "insert_user u d =
     (if \<exists>v\<in>set (users d). nocase (u_username v) = nocase (u_username u) then (Inl err_unique, d)
      else let i = next_id (map u_id (users d)) in
        (Inr i, d\<lparr>users := users d @ [u\<lparr>u_id := i,
           u_password_updated_at := secs (u_password_updated_at u),
           u_created_at := secs (u_created_at u), u_updated_at := secs (u_updated_at u)\<rparr>]\<rparr>))"

definition user_create :: "time \<Rightarrow> user \<Rightarrow> db \<Rightarrow> user res \<times> db" where
  "user_create wall u d =
     (let now = (if is_zero_time (u_created_at u) then wall else u_created_at u);
          u1 = (if is_zero_time (u_updated_at u) then u\<lparr>u_updated_at := now\<rparr> else u);
          u2 = (if is_zero_time (u_password_updated_at u1) then u1\<lparr>u_password_updated_at := now\<rparr>
                else u1)
      in case statement (insert_user (u2\<lparr>u_created_at := now\<rparr>)) d of
           (Inl e, d') \<Rightarrow>
             (if is_unique_constraint e then (Inl ErrAlreadyExists, d')
              else (Inl (ErrWrap ''user create'' e), d'))
         | (Inr i, d') \<Rightarrow> (Inr (u2\<lparr>u_id := i, u_created_at := now\<rparr>), d'))"

definition scan_user :: "user option res \<Rightarrow> user res" where
  "scan_user r = (case r of
     Inl e \<Rightarrow> Inl (ErrWrap ''user scan'' e) | Inr None \<Rightarrow> Inl ErrNotFound | Inr (Some u) \<Rightarrow> Inr u)"

definition user_find_by_username :: "string \<Rightarrow> db \<Rightarrow> user res \<times> db" where
  "user_find_by_username name d =
     apfst scan_user (query_row (\<lambda>d. List.find (\<lambda>u. nocase (u_username u) = nocase name) (users d)) d)"

definition user_find_by_id :: "int \<Rightarrow> db \<Rightarrow> user res \<times> db" where
  "user_find_by_id i d =
     apfst scan_user (query_row (\<lambda>d. List.find (\<lambda>u. u_id u = i) (users d)) d)"

definition user_update_password ::
    "int \<Rightarrow> string \<Rightarrow> string \<Rightarrow> string \<Rightarrow> time \<Rightarrow> db \<Rightarrow> unit res \<times> db" where
  "user_update_password i hash salt params stamp d =
     (let hit = (\<lambda>u. u_id u = i);
          change = (\<lambda>u. u\<lparr>u_password_hash := hash, u_password_salt := salt,
             u_password_params := params, u_password_updated_at := secs stamp, u_updated_at := secs stamp\<rparr>)
      in case statement (\<lambda>d. (Inr (length (filter hit (users d))),
                d\<lparr>users := map (\<lambda>u. if hit u then change u else u) (users d)\<rparr>)) d of
           (Inl e, d') \<Rightarrow> (Inl (ErrWrap ''user update password'' e), d')
         | (Inr n, d') \<Rightarrow> (if n = 0 then (Inl ErrNotFound, d') else (Inr (), d')))"

section \<open>Sessions\<close>

definition insert_session :: "session \<Rightarrow> db \<Rightarrow> unit res \<times> db" where
  "insert_session s d =
     (if s_id s \<in> s_id ` set (sessions d) then (Inl err_unique, d)
      else if s_user_id s \<notin> u_id ` set (users d) then (Inl err_foreign_key, d)
      else (Inr (), d\<lparr>sessions := sessions d @ [s\<lparr>s_created_at := secs (s_created_at s),
         s_expires_at := secs (s_expires_at s), s_last_seen_at := secs (s_last_seen_at s)\<rparr>]\<rparr>))"

definition session_create :: "time \<Rightarrow> session \<Rightarrow> db \<Rightarrow> session res \<times> db" where
  "session_create wall s d =
     (let s1 = (if is_zero_time (s_created_at s) then s\<lparr>s_created_at := wall\<rparr> else s);
          s2 = (if is_zero_time (s_last_seen_at s1) then s1\<lparr>s_last_seen_at := s_created_at s1\<rparr> else s1)
      in case statement (insert_session s2) d of
           (Inl e, d') \<Rightarrow>
             (if is_unique_constraint e then (Inl ErrAlreadyExists, d')
              else (Inl (ErrWrap ''session create'' e), d'))
         | (Inr _, d') \<Rightarrow> (Inr s2, d'))"

definition session_find_by_id :: "string \<Rightarrow> db \<Rightarrow> session res \<times> db" where
  "session_find_by_id i d =
     (case query_row (\<lambda>d. List.find (\<lambda>s. s_id s = i) (sessions d)) d of
        (Inl e, d') \<Rightarrow> (Inl (ErrWrap ''session find'' e), d')
      | (Inr None, d') \<Rightarrow> (Inl ErrNotFound, d')
      | (Inr (Some s), d') \<Rightarrow> (Inr s, d'))"

definition session_touch :: "string \<Rightarrow> time \<Rightarrow> db \<Rightarrow> unit res \<times> db" where
  "session_touch i last_seen d =
     (case statement (\<lambda>d. (Inr (length (filter (\<lambda>s. s_id s = i) (sessions d))),
         d\<lparr>sessions := map (\<lambda>s. if s_id s = i then s\<lparr>s_last_seen_at := secs last_seen\<rparr> else s)
             (sessions d)\<rparr>)) d of
        (Inl e, d') \<Rightarrow> (Inl (ErrWrap ''session touch'' e), d')
      | (Inr n, d') \<Rightarrow> (if n = 0 then (Inl ErrNotFound, d') else (Inr (), d')))"

text \<open>A deletion returns the number of rows it removes.\<close>

definition delete_sessions :: "(session \<Rightarrow> bool) \<Rightarrow> db \<Rightarrow> int res \<times> db" where
  "delete_sessions P = statement (\<lambda>d. (Inr (int (length (filter P (sessions d)))),
     d\<lparr>sessions := filter (\<lambda>s. \<not> P s) (sessions d)\<rparr>))"

definition session_delete :: "string \<Rightarrow> db \<Rightarrow> unit res \<times> db" where
  "session_delete i d = (case delete_sessions (\<lambda>s. s_id s = i) d of
     (Inl e, d') \<Rightarrow> (Inl (ErrWrap ''session delete'' e), d') | (Inr _, d') \<Rightarrow> (Inr (), d'))"

definition session_delete_all_for_user :: "int \<Rightarrow> db \<Rightarrow> unit res \<times> db" where
  "session_delete_all_for_user uid d = (case delete_sessions (\<lambda>s. s_user_id s = uid) d of
     (Inl e, d') \<Rightarrow> (Inl (ErrWrap ''session delete user'' e), d') | (Inr _, d') \<Rightarrow> (Inr (), d'))"

definition session_delete_all_for_user_except :: "int \<Rightarrow> string \<Rightarrow> db \<Rightarrow> unit res \<times> db" where
  "session_delete_all_for_user_except uid keep d =
     (case delete_sessions (\<lambda>s. s_user_id s = uid \<and> s_id s \<noteq> keep) d of
        (Inl e, d') \<Rightarrow> (Inl (ErrWrap ''session delete except'' e), d') | (Inr _, d') \<Rightarrow> (Inr (), d'))"

definition session_purge_expired :: "time \<Rightarrow> db \<Rightarrow> int res \<times> db" where
  "session_purge_expired now d =
     (case delete_sessions (\<lambda>s. unix (s_expires_at s) \<le> unix now) d of
        (Inl e, d') \<Rightarrow> (Inl (ErrWrap ''session purge'' e), d') | (Inr n, d') \<Rightarrow> (Inr n, d'))"

section \<open>Revoked tokens\<close>

definition upsert_revocation :: "revocation \<Rightarrow> db \<Rightarrow> unit res \<times> db" where
  "upsert_revocation r d = (Inr (), d\<lparr>revocations :=
     (if rv_jti r \<in> rv_jti ` set (revocations d)
      then map (\<lambda>q. if rv_jti q = rv_jti r
                    then q\<lparr>rv_revoked_at := rv_revoked_at r, rv_expires_at := rv_expires_at r\<rparr> else q)
             (revocations d)
      else revocations d @ [r])\<rparr>)"

definition jwt_revoke :: "time \<Rightarrow> string \<Rightarrow> int \<Rightarrow> time \<Rightarrow> db \<Rightarrow> unit res \<times> db" where
  "jwt_revoke wall jti uid expires_at d =
     (case statement (upsert_revocation \<lparr>rv_jti = jti, rv_user_id = uid, rv_revoked_at = secs wall,
         rv_expires_at = secs expires_at\<rparr>) d of
        (Inl e, d') \<Rightarrow> (Inl (ErrWrap ''jwt revoke'' e), d') | (Inr _, d') \<Rightarrow> (Inr (), d'))"

definition jwt_is_revoked :: "string \<Rightarrow> db \<Rightarrow> bool res \<times> db" where
  "jwt_is_revoked jti d =
     (case query_row (\<lambda>d. List.find (\<lambda>r. rv_jti r = jti) (revocations d)) d of
        (Inl e, d') \<Rightarrow> (Inl (ErrWrap ''jwt is revoked'' e), d')
      | (Inr None, d') \<Rightarrow> (Inr False, d')
      | (Inr (Some _), d') \<Rightarrow> (Inr True, d'))"

definition user_all_jti :: "int \<Rightarrow> time \<Rightarrow> string" where
  "user_all_jti uid now = ''user-all-'' @ itoa uid @ ''-'' @ itoa (i64 now)"

definition jwt_revoke_all_for_user :: "int \<Rightarrow> time \<Rightarrow> db \<Rightarrow> unit res \<times> db" where
  "jwt_revoke_all_for_user uid now d =
     (case statement (upsert_revocation \<lparr>rv_jti = user_all_jti uid now, rv_user_id = uid,
         rv_revoked_at = secs now, rv_expires_at = secs (now + 24 * 3600 * second)\<rparr>) d of
        (Inl e, d') \<Rightarrow> (Inl (ErrWrap ''jwt revoke all'' e), d') | (Inr _, d') \<Rightarrow> (Inr (), d'))"

definition jwt_purge_expired :: "time \<Rightarrow> db \<Rightarrow> int res \<times> db" where
  "jwt_purge_expired now d =
     (let P = (\<lambda>r. unix (rv_expires_at r) \<le> unix now)
      in case statement (\<lambda>d. (Inr (int (length (filter P (revocations d)))),
                d\<lparr>revocations := filter (\<lambda>r. \<not> P r) (revocations d)\<rparr>)) d of
           (Inl e, d') \<Rightarrow> (Inl (ErrWrap ''jwt purge'' e), d') | (Inr n, d') \<Rightarrow> (Inr n, d'))"

section \<open>Preferences\<close>

definition prefs_get :: "int \<Rightarrow> db \<Rightarrow> user_prefs res \<times> db" where
  "prefs_get uid d =
     (case query_row (\<lambda>d. List.find (\<lambda>p. up_user_id p = uid) (prefs d)) d of
        (Inl e, d') \<Rightarrow> (Inl (ErrWrap ''user_prefs get'' e), d')
      | (Inr None, d') \<Rightarrow> (Inl ErrNotFound, d')
      | (Inr (Some p), d') \<Rightarrow> (Inr p, d'))"

definition upsert_prefs :: "user_prefs \<Rightarrow> db \<Rightarrow> unit res \<times> db" where
  "upsert_prefs p d =
     (let row = p\<lparr>up_updated_at := secs (up_updated_at p)\<rparr> in
      if up_user_id p \<in> up_user_id ` set (prefs d)
      then (Inr (), d\<lparr>prefs := map (\<lambda>q. if up_user_id q = up_user_id p then row else q) (prefs d)\<rparr>)
      else if up_user_id p \<notin> u_id ` set (users d) then (Inl err_foreign_key, d)
      else (Inr (), d\<lparr>prefs := prefs d @ [row]\<rparr>))"

definition prefs_upsert :: "user_prefs \<Rightarrow> db \<Rightarrow> unit res \<times> db" where
  "prefs_upsert p d =
     (case statement (upsert_prefs p) d of
        (Inl e, d') \<Rightarrow> (Inl (ErrWrap ''user_prefs upsert'' e), d') | (Inr _, d') \<Rightarrow> (Inr (), d'))"

section \<open>The tables as maps\<close>

definition account_of :: "db \<Rightarrow> int \<Rightarrow> user option" where
  "account_of d = row u_id (users d)"

definition session_of :: "db \<Rightarrow> string \<Rightarrow> session option" where
  "session_of d = row s_id (sessions d)"

definition revoked_jtis :: "db \<Rightarrow> string set" where
  "revoked_jtis d = rv_jti ` set (revocations d)"

text \<open>The key and reference constraints of the schema.\<close>

definition accounts_ok :: "db \<Rightarrow> bool" where
  "accounts_ok d \<longleftrightarrow> distinct (map u_id (users d)) \<and> distinct (map (nocase \<circ> u_username) (users d))
     \<and> distinct (map s_id (sessions d)) \<and> distinct (map rv_jti (revocations d))
     \<and> distinct (map up_user_id (prefs d))
     \<and> (\<forall>s\<in>set (sessions d). s_user_id s \<in> u_id ` set (users d))
     \<and> (\<forall>p\<in>set (prefs d). up_user_id p \<in> u_id ` set (users d))"

lemmas view_defs = account_of_def session_of_def revoked_jtis_def

lemma views_same:
  "same_tables d d' \<Longrightarrow> account_of d' = account_of d \<and> session_of d' = session_of d
    \<and> revoked_jtis d' = revoked_jtis d \<and> (accounts_ok d' \<longleftrightarrow> accounts_ok d)"
  by (drule same_tablesD) (simp add: view_defs accounts_ok_def)

lemma views_with_sessions:
  "account_of (d\<lparr>sessions := x\<rparr>) = account_of d" "revoked_jtis (d\<lparr>sessions := x\<rparr>) = revoked_jtis d"
  "session_of (d\<lparr>users := y\<rparr>) = session_of d" "revoked_jtis (d\<lparr>users := y\<rparr>) = revoked_jtis d"
  "account_of (d\<lparr>revocations := z\<rparr>) = account_of d" "session_of (d\<lparr>revocations := z\<rparr>) = session_of d"
  by (simp_all add: view_defs)

subsection \<open>Users\<close>

lemma insert_user_done:
  assumes "accounts_ok d" "insert_user u d = (Inr i, d')"
  shows "accounts_ok d' \<and> account_of d i = None \<and> account_of d' = (account_of d)(i \<mapsto> stored_user (u\<lparr>u_id := i\<rparr>))
    \<and> session_of d' = session_of d \<and> revoked_jtis d' = revoked_jtis d
    \<and> (\<forall>v\<in>set (users d). nocase (u_username v) \<noteq> nocase (u_username u))"
proof -
  have new: "\<forall>v\<in>set (users d). nocase (u_username v) \<noteq> nocase (u_username u)"
    and i: "i = next_id (map u_id (users d))"
    and d': "d' = d\<lparr>users := users d @ [stored_user (u\<lparr>u_id := i\<rparr>)]\<rparr>"
    using assms(2) by (auto simp: insert_user_def stored_user_def Let_def split: if_splits)
  have fresh: "i \<notin> u_id ` set (users d)" using next_id_fresh [of "map u_id (users d)"] i by simp
  moreover have "u_id (stored_user (u\<lparr>u_id := i\<rparr>)) = i" "u_username (stored_user (u\<lparr>u_id := i\<rparr>)) = u_username u"
    by (simp_all add: stored_user_def)
  ultimately show ?thesis
    using assms(1) new row_append [of u_id "stored_user (u\<lparr>u_id := i\<rparr>)" "users d"]
    by (auto simp: d' accounts_ok_def view_defs row_None)
qed

lemma user_create_cases:
  assumes "user_create wall u d = (r, d')"
  obtains (error) e where "r = Inl e" "same_tables d d'"
  | (created) i d1 v where "r = Inr (v\<lparr>u_id := i\<rparr>)" "same_tables d d1" "insert_user v d1 = (Inr i, d')"
      "u_username v = u_username u" "u_password_hash v = u_password_hash u"
      "u_password_salt v = u_password_salt u" "u_password_params v = u_password_params u"
proof -
  define now where "now = (if is_zero_time (u_created_at u) then wall else u_created_at u)"
  define u1 where "u1 = (if is_zero_time (u_updated_at u) then u\<lparr>u_updated_at := now\<rparr> else u)"
  define u2 where "u2 = (if is_zero_time (u_password_updated_at u1)
    then u1\<lparr>u_password_updated_at := now\<rparr> else u1)"
  define v where "v = u2\<lparr>u_created_at := now\<rparr>"
  have v_id: "v\<lparr>u_id := i\<rparr> = u2\<lparr>u_id := i, u_created_at := now\<rparr>" for i
    by (simp add: v_def)
  have "user_create wall u d = (case statement (insert_user (u2\<lparr>u_created_at := now\<rparr>)) d of
           (Inl e, d') \<Rightarrow>
             (if is_unique_constraint e then (Inl ErrAlreadyExists, d')
              else (Inl (ErrWrap ''user create'' e), d'))
         | (Inr i, d') \<Rightarrow> (Inr (u2\<lparr>u_id := i, u_created_at := now\<rparr>), d'))"
    unfolding user_create_def Let_def u2_def u1_def now_def by (rule refl)
  then have v: "user_create wall u d = (case statement (insert_user v) d of
           (Inl e, d') \<Rightarrow>
             (if is_unique_constraint e then (Inl ErrAlreadyExists, d')
              else (Inl (ErrWrap ''user create'' e), d'))
         | (Inr i, d') \<Rightarrow> (Inr (v\<lparr>u_id := i\<rparr>), d'))"
    unfolding v_id unfolding v_def .
  have v_fields: "u_username v = u_username u" "u_password_hash v = u_password_hash u"
      "u_password_salt v = u_password_salt u" "u_password_params v = u_password_params u"
    by (simp_all add: v_def u2_def u1_def)
  obtain q d2 where q: "statement (insert_user v) d = (q, d2)" by fastforce
  show thesis using q
  proof (cases rule: statement_cases)
    case (fault e)
    then show thesis using assms v q error by (auto split: if_splits)
  next
    case (run d1)
    show thesis
    proof (cases q)
      case (Inl e)
      then have "d2 = d1" using run(2) by (auto simp: insert_user_def Let_def split: if_splits)
      then show thesis using assms v q run(1) error Inl by (auto split: if_splits)
    next
      case (Inr i)
      then show thesis using assms v v_fields q run by (intro created [of i v d1]) auto
    qed
  qed
qed

lemma user_update_cases:
  assumes "user_update_password i h sl p t d = (r, d')"
  obtains (error) e where "r = Inl e" "same_tables d d'"
  | (none) "r = Inl ErrNotFound" "i \<notin> u_id ` set (users d)" "same_tables d d'"
  | (updated) d1 where "r = Inr ()" "i \<in> u_id ` set (users d)" "same_tables d d1"
      "d' = d1\<lparr>users := map (\<lambda>u. if u_id u = i then with_password h sl p t u else u) (users d)\<rparr>"
proof -
  let ?body = "\<lambda>d. (Inr (length (filter (\<lambda>u. u_id u = i) (users d))) :: nat res,
      d\<lparr>users := map (\<lambda>u. if u_id u = i then with_password h sl p t u else u) (users d)\<rparr>)"
  obtain q d2 where q: "statement ?body d = (q, d2)" by fastforce
  have r: "(r, d') = (case (q, d2) of (Inl e, d') \<Rightarrow> (Inl (ErrWrap ''user update password'' e), d')
         | (Inr n, d') \<Rightarrow> (if n = 0 then (Inl ErrNotFound, d') else (Inr (), d')))"
    using assms q unfolding user_update_password_def Let_def with_password_def by simp
  from q show thesis
  proof (cases rule: statement_cases)
    case (fault e)
    with r show thesis by (intro error) auto
  next
    case (run d1)
    have us: "users d1 = users d" using same_tablesD [OF run(1)] by simp
    show thesis
    proof (cases "i \<in> u_id ` set (users d)")
      case True
      then have "filter (\<lambda>u. u_id u = i) (users d) \<noteq> []" by (auto simp: filter_empty_conv)
      with True r run us show thesis by (intro updated [of d1]) (simp_all, auto)
    next
      case False
      then have "map (\<lambda>u. if u_id u = i then with_password h sl p t u else u) (users d) = users d"
        by (intro map_idI) auto
      moreover have "filter (\<lambda>u. u_id u = i) (users d) = []" using False by (auto simp: filter_empty_conv)
      ultimately show thesis using False r run us same_tables_users [OF run(1)]
        by (intro none) (simp_all, auto)
    qed
  qed
qed

lemma with_password_keys [simp]:
  "u_id (if b then with_password h sl p t u else u) = u_id u"
  "u_username (if b then with_password h sl p t u else u) = u_username u"
  by (simp_all add: with_password_def)

lemma accounts_ok_update:
  "accounts_ok d \<Longrightarrow>
   accounts_ok (d\<lparr>users := map (\<lambda>u. if u_id u = i then with_password h sl p t u else u) (users d)\<rparr>)"
  by (simp add: accounts_ok_def comp_def image_image del: if_image_distrib)

subsection \<open>Sessions\<close>

lemma insert_session_done:
  assumes "accounts_ok d" "insert_session s d = (Inr x, d')"
  shows "accounts_ok d' \<and> session_of d (s_id s) = None
    \<and> session_of d' = (session_of d)(s_id s \<mapsto> stored_session s)
    \<and> account_of d' = account_of d \<and> revoked_jtis d' = revoked_jtis d"
proof -
  have new: "s_id s \<notin> s_id ` set (sessions d)" "s_user_id s \<in> u_id ` set (users d)"
    and d': "d' = d\<lparr>sessions := sessions d @ [stored_session s]\<rparr>"
    using assms(2) by (auto simp: insert_session_def stored_session_def split: if_splits)
  moreover have "s_id (stored_session s) = s_id s" "s_user_id (stored_session s) = s_user_id s"
    by (simp_all add: stored_session_def)
  ultimately show ?thesis
    using assms(1) row_append [of s_id "stored_session s" "sessions d"]
    by (auto simp: accounts_ok_def view_defs row_None)
qed

lemma session_create_cases:
  assumes "session_create wall x d = (r, d')"
  obtains (error) e where "r = Inl e" "same_tables d d'"
  | (created) d1 y where "r = Inr y" "same_tables d d1" "insert_session y d1 = (Inr (), d')"
      "s_id y = s_id x" "s_user_id y = s_user_id x" "s_csrf_token y = s_csrf_token x"
      "s_expires_at y = s_expires_at x"
proof -
  define s1 where "s1 = (if is_zero_time (s_created_at x) then x\<lparr>s_created_at := wall\<rparr> else x)"
  define y where "y = (if is_zero_time (s_last_seen_at s1)
    then s1\<lparr>s_last_seen_at := s_created_at s1\<rparr> else s1)"
  have y: "session_create wall x d = (case statement (insert_session y) d of
           (Inl e, d') \<Rightarrow>
             (if is_unique_constraint e then (Inl ErrAlreadyExists, d')
              else (Inl (ErrWrap ''session create'' e), d'))
         | (Inr _, d') \<Rightarrow> (Inr y, d'))"
    unfolding session_create_def Let_def y_def s1_def by (simp split del: if_split)
  have y_fields: "s_id y = s_id x" "s_user_id y = s_user_id x" "s_csrf_token y = s_csrf_token x"
      "s_expires_at y = s_expires_at x"
    by (simp_all add: y_def s1_def)
  obtain q d2 where q: "statement (insert_session y) d = (q, d2)" by fastforce
  show thesis using q
  proof (cases rule: statement_cases)
    case (fault e)
    then show thesis using assms y q error by (auto split: if_splits)
  next
    case (run d1)
    show thesis
    proof (cases q)
      case (Inl e)
      then have "d2 = d1" using run(2) by (auto simp: insert_session_def split: if_splits)
      then show thesis using assms y q run(1) error Inl by (auto split: if_splits)
    next
      case (Inr i)
      then show thesis using assms y y_fields q run by (intro created [of y d1]) auto
    qed
  qed
qed

lemma delete_sessions_cases:
  assumes "delete_sessions P d = (r, d')"
  obtains (error) e where "r = Inl e" "same_tables d d'"
  | (deleted) d1 n where "r = Inr n" "same_tables d d1"
      "d' = d1\<lparr>sessions := filter (\<lambda>s. \<not> P s) (sessions d)\<rparr>"
  using assms unfolding delete_sessions_def
proof (cases rule: statement_cases)
  case (run d1)
  with same_tablesD [OF run(1)] show thesis by (intro deleted [of _ d1]) auto
qed (auto intro: error)

lemma accounts_ok_delete:
  "accounts_ok d \<Longrightarrow> accounts_ok (d\<lparr>sessions := filter P (sessions d)\<rparr>)"
  by (simp add: accounts_ok_def distinct_map_filter)

lemma delete_sessions_views:
  assumes "accounts_ok d" "delete_sessions P d = (Inr n, d')"
  shows "accounts_ok d' \<and> session_of d' = drop_sessions P (session_of d)
    \<and> account_of d' = account_of d \<and> revoked_jtis d' = revoked_jtis d"
  using assms(2)
proof (cases rule: delete_sessions_cases)
  case (deleted d1 k)
  have s: "sessions d = sessions d1" using same_tablesD [OF deleted(2)] by simp
  have "accounts_ok d1" using views_same [OF deleted(2)] assms(1) by simp
  then have "accounts_ok d'" "distinct (map s_id (sessions d1))"
    unfolding deleted(3) s by (rule accounts_ok_delete) (simp add: accounts_ok_def \<open>accounts_ok d1\<close> [unfolded accounts_ok_def])
  moreover have "session_of d' i = drop_sessions P (session_of d) i" for i
    using row_filter [of s_id "sessions d1" i "\<lambda>x. \<not> P x", OF calculation(2)]
    by (simp add: deleted(3) s session_of_def drop_sessions_def split: option.splits)
  ultimately show ?thesis
    using views_same [OF deleted(2)] by (auto simp: deleted(3) views_with_sessions)
qed simp

lemma delete_sessions_error:
  "delete_sessions P d = (Inl e, d') \<Longrightarrow> same_tables d d'"
  by (erule delete_sessions_cases) simp_all

lemma session_touch_cases:
  assumes "session_touch i t d = (r, d')"
  obtains (error) e where "r = Inl e" "same_tables d d'"
  | (touched) d1 x where "r = Inr ()" "same_tables d d1" "session_of d i = Some x"
      "d' = d1\<lparr>sessions := map (\<lambda>s. if s_id s = i then s\<lparr>s_last_seen_at := secs t\<rparr> else s) (sessions d)\<rparr>"
proof -
  let ?body = "\<lambda>d. (Inr (length (filter (\<lambda>s. s_id s = i) (sessions d))) :: nat res,
         d\<lparr>sessions := map (\<lambda>s. if s_id s = i then s\<lparr>s_last_seen_at := secs t\<rparr> else s) (sessions d)\<rparr>)"
  obtain q d2 where q: "statement ?body d = (q, d2)" by fastforce
  have r: "(r, d') = (case (q, d2) of (Inl e, d') \<Rightarrow> (Inl (ErrWrap ''session touch'' e), d')
      | (Inr n, d') \<Rightarrow> (if n = 0 then (Inl ErrNotFound, d') else (Inr (), d')))"
    using assms q by (simp add: session_touch_def)
  from q show thesis
  proof (cases rule: statement_cases)
    case (fault e)
    with r show thesis by (intro error) auto
  next
    case (run d1)
    have us: "sessions d1 = sessions d" using same_tablesD [OF run(1)] by simp
    show thesis
    proof (cases "session_of d i")
      case None
      then have no: "\<forall>s\<in>set (sessions d). s_id s \<noteq> i" by (auto simp: session_of_def row_None)
      then have "map (\<lambda>s. if s_id s = i then s\<lparr>s_last_seen_at := secs t\<rparr> else s) (sessions d) = sessions d"
        by (intro map_idI) auto
      with no r run us same_tables_sessions [OF run(1)] show thesis by (intro error) (auto simp: filter_empty_conv)
    next
      case (Some x)
      then have "x \<in> set (sessions d)" "s_id x = i" by (auto simp: session_of_def dest: row_Some)
      then have "filter (\<lambda>s. s_id s = i) (sessions d) \<noteq> []" by (auto simp: filter_empty_conv)
      with Some r run us show thesis by (intro touched [of d1 x]) (simp_all, auto)
    qed
  qed
qed

lemma session_touch_views:
  assumes "accounts_ok d" "session_touch i t d = (Inr u, d')"
  shows "accounts_ok d' \<and> (\<exists>x. session_of d i = Some x
      \<and> session_of d' = (session_of d)(i \<mapsto> x\<lparr>s_last_seen_at := secs t\<rparr>))
    \<and> account_of d' = account_of d \<and> revoked_jtis d' = revoked_jtis d"
  using assms(2)
proof (cases rule: session_touch_cases)
  case (touched d1 x)
  let ?g = "\<lambda>s. s\<lparr>s_last_seen_at := secs t\<rparr>"
  have eq: "sessions d = sessions d1" using same_tablesD [OF touched(2)] by simp
  have ok1: "accounts_ok d1" using views_same [OF touched(2)] assms(1) by simp
  have key: "s_id (if b then ?g s else s) = s_id s" "s_user_id (if b then ?g s else s) = s_user_id s" for b s
    by (simp_all split: sum.splits)
  have "accounts_ok d'" using ok1 by (auto simp: touched(4) accounts_ok_def eq comp_def key)
  moreover have "session_of d' = (session_of d)(i \<mapsto> ?g x)"
    using row_update [of s_id ?g i "sessions d1" x] touched(3) by (simp add: touched(4) session_of_def eq)
  ultimately show ?thesis
    using touched(3) views_same [OF touched(2)] by (auto simp: touched(4) views_with_sessions)
qed simp

subsection \<open>Revoked tokens\<close>

lemma upsert_revocation_views:
  assumes "upsert_revocation r d = (Inr u, d')"
  shows "(accounts_ok d \<longrightarrow> accounts_ok d') \<and> revoked_jtis d' = insert (rv_jti r) (revoked_jtis d)
    \<and> account_of d' = account_of d \<and> session_of d' = session_of d"
proof (cases "rv_jti r \<in> rv_jti ` set (revocations d)")
  case True
  let ?g = "\<lambda>q. q\<lparr>rv_revoked_at := rv_revoked_at r, rv_expires_at := rv_expires_at r\<rparr>"
  have d': "d' = d\<lparr>revocations := map (\<lambda>q. if rv_jti q = rv_jti r then ?g q else q) (revocations d)\<rparr>"
    using True assms by (simp add: upsert_revocation_def)
  have keys: "rv_jti (if rv_jti q = rv_jti r then ?g q else q) = rv_jti q" for q by simp
  have "revoked_jtis d' = revoked_jtis d"
    by (simp add: d' revoked_jtis_def image_image keys del: if_image_distrib)
  moreover have "accounts_ok d \<longrightarrow> accounts_ok d'"
    by (simp add: d' accounts_ok_def comp_def keys)
  ultimately show ?thesis using True by (auto simp: d' view_defs)
next
  case False
  then show ?thesis using assms by (auto simp: upsert_revocation_def accounts_ok_def view_defs)
qed

subsection \<open>Reading\<close>

lemma session_find_views:
  assumes "session_find_by_id i d = (r, d')"
  shows "same_tables d d' \<and> (\<forall>x. r = Inr x \<longrightarrow> session_of d i = Some x)
    \<and> (r = Inl ErrNotFound \<longrightarrow> session_of d i = None)"
proof -
  obtain q d2 where q: "query_row (\<lambda>d. row s_id (sessions d) i) d = (q, d2)" by fastforce
  note same = query_row_same [OF q] same_tablesD [OF query_row_same [OF q]]
  from q assms show ?thesis
    by (cases rule: query_row_cases)
      (use same in \<open>auto simp: q session_find_by_id_def session_of_def split: option.splits\<close>)
qed

lemma user_find_id_views:
  assumes "user_find_by_id i d = (r, d')"
  shows "same_tables d d' \<and> (\<forall>u. r = Inr u \<longrightarrow> account_of d i = Some u)
    \<and> (r = Inl ErrNotFound \<longrightarrow> account_of d i = None)"
proof -
  obtain q d2 where q: "query_row (\<lambda>d. row u_id (users d) i) d = (q, d2)" by fastforce
  note same = query_row_same [OF q] same_tablesD [OF query_row_same [OF q]]
  from q assms show ?thesis
    by (cases rule: query_row_cases)
      (use same in \<open>auto simp: q user_find_by_id_def scan_user_def account_of_def split: option.splits\<close>)
qed

lemma user_find_name_views:
  assumes "user_find_by_username name d = (r, d')"
  shows "same_tables d d'
    \<and> (\<forall>u. r = Inr u \<longrightarrow> u \<in> set (users d) \<and> nocase (u_username u) = nocase name)
    \<and> (r = Inl ErrNotFound \<longrightarrow> (\<forall>u\<in>set (users d). nocase (u_username u) \<noteq> nocase name))"
proof -
  obtain q d2 where q: "query_row (\<lambda>d. row (nocase \<circ> u_username) (users d) (nocase name)) d = (q, d2)"
    by fastforce
  note same = query_row_same [OF q] same_tablesD [OF query_row_same [OF q]]
  from q assms show ?thesis
    by (cases rule: query_row_cases)
      (use same in \<open>auto simp: q [unfolded comp_def] user_find_by_username_def scan_user_def row_None image_iff
        dest: row_Some split: option.splits\<close>)
qed

lemma jwt_is_revoked_views:
  assumes "jwt_is_revoked j d = (r, d')"
  shows "same_tables d d' \<and> (\<forall>b. r = Inr b \<longrightarrow> b = (j \<in> revoked_jtis d))"
proof -
  obtain q d2 where q: "query_row (\<lambda>d. row rv_jti (revocations d) j) d = (q, d2)" by fastforce
  note same = query_row_same [OF q] same_tablesD [OF query_row_same [OF q]]
  from q assms show ?thesis
    by (cases rule: query_row_cases)
      (use same in \<open>auto simp: q jwt_is_revoked_def revoked_jtis_def row_None
        dest: row_Some split: option.splits\<close>)
qed

section \<open>The repositories behind the interfaces\<close>

definition sqlite_users :: "time \<Rightarrow> db user_port" where
  "sqlite_users wall = \<lparr>usr_create = user_create wall, usr_find_by_username = user_find_by_username,
     usr_find_by_id = user_find_by_id, usr_update_password = user_update_password\<rparr>"

definition sqlite_sessions :: "time \<Rightarrow> db session_port" where
  "sqlite_sessions wall = \<lparr>ses_create = session_create wall, ses_find_by_id = session_find_by_id,
     ses_touch = session_touch, ses_delete = session_delete,
     ses_delete_all_for_user = session_delete_all_for_user,
     ses_delete_all_for_user_except = session_delete_all_for_user_except,
     ses_purge_expired = session_purge_expired\<rparr>"

definition sqlite_jwts :: "time \<Rightarrow> db jwt_revocation_port" where
  "sqlite_jwts wall = \<lparr>jrv_revoke = jwt_revoke wall, jrv_is_revoked = jwt_is_revoked,
     jrv_revoke_all_for_user = jwt_revoke_all_for_user, jrv_purge_expired = jwt_purge_expired\<rparr>"

definition sqlite_prefs :: "db user_prefs_port" where
  "sqlite_prefs = \<lparr>prf_get = prefs_get, prf_upsert = prefs_upsert\<rparr>"

lemma account_of_Some:
  "accounts_ok d \<Longrightarrow> account_of d i = Some u \<longleftrightarrow> u \<in> set (users d) \<and> u_id u = i"
  by (auto simp: account_of_def accounts_ok_def dest: row_Some intro: row_key)

lemma stored_user_fields [simp]:
  "u_id (stored_user u) = u_id u" "u_username (stored_user u) = u_username u"
  by (simp_all add: stored_user_def)

lemma user_update_views:
  assumes "accounts_ok d" "user_update_password i h sl p t d = (Inr x, d')"
  shows "accounts_ok d' \<and> (\<exists>u. account_of d i = Some u
    \<and> account_of d' = (account_of d)(i \<mapsto> with_password h sl p t u))"
  using assms(2)
proof (cases rule: user_update_cases)
  case (updated d1)
  have us: "users d1 = users d" using same_tablesD [OF updated(3)] by simp
  have ok1: "accounts_ok d1" using views_same [OF updated(3)] assms(1) by simp
  obtain u where u: "account_of d i = Some u"
    using updated(2) row_None [of u_id i "users d"] by (auto simp: account_of_def)
  have key: "u_id (with_password h sl p t v) = u_id v" for v by (simp add: with_password_def)
  have "account_of d' = (account_of d)(i \<mapsto> with_password h sl p t u)"
    using row_update [where f = u_id and g = "with_password h sl p t" and k = i and xs = "users d" and x = u] u key
    by (simp add: updated(4) account_of_def)
  with u accounts_ok_update [OF ok1, of i h sl p t] show ?thesis by (simp add: updated(4) us)
qed simp_all

lemma user_update_frame_views:
  assumes "user_update_password i h sl p t d = (r, d')"
  shows "session_of d' = session_of d \<and> revoked_jtis d' = revoked_jtis d
    \<and> (\<forall>e. r = Inl e \<longrightarrow> same_tables d d')"
  using assms
  by (cases rule: user_update_cases) (auto simp: views_same views_with_sessions)

interpretation sqlite_user_repository: user_repository "sqlite_users wall" account_of accounts_ok
proof (unfold_locales; (simp only: sqlite_users_def user_port.simps)?)
  fix d u e d' assume ok: "accounts_ok d" and c: "user_create wall u d = (Inl e, d')"
  from c show "accounts_ok d' \<and> account_of d' = account_of d"
    by (cases rule: user_create_cases) (use ok views_same in auto)
next
  fix d u v d' assume ok: "accounts_ok d" and c: "user_create wall u d = (Inr v, d')"
  from c show "accounts_ok d' \<and> account_of d (u_id v) = None
      \<and> account_of d' = (account_of d)(u_id v \<mapsto> stored_user v)
      \<and> u_username v = u_username u \<and> u_password_hash v = u_password_hash u
      \<and> u_password_salt v = u_password_salt u \<and> u_password_params v = u_password_params u
      \<and> (\<forall>i w. account_of d i = Some w \<longrightarrow> nocase (u_username w) \<noteq> nocase (u_username u))"
  proof (cases rule: user_create_cases)
    case (created i d1 w)
    have ok1: "accounts_ok d1" and acc: "account_of d1 = account_of d" and us: "users d1 = users d"
      using views_same [OF created(2)] same_tablesD [OF created(2)] ok by simp_all
    show ?thesis
      using insert_user_done [OF ok1 created(3)] created acc us
      by (auto simp: account_of_Some [OF ok])
  qed simp
next
  fix d name r d' assume ok: "accounts_ok d" and f: "user_find_by_username name d = (r, d')"
  show "accounts_ok d' \<and> account_of d' = account_of d
       \<and> (\<forall>u. r = Inr u \<longrightarrow> account_of d (u_id u) = Some u \<and> nocase (u_username u) = nocase name)
       \<and> (r = Inl ErrNotFound \<longrightarrow> (\<forall>i u. account_of d i = Some u \<longrightarrow> nocase (u_username u) \<noteq> nocase name))"
    using user_find_name_views [OF f] ok views_same by (auto simp: account_of_Some [OF ok])
next
  fix d i r d' assume ok: "accounts_ok d" and f: "user_find_by_id i d = (r, d')"
  show "accounts_ok d' \<and> account_of d' = account_of d \<and> (\<forall>u. r = Inr u \<longrightarrow> account_of d i = Some u)
       \<and> (r = Inl ErrNotFound \<longrightarrow> account_of d i = None)"
    using user_find_id_views [OF f] ok views_same by auto
next
  fix d i h sl p t e d' assume ok: "accounts_ok d" and f: "user_update_password i h sl p t d = (Inl e, d')"
  show "accounts_ok d' \<and> account_of d' = account_of d"
    using user_update_frame_views [OF f] ok views_same by auto
next
  fix d i h sl p t x d' assume "accounts_ok d" "user_update_password i h sl p t d = (Inr x, d')"
  then show "accounts_ok d' \<and> (\<exists>u. account_of d i = Some u
      \<and> account_of d' = (account_of d)(i \<mapsto> with_password h sl p t u))"
    by (rule user_update_views)
next
  fix d i u assume "accounts_ok d" "account_of d i = Some u"
  then show "u_id u = i" by (simp add: account_of_Some)
qed

lemma session_create_views:
  assumes "accounts_ok d" "session_create wall x d = (Inr y, d')"
  shows "accounts_ok d' \<and> session_of d (s_id y) = None
    \<and> session_of d' = (session_of d)(s_id y \<mapsto> stored_session y)
    \<and> s_id y = s_id x \<and> s_user_id y = s_user_id x \<and> s_csrf_token y = s_csrf_token x
    \<and> s_expires_at y = s_expires_at x"
  using assms(2)
proof (cases rule: session_create_cases)
  case (created d1 z)
  with views_same [OF created(2)] insert_session_done [OF _ created(3)] assms(1)
  show ?thesis by auto
qed simp

lemma session_create_frame_views:
  assumes "session_create wall x d = (r, d')"
  shows "account_of d' = account_of d \<and> revoked_jtis d' = revoked_jtis d
    \<and> (\<forall>e. r = Inl e \<longrightarrow> same_tables d d')"
  using assms
proof (cases rule: session_create_cases)
  case (created d1 z)
  then show ?thesis
    using views_same [OF created(2)]
    by (auto simp: insert_session_def views_with_sessions split: if_splits)
qed (auto simp: views_same)

lemma session_touch_frame_views:
  assumes "session_touch i t d = (r, d')"
  shows "account_of d' = account_of d \<and> revoked_jtis d' = revoked_jtis d
    \<and> (\<forall>e. r = Inl e \<longrightarrow> same_tables d d')"
  using assms
  by (cases rule: session_touch_cases) (auto simp: views_same views_with_sessions)

lemma delete_sessions_frame_views:
  assumes "delete_sessions P d = (r, d')"
  shows "account_of d' = account_of d \<and> revoked_jtis d' = revoked_jtis d
    \<and> (\<forall>e. r = Inl e \<longrightarrow> same_tables d d')"
  using assms
  by (cases rule: delete_sessions_cases) (auto simp: views_same views_with_sessions)

text \<open>The deletions differ in the condition and in the context of the error only.\<close>

definition deletes :: "(session \<Rightarrow> bool) \<Rightarrow> (db \<Rightarrow> 'a res \<times> db) \<Rightarrow> bool" where
  "deletes P f \<longleftrightarrow> (\<forall>d. \<exists>n d'. delete_sessions P d = (n, d') \<and> snd (f d) = d'
     \<and> (case n of Inl e \<Rightarrow> \<exists>c. fst (f d) = Inl (ErrWrap c e) | Inr _ \<Rightarrow> \<exists>x. fst (f d) = Inr x))"

lemma session_deletes:
  "deletes (\<lambda>s. s_id s = i) (session_delete i)"
  "deletes (\<lambda>s. s_user_id s = uid) (session_delete_all_for_user uid)"
  "deletes (\<lambda>s. s_user_id s = uid \<and> s_id s \<noteq> keep) (session_delete_all_for_user_except uid keep)"
  "deletes (\<lambda>s. unix (s_expires_at s) \<le> unix now) (session_purge_expired now)"
  by (simp_all add: deletes_def session_delete_def session_delete_all_for_user_def
      session_delete_all_for_user_except_def session_purge_expired_def split: prod.splits sum.splits)

lemma deletes_views:
  assumes "deletes P f" "f d = (r, d')"
  shows "account_of d' = account_of d \<and> revoked_jtis d' = revoked_jtis d
    \<and> (\<forall>e. r = Inl e \<longrightarrow> same_tables d d')
    \<and> (\<forall>x. accounts_ok d \<longrightarrow> r = Inr x \<longrightarrow> accounts_ok d' \<and> session_of d' = drop_sessions P (session_of d))"
proof -
  from assms(1) obtain n d2 where "delete_sessions P d = (n, d2)" "snd (f d) = d2"
      "case n of Inl e \<Rightarrow> \<exists>c. fst (f d) = Inl (ErrWrap c e) | Inr _ \<Rightarrow> \<exists>x. fst (f d) = Inr x"
    unfolding deletes_def by blast
  with assms(2) have n: "delete_sessions P d = (n, d')"
    and c: "case n of Inl e \<Rightarrow> \<exists>c. r = Inl (ErrWrap c e) | Inr _ \<Rightarrow> \<exists>x. r = Inr x"
    by (simp_all split: sum.splits)
  show ?thesis
    using delete_sessions_frame_views [OF n] delete_sessions_views [of d P] n c
    by (cases n) auto
qed

lemma drop_session_id:
  "accounts_ok d \<Longrightarrow> drop_sessions (\<lambda>s. s_id s = i) (session_of d) = (session_of d)(i := None)"
  by (auto simp: drop_sessions_def session_of_def fun_eq_iff dest: row_Some split: option.splits)

interpretation sqlite_session_repository:
  session_repository "sqlite_sessions wall" session_of accounts_ok
proof (unfold_locales; (simp only: sqlite_sessions_def session_port.simps)?)
  fix d x e d' assume "accounts_ok d" "session_create wall x d = (Inl e, d')"
  then show "accounts_ok d' \<and> session_of d' = session_of d"
    using session_create_frame_views [of wall x d] views_same by blast
next
  fix d x y d' assume "accounts_ok d" "session_create wall x d = (Inr y, d')"
  then show "accounts_ok d' \<and> session_of d (s_id y) = None
       \<and> session_of d' = (session_of d)(s_id y \<mapsto> stored_session y)
       \<and> s_id y = s_id x \<and> s_user_id y = s_user_id x \<and> s_csrf_token y = s_csrf_token x
       \<and> s_expires_at y = s_expires_at x" by (rule session_create_views)
next
  fix d i r d' assume "accounts_ok d" "session_find_by_id i d = (r, d')"
  then show "accounts_ok d' \<and> session_of d' = session_of d \<and> (\<forall>x. r = Inr x \<longrightarrow> session_of d i = Some x)
       \<and> (r = Inl ErrNotFound \<longrightarrow> session_of d i = None)"
    using session_find_views [of i d r d'] views_same by blast
next
  fix d i t e d' assume "accounts_ok d" "session_touch i t d = (Inl e, d')"
  then show "accounts_ok d' \<and> session_of d' = session_of d"
    using session_touch_frame_views [of i t d] views_same by blast
next
  fix d i t u d' assume "accounts_ok d" "session_touch i t d = (Inr u, d')"
  then show "accounts_ok d' \<and> (\<exists>x. session_of d i = Some x
      \<and> session_of d' = (session_of d)(i \<mapsto> x\<lparr>s_last_seen_at := secs t\<rparr>))"
    using session_touch_views by blast
next
  fix d i e d' assume "accounts_ok d" "session_delete i d = (Inl e, d')"
  then show "accounts_ok d' \<and> session_of d' = session_of d"
    using deletes_views [OF session_deletes(1)] views_same by blast
next
  fix d i u d' assume ok: "accounts_ok d" and "session_delete i d = (Inr u, d')"
  then show "accounts_ok d' \<and> session_of d' = (session_of d)(i := None)"
    using deletes_views [OF session_deletes(1)] drop_session_id [OF ok, of i] by fastforce
next
  fix d uid e d' assume "accounts_ok d" "session_delete_all_for_user uid d = (Inl e, d')"
  then show "accounts_ok d' \<and> session_of d' = session_of d"
    using deletes_views [OF session_deletes(2)] views_same by blast
next
  fix d uid u d' assume "accounts_ok d" "session_delete_all_for_user uid d = (Inr u, d')"
  then show "accounts_ok d' \<and> session_of d' = drop_sessions (\<lambda>x. s_user_id x = uid) (session_of d)"
    using deletes_views [OF session_deletes(2)] by blast
next
  fix d uid keep e d' assume "accounts_ok d" "session_delete_all_for_user_except uid keep d = (Inl e, d')"
  then show "accounts_ok d' \<and> session_of d' = session_of d"
    using deletes_views [OF session_deletes(3)] views_same by blast
next
  fix d uid keep u d' assume "accounts_ok d" "session_delete_all_for_user_except uid keep d = (Inr u, d')"
  then show "accounts_ok d'
      \<and> session_of d' = drop_sessions (\<lambda>x. s_user_id x = uid \<and> s_id x \<noteq> keep) (session_of d)"
    using deletes_views [OF session_deletes(3)] by blast
next
  fix d i x assume "accounts_ok d" "session_of d i = Some x"
  then show "s_id x = i" by (auto simp: session_of_def dest: row_Some)
qed

lemma revocation_statement_views:
  assumes "statement (upsert_revocation q) d = (r, d')"
  shows "account_of d' = account_of d \<and> session_of d' = session_of d
    \<and> (accounts_ok d \<longrightarrow> accounts_ok d') \<and> revoked_jtis d \<subseteq> revoked_jtis d'
    \<and> (\<forall>e. r = Inl e \<longrightarrow> same_tables d d')
    \<and> (\<forall>u. r = Inr u \<longrightarrow> revoked_jtis d' = insert (rv_jti q) (revoked_jtis d))"
  using assms
proof (cases rule: statement_cases)
  case (fault e)
  then show ?thesis using views_same [OF fault(2)] by auto
next
  case (run d1)
  obtain u where r: "r = Inr u" using run(2) by (auto simp: upsert_revocation_def)
  show ?thesis
    using views_same [OF run(1)] upsert_revocation_views [of q d1 u d'] run(2) r by auto
qed

lemma jwt_revoke_views:
  assumes "jwt_revoke wall j uid t d = (r, d')"
  shows "account_of d' = account_of d \<and> session_of d' = session_of d
    \<and> (accounts_ok d \<longrightarrow> accounts_ok d') \<and> (\<forall>e. r = Inl e \<longrightarrow> same_tables d d')
    \<and> (\<forall>u. r = Inr u \<longrightarrow> revoked_jtis d' = insert j (revoked_jtis d))"
proof -
  let ?q = "\<lparr>rv_jti = j, rv_user_id = uid, rv_revoked_at = secs wall, rv_expires_at = secs t\<rparr>"
  obtain n where n: "statement (upsert_revocation ?q) d = (n, d')"
    and "case n of Inl e \<Rightarrow> r = Inl (ErrWrap ''jwt revoke'' e) | Inr _ \<Rightarrow> r = Inr ()"
    using assms by (auto simp: jwt_revoke_def split: prod.splits sum.splits)
  then show ?thesis using revocation_statement_views [OF n] by (auto split: sum.splits)
qed

lemma jwt_revoke_all_views:
  assumes "jwt_revoke_all_for_user uid t d = (r, d')"
  shows "account_of d' = account_of d \<and> session_of d' = session_of d
    \<and> (accounts_ok d \<longrightarrow> accounts_ok d') \<and> revoked_jtis d \<subseteq> revoked_jtis d'
    \<and> revoked_jtis d' \<subseteq> insert (user_all_jti uid t) (revoked_jtis d)"
proof -
  let ?q = "\<lparr>rv_jti = user_all_jti uid t, rv_user_id = uid, rv_revoked_at = secs t,
     rv_expires_at = secs (t + 24 * 3600 * second)\<rparr>"
  obtain n where n: "statement (upsert_revocation ?q) d = (n, d')"
    using assms by (auto simp: jwt_revoke_all_for_user_def split: prod.splits sum.splits)
  then show ?thesis
    using revocation_statement_views [OF n] views_same by (cases n) fastforce+
qed

interpretation sqlite_jwt_repository: jwt_revocation_repository "sqlite_jwts wall" revoked_jtis
proof (unfold_locales; simp only: sqlite_jwts_def jwt_revocation_port.simps)
  fix j d r d' assume "jwt_is_revoked j d = (r, d')"
  then show "revoked_jtis d' = revoked_jtis d \<and> (\<forall>b. r = Inr b \<longrightarrow> b = (j \<in> revoked_jtis d))"
    using jwt_is_revoked_views views_same by blast
next
  fix j uid t d e d' assume "jwt_revoke wall j uid t d = (Inl e, d')"
  then show "revoked_jtis d' = revoked_jtis d" using jwt_revoke_views views_same by blast
next
  fix j uid t d u d' assume "jwt_revoke wall j uid t d = (Inr u, d')"
  then show "revoked_jtis d' = insert j (revoked_jtis d)" using jwt_revoke_views by blast
next
  fix uid t d q d' assume "jwt_revoke_all_for_user uid t d = (q, d')"
  then show "revoked_jtis d \<subseteq> revoked_jtis d'" using jwt_revoke_all_views by blast
qed

lemma user_create_frame_views:
  assumes "user_create wall u d = (r, d')"
  shows "session_of d' = session_of d \<and> revoked_jtis d' = revoked_jtis d"
  using assms
proof (cases rule: user_create_cases)
  case (created i d1 v)
  then show ?thesis
    using views_same [OF created(2)]
    by (auto simp: insert_user_def views_with_sessions Let_def split: if_splits)
qed (auto simp: views_same)

end
