(* ===== verification/Password.thy ===== *)
theory Password
  imports GoText
begin

text \<open>
  \<^verbatim>\<open>internal/auth/password\<close>: the scrypt hasher.  The key derivation of
  \<^verbatim>\<open>golang.org/x/crypto/scrypt\<close> is a parameter: a function of password, salt, \<^verbatim>\<open>N\<close>, \<^verbatim>\<open>r\<close>, \<^verbatim>\<open>p\<close>
  and key length that returns a key or an error.  The random source is a function of the number
  of bytes asked for.
\<close>

type_synonym kdf = "string \<Rightarrow> string \<Rightarrow> int \<Rightarrow> int \<Rightarrow> int \<Rightarrow> int \<Rightarrow> string res"
type_synonym entropy = "int \<Rightarrow> string res"

record scrypt_params =
  sp_n :: int
  sp_r :: int
  sp_p :: int
  sp_key_len :: int
  sp_salt_len :: int

definition default_params :: scrypt_params where
  "default_params = \<lparr>sp_n = 32768, sp_r = 8, sp_p = 1, sp_key_len = 32, sp_salt_len = 16\<rparr>"

definition zero_params :: scrypt_params where
  "zero_params = \<lparr>sp_n = 0, sp_r = 0, sp_p = 0, sp_key_len = 0, sp_salt_len = 0\<rparr>"

definition encode_params :: "scrypt_params \<Rightarrow> string" where
  "encode_params p = ''scrypt$N='' @ itoa (sp_n p) @ ''$r='' @ itoa (sp_r p)
     @ ''$p='' @ itoa (sp_p p) @ ''$keyLen='' @ itoa (sp_key_len p)"

definition set_param :: "string \<Rightarrow> int \<Rightarrow> scrypt_params \<Rightarrow> scrypt_params res" where
  "set_param k n p =
     (if k = ''N'' then Inr (p\<lparr>sp_n := n\<rparr>)
      else if k = ''r'' then Inr (p\<lparr>sp_r := n\<rparr>)
      else if k = ''p'' then Inr (p\<lparr>sp_p := n\<rparr>)
      else if k = ''keyLen'' then Inr (p\<lparr>sp_key_len := n\<rparr>)
      else Inl (ErrText (''unknown key '' @ quoted k)))"

fun decode_pairs :: "string list \<Rightarrow> scrypt_params \<Rightarrow> scrypt_params res" where
  "decode_pairs [] p = Inr p"
| "decode_pairs (kv # kvs) p =
     (case cut_at CHR ''='' kv of
        None \<Rightarrow> Inl (ErrText (''bad pair '' @ quoted kv))
      | Some (k, v) \<Rightarrow>
          (case atoi v of
             Inl e \<Rightarrow> Inl (ErrWrap (''bad value for '' @ k) e)
           | Inr n \<Rightarrow>
               (case set_param k n p of Inl e \<Rightarrow> Inl e | Inr p' \<Rightarrow> decode_pairs kvs p')))"

definition decode_params :: "string \<Rightarrow> scrypt_params res" where
  "decode_params s =
     (if \<not> has_prefix s ''scrypt$'' then Inl (ErrText ''not scrypt params'')
      else case decode_pairs (split_at CHR ''$'' (trim_prefix s ''scrypt$'')) zero_params of
        Inl e \<Rightarrow> Inl e
      | Inr p \<Rightarrow>
          if sp_n p = 0 \<or> sp_r p = 0 \<or> sp_p p = 0 \<or> sp_key_len p = 0
          then Inl (ErrText ''missing scrypt parameters'') else Inr p)"

definition hash_password ::
    "kdf \<Rightarrow> entropy \<Rightarrow> scrypt_params \<Rightarrow> string \<Rightarrow> (string \<times> string \<times> string) res" where
  "hash_password scrypt rand p plain =
     (if plain = [] then Inl (ErrText ''password is empty'')
      else case rand (sp_salt_len p) of
        Inl e \<Rightarrow> Inl (ErrWrap ''scrypt salt'' e)
      | Inr salt \<Rightarrow>
          (case scrypt plain salt (sp_n p) (sp_r p) (sp_p p) (sp_key_len p) of
             Inl e \<Rightarrow> Inl (ErrWrap ''scrypt key'' e)
           | Inr hash \<Rightarrow> Inr (hash, salt, encode_params p)))"

definition verify_password ::
    "kdf \<Rightarrow> string \<Rightarrow> string \<Rightarrow> string \<Rightarrow> string \<Rightarrow> bool res" where
  "verify_password scrypt plain hash salt params =
     (case decode_params params of
        Inl e \<Rightarrow> Inl (ErrWrap ''verify params'' e)
      | Inr p \<Rightarrow>
          (case scrypt plain salt (sp_n p) (sp_r p) (sp_p p) (sp_key_len p) of
             Inl e \<Rightarrow> Inl (ErrWrap ''verify key'' e)
           | Inr candidate \<Rightarrow> Inr (candidate = hash)))"

section \<open>The parameter text reads back\<close>

definition params_ok :: "scrypt_params \<Rightarrow> bool" where
  "params_ok p \<longleftrightarrow> sp_n p \<noteq> 0 \<and> sp_r p \<noteq> 0 \<and> sp_p p \<noteq> 0 \<and> sp_key_len p \<noteq> 0
     \<and> in_i64 (sp_n p) \<and> in_i64 (sp_r p) \<and> in_i64 (sp_p p) \<and> in_i64 (sp_key_len p)"

lemma itoa_no_sep: "CHR ''$'' \<notin> set (itoa n)"
  by (auto dest!: itoa_chars simp: is_digit_def byte_def)

lemma split_params:
  "split_at CHR ''$'' (''N='' @ itoa a @ ''$r='' @ itoa b @ ''$p='' @ itoa c @ ''$keyLen='' @ itoa d)
    = [''N='' @ itoa a, ''r='' @ itoa b, ''p='' @ itoa c, ''keyLen='' @ itoa d]"
proof -
  have "''N='' @ itoa a @ ''$r='' @ itoa b @ ''$p='' @ itoa c @ ''$keyLen='' @ itoa d
      = join [CHR ''$''] [''N='' @ itoa a, ''r='' @ itoa b, ''p='' @ itoa c, ''keyLen='' @ itoa d]"
    by simp
  then show ?thesis by (simp only:) (rule split_at_join, simp_all add: itoa_no_sep)
qed

lemma decode_encode_params:
  assumes "params_ok p"
  shows "decode_params (encode_params p) = Inr (p\<lparr>sp_salt_len := 0\<rparr>)"
proof -
  note ok = assms [unfolded params_ok_def]
  have tail: "encode_params p = ''scrypt$'' @ (''N='' @ itoa (sp_n p) @ ''$r='' @ itoa (sp_r p)
      @ ''$p='' @ itoa (sp_p p) @ ''$keyLen='' @ itoa (sp_key_len p))"
    by (simp add: encode_params_def)
  let ?parts = "[''N='' @ itoa (sp_n p), ''r='' @ itoa (sp_r p), ''p='' @ itoa (sp_p p),
      ''keyLen='' @ itoa (sp_key_len p)]"
  have "has_prefix (encode_params p) ''scrypt$''" unfolding tail by (rule has_prefix_append)
  moreover have "split_at CHR ''$'' (trim_prefix (encode_params p) ''scrypt$'') = ?parts"
    unfolding tail trim_prefix_append by (rule split_params)
  moreover have "decode_pairs ?parts zero_params = Inr (p\<lparr>sp_salt_len := 0\<rparr>)"
    by (simp add: ok atoi_itoa set_param_def zero_params_def)
  ultimately show ?thesis by (simp only: decode_params_def) (simp add: ok)
qed

text \<open>A text that decodes gives every parameter, none of them zero.\<close>

lemma decode_params_nonzero:
  "decode_params s = Inr p \<Longrightarrow> sp_n p \<noteq> 0 \<and> sp_r p \<noteq> 0 \<and> sp_p p \<noteq> 0 \<and> sp_key_len p \<noteq> 0"
  by (auto simp: decode_params_def split: if_splits sum.splits)

lemma verify_hash:
  assumes "params_ok p" "hash_password scrypt rand p plain = Inr (hash, salt, text)"
  shows "verify_password scrypt cand hash salt text =
    wrap_err ''verify key'' (case scrypt cand salt (sp_n p) (sp_r p) (sp_p p) (sp_key_len p) of
       Inl e \<Rightarrow> Inl e | Inr k \<Rightarrow> Inr (k = hash))"
    and "scrypt plain salt (sp_n p) (sp_r p) (sp_p p) (sp_key_len p) = Inr hash"
  using assms
  by (auto simp: hash_password_def verify_password_def decode_encode_params split: if_splits sum.splits)

section \<open>Properties\<close>

text \<open>
  C40: a stored hash verifies against its own password, and against another password exactly
  when the key derivation sends both to the same key: the parameters, the salt and the hash
  written by \<^verbatim>\<open>Hash\<close> are all \<^verbatim>\<open>Verify\<close> needs.
\<close>

theorem password_round_trip:
  assumes "params_ok p" "hash_password scrypt rand p plain = Inr (hash, salt, text)"
    and "scrypt cand salt (sp_n p) (sp_r p) (sp_p p) (sp_key_len p) = Inr key"
  shows "verify_password scrypt plain hash salt text = Inr True
    \<and> verify_password scrypt cand hash salt text = Inr (key = hash)"
  using verify_hash [OF assms(1,2)] assms(3) by simp

theorem password_round_trip_witness:
  "\<exists>hash salt text. hash_password (\<lambda>pw salt n r p k. Inr (pw @ salt)) (\<lambda>n. Inr ''salt'') default_params ''pw''
       = Inr (hash, salt, text)
     \<and> verify_password (\<lambda>pw salt n r p k. Inr (pw @ salt)) ''pw'' hash salt text = Inr True
     \<and> verify_password (\<lambda>pw salt n r p k. Inr (pw @ salt)) ''PW'' hash salt text = Inr False"
proof -
  let ?kdf = "\<lambda>pw salt (n :: int) (r :: int) (p :: int) (k :: int). Inr (pw @ salt) :: string res"
  let ?h = "hash_password ?kdf (\<lambda>n. Inr ''salt'') default_params ''pw''"
  have h: "?h = Inr (''pwsalt'', ''salt'', encode_params default_params)"
    by (simp add: hash_password_def)
  have "params_ok default_params" by (simp add: params_ok_def default_params_def in_i64_def)
  from password_round_trip [OF this h, of "''PW''" "''PWsalt''"] h show ?thesis by simp
qed

end
