(* ===== verification/Idgen.thy ===== *)
theory Idgen
  imports GoText
begin

text \<open>
  \<^verbatim>\<open>internal/auth/idgen\<close>: random tokens in hexadecimal and version 4 UUIDs.  The random source
  is a function of the number of bytes asked for.
\<close>

unbundle bit_operations_syntax

definition new_token :: "(int \<Rightarrow> string res) \<Rightarrow> int \<Rightarrow> string res" where
  "new_token rand n =
     (if n \<le> 0 then Inl (ErrText ''byteLen must be positive'')
      else case rand n of Inl e \<Rightarrow> Inl (ErrWrap ''idgen token'' e) | Inr b \<Rightarrow> Inr (hex_encode b))"

definition slice :: "nat \<Rightarrow> nat \<Rightarrow> string \<Rightarrow> string" where
  "slice i j b = take (j - i) (drop i b)"

definition new_uuid :: "(int \<Rightarrow> string res) \<Rightarrow> string res" where
  "new_uuid rand =
     (case rand 16 of
        Inl e \<Rightarrow> Inl (ErrWrap ''idgen uuid'' e)
      | Inr b0 \<Rightarrow>
          (let b1 = b0[6 := chr ((byte (b0 ! 6) AND 0x0F) OR 0x40)];
               b = b1[8 := chr ((byte (b1 ! 8) AND 0x3F) OR 0x80)]
           in Inr (hex_encode (slice 0 4 b) @ ''-'' @ hex_encode (slice 4 6 b) @ ''-''
                @ hex_encode (slice 6 8 b) @ ''-'' @ hex_encode (slice 8 10 b) @ ''-''
                @ hex_encode (slice 10 16 b))))"

section \<open>The version and variant bits\<close>

definition version_byte :: "int \<Rightarrow> int" where "version_byte x = (x AND 0x0F) OR 0x40"
definition variant_byte :: "int \<Rightarrow> int" where "variant_byte x = (x AND 0x3F) OR 0x80"

lemma stamped_bytes:
  "list_all (\<lambda>x. version_byte x div 16 = 4 \<and> version_byte x < 256) [0..255]"
  "list_all (\<lambda>x. 8 \<le> variant_byte x div 16 \<and> variant_byte x div 16 < 12 \<and> variant_byte x < 256) [0..255]"
  unfolding version_byte_def variant_byte_def by code_simp+

lemma version_byte: "version_byte (byte c) div 16 = 4 \<and> version_byte (byte c) < 256"
  using stamped_bytes(1) byte_range [of c] by (simp add: list_all_iff)

lemma variant_byte: "8 \<le> variant_byte (byte c) div 16 \<and> variant_byte (byte c) div 16 < 12
    \<and> variant_byte (byte c) < 256"
  using stamped_bytes(2) byte_range [of c] by (simp add: list_all_iff)

lemma length_16:
  assumes "length b = 16"
  obtains a0 a1 a2 a3 a4 a5 a6 a7 a8 a9 a10 a11 a12 a13 a14 a15
  where "b = [a0, a1, a2, a3, a4, a5, a6, a7, a8, a9, a10, a11, a12, a13, a14, a15]"
  using assms by (auto simp: numeral_eq_Suc length_Suc_conv)

lemma hex_digits:
  "hex_digit 4 = CHR ''4''" "hex_digit 8 = CHR ''8''" "hex_digit 9 = CHR ''9''"
  "hex_digit 10 = CHR ''a''" "hex_digit 11 = CHR ''b''"
  by code_simp+

lemma uuid_text:
  assumes "r 16 = Inr b" "length b = 16"
  obtains u where "new_uuid r = Inr u" "length u = 36" "u ! 8 = CHR ''-''" "u ! 13 = CHR ''-''"
    "u ! 18 = CHR ''-''" "u ! 23 = CHR ''-''" "u ! 14 = CHR ''4''"
    "u ! 19 \<in> {CHR ''8'', CHR ''9'', CHR ''a'', CHR ''b''}"
proof -
  obtain a0 a1 a2 a3 a4 a5 a6 a7 a8 a9 a10 a11 a12 a13 a14 a15
    where b: "b = [a0, a1, a2, a3, a4, a5, a6, a7, a8, a9, a10, a11, a12, a13, a14, a15]"
    using length_16 [OF assms(2)] .
  let ?v = "chr (version_byte (byte a6))" and ?w = "chr (variant_byte (byte a8))"
  let ?u = "hex_encode [a0, a1, a2, a3] @ ''-'' @ hex_encode [a4, a5] @ ''-''
     @ hex_encode [?v, a7] @ ''-'' @ hex_encode [?w, a9] @ ''-''
     @ hex_encode [a10, a11, a12, a13, a14, a15]"
  have "0 \<le> version_byte (byte a6)" "0 \<le> variant_byte (byte a8)"
    using version_byte [of a6] variant_byte [of a8] by linarith+
  then have v: "byte ?v div 16 = 4" and w: "8 \<le> byte ?w div 16" "byte ?w div 16 < 12"
    using version_byte [of a6] variant_byte [of a8] by simp_all
  have "hex_digit d \<in> {CHR ''8'', CHR ''9'', CHR ''a'', CHR ''b''}" if "8 \<le> d" "d < 12" for d :: int
  proof -
    have "d \<in> {8, 9, 10, 11}" using that by auto
    then show ?thesis by (auto simp: hex_digits)
  qed
  from this [OF w] v have "?u ! 14 = CHR ''4''" "?u ! 19 \<in> {CHR ''8'', CHR ''9'', CHR ''a'', CHR ''b''}"
    by (simp_all add: hex_encode_def hex_digits)
  moreover have "new_uuid r = Inr ?u"
    using assms by (simp add: new_uuid_def b slice_def version_byte_def variant_byte_def Let_def)
  moreover have "length ?u = 36" "?u ! 8 = CHR ''-''" "?u ! 13 = CHR ''-''" "?u ! 18 = CHR ''-''"
    "?u ! 23 = CHR ''-''"
    by (simp_all add: hex_encode_def)
  ultimately show thesis by (intro that)
qed

section \<open>Properties\<close>

text \<open>
  a token of \<open>n\<close> bytes is their hexadecimal text, twice as long; distinct random bytes give
  distinct tokens, so a token loses no entropy.
\<close>

theorem token_shape:
  assumes "0 < n" "r n = Inr b" "r' n = Inr b'" "length b = nat n"
  shows "\<exists>t t'. new_token r n = Inr t \<and> new_token r' n = Inr t' \<and> length t = 2 * nat n
    \<and> (t = t' \<longleftrightarrow> b = b')"
  using assms by (simp add: new_token_def hex_encode_inject)

theorem token_shape_witness:
  "\<exists>t. new_token (\<lambda>n. Inr ''ab'') 2 = Inr t \<and> length t = 4"
  using token_shape [of 2 "\<lambda>n. Inr ''ab''" "''ab''" "\<lambda>n. Inr ''ab''" "''ab''"] by auto

text \<open>
  whatever the 16 random bytes are, the UUID has the RFC 4122 version 4 form: 36 characters,
  hyphens at 8, 13, 18 and 23, the version digit 4 and a variant digit among 8, 9, a, b.
\<close>

theorem uuid_shape:
  assumes "r 16 = Inr b" "length b = 16"
  shows "case new_uuid r of Inl e \<Rightarrow> False | Inr u \<Rightarrow>
     length u = 36 \<and> (\<forall>i. i = 8 \<or> i = 13 \<or> i = 18 \<or> i = 23 \<longrightarrow> u ! i = CHR ''-'')
     \<and> u ! 14 = CHR ''4'' \<and> u ! 19 \<in> {CHR ''8'', CHR ''9'', CHR ''a'', CHR ''b''}"
proof -
  obtain u where "new_uuid r = Inr u" "length u = 36" "u ! 8 = CHR ''-''" "u ! 13 = CHR ''-''"
    "u ! 18 = CHR ''-''" "u ! 23 = CHR ''-''" "u ! 14 = CHR ''4''"
    "u ! 19 \<in> {CHR ''8'', CHR ''9'', CHR ''a'', CHR ''b''}"
    using uuid_text [of r b, OF assms] by blast
  then show ?thesis by auto
qed

theorem uuid_shape_witness:
  "\<exists>u. new_uuid (\<lambda>n. Inr ''0123456789abcdef'') = Inr u \<and> u ! 14 = CHR ''4''"
  using uuid_shape [of "\<lambda>n. Inr ''0123456789abcdef''" "''0123456789abcdef''"]
  by (auto split: sum.splits)

end
