(* ===== verification/Base64.thy ===== *)
theory Base64
  imports GoText
begin

text \<open>
  \<^verbatim>\<open>base64.RawURLEncoding\<close>: the URL alphabet without padding, not strict.  The decoder skips
  carriage returns and line feeds wherever they stand and ignores the unused low bits of the
  last symbol.
\<close>

definition b64_char :: "int \<Rightarrow> char" where
  "b64_char n = (if n < 26 then chr (0x41 + n) else if n < 52 then chr (0x61 + (n - 26))
     else if n < 62 then chr (0x30 + (n - 52)) else if n = 62 then CHR ''-'' else CHR ''_'')"

definition b64_val :: "char \<Rightarrow> int option" where
  "b64_val c = (let b = byte c in
     if 0x41 \<le> b \<and> b \<le> 0x5A then Some (b - 0x41)
     else if 0x61 \<le> b \<and> b \<le> 0x7A then Some (b - 0x61 + 26)
     else if 0x30 \<le> b \<and> b \<le> 0x39 then Some (b - 0x30 + 52)
     else if c = CHR ''-'' then Some 62 else if c = CHR ''_'' then Some 63 else None)"

fun base64_url :: "string \<Rightarrow> string" where
  "base64_url [] = []"
| "base64_url [a] =
     [b64_char (byte a div 4), b64_char (byte a mod 4 * 16)]"
| "base64_url [a, b] =
     [b64_char (byte a div 4), b64_char (byte a mod 4 * 16 + byte b div 16),
      b64_char (byte b mod 16 * 4)]"
| "base64_url (a # b # c # s) =
     b64_char (byte a div 4) # b64_char (byte a mod 4 * 16 + byte b div 16)
     # b64_char (byte b mod 16 * 4 + byte c div 64) # b64_char (byte c mod 64) # base64_url s"

definition err_base64 :: gerror where
  "err_base64 = ErrText ''illegal base64 data''"

fun decode_quanta :: "int list \<Rightarrow> string res" where
  "decode_quanta [] = Inr []"
| "decode_quanta [p] = Inl err_base64"
| "decode_quanta [p, q] = Inr [chr (p * 4 + q div 16)]"
| "decode_quanta [p, q, r] = Inr [chr (p * 4 + q div 16), chr (q mod 16 * 16 + r div 4)]"
| "decode_quanta (p # q # r # t # s) =
     (case decode_quanta s of Inl e \<Rightarrow> Inl e
      | Inr u \<Rightarrow> Inr (chr (p * 4 + q div 16) # chr (q mod 16 * 16 + r div 4)
                  # chr (r mod 4 * 64 + t) # u))"

definition decode_base64_url :: "string \<Rightarrow> string res" where
  "decode_base64_url s =
     (let cs = filter (\<lambda>c. byte c \<noteq> 10 \<and> byte c \<noteq> 13) s in
      if list_all (\<lambda>c. b64_val c \<noteq> None) cs then decode_quanta (map (the \<circ> b64_val) cs)
      else Inl err_base64)"

lemma b64_val_char [simp]:
  assumes "0 \<le> n" "n < 64"
  shows "b64_val (b64_char n) = Some n"
proof -
  consider "n < 26" | "26 \<le> n" "n < 52" | "52 \<le> n" "n < 62" | "n = 62" | "n = 63"
    using assms by linarith
  then show ?thesis
  proof cases
    case 4
    then show ?thesis by (simp add: b64_char_def b64_val_def byte_def)
  next
    case 5
    then show ?thesis by (simp add: b64_char_def b64_val_def byte_def)
  qed (use assms in \<open>simp_all add: b64_char_def b64_val_def Let_def\<close>)
qed

lemma b64_char_byte:
  assumes "0 \<le> n" "n < 64"
  shows "byte (b64_char n) \<noteq> 10" "byte (b64_char n) \<noteq> 13" "b64_char n \<noteq> CHR ''.''"
  using assms b64_val_char [OF assms]
  by (auto simp: b64_val_def Let_def byte_def split: if_splits)

definition b64_symbol :: "char \<Rightarrow> bool" where
  "b64_symbol c \<longleftrightarrow> (\<exists>n. 0 \<le> n \<and> n < 64 \<and> c = b64_char n)"

lemma b64_symbolI [intro]: "0 \<le> n \<Longrightarrow> n < 64 \<Longrightarrow> b64_symbol (b64_char n)"
  by (auto simp: b64_symbol_def)

lemma byte_parts:
  "0 \<le> byte a div 4" "byte a div 4 < 64" "0 \<le> byte a div 16" "byte a div 16 < 16"
  "0 \<le> byte a div 64" "byte a div 64 < 4"
  using byte_range [of a] zdiv_mono1 [of "byte a" 255 4] zdiv_mono1 [of "byte a" 255 16]
    zdiv_mono1 [of "byte a" 255 64]
  by (simp_all add: pos_imp_zdiv_nonneg_iff)

lemma mod_parts: "0 \<le> (x :: int) mod 4" "x mod 4 < 4" "0 \<le> x mod 16" "x mod 16 < 16"
  by simp_all

lemma b64_sextets:
  "0 \<le> byte a mod 4 * 16" "byte a mod 4 * 16 < 64"
  "0 \<le> byte a mod 4 * 16 + byte b div 16" "byte a mod 4 * 16 + byte b div 16 < 64"
  "0 \<le> byte a mod 16 * 4" "byte a mod 16 * 4 < 64"
  "0 \<le> byte a mod 16 * 4 + byte b div 64" "byte a mod 16 * 4 + byte b div 64 < 64"
  using byte_parts [of a] byte_parts [of b] mod_parts [of "byte a"] by linarith+

lemmas b64_ranges = b64_sextets byte_parts mod_64_bounds

lemma base64_url_symbols: "list_all b64_symbol (base64_url s)"
  by (induction s rule: base64_url.induct) (auto intro!: b64_symbolI b64_ranges)

lemma radix_join: "0 \<le> y \<Longrightarrow> y < k \<Longrightarrow> (x * k + y) div k = x \<and> (x * k + y) mod k = (y :: int)"
  by (simp add: div_pos_pos_trivial mod_pos_pos_trivial)

lemma quarter_split: "(x :: int) div 4 * 4 + x mod 4 = x" "x div 16 * 16 + x mod 16 = x"
  "x div 64 * 64 + x mod 64 = x"
  by simp_all

lemma scaled_split: "(x * 16) div 16 = (x :: int)" "(x * 4) div 4 = x"
  by simp_all

lemma mixed_join:
  assumes "0 \<le> y" "y < 4"
  shows "(x * 4 + y) div 4 = (x :: int)" "(x * 4 + y) mod 4 = y"
  using radix_join [OF assms] by simp_all

lemma sextet_join:
  "byte a div 4 * 4 + byte a mod 4 * 16 div 16 = byte a"
  "byte a div 4 * 4 + (byte a mod 4 * 16 + byte b div 16) div 16 = byte a"
  "(byte a mod 4 * 16 + byte b div 16) mod 16 * 16 + byte b mod 16 * 4 div 4 = byte b"
  "(byte a mod 4 * 16 + byte b div 16) mod 16 * 16 + (byte b mod 16 * 4 + byte c div 64) div 4
     = byte b"
  "(byte b mod 16 * 4 + byte c div 64) mod 4 * 64 + byte c mod 64 = byte c"
  by (simp_all only: scaled_split radix_join [OF byte_parts(3,4)] mixed_join [OF byte_parts(5,6)]
      quarter_split)

lemma the_b64_val: "0 \<le> n \<Longrightarrow> n < 64 \<Longrightarrow> the (b64_val (b64_char n)) = n"
  by (simp only: b64_val_char option.sel)

lemmas quantum_simps =
  base64_url.simps decode_quanta.simps list.map comp_apply the_b64_val b64_ranges sextet_join
  chr_byte sum.case

lemma decode_quanta_base64_url:
  "decode_quanta (map (the \<circ> b64_val) (base64_url s)) = Inr s"
proof (induction s rule: base64_url.induct)
  case (4 a b c s)
  then show ?case by (simp only: quantum_simps)
qed (simp_all only: quantum_simps)

text \<open>What the encoder writes has no separator byte and reads back to the input.\<close>

lemma b64_symbol_props:
  "b64_symbol c \<Longrightarrow> c \<noteq> CHR ''.'' \<and> byte c \<noteq> 10 \<and> byte c \<noteq> 13 \<and> b64_val c \<noteq> None"
  by (auto simp: b64_symbol_def b64_char_byte)

lemma base64_url_no_dot: "CHR ''.'' \<notin> set (base64_url s)"
  using base64_url_symbols [of s] b64_symbol_props by (auto simp: list_all_iff)

lemma decode_encode_base64: "decode_base64_url (base64_url s) = Inr s"
proof -
  have "filter (\<lambda>c. byte c \<noteq> 10 \<and> byte c \<noteq> 13) (base64_url s) = base64_url s"
    using base64_url_symbols [of s] b64_symbol_props
    by (auto simp: list_all_iff intro!: filter_True)
  moreover have "list_all (\<lambda>c. b64_val c \<noteq> None) (base64_url s)"
    using base64_url_symbols [of s] b64_symbol_props by (auto simp: list_all_iff)
  ultimately show ?thesis
    by (simp add: decode_base64_url_def decode_quanta_base64_url)
qed

end
