(* ===== verification/Jwt.thy ===== *)
theory Jwt
  imports Json Base64 Sha256 Domain
begin

text \<open>
  \<^verbatim>\<open>internal/auth/jwt\<close>: HS256 tokens.  The clock is the time passed in.  \<^verbatim>\<open>json.Marshal\<close> of the
  two structures and \<^verbatim>\<open>mac.Write\<close> cannot fail, so signing is total.
\<close>

record hs256_signer =
  secret :: string

definition new_hs256 :: "string \<Rightarrow> hs256_signer res" where
  "new_hs256 key =
     (if length key < 32 then Inl (ErrText ''jwt secret too short (need >= 32 bytes)'')
      else Inr \<lparr>secret = key\<rparr>)"

record jwt_header =
  hd_alg :: string
  hd_typ :: string

record jwt_payload =
  jp_sub :: int
  jp_iss :: string
  jp_aud :: string
  jp_iat :: int
  jp_exp :: int
  jp_jti :: string

definition header_json :: "jwt_header \<Rightarrow> json" where
  "header_json h = JObj [(''alg'', JStr (hd_alg h)), (''typ'', JStr (hd_typ h))]"

definition payload_json :: "jwt_payload \<Rightarrow> json" where
  "payload_json p = JObj [(''sub'', JNum (itoa (jp_sub p))), (''iss'', JStr (jp_iss p)),
     (''aud'', JStr (jp_aud p)), (''iat'', JNum (itoa (jp_iat p))),
     (''exp'', JNum (itoa (jp_exp p))), (''jti'', JStr (jp_jti p))]"

definition header_fields :: "(string \<times> (json \<Rightarrow> jwt_header \<Rightarrow> jwt_header option)) list" where
  "header_fields = [(''alg'', string_field (\<lambda>s h. h\<lparr>hd_alg := s\<rparr>)),
     (''typ'', string_field (\<lambda>s h. h\<lparr>hd_typ := s\<rparr>))]"

definition payload_fields :: "(string \<times> (json \<Rightarrow> jwt_payload \<Rightarrow> jwt_payload option)) list" where
  "payload_fields = [(''sub'', int_field (\<lambda>n p. p\<lparr>jp_sub := n\<rparr>)),
     (''iss'', string_field (\<lambda>s p. p\<lparr>jp_iss := s\<rparr>)), (''aud'', string_field (\<lambda>s p. p\<lparr>jp_aud := s\<rparr>)),
     (''iat'', int_field (\<lambda>n p. p\<lparr>jp_iat := n\<rparr>)), (''exp'', int_field (\<lambda>n p. p\<lparr>jp_exp := n\<rparr>)),
     (''jti'', string_field (\<lambda>s p. p\<lparr>jp_jti := s\<rparr>))]"

definition zero_header :: jwt_header where
  "zero_header = \<lparr>hd_alg = [], hd_typ = []\<rparr>"

definition zero_payload :: jwt_payload where
  "zero_payload = \<lparr>jp_sub = 0, jp_iss = [], jp_aud = [], jp_iat = 0, jp_exp = 0, jp_jti = []\<rparr>"

definition sign :: "hs256_signer \<Rightarrow> jwt_claims \<Rightarrow> string" where
  "sign s c =
     (let hdr = print_json (header_json \<lparr>hd_alg = ''HS256'', hd_typ = ''JWT''\<rparr>);
          pl = print_json (payload_json \<lparr>jp_sub = jc_subject c, jp_iss = jc_issuer c,
                 jp_aud = jc_audience c, jp_iat = unix (jc_issued_at c),
                 jp_exp = unix (jc_expires_at c), jp_jti = jc_jti c\<rparr>);
          signing_input = base64_url hdr @ ''.'' @ base64_url pl
      in signing_input @ ''.'' @ base64_url (hmac_sha256 (secret s) signing_input))"

definition parse_segments :: "hs256_signer \<Rightarrow> time \<Rightarrow> string \<Rightarrow> string \<Rightarrow> string \<Rightarrow> jwt_claims res" where
  "parse_segments s now h p g =
     (case decode_base64_url h of
        Inl e \<Rightarrow> Inl (ErrWrap ''jwt header decode'' e)
      | Inr raw_header \<Rightarrow> (case unmarshal header_fields zero_header raw_header of
        Inl e \<Rightarrow> Inl (ErrWrap ''jwt header unmarshal'' e)
      | Inr hdr \<Rightarrow>
        if hd_alg hdr \<noteq> ''HS256'' then Inl (ErrText ''jwt: unexpected alg'')
        else if hd_typ hdr \<noteq> [] \<and> hd_typ hdr \<noteq> ''JWT'' then Inl (ErrText ''jwt: unexpected typ'')
        else (case decode_base64_url g of
        Inl e \<Rightarrow> Inl (ErrWrap ''jwt sig decode'' e)
      | Inr sig \<Rightarrow>
        if sig \<noteq> hmac_sha256 (secret s) (h @ ''.'' @ p) then Inl (ErrText ''jwt: signature mismatch'')
        else (case decode_base64_url p of
        Inl e \<Rightarrow> Inl (ErrWrap ''jwt payload decode'' e)
      | Inr raw_payload \<Rightarrow> (case unmarshal payload_fields zero_payload raw_payload of
        Inl e \<Rightarrow> Inl (ErrWrap ''jwt payload unmarshal'' e)
      | Inr pl \<Rightarrow>
        if \<not> now < of_unix (jp_exp pl) then Inl (ErrText ''jwt: token expired'')
        else Inr \<lparr>jc_subject = jp_sub pl, jc_issuer = jp_iss pl, jc_audience = jp_aud pl,
               jc_issued_at = of_unix (jp_iat pl), jc_expires_at = of_unix (jp_exp pl),
               jc_jti = jp_jti pl\<rparr>)))))"

definition parse :: "hs256_signer \<Rightarrow> time \<Rightarrow> string \<Rightarrow> jwt_claims res" where
  "parse s now token =
     (case split_at CHR ''.'' token of
        [h, p, g] \<Rightarrow> parse_segments s now h p g
      | _ \<Rightarrow> Inl (ErrText ''jwt: token must have 3 segments''))"

section \<open>The structures read back\<close>

lemma payload_text:
  assumes "in_i64 (jp_sub p)" "in_i64 (jp_iat p)" "in_i64 (jp_exp p)"
    and "well_formed (jp_iss p)" "well_formed (jp_aud p)" "well_formed (jp_jti p)"
  shows "unmarshal payload_fields zero_payload (print_json (payload_json p)) = Inr p"
proof -
  have "json_ok (payload_json p)" using assms(1-3) by (simp add: payload_json_def)
  moreover have "clean_text ''sub'' = ''sub''" "clean_text ''iss'' = ''iss''"
    "clean_text ''aud'' = ''aud''" "clean_text ''iat'' = ''iat''" "clean_text ''exp'' = ''exp''"
    "clean_text ''jti'' = ''jti''"
    by (simp_all add: clean_text_ascii byte_def)
  then have "clean (payload_json p) = payload_json p"
    using assms(4-6) by (simp add: payload_json_def well_formed_def)
  moreover have "decode_struct payload_fields (payload_json p) zero_payload = Some p"
    using assms(1-3)
    by (simp add: decode_struct_def payload_json_def payload_fields_def pick_field_def
        int_field_def string_field_def atoi_itoa zero_payload_def)
  ultimately show ?thesis by (simp add: unmarshal_def parse_print)
qed

lemma header_text:
  "unmarshal header_fields zero_header (print_json (header_json \<lparr>hd_alg = ''HS256'', hd_typ = ''JWT''\<rparr>))
    = Inr \<lparr>hd_alg = ''HS256'', hd_typ = ''JWT''\<rparr>"
proof -
  let ?h = "header_json \<lparr>hd_alg = ''HS256'', hd_typ = ''JWT''\<rparr>"
  have "json_ok ?h" by (simp add: header_json_def)
  moreover have "clean ?h = ?h" by (simp add: header_json_def clean_text_ascii byte_def)
  moreover have "decode_struct header_fields ?h zero_header = Some \<lparr>hd_alg = ''HS256'', hd_typ = ''JWT''\<rparr>"
    by (simp add: decode_struct_def header_json_def header_fields_def pick_field_def
        string_field_def zero_header_def)
  ultimately show ?thesis by (simp add: unmarshal_def parse_print)
qed

definition claims_ok :: "jwt_claims \<Rightarrow> bool" where
  "claims_ok c \<longleftrightarrow> in_i64 (jc_subject c) \<and> in_i64 (unix (jc_issued_at c))
     \<and> in_i64 (unix (jc_expires_at c)) \<and> well_formed (jc_issuer c) \<and> well_formed (jc_audience c)
     \<and> well_formed (jc_jti c)"

text \<open>Times are cut to seconds on the way.\<close>

definition whole_seconds :: "jwt_claims \<Rightarrow> jwt_claims" where
  "whole_seconds c = c\<lparr>jc_issued_at := of_unix (unix (jc_issued_at c)),
     jc_expires_at := of_unix (unix (jc_expires_at c))\<rparr>"

lemma parse_sign:
  assumes "claims_ok c"
  shows "parse s now (sign s c) =
    (if now < of_unix (unix (jc_expires_at c)) then Inr (whole_seconds c)
     else Inl (ErrText ''jwt: token expired''))"
proof -
  let ?hdr = "print_json (header_json \<lparr>hd_alg = ''HS256'', hd_typ = ''JWT''\<rparr>)"
  let ?p = "\<lparr>jp_sub = jc_subject c, jp_iss = jc_issuer c, jp_aud = jc_audience c,
    jp_iat = unix (jc_issued_at c), jp_exp = unix (jc_expires_at c), jp_jti = jc_jti c\<rparr>"
  let ?pl = "print_json (payload_json ?p)"
  let ?in = "base64_url ?hdr @ ''.'' @ base64_url ?pl"
  let ?sig = "hmac_sha256 (secret s) ?in"
  have "sign s c = join ''.'' [base64_url ?hdr, base64_url ?pl, base64_url ?sig]"
    by (simp add: sign_def Let_def)
  then have "split_at CHR ''.'' (sign s c) = [base64_url ?hdr, base64_url ?pl, base64_url ?sig]"
    by (simp only:) (rule split_at_join, simp_all add: base64_url_no_dot)
  moreover have "unmarshal payload_fields zero_payload ?pl = Inr ?p"
    using assms by (intro payload_text) (simp_all add: claims_ok_def)
  ultimately show ?thesis
    by (simp add: parse_def parse_segments_def decode_encode_base64 header_text whole_seconds_def)
qed

text \<open>Whatever is accepted carries the MAC of its own first two segments and is not expired.\<close>

lemma parse_authentic:
  assumes "parse s now tok = Inr c"
  obtains h p g where "tok = h @ ''.'' @ p @ ''.'' @ g"
    "decode_base64_url g = Inr (hmac_sha256 (secret s) (h @ ''.'' @ p))" "now < jc_expires_at c"
proof -
  obtain h p g where seg: "split_at CHR ''.'' tok = [h, p, g]" "parse_segments s now h p g = Inr c"
    using assms by (auto simp: parse_def split: list.splits)
  have "tok = h @ ''.'' @ p @ ''.'' @ g" using join_split_at [of "CHR ''.''" tok] seg(1) by simp
  moreover have "decode_base64_url g = Inr (hmac_sha256 (secret s) (h @ ''.'' @ p))"
    and "now < jc_expires_at c"
    using seg(2) by (auto simp: parse_segments_def split: sum.splits if_splits)
  ultimately show thesis by (rule that)
qed

section \<open>Properties\<close>

text \<open>
  C38: a token parses back to the claims it was signed from, times cut to seconds, exactly until
  the expiry second; from then on it is rejected as expired.
\<close>

theorem jwt_round_trip:
  assumes "claims_ok c"
  shows "parse s now (sign s c) =
    (if now < of_unix (unix (jc_expires_at c)) then Inr (whole_seconds c)
     else Inl (ErrText ''jwt: token expired''))"
  by (rule parse_sign) (rule assms)

theorem jwt_round_trip_witness:
  "\<forall>s. parse s 0 (sign s \<lparr>jc_subject = 7, jc_issuer = ''boki3-quiz'', jc_audience = ''api'',
      jc_issued_at = 0, jc_expires_at = 3600 * second, jc_jti = ''j''\<rparr>)
   = Inr \<lparr>jc_subject = 7, jc_issuer = ''boki3-quiz'', jc_audience = ''api'',
      jc_issued_at = 0, jc_expires_at = 3600 * second, jc_jti = ''j''\<rparr>"
  by (intro allI, subst jwt_round_trip)
    (simp_all add: claims_ok_def in_i64_def unix_def of_unix_def well_formed_def clean_text_ascii
      byte_def whole_seconds_def)

text \<open>
  C39: nothing is accepted without the key: an accepted token is three segments whose last one
  decodes to the HMAC-SHA256 of the first two under the signer's secret, and it is not expired.
\<close>

theorem jwt_authentic:
  assumes "parse s now tok = Inr c"
  shows "\<exists>h p g. tok = h @ ''.'' @ p @ ''.'' @ g
    \<and> decode_base64_url g = Inr (hmac_sha256 (secret s) (h @ ''.'' @ p)) \<and> now < jc_expires_at c"
  by (rule parse_authentic [OF assms]) blast

theorem jwt_authentic_witness:
  "\<forall>s. \<exists>h p g. sign s \<lparr>jc_subject = 7, jc_issuer = [], jc_audience = [], jc_issued_at = 0,
      jc_expires_at = second, jc_jti = []\<rparr> = h @ ''.'' @ p @ ''.'' @ g
    \<and> decode_base64_url g = Inr (hmac_sha256 (secret s) (h @ ''.'' @ p))"
proof
  fix s
  let ?c = "\<lparr>jc_subject = 7, jc_issuer = [], jc_audience = [], jc_issued_at = 0,
      jc_expires_at = second, jc_jti = []\<rparr>"
  have "parse s 0 (sign s ?c) = Inr (whole_seconds ?c)"
    by (subst parse_sign)
      (simp_all add: claims_ok_def in_i64_def unix_def of_unix_def well_formed_def clean_text_ascii)
  from jwt_authentic [OF this]
  show "\<exists>h p g. sign s ?c = h @ ''.'' @ p @ ''.'' @ g
    \<and> decode_base64_url g = Inr (hmac_sha256 (secret s) (h @ ''.'' @ p))" by blast
qed

end
