(* ===== verification/SignIn.thy ===== *)
theory SignIn
  imports Auth AccountStore Password Idgen Jwt
begin

text \<open>
  The account services on the concrete parts the server wires together in
  \<^verbatim>\<open>cmd/boki3-quiz/main.go\<close>: the SQLite repositories, the scrypt hasher, the random tokens and
  the HS256 signer.
\<close>

section \<open>The concrete parts behind the interfaces\<close>

definition scrypt_hasher :: "kdf \<Rightarrow> scrypt_params \<Rightarrow> password_hasher" where
  "scrypt_hasher scrypt p = \<lparr>hash_plain = \<lambda>rand plain. hash_password scrypt rand p plain,
     verify_plain = verify_password scrypt\<rparr>"

definition crypto_gen :: id_generator where
  "crypto_gen = \<lparr>gen_token = new_token, gen_uuid = new_uuid\<rparr>"

definition hs256_port :: "hs256_signer \<Rightarrow> jwt_signer" where
  "hs256_port s = \<lparr>sign_claims = \<lambda>c. Inr (sign s c), parse_token = parse s\<rparr>"

definition new_auth_service :: "kdf \<Rightarrow> scrypt_params \<Rightarrow> auth_config \<Rightarrow> time \<Rightarrow> db auth_service" where
  "new_auth_service scrypt p cfg wall = \<lparr>au_users = sqlite_users wall,
     au_sessions = sqlite_sessions wall, au_jwts = sqlite_jwts wall, au_hasher = scrypt_hasher scrypt p,
     au_idgen = crypto_gen, au_cfg = cfg\<rparr>"

definition new_api_auth_service :: "hs256_signer \<Rightarrow> string \<Rightarrow> string \<Rightarrow> time \<Rightarrow> db api_auth_service" where
  "new_api_auth_service s issuer audience wall = \<lparr>aa_signer = hs256_port s,
     aa_jwts = sqlite_jwts wall, aa_idgen = crypto_gen, aa_issuer = issuer, aa_audience = audience\<rparr>"

lemma new_auth_service_simps [simp]:
  "au_users (new_auth_service k p c w) = sqlite_users w"
  "au_sessions (new_auth_service k p c w) = sqlite_sessions w"
  "au_jwts (new_auth_service k p c w) = sqlite_jwts w"
  "hash_plain (au_hasher (new_auth_service k p c w)) = (\<lambda>r. hash_password k r p)"
  "verify_plain (au_hasher (new_auth_service k p c w)) = verify_password k"
  "gen_token (au_idgen (new_auth_service k p c w)) = new_token"
  "au_cfg (new_auth_service k p c w) = c"
  by (simp_all add: new_auth_service_def scrypt_hasher_def crypto_gen_def)

lemma new_api_auth_service_simps [simp]:
  "aa_jwts (new_api_auth_service s i au w) = sqlite_jwts w"
  "parse_token (aa_signer (new_api_auth_service s i au w)) = parse s"
  "sign_claims (aa_signer (new_api_auth_service s i au w)) = (\<lambda>c. Inr (sign s c))"
  "gen_uuid (aa_idgen (new_api_auth_service s i au w)) = new_uuid"
  "aa_issuer (new_api_auth_service s i au w) = i" "aa_audience (new_api_auth_service s i au w) = au"
  by (simp_all add: new_api_auth_service_def hs256_port_def crypto_gen_def)

section \<open>Any outcome of an operation\<close>

context account_store
begin

lemma change_password_any:
  assumes "ok s" "au_users a = repo" "au_sessions a = sess" "au_jwts a = jwts"
    and "change_password a now rand uid cur new keep s = (r, s')"
  shows "ok s' \<and> (\<forall>i. map_option u_username (account s' i) = map_option u_username (account s i))
    \<and> revoked s \<subseteq> revoked s'"
proof -
  obtain r1 s1 where f: "usr_find_by_id repo uid s = (r1, s1)" by fastforce
  have 1: "ok s1" "account s1 = account s" "revoked s1 = revoked s"
    using find_by_id [OF assms(1) f] user_find_id_frame [OF f] by auto
  define del where "del = (\<lambda>t. if keep \<noteq> [] then ses_delete_all_for_user_except sess uid keep t
    else ses_delete_all_for_user sess uid t)"
  have del_eq: "(if keep \<noteq> [] then ses_delete_all_for_user_except sess uid keep t
    else ses_delete_all_for_user sess uid t) = del t" for t by (simp add: del_def)
  have "s' = s \<or> s' = s1 \<or> (\<exists>h sl p n2 s2. usr_update_password repo uid h sl p now s1 = (n2, s2)
      \<and> (s' = s2 \<or> (\<exists>n3 s3. del s2 = (n3, s3)
        \<and> (s' = s3 \<or> (\<exists>n4. jrv_revoke_all_for_user jwts uid now s3 = (n4, s'))))))"
    using assms(5) f unfolding change_password_def assms(2-4) del_eq
    by (auto split: sum.splits prod.splits bool.splits) blast+
  then consider "s' = s" | "s' = s1" | h sl p n2 s2 where
      "usr_update_password repo uid h sl p now s1 = (n2, s2)"
      "s' = s2 \<or> (\<exists>n3 s3. del s2 = (n3, s3)
        \<and> (s' = s3 \<or> (\<exists>n4. jrv_revoke_all_for_user jwts uid now s3 = (n4, s'))))" by blast
  then show ?thesis
  proof cases
    case (3 h sl p n2 s2)
    have 2: "ok s2" "revoked s2 = revoked s"
        "\<forall>i. map_option u_username (account s2 i) = map_option u_username (account s i)"
      using update_error [OF 1(1)] update_done [OF 1(1)] user_update_frame 3(1) 1
      by (cases n2; fastforce simp: with_password_def)+
    have dels: "ok s3 \<and> account s3 = account s2 \<and> revoked s3 = revoked s2"
      if "del s2 = (n3, s3)" for n3 s3
      using that [unfolded del_def] session_delete_except_error [OF 2(1)] session_delete_except_done [OF 2(1)]
        session_delete_all_error [OF 2(1)] session_delete_all_done [OF 2(1)]
        session_delete_all_frame session_delete_except_frame
      by (cases n3; cases "keep = []"; simp; metis)
    have jwt: "ok s' \<and> account s' = account s3 \<and> revoked s3 \<subseteq> revoked s'"
      if "ok s3" "jrv_revoke_all_for_user jwts uid now s3 = (n4, s')" for n4 s3
      using revoke_all_frame [OF that] revoke_all [OF that(2)] by blast
    obtain n3 s3 where d: "del s2 = (n3, s3)" by fastforce
    note s3 = dels [OF d]
    from 3(2) d consider "s' = s2" | "s' = s3" | n4 where "jrv_revoke_all_for_user jwts uid now s3 = (n4, s')"
      by auto
    then show ?thesis
    proof cases
      case (3 n4)
      with jwt [OF _ 3] s3 2 show ?thesis by auto
    qed (use 2 s3 in auto)
  qed (use assms(1) 1 in auto)
qed

lemma login_any:
  assumes "ok s" "au_users a = repo" "au_sessions a = sess"
    and "login a now r1 r2 name plain ua ip s = (r, s')"
  shows "ok s' \<and> account s' = account s \<and> revoked s' = revoked s"
proof (cases r)
  case (Inl e)
  with login_denied [OF assms(1-3)] assms(4) show ?thesis by blast
next
  case (Inr x)
  with login_done [OF assms(1-3)] assms(4) show ?thesis by metis
qed

lemma logout_any:
  assumes "ok s" "au_sessions a = sess" "logout a sid s = (r, s')"
  shows "ok s' \<and> account s' = account s \<and> revoked s' = revoked s
    \<and> (\<forall>x. r = Inr x \<longrightarrow> live s' sid = None)"
  using assms session_delete_error [OF assms(1)] session_delete_done [OF assms(1)] session_delete_frame
  by (cases r) (fastforce simp: logout_def)+

lemma session_by_id_any:
  assumes "ok s" "au_users a = repo" "au_sessions a = sess"
    and "session_by_id a now now' sid s = (r, s')"
  shows "ok s' \<and> account s' = account s \<and> revoked s' = revoked s"
proof -
  obtain q s1 where f: "ses_find_by_id sess sid s = (q, s1)" by fastforce
  have 1: "ok s1" "account s1 = account s" "revoked s1 = revoked s"
    using session_find [OF assms(1) f] session_find_frame [OF f] by auto
  have find: "ok s2 \<and> account s2 = account s \<and> revoked s2 = revoked s"
    if "usr_find_by_id repo i s1 = (ru, s2)" for i ru s2
    using find_by_id [OF 1(1) that] user_find_id_frame [OF that] 1 by auto
  have delete: "ok (snd (ses_delete sess sid s2)) \<and> account (snd (ses_delete sess sid s2)) = account s2
      \<and> revoked (snd (ses_delete sess sid s2)) = revoked s2" if "ok s2" for s2
    using session_delete_error [OF that] session_delete_done [OF that] session_delete_frame
    by (cases "ses_delete sess sid s2"; cases "fst (ses_delete sess sid s2)"; simp; metis)
  have touch: "ok (snd (ses_touch sess sid now' s2)) \<and> account (snd (ses_touch sess sid now' s2)) = account s2
      \<and> revoked (snd (ses_touch sess sid now' s2)) = revoked s2" if "ok s2" for s2
    using session_touch_error [OF that] session_touch_done [OF that] session_touch_frame
    by (cases "ses_touch sess sid now' s2"; cases "fst (ses_touch sess sid now' s2)"; simp; metis)
  have "s' = s1 \<or> s' = snd (ses_delete sess sid s1)
      \<or> (\<exists>i ru s2. usr_find_by_id repo i s1 = (ru, s2) \<and> (s' = s2 \<or> s' = snd (ses_touch sess sid now' s2)))"
    using assms(2-4) f by (auto simp: session_by_id_def split: sum.splits prod.splits if_splits)
  then show ?thesis using 1 find delete [OF 1(1)] touch by metis
qed

end

text \<open>All three on the one database.\<close>

interpretation sqlite_account_store: account_store "sqlite_users wall" account_of accounts_ok
    "sqlite_sessions wall" session_of "sqlite_jwts wall" revoked_jtis
  apply unfold_locales
              apply (simp_all only: sqlite_users_def sqlite_sessions_def sqlite_jwts_def
        user_port.simps session_port.simps jwt_revocation_port.simps)
              apply (blast dest: user_create_frame_views)
             apply (blast dest: user_find_name_views views_same)
            apply (blast dest: user_find_id_views views_same)
           apply (blast dest: user_update_frame_views)
          apply (blast dest: session_create_frame_views)
         apply (blast dest: session_find_views views_same)
        apply (blast dest: session_touch_frame_views)
       apply (blast dest: deletes_views [OF session_deletes(1)])
      apply (blast dest: deletes_views [OF session_deletes(2)])
     apply (blast dest: deletes_views [OF session_deletes(3)])
    apply (blast dest: jwt_revoke_views)
   apply (blast dest: jwt_is_revoked_views views_same)
  apply (blast dest: jwt_revoke_all_views)
  done

section \<open>When the engine works\<close>

lemma find_name:
  assumes "accounts_ok d" "account_of d i = Some u"
  shows "List.find (\<lambda>v. nocase (u_username v) = nocase (u_username u)) (users d) = Some u"
  using row_key [of "nocase \<circ> u_username" "users d" u] assms
  by (auto simp: accounts_ok_def account_of_Some)

lemma user_find_name_runs:
  "accounts_ok d \<Longrightarrow> faults d = [] \<Longrightarrow> account_of d i = Some u \<Longrightarrow> nocase name = nocase (u_username u)
    \<Longrightarrow> user_find_by_username name d = (Inr u, d)"
  by (simp add: user_find_by_username_def query_row_no_faults find_name scan_user_def)

lemma user_find_id_runs:
  "faults d = [] \<Longrightarrow> account_of d i = Some u \<Longrightarrow> user_find_by_id i d = (Inr u, d)"
  by (simp add: user_find_by_id_def query_row_no_faults account_of_def scan_user_def)

lemma session_find_runs:
  "faults d = [] \<Longrightarrow> session_of d i = Some x \<Longrightarrow> session_find_by_id i d = (Inr x, d)"
  by (simp add: session_find_by_id_def query_row_no_faults session_of_def)

lemma is_revoked_runs:
  "faults d = [] \<Longrightarrow> jwt_is_revoked j d = (Inr (j \<in> revoked_jtis d), d)"
  by (auto simp: jwt_is_revoked_def query_row_no_faults revoked_jtis_def row_None dest: row_Some
      split: option.splits)

lemma session_create_runs:
  assumes "accounts_ok d" "faults d = []" "session_of d (s_id x) = None"
    and "account_of d (s_user_id x) = Some u"
  obtains y d' where "session_create wall x d = (Inr y, d')" "faults d' = []"
proof -
  have "s_id x \<notin> s_id ` set (sessions d)" using assms(3) by (simp add: session_of_def row_None)
  moreover have "s_user_id x \<in> u_id ` set (users d)"
    using assms(1,4) by (force simp: account_of_Some)
  ultimately have "\<exists>y d'. session_create wall x d = (Inr y, d') \<and> faults d' = []"
    using assms(2) by (simp add: session_create_def insert_session_def statement_no_faults Let_def)
  then show thesis using that by blast
qed

section \<open>The invariant of the account tables\<close>

text \<open>One operation of the server on the account tables, with any arguments and any outcome.\<close>

inductive account_step :: "kdf \<Rightarrow> scrypt_params \<Rightarrow> auth_config \<Rightarrow> db \<Rightarrow> db \<Rightarrow> bool"
  for k :: kdf and p :: scrypt_params and c :: auth_config where
  step_register:
    "register (new_auth_service k p c wall) now rand name plain d = (ru, d') \<Longrightarrow> account_step k p c d d'"
| step_login:
    "login (new_auth_service k p c wall) now r1 r2 name plain ua ip d = (rx, d') \<Longrightarrow> account_step k p c d d'"
| step_logout:
    "logout (new_auth_service k p c wall) sid d = (rn, d') \<Longrightarrow> account_step k p c d d'"
| step_change:
    "change_password (new_auth_service k p c wall) now rand uid cur new keep d = (rn, d')
     \<Longrightarrow> account_step k p c d d'"
| step_session:
    "session_by_id (new_auth_service k p c wall) now now' sid d = (rp, d') \<Longrightarrow> account_step k p c d d'"
| step_verify:
    "verify_token (new_api_auth_service s iss aud wall) now now' tok d = (ri, d') \<Longrightarrow> account_step k p c d d'"
| step_revoke:
    "revoke_token (new_api_auth_service s iss aud wall) jti uid t d = (rn, d') \<Longrightarrow> account_step k p c d d'"
| step_prefs: "prefs_upsert q d = (rn, d') \<Longrightarrow> account_step k p c d d'"
| step_purge_sessions: "session_purge_expired now d = (ri, d') \<Longrightarrow> account_step k p c d d'"
| step_purge_tokens: "jwt_purge_expired now d = (ri, d') \<Longrightarrow> account_step k p c d d'"

lemma prefs_upsert_ok:
  assumes "accounts_ok d" "prefs_upsert q d = (r, d')"
  shows "accounts_ok d' \<and> account_of d' = account_of d"
proof -
  obtain n where "statement (upsert_prefs q) d = (n, d')"
    using assms(2) by (auto simp: prefs_upsert_def split: prod.splits sum.splits)
  then show ?thesis
  proof (cases rule: statement_cases)
    case (fault e)
    with assms(1) views_same show ?thesis by simp
  next
    case (run d1)
    let ?row = "q\<lparr>up_updated_at := secs (up_updated_at q)\<rparr>"
    let ?g = "\<lambda>x. if up_user_id x = up_user_id q then ?row else x"
    have ok1: "accounts_ok d1" "account_of d1 = account_of d"
      using assms(1) views_same [OF run(1)] by simp_all
    have key: "up_user_id (?g x) = up_user_id x" for x by simp
    have "accounts_ok (d1\<lparr>prefs := map ?g (prefs d1)\<rparr>)"
      using ok1 by (simp add: accounts_ok_def comp_def key del: if_image_distrib)
    moreover have "accounts_ok (d1\<lparr>prefs := prefs d1 @ [?row]\<rparr>)"
      if "up_user_id q \<notin> up_user_id ` set (prefs d1)" "up_user_id q \<in> u_id ` set (users d1)"
      using ok1 that by (simp add: accounts_ok_def)
    ultimately show ?thesis
      using run(2) ok1 by (auto simp: upsert_prefs_def Let_def account_of_def split: if_splits)
  qed
qed

lemma jwt_purge_ok:
  assumes "accounts_ok d" "jwt_purge_expired now d = (r, d')"
  shows "accounts_ok d' \<and> account_of d' = account_of d"
proof -
  let ?P = "\<lambda>r. unix (rv_expires_at r) \<le> unix now"
  obtain n where "statement (\<lambda>d. (Inr (int (length (filter ?P (revocations d)))) :: int res,
      d\<lparr>revocations := filter (\<lambda>r. \<not> ?P r) (revocations d)\<rparr>)) d = (n, d')"
    using assms(2) by (auto simp: jwt_purge_expired_def Let_def split: prod.splits sum.splits)
  then show ?thesis
  proof (cases rule: statement_cases)
    case (fault e)
    with assms(1) views_same show ?thesis by simp
  next
    case (run d1)
    have "accounts_ok d1" "account_of d1 = account_of d"
      using assms(1) views_same [OF run(1)] by simp_all
    with run(2) show ?thesis by (auto simp: accounts_ok_def account_of_def distinct_map_filter)
  qed
qed

lemma deletes_ok:
  assumes "accounts_ok d" "deletes P f" "f d = (r, d')"
  shows "accounts_ok d' \<and> account_of d' = account_of d"
  using deletes_views [OF assms(2,3)] views_same [of d d'] assms(1) by (cases r) auto

text \<open>No account disappears and none changes its name.\<close>

definition names_kept :: "db \<Rightarrow> db \<Rightarrow> bool" where
  "names_kept d d' \<longleftrightarrow> (\<forall>i u. account_of d i = Some u \<longrightarrow>
     (\<exists>u'. account_of d' i = Some u' \<and> u_username u' = u_username u))"

lemma names_kept_same: "account_of d' = account_of d \<Longrightarrow> names_kept d d'"
  by (simp add: names_kept_def)

lemma names_kept_trans: "names_kept d d1 \<Longrightarrow> names_kept d1 d2 \<Longrightarrow> names_kept d d2"
  unfolding names_kept_def by metis

lemma names_kept_map:
  "(\<forall>i. map_option u_username (account_of d' i) = map_option u_username (account_of d i)) \<Longrightarrow> names_kept d d'"
  unfolding names_kept_def by (metis map_option_eq_Some)

lemma account_step_ok:
  assumes "account_step k p c d d'" "accounts_ok d"
  shows "accounts_ok d' \<and> names_kept d d'"
  using assms
proof (cases rule: account_step.cases)
  case (step_register wall now rand name plain ru)
  show ?thesis
  proof (cases ru)
    case (Inl e)
    with sqlite_account_store.register_error [OF assms(2) _ step_register [unfolded Inl]]
    show ?thesis by (simp add: names_kept_same)
  next
    case (Inr v)
    with sqlite_account_store.register_done [OF assms(2) _ step_register [unfolded Inr]]
    show ?thesis by (auto simp: names_kept_def)
  qed
next
  case (step_login wall now r1 r2 name plain ua ip rx)
  with sqlite_account_store.login_any [OF assms(2) _ _ step_login] show ?thesis by (simp add: names_kept_same)
next
  case (step_logout wall sid rn)
  with sqlite_account_store.logout_any [OF assms(2) _ step_logout] show ?thesis by (simp add: names_kept_same)
next
  case (step_change wall now rand uid cur new keep rn)
  with sqlite_account_store.change_password_any [OF assms(2) _ _ _ step_change]
  show ?thesis by (simp add: names_kept_map)
next
  case (step_session wall now now' sid rp)
  with sqlite_account_store.session_by_id_any [OF assms(2) _ _ step_session]
  show ?thesis by (simp add: names_kept_same)
next
  case (step_verify s iss aud wall now now' tok ri)
  then have "d' = d \<or> (\<exists>j r. jwt_is_revoked j d = (r, d'))"
    by (auto simp: verify_token_def sqlite_jwts_def split: sum.splits prod.splits if_splits bool.splits)
  then have "same_tables d d'" using jwt_is_revoked_views by auto
  with views_same [OF this] assms(2) show ?thesis by (simp add: names_kept_same)
next
  case (step_revoke s iss aud wall jti uid t rn)
  then have "jwt_revoke wall jti uid t d = (rn, d')" by (simp add: revoke_token_def sqlite_jwts_def)
  from jwt_revoke_views [OF this] assms(2) show ?thesis by (simp add: names_kept_same)
next
  case (step_prefs q rn)
  with prefs_upsert_ok [OF assms(2)] show ?thesis by (auto simp: names_kept_same)
next
  case (step_purge_sessions now ri)
  with deletes_ok [OF assms(2) session_deletes(4)] show ?thesis by (auto simp: names_kept_same)
next
  case (step_purge_tokens now ri)
  with jwt_purge_ok [OF assms(2)] show ?thesis by (auto simp: names_kept_same)
qed

lemma account_steps_ok:
  "(account_step k p c)\<^sup>*\<^sup>* d d' \<Longrightarrow> accounts_ok d \<Longrightarrow> accounts_ok d' \<and> names_kept d d'"
proof (induction rule: rtranclp_induct)
  case base
  then show ?case by (simp add: names_kept_def)
next
  case (step d1 d2)
  then show ?case using account_step_ok [OF step(2)] names_kept_trans by blast
qed

section \<open>Signing in\<close>

lemma login_runs:
  assumes "accounts_ok d" "faults d = []" "account_of d i = Some u" "nocase name = nocase (u_username u)"
    and "verify_password k plain (u_password_hash u) (u_password_salt u) (u_password_params u) = Inr True"
    and "new_token r1 (ac_session_token_len c) = Inr sid" "new_token r2 (ac_csrf_token_len c) = Inr csrf"
    and "session_of d sid = None"
  obtains x d' where "login (new_auth_service k p c wall) now r1 r2 name plain ua ip d = (Inr x, d')"
    "faults d' = []"
proof -
  let ?x = "\<lparr>s_id = sid, s_user_id = u_id u, s_csrf_token = csrf,
             s_user_agent = truncate_runes ua 1024, s_ip = truncate_runes ip 64, s_created_at = now,
             s_expires_at = now + ac_session_ttl c, s_last_seen_at = now\<rparr>"
  have "account_of d (s_user_id ?x) = Some u" using assms(1,3) by (simp add: account_of_Some)
  then obtain y d' where y: "session_create wall ?x d = (Inr y, d')" "faults d' = []"
    using session_create_runs [OF assms(1,2), of ?x u wall] assms(8) by auto
  have "login (new_auth_service k p c wall) now r1 r2 name plain ua ip d = (Inr y, d')"
    using y user_find_name_runs [OF assms(1-4)] assms(5-7)
    by (simp add: login_def sqlite_users_def sqlite_sessions_def)
  then show thesis using y(2) that by blast
qed

lemma session_by_id_runs:
  assumes "faults d = []" "session_of d sid = Some x" "now < s_expires_at x"
    and "account_of d (s_user_id x) = Some u"
  shows "fst (session_by_id (new_auth_service k p c wall) now now' sid d) = Inr (x, u)"
  using assms
  by (simp add: session_by_id_def sqlite_users_def sqlite_sessions_def session_find_runs
      user_find_id_runs is_expired_def split: prod.splits)

lemma register_password:
  assumes "params_ok p" "accounts_ok d"
    and "register (new_auth_service k p c wall) now rand name plain d = (Inr v, d')"
  shows "verify_password k plain (u_password_hash v) (u_password_salt v) (u_password_params v) = Inr True"
    and "u_username v = name" "account_of d' = (account_of d)(u_id v \<mapsto> stored_user v)"
    and "accounts_ok d'" "\<forall>i w. account_of d i = Some w \<longrightarrow> nocase (u_username w) \<noteq> nocase name"
    and "username_ok name" "validate_password c plain = Inr ()" "account_of d (u_id v) = None"
  using sqlite_account_store.register_done [OF assms(2) new_auth_service_simps(1) assms(3)]
    verify_hash(1) [OF assms(1), of k rand plain "u_password_hash v" "u_password_salt v" "u_password_params v" plain]
    verify_hash(2) [OF assms(1), of k rand plain "u_password_hash v" "u_password_salt v" "u_password_params v"]
  by auto

section \<open>Properties\<close>

text \<open>
  Whatever sequence of registrations, sign-ins, sign-outs, password changes, session lookups,
  token checks, revocations, preference updates and purges runs, with any arguments and any
  failures of the engine: account ids and names (up to case), session ids, revoked token ids and
  preference rows stay unique, every session and preference row refers to an existing account, and
  no account disappears or changes its name.
\<close>

theorem account_invariant:
  assumes "(account_step k p c)\<^sup>*\<^sup>* d d'" "accounts_ok d"
  shows "accounts_ok d' \<and> (\<forall>i u. account_of d i = Some u \<longrightarrow>
     (\<exists>u'. account_of d' i = Some u' \<and> u_username u' = u_username u))"
  using account_steps_ok [OF assms] by (simp add: names_kept_def)

definition demo_kdf :: kdf where
  "demo_kdf pw salt n r p len = Inr (pw @ salt)"

definition demo_user :: user where
  "demo_user = \<lparr>u_id = 1, u_username = ''alice'', u_password_hash = ''Passw0rd-longsalt'',
     u_password_salt = ''salt'', u_password_params = encode_params default_params,
     u_password_updated_at = 0, u_created_at = 0, u_updated_at = 0\<rparr>"

definition demo_db :: db where
  "demo_db = empty_db\<lparr>users := [demo_user]\<rparr>"

abbreviation demo_auth :: "db auth_service" where
  "demo_auth \<equiv> new_auth_service demo_kdf default_params default_auth_config 0"

lemma validate_demo: "validate_username ''alice'' = Inr ()"
    "validate_password default_auth_config ''Passw0rd-long'' = Inr ()"
  by code_simp+

lemma empty_accounts_ok: "accounts_ok empty_db" "faults empty_db = []"
  by (simp_all add: accounts_ok_def empty_db_def)

lemma demo_accounts_ok: "accounts_ok demo_db" "faults demo_db = []" "account_of demo_db 1 = Some demo_user"
    "session_of demo_db i = None"
  by (simp_all add: accounts_ok_def demo_db_def empty_db_def account_of_def session_of_def demo_user_def)

lemma demo_register:
  "register demo_auth 0 (\<lambda>n. Inr ''salt'') ''alice'' ''Passw0rd-long'' empty_db = (Inr demo_user, demo_db)"
  using validate_demo
  by (simp add: register_def sqlite_users_def user_create_def insert_user_def statement_def tick_def
      empty_db_def demo_db_def demo_user_def hash_password_def demo_kdf_def next_id_def Let_def
      zero_time_def secs_def unix_def of_unix_def)

theorem account_invariant_witness:
  "accounts_ok demo_db \<and> account_of demo_db 1 = Some demo_user"
proof -
  have "(account_step demo_kdf default_params default_auth_config)\<^sup>*\<^sup>* empty_db demo_db"
    using step_register [OF demo_register] by blast
  from account_invariant [OF this] empty_accounts_ok show ?thesis
    using demo_accounts_ok by simp
qed

text \<open>
  C11: an account opened by \<^verbatim>\<open>Register\<close> can be signed in to with its name, in any mix of upper
  and lower case, and its password, in every later state that still holds it; the session that
  \<^verbatim>\<open>Login\<close> returns carries the new tokens and belongs to that account, and \<^verbatim>\<open>SessionByID\<close> finds it
  until it expires.  The name was free before and obeys the name rules, the password the
  strength rules.
\<close>

theorem register_then_login:
  assumes "params_ok p" "accounts_ok d"
    and reg: "register (new_auth_service k p c wall) now rand name plain d = (Inr v, d1)"
    and "accounts_ok d2" "faults d2 = []" "account_of d2 (u_id v) = account_of d1 (u_id v)"
    and "nocase name2 = nocase name" "new_token r1 (ac_session_token_len c) = Inr sid"
    and "new_token r2 (ac_csrf_token_len c) = Inr csrf" "session_of d2 sid = None"
  shows "(\<forall>i w. account_of d i = Some w \<longrightarrow> nocase (u_username w) \<noteq> nocase name)
    \<and> username_ok name \<and> validate_password c plain = Inr ()
    \<and> (\<exists>x d3. login (new_auth_service k p c wall2) now2 r1 r2 name2 plain ua ip d2 = (Inr x, d3)
         \<and> s_id x = sid \<and> s_user_id x = u_id v \<and> s_csrf_token x = csrf
         \<and> (\<forall>t t' w. t < secs (now2 + ac_session_ttl c) \<longrightarrow>
              fst (session_by_id (new_auth_service k p c w) t t' sid d3)
                = Inr (stored_session x, stored_user v)))"
proof -
  note v = register_password [OF assms(1,2) reg]
  have acc: "account_of d2 (u_id v) = Some (stored_user v)" using v(3) assms(6) by simp
  have pw: "verify_password k plain (u_password_hash (stored_user v)) (u_password_salt (stored_user v))
      (u_password_params (stored_user v)) = Inr True"
    using v(1) by (simp add: stored_user_def)
  obtain x d3 where x: "login (new_auth_service k p c wall2) now2 r1 r2 name2 plain ua ip d2 = (Inr x, d3)"
    and "faults d3 = []"
    using login_runs [where wall = wall2 and now = now2 and name = name2 and ua = ua and ip = ip,
        OF assms(4,5) acc _ pw assms(8-10)] assms(7) v(2) by auto
  obtain u where u: "account_of d2 (u_id u) = Some u" "nocase (u_username u) = nocase name2"
    "s_user_id x = u_id u" "s_expires_at x = now2 + ac_session_ttl c"
    "session_of d3 = (session_of d2)(s_id x \<mapsto> stored_session x)" "new_token r1 (ac_session_token_len c) = Inr (s_id x)"
    "new_token r2 (ac_csrf_token_len c) = Inr (s_csrf_token x)" "account_of d3 = account_of d2"
    by (rule sqlite_account_store.login_done [OF assms(4) new_auth_service_simps(1,2) x,
        unfolded new_auth_service_simps]) (rule that)
  have tok: "s_id x = sid" "s_csrf_token x = csrf" using u(6,7) assms(8,9) by simp_all
  have "u = stored_user v"
  proof -
    have "nocase (u_username u) = nocase (u_username (stored_user v))"
      using u(2) assms(7) v(2) by simp
    with find_name [OF assms(4) acc] find_name [OF assms(4) u(1)] show ?thesis
      by (simp only: option.inject)
  qed
  then have uid: "s_user_id x = u_id v" using u(3) by simp
  have "fst (session_by_id (new_auth_service k p c w) t t' sid d3) = Inr (stored_session x, stored_user v)"
    if "t < secs (now2 + ac_session_ttl c)" for t t' w
  proof (rule session_by_id_runs [OF \<open>faults d3 = []\<close>])
    show "session_of d3 sid = Some (stored_session x)" unfolding u(5) tok(1) by simp
    show "t < s_expires_at (stored_session x)" using that u(4) by (simp add: stored_session_def)
    show "account_of d3 (s_user_id (stored_session x)) = Some (stored_user v)"
      using acc unfolding u(8) by (simp add: stored_session_def uid)
  qed
  then have s: "\<forall>t t' w. t < secs (now2 + ac_session_ttl c) \<longrightarrow>
      fst (session_by_id (new_auth_service k p c w) t t' sid d3) = Inr (stored_session x, stored_user v)"
    by blast
  show ?thesis
    by (intro conjI v(5-7) exI [of _ x] exI [of _ d3] x tok uid s)
qed

lemma default_params_ok: "params_ok default_params"
  by (simp add: params_ok_def default_params_def in_i64_def)

lemma demo_tokens:
  "new_token (\<lambda>n. Inr ''ab'') (ac_session_token_len default_auth_config) = Inr ''6162''"
  "new_token (\<lambda>n. Inr ''cd'') (ac_csrf_token_len default_auth_config) = Inr ''6364''"
  by code_simp+

lemma demo_nocase: "nocase ''ALICE'' = nocase ''alice''"
  by code_simp

theorem register_then_login_witness:
  "\<exists>x d3. login demo_auth 0 (\<lambda>n. Inr ''ab'') (\<lambda>n. Inr ''cd'') ''ALICE'' ''Passw0rd-long'' ''ua'' ''ip'' demo_db
     = (Inr x, d3) \<and> s_user_id x = 1 \<and> fst (session_by_id demo_auth 1 1 ''6162'' d3) = Inr (stored_session x, demo_user)"
proof -
  have "secs (0 + ac_session_ttl default_auth_config) > 1" "stored_user demo_user = demo_user"
      "u_id demo_user = 1"
    by (simp_all add: default_auth_config_def secs_def unix_def of_unix_def stored_user_def demo_user_def)
  with register_then_login [where ?wall2.0 = 0 and ?now2.0 = 0 and ua = "''ua''" and ip = "''ip''",
      OF default_params_ok empty_accounts_ok(1) demo_register demo_accounts_ok(1,2) refl demo_nocase
        demo_tokens demo_accounts_ok(4)]
  show ?thesis by fastforce
qed

text \<open>
  C16: a session is only ever opened with the password of the account it is opened for, under a
  name that differs from the account's in case at most; it is new, expires after the configured
  time and changes no account.  A refused sign-in changes nothing.
\<close>

theorem login_sound:
  assumes "accounts_ok d"
    and "login (new_auth_service k p c wall) now r1 r2 name plain ua ip d = (r, d')"
  shows "case r of
      Inr x \<Rightarrow> \<exists>u. account_of d (s_user_id x) = Some u \<and> nocase (u_username u) = nocase name
        \<and> verify_password k plain (u_password_hash u) (u_password_salt u) (u_password_params u) = Inr True
        \<and> session_of d (s_id x) = None \<and> session_of d' = (session_of d)(s_id x \<mapsto> stored_session x)
        \<and> s_expires_at x = now + ac_session_ttl c \<and> account_of d' = account_of d
    | Inl e \<Rightarrow> account_of d' = account_of d \<and> session_of d' = session_of d"
proof (cases r)
  case (Inl e)
  with sqlite_account_store.login_denied [OF assms(1) new_auth_service_simps(1,2) assms(2) [unfolded Inl]]
  show ?thesis by simp
next
  case (Inr x)
  obtain u where "account_of d (u_id u) = Some u" "nocase (u_username u) = nocase name"
    "verify_password k plain (u_password_hash u) (u_password_salt u) (u_password_params u) = Inr True"
    "s_user_id x = u_id u" "s_expires_at x = now + ac_session_ttl c" "session_of d (s_id x) = None"
    "session_of d' = (session_of d)(s_id x \<mapsto> stored_session x)" "account_of d' = account_of d"
    by (rule sqlite_account_store.login_done [OF assms(1) new_auth_service_simps(1,2) assms(2) [unfolded Inr],
        unfolded new_auth_service_simps]) (rule that)
  with Inr show ?thesis by auto
qed

lemma demo_password: "verify_password demo_kdf ''Passw0rd-long'' (u_password_hash demo_user)
    (u_password_salt demo_user) (u_password_params demo_user) = Inr True"
  by (simp add: verify_password_def demo_user_def decode_encode_params default_params_ok demo_kdf_def)

theorem login_sound_witness:
  "\<exists>x d3. login demo_auth 0 (\<lambda>n. Inr ''ab'') (\<lambda>n. Inr ''cd'') ''ALICE'' ''Passw0rd-long'' ''ua'' ''ip'' demo_db
     = (Inr x, d3) \<and> session_of d3 (s_id x) = Some (stored_session x) \<and> account_of d3 = account_of demo_db"
proof -
  have "nocase ''ALICE'' = nocase (u_username demo_user)" using demo_nocase by (simp add: demo_user_def)
  from login_runs [OF demo_accounts_ok(1-3) this demo_password demo_tokens demo_accounts_ok(4)]
  obtain x d3 where x: "login demo_auth 0 (\<lambda>n. Inr ''ab'') (\<lambda>n. Inr ''cd'') ''ALICE'' ''Passw0rd-long'' ''ua'' ''ip''
      demo_db = (Inr x, d3)" by blast
  from login_sound [OF demo_accounts_ok(1) x] have "session_of d3 (s_id x) = Some (stored_session x)"
      "account_of d3 = account_of demo_db" by auto
  with x show ?thesis by blast
qed

text \<open>
  C20: a successful password change replaces the password of that account and of no other: the
  old password was given, the new one verifies from then on, and any other password exactly when
  it derives the same key.  Every session of the account is gone but the one to keep, and no
  session of another account is touched.
\<close>

theorem change_password_effect:
  assumes "params_ok p" "accounts_ok d"
    and "change_password (new_auth_service k p c wall) now rand uid cur new keep d = (Inr x, d')"
  shows "\<exists>u u'. account_of d uid = Some u \<and> account_of d' = (account_of d)(uid \<mapsto> u')
    \<and> verify_password k cur (u_password_hash u) (u_password_salt u) (u_password_params u) = Inr True
    \<and> validate_password c new = Inr ()
    \<and> verify_password k new (u_password_hash u') (u_password_salt u') (u_password_params u') = Inr True
    \<and> (\<forall>cand key. k cand (u_password_salt u') (sp_n p) (sp_r p) (sp_p p) (sp_key_len p) = Inr key \<longrightarrow>
         verify_password k cand (u_password_hash u') (u_password_salt u') (u_password_params u')
           = Inr (key = u_password_hash u'))
    \<and> u_username u' = u_username u \<and> u_id u' = u_id u
    \<and> session_of d' = drop_sessions (\<lambda>y. s_user_id y = uid \<and> (keep = [] \<or> s_id y \<noteq> keep)) (session_of d)"
proof -
  obtain u h sl t where u: "account_of d uid = Some u"
    "verify_password k cur (u_password_hash u) (u_password_salt u) (u_password_params u) = Inr True"
    "validate_password c new = Inr ()" "hash_password k rand p new = Inr (h, sl, t)"
    "account_of d' = (account_of d)(uid \<mapsto> with_password h sl t now u)"
    "session_of d' = drop_sessions (\<lambda>y. s_user_id y = uid \<and> (keep = [] \<or> s_id y \<noteq> keep)) (session_of d)"
    by (rule sqlite_account_store.change_password_done [OF assms(2) new_auth_service_simps(1-3) assms(3),
        unfolded new_auth_service_simps]) (rule that)
  have "verify_password k new h sl t = Inr True"
    using verify_hash [OF assms(1) u(4)] by simp
  moreover have "verify_password k cand h sl t = Inr (key = h)"
    if "k cand sl (sp_n p) (sp_r p) (sp_p p) (sp_key_len p) = Inr key" for cand key
    using verify_hash(1) [OF assms(1) u(4), of cand] that by simp
  ultimately show ?thesis
    using u by (intro exI [of _ u] exI [of _ "with_password h sl t now u"]) (simp add: with_password_def)
qed

lemma demo_change:
  "\<exists>d'. change_password demo_auth 0 (\<lambda>n. Inr ''tlas'') 1 ''Passw0rd-long'' ''New-Passw0rd'' [] demo_db = (Inr (), d')
     \<and> faults d' = []"
proof -
  have "validate_password default_auth_config ''New-Passw0rd'' = Inr ()" by code_simp
  then show ?thesis
    using demo_password user_find_id_runs [OF demo_accounts_ok(2,3)] demo_accounts_ok(2)
    by (simp add: change_password_def sqlite_users_def sqlite_sessions_def sqlite_jwts_def
        hash_password_def demo_kdf_def user_update_password_def demo_db_def Let_def
        session_delete_all_for_user_def delete_sessions_def jwt_revoke_all_for_user_def
        upsert_revocation_def statement_def tick_def demo_user_def empty_db_def)
qed

theorem change_password_effect_witness:
  "\<exists>d' u. change_password demo_auth 0 (\<lambda>n. Inr ''tlas'') 1 ''Passw0rd-long'' ''New-Passw0rd'' [] demo_db = (Inr (), d')
     \<and> account_of d' 1 = Some u
     \<and> verify_password demo_kdf ''New-Passw0rd'' (u_password_hash u) (u_password_salt u) (u_password_params u) = Inr True"
proof -
  obtain d' where d': "change_password demo_auth 0 (\<lambda>n. Inr ''tlas'') 1 ''Passw0rd-long'' ''New-Passw0rd'' [] demo_db
      = (Inr (), d')" using demo_change by blast
  from change_password_effect [OF default_params_ok demo_accounts_ok(1) d'] obtain u'
    where "account_of d' = (account_of demo_db)(1 \<mapsto> u')"
      "verify_password demo_kdf ''New-Passw0rd'' (u_password_hash u') (u_password_salt u') (u_password_params u') = Inr True"
    by blast
  with d' show ?thesis by auto
qed

text \<open>
  \<^verbatim>\<open>SessionByID\<close> answers with a stored, unexpired session and its account, or with an error;
  it touches nothing but the last-seen time of that session, and an expired one is refused.
\<close>

theorem session_lookup:
  assumes "accounts_ok d"
    and "session_by_id (new_auth_service k p c wall) now now' sid d = (r, d')"
  shows "(case r of
      Inr (x, u) \<Rightarrow> session_of d sid = Some x \<and> now < s_expires_at x
        \<and> account_of d (s_user_id x) = Some u \<and> u_id u = s_user_id x
        \<and> (session_of d' = session_of d \<or> session_of d' = (session_of d)(sid \<mapsto> x\<lparr>s_last_seen_at := secs now'\<rparr>))
    | Inl e \<Rightarrow> True)
    \<and> account_of d' = account_of d \<and> revoked_jtis d' = revoked_jtis d
    \<and> (\<forall>x. faults d = [] \<longrightarrow> session_of d sid = Some x \<longrightarrow> s_expires_at x \<le> now \<longrightarrow>
         r = Inl ErrSessionExpired \<and> session_of d' sid = None)"
proof -
  have expired: "r = Inl ErrSessionExpired \<and> session_of d' sid = None"
    if "faults d = []" "session_of d sid = Some x" "s_expires_at x \<le> now" for x
  proof -
    have "ses_find_by_id (sqlite_sessions wall) sid d = (Inr x, d)"
      using session_find_runs [OF that(1,2)] by (simp add: sqlite_sessions_def)
    moreover have "fst (ses_delete (sqlite_sessions wall) sid d) = Inr ()"
      using that(1) by (simp add: sqlite_sessions_def session_delete_def delete_sessions_def
          statement_no_faults)
    ultimately show ?thesis
      using sqlite_account_store.session_by_id_expired [OF assms(1) _ _ , of "new_auth_service k p c wall"
          wall sid x d now now'] assms(2) that(3) by simp
  qed
  show ?thesis
  proof (cases r)
    case (Inr q)
    then obtain x u where q: "r = Inr (x, u)" by (cases q) auto
    from sqlite_account_store.session_by_id_done [OF assms(1) new_auth_service_simps(1,2) assms(2) [unfolded q]] q expired
    show ?thesis by auto
  next
    case (Inl e)
    with sqlite_account_store.session_by_id_any [OF assms(1) new_auth_service_simps(1,2) assms(2)] expired show ?thesis by auto
  qed
qed

definition demo_session :: session where
  "demo_session = \<lparr>s_id = ''sid'', s_user_id = 1, s_csrf_token = ''csrf'', s_user_agent = [], s_ip = [],
     s_created_at = 0, s_expires_at = second, s_last_seen_at = 0\<rparr>"

theorem session_lookup_witness:
  "fst (session_by_id demo_auth second second ''sid'' (demo_db\<lparr>sessions := [demo_session]\<rparr>))
     = Inl ErrSessionExpired"
proof -
  let ?d = "demo_db\<lparr>sessions := [demo_session]\<rparr>"
  have d: "accounts_ok ?d" "faults ?d = []" "session_of ?d ''sid'' = Some demo_session"
    by (simp_all add: accounts_ok_def demo_db_def empty_db_def session_of_def demo_user_def demo_session_def)
  obtain r d' where r: "session_by_id demo_auth second second ''sid'' ?d = (r, d')" by fastforce
  have "s_expires_at demo_session \<le> second" by (simp add: demo_session_def)
  with session_lookup [OF d(1) r] d(2,3) have "r = Inl ErrSessionExpired" by blast
  with r show ?thesis by simp
qed

section \<open>API tokens\<close>

lemma hex_encode_chars: "c \<in> set (hex_encode s) \<Longrightarrow> \<exists>n. 0 \<le> n \<and> n < 16 \<and> c = hex_digit n"
proof -
  assume "c \<in> set (hex_encode s)"
  then obtain x where "c = hex_digit (byte x div 16) \<or> c = hex_digit (byte x mod 16)"
    by (auto simp: hex_encode_def)
  moreover have "0 \<le> byte x div 16" "byte x div 16 < 16"
    using byte_range [of x] zdiv_mono1 [of "byte x" 255 16] by (simp_all add: pos_imp_zdiv_nonneg_iff)
  ultimately show ?thesis by (auto intro: exI [of _ "byte x div 16"] exI [of _ "byte x mod 16"])
qed

lemma uuid_chars:
  assumes "new_uuid r = Inr u" "c \<in> set u"
  shows "byte c < 0x80 \<and> c \<noteq> CHR ''u''"
proof -
  have hex: "byte c < 0x80 \<and> c \<noteq> CHR ''u''" if h: "c \<in> set (hex_encode s)" for s
  proof -
    obtain n where n: "0 \<le> n" "n < 16" "c = hex_digit n" using hex_encode_chars [OF h] by blast
    then have "byte c < 0x70" by (auto simp: hex_digit_def)
    then show ?thesis by (auto simp: byte_def)
  qed
  obtain b where "c = CHR ''-'' \<or> (\<exists>i j. c \<in> set (hex_encode (slice i j b)))"
    using assms by (fastforce simp: new_uuid_def Let_def split: sum.splits)
  then show ?thesis using hex by (auto simp: byte_def)
qed

lemma uuid_text_ok:
  assumes "new_uuid r = Inr u"
  shows "well_formed u" "u \<noteq> user_all_jti i t"
proof -
  show "well_formed u" using uuid_chars [OF assms] by (simp add: well_formed_def clean_text_ascii)
  have "CHR ''u'' \<in> set (user_all_jti i t)" by (simp add: user_all_jti_def)
  with uuid_chars [OF assms] show "u \<noteq> user_all_jti i t" by blast
qed

lemma issued_claims:
  assumes "issue_token (new_api_auth_service s iss aud wall) now rand uid ttl = Inr (tok, jti, due)"
    and "in_i64 uid" "in_i64 (unix now)" "in_i64 (unix (now + ttl))" "well_formed iss" "well_formed aud"
  shows "\<exists>cl. tok = sign s cl \<and> claims_ok cl \<and> jc_subject cl = uid \<and> jc_issuer cl = iss
    \<and> jc_audience cl = aud \<and> jc_expires_at cl = due \<and> jc_jti cl = jti \<and> due = now + ttl
    \<and> (\<forall>i t. jti \<noteq> user_all_jti i t)"
proof -
  have u: "new_uuid rand = Inr jti" and e: "due = now + ttl"
    and t: "tok = sign s \<lparr>jc_subject = uid, jc_issuer = iss, jc_audience = aud, jc_issued_at = now,
      jc_expires_at = now + ttl, jc_jti = jti\<rparr>"
    using assms(1) by (auto simp: issue_token_def split: sum.splits)
  show ?thesis
    unfolding t using uuid_text_ok [OF u] assms(2-6) e
    by (intro exI [of _ "\<lparr>jc_subject = uid, jc_issuer = iss, jc_audience = aud, jc_issued_at = now,
      jc_expires_at = now + ttl, jc_jti = jti\<rparr>"]) (simp add: claims_ok_def)
qed

lemma verify_issued:
  assumes "claims_ok cl" "jc_issuer cl = iss" "jc_audience cl = aud" "faults d = []"
  shows "fst (verify_token (new_api_auth_service s iss aud wall) t t' (sign s cl) d) =
    (if \<not> t < secs (jc_expires_at cl) then Inl ErrTokenInvalid
     else if \<not> t' < secs (jc_expires_at cl) then Inl ErrTokenExpired
     else if jc_jti cl \<in> revoked_jtis d then Inl ErrTokenInvalid else Inr (jc_subject cl))"
  using assms is_revoked_runs [OF assms(4)]
  by (simp add: verify_token_def parse_sign whole_seconds_def secs_def sqlite_jwts_def)

text \<open>
  C19: the life of an API token: from its issue to its expiry second it is good for the account it
  was issued for, unless its id has been revoked; once \<^verbatim>\<open>Revoke\<close> has run for it no check accepts
  it, at whatever time.  A token that expires between the two readings of the clock is answered by
  \<^verbatim>\<open>ErrTokenExpired\<close>, where the comment on \<^verbatim>\<open>VerifyToken\<close> promises \<^verbatim>\<open>ErrTokenInvalid\<close>.
\<close>

theorem token_life:
  assumes "issue_token (new_api_auth_service s iss aud wall) now rand uid ttl = Inr (tok, jti, due)"
    and "in_i64 uid" "in_i64 (unix now)" "in_i64 (unix (now + ttl))" "well_formed iss" "well_formed aud"
    and "faults d = []"
  shows "fst (verify_token (new_api_auth_service s iss aud wall) t t' tok d) =
      (if \<not> t < secs (now + ttl) then Inl ErrTokenInvalid
       else if \<not> t' < secs (now + ttl) then Inl ErrTokenExpired
       else if jti \<in> revoked_jtis d then Inl ErrTokenInvalid else Inr uid)
    \<and> jti \<in> revoked_jtis (snd (revoke_token (new_api_auth_service s iss aud wall) jti uid due d))
    \<and> (\<forall>u u' i. fst (verify_token (new_api_auth_service s iss aud wall) u u' tok
         (snd (revoke_token (new_api_auth_service s iss aud wall) jti uid due d))) \<noteq> Inr i)"
proof -
  obtain cl where cl: "tok = sign s cl" "claims_ok cl" "jc_subject cl = uid" "jc_issuer cl = iss"
     "jc_audience cl = aud" "jc_expires_at cl = due" "jc_jti cl = jti" "due = now + ttl"
    using issued_claims [OF assms(1-6)] by blast
  obtain r d' where r: "jwt_revoke wall jti uid due d = (r, d')" by fastforce
  then have fin: "r = Inr ()" "faults d' = []"
    using assms(7) by (auto simp: jwt_revoke_def statement_no_faults upsert_revocation_def)
  have d': "snd (revoke_token (new_api_auth_service s iss aud wall) jti uid due d) = d'"
    using r by (simp add: revoke_token_def sqlite_jwts_def)
  have revoked: "jti \<in> revoked_jtis d'" using jwt_revoke_views [OF r] fin(1) by simp
  then have "fst (verify_token (new_api_auth_service s iss aud wall) u u' tok d') \<noteq> Inr i" for u u' i
    using verify_issued [OF cl(2,4,5) fin(2), of s wall u u'] cl(1,7) by simp
  with revoked verify_issued [OF cl(2,4,5) assms(7), of s wall t t'] cl show ?thesis
    unfolding d' by simp
qed

abbreviation demo_api :: "db api_auth_service" where
  "demo_api \<equiv> new_api_auth_service \<lparr>secret = ''0123456789abcdef0123456789abcdef''\<rparr> ''boki3-quiz'' ''api'' 0"

abbreviation demo_entropy :: entropy where
  "demo_entropy \<equiv> (\<lambda>n. Inr ''0123456789abcdef'')"

lemma demo_issue:
  obtains tok jti where "issue_token demo_api 0 demo_entropy 1 second = Inr (tok, jti, second)"
proof -
  obtain u where "new_uuid demo_entropy = Inr u"
    using uuid_text [of demo_entropy "''0123456789abcdef''"] by auto
  then show thesis by (intro that) (simp add: issue_token_def)
qed

lemma demo_claims:
  "in_i64 1" "in_i64 (unix 0)" "in_i64 (unix (0 + second))" "well_formed ''boki3-quiz''" "well_formed ''api''"
  by (simp_all add: in_i64_def unix_def well_formed_def clean_text_ascii byte_def)

theorem token_life_witness:
  "\<exists>tok jti. issue_token demo_api 0 demo_entropy 1 second = Inr (tok, jti, second)
     \<and> fst (verify_token demo_api 0 0 tok demo_db) = Inr 1
     \<and> jti \<in> revoked_jtis (snd (revoke_token demo_api jti 1 second demo_db))"
proof -
  obtain tok jti where t: "issue_token demo_api 0 demo_entropy 1 second = Inr (tok, jti, second)"
    by (rule demo_issue)
  have "revoked_jtis demo_db = {}" by (simp add: revoked_jtis_def demo_db_def empty_db_def)
  with token_life [OF t demo_claims demo_accounts_ok(2), of 0 0] t show ?thesis
    by (auto simp: secs_def unix_def of_unix_def)
qed

lemma change_password_jtis:
  assumes "accounts_ok d"
    and "change_password (new_auth_service k p c wall) now rand uid cur new keep d = (Inr x, d')"
  shows "revoked_jtis d \<subseteq> revoked_jtis d' \<and> revoked_jtis d' \<subseteq> insert (user_all_jti uid now) (revoked_jtis d)"
proof -
  obtain u s1 h sl t s2 s3 where f: "user_find_by_id uid d = (Inr u, s1)"
    and up: "user_update_password uid h sl t now s1 = (Inr (), s2)"
    and del: "(if keep \<noteq> [] then session_delete_all_for_user_except uid keep s2
         else session_delete_all_for_user uid s2) = (Inr (), s3)"
    and j: "jwt_revoke_all_for_user uid now s3 = (Inr (), d')"
    using assms(2)
    by (auto simp: change_password_def sqlite_users_def sqlite_sessions_def sqlite_jwts_def
        split: sum.splits prod.splits bool.splits split del: if_split cong: if_cong)
  have "revoked_jtis s1 = revoked_jtis d" using user_find_id_views [OF f] views_same by blast
  moreover have "revoked_jtis s2 = revoked_jtis s1" using user_update_frame_views [OF up] by blast
  moreover have "revoked_jtis s3 = revoked_jtis s2"
    using del deletes_views [OF session_deletes(2), of uid s2 "Inr ()" s3]
      deletes_views [OF session_deletes(3), of uid keep s2 "Inr ()" s3]
    by (simp split: if_splits)
  ultimately show ?thesis using jwt_revoke_all_views [OF j] by simp
qed

text \<open>
  Changing the password does not revoke the account's API tokens: whatever token was issued,
  for this account or another, \<^verbatim>\<open>VerifyToken\<close> judges it the same after a successful
  \<^verbatim>\<open>ChangePassword\<close> as before.  The marker that \<^verbatim>\<open>RevokeAllForUser\<close> writes is not the id of any
  issued token, and nothing looks for it.
\<close>

theorem password_change_keeps_tokens:
  assumes "issue_token (new_api_auth_service s iss aud wall) now0 rand0 uid0 ttl = Inr (tok, jti, due)"
    and "in_i64 uid0" "in_i64 (unix now0)" "in_i64 (unix (now0 + ttl))" "well_formed iss" "well_formed aud"
    and "accounts_ok d" "faults d = []" "faults d' = []"
    and "change_password (new_auth_service k p c wall) now rand uid cur new keep d = (Inr x, d')"
  shows "fst (verify_token (new_api_auth_service s iss aud wall) t t' tok d')
       = fst (verify_token (new_api_auth_service s iss aud wall) t t' tok d)"
proof -
  obtain cl where cl: "tok = sign s cl" "claims_ok cl" "jc_issuer cl = iss"
     "jc_audience cl = aud" "jc_jti cl = jti" and "jti \<noteq> user_all_jti uid now"
    using issued_claims [OF assms(1-6)] by blast
  then have "jti \<in> revoked_jtis d' \<longleftrightarrow> jti \<in> revoked_jtis d"
    using change_password_jtis [OF assms(7,10)] by blast
  then show ?thesis
    using verify_issued [OF cl(2-4) assms(8), of s wall t t'] verify_issued [OF cl(2-4) assms(9), of s wall t t'] cl
    by simp
qed

theorem password_change_keeps_tokens_witness:
  "\<exists>tok jti d'. issue_token demo_api 0 demo_entropy 1 second = Inr (tok, jti, second)
     \<and> change_password demo_auth 0 (\<lambda>n. Inr ''tlas'') 1 ''Passw0rd-long'' ''New-Passw0rd'' [] demo_db = (Inr (), d')
     \<and> fst (verify_token demo_api 0 0 tok d') = fst (verify_token demo_api 0 0 tok demo_db)"
proof -
  obtain tok jti where t: "issue_token demo_api 0 demo_entropy 1 second = Inr (tok, jti, second)"
    by (rule demo_issue)
  obtain d' where d: "change_password demo_auth 0 (\<lambda>n. Inr ''tlas'') 1 ''Passw0rd-long'' ''New-Passw0rd'' [] demo_db
      = (Inr (), d')" "faults d' = []" using demo_change by blast
  from password_change_keeps_tokens [OF t demo_claims demo_accounts_ok(1,2) d(2,1), of 0 0] t d(1)
  show ?thesis by blast
qed

end
