(* ===== verification/Learning.thy ===== *)
theory Learning
  imports Study SignIn
begin

text \<open>
  What a learner can rely on: the properties of the quiz and of the statistics on the SQLite
  store, including runs of several requests.
\<close>

section \<open>The questions of a set\<close>

lemma distinct_concat_map:
  assumes "distinct (map f xs)" "\<And>x. x \<in> set xs \<Longrightarrow> length (g x) \<le> 1"
    and "\<And>x y. x \<in> set xs \<Longrightarrow> y \<in> set (g x) \<Longrightarrow> h y = f x"
  shows "distinct (map h (concat (map g xs)))"
  using assms
proof (induction xs)
  case (Cons x xs)
  have "distinct (map h (g x))" using Cons.prems(2) [of x] by (cases "g x") auto
  moreover have "h ` set (g x) \<inter> h ` set (concat (map g xs)) = {}"
  proof -
    have "h ` set (g x) \<subseteq> {f x}" using Cons.prems(3) [of x] by auto
    moreover have "h ` set (concat (map g xs)) \<subseteq> f ` set xs" using Cons.prems(3) by auto
    moreover have "{f x} \<inter> f ` set xs = {}" using Cons.prems(1) by simp
    ultimately show ?thesis by blast
  qed
  moreover have "distinct (map h (concat (map g xs)))"
    by (rule Cons.IH) (use Cons.prems in simp_all)
  ultimately show ?case by simp
qed simp

lemma length_concat_one:
  assumes "distinct (map f xs)" "\<And>x. x \<in> set xs \<Longrightarrow> length (g x) \<le> 1"
    and "\<And>x. x \<in> set xs \<Longrightarrow> g x \<noteq> [] \<Longrightarrow> f x = k"
  shows "length (concat (map g xs)) \<le> 1"
  using assms
proof (induction xs)
  case (Cons x xs)
  show ?case
  proof (cases "g x = []")
    case False
    then have "f x = k" using Cons.prems(3) by simp
    then have "k \<notin> f ` set xs" using Cons.prems(1) by auto
    then have "g y = []" if "y \<in> set xs" for y
      using that Cons.prems(3) [of y] by (cases "g y = []") auto
    then have e: "concat (map g xs) = []" by simp
    from Cons.prems(2) [of x] show ?thesis by (simp add: e del: concat_eq_Nil_conv)
  qed (use Cons in simp)
qed simp

lemma set_row_questions: "(m, q) \<in> set (set_rows c d) \<Longrightarrow> q \<in> set (questions d)"
  by (auto simp: set_rows_def)

lemma set_questions_in: "q \<in> set (set_questions c d) \<Longrightarrow> q \<in> set (questions d)"
  using set_row_questions by (auto simp: set_questions_def)

lemma set_question_of: "quiz_ok d \<Longrightarrow> q \<in> set (set_questions c d) \<Longrightarrow> question_of d (q_id q) = Some q"
  using row_key [of q_id "questions d" q] set_questions_in by (auto simp: question_of_def quiz_ok_def)

lemma distinct_set_questions:
  assumes "quiz_ok d"
  shows "distinct (map q_id (set_questions c d))"
proof -
  note ok = assms [unfolded quiz_ok_def]
  let ?s = "\<lambda>q m. concat (map (\<lambda>s. if qs_id s = m_set_id m then if qs_code s = c then [(m, q)] else [] else []) (question_sets d))"
  let ?m = "\<lambda>q. concat (map (\<lambda>m. if m_question_id m = q_id q then ?s q m else []) (members d))"
  have rows: "set_rows c d = concat (map ?m (questions d))" 
    unfolding set_rows_def by (rule refl)
  have one: "length (?s q m) \<le> 1" for q m
    by (rule length_concat_one [of qs_code _ _ c]) (use ok in \<open>auto split: if_splits\<close>)
  have "length (?m q) \<le> 1" for q :: question
  proof (rule length_concat_one [of "\<lambda>m. (m_set_id m, m_question_id m)" _ _
        "(qs_id (the (List.find (\<lambda>s. qs_code s = c) (question_sets d))), q_id q)"])
    fix m assume "m \<in> set (members d)" "(if m_question_id m = q_id q then ?s q m else []) \<noteq> []"
    then obtain s where s: "s \<in> set (question_sets d)" "qs_id s = m_set_id m" "qs_code s = c" "m_question_id m = q_id q"
      by (auto split: if_splits)
    have "row qs_code (question_sets d) c = Some s" using row_key [of qs_code "question_sets d" s] ok s by simp
    with s show "(m_set_id m, m_question_id m)
        = (qs_id (the (List.find (\<lambda>s. qs_code s = c) (question_sets d))), q_id q)" by simp
  qed (use one ok in auto)
  then have "distinct (map (q_id \<circ> snd) (set_rows c d))"
    unfolding rows by (intro distinct_concat_map [of q_id]) (use ok in \<open>auto split: if_splits\<close>)
  then show ?thesis
    by (simp add: set_questions_def distinct_map inj_on_def)
qed

section \<open>A small question bank\<close>

definition demo_answer :: answer_payload where
  "demo_answer = \<lparr>ans_type = qt_subbook, ans_debits = [], ans_credits = [], ans_choice = ''a'', ans_text = []\<rparr>"

definition demo_question :: "int \<Rightarrow> string \<Rightarrow> question" where
  "demo_question i c = \<lparr>q_id = i, q_code = c, q_topic_id = 1, q_type = qt_subbook, q_difficulty = 1,
     q_prompt = ''?'', q_payload_json = ''{}'', q_answer_json = print_json (answer_json True True demo_answer),
     q_explanation = [], q_references_json = ''[]'', q_created_at = 0\<rparr>"

definition demo_set :: question_set where
  "demo_set = \<lparr>qs_id = 1, qs_code = set_code_core, qs_name = [], qs_description = [], qs_target_size = 300\<rparr>"

definition demo_input :: "int \<Rightarrow> submit_input" where
  "demo_input i = \<lparr>si_question_id = i, si_set_code = set_code_core, si_answer = demo_answer, si_debits_nil = True,
     si_credits_nil = True, si_duration_ms = 1000\<rparr>"

definition study_db :: db where
  "study_db = demo_db\<lparr>topic_rows := [\<lparr>t_id = 1, t_code = ''cash'', t_name = [], t_ord = 1\<rparr>],
     questions := [demo_question 1 ''q1'', demo_question 2 ''q2''], question_sets := [demo_set],
     members := [\<lparr>m_set_id = 1, m_question_id = 1, m_ord = 1\<rparr>, \<lparr>m_set_id = 1, m_question_id = 2, m_ord = 2\<rparr>]\<rparr>"

abbreviation demo_quiz :: "db quiz_service" where
  "demo_quiz \<equiv> new_quiz_service 0"

lemma study_db_tables:
  "users study_db = [demo_user]" "questions study_db = [demo_question 1 ''q1'', demo_question 2 ''q2'']"
  "question_sets study_db = [demo_set]" "attempts study_db = []" "srs_states study_db = []" "faults study_db = []"
  "topic_rows study_db = [\<lparr>t_id = 1, t_code = ''cash'', t_name = [], t_ord = 1\<rparr>]"
  "members study_db = [\<lparr>m_set_id = 1, m_question_id = 1, m_ord = 1\<rparr>, \<lparr>m_set_id = 1, m_question_id = 2, m_ord = 2\<rparr>]"
  by (simp_all add: study_db_def demo_db_def empty_db_def)

lemma study_db_ok: "quiz_ok study_db"
  by (simp add: quiz_ok_def study_db_tables demo_question_def demo_set_def)

lemma study_db_views:
  "set_questions set_code_core study_db = [demo_question 1 ''q1'', demo_question 2 ''q2'']"
  "question_of study_db 1 = Some (demo_question 1 ''q1'')" "question_of study_db 2 = Some (demo_question 2 ''q2'')"
  "set_of study_db set_code_core = Some demo_set" "memory_of study_db k = None"
  by (simp_all add: set_questions_def set_rows_def question_of_def set_of_def memory_of_def study_db_tables
      demo_question_def demo_set_def)

lemma demo_answer_ok: "answer_ok demo_answer"
  by (simp add: answer_ok_def demo_answer_def qt_subbook_def well_formed_def clean_text_ascii byte_def)

lemma read_demo_answer [simp]: "read_answer (print_json (answer_json n m demo_answer)) = Inr demo_answer"
  using demo_answer_ok by (rule read_write_answer)

lemma demo_can_submit: "i = 1 \<or> i = 2 \<Longrightarrow> can_submit study_db 1 (demo_input i)"
  by (auto simp: can_submit_def study_db_tables study_db_views demo_input_def demo_user_def demo_question_def)

lemma demo_time: "\<not> is_zero_time 0" "\<not> is_zero_time second"
  by (simp_all add: zero_time_def)

section \<open>The next question\<close>

text \<open>
  C18: every question that \<^verbatim>\<open>NextQuestion\<close> hands out belongs to the requested set or, in the mode for
  spaced repetition, is one whose review by this very learner is due; asking changes no table,
  whether it succeeds or fails.
\<close>

theorem next_question_sound:
  assumes "quiz_ok d" "next_question (new_quiz_service wall) now ds uid c m d = (r, d')"
  shows "same_tables d d' \<and> (\<forall>q. r = Inr q \<longrightarrow> q \<in> set (set_questions c d)
    \<or> (m = mode_srs \<or> m = []) \<and> (\<exists>st. memory_of d (uid, sr_question_id st) = Some st
         \<and> unix (sr_due_at st) \<le> unix now \<and> question_of d (sr_question_id st) = Some q))"
proof (cases r)
  case (Inl e)
  with assms sqlite_quiz_store.next_question_error [of d "new_quiz_service wall" wall now ds uid c m e d']
  show ?thesis by simp
next
  case (Inr q)
  with assms sqlite_quiz_store.next_question_done [of d "new_quiz_service wall" wall now ds uid c m q d']
  show ?thesis by auto
qed

theorem next_question_sound_witness:
  "next_question demo_quiz 0 [5] 1 set_code_core mode_random study_db = (Inr (demo_question 2 ''q2''), study_db)
   \<and> demo_question 2 ''q2'' \<in> set (set_questions set_code_core study_db)"
proof -
  have n: "next_question demo_quiz 0 [5] 1 set_code_core mode_random study_db
      = (Inr (demo_question 2 ''q2''), study_db)"
    by (simp add: next_question_def sqlite_questions_def list_by_set_runs study_db_tables study_db_views
        int_n_def draw_def)
  from next_question_sound [OF study_db_ok n] n show ?thesis by (simp add: mode_defs)
qed

lemma last_question_runs:
  assumes "faults d = []" "user_attempts uid d \<noteq> []"
  shows "last_question (new_quiz_service wall) uid d = (a_question_id (hd (latest_first (user_attempts uid d))), d)"
  using assms
  by (cases "latest_first (user_attempts uid d)")
    (simp_all add: last_question_def sqlite_attempts_def attempt_list_by_user_def query_rows_no_faults window_def)

lemma due_runs:
  "faults d = [] \<Longrightarrow> srs_due_for_user (sqlite_states wall) uid now 50 d
     = (Inr (take 50 (sort_key (\<lambda>s. unix (sr_due_at s)) (due_states uid now d))), d)"
  by (simp add: sqlite_states_def state_due_for_user_def query_rows_no_faults window_def)

lemma distinct_one: "distinct xs \<Longrightarrow> set xs \<subseteq> {a} \<Longrightarrow> length xs \<le> 1"
  using card_mono [of "{a}" "set xs"] by (simp add: distinct_card)

lemma mode_distinct: "mode_srs \<noteq> mode_random" "mode_srs \<noteq> mode_sequential" "mode_sequential \<noteq> mode_random"
  by (simp_all add: mode_defs)

text \<open>The reviews due name different questions, so another one among them survives the limit.\<close>

lemma due_another:
  assumes "quiz_ok d" "s \<in> set (due_states uid now d)" "sr_question_id s \<noteq> recent"
  shows "\<exists>x\<in>set (take 50 (sort_key (\<lambda>s. unix (sr_due_at s)) (due_states uid now d))). sr_question_id x \<noteq> recent"
proof (rule ccontr)
  let ?xs = "sort_key (\<lambda>s. unix (sr_due_at s)) (due_states uid now d)"
  assume "\<not> ?thesis"
  then have same: "\<forall>x\<in>set (take 50 ?xs). srs_key x = (uid, recent)"
    using set_take_subset [of 50 ?xs] by (auto simp: srs_key_def due_states_def)
  have "distinct (map srs_key (due_states uid now d))"
    using assms(1) by (simp add: quiz_ok_def due_states_def distinct_map_filter)
  then have "distinct (map srs_key ?xs)" by (simp add: distinct_map)
  then have "distinct (map srs_key (take 50 ?xs))" by (simp add: take_map [symmetric])
  moreover have "set (map srs_key (take 50 ?xs)) \<subseteq> {(uid, recent)}" using same by auto
  ultimately have "length (map srs_key (take 50 ?xs)) \<le> 1" by (rule distinct_one)
  then have "take 50 ?xs = ?xs" by (cases "length ?xs \<le> 50") simp_all
  with same have "\<forall>x\<in>set ?xs. srs_key x = (uid, recent)" by metis
  with assms(2,3) show False by (auto simp: srs_key_def)
qed

text \<open>
  C17: the mode for spaced repetition does not ask the same question twice in a row while it has a
  choice: the question of the learner's latest attempt comes again only when the set has no
  other question or, for a due review, when no review of another question is due.
\<close>

theorem srs_no_repeat:
  assumes "quiz_ok d" "faults d = []" "user_attempts uid d \<noteq> []"
    and "recent = a_question_id (hd (latest_first (user_attempts uid d)))"
    and "next_question (new_quiz_service wall) now ds uid c mode_srs d = (Inr q, d')"
    and "\<exists>x\<in>set (set_questions c d). q_id x \<noteq> recent"
    and "due_states uid now d = [] \<or> (\<exists>s\<in>set (due_states uid now d). sr_question_id s \<noteq> recent)"
  shows "q_id q \<noteq> recent"
proof -
  have p: "pick_srs (new_quiz_service wall) now ds uid (set_questions c d) d = (Inr q, d')" "set_questions c d \<noteq> []"
    using assms(2,5,6)
    by (auto simp: next_question_def sqlite_questions_def list_by_set_runs mode_distinct split: if_splits)
  let ?due = "take 50 (sort_key (\<lambda>s. unix (sr_due_at s)) (due_states uid now d))"
  obtain due s1 r s2 where b: "srs_due_for_user (sqlite_states wall) uid now 50 d = (Inr due, s1)"
      "last_question (new_quiz_service wall) uid s1 = (r, s2)"
      "(q \<in> set (set_questions c d) \<and> (q_id q = r \<longrightarrow> r \<in> a_question_id ` {a\<in>set (attempts d). a_user_id a = uid}
          \<longrightarrow> (\<forall>x\<in>set (set_questions c d). q_id x = r)))
       \<or> (\<exists>st\<in>set due. question_of d (sr_question_id st) = Some q
          \<and> (q_id q = r \<longrightarrow> (\<forall>x\<in>set due. sr_question_id x = r)))"
    by (rule sqlite_quiz_store.pick_srs_done [OF assms(1) _ _ _ p(2,1), unfolded new_quiz_service_simps, OF refl refl refl])
  have due: "due = ?due" "s1 = d" using b(1) unfolding due_runs [OF assms(2)] by auto
  have r: "r = recent" using b(2) unfolding due(2) last_question_runs [OF assms(2,3)] assms(4) by (metis prod.inject)
  have "hd (latest_first (user_attempts uid d)) \<in> set (user_attempts uid d)"
    using assms(3) by (metis hd_in_set latest_first_Nil set_latest_first)
  then have att: "recent \<in> a_question_id ` {a\<in>set (attempts d). a_user_id a = uid}"
    by (auto simp: assms(4) user_attempts_def)
  show ?thesis
    using b(3)
  proof (elim disjE bexE conjE)
    fix st assume st: "st \<in> set due" "q_id q = r \<longrightarrow> (\<forall>x\<in>set due. sr_question_id x = r)"
    then have "due_states uid now d \<noteq> []" using due by auto
    with assms(7) due_another [OF assms(1)] have "\<exists>x\<in>set due. sr_question_id x \<noteq> recent" using due by blast
    with st r show ?thesis by blast
  qed (use assms(6) att r in blast)
qed

definition review_db :: db where
  "review_db = study_db\<lparr>attempts := [\<lparr>a_id = 1, a_user_id = 1, a_question_id = 1, a_set_id = Some 1,
     a_is_correct = True, a_duration_ms = 1000, a_submitted_json = [], a_answered_at = 0\<rparr>]\<rparr>"

lemma review_db_ok: "quiz_ok review_db" "faults review_db = []"
  by (simp_all add: review_db_def quiz_ok_def study_db_tables demo_question_def demo_set_def demo_user_def)

lemma review_db_views: "set_questions c review_db = set_questions c study_db" "due_states u t review_db = []"
  "user_attempts 1 review_db = attempts review_db" "users review_db = users study_db"
  by (simp_all add: review_db_def views_with_attempts due_states_def study_db_tables user_attempts_def)

theorem srs_no_repeat_witness:
  "\<exists>q. next_question demo_quiz 0 [] 1 set_code_core mode_srs review_db = (Inr q, review_db) \<and> q_id q \<noteq> 1"
proof -
  let ?q = "demo_question 2 ''q2''"
  have l: "latest_first (attempts review_db) = attempts review_db"
    by (simp add: latest_first_def review_db_def)
  have weak: "attempt_weak_topic_ids 1 t n review_db = (Inr [], review_db)" for t n
    by (simp add: attempt_weak_topic_ids_def query_rows_no_faults review_db_ok window_def weak_topics_def
        topic_results_def wrong_answers_def review_db_def study_db_tables demo_question_def)
  have ids: "attempt_attempted_question_ids 1 review_db = (Inr [1], review_db)"
    by (simp add: attempt_attempted_question_ids_def query_rows_no_faults review_db_ok review_db_views)
      (simp add: review_db_def)
  have recent: "last_question demo_quiz 1 review_db = (1, review_db)"
    by (subst last_question_runs) (simp_all add: review_db_ok review_db_views l, simp_all add: review_db_def)
  have n: "next_question demo_quiz 0 [] 1 set_code_core mode_srs review_db = (Inr ?q, review_db)"
    by (simp add: next_question_def sqlite_questions_def list_by_set_runs review_db_ok review_db_views
        study_db_views mode_defs pick_srs_def due_runs recent srs_due_step_def srs_weak_step_def
        pick_weak_topic_avoid_def sqlite_attempts_def weak ids pick_unattempted_def pick_candidate_def
        float_draw_def draw_def int_n_def Let_def demo_question_def)
  have "q_id ?q \<noteq> a_question_id (hd (latest_first (user_attempts 1 review_db)))"
    by (rule srs_no_repeat [OF review_db_ok _ refl n])
      (simp_all add: review_db_views study_db_views l, simp_all add: review_db_def demo_question_def)
  with n show ?thesis by (auto simp: review_db_views l) (simp add: review_db_def)
qed

section \<open>Submitting\<close>

lemma new_quiz_service_ports:
  "qz_questions (new_quiz_service wall) = sqlite_questions" "qz_sets (new_quiz_service wall) = sqlite_sets"
  "qz_attempts (new_quiz_service wall) = sqlite_attempts wall" "qz_srs (new_quiz_service wall) = sqlite_states wall"
  by simp_all

text \<open>
  C10: an accepted submission is graded against the stored answer of its question, logged last with
  a fresh id, and moves the review of that question by the learner on by one step of the schedule,
  from the first state when there is none; the due date it reports is the one it stores.  No other
  review, attempt, question or set changes.
\<close>

theorem submit_effect:
  assumes "quiz_ok d" "\<not> is_zero_time now" "submit cf (new_quiz_service wall) now uid i d = (Inr g, d')"
    and "b = ga_attempt g"
    and "st = (case memory_of d (uid, si_question_id i) of Some st \<Rightarrow> st
               | None \<Rightarrow> (new_state now)\<lparr>sr_user_id := uid, sr_question_id := si_question_id i\<rparr>)"
    and "new = next_state st (grade_from_result (a_is_correct b) (si_duration_ms i)) now"
  shows "(\<exists>q want. question_of d (si_question_id i) = Some q \<and> read_answer (q_answer_json q) = Inr want
      \<and> a_is_correct b = is_correct cf want (si_answer i) \<and> ga_explanation g = q_explanation q)
    \<and> a_user_id b = uid \<and> a_question_id b = si_question_id i \<and> a_answered_at b = now
    \<and> a_submitted_json b = write_answer i \<and> a_duration_ms b = si_duration_ms i
    \<and> attempts d' = attempts d @ [stored_attempt b] \<and> (\<forall>x\<in>set (attempts d). a_id x < a_id b)
    \<and> memory_of d' = (memory_of d)((uid, si_question_id i) \<mapsto> stored_state new)
    \<and> ga_next_due_at g = sr_due_at new
    \<and> quiz_ok d' \<and> question_of d' = question_of d \<and> set_of d' = set_of d
    \<and> (\<lambda>c. set_questions c d') = (\<lambda>c. set_questions c d)"
proof -
  have fields: "a_user_id x = u \<and> a_question_id x = k \<and> a_is_correct x = c \<and> a_duration_ms x = m
      \<and> a_submitted_json x = j \<and> a_answered_at x = t"
    if "x = \<lparr>a_id = n, a_user_id = u, a_question_id = k, a_set_id = y, a_is_correct = c, a_duration_ms = m,
      a_submitted_json = j, a_answered_at = t\<rparr>" for x n u k y c m j t
    unfolding that by simp
  show ?thesis
    using sqlite_quiz_store.submit_outcome [OF assms(1,2) new_quiz_service_ports assms(3)]
  proof (elim conjE disjE exE)
    fix q want x s
    assume x: "x = \<lparr>a_id = a_id x, a_user_id = uid, a_question_id = si_question_id i, a_set_id = a_set_id x,
              a_is_correct = is_correct cf want (si_answer i), a_duration_ms = si_duration_ms i,
              a_submitted_json = write_answer i, a_answered_at = now\<rparr>"
      and q: "question_of d (si_question_id i) = Some q" "read_answer (q_answer_json q) = Inr want"
      and s: "s = (case memory_of d (uid, si_question_id i) of Some st \<Rightarrow> st
                 | None \<Rightarrow> (new_state now)\<lparr>sr_user_id := uid, sr_question_id := si_question_id i\<rparr>)"
      and l: "attempts d' = attempts d @ [stored_attempt x]" "\<forall>y\<in>set (attempts d). a_id y < a_id x"
      and rest: "quiz_ok d'" "(\<lambda>c. set_questions c d') = (\<lambda>c. set_questions c d)"
        "question_of d' = question_of d" "set_of d' = set_of d"
      and new: "let new = next_state s (grade_from_result (a_is_correct x) (si_duration_ms i)) now
                 in Inr g = (Inr \<lparr>ga_attempt = x, ga_explanation = q_explanation q, ga_next_due_at = sr_due_at new\<rparr> :: graded_attempt res)
                    \<and> memory_of d' = (memory_of d)((uid, si_question_id i) \<mapsto> stored_state new)"
    have b: "b = x" "s = st" "ga_explanation g = q_explanation q" "ga_next_due_at g = sr_due_at (next_state s (grade_from_result (a_is_correct x) (si_duration_ms i)) now)"
      and m: "memory_of d' = (memory_of d)((uid, si_question_id i) \<mapsto> stored_state new)"
      using new s assms(4-6) by (simp_all add: Let_def)
    show ?thesis
      using b(3,4) m q l rest fields [OF x] unfolding b(1) b(2) [symmetric] assms(6) by blast
  qed simp_all
qed

lemma demo_submit:
  obtains g d' where "submit cf demo_quiz second 1 (demo_input 1) study_db = (Inr g, d')"
  using submit_runs [OF study_db_ok study_db_tables(6) demo_can_submit] by blast

theorem submit_effect_witness:
  "\<exists>g d'. submit (\<lambda>c. c) demo_quiz second 1 (demo_input 1) study_db = (Inr g, d')
     \<and> map a_is_correct (attempts d') = [True] \<and> (\<exists>s. memory_of d' (1, 1) = Some s \<and> sr_repetitions s = 1)
     \<and> memory_of d' (1, 2) = None"
proof -
  obtain g d' where s: "submit (\<lambda>c. c) demo_quiz second 1 (demo_input 1) study_db = (Inr g, d')"
    by (rule demo_submit)
  note e = submit_effect [OF study_db_ok demo_time(2) s refl refl refl]
  have c: "is_correct (\<lambda>c. c) demo_answer demo_answer" by code_simp
  then have ok: "a_is_correct (ga_attempt g)"
    using e by (auto simp: study_db_views demo_input_def demo_question_def)
  let ?st = "(new_state second)\<lparr>sr_user_id := 1, sr_question_id := 1\<rparr>"
  have "memory_of d' = (memory_of study_db)((1, 1) \<mapsto>
      stored_state (next_state ?st (grade_from_result True 1000) second))"
    using e ok by (simp add: study_db_views demo_input_def)
  moreover have "sr_repetitions (stored_state (next_state ?st (grade_from_result True 1000) second)) = 1"
    by (simp add: next_state_def new_state_def grade_from_result_def grade_defs Let_def i64_def stored_state_def)
  ultimately have m: "(\<exists>s. memory_of d' (1, 1) = Some s \<and> sr_repetitions s = 1) \<and> memory_of d' (1, 2) = None"
    by (simp add: study_db_views)
  have "attempts d' = [stored_attempt (ga_attempt g)]" using e by (simp add: study_db_tables)
  with s m ok show ?thesis by (auto simp: stored_attempt_def)
qed

text \<open>
  C33: a submission that fails before the attempt is stored changes nothing, but it is not one
  transaction: when reading or storing the review fails afterwards, the attempt stays in the log
  while the review is as before, and the learner sees an error.
\<close>

theorem submit_failure:
  assumes "quiz_ok d" "\<not> is_zero_time now" "submit cf (new_quiz_service wall) now uid i d = (Inl e, d')"
  shows "quiz_ok d' \<and> memory_of d' = memory_of d \<and> question_of d' = question_of d \<and> set_of d' = set_of d
    \<and> (attempts d' = attempts d
       \<or> (\<exists>b. a_user_id b = uid \<and> a_question_id b = si_question_id i \<and> a_answered_at b = now
            \<and> attempts d' = attempts d @ [stored_attempt b]))"
proof -
  have fields: "a_user_id x = u \<and> a_question_id x = k \<and> a_answered_at x = t"
    if "x = \<lparr>a_id = n, a_user_id = u, a_question_id = k, a_set_id = y, a_is_correct = c, a_duration_ms = m,
      a_submitted_json = j, a_answered_at = t\<rparr>" for x n u k y c m j t
    unfolding that by simp
  show ?thesis
    using sqlite_quiz_store.submit_outcome [OF assms(1,2) new_quiz_service_ports assms(3)]
  proof (elim conjE disjE exE)
    fix q want x
    assume x: "x = \<lparr>a_id = a_id x, a_user_id = uid, a_question_id = si_question_id i, a_set_id = a_set_id x,
              a_is_correct = is_correct cf want (si_answer i), a_duration_ms = si_duration_ms i,
              a_submitted_json = write_answer i, a_answered_at = now\<rparr>"
      and l: "attempts d' = attempts d @ [stored_attempt x]"
      and "quiz_ok d'" "memory_of d' = memory_of d" "question_of d' = question_of d" "set_of d' = set_of d"
    then show ?thesis using fields [OF x] by blast
  qed (simp_all add: Let_def)
qed

lemma failing_submit:
  obtains e d' where "submit cf demo_quiz second 1 (demo_input 1)
      (study_db\<lparr>faults := [None, None, None, None, Some ''disk I/O error'']\<rparr>) = (Inl e, d')"
    "length (attempts d') = 1"
proof -
  note v = study_db_tables study_db_views
  show thesis
    by (rule that)
      (simp_all add: submit_def sqlite_questions_def question_get_by_id_def query_row_def statement_def tick_def
        scan_question_def v demo_input_def submit_set_def sqlite_sets_def question_set_get_by_code_def
        sqlite_attempts_def sqlite_states_def attempt_create_def insert_attempt_def state_get_def
        state_upsert_def demo_question_def demo_set_def demo_user_def set_code_core_def Let_def zero_time_def
        cong: if_cong, simp)
qed

theorem submit_failure_witness:
  "\<exists>e d'. submit (\<lambda>c. c) demo_quiz second 1 (demo_input 1)
      (study_db\<lparr>faults := [None, None, None, None, Some ''disk I/O error'']\<rparr>) = (Inl e, d')
     \<and> length (attempts d') = 1 \<and> memory_of d' (1, 1) = None"
proof -
  let ?d = "study_db\<lparr>faults := [None, None, None, None, Some ''disk I/O error'']\<rparr>"
  have same: "same_tables study_db ?d" by (simp add: same_tables_def)
  obtain e d' where s: "submit (\<lambda>c. c) demo_quiz second 1 (demo_input 1) ?d = (Inl e, d')" "length (attempts d') = 1"
    by (rule failing_submit)
  from submit_failure [OF quiz_ok_same [OF same study_db_ok] demo_time(2) s(1)] quiz_views_same [OF same] s
  show ?thesis by (auto simp: study_db_views)
qed

section \<open>Stored answers\<close>

text \<open>
  the answer that \<^verbatim>\<open>Submit\<close> stores with an attempt reads back as the answer that was submitted,
  account names in any script and amounts of 64 bits included, whether an empty side was nil or
  an empty slice.
\<close>

theorem answer_round_trip:
  assumes "answer_ok (si_answer i)"
  shows "read_answer (write_answer i) = Inr (si_answer i)"
  using read_write_answer [OF assms] by (simp add: write_answer_def)

theorem answer_round_trip_witness:
  "answer_ok demo_answer \<and> read_answer (write_answer (demo_input 1)) = Inr demo_answer"
  using answer_round_trip [of "demo_input 1"] demo_answer_ok by (simp add: demo_input_def)

end
