(* ===== verification/Rounds.thy ===== *)
theory Rounds
  imports Learning
begin

text \<open>
  Runs of the sequential mode: ask, answer, ask again.
\<close>

section \<open>Sequential rounds\<close>

text \<open>
  A learner who works through a set: at each time of the list the next question is asked in
  sequential mode and the answer is submitted for it and for the set.
\<close>

fun sequential_rounds ::
    "(int \<Rightarrow> int) \<Rightarrow> time \<Rightarrow> int \<Rightarrow> string \<Rightarrow> (time \<times> submit_input) list \<Rightarrow> db \<Rightarrow> question list res \<times> db" where
  "sequential_rounds cf wall uid c [] d = (Inr [], d)"
| "sequential_rounds cf wall uid c ((now, i) # rs) d =
     (case next_question (new_quiz_service wall) now [] uid c mode_sequential d of
        (Inl e, d1) \<Rightarrow> (Inl e, d1)
      | (Inr q, d1) \<Rightarrow>
     (case submit cf (new_quiz_service wall) now uid (i\<lparr>si_question_id := q_id q, si_set_code := c\<rparr>) d1 of
        (Inl e, d2) \<Rightarrow> (Inl e, d2)
      | (Inr _, d2) \<Rightarrow>
     (case sequential_rounds cf wall uid c rs d2 of
        (Inl e, d3) \<Rightarrow> (Inl e, d3) | (Inr qs, d3) \<Rightarrow> (Inr (q # qs), d3))))"

definition set_log :: "int \<Rightarrow> int \<Rightarrow> db \<Rightarrow> attempt list" where
  "set_log uid sid d = filter (\<lambda>a. a_user_id a = uid \<and> a_set_id a = Some sid) (attempts d)"

lemma next_sequential_runs:
  assumes "faults d = []" "set_of d c = Some st" "set_questions c d \<noteq> []"
  shows "\<exists>q. next_question (new_quiz_service wall) now ds uid c mode_sequential d = (Inr q, d)
    \<and> (set_log uid (qs_id st) d = [] \<longrightarrow> q = hd (set_questions c d))"
  using assms
  by (auto simp: next_question_def sqlite_questions_def list_by_set_runs mode_distinct pick_sequential_def
      sqlite_sets_def set_get_runs sqlite_attempts_def last_in_set_runs set_log_def
      split: list.splits option.splits)

text \<open>Where a learner stands: the store works and the \<open>k\<close>-th question of the set comes next.\<close>

definition stands :: "time \<Rightarrow> int \<Rightarrow> string \<Rightarrow> nat \<Rightarrow> time \<Rightarrow> db \<Rightarrow> bool" where
  "stands wall uid c k t d \<longleftrightarrow> quiz_ok d \<and> faults d = [] \<and> uid \<in> u_id ` set (users d)
     \<and> (\<exists>st. set_of d c = Some st
          \<and> (\<forall>a\<in>set (set_log uid (qs_id st) d). unix (a_answered_at a) \<le> unix t)
          \<and> (\<forall>now ds q d'. next_question (new_quiz_service wall) now ds uid c mode_sequential d = (Inr q, d')
               \<longrightarrow> q = set_questions c d ! (k mod length (set_questions c d))))
     \<and> set_questions c d \<noteq> [] \<and> (\<forall>q\<in>set (set_questions c d). \<exists>want. read_answer (q_answer_json q) = Inr want)"

lemma stands_mono: "stands wall uid c k t d \<Longrightarrow> t \<le> t' \<Longrightarrow> stands wall uid c k t' d"
  unfolding stands_def using unix_mono [of t t'] by (meson order_trans)

lemma stands_round:
  assumes "stands wall uid c k now d" "c \<noteq> []" "\<not> is_zero_time now"
  obtains q d1 g d2 where
    "next_question (new_quiz_service wall) now [] uid c mode_sequential d = (Inr q, d)"
    "q = set_questions c d ! (k mod length (set_questions c d))"
    "submit cf (new_quiz_service wall) now uid (i\<lparr>si_question_id := q_id q, si_set_code := c\<rparr>) d = (Inr g, d2)"
    "stands wall uid c (Suc k) now d2" "set_questions c d2 = set_questions c d"
proof -
  let ?all = "set_questions c d" and ?z = "new_quiz_service wall"
  obtain st where ok: "quiz_ok d" "faults d = []" "uid \<in> u_id ` set (users d)" "set_of d c = Some st" "?all \<noteq> []"
      and old: "\<forall>a\<in>set (set_log uid (qs_id st) d). unix (a_answered_at a) \<le> unix now"
      and pos: "\<forall>now ds q d'. next_question (new_quiz_service wall) now ds uid c mode_sequential d = (Inr q, d')
               \<longrightarrow> q = ?all ! (k mod length ?all)"
      and readable: "\<forall>q\<in>set ?all. \<exists>want. read_answer (q_answer_json q) = Inr want"
    using assms(1) unfolding stands_def by blast
  obtain q where n: "next_question ?z now [] uid c mode_sequential d = (Inr q, d)"
    using next_sequential_runs [OF ok(2,4,5)] by blast
  have q: "q = ?all ! (k mod length ?all)" using pos n by blast
  have k: "k mod length ?all < length ?all" using ok(5) by simp
  then have "q \<in> set ?all" using q by simp
  then have qo: "question_of d (q_id q) = Some q" using set_question_of ok(1) by blast
  let ?i = "i\<lparr>si_question_id := q_id q, si_set_code := c\<rparr>"
  have "can_submit d uid ?i"
    using ok qo readable \<open>q \<in> set ?all\<close> by (auto simp: can_submit_def)
  from submit_runs [OF ok(1,2) this, of cf wall now]
  obtain g d2 where s: "submit cf ?z now uid ?i d = (Inr g, d2)" "faults d2 = []"
      "a_set_id (ga_attempt g) = Some (qs_id st)" "users d2 = users d"
    using assms(2) ok(4) by auto
  note e = submit_effect [OF ok(1) assms(3) s(1) refl refl refl]
  have all2: "set_questions c d2 = ?all" using e by meson
  have log2: "set_log uid (qs_id st) d2 = set_log uid (qs_id st) d @ [stored_attempt (ga_attempt g)]"
    using e s(3) by (simp add: set_log_def stored_attempt_def)
  have new: "unix (a_answered_at (stored_attempt (ga_attempt g))) = unix now"
    using e by (simp add: stored_attempt_def secs_def)
  have "stands wall uid c (Suc k) now d2"
    unfolding stands_def all2
  proof (intro conjI exI [of _ st] allI impI)
    fix now2 ds2 q2 d3
    assume "next_question ?z now2 ds2 uid c mode_sequential d2 = (Inr q2, d3)"
    then have "q2 = ?all ! (Suc (k mod length ?all) mod length ?all)"
      by (intro sqlite_quiz_store.sequential_after_submit [OF ok(1) assms(3) new_quiz_service_ports s(1,3) ok(4)
          distinct_set_questions [OF ok(1)] k]) (use q old in \<open>auto simp: set_log_def\<close>)
    then show "q2 = ?all ! (Suc k mod length ?all)" by (simp add: mod_Suc_eq)
  qed (use e s ok old readable new log2 in auto)
  from n q s(1) this all2 show thesis by (intro that)
qed

lemma stands_rounds:
  assumes "stands wall uid c k t d" "c \<noteq> []" "sorted (t # map fst rs)" "\<forall>r\<in>set rs. \<not> is_zero_time (fst r)"
  shows "\<exists>d'. sequential_rounds cf wall uid c rs d =
    (Inr (map (\<lambda>j. set_questions c d ! ((k + j) mod length (set_questions c d))) [0..<length rs]), d')"
  using assms
proof (induction rs arbitrary: k t d)
  case (Cons r rs)
  obtain now i where r: "r = (now, i)" by fastforce
  have "stands wall uid c k now d" using Cons.prems(1,3) stands_mono r by (metis list.simps(9) sorted2 fst_conv)
  then obtain q g d2 where 1: "next_question (new_quiz_service wall) now [] uid c mode_sequential d = (Inr q, d)"
      "q = set_questions c d ! (k mod length (set_questions c d))"
      "submit cf (new_quiz_service wall) now uid (i\<lparr>si_question_id := q_id q, si_set_code := c\<rparr>) d = (Inr g, d2)"
      "stands wall uid c (Suc k) now d2" "set_questions c d2 = set_questions c d"
    by (rule stands_round [of wall uid c k now d cf i]) (use Cons.prems(2,4) r in simp_all)
  obtain d' where 2: "sequential_rounds cf wall uid c rs d2 =
    (Inr (map (\<lambda>j. set_questions c d ! ((Suc k + j) mod length (set_questions c d))) [0..<length rs]), d')"
    using Cons.IH [OF 1(4)] Cons.prems(2-4) r 1(5) by auto
  have "map (\<lambda>j. set_questions c d ! ((k + j) mod length (set_questions c d))) [0..<length (r # rs)]
      = q # map (\<lambda>j. set_questions c d ! ((Suc k + j) mod length (set_questions c d))) [0..<length rs]"
    by (simp add: map_upt_Suc 1(2) del: upt_Suc)
  then show ?case using 1 2 r by simp
qed simp

text \<open>
  C12: a learner new to a set who works through it in sequential mode sees its questions in the
  order of the set, and after the last one the first again, for as many rounds as the learner
  keeps asking and answering and whatever the answers are.  The clock may stand still but not run
  backwards, and every round succeeds as long as the store works and the answers of the bank can
  be read.
\<close>

theorem sequential_cycle:
  assumes "quiz_ok d" "faults d = []" "uid \<in> u_id ` set (users d)" "set_of d c = Some st" "c \<noteq> []"
    and "all = set_questions c d" "all \<noteq> []" "\<forall>q\<in>set all. \<exists>want. read_answer (q_answer_json q) = Inr want"
    and "set_log uid (qs_id st) d = []"
    and "sorted (map fst rs)" "\<forall>r\<in>set rs. \<not> is_zero_time (fst r)"
  shows "\<exists>d'. sequential_rounds cf wall uid c rs d
    = (Inr (map (\<lambda>j. all ! (j mod length all)) [0..<length rs]), d')"
proof (cases rs)
  case (Cons r rs')
  have "q = all ! 0"
    if "next_question (new_quiz_service wall) now ds uid c mode_sequential d = (Inr q, d')" for now ds q d'
    using next_sequential_runs [OF assms(2,4), of wall now ds uid] that assms(6,7,9) by (auto simp: hd_conv_nth)
  then have "stands wall uid c 0 (fst r) d" using assms unfolding stands_def by auto
  from stands_rounds [OF this assms(5), of rs cf] assms(6,10,11) Cons show ?thesis by simp
qed simp

theorem sequential_cycle_witness:
  "\<exists>d'. sequential_rounds (\<lambda>x. x) 0 1 set_code_core [(0, demo_input 7), (0, demo_input 8), (second, demo_input 9)] study_db
    = (Inr [demo_question 1 ''q1'', demo_question 2 ''q2'', demo_question 1 ''q1''], d')"
proof -
  let ?rs = "[(0, demo_input 7), (0, demo_input 8), (second, demo_input 9)]"
  have "set_code_core \<noteq> []" by (simp add: set_code_core_def)
  from sequential_cycle [OF study_db_ok study_db_tables(6) _ study_db_views(4) this refl,
      of 1 ?rs "\<lambda>x. x" 0]
  have "\<exists>d'. sequential_rounds (\<lambda>x. x) 0 1 set_code_core ?rs study_db
      = (Inr (map (\<lambda>j. [demo_question 1 ''q1'', demo_question 2 ''q2''] ! (j mod 2)) [0..<3]), d')"
    by (simp add: study_db_views study_db_tables demo_user_def set_log_def demo_question_def zero_time_def
        numeral_2_eq_2 numeral_3_eq_3 del: sequential_rounds.simps upt_Suc)
  then show ?thesis by (simp add: upt_rec del: sequential_rounds.simps)
qed

end
