(* ===== verification/History.thy ===== *)
theory History
  imports Learning
begin

text \<open>
  The record of a learner: deleting from it, starting over, and the statistics computed from it.
\<close>

section \<open>Deleting\<close>

text \<open>
  C21: \<^verbatim>\<open>DeleteAttempt\<close> removes the one attempt with the given id when it is the caller's own, and
  otherwise nothing; nobody else's attempts and no review is touched.
\<close>

theorem delete_attempt_own:
  assumes "quiz_ok d" "delete_attempt (new_quiz_service wall) uid aid d = (r, d')"
  shows "quiz_ok d' \<and> memory_of d' = memory_of d
    \<and> filter (\<lambda>a. a_user_id a \<noteq> uid) (attempts d') = filter (\<lambda>a. a_user_id a \<noteq> uid) (attempts d)
    \<and> (case r of
         Inr _ \<Rightarrow> (\<exists>a\<in>set (attempts d). a_id a = aid \<and> a_user_id a = uid)
           \<and> attempts d' = filter (\<lambda>a. a_id a \<noteq> aid) (attempts d)
       | Inl e \<Rightarrow> attempts d' = attempts d
           \<and> (errors_is e ErrNotFound \<longrightarrow> (\<forall>a\<in>set (attempts d). a_id a = aid \<longrightarrow> a_user_id a \<noteq> uid)))"
proof -
  note o = sqlite_quiz_store.delete_attempt_outcome [OF assms(1) new_quiz_service_ports(3) assms(2)]
  have inj: "inj_on a_id (set (attempts d))" using assms(1) by (simp add: quiz_ok_def distinct_map)
  show ?thesis
  proof (cases r)
    case (Inr u)
    with o obtain a where a: "a \<in> set (attempts d)" "a_id a = aid" "a_user_id a = uid"
      and l: "attempts d' = filter (\<lambda>a. \<not> (a_id a = aid \<and> a_user_id a = uid)) (attempts d)" by auto
    have "\<not> (a_id b = aid \<and> a_user_id b = uid) \<longleftrightarrow> a_id b \<noteq> aid" if "b \<in> set (attempts d)" for b
      using inj_onD [OF inj _ a(1) that] a(2,3) by metis
    then have own: "attempts d' = filter (\<lambda>a. a_id a \<noteq> aid) (attempts d)"
      unfolding l by (intro filter_cong) auto
    have others: "filter (\<lambda>a. a_user_id a \<noteq> uid) (attempts d') = filter (\<lambda>a. a_user_id a \<noteq> uid) (attempts d)"
      unfolding l filter_filter by (intro filter_cong) auto
    show ?thesis unfolding Inr sum.case using o own others a by blast
  qed (use o in auto)
qed

lemma delete_runs:
  "faults d = [] \<Longrightarrow> \<exists>a\<in>set (attempts d). a_id a = aid \<and> a_user_id a = uid \<Longrightarrow>
   delete_attempt (new_quiz_service wall) uid aid d
     = (Inr (), d\<lparr>attempts := filter (\<lambda>a. \<not> (a_id a = aid \<and> a_user_id a = uid)) (attempts d)\<rparr>)"
  by (auto simp: delete_attempt_def sqlite_attempts_def attempt_delete_by_id_def delete_attempts_def
      statement_no_faults filter_empty_conv)

theorem delete_attempt_own_witness:
  "\<exists>d'. delete_attempt demo_quiz 1 1 review_db = (Inr (), d') \<and> attempts d' = [] \<and> quiz_ok d'"
proof -
  have "\<exists>a\<in>set (attempts review_db). a_id a = 1 \<and> a_user_id a = 1" by (simp add: review_db_def)
  from delete_runs [OF review_db_ok(2) this, of 0]
  obtain d' where d: "delete_attempt demo_quiz 1 1 review_db = (Inr (), d')" by blast
  from delete_attempt_own [OF review_db_ok(1) d] d show ?thesis by (auto simp: review_db_def)
qed

text \<open>
  C22: after a successful \<^verbatim>\<open>DeleteAllForUser\<close> the learner's statistics are those of a newcomer: no
  attempts, none correct, rate zero, nothing due; the attempts and reviews of everyone else are
  what they were.
\<close>

theorem reset_clears:
  assumes "quiz_ok d" "delete_all_for_user (new_quiz_service wall) uid d = (Inr (), d')"
    and "stats_summary_of (new_stats_service wall) now uid d' = (Inr x, d'')"
  shows "x = \<lparr>ss_total_attempts = 0, ss_total_correct = 0, ss_overall_rate = 0, ss_due_count = 0\<rparr>
    \<and> quiz_ok d' \<and> attempts d' = filter (\<lambda>a. a_user_id a \<noteq> uid) (attempts d)
    \<and> (\<forall>v q. memory_of d' (v, q) = (if v = uid then None else memory_of d (v, q)))"
proof -
  from sqlite_quiz_store.delete_all_outcome [OF assms(1) new_quiz_service_ports(3,4) assms(2)]
  have a: "quiz_ok d'" "attempts d' = filter (\<lambda>a. a_user_id a \<noteq> uid) (attempts d)"
      "memory_of d' = (\<lambda>k. if fst k = uid then None else memory_of d k)" by auto
  have none: "filter (\<lambda>a. a_user_id a = uid) (attempts d') = []" using a(2) by simp
  from sqlite_quiz_store.summary_done [OF a(1) new_quiz_service_simps(5,6) assms(3)]
  have "ss_total_attempts x = 0" "ss_total_correct x = 0" "ss_overall_rate x = 0" "ss_due_count x = 0"
    using none a(3) by (auto simp: count_correct_def)
  then have "x = \<lparr>ss_total_attempts = 0, ss_total_correct = 0, ss_overall_rate = 0, ss_due_count = 0\<rparr>"
    by (cases x) simp
  with a show ?thesis by simp
qed

lemma summary_runs:
  "faults d = [] \<Longrightarrow> stats_summary_of (new_stats_service wall) now uid d =
     (Inr (let n = int (length (user_attempts uid d)); c = count_correct (user_attempts uid d) in
        \<lparr>ss_total_attempts = n, ss_total_correct = c,
         ss_overall_rate = (if 0 < n then fdiv (float_of_int c) (float_of_int n) else 0),
         ss_due_count = int (length (due_states uid now d))\<rparr>), d)"
  by (simp add: stats_summary_of_def sqlite_attempts_def sqlite_states_def attempt_summary_for_user_def
      state_count_due_for_user_def query_row_no_faults Let_def)

theorem reset_clears_witness:
  "\<exists>d' x. delete_all_for_user demo_quiz 1 review_db = (Inr (), d')
     \<and> stats_summary_of (new_stats_service 0) 0 1 d' = (Inr x, d') \<and> ss_total_attempts x = 0 \<and> attempts d' = []"
proof -
  let ?d = "review_db\<lparr>attempts := [], srs_states := []\<rparr>"
  have d: "delete_all_for_user demo_quiz 1 review_db = (Inr (), ?d)"
    by (simp add: delete_all_for_user_def sqlite_attempts_def sqlite_states_def attempt_delete_all_for_user_def
        delete_attempts_def state_delete_all_for_user_def statement_no_faults review_db_ok)
      (simp add: review_db_def study_db_tables)
  obtain x where x: "stats_summary_of (new_stats_service 0) 0 1 ?d = (Inr x, ?d)"
    using summary_runs [of ?d 0 0 1] review_db_ok(2) by auto
  from reset_clears [OF review_db_ok(1) d x] d x show ?thesis by auto
qed

section \<open>Statistics\<close>

text \<open>Counting by class: every element is in exactly one of the classes.\<close>

lemma sum_list_indicator:
  "distinct ts \<Longrightarrow> sum_list (map (\<lambda>t. if t = k then 1 else (0::nat)) ts) = (if k \<in> set ts then 1 else 0)"
  by (induction ts) auto

lemma length_filter_classes:
  assumes "distinct ts" "\<forall>x\<in>set xs. R x \<longrightarrow> cls x \<in> set ts"
  shows "sum_list (map (\<lambda>t. length (filter (\<lambda>x. R x \<and> cls x = t) xs)) ts) = length (filter R xs)"
  using assms(2)
proof (induction xs)
  case Nil
  show ?case by (induction ts) auto
next
  case (Cons x xs)
  have "(\<lambda>t. length (filter (\<lambda>x. R x \<and> cls x = t) (x # xs)))
      = (\<lambda>t. (if R x then if t = cls x then 1 else 0 else 0) + length (filter (\<lambda>x. R x \<and> cls x = t) xs))"
    by (auto simp: fun_eq_iff)
  with Cons sum_list_indicator [OF assms(1), of "cls x"] show ?case
    by (simp add: sum_list_addf)
qed

lemma sum_list_int: "sum_list (map (\<lambda>t. int (f t)) ts) = int (sum_list (map f ts))"
  by (induction ts) auto

definition topic_of :: "db \<Rightarrow> attempt \<Rightarrow> int" where
  "topic_of d a = q_topic_id (the (question_of d (a_question_id a)))"

lemma question_of_in: "quiz_ok d \<Longrightarrow> q \<in> set (questions d) \<Longrightarrow> question_of d (q_id q) = Some q"
  using row_key [of q_id "questions d" q] by (auto simp: question_of_def quiz_ok_def)

lemma attempt_question: "quiz_ok d \<Longrightarrow> a \<in> set (attempts d) \<Longrightarrow> \<exists>q\<in>set (questions d). a_question_id a = q_id q"
  by (auto simp: quiz_ok_def)

lemma mset_filter_disjoint:
  assumes "\<And>x. \<not> (P x \<and> Q x)"
  shows "mset (filter (\<lambda>x. P x \<or> Q x) xs) = mset (filter P xs) + mset (filter Q xs)"
proof (induction xs)
  case (Cons x xs)
  with assms [of x] show ?case by auto
qed simp

lemma mset_topic_attempts:
  assumes "quiz_ok d"
  shows "mset (topic_attempts uid tid d) = mset (filter (\<lambda>a. a_user_id a = uid \<and> topic_of d a = tid) (attempts d))"
proof -
  have sub: "mset (concat (map (\<lambda>q. if q_topic_id q = tid then concat (map (\<lambda>a. if a_question_id a = q_id q
          then if a_user_id a = uid then [a] else [] else []) as) else []) qs))
     = mset (filter (\<lambda>a. a_user_id a = uid \<and> (\<exists>q\<in>set qs. q_topic_id q = tid \<and> a_question_id a = q_id q)) as)"
    if "distinct (map q_id qs)" for qs as
    using that
  proof (induction qs)
    case (Cons q qs)
    have inner: "concat (map (\<lambda>a. if a_question_id a = q_id q then if a_user_id a = uid then [a] else [] else []) as)
        = filter (\<lambda>a. a_user_id a = uid \<and> a_question_id a = q_id q) as"
      by (induction as) auto
    let ?Q = "\<lambda>a. a_user_id a = uid \<and> a_question_id a = q_id q"
    let ?R = "\<lambda>a. a_user_id a = uid \<and> (\<exists>q\<in>set qs. q_topic_id q = tid \<and> a_question_id a = q_id q)"
    have "\<not> (?Q a \<and> ?R a)" for a using Cons.prems by auto
    then have m: "mset (filter (\<lambda>a. ?Q a \<or> ?R a) as) = mset (filter ?Q as) + mset (filter ?R as)"
      by (rule mset_filter_disjoint)
    have eq: "(\<lambda>a. a_user_id a = uid \<and> (\<exists>x\<in>set (q # qs). q_topic_id x = tid \<and> a_question_id a = q_id x))
        = (if q_topic_id q = tid then (\<lambda>a. ?Q a \<or> ?R a) else ?R)" by auto
    show ?case unfolding eq using Cons m by (cases "q_topic_id q = tid") (simp_all add: inner del: mset_filter)
  qed simp
  have "(\<exists>q\<in>set (questions d). q_topic_id q = tid \<and> a_question_id a = q_id q) \<longleftrightarrow> topic_of d a = tid"
    if a: "a \<in> set (attempts d)" for a
  proof -
    obtain q where q: "q \<in> set (questions d)" "a_question_id a = q_id q"
      using attempt_question [OF assms a] by blast
    have t: "topic_of d a = q_topic_id q" using question_of_in [OF assms q(1)] q(2) by (simp add: topic_of_def)
    have "q' = q" if "q' \<in> set (questions d)" "a_question_id a = q_id q'" for q'
      using question_of_in [OF assms that(1)] question_of_in [OF assms q(1)] that(2) q(2) by simp
    then show ?thesis unfolding t using q by metis
  qed
  then have "filter (\<lambda>a. a_user_id a = uid \<and> (\<exists>q\<in>set (questions d). q_topic_id q = tid \<and> a_question_id a = q_id q)) (attempts d)
      = filter (\<lambda>a. a_user_id a = uid \<and> topic_of d a = tid) (attempts d)"
    by (intro filter_cong) auto
  with sub [of "questions d" "attempts d"] assms show ?thesis
    by (simp add: topic_attempts_def quiz_ok_def)
qed

lemma topic_attempts_counts:
  assumes "quiz_ok d"
  shows "length (filter P (topic_attempts uid tid d))
    = length (filter (\<lambda>a. (a_user_id a = uid \<and> P a) \<and> topic_of d a = tid) (attempts d))"
proof -
  have "size (filter_mset P (mset (topic_attempts uid tid d)))
      = size (filter_mset P (mset (filter (\<lambda>a. a_user_id a = uid \<and> topic_of d a = tid) (attempts d))))"
    using mset_topic_attempts [OF assms] by simp
  moreover have "(\<lambda>a. (a_user_id a = uid \<and> topic_of d a = tid) \<and> P a) = (\<lambda>a. (a_user_id a = uid \<and> P a) \<and> topic_of d a = tid)"
    by auto
  ultimately show ?thesis by (simp flip: mset_filter)
qed

lemma topic_totals:
  assumes "quiz_ok d"
  shows "sum_list (map (\<lambda>t. length (filter P (topic_attempts uid (t_id t) d))) (topic_rows d))
    = length (filter P (user_attempts uid d))"
proof -
  have "topic_of d a \<in> set (map t_id (topic_rows d))" if a: "a \<in> set (attempts d)" for a
  proof -
    obtain q where "q \<in> set (questions d)" "a_question_id a = q_id q"
      using attempt_question [OF assms a] by blast
    with question_of_in [OF assms] assms show ?thesis by (auto simp: topic_of_def quiz_ok_def)
  qed
  then have "sum_list (map (\<lambda>k. length (filter (\<lambda>a. (a_user_id a = uid \<and> P a) \<and> topic_of d a = k) (attempts d)))
      (map t_id (topic_rows d))) = length (filter (\<lambda>a. a_user_id a = uid \<and> P a) (attempts d))"
    using assms by (intro length_filter_classes) (auto simp: quiz_ok_def)
  then show ?thesis
    by (simp add: topic_attempts_counts [OF assms] user_attempts_def comp_def)
qed

lemma topic_stats_views:
  assumes "attempt_stats_by_topic uid d = (Inr ts, d')"
  shows "same_tables d d' \<and> ts = map (\<lambda>t. let as = topic_attempts uid (t_id t) d in
              \<lparr>ts_code = t_code t, ts_name = t_name t, ts_total = int (length as), ts_correct = count_correct as\<rparr>)
            (sort_key (\<lambda>t. (t_ord t, t_id t)) (topic_rows d))"
  using assms unfolding attempt_stats_by_topic_def
  by (cases rule: query_rows_cases) (auto simp: table_view_def dest!: same_tablesD simp: topic_attempts_def cong: if_cong)

lemma sum_list_sort_key: "sum_list (map f (sort_key k xs)) = sum_list (map f xs :: 'b::comm_monoid_add list)"
  by (metis mset_map mset_sort sum_mset_sum_list)

text \<open>
  C23: the statistics by topic and the summary agree: every topic of the bank has one line, in the
  order of the topics, the lines' totals add up to the learner's number of attempts and their
  correct counts to the correct ones, and no line has more correct answers than answers.
\<close>

theorem topic_stats_total:
  assumes "quiz_ok d" "topic_stats_of (new_stats_service wall) uid d = (Inr ts, d')"
    and "stats_summary_of (new_stats_service wall) now uid d = (Inr x, d'')"
  shows "map ts_code ts = map t_code (sort_key (\<lambda>t. (t_ord t, t_id t)) (topic_rows d))
    \<and> sum_list (map ts_total ts) = ss_total_attempts x \<and> sum_list (map ts_correct ts) = ss_total_correct x
    \<and> (\<forall>t\<in>set ts. 0 \<le> ts_correct t \<and> ts_correct t \<le> ts_total t)"
proof -
  have ts: "ts = map (\<lambda>t. let as = topic_attempts uid (t_id t) d in
              \<lparr>ts_code = t_code t, ts_name = t_name t, ts_total = int (length as), ts_correct = count_correct as\<rparr>)
            (sort_key (\<lambda>t. (t_ord t, t_id t)) (topic_rows d))"
    using topic_stats_views [of uid d ts d'] assms(2) by (simp add: topic_stats_of_def sqlite_attempts_def)
  from sqlite_quiz_store.summary_done [OF assms(1) new_quiz_service_simps(5,6) assms(3)]
  have x: "ss_total_attempts x = int (length (user_attempts uid d))"
      "ss_total_correct x = count_correct (user_attempts uid d)" by (simp_all add: user_attempts_def)
  have "sum_list (map ts_total ts) = int (length (filter (\<lambda>_. True) (user_attempts uid d)))"
    unfolding topic_totals [OF assms(1), symmetric]
    by (simp add: ts comp_def Let_def sum_list_sort_key sum_list_int)
  moreover have "sum_list (map ts_correct ts) = count_correct (user_attempts uid d)"
    unfolding count_correct_def topic_totals [OF assms(1), symmetric]
    by (simp add: ts comp_def Let_def sum_list_sort_key sum_list_int count_correct_def)
  ultimately show ?thesis using x
    by (simp add: ts comp_def Let_def count_correct_def)
qed

theorem topic_stats_total_witness:
  "\<exists>ts x. topic_stats_of (new_stats_service 0) 1 review_db = (Inr ts, review_db)
    \<and> stats_summary_of (new_stats_service 0) 0 1 review_db = (Inr x, review_db)
    \<and> sum_list (map ts_total ts) = ss_total_attempts x"
proof -
  obtain ts where t: "topic_stats_of (new_stats_service 0) 1 review_db = (Inr ts, review_db)"
    by (simp add: topic_stats_of_def sqlite_attempts_def attempt_stats_by_topic_def query_rows_no_faults review_db_ok)
  obtain x where x: "stats_summary_of (new_stats_service 0) 0 1 review_db = (Inr x, review_db)"
    using summary_runs [OF review_db_ok(2), of 0 0 1] by blast
  from topic_stats_total [OF review_db_ok(1) t x] t x show ?thesis by blast
qed

text \<open>The first instant of the days that \<^verbatim>\<open>DailyAccuracy\<close> looks at.\<close>

definition first_day :: "int \<Rightarrow> time \<Rightarrow> int" where
  "first_day days now = unix (add_days (midnight now) (- ((if days \<le> 0 then 7 else days) - 1)))"

lemma daily_views:
  assumes "attempt_daily_accuracy uid days now d = (Inr ds, d')"
  shows "same_tables d d' \<and> (let as = filter (\<lambda>a. first_day days now \<le> unix (a_answered_at a)) (user_attempts uid d)
    in ds = map (day_row as) (days_of as))"
proof -
  obtain r d1 where q: "query_rows ''daily accuracy'' ''daily iter''
      (\<lambda>d. filter (\<lambda>a. first_day days now \<le> unix (a_answered_at a)) (user_attempts uid d)) d = (r, d1)" by fastforce
  then have r: "d' = d1 \<and> (\<exists>as. r = Inr as \<and> ds = map (day_row as) (days_of as))"
    using assms by (auto simp: attempt_daily_accuracy_def first_day_def Let_def split: sum.splits if_splits)
  show ?thesis
    using q
    by (cases rule: query_rows_cases) (use r in \<open>auto simp: table_view_def user_attempts_def dest!: same_tablesD\<close>)
qed

lemma length_filter_conj: "length (filter (\<lambda>x. P x \<and> Q x) xs) \<le> length (filter P xs)"
  by (induction xs) auto

text \<open>
  C24: the daily accuracy covers exactly the learner's attempts since midnight UTC of the first of
  the requested days (seven when none are requested): one line per day with attempts, in strictly
  increasing order of the dates, and the totals and correct counts add up to the attempts and the
  correct ones of the period.
\<close>

theorem daily_accuracy_total:
  assumes "daily_accuracy_of (new_stats_service wall) now uid days d = (Inr ds, d')"
    and "recent = filter (\<lambda>a. first_day days now \<le> unix (a_answered_at a)) (user_attempts uid d)"
  shows "sorted_wrt (<) (map da_date ds) \<and> (\<forall>r\<in>set ds. 0 < da_total r \<and> da_correct r \<le> da_total r)
    \<and> sum_list (map da_total ds) = int (length recent) \<and> sum_list (map da_correct ds) = count_correct recent"
proof -
  let ?day = "\<lambda>a. day_of (unix (a_answered_at a))"
  have ds: "ds = map (day_row recent) (days_of recent)"
    using daily_views [of uid days now d ds d'] assms by (simp add: daily_accuracy_of_def sqlite_attempts_def Let_def)
  have days: "distinct (days_of recent)" "sorted (days_of recent)" "set (days_of recent) = ?day ` set recent"
    by (simp_all add: days_of_def)
  have "sorted_wrt (<) (days_of recent)" using days by (simp add: strict_sorted_iff)
  then have "sorted_wrt (<) (map da_date ds)"
    by (simp add: ds comp_def day_row_def of_unix_def Let_def sorted_wrt_map)
  moreover have "\<forall>r\<in>set ds. 0 < da_total r \<and> da_correct r \<le> da_total r"
    using days(3)
    by (auto simp: ds day_row_def Let_def count_correct_def filter_empty_conv intro!: length_filter_conj)
  moreover have cls: "sum_list (map (\<lambda>n. length (filter (\<lambda>a. R a \<and> ?day a = n) recent)) (days_of recent))
      = length (filter R recent)" for R
    by (rule length_filter_classes [OF days(1)]) (use days(3) in auto)
  have "sum_list (map da_total ds) = int (length recent)"
    using cls [of "\<lambda>_. True"] by (simp add: ds comp_def day_row_def Let_def sum_list_int)
  moreover have "sum_list (map da_correct ds) = count_correct recent"
    using cls [of a_is_correct]
    by (simp add: ds comp_def day_row_def Let_def count_correct_def sum_list_int conj_commute)
  ultimately show ?thesis by simp
qed

theorem daily_accuracy_total_witness:
  "\<exists>ds. daily_accuracy_of (new_stats_service 0) 0 1 7 review_db = (Inr ds, review_db) \<and> sum_list (map da_total ds) = 1"
proof -
  let ?as = "attempts review_db"
  have f: "filter (\<lambda>a. first_day 7 0 \<le> unix (a_answered_at a)) (user_attempts 1 review_db) = ?as"
    by (simp add: review_db_views, simp add: review_db_def first_day_def midnight_def day_of_def add_days_def unix_def of_unix_def i64_def)
  have d: "daily_accuracy_of (new_stats_service 0) 0 1 7 review_db = (Inr (map (day_row ?as) (days_of ?as)), review_db)"
    using f by (simp add: daily_accuracy_of_def sqlite_attempts_def attempt_daily_accuracy_def query_rows_no_faults
        review_db_ok first_day_def Let_def)
      (simp add: review_db_def sqlite_day_def four_digit_year_def unix_def)
  from daily_accuracy_total [OF d f [symmetric]] d show ?thesis by (auto simp: review_db_def)
qed

section \<open>Search\<close>

lemma distinct_map_sort_key: "distinct (map f (sort_key k xs)) \<longleftrightarrow> distinct (map f xs)"
  by (simp add: distinct_map)

lemma search_rows_spec:
  assumes "quiz_ok d"
  shows "sorted_wrt (<) (map q_id (search_rows f d))
    \<and> set (search_rows f d) = {q \<in> set (questions d).
        (qf_set_code f = [] \<or> q \<in> set (set_questions (qf_set_code f) d))
        \<and> (qf_types f = [] \<or> q_type q \<in> set (qf_types f))
        \<and> (qf_topic_codes f = [] \<or> (\<exists>t\<in>set (topic_rows d). t_id t = q_topic_id q \<and> t_code t \<in> set (qf_topic_codes f)))}"
proof -
  let ?src = "if qf_set_code f \<noteq> [] then map snd (set_rows (qf_set_code f) d) else questions d"
  have rows: "set (map snd (set_rows c d)) = set (set_questions c d)" for c
    by (simp add: set_questions_def)
  have "distinct (map q_id (map snd (set_rows c d)))" for c
    using distinct_set_questions [OF assms, of c] by (simp add: set_questions_def distinct_map)
  then have "distinct (map q_id ?src)" using assms by (simp add: quiz_ok_def)
  then have "distinct (map q_id (search_rows f d))"
    unfolding search_rows_def Let_def distinct_map_sort_key by (rule distinct_map_filter)
  then have "sorted_wrt (<) (map q_id (search_rows f d))"
    by (simp add: strict_sorted_iff search_rows_def Let_def)
  moreover have "set (map snd (set_rows c d)) \<subseteq> set (questions d)" for c
    using set_questions_in unfolding rows by blast
  ultimately show ?thesis
    unfolding rows [symmetric] by (auto simp: search_rows_def Let_def)
qed

text \<open>
  C25: a search returns the page of the given limit and offset of the questions that match the
  filter, in the order of their ids and each once; consecutive pages lose and repeat nothing.
  An offset without a limit is always an error, since the statement built for it is not SQL.
\<close>

theorem search_pages:
  assumes "quiz_ok d" "faults d = []"
  shows "fst (question_search f d) =
      (if 0 < qf_offset f \<and> qf_limit f \<le> 0 then Inl (ErrWrap ''question search'' err_sql_syntax)
       else Inr (let rest = drop (nat (qf_offset f)) (search_rows f d)
                 in if 0 < qf_limit f then take (nat (qf_limit f)) rest else rest))
    \<and> sorted_wrt (<) (map q_id (search_rows f d))
    \<and> set (search_rows f d) = {q \<in> set (questions d).
        (qf_set_code f = [] \<or> q \<in> set (set_questions (qf_set_code f) d))
        \<and> (qf_types f = [] \<or> q_type q \<in> set (qf_types f))
        \<and> (qf_topic_codes f = [] \<or> (\<exists>t\<in>set (topic_rows d). t_id t = q_topic_id q \<and> t_code t \<in> set (qf_topic_codes f)))}"
  using search_rows_spec [OF assms(1), of f] assms(2)
  by (simp add: question_search_def statement_no_faults query_rows_no_faults window_def Let_def)

theorem search_pages_witness:
  "fst (question_search \<lparr>qf_topic_codes = [], qf_types = [], qf_set_code = [], qf_limit = 0, qf_offset = 1\<rparr> study_db)
     = Inl (ErrWrap ''question search'' err_sql_syntax)
   \<and> fst (question_search \<lparr>qf_topic_codes = [], qf_types = [], qf_set_code = [], qf_limit = 1, qf_offset = 1\<rparr> study_db)
     = Inr [demo_question 2 ''q2'']"
  using search_pages [OF study_db_ok study_db_tables(6),
      of "\<lparr>qf_topic_codes = [], qf_types = [], qf_set_code = [], qf_limit = 0, qf_offset = 1\<rparr>"]
    search_pages [OF study_db_ok study_db_tables(6),
      of "\<lparr>qf_topic_codes = [], qf_types = [], qf_set_code = [], qf_limit = 1, qf_offset = 1\<rparr>"]
  by (simp add: search_rows_def study_db_tables demo_question_def)

end
