(* ===== verification/Generator.thy ===== *)
theory Generator
  imports Quiz Accounts "HOL-Library.Monad_Syntax"
begin

text \<open>
  \<^verbatim>\<open>seed/generator.go\<close>: the question bank is made of patterns, each of which builds a few
  journal questions with different amounts, and of questions with a choice of answers.  The
  patterns are written out in the theories named after the files \<^verbatim>\<open>seed/bank_*.go\<close>.

  Texts are lists of pieces: ASCII text, and Japanese text by code points.  The amounts are far
  below the range of a 64-bit integer and positive, where \<open>div\<close> is the division of Go.  A panic
  (an index out of range) is \<open>None\<close>.
\<close>

section \<open>Texts\<close>

definition jp :: "int list \<Rightarrow> string" where "jp rs = of_runes rs"

definition cat :: "string list \<Rightarrow> string" where "cat ss = concat ss"

text \<open>
  \<^verbatim>\<open>fmt.Sprintf\<close> with the verbs \<^verbatim>\<open>%s\<close>, \<^verbatim>\<open>%d\<close>, \<^verbatim>\<open>%03d\<close> and \<^verbatim>\<open>%%\<close>; the formats of the bank have as many
  arguments as verbs.
\<close>

datatype arg = Str string | Num int

definition pad3 :: "int \<Rightarrow> string" where
  "pad3 n = (let s = itoa n in replicate (3 - length s) CHR ''0'' @ s)"

definition verb :: "string \<Rightarrow> (arg \<Rightarrow> string) \<times> string" where
  "verb f =
     (if take 1 f = ''s'' then (case_arg (\<lambda>s. s) (\<lambda>_. []), drop 1 f)
      else if take 1 f = ''d'' then (case_arg (\<lambda>_. []) itoa, drop 1 f)
      else if take 3 f = ''03d'' then (case_arg (\<lambda>_. []) pad3, drop 3 f)
      else (\<lambda>_. [], f))"

function sprintf :: "string \<Rightarrow> arg list \<Rightarrow> string" where
  "sprintf f xs =
     (case f of
        [] \<Rightarrow> []
      | c # g \<Rightarrow>
          if c \<noteq> CHR ''%'' then c # sprintf g xs
          else if take 1 g = ''%'' then CHR ''%'' # sprintf (drop 1 g) xs
          else (case xs of
              [] \<Rightarrow> []
            | x # ys \<Rightarrow> fst (verb g) x @ sprintf (snd (verb g)) ys))"
  by pat_completeness auto
termination
  by (relation "measure (\<lambda>(f, _). length f)") (auto simp: verb_def)

declare sprintf.simps [simp del]

text \<open>\<^verbatim>\<open>1,000,000\<close>: the digits in groups of three, built from the right.\<close>

definition group_digits :: "string \<Rightarrow> string" where
  "group_digits s =
     rev (concat (map (\<lambda>(i, c). if 0 < i \<and> i mod 3 = 0 then [CHR '','', c] else [c]) (enumerate 0 (rev s))))"

definition format_yen :: "int \<Rightarrow> string" where
  "format_yen n =
     (let s = itoa n; yen = cat ['' '', jp [0x5186]] in if n < 1000 then s @ yen else group_digits s @ yen)"

section \<open>Questions\<close>

record seed_question =
  sq_code :: string
  sq_topic_code :: string
  sq_type :: question_type
  sq_difficulty :: int
  sq_prompt :: string
  sq_payload :: json
  sq_answer :: answer_payload
  sq_explanation :: string
  sq_references :: "string list"
  sq_sets :: "string list"

record bank_pattern =
  pt_prefix :: string
  pt_topic :: string
  pt_diff :: int
  pt_n :: nat
  pt_expl :: string
  pt_build :: "int \<Rightarrow> (string \<times> journal_entry list \<times> journal_entry list) option"

definition pick :: "int \<Rightarrow> int list \<Rightarrow> int option" where
  "pick i vals = (if 0 \<le> i \<and> i < int (length vals) then Some (vals ! nat i) else None)"

definition je :: "string \<Rightarrow> int \<Rightarrow> journal_entry" where "je a n = JournalEntry a n"

definition references :: "string list" where
  "references = [cat [jp [0x65E5, 0x5546, 0x7C3F, 0x8A18], ''3'', jp [0x7D1A], '' '',
     jp [0x516C, 0x5F0F, 0x51FA, 0x984C, 0x7BC4, 0x56F2], '' (kentei.ne.jp)'']]"

definition journal_question :: "string \<Rightarrow> string \<Rightarrow> string \<Rightarrow> string \<Rightarrow> journal_entry list \<Rightarrow>
    journal_entry list \<Rightarrow> string list \<Rightarrow> seed_question" where
  "journal_question code topic prompt explanation debits credits sets =
     \<lparr>sq_code = code, sq_topic_code = topic, sq_type = qt_journal, sq_difficulty = 1, sq_prompt = prompt,
      sq_payload = JObj [(''hint'', JStr (cat [jp [0x501F, 0x65B9], ''/'', jp [0x8CB8, 0x65B9, 0x306E,
        0x52D8, 0x5B9A, 0x79D1, 0x76EE, 0x3068, 0x91D1, 0x984D, 0x3092, 0x5165, 0x529B, 0x3057,
        0x3066, 0x304F, 0x3060, 0x3055, 0x3044, 0x3002]]))],
      sq_answer = \<lparr>ans_type = qt_journal, ans_debits = debits, ans_credits = credits, ans_choice = [], ans_text = []\<rparr>,
      sq_explanation = explanation, sq_references = references, sq_sets = sets\<rparr>"

definition choice_question :: "string \<Rightarrow> string \<Rightarrow> question_type \<Rightarrow> int \<Rightarrow> string \<Rightarrow> string list \<Rightarrow> string \<Rightarrow>
    string \<Rightarrow> seed_question" where
  "choice_question code topic qt diff prompt choices answer explanation =
     \<lparr>sq_code = code, sq_topic_code = topic, sq_type = qt, sq_difficulty = diff, sq_prompt = prompt,
      sq_payload = JObj [(''choices'', JArr (map JStr choices))],
      sq_answer = \<lparr>ans_type = qt, ans_debits = [], ans_credits = [], ans_choice = answer, ans_text = []\<rparr>,
      sq_explanation = explanation, sq_references = references,
      sq_sets = [set_code_core, set_code_comprehensive]\<rparr>"

text \<open>The variants of the patterns, in order; the first one is a core question as well.\<close>

definition variant :: "bank_pattern \<Rightarrow> nat \<Rightarrow> seed_question option" where
  "variant p i =
     do {
       (prompt, debits, credits) \<leftarrow> pt_build p (int i);
       let sets = [set_code_journal, set_code_comprehensive];
       let sets = (if i = 0 then sets @ [set_code_core] else sets);
       let q = journal_question (sprintf ''%s-%03d'' [Str (pt_prefix p), Num (int i + 1)]) (pt_topic p)
         prompt (pt_expl p) debits credits sets;
       Some (q\<lparr>sq_difficulty := pt_diff p\<rparr>)
     }"

definition expand_patterns :: "bank_pattern list \<Rightarrow> seed_question list option" where
  "expand_patterns ps = map_option concat (those (map (\<lambda>p. those (map (variant p) [0..<pt_n p])) ps))"

section \<open>Sound questions\<close>

named_theorems bank_sound and bank_keys

text \<open>The entries of a question: on both sides, in standard accounts, positive and balanced.\<close>

definition balanced :: "journal_entry list \<Rightarrow> journal_entry list \<Rightarrow> bool" where
  "balanced ds cs \<longleftrightarrow> ds \<noteq> [] \<and> cs \<noteq> [] \<and> list_all (\<lambda>e. account e \<in> set standard \<and> 0 < amount e \<and> amount e < 2 ^ 40) (ds @ cs)
     \<and> sum_list (map amount ds) = sum_list (map amount cs)"

definition pattern_sound :: "bank_pattern \<Rightarrow> bool" where
  "pattern_sound p \<longleftrightarrow> 0 < pt_n p \<and> pt_n p \<le> 3
     \<and> list_all (\<lambda>i. case pt_build p (int i) of None \<Rightarrow> False | Some (_, ds, cs) \<Rightarrow> balanced ds cs) [0..<pt_n p]"

definition pattern_key :: "bank_pattern \<Rightarrow> string \<times> string \<times> nat" where
  "pattern_key p = (pt_prefix p, pt_topic p, pt_n p)"

text \<open>The answer to a choice question is the letter of one of at least three choices.\<close>

definition choice_sound :: "seed_question \<Rightarrow> bool" where
  "choice_sound q \<longleftrightarrow> sq_type q \<noteq> qt_journal \<and> question_type_is_valid (sq_type q)
     \<and> sq_sets q = [set_code_core, set_code_comprehensive]
     \<and> (\<exists>cs a. sq_payload q = JObj [(''choices'', JArr (map JStr cs))] \<and> 3 \<le> length cs
          \<and> sq_answer q = \<lparr>ans_type = sq_type q, ans_debits = [], ans_credits = [], ans_choice = a, ans_text = []\<rparr>
          \<and> list_all (\<lambda>c. byte c < 0x80) a \<and> a \<noteq> [] \<and> list_ex (\<lambda>c. has_prefix c (a @ '':'')) cs)"

lemma choice_question_sound:
  assumes "qt \<noteq> qt_journal" "question_type_is_valid qt" "3 \<le> length cs" "list_all (\<lambda>c. byte c < 0x80) a" "a \<noteq> []"
    "list_ex (\<lambda>c. has_prefix c (a @ '':'')) cs"
  shows "choice_sound (choice_question code topic qt d p cs a e)"
  using assms by (auto simp: choice_sound_def choice_question_def)

lemma jp_standard: "rs \<in> set standard_runes \<Longrightarrow> jp rs \<in> set standard"
  by (simp add: standard_def jp_def)

lemma standard_names [simp]:
  "jp [0x73FE, 0x91D1] \<in> set standard"
  "jp [0x5C0F, 0x53E3, 0x73FE, 0x91D1] \<in> set standard"
  "jp [0x5F53, 0x5EA7, 0x9810, 0x91D1] \<in> set standard"
  "jp [0x666E, 0x901A, 0x9810, 0x91D1] \<in> set standard"
  "jp [0x5B9A, 0x671F, 0x9810, 0x91D1] \<in> set standard"
  "jp [0x58F2, 0x639B, 0x91D1] \<in> set standard"
  "jp [0x30AF, 0x30EC, 0x30B8, 0x30C3, 0x30C8, 0x58F2, 0x639B, 0x91D1] \<in> set standard"
  "jp [0x53D7, 0x53D6, 0x624B, 0x5F62] \<in> set standard"
  "jp [0x96FB, 0x5B50, 0x8A18, 0x9332, 0x50B5, 0x6A29] \<in> set standard"
  "jp [0x7E70, 0x8D8A, 0x5546, 0x54C1] \<in> set standard"
  "jp [0x8CB8, 0x4ED8, 0x91D1] \<in> set standard"
  "jp [0x624B, 0x5F62, 0x8CB8, 0x4ED8, 0x91D1] \<in> set standard"
  "jp [0x7ACB, 0x66FF, 0x91D1] \<in> set standard"
  "jp [0x524D, 0x6255, 0x91D1] \<in> set standard"
  "jp [0x4EEE, 0x6255, 0x91D1] \<in> set standard"
  "jp [0x672A, 0x53CE, 0x5165, 0x91D1] \<in> set standard"
  "jp [0x53D7, 0x53D6, 0x5546, 0x54C1, 0x5238] \<in> set standard"
  "jp [0x5DEE, 0x5165, 0x4FDD, 0x8A3C, 0x91D1] \<in> set standard"
  "jp [0x8CAF, 0x8535, 0x54C1] \<in> set standard"
  "jp [0x4EEE, 0x6255, 0x6D88, 0x8CBB, 0x7A0E] \<in> set standard"
  "jp [0x4EEE, 0x6255, 0x6CD5, 0x4EBA, 0x7A0E, 0x7B49] \<in> set standard"
  "jp [0x524D, 0x6255, 0x4FDD, 0x967A, 0x6599] \<in> set standard"
  "jp [0x524D, 0x6255, 0x5BB6, 0x8CC3] \<in> set standard"
  "jp [0x672A, 0x53CE, 0x5229, 0x606F] \<in> set standard"
  "jp [0x672A, 0x53CE, 0x5BB6, 0x8CC3] \<in> set standard"
  "jp [0x5EFA, 0x7269] \<in> set standard"
  "jp [0x5099, 0x54C1] \<in> set standard"
  "jp [0x8ECA, 0x4E21, 0x904B, 0x642C, 0x5177] \<in> set standard"
  "jp [0x571F, 0x5730] \<in> set standard"
  "jp [0x8CB7, 0x639B, 0x91D1] \<in> set standard"
  "jp [0x652F, 0x6255, 0x624B, 0x5F62] \<in> set standard"
  "jp [0x96FB, 0x5B50, 0x8A18, 0x9332, 0x50B5, 0x52D9] \<in> set standard"
  "jp [0x501F, 0x5165, 0x91D1] \<in> set standard"
  "jp [0x624B, 0x5F62, 0x501F, 0x5165, 0x91D1] \<in> set standard"
  "jp [0x9810, 0x308A, 0x91D1] \<in> set standard"
  "jp [0x6240, 0x5F97, 0x7A0E, 0x9810, 0x308A, 0x91D1] \<in> set standard"
  "jp [0x793E, 0x4F1A, 0x4FDD, 0x967A, 0x6599, 0x9810, 0x308A, 0x91D1] \<in> set standard"
  "jp [0x524D, 0x53D7, 0x91D1] \<in> set standard"
  "jp [0x4EEE, 0x53D7, 0x91D1] \<in> set standard"
  "jp [0x672A, 0x6255, 0x91D1] \<in> set standard"
  "jp [0x672A, 0x6255, 0x914D, 0x5F53, 0x91D1] \<in> set standard"
  "jp [0x4EEE, 0x53D7, 0x6D88, 0x8CBB, 0x7A0E] \<in> set standard"
  "jp [0x672A, 0x6255, 0x6D88, 0x8CBB, 0x7A0E] \<in> set standard"
  "jp [0x672A, 0x6255, 0x6CD5, 0x4EBA, 0x7A0E, 0x7B49] \<in> set standard"
  "jp [0x672A, 0x6255, 0x5229, 0x606F] \<in> set standard"
  "jp [0x672A, 0x6255, 0x5BB6, 0x8CC3] \<in> set standard"
  "jp [0x524D, 0x53D7, 0x5BB6, 0x8CC3] \<in> set standard"
  "jp [0x524D, 0x53D7, 0x5730, 0x4EE3] \<in> set standard"
  "jp [0x5F53, 0x5EA7, 0x501F, 0x8D8A] \<in> set standard"
  "jp [0x8CB8, 0x5012, 0x5F15, 0x5F53, 0x91D1] \<in> set standard"
  "jp [0x5EFA, 0x7269, 0x6E1B, 0x4FA1, 0x511F, 0x5374, 0x7D2F, 0x8A08, 0x984D] \<in> set standard"
  "jp [0x5099, 0x54C1, 0x6E1B, 0x4FA1, 0x511F, 0x5374, 0x7D2F, 0x8A08, 0x984D] \<in> set standard"
  "jp [0x8ECA, 0x4E21, 0x904B, 0x642C, 0x5177, 0x6E1B, 0x4FA1, 0x511F, 0x5374, 0x7D2F, 0x8A08, 0x984D] \<in> set standard"
  "jp [0x8CC7, 0x672C, 0x91D1] \<in> set standard"
  "jp [0x5229, 0x76CA, 0x6E96, 0x5099, 0x91D1] \<in> set standard"
  "jp [0x7E70, 0x8D8A, 0x5229, 0x76CA, 0x5270, 0x4F59, 0x91D1] \<in> set standard"
  "jp [0x58F2, 0x4E0A] \<in> set standard"
  "jp [0x53D7, 0x53D6, 0x624B, 0x6570, 0x6599] \<in> set standard"
  "jp [0x53D7, 0x53D6, 0x5BB6, 0x8CC3] \<in> set standard"
  "jp [0x53D7, 0x53D6, 0x5730, 0x4EE3] \<in> set standard"
  "jp [0x53D7, 0x53D6, 0x5229, 0x606F] \<in> set standard"
  "jp [0x96D1, 0x76CA] \<in> set standard"
  "jp [0x511F, 0x5374, 0x50B5, 0x6A29, 0x53D6, 0x7ACB, 0x76CA] \<in> set standard"
  "jp [0x56FA, 0x5B9A, 0x8CC7, 0x7523, 0x58F2, 0x5374, 0x76CA] \<in> set standard"
  "jp [0x4ED5, 0x5165] \<in> set standard"
  "jp [0x767A, 0x9001, 0x8CBB] \<in> set standard"
  "jp [0x7D66, 0x6599] \<in> set standard"
  "jp [0x6CD5, 0x5B9A, 0x798F, 0x5229, 0x8CBB] \<in> set standard"
  "jp [0x5E83, 0x544A, 0x5BA3, 0x4F1D, 0x8CBB] \<in> set standard"
  "jp [0x652F, 0x6255, 0x624B, 0x6570, 0x6599] \<in> set standard"
  "jp [0x652F, 0x6255, 0x5229, 0x606F] \<in> set standard"
  "jp [0x65C5, 0x8CBB, 0x4EA4, 0x901A, 0x8CBB] \<in> set standard"
  "jp [0x8CB8, 0x5012, 0x5F15, 0x5F53, 0x91D1, 0x7E70, 0x5165] \<in> set standard"
  "jp [0x8CB8, 0x5012, 0x640D, 0x5931] \<in> set standard"
  "jp [0x6E1B, 0x4FA1, 0x511F, 0x5374, 0x8CBB] \<in> set standard"
  "jp [0x901A, 0x4FE1, 0x8CBB] \<in> set standard"
  "jp [0x6D88, 0x8017, 0x54C1, 0x8CBB] \<in> set standard"
  "jp [0x6C34, 0x9053, 0x5149, 0x71B1, 0x8CBB] \<in> set standard"
  "jp [0x652F, 0x6255, 0x5BB6, 0x8CC3] \<in> set standard"
  "jp [0x652F, 0x6255, 0x5730, 0x4EE3] \<in> set standard"
  "jp [0x4FDD, 0x967A, 0x6599] \<in> set standard"
  "jp [0x4FEE, 0x7E55, 0x8CBB] \<in> set standard"
  "jp [0x96D1, 0x640D] \<in> set standard"
  "jp [0x56FA, 0x5B9A, 0x8CC7, 0x7523, 0x58F2, 0x5374, 0x640D] \<in> set standard"
  "jp [0x79DF, 0x7A0E, 0x516C, 0x8AB2] \<in> set standard"
  "jp [0x6CD5, 0x4EBA, 0x7A0E, 0x7B49] \<in> set standard"
  "jp [0x640D, 0x76CA] \<in> set standard"
  "jp [0x73FE, 0x91D1, 0x904E, 0x4E0D, 0x8DB3] \<in> set standard"
  by (rule jp_standard, simp add: standard_runes_def)+

lemma pick_simps [simp]:
  "pick 0 (x # xs) = Some x" "pick 1 (x # y # xs) = Some y" "pick 2 (x # y # z # xs) = Some z"
  by (simp_all add: pick_def)

lemma je_simps [simp]: "account (je a n) = a" "amount (je a n) = n"
  by (simp_all add: je_def)

lemma upt_simps: "[0..<1] = [0]" "[0..<2] = [0, 1]" "[0..<3] = [0, 1, 2]" "[0..<Suc 0] = [0]"
  by (simp_all add: upt_rec)

lemmas pattern_sound_simps = pattern_sound_def balanced_def upt_simps

end
