(* ===== verification/BankMerch.thy ===== *)
theory BankMerch
  imports Generator
begin

text \<open>
  \<^verbatim>\<open>seed/bank_merch.go\<close>: the patterns of merchandise transactions (three-account method).
\<close>

definition ms_patterns_1 :: "bank_pattern list" where
  "ms_patterns_1 =
   [\<lparr>pt_prefix = ''ms-cash-sale'', pt_topic = ''merch_sale'', pt_diff = 1, pt_n = 3,
      pt_expl = cat [jp [0x73FE, 0x91D1, 0x58F2, 0x4E0A, 0x306E, 0x53D6, 0x5F15, 0x3067, 0x3042, 0x308B, 0x3002,
        0x501F, 0x65B9, 0x306F, 0x8CC7, 0x7523, 0x306E, 0x5897, 0x52A0], '' ('', jp [0x73FE,
        0x91D1], '')'', jp [0x3001, 0x8CB8, 0x65B9, 0x306F, 0x53CE, 0x76CA, 0x306E, 0x767A, 0x751F],
        '' ('', jp [0x58F2, 0x4E0A], '')'', jp [0x3002]],
      pt_build = (\<lambda>i. do {
        b \<leftarrow> pick i [28000, 61000, 97000];
        Some (sprintf (cat [jp [0x5546, 0x54C1], '' %s '', jp [0x3092, 0x58F2, 0x308A, 0x4E0A, 0x3052, 0x3001, 0x4EE3,
          0x91D1, 0x306F, 0x73FE, 0x91D1, 0x3067, 0x53D7, 0x3051, 0x53D6, 0x3063, 0x305F, 0x3002]])
          [Str (format_yen b)],
          [je (jp [0x73FE, 0x91D1]) b],
          [je (jp [0x58F2, 0x4E0A]) b])
      })\<rparr>,
    \<lparr>pt_prefix = ''ms-cash-purch'', pt_topic = ''merch_sale'', pt_diff = 1, pt_n = 3,
      pt_expl = cat [jp [0x73FE, 0x91D1, 0x4ED5, 0x5165, 0x306E, 0x53D6, 0x5F15, 0x3067, 0x3042, 0x308B, 0x3002,
        0x4E09, 0x5206, 0x6CD5, 0x3067, 0x306F, 0x501F, 0x65B9, 0x306B, 0x8CBB, 0x7528], '' ('', jp
        [0x4ED5, 0x5165], '')'', jp [0x3001, 0x8CB8, 0x65B9, 0x306B, 0x8CC7, 0x7523, 0x306E, 0x6E1B,
        0x5C11], '' ('', jp [0x73FE, 0x91D1], '') '', jp [0x3092, 0x8A08, 0x4E0A, 0x3059, 0x308B,
        0x3002]],
      pt_build = (\<lambda>i. do {
        b \<leftarrow> pick i [35000, 82000, 149000];
        Some (sprintf (cat [jp [0x5546, 0x54C1], '' %s '', jp [0x3092, 0x4ED5, 0x5165, 0x308C, 0x3001, 0x4EE3, 0x91D1,
          0x306F, 0x73FE, 0x91D1, 0x3067, 0x652F, 0x6255, 0x3063, 0x305F, 0x3002]])
          [Str (format_yen b)],
          [je (jp [0x4ED5, 0x5165]) b],
          [je (jp [0x73FE, 0x91D1]) b])
      })\<rparr>,
    \<lparr>pt_prefix = ''ms-credit-sale'', pt_topic = ''merch_sale'', pt_diff = 1, pt_n = 3,
      pt_expl = cat [jp [0x639B, 0x58F2, 0x4E0A, 0x3067, 0x306F, 0x3001, 0x501F, 0x65B9, 0x306B, 0x58F2, 0x639B,
        0x91D1], '' ('', jp [0x5F8C, 0x65E5, 0x4EE3, 0x91D1, 0x3092, 0x53D7, 0x3051, 0x53D6, 0x308B,
        0x6A29, 0x5229], '')'', jp [0x3001, 0x8CB8, 0x65B9, 0x306B, 0x58F2, 0x4E0A, 0x3092, 0x8A08,
        0x4E0A, 0x3059, 0x308B, 0x3002]],
      pt_build = (\<lambda>i. do {
        b \<leftarrow> pick i [45000, 130000, 260000];
        Some (sprintf (cat [jp [0x5546, 0x54C1], '' %s '', jp [0x3092, 0x58F2, 0x308A, 0x4E0A, 0x3052, 0x3001, 0x4EE3,
          0x91D1, 0x306F, 0x639B, 0x3051, 0x3068, 0x3057, 0x305F, 0x3002]])
          [Str (format_yen b)],
          [je (jp [0x58F2, 0x639B, 0x91D1]) b],
          [je (jp [0x58F2, 0x4E0A]) b])
      })\<rparr>,
    \<lparr>pt_prefix = ''ms-credit-purch'', pt_topic = ''merch_sale'', pt_diff = 1, pt_n = 3,
      pt_expl = cat [jp [0x639B, 0x4ED5, 0x5165, 0x3067, 0x306F, 0x3001, 0x501F, 0x65B9, 0x306B, 0x4ED5, 0x5165,
        0x3001, 0x8CB8, 0x65B9, 0x306B, 0x8CB7, 0x639B, 0x91D1], '' ('', jp [0x5F8C, 0x65E5, 0x4EE3,
        0x91D1, 0x3092, 0x652F, 0x6255, 0x3046, 0x7FA9, 0x52D9], '') '', jp [0x3092, 0x8A08, 0x4E0A,
        0x3059, 0x308B, 0x3002]],
      pt_build = (\<lambda>i. do {
        b \<leftarrow> pick i [52000, 88000, 174000];
        Some (sprintf (cat [jp [0x5546, 0x54C1], '' %s '', jp [0x3092, 0x4ED5, 0x5165, 0x308C, 0x3001, 0x4EE3, 0x91D1,
          0x306F, 0x639B, 0x3051, 0x3068, 0x3057, 0x305F, 0x3002]])
          [Str (format_yen b)],
          [je (jp [0x4ED5, 0x5165]) b],
          [je (jp [0x8CB7, 0x639B, 0x91D1]) b])
      })\<rparr>,
    \<lparr>pt_prefix = ''ms-sale-return'', pt_topic = ''merch_sale'', pt_diff = 2, pt_n = 2,
      pt_expl = cat [jp [0x58F2, 0x4E0A, 0x623B, 0x308A], '' ('', jp [0x8FD4, 0x54C1], '') '', jp [0x306F,
        0x58F2, 0x4E0A, 0x306E, 0x53D6, 0x6D88, 0x3057, 0x3067, 0x3042, 0x308B, 0x3002, 0x58F2,
        0x4E0A, 0x3092, 0x501F, 0x65B9, 0x306B, 0x7ACB, 0x3066, 0x3001, 0x58F2, 0x639B, 0x91D1,
        0x3092, 0x6E1B, 0x3089, 0x3059], '' ('', jp [0x9006, 0x4ED5, 0x8A33], '')'', jp [0x3002]],
      pt_build = (\<lambda>i. do {
        b \<leftarrow> pick i [8000, 15000];
        Some (sprintf (cat [jp [0x639B, 0x3051, 0x3067, 0x58F2, 0x308A, 0x4E0A, 0x3052, 0x305F, 0x5546, 0x54C1,
          0x306E, 0x3046, 0x3061], '' %s '', jp [0x5206, 0x304C, 0x54C1, 0x9055, 0x3044, 0x306E,
          0x305F, 0x3081, 0x8FD4, 0x54C1, 0x3055, 0x308C, 0x305F, 0x3002]])
          [Str (format_yen b)],
          [je (jp [0x58F2, 0x4E0A]) b],
          [je (jp [0x58F2, 0x639B, 0x91D1]) b])
      })\<rparr>,
    \<lparr>pt_prefix = ''ms-purch-return'', pt_topic = ''merch_sale'', pt_diff = 2, pt_n = 2,
      pt_expl = cat [jp [0x4ED5, 0x5165, 0x623B, 0x3057], '' ('', jp [0x8FD4, 0x54C1], '') '', jp [0x306F,
        0x4ED5, 0x5165, 0x306E, 0x53D6, 0x6D88, 0x3057, 0x3067, 0x3042, 0x308B, 0x3002, 0x8CB7,
        0x639B, 0x91D1, 0x3092, 0x501F, 0x65B9, 0x306B, 0x7ACB, 0x3066, 0x3001, 0x4ED5, 0x5165,
        0x3092, 0x6E1B, 0x3089, 0x3059], '' ('', jp [0x9006, 0x4ED5, 0x8A33], '')'', jp [0x3002]],
      pt_build = (\<lambda>i. do {
        b \<leftarrow> pick i [6000, 12000];
        Some (sprintf (cat [jp [0x639B, 0x3051, 0x3067, 0x4ED5, 0x5165, 0x308C, 0x305F, 0x5546, 0x54C1, 0x306E,
          0x3046, 0x3061], '' %s '', jp [0x5206, 0x3092, 0x54C1, 0x8CEA, 0x4E0D, 0x826F, 0x306E,
          0x305F, 0x3081, 0x8FD4, 0x54C1, 0x3057, 0x305F, 0x3002]])
          [Str (format_yen b)],
          [je (jp [0x8CB7, 0x639B, 0x91D1]) b],
          [je (jp [0x4ED5, 0x5165]) b])
      })\<rparr>]"

definition ms_patterns_2 :: "bank_pattern list" where
  "ms_patterns_2 =
   [\<lparr>pt_prefix = ''ms-adv-pay'', pt_topic = ''merch_sale'', pt_diff = 2, pt_n = 2,
      pt_expl = cat [jp [0x5546, 0x54C1, 0x4EE3, 0x91D1, 0x306E, 0x5185, 0x91D1], '' ('', jp [0x624B, 0x4ED8,
        0x91D1], '') '', jp [0x306E, 0x652F, 0x6255, 0x3044, 0x306F, 0x3001, 0x5546, 0x54C1, 0x3092,
        0x53D7, 0x3051, 0x53D6, 0x308B, 0x6A29, 0x5229, 0x3068, 0x3057, 0x3066, 0x524D, 0x6255,
        0x91D1], '' ('', jp [0x8CC7, 0x7523], '') '', jp [0x3092, 0x8A08, 0x4E0A, 0x3059, 0x308B,
        0x3002]],
      pt_build = (\<lambda>i. do {
        b \<leftarrow> pick i [20000, 50000];
        Some (sprintf (cat [jp [0x5546, 0x54C1, 0x306E, 0x6CE8, 0x6587, 0x306B, 0x3042, 0x305F, 0x308A, 0x3001,
          0x5185, 0x91D1, 0x3068, 0x3057, 0x3066], '' %s '', jp [0x3092, 0x73FE, 0x91D1, 0x3067,
          0x652F, 0x6255, 0x3063, 0x305F, 0x3002]])
          [Str (format_yen b)],
          [je (jp [0x524D, 0x6255, 0x91D1]) b],
          [je (jp [0x73FE, 0x91D1]) b])
      })\<rparr>,
    \<lparr>pt_prefix = ''ms-purch-adv'', pt_topic = ''merch_sale'', pt_diff = 2, pt_n = 3,
      pt_expl = cat [jp [0x6CE8, 0x6587, 0x6642, 0x306B, 0x652F, 0x6255, 0x3063, 0x305F, 0x524D, 0x6255, 0x91D1,
        0x3092, 0x4ED5, 0x5165, 0x4EE3, 0x91D1, 0x306B, 0x5145, 0x5F53, 0x3057, 0x3001, 0x6B8B,
        0x984D, 0x3092, 0x8CB7, 0x639B, 0x91D1, 0x3068, 0x3059, 0x308B, 0x3002, 0x501F, 0x65B9,
        0x306F, 0x4ED5, 0x5165], '' ('', jp [0x7DCF, 0x984D], '')'', jp [0x3002]],
      pt_build = (\<lambda>i. do {
        b \<leftarrow> pick i [50000, 120000, 85000];
        let adv = b div 5;
        Some (sprintf (cat [jp [0x5546, 0x54C1], '' %s '', jp [0x3092, 0x4ED5, 0x5165, 0x308C, 0x3001, 0x6CE8, 0x6587,
          0x6642, 0x306B, 0x652F, 0x6255, 0x3063, 0x305F, 0x5185, 0x91D1], '' %s '', jp [0x3092,
          0x5DEE, 0x3057, 0x5F15, 0x3044, 0x305F, 0x6B8B, 0x984D, 0x3092, 0x639B, 0x3051, 0x3068,
          0x3057, 0x305F, 0x3002]])
          [Str (format_yen b), Str (format_yen adv)],
          [je (jp [0x4ED5, 0x5165]) b],
          [je (jp [0x524D, 0x6255, 0x91D1]) adv, je (jp [0x8CB7, 0x639B, 0x91D1]) (b - adv)])
      })\<rparr>,
    \<lparr>pt_prefix = ''ms-adv-recv'', pt_topic = ''merch_sale'', pt_diff = 2, pt_n = 2,
      pt_expl = cat [jp [0x5546, 0x54C1, 0x4EE3, 0x91D1, 0x306E, 0x5185, 0x91D1, 0x306E, 0x53D7, 0x53D6, 0x308A,
        0x306F, 0x3001, 0x5546, 0x54C1, 0x3092, 0x5F15, 0x304D, 0x6E21, 0x3059, 0x7FA9, 0x52D9,
        0x3068, 0x3057, 0x3066, 0x524D, 0x53D7, 0x91D1], '' ('', jp [0x8CA0, 0x50B5], '') '', jp
        [0x3092, 0x8A08, 0x4E0A, 0x3059, 0x308B, 0x3002]],
      pt_build = (\<lambda>i. do {
        b \<leftarrow> pick i [30000, 70000];
        Some (sprintf (cat [jp [0x5546, 0x54C1, 0x306E, 0x6CE8, 0x6587, 0x3092, 0x53D7, 0x3051, 0x3001, 0x5185,
          0x91D1, 0x3068, 0x3057, 0x3066], '' %s '', jp [0x3092, 0x73FE, 0x91D1, 0x3067, 0x53D7,
          0x3051, 0x53D6, 0x3063, 0x305F, 0x3002]])
          [Str (format_yen b)],
          [je (jp [0x73FE, 0x91D1]) b],
          [je (jp [0x524D, 0x53D7, 0x91D1]) b])
      })\<rparr>,
    \<lparr>pt_prefix = ''ms-sale-adv'', pt_topic = ''merch_sale'', pt_diff = 2, pt_n = 3,
      pt_expl = cat [jp [0x53D7, 0x6CE8, 0x6642, 0x306E, 0x524D, 0x53D7, 0x91D1, 0x3092, 0x58F2, 0x4E0A, 0x4EE3,
        0x91D1, 0x306B, 0x5145, 0x5F53, 0x3057, 0x3001, 0x6B8B, 0x984D, 0x3092, 0x58F2, 0x639B,
        0x91D1, 0x3068, 0x3059, 0x308B, 0x3002, 0x8CB8, 0x65B9, 0x306F, 0x58F2, 0x4E0A], '' ('', jp
        [0x7DCF, 0x984D], '')'', jp [0x3002]],
      pt_build = (\<lambda>i. do {
        b \<leftarrow> pick i [60000, 150000, 90000];
        let adv = b div 5;
        Some (sprintf (cat [jp [0x5546, 0x54C1], '' %s '', jp [0x3092, 0x5F15, 0x304D, 0x6E21, 0x3057, 0x305F, 0x3002,
          0x4EE3, 0x91D1, 0x306E, 0x3046, 0x3061, 0x53D7, 0x6CE8, 0x6642, 0x306B, 0x53D7, 0x3051,
          0x53D6, 0x3063, 0x305F, 0x5185, 0x91D1], '' %s '', jp [0x3092, 0x5145, 0x5F53, 0x3057,
          0x3001, 0x6B8B, 0x984D, 0x306F, 0x639B, 0x3051, 0x3068, 0x3057, 0x305F, 0x3002]])
          [Str (format_yen b), Str (format_yen adv)],
          [je (jp [0x524D, 0x53D7, 0x91D1]) adv, je (jp [0x58F2, 0x639B, 0x91D1]) (b - adv)],
          [je (jp [0x58F2, 0x4E0A]) b])
      })\<rparr>,
    \<lparr>pt_prefix = ''ms-cc-sale'', pt_topic = ''merch_sale'', pt_diff = 2, pt_n = 3,
      pt_expl = cat [jp [0x30AF, 0x30EC, 0x30B8, 0x30C3, 0x30C8, 0x6255, 0x3044, 0x306E, 0x58F2, 0x4E0A, 0x306F,
        0x3001, 0x4FE1, 0x8CA9, 0x4F1A, 0x793E, 0x306B, 0x5BFE, 0x3059, 0x308B, 0x50B5, 0x6A29,
        0x3068, 0x3057, 0x3066, 0x30AF, 0x30EC, 0x30B8, 0x30C3, 0x30C8, 0x58F2, 0x639B, 0x91D1,
        0x3092, 0x8A08, 0x4E0A, 0x3057, 0x3001, 0x624B, 0x6570, 0x6599, 0x306F, 0x8CA9, 0x58F2,
        0x6642, 0x306B, 0x652F, 0x6255, 0x624B, 0x6570, 0x6599], '' ('', jp [0x8CBB, 0x7528],
        '') '', jp [0x3068, 0x3059, 0x308B, 0x3002]],
      pt_build = (\<lambda>i. do {
        b \<leftarrow> pick i [50000, 200000, 125000];
        let fee = b * 4 div 100;
        Some (sprintf (cat [jp [0x5546, 0x54C1], '' %s '', jp [0x3092, 0x30AF, 0x30EC, 0x30B8, 0x30C3, 0x30C8, 0x6255,
          0x3044, 0x306E, 0x6761, 0x4EF6, 0x3067, 0x8CA9, 0x58F2, 0x3057, 0x305F, 0x3002, 0x4FE1,
          0x8CA9, 0x4F1A, 0x793E, 0x3078, 0x306E, 0x624B, 0x6570, 0x6599], '' ('', jp [0x8CA9,
          0x58F2, 0x4EE3, 0x91D1, 0x306E], '' 4%%) '', jp [0x306F, 0x8CA9, 0x58F2, 0x6642, 0x306B,
          0x8A08, 0x4E0A, 0x3059, 0x308B, 0x3002]])
          [Str (format_yen b)],
          [je (jp [0x30AF, 0x30EC, 0x30B8, 0x30C3, 0x30C8, 0x58F2, 0x639B, 0x91D1]) (b - fee),
           je (jp [0x652F, 0x6255, 0x624B, 0x6570, 0x6599]) fee],
          [je (jp [0x58F2, 0x4E0A]) b])
      })\<rparr>,
    \<lparr>pt_prefix = ''ms-ship-ours'', pt_topic = ''merch_sale'', pt_diff = 2, pt_n = 2,
      pt_expl = cat [jp [0x5F53, 0x65B9, 0x8CA0, 0x62C5, 0x306E, 0x767A, 0x9001, 0x8CBB, 0x306F, 0x8CBB, 0x7528],
        '' ('', jp [0x767A, 0x9001, 0x8CBB], '') '', jp [0x3068, 0x3057, 0x3066, 0x8A08, 0x4E0A,
        0x3059, 0x308B, 0x3002, 0x58F2, 0x639B, 0x91D1, 0x306F, 0x5546, 0x54C1, 0x4EE3, 0x91D1,
        0x306E, 0x307F, 0x3002]],
      pt_build = (\<lambda>i. do {
        b \<leftarrow> pick i [80000, 140000];
        let f = 2000;
        Some (sprintf (cat [jp [0x5546, 0x54C1], '' %s '', jp [0x3092, 0x639B, 0x3051, 0x3067, 0x58F2, 0x308A, 0x4E0A,
          0x3052, 0x3001, 0x5F53, 0x65B9, 0x8CA0, 0x62C5, 0x306E, 0x767A, 0x9001, 0x8CBB], '' %s '',
          jp [0x3092, 0x73FE, 0x91D1, 0x3067, 0x652F, 0x6255, 0x3063, 0x305F, 0x3002]])
          [Str (format_yen b), Str (format_yen f)],
          [je (jp [0x58F2, 0x639B, 0x91D1]) b, je (jp [0x767A, 0x9001, 0x8CBB]) f],
          [je (jp [0x58F2, 0x4E0A]) b, je (jp [0x73FE, 0x91D1]) f])
      })\<rparr>]"

definition ms_patterns_3 :: "bank_pattern list" where
  "ms_patterns_3 =
   [\<lparr>pt_prefix = ''ms-gift-cert'', pt_topic = ''merch_sale'', pt_diff = 2, pt_n = 2,
      pt_expl = cat [jp [0x81EA, 0x6CBB, 0x4F53, 0x306A, 0x3069, 0x304C, 0x767A, 0x884C, 0x3059, 0x308B, 0x5546,
        0x54C1, 0x5238, 0x3092, 0x53D7, 0x3051, 0x53D6, 0x3063, 0x305F, 0x3068, 0x304D, 0x306F,
        0x3001, 0x5F8C, 0x65E5, 0x7CBE, 0x7B97, 0x3092, 0x8ACB, 0x6C42, 0x3067, 0x304D, 0x308B,
        0x6A29, 0x5229, 0x3068, 0x3057, 0x3066, 0x53D7, 0x53D6, 0x5546, 0x54C1, 0x5238], '' ('', jp
        [0x8CC7, 0x7523], '') '', jp [0x3092, 0x8A08, 0x4E0A, 0x3059, 0x308B, 0x3002]],
      pt_build = (\<lambda>i. do {
        b \<leftarrow> pick i [15000, 40000];
        Some (sprintf (cat [jp [0x5546, 0x54C1], '' %s '', jp [0x3092, 0x58F2, 0x308A, 0x4E0A, 0x3052, 0x3001, 0x4EE3,
          0x91D1, 0x3068, 0x3057, 0x3066, 0x81EA, 0x6CBB, 0x4F53, 0x767A, 0x884C, 0x306E, 0x5546,
          0x54C1, 0x5238, 0x3092, 0x53D7, 0x3051, 0x53D6, 0x3063, 0x305F, 0x3002]])
          [Str (format_yen b)],
          [je (jp [0x53D7, 0x53D6, 0x5546, 0x54C1, 0x5238]) b],
          [je (jp [0x58F2, 0x4E0A]) b])
      })\<rparr>,
    \<lparr>pt_prefix = ''ms-half-cash'', pt_topic = ''merch_sale'', pt_diff = 2, pt_n = 3,
      pt_expl = cat [jp [0x4EE3, 0x91D1, 0x306E, 0x4E00, 0x90E8, 0x3092, 0x73FE, 0x91D1, 0x3001, 0x6B8B, 0x984D,
        0x3092, 0x639B, 0x3051, 0x3068, 0x3059, 0x308B, 0x8907, 0x5408, 0x4ED5, 0x8A33, 0x3002,
        0x501F, 0x65B9, 0x306F, 0x73FE, 0x91D1, 0x3068, 0x58F2, 0x639B, 0x91D1, 0x306E], '' 2 '', jp
        [0x79D1, 0x76EE, 0x306B, 0x306A, 0x308B, 0x3002]],
      pt_build = (\<lambda>i. do {
        b \<leftarrow> pick i [90000, 160000, 230000];
        let half = b div 2;
        Some (sprintf (cat [jp [0x5546, 0x54C1], '' %s '', jp [0x3092, 0x58F2, 0x308A, 0x4E0A, 0x3052, 0x3001, 0x4EE3,
          0x91D1, 0x306E, 0x3046, 0x3061, 0x534A, 0x984D, 0x306F, 0x73FE, 0x91D1, 0x3067, 0x53D7,
          0x3051, 0x53D6, 0x308A, 0x3001, 0x6B8B, 0x984D, 0x306F, 0x639B, 0x3051, 0x3068, 0x3057,
          0x305F, 0x3002]])
          [Str (format_yen b)],
          [je (jp [0x73FE, 0x91D1]) half, je (jp [0x58F2, 0x639B, 0x91D1]) (b - half)],
          [je (jp [0x58F2, 0x4E0A]) b])
      })\<rparr>]"

definition merch_patterns :: "bank_pattern list" where
  "merch_patterns = ms_patterns_1 @ ms_patterns_2 @ ms_patterns_3"

lemma merch_pattern_keys [bank_keys]:
  "map pattern_key merch_patterns = [(''ms-cash-sale'', ''merch_sale'', 3), (''ms-cash-purch'', ''merch_sale'', 3),
     (''ms-credit-sale'', ''merch_sale'', 3), (''ms-credit-purch'', ''merch_sale'', 3),
     (''ms-sale-return'', ''merch_sale'', 2), (''ms-purch-return'', ''merch_sale'', 2),
     (''ms-adv-pay'', ''merch_sale'', 2), (''ms-purch-adv'', ''merch_sale'', 3), (''ms-adv-recv'',
     ''merch_sale'', 2), (''ms-sale-adv'', ''merch_sale'', 3), (''ms-cc-sale'', ''merch_sale'', 3),
     (''ms-ship-ours'', ''merch_sale'', 2), (''ms-gift-cert'', ''merch_sale'', 2),
     (''ms-half-cash'', ''merch_sale'', 3)]"
  by (simp add: merch_patterns_def ms_patterns_1_def ms_patterns_2_def ms_patterns_3_def pattern_key_def)

lemma merch_pattern_sound [bank_sound]:
  "list_all pattern_sound merch_patterns"
  by (simp add: merch_patterns_def ms_patterns_1_def ms_patterns_2_def ms_patterns_3_def pattern_sound_simps)

end
