(* ===== verification/BankCash.thy ===== *)
theory BankCash
  imports Generator
begin

text \<open>
  \<^verbatim>\<open>seed/bank_cash.go\<close>: the patterns of cash and deposits.
\<close>

definition ca_patterns_1 :: "bank_pattern list" where
  "ca_patterns_1 =
   [\<lparr>pt_prefix = ''ca-to-checking'', pt_topic = ''cash'', pt_diff = 1, pt_n = 3,
      pt_expl = cat [jp [0x73FE, 0x91D1, 0x304B, 0x3089, 0x5F53, 0x5EA7, 0x9810, 0x91D1, 0x3078, 0x306E, 0x9810,
        0x5165, 0x308C, 0x306F, 0x8CC7, 0x7523, 0x9593, 0x306E, 0x632F, 0x66FF, 0x3002, 0x501F,
        0x65B9, 0x306B, 0x5F53, 0x5EA7, 0x9810, 0x91D1, 0x3001, 0x8CB8, 0x65B9, 0x306B, 0x73FE,
        0x91D1, 0x3002]],
      pt_build = (\<lambda>i. do {
        b \<leftarrow> pick i [100000, 250000, 430000];
        Some (sprintf (cat [jp [0x73FE, 0x91D1], '' %s '', jp [0x3092, 0x5F53, 0x5EA7, 0x9810, 0x91D1, 0x53E3, 0x5EA7,
          0x306B, 0x9810, 0x3051, 0x5165, 0x308C, 0x305F, 0x3002]])
          [Str (format_yen b)],
          [je (jp [0x5F53, 0x5EA7, 0x9810, 0x91D1]) b],
          [je (jp [0x73FE, 0x91D1]) b])
      })\<rparr>,
    \<lparr>pt_prefix = ''ca-withdraw'', pt_topic = ''cash'', pt_diff = 1, pt_n = 3,
      pt_expl = cat [jp [0x666E, 0x901A, 0x9810, 0x91D1, 0x304B, 0x3089, 0x306E, 0x5F15, 0x51FA, 0x3057, 0x306F,
        0x8CC7, 0x7523, 0x9593, 0x306E, 0x632F, 0x66FF, 0x3002, 0x501F, 0x65B9, 0x306B, 0x73FE,
        0x91D1, 0x3001, 0x8CB8, 0x65B9, 0x306B, 0x666E, 0x901A, 0x9810, 0x91D1, 0x3002]],
      pt_build = (\<lambda>i. do {
        b \<leftarrow> pick i [40000, 80000, 130000];
        Some (sprintf (cat [jp [0x666E, 0x901A, 0x9810, 0x91D1, 0x53E3, 0x5EA7, 0x304B, 0x3089, 0x73FE, 0x91D1],
          '' %s '', jp [0x3092, 0x5F15, 0x304D, 0x51FA, 0x3057, 0x305F, 0x3002]])
          [Str (format_yen b)],
          [je (jp [0x73FE, 0x91D1]) b],
          [je (jp [0x666E, 0x901A, 0x9810, 0x91D1]) b])
      })\<rparr>,
    \<lparr>pt_prefix = ''ca-transfer-fee'', pt_topic = ''cash'', pt_diff = 2, pt_n = 3,
      pt_expl = cat [jp [0x632F, 0x8FBC, 0x624B, 0x6570, 0x6599], '' ('', jp [0x5F53, 0x65B9, 0x8CA0, 0x62C5],
        '') '', jp [0x306F, 0x652F, 0x6255, 0x624B, 0x6570, 0x6599], '' ('', jp [0x8CBB, 0x7528],
        '')'', jp [0x3002, 0x666E, 0x901A, 0x9810, 0x91D1, 0x306E, 0x6E1B, 0x5C11, 0x984D, 0x306F,
        0x632F, 0x8FBC, 0x984D, 0x3068, 0x624B, 0x6570, 0x6599, 0x306E, 0x5408, 0x8A08, 0x306B,
        0x306A, 0x308B, 0x3002]],
      pt_build = (\<lambda>i. do {
        b \<leftarrow> pick i [70000, 120000, 95000];
        let fee = 300;
        Some (sprintf (cat [jp [0x8CB7, 0x639B, 0x91D1], '' %s '', jp [0x3092, 0x666E, 0x901A, 0x9810, 0x91D1, 0x53E3,
          0x5EA7, 0x304B, 0x3089, 0x632F, 0x308A, 0x8FBC, 0x3093, 0x3067, 0x652F, 0x6255, 0x3063,
          0x305F, 0x3002, 0x632F, 0x8FBC, 0x624B, 0x6570, 0x6599], '' %s ('', jp [0x5F53, 0x65B9,
          0x8CA0, 0x62C5], '') '', jp [0x3082, 0x540C, 0x53E3, 0x5EA7, 0x304B, 0x3089, 0x652F,
          0x6255, 0x308F, 0x308C, 0x305F, 0x3002]])
          [Str (format_yen b), Str (format_yen fee)],
          [je (jp [0x8CB7, 0x639B, 0x91D1]) b, je (jp [0x652F, 0x6255, 0x624B, 0x6570, 0x6599]) fee],
          [je (jp [0x666E, 0x901A, 0x9810, 0x91D1]) (b + fee)])
      })\<rparr>,
    \<lparr>pt_prefix = ''ca-short-found'', pt_topic = ''cash'', pt_diff = 2, pt_n = 3,
      pt_expl = cat [jp [0x5B9F, 0x969B, 0x6709, 0x9AD8, 0x304C, 0x5E33, 0x7C3F, 0x6B8B, 0x9AD8, 0x3088, 0x308A,
        0x5C11, 0x306A, 0x3044, 0x3068, 0x304D, 0x306F, 0x3001, 0x4E0D, 0x8DB3, 0x984D, 0x3092,
        0x73FE, 0x91D1, 0x904E, 0x4E0D, 0x8DB3], '' ('', jp [0x501F, 0x65B9], '') '', jp [0x306B,
        0x632F, 0x308A, 0x66FF, 0x3048, 0x3066, 0x5E33, 0x7C3F, 0x3092, 0x5B9F, 0x969B, 0x6709,
        0x9AD8, 0x306B, 0x5408, 0x308F, 0x305B, 0x308B, 0x3002]],
      pt_build = (\<lambda>i. do {
        b \<leftarrow> pick i [3000, 5000, 7000];
        Some (sprintf (cat [jp [0x73FE, 0x91D1, 0x306E, 0x5B9F, 0x67FB, 0x3092, 0x884C, 0x3063, 0x305F, 0x3068,
          0x3053, 0x308D, 0x3001, 0x5B9F, 0x969B, 0x6709, 0x9AD8, 0x304C, 0x5E33, 0x7C3F, 0x6B8B,
          0x9AD8, 0x3088, 0x308A], '' %s '', jp [0x5C11, 0x306A, 0x304B, 0x3063, 0x305F, 0x3002]])
          [Str (format_yen b)],
          [je (jp [0x73FE, 0x91D1, 0x904E, 0x4E0D, 0x8DB3]) b],
          [je (jp [0x73FE, 0x91D1]) b])
      })\<rparr>,
    \<lparr>pt_prefix = ''ca-short-cause'', pt_topic = ''cash'', pt_diff = 2, pt_n = 3,
      pt_expl = cat [jp [0x4E0D, 0x8DB3, 0x306E, 0x539F, 0x56E0, 0x304C, 0x5224, 0x660E, 0x3057, 0x305F, 0x3089,
        0x3001, 0x73FE, 0x91D1, 0x904E, 0x4E0D, 0x8DB3, 0x304B, 0x3089, 0x672C, 0x6765, 0x306E,
        0x8CBB, 0x7528, 0x52D8, 0x5B9A], '' ('', jp [0x65C5, 0x8CBB, 0x4EA4, 0x901A, 0x8CBB],
        '') '', jp [0x3078, 0x632F, 0x308A, 0x66FF, 0x3048, 0x308B, 0x3002]],
      pt_build = (\<lambda>i. do {
        b \<leftarrow> pick i [3000, 5000, 7000];
        Some (sprintf (cat [jp [0x304B, 0x306D, 0x3066, 0x501F, 0x65B9, 0x306B, 0x8A08, 0x4E0A, 0x3057, 0x3066,
          0x3044, 0x305F, 0x73FE, 0x91D1, 0x904E, 0x4E0D, 0x8DB3], '' %s '', jp [0x306B, 0x3064,
          0x3044, 0x3066, 0x3001, 0x539F, 0x56E0, 0x306F, 0x65C5, 0x8CBB, 0x4EA4, 0x901A, 0x8CBB,
          0x306E, 0x8A18, 0x5E33, 0x6F0F, 0x308C, 0x3068, 0x5224, 0x660E, 0x3057, 0x305F, 0x3002]])
          [Str (format_yen b)],
          [je (jp [0x65C5, 0x8CBB, 0x4EA4, 0x901A, 0x8CBB]) b],
          [je (jp [0x73FE, 0x91D1, 0x904E, 0x4E0D, 0x8DB3]) b])
      })\<rparr>,
    \<lparr>pt_prefix = ''ca-over-found'', pt_topic = ''cash'', pt_diff = 2, pt_n = 3,
      pt_expl = cat [jp [0x5B9F, 0x969B, 0x6709, 0x9AD8, 0x304C, 0x5E33, 0x7C3F, 0x6B8B, 0x9AD8, 0x3088, 0x308A,
        0x591A, 0x3044, 0x3068, 0x304D, 0x306F, 0x3001, 0x904E, 0x5270, 0x984D, 0x3092, 0x73FE,
        0x91D1, 0x904E, 0x4E0D, 0x8DB3], '' ('', jp [0x8CB8, 0x65B9], '') '', jp [0x306B, 0x632F,
        0x308A, 0x66FF, 0x3048, 0x308B, 0x3002]],
      pt_build = (\<lambda>i. do {
        b \<leftarrow> pick i [2000, 4000, 6000];
        Some (sprintf (cat [jp [0x73FE, 0x91D1, 0x306E, 0x5B9F, 0x67FB, 0x3092, 0x884C, 0x3063, 0x305F, 0x3068,
          0x3053, 0x308D, 0x3001, 0x5B9F, 0x969B, 0x6709, 0x9AD8, 0x304C, 0x5E33, 0x7C3F, 0x6B8B,
          0x9AD8, 0x3088, 0x308A], '' %s '', jp [0x591A, 0x304B, 0x3063, 0x305F, 0x3002]])
          [Str (format_yen b)],
          [je (jp [0x73FE, 0x91D1]) b],
          [je (jp [0x73FE, 0x91D1, 0x904E, 0x4E0D, 0x8DB3]) b])
      })\<rparr>]"

definition ca_patterns_2 :: "bank_pattern list" where
  "ca_patterns_2 =
   [\<lparr>pt_prefix = ''ca-over-cause'', pt_topic = ''cash'', pt_diff = 2, pt_n = 3,
      pt_expl = cat [jp [0x904E, 0x5270, 0x306E, 0x539F, 0x56E0, 0x304C, 0x5224, 0x660E, 0x3057, 0x305F, 0x3089,
        0x3001, 0x73FE, 0x91D1, 0x904E, 0x4E0D, 0x8DB3, 0x304B, 0x3089, 0x672C, 0x6765, 0x306E,
        0x53CE, 0x76CA, 0x52D8, 0x5B9A], '' ('', jp [0x53D7, 0x53D6, 0x624B, 0x6570, 0x6599],
        '') '', jp [0x3078, 0x632F, 0x308A, 0x66FF, 0x3048, 0x308B, 0x3002]],
      pt_build = (\<lambda>i. do {
        b \<leftarrow> pick i [2000, 4000, 6000];
        Some (sprintf (cat [jp [0x304B, 0x306D, 0x3066, 0x8CB8, 0x65B9, 0x306B, 0x8A08, 0x4E0A, 0x3057, 0x3066,
          0x3044, 0x305F, 0x73FE, 0x91D1, 0x904E, 0x4E0D, 0x8DB3], '' %s '', jp [0x306B, 0x3064,
          0x3044, 0x3066, 0x3001, 0x539F, 0x56E0, 0x306F, 0x53D7, 0x53D6, 0x624B, 0x6570, 0x6599,
          0x306E, 0x8A18, 0x5E33, 0x6F0F, 0x308C, 0x3068, 0x5224, 0x660E, 0x3057, 0x305F, 0x3002]])
          [Str (format_yen b)],
          [je (jp [0x73FE, 0x91D1, 0x904E, 0x4E0D, 0x8DB3]) b],
          [je (jp [0x53D7, 0x53D6, 0x624B, 0x6570, 0x6599]) b])
      })\<rparr>,
    \<lparr>pt_prefix = ''ca-petty-report'', pt_topic = ''cash'', pt_diff = 2, pt_n = 3,
      pt_expl = cat [jp [0x5C0F, 0x53E3, 0x73FE, 0x91D1, 0x4FC2, 0x304B, 0x3089, 0x306E, 0x652F, 0x6255, 0x5831,
        0x544A, 0x306B, 0x3088, 0x308A, 0x3001, 0x5404, 0x8CBB, 0x7528, 0x52D8, 0x5B9A, 0x3092,
        0x501F, 0x65B9, 0x306B, 0x8A08, 0x4E0A, 0x3057, 0x5C0F, 0x53E3, 0x73FE, 0x91D1, 0x3092,
        0x6E1B, 0x3089, 0x3059, 0x3002]],
      pt_build = (\<lambda>i. do {
        x \<leftarrow> pick i [6000, 12000, 9000];
        y \<leftarrow> pick i [4000, 8000, 6000];
        Some (sprintf (cat [jp [0x5C0F, 0x53E3, 0x73FE, 0x91D1, 0x4FC2, 0x304B, 0x3089, 0x3001, 0x65C5, 0x8CBB,
          0x4EA4, 0x901A, 0x8CBB], '' %s '', jp [0x304A, 0x3088, 0x3073, 0x6D88, 0x8017, 0x54C1,
          0x8CBB], '' %s '', jp [0x306E, 0x652F, 0x6255, 0x5831, 0x544A, 0x3092, 0x53D7, 0x3051,
          0x305F, 0x3002]])
          [Str (format_yen x), Str (format_yen y)],
          [je (jp [0x65C5, 0x8CBB, 0x4EA4, 0x901A, 0x8CBB]) x,
           je (jp [0x6D88, 0x8017, 0x54C1, 0x8CBB]) y],
          [je (jp [0x5C0F, 0x53E3, 0x73FE, 0x91D1]) (x + y)])
      })\<rparr>,
    \<lparr>pt_prefix = ''ca-petty-replenish'', pt_topic = ''cash'', pt_diff = 2, pt_n = 3,
      pt_expl = cat [jp [0x5B9A, 0x984D, 0x8CC7, 0x91D1, 0x524D, 0x6E21, 0x5236], '' ('', jp [0x30A4, 0x30F3,
        0x30D7, 0x30EC, 0x30B9, 0x30C8, 0x30FB, 0x30B7, 0x30B9, 0x30C6, 0x30E0], '') '', jp [0x3067,
        0x306F, 0x3001, 0x4F7F, 0x7528, 0x984D, 0x3068, 0x540C, 0x984D, 0x3092, 0x88DC, 0x7D66,
        0x3057, 0x3066, 0x5C0F, 0x53E3, 0x73FE, 0x91D1, 0x3092, 0x5B9A, 0x984D, 0x306B, 0x623B,
        0x3059, 0x3002]],
      pt_build = (\<lambda>i. do {
        b \<leftarrow> pick i [15000, 25000, 20000];
        Some (sprintf (cat [jp [0x5B9A, 0x984D, 0x8CC7, 0x91D1, 0x524D, 0x6E21, 0x5236, 0x3092, 0x63A1, 0x7528,
          0x3057, 0x3066, 0x304A, 0x308A, 0x3001, 0x5C0F, 0x53E3, 0x73FE, 0x91D1, 0x306E, 0x4F7F,
          0x7528, 0x984D], '' %s '', jp [0x306B, 0x3064, 0x3044, 0x3066, 0x5C0F, 0x5207, 0x624B,
          0x3092, 0x632F, 0x308A, 0x51FA, 0x3057, 0x3066, 0x88DC, 0x7D66, 0x3057, 0x305F, 0x3002]])
          [Str (format_yen b)],
          [je (jp [0x5C0F, 0x53E3, 0x73FE, 0x91D1]) b],
          [je (jp [0x5F53, 0x5EA7, 0x9810, 0x91D1]) b])
      })\<rparr>,
    \<lparr>pt_prefix = ''ca-other-check'', pt_topic = ''cash'', pt_diff = 2, pt_n = 3,
      pt_expl = cat [jp [0x4ED6, 0x4EBA], '' ('', jp [0x5F97, 0x610F, 0x5148], '') '', jp [0x632F, 0x51FA,
        0x3057, 0x306E, 0x5C0F, 0x5207, 0x624B, 0x306F, 0x901A, 0x8CA8, 0x4EE3, 0x7528, 0x8A3C,
        0x5238, 0x3067, 0x3042, 0x308A, 0x3001, 0x7C3F, 0x8A18, 0x4E0A, 0x306F, 0x73FE, 0x91D1,
        0x3068, 0x3057, 0x3066, 0x6271, 0x3046, 0x3002]],
      pt_build = (\<lambda>i. do {
        b \<leftarrow> pick i [55000, 95000, 75000];
        Some (sprintf (cat [jp [0x58F2, 0x639B, 0x91D1], '' %s '', jp [0x306E, 0x56DE, 0x53CE, 0x3068, 0x3057, 0x3066,
          0x3001, 0x5F97, 0x610F, 0x5148, 0x632F, 0x51FA, 0x3057, 0x306E, 0x5C0F, 0x5207, 0x624B,
          0x3092, 0x53D7, 0x3051, 0x53D6, 0x3063, 0x305F, 0x3002]])
          [Str (format_yen b)],
          [je (jp [0x73FE, 0x91D1]) b],
          [je (jp [0x58F2, 0x639B, 0x91D1]) b])
      })\<rparr>,
    \<lparr>pt_prefix = ''ca-own-check'', pt_topic = ''cash'', pt_diff = 1, pt_n = 3,
      pt_expl = cat [jp [0x5C0F, 0x5207, 0x624B, 0x306E, 0x632F, 0x51FA, 0x3057, 0x306F, 0x5F53, 0x5EA7, 0x9810,
        0x91D1, 0x306E, 0x6E1B, 0x5C11, 0x3068, 0x3057, 0x3066, 0x51E6, 0x7406, 0x3059, 0x308B],
        '' ('', jp [0x632F, 0x51FA, 0x6642, 0x70B9, 0x3067, 0x8CB8, 0x65B9, 0x8A08, 0x4E0A], '')'',
        jp [0x3002]],
      pt_build = (\<lambda>i. do {
        b \<leftarrow> pick i [65000, 110000, 85000];
        Some (sprintf (cat [jp [0x8CB7, 0x639B, 0x91D1], '' %s '', jp [0x306E, 0x652F, 0x6255, 0x3044, 0x306E, 0x305F,
          0x3081, 0x3001, 0x5C0F, 0x5207, 0x624B, 0x3092, 0x632F, 0x308A, 0x51FA, 0x3057, 0x305F,
          0x3002]])
          [Str (format_yen b)],
          [je (jp [0x8CB7, 0x639B, 0x91D1]) b],
          [je (jp [0x5F53, 0x5EA7, 0x9810, 0x91D1]) b])
      })\<rparr>]"

definition cash_patterns :: "bank_pattern list" where
  "cash_patterns = ca_patterns_1 @ ca_patterns_2"

lemma cash_pattern_keys [bank_keys]:
  "map pattern_key cash_patterns = [(''ca-to-checking'', ''cash'', 3), (''ca-withdraw'', ''cash'', 3), (''ca-transfer-fee'',
     ''cash'', 3), (''ca-short-found'', ''cash'', 3), (''ca-short-cause'', ''cash'', 3),
     (''ca-over-found'', ''cash'', 3), (''ca-over-cause'', ''cash'', 3), (''ca-petty-report'',
     ''cash'', 3), (''ca-petty-replenish'', ''cash'', 3), (''ca-other-check'', ''cash'', 3),
     (''ca-own-check'', ''cash'', 3)]"
  by (simp add: cash_patterns_def ca_patterns_1_def ca_patterns_2_def pattern_key_def)

lemma cash_pattern_sound [bank_sound]:
  "list_all pattern_sound cash_patterns"
  by (simp add: cash_patterns_def ca_patterns_1_def ca_patterns_2_def pattern_sound_simps)

end
