(* ===== verification/BankReceivable.thy ===== *)
theory BankReceivable
  imports Generator
begin

text \<open>
  \<^verbatim>\<open>seed/bank_receivable.go\<close>: the patterns of receivables, payables and bad debts.
\<close>

definition rc_patterns_1 :: "bank_pattern list" where
  "rc_patterns_1 =
   [\<lparr>pt_prefix = ''rc-collect-bank'', pt_topic = ''receivable'', pt_diff = 1, pt_n = 3,
      pt_expl = cat [jp [0x58F2, 0x639B, 0x91D1, 0x306E, 0x56DE, 0x53CE, 0x306B, 0x3088, 0x308A, 0x8CC7, 0x7523,
        0x304C, 0x632F, 0x308A, 0x66FF, 0x308F, 0x308B, 0x3002, 0x501F, 0x65B9, 0x306B, 0x666E,
        0x901A, 0x9810, 0x91D1, 0x3001, 0x8CB8, 0x65B9, 0x306B, 0x58F2, 0x639B, 0x91D1, 0x3002]],
      pt_build = (\<lambda>i. do {
        b \<leftarrow> pick i [85000, 140000, 230000];
        Some (sprintf (cat [jp [0x58F2, 0x639B, 0x91D1], '' %s '', jp [0x304C, 0x666E, 0x901A, 0x9810, 0x91D1, 0x53E3,
          0x5EA7, 0x306B, 0x632F, 0x308A, 0x8FBC, 0x307E, 0x308C, 0x305F, 0x3002]])
          [Str (format_yen b)],
          [je (jp [0x666E, 0x901A, 0x9810, 0x91D1]) b],
          [je (jp [0x58F2, 0x639B, 0x91D1]) b])
      })\<rparr>,
    \<lparr>pt_prefix = ''rc-pay-cash'', pt_topic = ''receivable'', pt_diff = 1, pt_n = 3,
      pt_expl = cat [jp [0x8CB7, 0x639B, 0x91D1, 0x306E, 0x652F, 0x6255, 0x3044, 0x306B, 0x3088, 0x308A, 0x8CA0,
        0x50B5, 0x304C, 0x6E1B, 0x5C11, 0x3059, 0x308B, 0x3002, 0x501F, 0x65B9, 0x306B, 0x8CB7,
        0x639B, 0x91D1, 0x3001, 0x8CB8, 0x65B9, 0x306B, 0x73FE, 0x91D1, 0x3002]],
      pt_build = (\<lambda>i. do {
        b \<leftarrow> pick i [45000, 90000, 65000];
        Some (sprintf (cat [jp [0x8CB7, 0x639B, 0x91D1], '' %s '', jp [0x3092, 0x73FE, 0x91D1, 0x3067, 0x652F, 0x6255,
          0x3063, 0x305F, 0x3002]])
          [Str (format_yen b)],
          [je (jp [0x8CB7, 0x639B, 0x91D1]) b],
          [je (jp [0x73FE, 0x91D1]) b])
      })\<rparr>,
    \<lparr>pt_prefix = ''rc-allowance'', pt_topic = ''receivable'', pt_diff = 2, pt_n = 3,
      pt_expl = cat [jp [0x5DEE, 0x984D, 0x88DC, 0x5145, 0x6CD5, 0x3067, 0x306F, 0x3001, 0x8A2D, 0x5B9A, 0x984D],
        '' ('', jp [0x6B8B, 0x9AD8], '' '', jp [0x00D7], '' '', jp [0x898B, 0x7A4D, 0x7387], '') '',
        jp [0x3068, 0x6C7A, 0x7B97, 0x6574, 0x7406, 0x524D, 0x6B8B, 0x9AD8, 0x3068, 0x306E, 0x5DEE,
        0x984D, 0x3060, 0x3051, 0x3092, 0x8CB8, 0x5012, 0x5F15, 0x5F53, 0x91D1, 0x7E70, 0x5165,
        0x3068, 0x3059, 0x308B, 0x3002]],
      pt_build = (\<lambda>i. do {
        b \<leftarrow> pick i [300000, 500000, 400000];
        r \<leftarrow> pick i [2000, 3000, 4000];
        let add = b * 2 div 100 - r;
        Some (sprintf (cat [jp [0x6C7A, 0x7B97, 0x6574, 0x7406], '': '', jp [0x58F2, 0x639B, 0x91D1, 0x6B8B, 0x9AD8],
          '' %s '', jp [0x306B, 0x5BFE, 0x3057, 0x3066], '' 2%% '', jp [0x306E, 0x8CB8, 0x5012,
          0x5F15, 0x5F53, 0x91D1, 0x3092, 0x5DEE, 0x984D, 0x88DC, 0x5145, 0x6CD5, 0x306B, 0x3088,
          0x308A, 0x8A2D, 0x5B9A, 0x3059, 0x308B, 0x3002, 0x6C7A, 0x7B97, 0x6574, 0x7406, 0x524D,
          0x306E, 0x8CB8, 0x5012, 0x5F15, 0x5F53, 0x91D1, 0x6B8B, 0x9AD8, 0x306F], '' %s '', jp
          [0x3067, 0x3042, 0x308B, 0x3002]])
          [Str (format_yen b), Str (format_yen r)],
          [je (jp [0x8CB8, 0x5012, 0x5F15, 0x5F53, 0x91D1, 0x7E70, 0x5165]) add],
          [je (jp [0x8CB8, 0x5012, 0x5F15, 0x5F53, 0x91D1]) add])
      })\<rparr>,
    \<lparr>pt_prefix = ''rc-writeoff-full'', pt_topic = ''receivable'', pt_diff = 2, pt_n = 3,
      pt_expl = cat [jp [0x524D, 0x671F, 0x4EE5, 0x524D, 0x306B, 0x767A, 0x751F, 0x3057, 0x305F, 0x58F2, 0x639B,
        0x91D1, 0x306E, 0x8CB8, 0x5012, 0x308C, 0x306F, 0x3001, 0x8A2D, 0x5B9A, 0x6E08, 0x307F,
        0x306E, 0x8CB8, 0x5012, 0x5F15, 0x5F53, 0x91D1, 0x3092, 0x53D6, 0x308A, 0x5D29, 0x3057,
        0x3066, 0x5145, 0x5F53, 0x3059, 0x308B, 0x3002]],
      pt_build = (\<lambda>i. do {
        b \<leftarrow> pick i [30000, 60000, 45000];
        Some (sprintf (cat [jp [0x524D, 0x671F, 0x306B, 0x767A, 0x751F, 0x3057, 0x305F, 0x58F2, 0x639B, 0x91D1],
          '' %s '', jp [0x304C, 0x5F97, 0x610F, 0x5148, 0x306E, 0x5012, 0x7523, 0x306B, 0x3088,
          0x308A, 0x8CB8, 0x3057, 0x5012, 0x308C, 0x305F, 0x3002, 0x8CB8, 0x5012, 0x5F15, 0x5F53,
          0x91D1, 0x306E, 0x6B8B, 0x9AD8, 0x306F, 0x8CB8, 0x5012, 0x984D, 0x3092, 0x4E0A, 0x56DE,
          0x3063, 0x3066, 0x3044, 0x308B, 0x3002]])
          [Str (format_yen b)],
          [je (jp [0x8CB8, 0x5012, 0x5F15, 0x5F53, 0x91D1]) b],
          [je (jp [0x58F2, 0x639B, 0x91D1]) b])
      })\<rparr>,
    \<lparr>pt_prefix = ''rc-writeoff-part'', pt_topic = ''receivable'', pt_diff = 2, pt_n = 3,
      pt_expl = cat [jp [0x8CB8, 0x5012, 0x984D, 0x304C, 0x5F15, 0x5F53, 0x91D1, 0x6B8B, 0x9AD8, 0x3092, 0x8D85,
        0x3048, 0x308B, 0x5834, 0x5408, 0x3001, 0x8D85, 0x904E, 0x5206, 0x306F, 0x8CB8, 0x5012,
        0x640D, 0x5931], '' ('', jp [0x8CBB, 0x7528], '') '', jp [0x3068, 0x3057, 0x3066, 0x51E6,
        0x7406, 0x3059, 0x308B, 0x3002]],
      pt_build = (\<lambda>i. do {
        b \<leftarrow> pick i [50000, 80000, 100000];
        let r = b * 3 div 5;
        Some (sprintf (cat [jp [0x524D, 0x671F, 0x306B, 0x767A, 0x751F, 0x3057, 0x305F, 0x58F2, 0x639B, 0x91D1],
          '' %s '', jp [0x304C, 0x8CB8, 0x3057, 0x5012, 0x308C, 0x305F, 0x3002, 0x8CB8, 0x5012,
          0x5F15, 0x5F53, 0x91D1, 0x306E, 0x6B8B, 0x9AD8, 0x306F], '' %s '', jp [0x3067, 0x3042,
          0x308B, 0x3002]])
          [Str (format_yen b), Str (format_yen r)],
          [je (jp [0x8CB8, 0x5012, 0x5F15, 0x5F53, 0x91D1]) r,
           je (jp [0x8CB8, 0x5012, 0x640D, 0x5931]) (b - r)],
          [je (jp [0x58F2, 0x639B, 0x91D1]) b])
      })\<rparr>,
    \<lparr>pt_prefix = ''rc-writeoff-current'', pt_topic = ''receivable'', pt_diff = 2, pt_n = 3,
      pt_expl = cat [jp [0x5F53, 0x671F, 0x306B, 0x767A, 0x751F, 0x3057, 0x305F, 0x58F2, 0x639B, 0x91D1, 0x306E,
        0x8CB8, 0x5012, 0x308C, 0x306B, 0x306F, 0x5F15, 0x5F53, 0x91D1, 0x3092, 0x5145, 0x5F53,
        0x305B, 0x305A, 0x3001, 0x5168, 0x984D, 0x3092, 0x8CB8, 0x5012, 0x640D, 0x5931, 0x3068,
        0x3059, 0x308B, 0x3002]],
      pt_build = (\<lambda>i. do {
        b \<leftarrow> pick i [25000, 40000, 32000];
        Some (sprintf (cat [jp [0x5F53, 0x671F, 0x306B, 0x767A, 0x751F, 0x3057, 0x305F, 0x58F2, 0x639B, 0x91D1],
          '' %s '', jp [0x304C, 0x5F97, 0x610F, 0x5148, 0x306E, 0x5012, 0x7523, 0x306B, 0x3088,
          0x308A, 0x8CB8, 0x3057, 0x5012, 0x308C, 0x305F, 0x3002]])
          [Str (format_yen b)],
          [je (jp [0x8CB8, 0x5012, 0x640D, 0x5931]) b],
          [je (jp [0x58F2, 0x639B, 0x91D1]) b])
      })\<rparr>]"

definition rc_patterns_2 :: "bank_pattern list" where
  "rc_patterns_2 =
   [\<lparr>pt_prefix = ''rc-recovered'', pt_topic = ''receivable'', pt_diff = 2, pt_n = 3,
      pt_expl = cat [jp [0x524D, 0x671F, 0x4EE5, 0x524D, 0x306B, 0x8CB8, 0x5012, 0x51E6, 0x7406, 0x3057, 0x305F,
        0x50B5, 0x6A29, 0x3092, 0x56DE, 0x53CE, 0x3057, 0x305F, 0x3068, 0x304D, 0x306F, 0x3001,
        0x511F, 0x5374, 0x50B5, 0x6A29, 0x53D6, 0x7ACB, 0x76CA], '' ('', jp [0x53CE, 0x76CA],
        '') '', jp [0x3092, 0x8A08, 0x4E0A, 0x3059, 0x308B, 0x3002]],
      pt_build = (\<lambda>i. do {
        b \<leftarrow> pick i [15000, 30000, 22000];
        Some (sprintf (cat [jp [0x524D, 0x671F, 0x306B, 0x8CB8, 0x5012, 0x308C, 0x3068, 0x3057, 0x3066, 0x51E6,
          0x7406, 0x3057, 0x305F, 0x58F2, 0x639B, 0x91D1, 0x306E, 0x3046, 0x3061], '' %s '', jp
          [0x3092, 0x73FE, 0x91D1, 0x3067, 0x56DE, 0x53CE, 0x3057, 0x305F, 0x3002]])
          [Str (format_yen b)],
          [je (jp [0x73FE, 0x91D1]) b],
          [je (jp [0x511F, 0x5374, 0x50B5, 0x6A29, 0x53D6, 0x7ACB, 0x76CA]) b])
      })\<rparr>,
    \<lparr>pt_prefix = ''rc-cc-collect'', pt_topic = ''receivable'', pt_diff = 2, pt_n = 3,
      pt_expl = cat [jp [0x4FE1, 0x8CA9, 0x4F1A, 0x793E, 0x304B, 0x3089, 0x306E, 0x5165, 0x91D1, 0x306B, 0x3088,
        0x308A, 0x3001, 0x30AF, 0x30EC, 0x30B8, 0x30C3, 0x30C8, 0x58F2, 0x639B, 0x91D1, 0x3092,
        0x6E1B, 0x5C11, 0x3055, 0x305B, 0x308B, 0x3002]],
      pt_build = (\<lambda>i. do {
        b \<leftarrow> pick i [48000, 96000, 72000];
        Some (sprintf (cat [jp [0x4FE1, 0x8CA9, 0x4F1A, 0x793E, 0x304B, 0x3089, 0x30AF, 0x30EC, 0x30B8, 0x30C3,
          0x30C8, 0x58F2, 0x639B, 0x91D1], '' %s '', jp [0x304C, 0x666E, 0x901A, 0x9810, 0x91D1,
          0x53E3, 0x5EA7, 0x306B, 0x5165, 0x91D1, 0x3055, 0x308C, 0x305F, 0x3002]])
          [Str (format_yen b)],
          [je (jp [0x666E, 0x901A, 0x9810, 0x91D1]) b],
          [je (jp [0x30AF, 0x30EC, 0x30B8, 0x30C3, 0x30C8, 0x58F2, 0x639B, 0x91D1]) b])
      })\<rparr>]"

definition receivable_patterns :: "bank_pattern list" where
  "receivable_patterns = rc_patterns_1 @ rc_patterns_2"

lemma receivable_pattern_keys [bank_keys]:
  "map pattern_key receivable_patterns = [(''rc-collect-bank'', ''receivable'', 3), (''rc-pay-cash'', ''receivable'', 3),
     (''rc-allowance'', ''receivable'', 3), (''rc-writeoff-full'', ''receivable'', 3),
     (''rc-writeoff-part'', ''receivable'', 3), (''rc-writeoff-current'', ''receivable'', 3),
     (''rc-recovered'', ''receivable'', 3), (''rc-cc-collect'', ''receivable'', 3)]"
  by (simp add: receivable_patterns_def rc_patterns_1_def rc_patterns_2_def pattern_key_def)

lemma receivable_pattern_sound [bank_sound]:
  "list_all pattern_sound receivable_patterns"
  by (simp add: receivable_patterns_def rc_patterns_1_def rc_patterns_2_def pattern_sound_simps)

end
