(* ===== verification/BankNotesLoans.thy ===== *)
theory BankNotesLoans
  imports Generator
begin

text \<open>
  \<^verbatim>\<open>seed/bank_notes_loans.go\<close>: the patterns of notes, electronic claims and loans.
\<close>

definition nt_patterns_1 :: "bank_pattern list" where
  "nt_patterns_1 =
   [\<lparr>pt_prefix = ''nt-recv-collect'', pt_topic = ''notes'', pt_diff = 1, pt_n = 3,
      pt_expl = cat [jp [0x58F2, 0x639B, 0x91D1, 0x306E, 0x56DE, 0x53CE, 0x3068, 0x3057, 0x3066, 0x7D04, 0x675F,
        0x624B, 0x5F62, 0x3092, 0x53D7, 0x3051, 0x53D6, 0x3063, 0x305F, 0x3068, 0x304D, 0x306F,
        0x3001, 0x53D7, 0x53D6, 0x624B, 0x5F62], '' ('', jp [0x8CC7, 0x7523], '') '', jp [0x306B,
        0x632F, 0x308A, 0x66FF, 0x3048, 0x308B, 0x3002]],
      pt_build = (\<lambda>i. do {
        b \<leftarrow> pick i [100000, 180000, 140000];
        Some (sprintf (cat [jp [0x58F2, 0x639B, 0x91D1], '' %s '', jp [0x306E, 0x56DE, 0x53CE, 0x3068, 0x3057, 0x3066,
          0x3001, 0x5F97, 0x610F, 0x5148, 0x632F, 0x51FA, 0x3057, 0x306E, 0x7D04, 0x675F, 0x624B,
          0x5F62, 0x3092, 0x53D7, 0x3051, 0x53D6, 0x3063, 0x305F, 0x3002]])
          [Str (format_yen b)],
          [je (jp [0x53D7, 0x53D6, 0x624B, 0x5F62]) b],
          [je (jp [0x58F2, 0x639B, 0x91D1]) b])
      })\<rparr>,
    \<lparr>pt_prefix = ''nt-sale'', pt_topic = ''notes'', pt_diff = 1, pt_n = 3,
      pt_expl = cat [jp [0x624B, 0x5F62, 0x306B, 0x3088, 0x308B, 0x58F2, 0x4E0A, 0x306F, 0x3001, 0x501F, 0x65B9,
        0x306B, 0x53D7, 0x53D6, 0x624B, 0x5F62, 0x3001, 0x8CB8, 0x65B9, 0x306B, 0x58F2, 0x4E0A,
        0x3092, 0x8A08, 0x4E0A, 0x3059, 0x308B, 0x3002]],
      pt_build = (\<lambda>i. do {
        b \<leftarrow> pick i [70000, 130000, 210000];
        Some (sprintf (cat [jp [0x5546, 0x54C1], '' %s '', jp [0x3092, 0x58F2, 0x308A, 0x4E0A, 0x3052, 0x3001, 0x4EE3,
          0x91D1, 0x3068, 0x3057, 0x3066, 0x7D04, 0x675F, 0x624B, 0x5F62, 0x3092, 0x53D7, 0x3051,
          0x53D6, 0x3063, 0x305F, 0x3002]])
          [Str (format_yen b)],
          [je (jp [0x53D7, 0x53D6, 0x624B, 0x5F62]) b],
          [je (jp [0x58F2, 0x4E0A]) b])
      })\<rparr>,
    \<lparr>pt_prefix = ''nt-mature-in'', pt_topic = ''notes'', pt_diff = 1, pt_n = 3,
      pt_expl = cat [jp [0x53D7, 0x53D6, 0x624B, 0x5F62, 0x306E, 0x6E80, 0x671F, 0x65E5, 0x306B, 0x53D6, 0x7ACB,
        0x3066, 0x304C, 0x5B8C, 0x4E86, 0x3059, 0x308B, 0x3068, 0x3001, 0x5F53, 0x5EA7, 0x9810,
        0x91D1, 0x304C, 0x5897, 0x52A0, 0x3057, 0x53D7, 0x53D6, 0x624B, 0x5F62, 0x304C, 0x6E1B,
        0x5C11, 0x3059, 0x308B, 0x3002]],
      pt_build = (\<lambda>i. do {
        b \<leftarrow> pick i [100000, 180000, 140000];
        Some (sprintf (cat [jp [0x304B, 0x306D, 0x3066, 0x53D7, 0x3051, 0x53D6, 0x3063, 0x3066, 0x3044, 0x305F,
          0x7D04, 0x675F, 0x624B, 0x5F62], '' %s '', jp [0x304C, 0x6E80, 0x671F, 0x65E5, 0x306B,
          0x6C7A, 0x6E08, 0x3055, 0x308C, 0x3001, 0x5F53, 0x5EA7, 0x9810, 0x91D1, 0x53E3, 0x5EA7,
          0x306B, 0x5165, 0x91D1, 0x3055, 0x308C, 0x305F, 0x3002]])
          [Str (format_yen b)],
          [je (jp [0x5F53, 0x5EA7, 0x9810, 0x91D1]) b],
          [je (jp [0x53D7, 0x53D6, 0x624B, 0x5F62]) b])
      })\<rparr>,
    \<lparr>pt_prefix = ''nt-issue-payable'', pt_topic = ''notes'', pt_diff = 1, pt_n = 3,
      pt_expl = cat [jp [0x8CB7, 0x639B, 0x91D1, 0x306E, 0x652F, 0x6255, 0x3044, 0x3068, 0x3057, 0x3066, 0x7D04,
        0x675F, 0x624B, 0x5F62, 0x3092, 0x632F, 0x308A, 0x51FA, 0x3057, 0x305F, 0x3068, 0x304D,
        0x306F, 0x3001, 0x652F, 0x6255, 0x624B, 0x5F62], '' ('', jp [0x8CA0, 0x50B5], '') '', jp
        [0x306B, 0x632F, 0x308A, 0x66FF, 0x3048, 0x308B, 0x3002]],
      pt_build = (\<lambda>i. do {
        b \<leftarrow> pick i [60000, 110000, 85000];
        Some (sprintf (cat [jp [0x8CB7, 0x639B, 0x91D1], '' %s '', jp [0x306E, 0x652F, 0x6255, 0x3044, 0x306E, 0x305F,
          0x3081, 0x3001, 0x7D04, 0x675F, 0x624B, 0x5F62, 0x3092, 0x632F, 0x308A, 0x51FA, 0x3057,
          0x305F, 0x3002]])
          [Str (format_yen b)],
          [je (jp [0x8CB7, 0x639B, 0x91D1]) b],
          [je (jp [0x652F, 0x6255, 0x624B, 0x5F62]) b])
      })\<rparr>,
    \<lparr>pt_prefix = ''nt-purch'', pt_topic = ''notes'', pt_diff = 1, pt_n = 3,
      pt_expl = cat [jp [0x624B, 0x5F62, 0x306B, 0x3088, 0x308B, 0x4ED5, 0x5165, 0x306F, 0x3001, 0x501F, 0x65B9,
        0x306B, 0x4ED5, 0x5165, 0x3001, 0x8CB8, 0x65B9, 0x306B, 0x652F, 0x6255, 0x624B, 0x5F62,
        0x3092, 0x8A08, 0x4E0A, 0x3059, 0x308B, 0x3002]],
      pt_build = (\<lambda>i. do {
        b \<leftarrow> pick i [90000, 150000, 120000];
        Some (sprintf (cat [jp [0x5546, 0x54C1], '' %s '', jp [0x3092, 0x4ED5, 0x5165, 0x308C, 0x3001, 0x4EE3, 0x91D1,
          0x3068, 0x3057, 0x3066, 0x7D04, 0x675F, 0x624B, 0x5F62, 0x3092, 0x632F, 0x308A, 0x51FA,
          0x3057, 0x305F, 0x3002]])
          [Str (format_yen b)],
          [je (jp [0x4ED5, 0x5165]) b],
          [je (jp [0x652F, 0x6255, 0x624B, 0x5F62]) b])
      })\<rparr>,
    \<lparr>pt_prefix = ''nt-mature-out'', pt_topic = ''notes'', pt_diff = 1, pt_n = 3,
      pt_expl = cat [jp [0x652F, 0x6255, 0x624B, 0x5F62, 0x306E, 0x6E80, 0x671F, 0x65E5, 0x306B, 0x5F53, 0x5EA7,
        0x9810, 0x91D1, 0x304B, 0x3089, 0x6C7A, 0x6E08, 0x3055, 0x308C, 0x308B, 0x3068, 0x3001,
        0x8CA0, 0x50B5], '' ('', jp [0x652F, 0x6255, 0x624B, 0x5F62], '') '', jp [0x304C, 0x6E1B,
        0x5C11, 0x3059, 0x308B, 0x3002]],
      pt_build = (\<lambda>i. do {
        b \<leftarrow> pick i [60000, 110000, 85000];
        Some (sprintf (cat [jp [0x304B, 0x306D, 0x3066, 0x632F, 0x308A, 0x51FA, 0x3057, 0x3066, 0x3044, 0x305F,
          0x7D04, 0x675F, 0x624B, 0x5F62], '' %s '', jp [0x304C, 0x6E80, 0x671F, 0x65E5, 0x306B,
          0x5F53, 0x5EA7, 0x9810, 0x91D1, 0x53E3, 0x5EA7, 0x304B, 0x3089, 0x6C7A, 0x6E08, 0x3055,
          0x308C, 0x305F, 0x3002]])
          [Str (format_yen b)],
          [je (jp [0x652F, 0x6255, 0x624B, 0x5F62]) b],
          [je (jp [0x5F53, 0x5EA7, 0x9810, 0x91D1]) b])
      })\<rparr>]"

definition nt_patterns_2 :: "bank_pattern list" where
  "nt_patterns_2 =
   [\<lparr>pt_prefix = ''nt-erec-occur'', pt_topic = ''notes'', pt_diff = 2, pt_n = 3,
      pt_expl = cat [jp [0x58F2, 0x639B, 0x91D1, 0x306B, 0x3064, 0x3044, 0x3066, 0x96FB, 0x5B50, 0x8A18, 0x9332,
        0x50B5, 0x6A29, 0x306E, 0x767A, 0x751F, 0x8A18, 0x9332, 0x304C, 0x884C, 0x308F, 0x308C,
        0x308B, 0x3068, 0x3001, 0x58F2, 0x639B, 0x91D1, 0x304B, 0x3089, 0x96FB, 0x5B50, 0x8A18,
        0x9332, 0x50B5, 0x6A29], '' ('', jp [0x8CC7, 0x7523], '') '', jp [0x3078, 0x632F, 0x308A,
        0x66FF, 0x3048, 0x308B, 0x3002]],
      pt_build = (\<lambda>i. do {
        b \<leftarrow> pick i [90000, 150000, 120000];
        Some (sprintf (cat [jp [0x58F2, 0x639B, 0x91D1], '' %s '', jp [0x306B, 0x3064, 0x3044, 0x3066, 0x3001, 0x53D6,
          0x5F15, 0x9280, 0x884C, 0x3092, 0x901A, 0x3058, 0x3066, 0x96FB, 0x5B50, 0x8A18, 0x9332,
          0x50B5, 0x6A29, 0x306E, 0x767A, 0x751F, 0x8A18, 0x9332, 0x304C, 0x884C, 0x308F, 0x308C,
          0x305F, 0x3002]])
          [Str (format_yen b)],
          [je (jp [0x96FB, 0x5B50, 0x8A18, 0x9332, 0x50B5, 0x6A29]) b],
          [je (jp [0x58F2, 0x639B, 0x91D1]) b])
      })\<rparr>,
    \<lparr>pt_prefix = ''nt-erec-settle'', pt_topic = ''notes'', pt_diff = 2, pt_n = 3,
      pt_expl = cat [jp [0x96FB, 0x5B50, 0x8A18, 0x9332, 0x50B5, 0x6A29, 0x304C, 0x6C7A, 0x6E08, 0x3055, 0x308C,
        0x308B, 0x3068, 0x3001, 0x666E, 0x901A, 0x9810, 0x91D1, 0x304C, 0x5897, 0x52A0, 0x3057,
        0x96FB, 0x5B50, 0x8A18, 0x9332, 0x50B5, 0x6A29, 0x304C, 0x6E1B, 0x5C11, 0x3059, 0x308B,
        0x3002]],
      pt_build = (\<lambda>i. do {
        b \<leftarrow> pick i [90000, 150000, 120000];
        Some (sprintf (cat [jp [0x96FB, 0x5B50, 0x8A18, 0x9332, 0x50B5, 0x6A29], '' %s '', jp [0x306E, 0x652F, 0x6255,
          0x671F, 0x65E5, 0x304C, 0x5230, 0x6765, 0x3057, 0x3001, 0x666E, 0x901A, 0x9810, 0x91D1,
          0x53E3, 0x5EA7, 0x306B, 0x5165, 0x91D1, 0x3055, 0x308C, 0x305F, 0x3002]])
          [Str (format_yen b)],
          [je (jp [0x666E, 0x901A, 0x9810, 0x91D1]) b],
          [je (jp [0x96FB, 0x5B50, 0x8A18, 0x9332, 0x50B5, 0x6A29]) b])
      })\<rparr>,
    \<lparr>pt_prefix = ''nt-edebt-occur'', pt_topic = ''notes'', pt_diff = 2, pt_n = 3,
      pt_expl = cat [jp [0x8CB7, 0x639B, 0x91D1, 0x306B, 0x3064, 0x3044, 0x3066, 0x96FB, 0x5B50, 0x8A18, 0x9332,
        0x50B5, 0x52D9, 0x306E, 0x767A, 0x751F, 0x8A18, 0x9332, 0x304C, 0x884C, 0x308F, 0x308C,
        0x308B, 0x3068, 0x3001, 0x8CB7, 0x639B, 0x91D1, 0x304B, 0x3089, 0x96FB, 0x5B50, 0x8A18,
        0x9332, 0x50B5, 0x52D9], '' ('', jp [0x8CA0, 0x50B5], '') '', jp [0x3078, 0x632F, 0x308A,
        0x66FF, 0x3048, 0x308B, 0x3002]],
      pt_build = (\<lambda>i. do {
        b \<leftarrow> pick i [75000, 125000, 100000];
        Some (sprintf (cat [jp [0x8CB7, 0x639B, 0x91D1], '' %s '', jp [0x306B, 0x3064, 0x3044, 0x3066, 0x3001, 0x96FB,
          0x5B50, 0x8A18, 0x9332, 0x50B5, 0x52D9, 0x306E, 0x767A, 0x751F, 0x8A18, 0x9332, 0x304C,
          0x884C, 0x308F, 0x308C, 0x305F, 0x3002]])
          [Str (format_yen b)],
          [je (jp [0x8CB7, 0x639B, 0x91D1]) b],
          [je (jp [0x96FB, 0x5B50, 0x8A18, 0x9332, 0x50B5, 0x52D9]) b])
      })\<rparr>,
    \<lparr>pt_prefix = ''nt-edebt-settle'', pt_topic = ''notes'', pt_diff = 2, pt_n = 3,
      pt_expl = cat [jp [0x96FB, 0x5B50, 0x8A18, 0x9332, 0x50B5, 0x52D9, 0x306E, 0x6C7A, 0x6E08, 0x306B, 0x3088,
        0x308A, 0x3001, 0x8CA0, 0x50B5, 0x304C, 0x6E1B, 0x5C11, 0x3057, 0x5F53, 0x5EA7, 0x9810,
        0x91D1, 0x304C, 0x6E1B, 0x5C11, 0x3059, 0x308B, 0x3002]],
      pt_build = (\<lambda>i. do {
        b \<leftarrow> pick i [75000, 125000, 100000];
        Some (sprintf (cat [jp [0x96FB, 0x5B50, 0x8A18, 0x9332, 0x50B5, 0x52D9], '' %s '', jp [0x306E, 0x652F, 0x6255,
          0x671F, 0x65E5, 0x304C, 0x5230, 0x6765, 0x3057, 0x3001, 0x5F53, 0x5EA7, 0x9810, 0x91D1,
          0x53E3, 0x5EA7, 0x304B, 0x3089, 0x6C7A, 0x6E08, 0x3055, 0x308C, 0x305F, 0x3002]])
          [Str (format_yen b)],
          [je (jp [0x96FB, 0x5B50, 0x8A18, 0x9332, 0x50B5, 0x52D9]) b],
          [je (jp [0x5F53, 0x5EA7, 0x9810, 0x91D1]) b])
      })\<rparr>]"

definition ln_patterns_1 :: "bank_pattern list" where
  "ln_patterns_1 =
   [\<lparr>pt_prefix = ''ln-lend'', pt_topic = ''loans'', pt_diff = 1, pt_n = 3,
      pt_expl = cat [jp [0x8CB8, 0x4ED8, 0x3051, 0x306F, 0x5C06, 0x6765, 0x8FD4, 0x6E08, 0x3092, 0x53D7, 0x3051,
        0x308B, 0x6A29, 0x5229, 0x3067, 0x3042, 0x308A, 0x3001, 0x8CB8, 0x4ED8, 0x91D1], '' ('', jp
        [0x8CC7, 0x7523], '') '', jp [0x3092, 0x8A08, 0x4E0A, 0x3059, 0x308B, 0x3002]],
      pt_build = (\<lambda>i. do {
        b \<leftarrow> pick i [200000, 500000, 350000];
        Some (sprintf (cat [jp [0x53D6, 0x5F15, 0x5148, 0x306B], '' %s '', jp [0x3092, 0x8CB8, 0x3057, 0x4ED8, 0x3051,
          0x3001, 0x73FE, 0x91D1, 0x3092, 0x6E21, 0x3057, 0x305F, 0x3002]])
          [Str (format_yen b)],
          [je (jp [0x8CB8, 0x4ED8, 0x91D1]) b],
          [je (jp [0x73FE, 0x91D1]) b])
      })\<rparr>,
    \<lparr>pt_prefix = ''ln-collect-int'', pt_topic = ''loans'', pt_diff = 2, pt_n = 3,
      pt_expl = cat [jp [0x8CB8, 0x4ED8, 0x91D1, 0x306E, 0x56DE, 0x53CE, 0x3068, 0x5229, 0x606F, 0x306E, 0x53D7,
        0x53D6, 0x308A, 0x3002, 0x5143, 0x91D1, 0x306F, 0x8CB8, 0x4ED8, 0x91D1, 0x306E, 0x6E1B,
        0x5C11, 0x3001, 0x5229, 0x606F, 0x306F, 0x53D7, 0x53D6, 0x5229, 0x606F], '' ('', jp [0x53CE,
        0x76CA], '') '', jp [0x3068, 0x3059, 0x308B, 0x3002]],
      pt_build = (\<lambda>i. do {
        b \<leftarrow> pick i [200000, 500000, 350000];
        let interest = b * 2 div 100;
        Some (sprintf (cat [jp [0x8CB8, 0x4ED8, 0x91D1], '' %s '', jp [0x3092, 0x5229, 0x606F], '' ('', jp [0x5E74,
          0x5229, 0x7387], '' 2%%'', jp [0x3001, 0x8CB8, 0x4ED8, 0x671F, 0x9593], '' 1 '', jp
          [0x5E74], '') '', jp [0x3068, 0x3068, 0x3082, 0x306B, 0x56DE, 0x53CE, 0x3057, 0x3001,
          0x666E, 0x901A, 0x9810, 0x91D1, 0x53E3, 0x5EA7, 0x306B, 0x5165, 0x91D1, 0x3055, 0x308C,
          0x305F, 0x3002]])
          [Str (format_yen b)],
          [je (jp [0x666E, 0x901A, 0x9810, 0x91D1]) (b + interest)],
          [je (jp [0x8CB8, 0x4ED8, 0x91D1]) b, je (jp [0x53D7, 0x53D6, 0x5229, 0x606F]) interest])
      })\<rparr>,
    \<lparr>pt_prefix = ''ln-borrow'', pt_topic = ''loans'', pt_diff = 1, pt_n = 3,
      pt_expl = cat [jp [0x501F, 0x5165, 0x308C, 0x306F, 0x5C06, 0x6765, 0x8FD4, 0x6E08, 0x3059, 0x308B, 0x7FA9,
        0x52D9, 0x3067, 0x3042, 0x308A, 0x3001, 0x501F, 0x5165, 0x91D1], '' ('', jp [0x8CA0,
        0x50B5], '') '', jp [0x3092, 0x8A08, 0x4E0A, 0x3059, 0x308B, 0x3002]],
      pt_build = (\<lambda>i. do {
        b \<leftarrow> pick i [300000, 800000, 500000];
        Some (sprintf (cat [jp [0x9280, 0x884C, 0x304B, 0x3089], '' %s '', jp [0x3092, 0x501F, 0x308A, 0x5165, 0x308C,
          0x3001, 0x5F53, 0x5EA7, 0x9810, 0x91D1, 0x53E3, 0x5EA7, 0x306B, 0x5165, 0x91D1, 0x3055,
          0x308C, 0x305F, 0x3002]])
          [Str (format_yen b)],
          [je (jp [0x5F53, 0x5EA7, 0x9810, 0x91D1]) b],
          [je (jp [0x501F, 0x5165, 0x91D1]) b])
      })\<rparr>,
    \<lparr>pt_prefix = ''ln-repay-int'', pt_topic = ''loans'', pt_diff = 2, pt_n = 3,
      pt_expl = cat [jp [0x501F, 0x5165, 0x91D1, 0x306E, 0x8FD4, 0x6E08, 0x3068, 0x5229, 0x606F, 0x306E, 0x652F,
        0x6255, 0x3044, 0x3002, 0x5143, 0x91D1, 0x306F, 0x501F, 0x5165, 0x91D1, 0x306E, 0x6E1B,
        0x5C11, 0x3001, 0x5229, 0x606F, 0x306F, 0x652F, 0x6255, 0x5229, 0x606F], '' ('', jp [0x8CBB,
        0x7528], '') '', jp [0x3068, 0x3059, 0x308B, 0x3002]],
      pt_build = (\<lambda>i. do {
        b \<leftarrow> pick i [300000, 800000, 500000];
        let interest = b * 3 div 100;
        Some (sprintf (cat [jp [0x501F, 0x5165, 0x91D1], '' %s '', jp [0x3092, 0x5229, 0x606F], '' ('', jp [0x5E74,
          0x5229, 0x7387], '' 3%%'', jp [0x3001, 0x501F, 0x5165, 0x671F, 0x9593], '' 1 '', jp
          [0x5E74], '') '', jp [0x3068, 0x3068, 0x3082, 0x306B, 0x5F53, 0x5EA7, 0x9810, 0x91D1,
          0x53E3, 0x5EA7, 0x304B, 0x3089, 0x8FD4, 0x6E08, 0x3057, 0x305F, 0x3002]])
          [Str (format_yen b)],
          [je (jp [0x501F, 0x5165, 0x91D1]) b, je (jp [0x652F, 0x6255, 0x5229, 0x606F]) interest],
          [je (jp [0x5F53, 0x5EA7, 0x9810, 0x91D1]) (b + interest)])
      })\<rparr>,
    \<lparr>pt_prefix = ''ln-note-lend'', pt_topic = ''loans'', pt_diff = 2, pt_n = 3,
      pt_expl = cat [jp [0x501F, 0x7528, 0x8A3C, 0x66F8, 0x306E, 0x4EE3, 0x308F, 0x308A, 0x306B, 0x7D04, 0x675F,
        0x624B, 0x5F62, 0x3092, 0x53D7, 0x3051, 0x53D6, 0x3063, 0x3066, 0x8CB8, 0x3057, 0x4ED8,
        0x3051, 0x305F, 0x3068, 0x304D, 0x306F, 0x3001, 0x624B, 0x5F62, 0x8CB8, 0x4ED8, 0x91D1],
        '' ('', jp [0x8CC7, 0x7523], '') '', jp [0x3092, 0x7528, 0x3044, 0x308B, 0x3002]],
      pt_build = (\<lambda>i. do {
        b \<leftarrow> pick i [150000, 400000, 270000];
        Some (sprintf (cat [jp [0x53D6, 0x5F15, 0x5148, 0x306B], '' %s '', jp [0x3092, 0x8CB8, 0x3057, 0x4ED8, 0x3051,
          0x3001, 0x540C, 0x984D, 0x306E, 0x7D04, 0x675F, 0x624B, 0x5F62, 0x3092, 0x53D7, 0x3051,
          0x53D6, 0x308A, 0x3001, 0x73FE, 0x91D1, 0x3092, 0x6E21, 0x3057, 0x305F, 0x3002]])
          [Str (format_yen b)],
          [je (jp [0x624B, 0x5F62, 0x8CB8, 0x4ED8, 0x91D1]) b],
          [je (jp [0x73FE, 0x91D1]) b])
      })\<rparr>,
    \<lparr>pt_prefix = ''ln-note-borrow'', pt_topic = ''loans'', pt_diff = 2, pt_n = 3,
      pt_expl = cat [jp [0x7D04, 0x675F, 0x624B, 0x5F62, 0x3092, 0x632F, 0x308A, 0x51FA, 0x3057, 0x3066, 0x501F,
        0x308A, 0x5165, 0x308C, 0x305F, 0x3068, 0x304D, 0x306F, 0x3001, 0x624B, 0x5F62, 0x501F,
        0x5165, 0x91D1], '' ('', jp [0x8CA0, 0x50B5], '') '', jp [0x3092, 0x7528, 0x3044, 0x308B,
        0x3002]],
      pt_build = (\<lambda>i. do {
        b \<leftarrow> pick i [250000, 600000, 420000];
        Some (sprintf (cat [jp [0x9280, 0x884C, 0x304B, 0x3089], '' %s '', jp [0x3092, 0x501F, 0x308A, 0x5165, 0x308C,
          0x3001, 0x540C, 0x984D, 0x306E, 0x7D04, 0x675F, 0x624B, 0x5F62, 0x3092, 0x632F, 0x308A,
          0x51FA, 0x3057, 0x3001, 0x73FE, 0x91D1, 0x3092, 0x53D7, 0x3051, 0x53D6, 0x3063, 0x305F,
          0x3002]])
          [Str (format_yen b)],
          [je (jp [0x73FE, 0x91D1]) b],
          [je (jp [0x624B, 0x5F62, 0x501F, 0x5165, 0x91D1]) b])
      })\<rparr>]"

definition ln_patterns_2 :: "bank_pattern list" where
  "ln_patterns_2 =
   [\<lparr>pt_prefix = ''ln-int-month'', pt_topic = ''loans'', pt_diff = 2, pt_n = 3,
      pt_expl = cat [jp [0x5229, 0x606F, 0x306E, 0x6708, 0x5272, 0x8A08, 0x7B97], '': '', jp [0x5143, 0x91D1],
        '' '', jp [0x00D7], '' '', jp [0x5E74, 0x5229, 0x7387], '' '', jp [0x00D7], '' '', jp
        [0x7D4C, 0x904E, 0x6708, 0x6570], '' / 12'', jp [0x3002], ''500,000 '', jp [0x5186], '' '',
        jp [0x00D7], '' 2.4% '', jp [0x00D7], '' 5/12 = 5,000 '', jp [0x5186, 0x3002]],
      pt_build = (\<lambda>i. do {
        b \<leftarrow> pick i [500000, 1000000, 800000];
        let interest = b div 100;
        Some (sprintf (cat [jp [0x501F, 0x5165, 0x91D1], '' %s ('', jp [0x5E74, 0x5229, 0x7387], '' 2.4%%) '', jp
          [0x306B, 0x3064, 0x3044, 0x3066, 0x3001], ''5 '', jp [0x304B, 0x6708, 0x5206, 0x306E,
          0x5229, 0x606F, 0x3092, 0x73FE, 0x91D1, 0x3067, 0x652F, 0x6255, 0x3063, 0x305F, 0x3002]])
          [Str (format_yen b)],
          [je (jp [0x652F, 0x6255, 0x5229, 0x606F]) interest],
          [je (jp [0x73FE, 0x91D1]) interest])
      })\<rparr>]"

definition notes_loan_patterns :: "bank_pattern list" where
  "notes_loan_patterns = nt_patterns_1 @ nt_patterns_2 @ ln_patterns_1 @ ln_patterns_2"

lemma notes_loan_pattern_keys [bank_keys]:
  "map pattern_key notes_loan_patterns = [(''nt-recv-collect'', ''notes'', 3), (''nt-sale'', ''notes'', 3), (''nt-mature-in'', ''notes'',
     3), (''nt-issue-payable'', ''notes'', 3), (''nt-purch'', ''notes'', 3), (''nt-mature-out'',
     ''notes'', 3), (''nt-erec-occur'', ''notes'', 3), (''nt-erec-settle'', ''notes'', 3),
     (''nt-edebt-occur'', ''notes'', 3), (''nt-edebt-settle'', ''notes'', 3), (''ln-lend'',
     ''loans'', 3), (''ln-collect-int'', ''loans'', 3), (''ln-borrow'', ''loans'', 3),
     (''ln-repay-int'', ''loans'', 3), (''ln-note-lend'', ''loans'', 3), (''ln-note-borrow'',
     ''loans'', 3), (''ln-int-month'', ''loans'', 3)]"
  by (simp add: notes_loan_patterns_def nt_patterns_1_def nt_patterns_2_def ln_patterns_1_def ln_patterns_2_def pattern_key_def)

lemma notes_loan_pattern_sound [bank_sound]:
  "list_all pattern_sound notes_loan_patterns"
  by (simp add: notes_loan_patterns_def nt_patterns_1_def nt_patterns_2_def ln_patterns_1_def ln_patterns_2_def pattern_sound_simps)

end
