(* ===== verification/BankFixedOther.thy ===== *)
theory BankFixedOther
  imports Generator
begin

text \<open>
  \<^verbatim>\<open>seed/bank_fixed_other.go\<close>: the patterns of fixed assets and other claims and obligations.
\<close>

definition fa_patterns_1 :: "bank_pattern list" where
  "fa_patterns_1 =
   [\<lparr>pt_prefix = ''fa-equip-incid'', pt_topic = ''fixed_asset'', pt_diff = 2, pt_n = 3,
      pt_expl = cat [jp [0x56FA, 0x5B9A, 0x8CC7, 0x7523, 0x306E, 0x53D6, 0x5F97, 0x539F, 0x4FA1, 0x306B, 0x306F,
        0x5F15, 0x53D6, 0x904B, 0x8CC3, 0x306A, 0x3069, 0x306E, 0x4ED8, 0x968F, 0x8CBB, 0x7528,
        0x3092, 0x542B, 0x3081, 0x308B, 0x3002]],
      pt_build = (\<lambda>i. do {
        b \<leftarrow> pick i [200000, 350000, 280000];
        f \<leftarrow> pick i [5000, 8000, 7000];
        Some (sprintf (cat [jp [0x5099, 0x54C1], '' %s '', jp [0x3092, 0x8CFC, 0x5165, 0x3057, 0x3001, 0x5F15, 0x53D6,
          0x904B, 0x8CC3], '' %s '', jp [0x3068, 0x3068, 0x3082, 0x306B, 0x73FE, 0x91D1, 0x3067,
          0x652F, 0x6255, 0x3063, 0x305F, 0x3002]])
          [Str (format_yen b), Str (format_yen f)],
          [je (jp [0x5099, 0x54C1]) (b + f)],
          [je (jp [0x73FE, 0x91D1]) (b + f)])
      })\<rparr>,
    \<lparr>pt_prefix = ''fa-land-incid'', pt_topic = ''fixed_asset'', pt_diff = 2, pt_n = 2,
      pt_expl = cat [jp [0x571F, 0x5730, 0x306E, 0x53D6, 0x5F97, 0x539F, 0x4FA1, 0x306B, 0x306F, 0x6574, 0x5730,
        0x8CBB, 0x7528, 0x306A, 0x3069, 0x306E, 0x4ED8, 0x968F, 0x8CBB, 0x7528, 0x3092, 0x542B,
        0x3081, 0x308B, 0x3002]],
      pt_build = (\<lambda>i. do {
        b \<leftarrow> pick i [2000000, 3500000];
        f \<leftarrow> pick i [100000, 150000];
        Some (sprintf (cat [jp [0x571F, 0x5730], '' %s '', jp [0x3092, 0x8CFC, 0x5165, 0x3057, 0x3001, 0x6574, 0x5730,
          0x8CBB, 0x7528], '' %s '', jp [0x3068, 0x3068, 0x3082, 0x306B, 0x5C0F, 0x5207, 0x624B,
          0x3092, 0x632F, 0x308A, 0x51FA, 0x3057, 0x3066, 0x652F, 0x6255, 0x3063, 0x305F, 0x3002]])
          [Str (format_yen b), Str (format_yen f)],
          [je (jp [0x571F, 0x5730]) (b + f)],
          [je (jp [0x5F53, 0x5EA7, 0x9810, 0x91D1]) (b + f)])
      })\<rparr>,
    \<lparr>pt_prefix = ''fa-building-unpaid'', pt_topic = ''fixed_asset'', pt_diff = 1, pt_n = 3,
      pt_expl = cat [jp [0x5546, 0x54C1, 0x4EE5, 0x5916, 0x306E, 0x8CC7, 0x7523, 0x3092, 0x5F8C, 0x6255, 0x3044,
        0x3067, 0x8CFC, 0x5165, 0x3057, 0x305F, 0x3068, 0x304D, 0x306E, 0x50B5, 0x52D9, 0x306F,
        0x3001, 0x8CB7, 0x639B, 0x91D1, 0x3067, 0x306F, 0x306A, 0x304F, 0x672A, 0x6255, 0x91D1,
        0x3092, 0x7528, 0x3044, 0x308B, 0x3002]],
      pt_build = (\<lambda>i. do {
        b \<leftarrow> pick i [1200000, 2400000, 1800000];
        Some (sprintf (cat [jp [0x5EFA, 0x7269], '' %s '', jp [0x3092, 0x8CFC, 0x5165, 0x3057, 0x305F, 0x3002, 0x4EE3,
          0x91D1, 0x306F, 0x7FCC, 0x6708, 0x672B, 0x306B, 0x652F, 0x6255, 0x3046, 0x3053, 0x3068,
          0x3068, 0x3057, 0x305F, 0x3002]])
          [Str (format_yen b)],
          [je (jp [0x5EFA, 0x7269]) b],
          [je (jp [0x672A, 0x6255, 0x91D1]) b])
      })\<rparr>,
    \<lparr>pt_prefix = ''fa-sell-gain'', pt_topic = ''fixed_asset'', pt_diff = 2, pt_n = 3,
      pt_expl = cat [jp [0x9593, 0x63A5, 0x6CD5, 0x3067, 0x306F, 0x6E1B, 0x4FA1, 0x511F, 0x5374, 0x7D2F, 0x8A08,
        0x984D, 0x3092, 0x501F, 0x65B9, 0x306B, 0x632F, 0x308A, 0x66FF, 0x3048, 0x3066, 0x5099,
        0x54C1, 0x3092, 0x5E33, 0x7C3F, 0x304B, 0x3089, 0x6D88, 0x3059, 0x3002, 0x58F2, 0x4FA1,
        0x304C, 0x5E33, 0x7C3F, 0x4FA1, 0x984D, 0x3092, 0x4E0A, 0x56DE, 0x308B, 0x5206, 0x306F,
        0x56FA, 0x5B9A, 0x8CC7, 0x7523, 0x58F2, 0x5374, 0x76CA, 0x3002]],
      pt_build = (\<lambda>i. do {
        c \<leftarrow> pick i [300000, 480000, 600000];
        let acc = c * 3 div 5;
        let price = c div 2;
        let gain = price - (c - acc);
        Some (sprintf (cat [jp [0x671F, 0x9996, 0x306B, 0x3001, 0x5099, 0x54C1], '' ('', jp [0x53D6, 0x5F97, 0x539F,
          0x4FA1], '' %s'', jp [0x3001, 0x6E1B, 0x4FA1, 0x511F, 0x5374, 0x7D2F, 0x8A08, 0x984D],
          '' %s'', jp [0x3001, 0x9593, 0x63A5, 0x6CD5, 0x3067, 0x8A18, 0x5E33], '') '', jp [0x3092],
          '' %s '', jp [0x3067, 0x58F2, 0x5374, 0x3057, 0x3001, 0x4EE3, 0x91D1, 0x306F, 0x73FE,
          0x91D1, 0x3067, 0x53D7, 0x3051, 0x53D6, 0x3063, 0x305F, 0x3002]])
          [Str (format_yen c), Str (format_yen acc), Str (format_yen price)],
          [je (jp [0x73FE, 0x91D1]) price,
           je (jp [0x5099, 0x54C1, 0x6E1B, 0x4FA1, 0x511F, 0x5374, 0x7D2F, 0x8A08, 0x984D]) acc],
          [je (jp [0x5099, 0x54C1]) c,
           je (jp [0x56FA, 0x5B9A, 0x8CC7, 0x7523, 0x58F2, 0x5374, 0x76CA]) gain])
      })\<rparr>,
    \<lparr>pt_prefix = ''fa-sell-loss'', pt_topic = ''fixed_asset'', pt_diff = 2, pt_n = 2,
      pt_expl = cat [jp [0x58F2, 0x4FA1, 0x304C, 0x5E33, 0x7C3F, 0x4FA1, 0x984D], '' ('', jp [0x53D6, 0x5F97,
        0x539F, 0x4FA1], '' '', jp [0x2212], '' '', jp [0x6E1B, 0x4FA1, 0x511F, 0x5374, 0x7D2F,
        0x8A08, 0x984D], '') '', jp [0x3092, 0x4E0B, 0x56DE, 0x308B, 0x5206, 0x306F, 0x56FA, 0x5B9A,
        0x8CC7, 0x7523, 0x58F2, 0x5374, 0x640D], '' ('', jp [0x8CBB, 0x7528], '') '', jp [0x3068,
        0x3059, 0x308B, 0x3002]],
      pt_build = (\<lambda>i. do {
        c \<leftarrow> pick i [400000, 640000];
        let acc = c div 4;
        let price = c * 5 div 8;
        let loss = (c - acc) - price;
        Some (sprintf (cat [jp [0x671F, 0x9996, 0x306B, 0x3001, 0x5099, 0x54C1], '' ('', jp [0x53D6, 0x5F97, 0x539F,
          0x4FA1], '' %s'', jp [0x3001, 0x6E1B, 0x4FA1, 0x511F, 0x5374, 0x7D2F, 0x8A08, 0x984D],
          '' %s'', jp [0x3001, 0x9593, 0x63A5, 0x6CD5, 0x3067, 0x8A18, 0x5E33], '') '', jp [0x3092],
          '' %s '', jp [0x3067, 0x58F2, 0x5374, 0x3057, 0x3001, 0x4EE3, 0x91D1, 0x306F, 0x73FE,
          0x91D1, 0x3067, 0x53D7, 0x3051, 0x53D6, 0x3063, 0x305F, 0x3002]])
          [Str (format_yen c), Str (format_yen acc), Str (format_yen price)],
          [je (jp [0x73FE, 0x91D1]) price,
           je (jp [0x5099, 0x54C1, 0x6E1B, 0x4FA1, 0x511F, 0x5374, 0x7D2F, 0x8A08, 0x984D]) acc,
           je (jp [0x56FA, 0x5B9A, 0x8CC7, 0x7523, 0x58F2, 0x5374, 0x640D]) loss],
          [je (jp [0x5099, 0x54C1]) c])
      })\<rparr>,
    \<lparr>pt_prefix = ''fa-sell-unpaid'', pt_topic = ''fixed_asset'', pt_diff = 2, pt_n = 2,
      pt_expl = cat [jp [0x5546, 0x54C1, 0x4EE5, 0x5916, 0x306E, 0x8CC7, 0x7523, 0x3092, 0x58F2, 0x5374, 0x3057,
        0x305F, 0x672A, 0x53CE, 0x306E, 0x4EE3, 0x91D1, 0x306F, 0x3001, 0x58F2, 0x639B, 0x91D1,
        0x3067, 0x306F, 0x306A, 0x304F, 0x672A, 0x53CE, 0x5165, 0x91D1, 0x3092, 0x7528, 0x3044,
        0x308B, 0x3002]],
      pt_build = (\<lambda>i. do {
        b \<leftarrow> pick i [1500000, 2000000];
        g \<leftarrow> pick i [100000, 200000];
        Some (sprintf (cat [jp [0x571F, 0x5730], '' ('', jp [0x5E33, 0x7C3F, 0x4FA1, 0x984D], '' %s) '', jp [0x3092],
          '' %s '', jp [0x3067, 0x58F2, 0x5374, 0x3057, 0x3001, 0x4EE3, 0x91D1, 0x306F, 0x6708,
          0x672B, 0x306B, 0x53D7, 0x3051, 0x53D6, 0x308B, 0x3053, 0x3068, 0x3068, 0x3057, 0x305F,
          0x3002]])
          [Str (format_yen b), Str (format_yen (b + g))],
          [je (jp [0x672A, 0x53CE, 0x5165, 0x91D1]) (b + g)],
          [je (jp [0x571F, 0x5730]) b,
           je (jp [0x56FA, 0x5B9A, 0x8CC7, 0x7523, 0x58F2, 0x5374, 0x76CA]) g])
      })\<rparr>]"

definition fa_patterns_2 :: "bank_pattern list" where
  "fa_patterns_2 =
   [\<lparr>pt_prefix = ''fa-capex'', pt_topic = ''fixed_asset'', pt_diff = 2, pt_n = 2,
      pt_expl = cat [jp [0x8CC7, 0x7523, 0x4FA1, 0x5024, 0x3092, 0x9AD8, 0x3081, 0x308B, 0x652F, 0x51FA], '' ('',
        jp [0x8CC7, 0x672C, 0x7684, 0x652F, 0x51FA], '') '', jp [0x306F, 0x5EFA, 0x7269, 0x306E,
        0x53D6, 0x5F97, 0x539F, 0x4FA1, 0x306B, 0x52A0, 0x7B97, 0x3057, 0x3001, 0x73FE, 0x72B6,
        0x7DAD, 0x6301, 0x306E, 0x305F, 0x3081, 0x306E, 0x652F, 0x51FA], '' ('', jp [0x53CE, 0x76CA,
        0x7684, 0x652F, 0x51FA], '') '', jp [0x306F, 0x4FEE, 0x7E55, 0x8CBB, 0x3068, 0x3059, 0x308B,
        0x3002]],
      pt_build = (\<lambda>i. do {
        x \<leftarrow> pick i [800000, 500000];
        y \<leftarrow> pick i [200000, 100000];
        Some (sprintf (cat [jp [0x5EFA, 0x7269, 0x306E, 0x6539, 0x4FEE, 0x3092, 0x884C, 0x3044, 0x3001, 0x4EE3,
          0x91D1], '' %s '', jp [0x3092, 0x5C0F, 0x5207, 0x624B, 0x3092, 0x632F, 0x308A, 0x51FA,
          0x3057, 0x3066, 0x652F, 0x6255, 0x3063, 0x305F, 0x3002, 0x3053, 0x306E, 0x3046, 0x3061],
          '' %s '', jp [0x306F, 0x8010, 0x9707, 0x88DC, 0x5F37, 0x5DE5, 0x4E8B], '' ('', jp [0x8CC7,
          0x672C, 0x7684, 0x652F, 0x51FA], '')'', jp [0x3001], ''%s '', jp [0x306F, 0x58C1, 0x306E,
          0x5857, 0x66FF, 0x3048], '' ('', jp [0x53CE, 0x76CA, 0x7684, 0x652F, 0x51FA], '') '', jp
          [0x3067, 0x3042, 0x308B, 0x3002]])
          [Str (format_yen (x + y)), Str (format_yen x), Str (format_yen y)],
          [je (jp [0x5EFA, 0x7269]) x, je (jp [0x4FEE, 0x7E55, 0x8CBB]) y],
          [je (jp [0x5F53, 0x5EA7, 0x9810, 0x91D1]) (x + y)])
      })\<rparr>,
    \<lparr>pt_prefix = ''fa-repair'', pt_topic = ''fixed_asset'', pt_diff = 1, pt_n = 3,
      pt_expl = cat [jp [0x6A5F, 0x80FD, 0x7DAD, 0x6301, 0x306E, 0x305F, 0x3081, 0x306E, 0x4FEE, 0x7406, 0x4EE3,
        0x91D1, 0x306F, 0x4FEE, 0x7E55, 0x8CBB], '' ('', jp [0x8CBB, 0x7528], '') '', jp [0x3068,
        0x3057, 0x3066, 0x51E6, 0x7406, 0x3059, 0x308B, 0x3002]],
      pt_build = (\<lambda>i. do {
        b \<leftarrow> pick i [30000, 70000, 50000];
        Some (sprintf (cat [jp [0x7A93, 0x30AC, 0x30E9, 0x30B9, 0x306E, 0x7834, 0x640D, 0x3092, 0x4FEE, 0x7406,
          0x3057, 0x3001, 0x4EE3, 0x91D1], '' %s '', jp [0x3092, 0x73FE, 0x91D1, 0x3067, 0x652F,
          0x6255, 0x3063, 0x305F, 0x3002]])
          [Str (format_yen b)],
          [je (jp [0x4FEE, 0x7E55, 0x8CBB]) b],
          [je (jp [0x73FE, 0x91D1]) b])
      })\<rparr>]"

definition or_patterns_1 :: "bank_pattern list" where
  "or_patterns_1 =
   [\<lparr>pt_prefix = ''or-advance-emp'', pt_topic = ''other_recv'', pt_diff = 1, pt_n = 3,
      pt_expl = cat [jp [0x5F93, 0x696D, 0x54E1, 0x8CA0, 0x62C5, 0x5206, 0x306E, 0x7ACB, 0x66FF, 0x6255, 0x3044,
        0x306F, 0x3001, 0x8FD4, 0x6E08, 0x3092, 0x8ACB, 0x6C42, 0x3067, 0x304D, 0x308B, 0x6A29,
        0x5229, 0x3068, 0x3057, 0x3066, 0x7ACB, 0x66FF, 0x91D1], '' ('', jp [0x8CC7, 0x7523],
        '') '', jp [0x3092, 0x8A08, 0x4E0A, 0x3059, 0x308B, 0x3002]],
      pt_build = (\<lambda>i. do {
        b \<leftarrow> pick i [12000, 20000, 16000];
        Some (sprintf (cat [jp [0x5F93, 0x696D, 0x54E1, 0x304C, 0x8CA0, 0x62C5, 0x3059, 0x3079, 0x304D, 0x751F,
          0x547D, 0x4FDD, 0x967A, 0x6599], '' %s '', jp [0x3092, 0x73FE, 0x91D1, 0x3067, 0x7ACB,
          0x66FF, 0x6255, 0x3044, 0x3057, 0x305F, 0x3002]])
          [Str (format_yen b)],
          [je (jp [0x7ACB, 0x66FF, 0x91D1]) b],
          [je (jp [0x73FE, 0x91D1]) b])
      })\<rparr>,
    \<lparr>pt_prefix = ''or-advance-back'', pt_topic = ''other_recv'', pt_diff = 1, pt_n = 3,
      pt_expl = cat [jp [0x7ACB, 0x66FF, 0x91D1, 0x306E, 0x56DE, 0x53CE, 0x306B, 0x3088, 0x308A, 0x8CC7, 0x7523,
        0x304C, 0x73FE, 0x91D1, 0x306B, 0x632F, 0x308A, 0x66FF, 0x308F, 0x308B, 0x3002]],
      pt_build = (\<lambda>i. do {
        b \<leftarrow> pick i [12000, 20000, 16000];
        Some (sprintf (cat [jp [0x5F93, 0x696D, 0x54E1, 0x306B, 0x7ACB, 0x66FF, 0x6255, 0x3044, 0x3057, 0x3066,
          0x3044, 0x305F], '' %s '', jp [0x3092, 0x73FE, 0x91D1, 0x3067, 0x56DE, 0x53CE, 0x3057,
          0x305F, 0x3002]])
          [Str (format_yen b)],
          [je (jp [0x73FE, 0x91D1]) b],
          [je (jp [0x7ACB, 0x66FF, 0x91D1]) b])
      })\<rparr>,
    \<lparr>pt_prefix = ''or-tmp-pay'', pt_topic = ''other_recv'', pt_diff = 1, pt_n = 3,
      pt_expl = cat [jp [0x5185, 0x5BB9, 0x3084, 0x91D1, 0x984D, 0x304C, 0x672A, 0x78BA, 0x5B9A, 0x306E, 0x652F,
        0x51FA, 0x306F, 0x4EEE, 0x6255, 0x91D1], '' ('', jp [0x8CC7, 0x7523], '') '', jp [0x3068,
        0x3057, 0x3066, 0x51E6, 0x7406, 0x3057, 0x3001, 0x78BA, 0x5B9A, 0x5F8C, 0x306B, 0x7CBE,
        0x7B97, 0x3059, 0x308B, 0x3002]],
      pt_build = (\<lambda>i. do {
        b \<leftarrow> pick i [50000, 80000, 65000];
        Some (sprintf (cat [jp [0x5F93, 0x696D, 0x54E1, 0x306E, 0x51FA, 0x5F35, 0x306B, 0x3042, 0x305F, 0x308A,
          0x3001, 0x65C5, 0x8CBB, 0x306E, 0x6982, 0x7B97, 0x984D], '' %s '', jp [0x3092, 0x73FE,
          0x91D1, 0x3067, 0x524D, 0x6E21, 0x3057, 0x3057, 0x305F, 0x3002]])
          [Str (format_yen b)],
          [je (jp [0x4EEE, 0x6255, 0x91D1]) b],
          [je (jp [0x73FE, 0x91D1]) b])
      })\<rparr>,
    \<lparr>pt_prefix = ''or-tmp-settle'', pt_topic = ''other_recv'', pt_diff = 2, pt_n = 3,
      pt_expl = cat [jp [0x51FA, 0x5F35, 0x7CBE, 0x7B97, 0x3067, 0x306F, 0x78BA, 0x5B9A, 0x3057, 0x305F, 0x65C5,
        0x8CBB, 0x4EA4, 0x901A, 0x8CBB, 0x3092, 0x8A08, 0x4E0A, 0x3057, 0x3001, 0x6982, 0x7B97,
        0x6255, 0x3044, 0x3068, 0x306E, 0x5DEE, 0x984D], '' ('', jp [0x6B8B, 0x91D1], '') '', jp
        [0x3092, 0x73FE, 0x91D1, 0x3067, 0x53D7, 0x3051, 0x53D6, 0x308B, 0x3002]],
      pt_build = (\<lambda>i. do {
        b \<leftarrow> pick i [50000, 80000, 65000];
        x \<leftarrow> pick i [42000, 71000, 58000];
        Some (sprintf (cat [jp [0x51FA, 0x5F35, 0x304B, 0x3089, 0x623B, 0x3063, 0x305F, 0x5F93, 0x696D, 0x54E1,
          0x304C, 0x65C5, 0x8CBB, 0x3092, 0x7CBE, 0x7B97, 0x3057, 0x3001, 0x6982, 0x7B97, 0x6255,
          0x3044, 0x3057, 0x3066, 0x3044, 0x305F], '' %s '', jp [0x306E, 0x3046, 0x3061, 0x65C5,
          0x8CBB, 0x4EA4, 0x901A, 0x8CBB, 0x306F], '' %s '', jp [0x3068, 0x78BA, 0x5B9A, 0x3001,
          0x6B8B, 0x984D, 0x306F, 0x73FE, 0x91D1, 0x3067, 0x8FD4, 0x91D1, 0x3055, 0x308C, 0x305F,
          0x3002]])
          [Str (format_yen b), Str (format_yen x)],
          [je (jp [0x65C5, 0x8CBB, 0x4EA4, 0x901A, 0x8CBB]) x, je (jp [0x73FE, 0x91D1]) (b - x)],
          [je (jp [0x4EEE, 0x6255, 0x91D1]) b])
      })\<rparr>,
    \<lparr>pt_prefix = ''or-tmp-recv'', pt_topic = ''other_recv'', pt_diff = 2, pt_n = 3,
      pt_expl = cat [jp [0x5185, 0x5BB9, 0x4E0D, 0x660E, 0x306E, 0x5165, 0x91D1, 0x306F, 0x4EEE, 0x53D7, 0x91D1],
        '' ('', jp [0x8CA0, 0x50B5], '') '', jp [0x3068, 0x3057, 0x3066, 0x51E6, 0x7406, 0x3057,
        0x3001, 0x5185, 0x5BB9, 0x5224, 0x660E, 0x5F8C, 0x306B, 0x632F, 0x308A, 0x66FF, 0x3048,
        0x308B, 0x3002]],
      pt_build = (\<lambda>i. do {
        b \<leftarrow> pick i [60000, 100000, 80000];
        Some (sprintf (cat [jp [0x51FA, 0x5F35, 0x4E2D, 0x306E, 0x5F93, 0x696D, 0x54E1, 0x304B, 0x3089, 0x5F53,
          0x5EA7, 0x9810, 0x91D1, 0x53E3, 0x5EA7, 0x306B], '' %s '', jp [0x306E, 0x632F, 0x8FBC,
          0x307F, 0x304C, 0x3042, 0x3063, 0x305F, 0x304C, 0x3001, 0x305D, 0x306E, 0x5185, 0x5BB9,
          0x306F, 0x4E0D, 0x660E, 0x3067, 0x3042, 0x308B, 0x3002]])
          [Str (format_yen b)],
          [je (jp [0x5F53, 0x5EA7, 0x9810, 0x91D1]) b],
          [je (jp [0x4EEE, 0x53D7, 0x91D1]) b])
      })\<rparr>,
    \<lparr>pt_prefix = ''or-tmp-clear'', pt_topic = ''other_recv'', pt_diff = 2, pt_n = 3,
      pt_expl = cat [jp [0x4EEE, 0x53D7, 0x91D1, 0x306E, 0x5185, 0x5BB9, 0x304C, 0x5224, 0x660E, 0x3057, 0x305F,
        0x3089, 0x3001, 0x672C, 0x6765, 0x306E, 0x52D8, 0x5B9A], '' ('', jp [0x58F2, 0x639B, 0x91D1,
        0x306E, 0x56DE, 0x53CE], '') '', jp [0x3078, 0x632F, 0x308A, 0x66FF, 0x3048, 0x308B, 0x3002]],
      pt_build = (\<lambda>i. do {
        b \<leftarrow> pick i [60000, 100000, 80000];
        Some (sprintf (cat [jp [0x304B, 0x306D, 0x3066, 0x4EEE, 0x53D7, 0x91D1, 0x3068, 0x3057, 0x3066, 0x51E6,
          0x7406, 0x3057, 0x3066, 0x3044, 0x305F], '' %s '', jp [0x306F, 0x3001, 0x5F97, 0x610F,
          0x5148, 0x304B, 0x3089, 0x306E, 0x58F2, 0x639B, 0x91D1, 0x306E, 0x56DE, 0x53CE, 0x3067,
          0x3042, 0x308B, 0x3053, 0x3068, 0x304C, 0x5224, 0x660E, 0x3057, 0x305F, 0x3002]])
          [Str (format_yen b)],
          [je (jp [0x4EEE, 0x53D7, 0x91D1]) b],
          [je (jp [0x58F2, 0x639B, 0x91D1]) b])
      })\<rparr>]"

definition or_patterns_2 :: "bank_pattern list" where
  "or_patterns_2 =
   [\<lparr>pt_prefix = ''or-supplies-unpaid'', pt_topic = ''other_recv'', pt_diff = 1, pt_n = 3,
      pt_expl = cat [jp [0x4E8B, 0x52D9, 0x7528, 0x6D88, 0x8017, 0x54C1, 0x306F, 0x8CBB, 0x7528], '' ('', jp
        [0x6D88, 0x8017, 0x54C1, 0x8CBB], '')'', jp [0x3002, 0x5546, 0x54C1, 0x4EE5, 0x5916, 0x306E,
        0x5F8C, 0x6255, 0x3044, 0x50B5, 0x52D9, 0x306F, 0x672A, 0x6255, 0x91D1, 0x3092, 0x7528,
        0x3044, 0x308B, 0x3002]],
      pt_build = (\<lambda>i. do {
        b \<leftarrow> pick i [8000, 15000, 11000];
        Some (sprintf (cat [jp [0x4E8B, 0x52D9, 0x7528, 0x306E, 0x6587, 0x623F, 0x5177], '' %s '', jp [0x3092, 0x8CFC,
          0x5165, 0x3057, 0x3001, 0x4EE3, 0x91D1, 0x306F, 0x6708, 0x672B, 0x306B, 0x652F, 0x6255,
          0x3046, 0x3053, 0x3068, 0x3068, 0x3057, 0x305F, 0x3002]])
          [Str (format_yen b)],
          [je (jp [0x6D88, 0x8017, 0x54C1, 0x8CBB]) b],
          [je (jp [0x672A, 0x6255, 0x91D1]) b])
      })\<rparr>,
    \<lparr>pt_prefix = ''or-deposit-rent'', pt_topic = ''other_recv'', pt_diff = 2, pt_n = 2,
      pt_expl = cat [jp [0x6577, 0x91D1, 0x306F, 0x8FD4, 0x9084, 0x8ACB, 0x6C42, 0x6A29, 0x3068, 0x3057, 0x3066,
        0x5DEE, 0x5165, 0x4FDD, 0x8A3C, 0x91D1], '' ('', jp [0x8CC7, 0x7523], '')'', jp [0x3001,
        0x4EF2, 0x4ECB, 0x624B, 0x6570, 0x6599, 0x306F, 0x652F, 0x6255, 0x624B, 0x6570, 0x6599,
        0x3001, 0x5BB6, 0x8CC3, 0x306F, 0x652F, 0x6255, 0x5BB6, 0x8CC3, 0x3067, 0x51E6, 0x7406,
        0x3059, 0x308B, 0x3002]],
      pt_build = (\<lambda>i. do {
        d \<leftarrow> pick i [200000, 300000];
        f \<leftarrow> pick i [100000, 150000];
        r \<leftarrow> pick i [100000, 150000];
        Some (sprintf (cat [jp [0x5E97, 0x8217, 0x306E, 0x8CC3, 0x501F, 0x5951, 0x7D04, 0x3092, 0x7D50, 0x3073,
          0x3001, 0x6577, 0x91D1], '' %s'', jp [0x3001, 0x4E0D, 0x52D5, 0x7523, 0x4F1A, 0x793E,
          0x3078, 0x306E, 0x4EF2, 0x4ECB, 0x624B, 0x6570, 0x6599], '' %s'', jp [0x3001], ''1 '', jp
          [0x304B, 0x6708, 0x5206, 0x306E, 0x5BB6, 0x8CC3], '' %s '', jp [0x3092, 0x73FE, 0x91D1,
          0x3067, 0x652F, 0x6255, 0x3063, 0x305F, 0x3002]])
          [Str (format_yen d), Str (format_yen f), Str (format_yen r)],
          [je (jp [0x5DEE, 0x5165, 0x4FDD, 0x8A3C, 0x91D1]) d,
           je (jp [0x652F, 0x6255, 0x624B, 0x6570, 0x6599]) f,
           je (jp [0x652F, 0x6255, 0x5BB6, 0x8CC3]) r],
          [je (jp [0x73FE, 0x91D1]) (d + f + r)])
      })\<rparr>]"

definition fixed_other_patterns :: "bank_pattern list" where
  "fixed_other_patterns = fa_patterns_1 @ fa_patterns_2 @ or_patterns_1 @ or_patterns_2"

lemma fixed_other_pattern_keys [bank_keys]:
  "map pattern_key fixed_other_patterns = [(''fa-equip-incid'', ''fixed_asset'', 3), (''fa-land-incid'', ''fixed_asset'', 2),
     (''fa-building-unpaid'', ''fixed_asset'', 3), (''fa-sell-gain'', ''fixed_asset'', 3),
     (''fa-sell-loss'', ''fixed_asset'', 2), (''fa-sell-unpaid'', ''fixed_asset'', 2),
     (''fa-capex'', ''fixed_asset'', 2), (''fa-repair'', ''fixed_asset'', 3), (''or-advance-emp'',
     ''other_recv'', 3), (''or-advance-back'', ''other_recv'', 3), (''or-tmp-pay'', ''other_recv'',
     3), (''or-tmp-settle'', ''other_recv'', 3), (''or-tmp-recv'', ''other_recv'', 3),
     (''or-tmp-clear'', ''other_recv'', 3), (''or-supplies-unpaid'', ''other_recv'', 3),
     (''or-deposit-rent'', ''other_recv'', 2)]"
  by (simp add: fixed_other_patterns_def fa_patterns_1_def fa_patterns_2_def or_patterns_1_def or_patterns_2_def pattern_key_def)

lemma fixed_other_pattern_sound [bank_sound]:
  "list_all pattern_sound fixed_other_patterns"
  by (simp add: fixed_other_patterns_def fa_patterns_1_def fa_patterns_2_def or_patterns_1_def or_patterns_2_def pattern_sound_simps)

end
