(* ===== verification/BankTaxWageCapital.thy ===== *)
theory BankTaxWageCapital
  imports Generator
begin

text \<open>
  \<^verbatim>\<open>seed/bank_tax_wage_capital.go\<close>: the patterns of taxes, wages and capital.
\<close>

definition tx_patterns_1 :: "bank_pattern list" where
  "tx_patterns_1 =
   [\<lparr>pt_prefix = ''tx-cons-purch'', pt_topic = ''tax'', pt_diff = 2, pt_n = 2,
      pt_expl = cat [jp [0x7A0E, 0x629C, 0x65B9, 0x5F0F, 0x306E, 0x4ED5, 0x5165, 0x3067, 0x306F, 0x3001, 0x672C,
        0x4F53, 0x4FA1, 0x683C, 0x3092, 0x4ED5, 0x5165, 0x3001, 0x6D88, 0x8CBB, 0x7A0E, 0x984D,
        0x3092, 0x4EEE, 0x6255, 0x6D88, 0x8CBB, 0x7A0E], '' ('', jp [0x8CC7, 0x7523], '') '', jp
        [0x3068, 0x3057, 0x3066, 0x533A, 0x5206, 0x3059, 0x308B, 0x3002]],
      pt_build = (\<lambda>i. do {
        b \<leftarrow> pick i [40000, 90000];
        let tax = b div 10;
        Some (sprintf (cat [jp [0x5546, 0x54C1], '' %s ('', jp [0x7A0E, 0x629C], '') '', jp [0x3092, 0x4ED5, 0x5165,
          0x308C, 0x3001, 0x6D88, 0x8CBB, 0x7A0E], '' 10%% '', jp [0x3092, 0x542B, 0x3081, 0x305F,
          0x4EE3, 0x91D1, 0x3092, 0x73FE, 0x91D1, 0x3067, 0x652F, 0x6255, 0x3063, 0x305F], '' ('',
          jp [0x7A0E, 0x629C, 0x65B9, 0x5F0F], '')'', jp [0x3002]])
          [Str (format_yen b)],
          [je (jp [0x4ED5, 0x5165]) b, je (jp [0x4EEE, 0x6255, 0x6D88, 0x8CBB, 0x7A0E]) tax],
          [je (jp [0x73FE, 0x91D1]) (b + tax)])
      })\<rparr>,
    \<lparr>pt_prefix = ''tx-cons-sale'', pt_topic = ''tax'', pt_diff = 2, pt_n = 2,
      pt_expl = cat [jp [0x7A0E, 0x629C, 0x65B9, 0x5F0F, 0x306E, 0x58F2, 0x4E0A, 0x3067, 0x306F, 0x3001, 0x672C,
        0x4F53, 0x4FA1, 0x683C, 0x3092, 0x58F2, 0x4E0A, 0x3001, 0x9810, 0x304B, 0x3063, 0x305F,
        0x6D88, 0x8CBB, 0x7A0E, 0x984D, 0x3092, 0x4EEE, 0x53D7, 0x6D88, 0x8CBB, 0x7A0E], '' ('', jp
        [0x8CA0, 0x50B5], '') '', jp [0x3068, 0x3057, 0x3066, 0x533A, 0x5206, 0x3059, 0x308B,
        0x3002]],
      pt_build = (\<lambda>i. do {
        b \<leftarrow> pick i [60000, 120000];
        let tax = b div 10;
        Some (sprintf (cat [jp [0x5546, 0x54C1], '' %s ('', jp [0x7A0E, 0x629C], '') '', jp [0x3092, 0x58F2, 0x308A,
          0x4E0A, 0x3052, 0x3001, 0x6D88, 0x8CBB, 0x7A0E], '' 10%% '', jp [0x3092, 0x542B, 0x3081,
          0x305F, 0x4EE3, 0x91D1, 0x3092, 0x73FE, 0x91D1, 0x3067, 0x53D7, 0x3051, 0x53D6, 0x3063,
          0x305F], '' ('', jp [0x7A0E, 0x629C, 0x65B9, 0x5F0F], '')'', jp [0x3002]])
          [Str (format_yen b)],
          [je (jp [0x73FE, 0x91D1]) (b + tax)],
          [je (jp [0x58F2, 0x4E0A]) b, je (jp [0x4EEE, 0x53D7, 0x6D88, 0x8CBB, 0x7A0E]) tax])
      })\<rparr>,
    \<lparr>pt_prefix = ''tx-cons-close'', pt_topic = ''tax'', pt_diff = 2, pt_n = 2,
      pt_expl = cat [jp [0x6C7A, 0x7B97, 0x3067, 0x4EEE, 0x53D7, 0x6D88, 0x8CBB, 0x7A0E, 0x3068, 0x4EEE, 0x6255,
        0x6D88, 0x8CBB, 0x7A0E, 0x3092, 0x76F8, 0x6BBA, 0x3057, 0x3001, 0x5DEE, 0x984D, 0x3092,
        0x672A, 0x6255, 0x6D88, 0x8CBB, 0x7A0E], '' ('', jp [0x7D0D, 0x4ED8, 0x7FA9, 0x52D9],
        '') '', jp [0x3068, 0x3059, 0x308B, 0x3002]],
      pt_build = (\<lambda>i. do {
        x \<leftarrow> pick i [50000, 80000];
        y \<leftarrow> pick i [30000, 52000];
        Some (sprintf (cat [jp [0x6C7A, 0x7B97, 0x6574, 0x7406], '': '', jp [0x4EEE, 0x53D7, 0x6D88, 0x8CBB, 0x7A0E,
          0x306E, 0x6B8B, 0x9AD8, 0x306F], '' %s'', jp [0x3001, 0x4EEE, 0x6255, 0x6D88, 0x8CBB,
          0x7A0E, 0x306E, 0x6B8B, 0x9AD8, 0x306F], '' %s '', jp [0x3067, 0x3042, 0x308B, 0x3002,
          0x4E21, 0x8005, 0x3092, 0x76F8, 0x6BBA, 0x3057, 0x3001, 0x7D0D, 0x4ED8, 0x984D, 0x3092,
          0x672A, 0x6255, 0x6D88, 0x8CBB, 0x7A0E, 0x306B, 0x8A08, 0x4E0A, 0x3059, 0x308B], '' ('',
          jp [0x7A0E, 0x629C, 0x65B9, 0x5F0F], '')'', jp [0x3002]])
          [Str (format_yen x), Str (format_yen y)],
          [je (jp [0x4EEE, 0x53D7, 0x6D88, 0x8CBB, 0x7A0E]) x],
          [je (jp [0x4EEE, 0x6255, 0x6D88, 0x8CBB, 0x7A0E]) y,
           je (jp [0x672A, 0x6255, 0x6D88, 0x8CBB, 0x7A0E]) (x - y)])
      })\<rparr>,
    \<lparr>pt_prefix = ''tx-cons-pay'', pt_topic = ''tax'', pt_diff = 1, pt_n = 2,
      pt_expl = cat [jp [0x78BA, 0x5B9A, 0x7533, 0x544A, 0x306B, 0x3088, 0x308A, 0x672A, 0x6255, 0x6D88, 0x8CBB,
        0x7A0E, 0x3092, 0x7D0D, 0x4ED8, 0x3057, 0x305F, 0x3068, 0x304D, 0x306F, 0x3001, 0x8CA0,
        0x50B5, 0x306E, 0x6E1B, 0x5C11, 0x3068, 0x3057, 0x3066, 0x51E6, 0x7406, 0x3059, 0x308B,
        0x3002]],
      pt_build = (\<lambda>i. do {
        b \<leftarrow> pick i [20000, 28000];
        Some (sprintf (cat [jp [0x78BA, 0x5B9A, 0x7533, 0x544A, 0x3092, 0x884C, 0x3044, 0x3001, 0x672A, 0x6255,
          0x6D88, 0x8CBB, 0x7A0E], '' %s '', jp [0x3092, 0x73FE, 0x91D1, 0x3067, 0x7D0D, 0x4ED8,
          0x3057, 0x305F, 0x3002]])
          [Str (format_yen b)],
          [je (jp [0x672A, 0x6255, 0x6D88, 0x8CBB, 0x7A0E]) b],
          [je (jp [0x73FE, 0x91D1]) b])
      })\<rparr>,
    \<lparr>pt_prefix = ''tx-corp-interim'', pt_topic = ''tax'', pt_diff = 2, pt_n = 2,
      pt_expl = cat [jp [0x6CD5, 0x4EBA, 0x7A0E, 0x7B49, 0x306E, 0x4E2D, 0x9593, 0x7D0D, 0x4ED8, 0x984D, 0x306F,
        0x3001, 0x78BA, 0x5B9A, 0x984D, 0x304C, 0x6C7A, 0x307E, 0x308B, 0x307E, 0x3067, 0x4EEE,
        0x6255, 0x6CD5, 0x4EBA, 0x7A0E, 0x7B49], '' ('', jp [0x8CC7, 0x7523], '') '', jp [0x3068,
        0x3057, 0x3066, 0x51E6, 0x7406, 0x3059, 0x308B, 0x3002]],
      pt_build = (\<lambda>i. do {
        b \<leftarrow> pick i [150000, 240000];
        Some (sprintf (cat [jp [0x6CD5, 0x4EBA, 0x7A0E, 0x7B49, 0x306E, 0x4E2D, 0x9593, 0x7533, 0x544A, 0x3092,
          0x884C, 0x3044, 0x3001], ''%s '', jp [0x3092, 0x5F53, 0x5EA7, 0x9810, 0x91D1, 0x53E3,
          0x5EA7, 0x304B, 0x3089, 0x7D0D, 0x4ED8, 0x3057, 0x305F, 0x3002]])
          [Str (format_yen b)],
          [je (jp [0x4EEE, 0x6255, 0x6CD5, 0x4EBA, 0x7A0E, 0x7B49]) b],
          [je (jp [0x5F53, 0x5EA7, 0x9810, 0x91D1]) b])
      })\<rparr>,
    \<lparr>pt_prefix = ''tx-corp-close'', pt_topic = ''tax'', pt_diff = 2, pt_n = 2,
      pt_expl = cat [jp [0x6C7A, 0x7B97, 0x3067, 0x78BA, 0x5B9A, 0x3057, 0x305F, 0x6CD5, 0x4EBA, 0x7A0E, 0x7B49,
        0x304B, 0x3089, 0x4E2D, 0x9593, 0x7D0D, 0x4ED8, 0x984D], '' ('', jp [0x4EEE, 0x6255, 0x6CD5,
        0x4EBA, 0x7A0E, 0x7B49], '') '', jp [0x3092, 0x5DEE, 0x3057, 0x5F15, 0x304D, 0x3001, 0x6B8B,
        0x984D, 0x3092, 0x672A, 0x6255, 0x6CD5, 0x4EBA, 0x7A0E, 0x7B49, 0x3068, 0x3059, 0x308B,
        0x3002]],
      pt_build = (\<lambda>i. do {
        t \<leftarrow> pick i [400000, 600000];
        interim \<leftarrow> pick i [150000, 240000];
        Some (sprintf (cat [jp [0x6C7A, 0x7B97, 0x306B, 0x3088, 0x308A, 0x5F53, 0x671F, 0x306E, 0x6CD5, 0x4EBA,
          0x7A0E, 0x7B49, 0x304C], '' %s '', jp [0x3068, 0x78BA, 0x5B9A, 0x3057, 0x305F, 0x3002,
          0x4E2D, 0x9593, 0x7D0D, 0x4ED8, 0x984D], '' %s '', jp [0x3092, 0x63A7, 0x9664, 0x3057,
          0x305F, 0x6B8B, 0x984D, 0x3092, 0x672A, 0x6255, 0x6CD5, 0x4EBA, 0x7A0E, 0x7B49, 0x306B,
          0x8A08, 0x4E0A, 0x3059, 0x308B], '' ('', jp [0x6CD5, 0x4EBA, 0x7A0E, 0x7B49, 0x52D8,
          0x5B9A, 0x3092, 0x7528, 0x3044, 0x308B, 0x3053, 0x3068], '')'', jp [0x3002]])
          [Str (format_yen t), Str (format_yen interim)],
          [je (jp [0x6CD5, 0x4EBA, 0x7A0E, 0x7B49]) t],
          [je (jp [0x4EEE, 0x6255, 0x6CD5, 0x4EBA, 0x7A0E, 0x7B49]) interim,
           je (jp [0x672A, 0x6255, 0x6CD5, 0x4EBA, 0x7A0E, 0x7B49]) (t - interim)])
      })\<rparr>]"

definition tx_patterns_2 :: "bank_pattern list" where
  "tx_patterns_2 =
   [\<lparr>pt_prefix = ''tx-corp-pay'', pt_topic = ''tax'', pt_diff = 1, pt_n = 2,
      pt_expl = cat [jp [0x78BA, 0x5B9A, 0x7533, 0x544A, 0x306B, 0x3088, 0x308A, 0x672A, 0x6255, 0x6CD5, 0x4EBA,
        0x7A0E, 0x7B49, 0x3092, 0x7D0D, 0x4ED8, 0x3057, 0x305F, 0x3068, 0x304D, 0x306F, 0x3001,
        0x8CA0, 0x50B5, 0x306E, 0x6E1B, 0x5C11, 0x3068, 0x3057, 0x3066, 0x51E6, 0x7406, 0x3059,
        0x308B, 0x3002]],
      pt_build = (\<lambda>i. do {
        b \<leftarrow> pick i [250000, 360000];
        Some (sprintf (cat [jp [0x78BA, 0x5B9A, 0x7533, 0x544A, 0x3092, 0x884C, 0x3044, 0x3001, 0x672A, 0x6255,
          0x6CD5, 0x4EBA, 0x7A0E, 0x7B49], '' %s '', jp [0x3092, 0x666E, 0x901A, 0x9810, 0x91D1,
          0x53E3, 0x5EA7, 0x304B, 0x3089, 0x7D0D, 0x4ED8, 0x3057, 0x305F, 0x3002]])
          [Str (format_yen b)],
          [je (jp [0x672A, 0x6255, 0x6CD5, 0x4EBA, 0x7A0E, 0x7B49]) b],
          [je (jp [0x666E, 0x901A, 0x9810, 0x91D1]) b])
      })\<rparr>,
    \<lparr>pt_prefix = ''tx-property'', pt_topic = ''tax'', pt_diff = 1, pt_n = 2,
      pt_expl = cat [jp [0x56FA, 0x5B9A, 0x8CC7, 0x7523, 0x7A0E, 0x306F, 0x8CBB, 0x7528, 0x3068, 0x3057, 0x3066,
        0x306E, 0x7A0E, 0x91D1, 0x3067, 0x3042, 0x308A, 0x3001, 0x79DF, 0x7A0E, 0x516C, 0x8AB2,
        0x3067, 0x51E6, 0x7406, 0x3059, 0x308B, 0x3002]],
      pt_build = (\<lambda>i. do {
        b \<leftarrow> pick i [45000, 60000];
        Some (sprintf (cat [jp [0x56FA, 0x5B9A, 0x8CC7, 0x7523, 0x7A0E, 0x306E, 0x7D0D, 0x7A0E, 0x901A, 0x77E5,
          0x66F8, 0x3092, 0x53D7, 0x3051, 0x53D6, 0x308A, 0x3001], ''%s '', jp [0x3092, 0x73FE,
          0x91D1, 0x3067, 0x7D0D, 0x4ED8, 0x3057, 0x305F, 0x3002]])
          [Str (format_yen b)],
          [je (jp [0x79DF, 0x7A0E, 0x516C, 0x8AB2]) b],
          [je (jp [0x73FE, 0x91D1]) b])
      })\<rparr>,
    \<lparr>pt_prefix = ''tx-stamp'', pt_topic = ''tax'', pt_diff = 1, pt_n = 2,
      pt_expl = cat [jp [0x53CE, 0x5165, 0x5370, 0x7D19, 0x306E, 0x8CFC, 0x5165, 0x984D, 0x306F, 0x79DF, 0x7A0E,
        0x516C, 0x8AB2], '' ('', jp [0x8CBB, 0x7528], '') '', jp [0x3067, 0x51E6, 0x7406, 0x3059,
        0x308B], '' ('', jp [0x672A, 0x4F7F, 0x7528, 0x5206, 0x306F, 0x6C7A, 0x7B97, 0x3067, 0x8CAF,
        0x8535, 0x54C1, 0x3078, 0x632F, 0x66FF], '')'', jp [0x3002]],
      pt_build = (\<lambda>i. do {
        b \<leftarrow> pick i [4000, 10000];
        Some (sprintf (cat [jp [0x53CE, 0x5165, 0x5370, 0x7D19], '' %s '', jp [0x3092, 0x73FE, 0x91D1, 0x3067, 0x8CFC,
          0x5165, 0x3057, 0x3001, 0x76F4, 0x3061, 0x306B, 0x4F7F, 0x7528, 0x3057, 0x305F, 0x3002]])
          [Str (format_yen b)],
          [je (jp [0x79DF, 0x7A0E, 0x516C, 0x8AB2]) b],
          [je (jp [0x73FE, 0x91D1]) b])
      })\<rparr>]"

definition wg_patterns_1 :: "bank_pattern list" where
  "wg_patterns_1 =
   [\<lparr>pt_prefix = ''wg-pay'', pt_topic = ''wages'', pt_diff = 2, pt_n = 2,
      pt_expl = cat [jp [0x7D66, 0x6599, 0x7DCF, 0x984D, 0x3092, 0x8CBB, 0x7528, 0x8A08, 0x4E0A, 0x3057, 0x3001,
        0x6E90, 0x6CC9, 0x5FB4, 0x53CE, 0x3057, 0x305F, 0x6240, 0x5F97, 0x7A0E, 0x306F, 0x6240,
        0x5F97, 0x7A0E, 0x9810, 0x308A, 0x91D1], '' ('', jp [0x8CA0, 0x50B5], '')'', jp [0x3001,
        0x5DEE, 0x5F15, 0x6B8B, 0x984D, 0x3092, 0x5F93, 0x696D, 0x54E1, 0x3078, 0x652F, 0x6255,
        0x3046, 0x3002]],
      pt_build = (\<lambda>i. do {
        g \<leftarrow> pick i [300000, 450000];
        s \<leftarrow> pick i [15000, 24000];
        Some (sprintf (cat [jp [0x7D66, 0x6599], '' %s '', jp [0x306E, 0x652F, 0x6255, 0x3044, 0x306B, 0x3042, 0x305F,
          0x308A, 0x3001, 0x6240, 0x5F97, 0x7A0E, 0x306E, 0x6E90, 0x6CC9, 0x5FB4, 0x53CE, 0x984D],
          '' %s '', jp [0x3092, 0x5DEE, 0x3057, 0x5F15, 0x3044, 0x305F, 0x6B8B, 0x984D, 0x3092,
          0x666E, 0x901A, 0x9810, 0x91D1, 0x53E3, 0x5EA7, 0x304B, 0x3089, 0x632F, 0x308A, 0x8FBC,
          0x3093, 0x3060], '' ('', jp [0x6240, 0x5F97, 0x7A0E, 0x9810, 0x308A, 0x91D1, 0x52D8,
          0x5B9A, 0x3092, 0x7528, 0x3044, 0x308B, 0x3053, 0x3068], '')'', jp [0x3002]])
          [Str (format_yen g), Str (format_yen s)],
          [je (jp [0x7D66, 0x6599]) g],
          [je (jp [0x6240, 0x5F97, 0x7A0E, 0x9810, 0x308A, 0x91D1]) s,
           je (jp [0x666E, 0x901A, 0x9810, 0x91D1]) (g - s)])
      })\<rparr>,
    \<lparr>pt_prefix = ''wg-pay-social'', pt_topic = ''wages'', pt_diff = 2, pt_n = 2,
      pt_expl = cat [jp [0x6240, 0x5F97, 0x7A0E, 0x3068, 0x793E, 0x4F1A, 0x4FDD, 0x967A, 0x6599, 0x306E, 0x5F93,
        0x696D, 0x54E1, 0x8CA0, 0x62C5, 0x5206, 0x3092, 0x305D, 0x308C, 0x305E, 0x308C, 0x9810,
        0x308A, 0x91D1, 0x3068, 0x3057, 0x3066, 0x533A, 0x5206, 0x3057, 0x3001, 0x5DEE, 0x5F15,
        0x6B8B, 0x984D, 0x3092, 0x73FE, 0x91D1, 0x3067, 0x652F, 0x6255, 0x3046, 0x3002]],
      pt_build = (\<lambda>i. do {
        g \<leftarrow> pick i [300000, 500000];
        s \<leftarrow> pick i [12000, 25000];
        h \<leftarrow> pick i [30000, 50000];
        Some (sprintf (cat [jp [0x7D66, 0x6599], '' %s '', jp [0x306E, 0x652F, 0x6255, 0x3044, 0x306B, 0x3042, 0x305F,
          0x308A, 0x3001, 0x6240, 0x5F97, 0x7A0E, 0x306E, 0x6E90, 0x6CC9, 0x5FB4, 0x53CE, 0x984D],
          '' %s '', jp [0x3068, 0x793E, 0x4F1A, 0x4FDD, 0x967A, 0x6599, 0x306E, 0x5F93, 0x696D,
          0x54E1, 0x8CA0, 0x62C5, 0x5206], '' %s '', jp [0x3092, 0x5DEE, 0x3057, 0x5F15, 0x3044,
          0x305F, 0x6B8B, 0x984D, 0x3092, 0x73FE, 0x91D1, 0x3067, 0x652F, 0x6255, 0x3063, 0x305F],
          '' ('', jp [0x6240, 0x5F97, 0x7A0E, 0x9810, 0x308A, 0x91D1, 0x52D8, 0x5B9A, 0x30FB,
          0x793E, 0x4F1A, 0x4FDD, 0x967A, 0x6599, 0x9810, 0x308A, 0x91D1, 0x52D8, 0x5B9A, 0x3092,
          0x7528, 0x3044, 0x308B, 0x3053, 0x3068], '')'', jp [0x3002]])
          [Str (format_yen g), Str (format_yen s), Str (format_yen h)],
          [je (jp [0x7D66, 0x6599]) g],
          [je (jp [0x6240, 0x5F97, 0x7A0E, 0x9810, 0x308A, 0x91D1]) s,
           je (jp [0x793E, 0x4F1A, 0x4FDD, 0x967A, 0x6599, 0x9810, 0x308A, 0x91D1]) h,
           je (jp [0x73FE, 0x91D1]) (g - s - h)])
      })\<rparr>,
    \<lparr>pt_prefix = ''wg-remit-tax'', pt_topic = ''wages'', pt_diff = 1, pt_n = 2,
      pt_expl = cat [jp [0x6E90, 0x6CC9, 0x5FB4, 0x53CE, 0x3057, 0x305F, 0x6240, 0x5F97, 0x7A0E, 0x306E, 0x7D0D,
        0x4ED8, 0x306F, 0x3001, 0x9810, 0x308A, 0x91D1], '' ('', jp [0x8CA0, 0x50B5], '') '', jp
        [0x306E, 0x6E1B, 0x5C11, 0x3068, 0x3057, 0x3066, 0x51E6, 0x7406, 0x3059, 0x308B, 0x3002]],
      pt_build = (\<lambda>i. do {
        b \<leftarrow> pick i [15000, 24000];
        Some (sprintf (cat [jp [0x5F93, 0x696D, 0x54E1, 0x306E, 0x7D66, 0x6599, 0x304B, 0x3089, 0x6E90, 0x6CC9,
          0x5FB4, 0x53CE, 0x3057, 0x3066, 0x3044, 0x305F, 0x6240, 0x5F97, 0x7A0E], '' %s '', jp
          [0x3092, 0x7A0E, 0x52D9, 0x7F72, 0x306B, 0x73FE, 0x91D1, 0x3067, 0x7D0D, 0x4ED8, 0x3057,
          0x305F], '' ('', jp [0x6240, 0x5F97, 0x7A0E, 0x9810, 0x308A, 0x91D1, 0x52D8, 0x5B9A,
          0x3092, 0x7528, 0x3044, 0x308B, 0x3053, 0x3068], '')'', jp [0x3002]])
          [Str (format_yen b)],
          [je (jp [0x6240, 0x5F97, 0x7A0E, 0x9810, 0x308A, 0x91D1]) b],
          [je (jp [0x73FE, 0x91D1]) b])
      })\<rparr>,
    \<lparr>pt_prefix = ''wg-social-pay'', pt_topic = ''wages'', pt_diff = 2, pt_n = 2,
      pt_expl = cat [jp [0x793E, 0x4F1A, 0x4FDD, 0x967A, 0x6599, 0x306E, 0x7D0D, 0x4ED8, 0x3067, 0x306F, 0x3001,
        0x5F93, 0x696D, 0x54E1, 0x8CA0, 0x62C5, 0x5206, 0x306F, 0x793E, 0x4F1A, 0x4FDD, 0x967A,
        0x6599, 0x9810, 0x308A, 0x91D1, 0x306E, 0x6E1B, 0x5C11, 0x3001, 0x4F1A, 0x793E, 0x8CA0,
        0x62C5, 0x5206, 0x306F, 0x6CD5, 0x5B9A, 0x798F, 0x5229, 0x8CBB], '' ('', jp [0x8CBB,
        0x7528], '') '', jp [0x3068, 0x3059, 0x308B, 0x3002]],
      pt_build = (\<lambda>i. do {
        h \<leftarrow> pick i [30000, 50000];
        Some (sprintf (cat [jp [0x793E, 0x4F1A, 0x4FDD, 0x967A, 0x6599], '' %s ('', jp [0x5F93, 0x696D, 0x54E1,
          0x8CA0, 0x62C5, 0x5206], '' %s'', jp [0x3001, 0x4F1A, 0x793E, 0x8CA0, 0x62C5, 0x5206],
          '' %s) '', jp [0x3092, 0x666E, 0x901A, 0x9810, 0x91D1, 0x53E3, 0x5EA7, 0x304B, 0x3089,
          0x7D0D, 0x4ED8, 0x3057, 0x305F, 0x3002]])
          [Str (format_yen (2 * h)), Str (format_yen h), Str (format_yen h)],
          [je (jp [0x793E, 0x4F1A, 0x4FDD, 0x967A, 0x6599, 0x9810, 0x308A, 0x91D1]) h,
           je (jp [0x6CD5, 0x5B9A, 0x798F, 0x5229, 0x8CBB]) h],
          [je (jp [0x666E, 0x901A, 0x9810, 0x91D1]) (2 * h)])
      })\<rparr>,
    \<lparr>pt_prefix = ''wg-offset-advance'', pt_topic = ''wages'', pt_diff = 2, pt_n = 2,
      pt_expl = cat [jp [0x5F93, 0x696D, 0x54E1, 0x3078, 0x306E, 0x7ACB, 0x66FF, 0x91D1, 0x306F, 0x7D66, 0x6599,
        0x652F, 0x6255, 0x6642, 0x306B, 0x5DEE, 0x3057, 0x5F15, 0x3044, 0x3066, 0x56DE, 0x53CE,
        0x3059, 0x308B, 0x3002, 0x501F, 0x65B9, 0x306F, 0x7D66, 0x6599], '' ('', jp [0x7DCF,
        0x984D], '')'', jp [0x3002]],
      pt_build = (\<lambda>i. do {
        g \<leftarrow> pick i [280000, 350000];
        a \<leftarrow> pick i [20000, 30000];
        Some (sprintf (cat [jp [0x7D66, 0x6599], '' %s '', jp [0x306E, 0x652F, 0x6255, 0x3044, 0x306B, 0x3042, 0x305F,
          0x308A, 0x3001, 0x304B, 0x306D, 0x3066, 0x7ACB, 0x66FF, 0x6255, 0x3044, 0x3057, 0x3066,
          0x3044, 0x305F], '' %s '', jp [0x3092, 0x5DEE, 0x3057, 0x5F15, 0x304D, 0x3001, 0x6B8B,
          0x984D, 0x3092, 0x73FE, 0x91D1, 0x3067, 0x652F, 0x6255, 0x3063, 0x305F, 0x3002]])
          [Str (format_yen g), Str (format_yen a)],
          [je (jp [0x7D66, 0x6599]) g],
          [je (jp [0x7ACB, 0x66FF, 0x91D1]) a, je (jp [0x73FE, 0x91D1]) (g - a)])
      })\<rparr>]"

definition cp_patterns_1 :: "bank_pattern list" where
  "cp_patterns_1 =
   [\<lparr>pt_prefix = ''cp-founding'', pt_topic = ''capital'', pt_diff = 2, pt_n = 2,
      pt_expl = cat [jp [0x682A, 0x5F0F, 0x4F1A, 0x793E, 0x306E, 0x8A2D, 0x7ACB, 0x6642, 0x306F, 0x3001, 0x6255,
        0x8FBC, 0x91D1, 0x984D, 0x306E, 0x5168, 0x984D, 0x3092, 0x8CC7, 0x672C, 0x91D1, 0x3068,
        0x3059, 0x308B, 0x306E, 0x304C, 0x539F, 0x5247, 0x3067, 0x3042, 0x308B, 0x3002]],
      pt_build = (\<lambda>i. do {
        shares \<leftarrow> pick i [100, 200];
        price \<leftarrow> pick i [50000, 30000];
        let total = shares * price;
        Some (sprintf (cat [jp [0x4F1A, 0x793E, 0x306E, 0x8A2D, 0x7ACB, 0x306B, 0x3042, 0x305F, 0x308A, 0x682A,
          0x5F0F], '' %d '', jp [0x682A, 0x3092], '' 1 '', jp [0x682A], '' %s '', jp [0x3067,
          0x767A, 0x884C, 0x3057, 0x3001, 0x6255, 0x8FBC, 0x91D1, 0x306E, 0x5168, 0x984D, 0x304C,
          0x5F53, 0x5EA7, 0x9810, 0x91D1, 0x53E3, 0x5EA7, 0x306B, 0x5165, 0x91D1, 0x3055, 0x308C,
          0x305F, 0x3002, 0x6255, 0x8FBC, 0x91D1, 0x984D, 0x306E, 0x5168, 0x984D, 0x3092, 0x8CC7,
          0x672C, 0x91D1, 0x3068, 0x3059, 0x308B, 0x3002]])
          [Num shares, Str (format_yen price)],
          [je (jp [0x5F53, 0x5EA7, 0x9810, 0x91D1]) total],
          [je (jp [0x8CC7, 0x672C, 0x91D1]) total])
      })\<rparr>,
    \<lparr>pt_prefix = ''cp-increase'', pt_topic = ''capital'', pt_diff = 2, pt_n = 2,
      pt_expl = cat [jp [0x5897, 0x8CC7, 0x306B, 0x3088, 0x308B, 0x6255, 0x8FBC, 0x91D1, 0x3082, 0x3001, 0x539F,
        0x5247, 0x3068, 0x3057, 0x3066, 0x5168, 0x984D, 0x3092, 0x8CC7, 0x672C, 0x91D1, 0x306B,
        0x8A08, 0x4E0A, 0x3059, 0x308B, 0x3002]],
      pt_build = (\<lambda>i. do {
        b \<leftarrow> pick i [3000000, 4500000];
        Some (sprintf (cat [jp [0x5897, 0x8CC7, 0x306E, 0x305F, 0x3081, 0x65B0, 0x682A, 0x3092, 0x767A, 0x884C,
          0x3057, 0x3001, 0x6255, 0x8FBC, 0x91D1], '' %s '', jp [0x304C, 0x666E, 0x901A, 0x9810,
          0x91D1, 0x53E3, 0x5EA7, 0x306B, 0x5165, 0x91D1, 0x3055, 0x308C, 0x305F, 0x3002, 0x6255,
          0x8FBC, 0x91D1, 0x984D, 0x306E, 0x5168, 0x984D, 0x3092, 0x8CC7, 0x672C, 0x91D1, 0x3068,
          0x3059, 0x308B, 0x3002]])
          [Str (format_yen b)],
          [je (jp [0x666E, 0x901A, 0x9810, 0x91D1]) b],
          [je (jp [0x8CC7, 0x672C, 0x91D1]) b])
      })\<rparr>,
    \<lparr>pt_prefix = ''cp-dividend'', pt_topic = ''capital'', pt_diff = 2, pt_n = 2,
      pt_expl = cat [jp [0x5270, 0x4F59, 0x91D1, 0x306E, 0x914D, 0x5F53, 0x3092, 0x6C7A, 0x8B70, 0x3057, 0x305F,
        0x3068, 0x304D, 0x306F, 0x3001, 0x7E70, 0x8D8A, 0x5229, 0x76CA, 0x5270, 0x4F59, 0x91D1,
        0x3092, 0x6E1B, 0x3089, 0x3057, 0x3001, 0x672A, 0x6255, 0x914D, 0x5F53, 0x91D1], '' ('', jp
        [0x8CA0, 0x50B5], '') '', jp [0x3068, 0x5229, 0x76CA, 0x6E96, 0x5099, 0x91D1], '' ('', jp
        [0x914D, 0x5F53, 0x984D, 0x306E], '' 10 '', jp [0x5206, 0x306E], '' 1) '', jp [0x3092,
        0x8A08, 0x4E0A, 0x3059, 0x308B, 0x3002]],
      pt_build = (\<lambda>i. do {
        d \<leftarrow> pick i [200000, 300000];
        let reserve = d div 10;
        Some (sprintf (cat [jp [0x682A, 0x4E3B, 0x7DCF, 0x4F1A, 0x3067, 0x3001, 0x7E70, 0x8D8A, 0x5229, 0x76CA,
          0x5270, 0x4F59, 0x91D1, 0x304B, 0x3089, 0x914D, 0x5F53, 0x91D1], '' %s '', jp [0x306E,
          0x652F, 0x6255, 0x3044, 0x3068, 0x5229, 0x76CA, 0x6E96, 0x5099, 0x91D1], '' %s '', jp
          [0x306E, 0x7A4D, 0x7ACB, 0x3066, 0x3092, 0x6C7A, 0x8B70, 0x3057, 0x305F, 0x3002]])
          [Str (format_yen d), Str (format_yen reserve)],
          [je (jp [0x7E70, 0x8D8A, 0x5229, 0x76CA, 0x5270, 0x4F59, 0x91D1]) (d + reserve)],
          [je (jp [0x672A, 0x6255, 0x914D, 0x5F53, 0x91D1]) d,
           je (jp [0x5229, 0x76CA, 0x6E96, 0x5099, 0x91D1]) reserve])
      })\<rparr>,
    \<lparr>pt_prefix = ''cp-dividend-pay'', pt_topic = ''capital'', pt_diff = 1, pt_n = 2,
      pt_expl = cat [jp [0x914D, 0x5F53, 0x91D1, 0x306E, 0x652F, 0x6255, 0x3044, 0x306B, 0x3088, 0x308A, 0x672A,
        0x6255, 0x914D, 0x5F53, 0x91D1], '' ('', jp [0x8CA0, 0x50B5], '') '', jp [0x304C, 0x6E1B,
        0x5C11, 0x3059, 0x308B, 0x3002]],
      pt_build = (\<lambda>i. do {
        b \<leftarrow> pick i [200000, 300000];
        Some (sprintf (cat [jp [0x682A, 0x4E3B, 0x7DCF, 0x4F1A, 0x3067, 0x6C7A, 0x8B70, 0x3057, 0x3066, 0x3044,
          0x305F, 0x914D, 0x5F53, 0x91D1], '' %s '', jp [0x3092, 0x5F53, 0x5EA7, 0x9810, 0x91D1,
          0x53E3, 0x5EA7, 0x304B, 0x3089, 0x652F, 0x6255, 0x3063, 0x305F, 0x3002]])
          [Str (format_yen b)],
          [je (jp [0x672A, 0x6255, 0x914D, 0x5F53, 0x91D1]) b],
          [je (jp [0x5F53, 0x5EA7, 0x9810, 0x91D1]) b])
      })\<rparr>,
    \<lparr>pt_prefix = ''cp-profit-close'', pt_topic = ''capital'', pt_diff = 2, pt_n = 2,
      pt_expl = cat [jp [0x6C7A, 0x7B97, 0x632F, 0x66FF], '': '', jp [0x640D, 0x76CA, 0x52D8, 0x5B9A, 0x3067,
        0x7B97, 0x5B9A, 0x3057, 0x305F, 0x5F53, 0x671F, 0x7D14, 0x5229, 0x76CA, 0x306F, 0x3001,
        0x7E70, 0x8D8A, 0x5229, 0x76CA, 0x5270, 0x4F59, 0x91D1], '' ('', jp [0x7D14, 0x8CC7,
        0x7523], '') '', jp [0x3078, 0x632F, 0x308A, 0x66FF, 0x3048, 0x308B, 0x3002]],
      pt_build = (\<lambda>i. do {
        b \<leftarrow> pick i [350000, 800000];
        Some (sprintf (cat [jp [0x6C7A, 0x7B97, 0x306E, 0x7D50, 0x679C, 0x3001, 0x5F53, 0x671F, 0x7D14, 0x5229,
          0x76CA], '' %s '', jp [0x3092, 0x640D, 0x76CA, 0x52D8, 0x5B9A, 0x304B, 0x3089, 0x7E70,
          0x8D8A, 0x5229, 0x76CA, 0x5270, 0x4F59, 0x91D1, 0x52D8, 0x5B9A, 0x3078, 0x632F, 0x308A,
          0x66FF, 0x3048, 0x305F, 0x3002]])
          [Str (format_yen b)],
          [je (jp [0x640D, 0x76CA]) b],
          [je (jp [0x7E70, 0x8D8A, 0x5229, 0x76CA, 0x5270, 0x4F59, 0x91D1]) b])
      })\<rparr>,
    \<lparr>pt_prefix = ''cp-loss-close'', pt_topic = ''capital'', pt_diff = 2, pt_n = 2,
      pt_expl = cat [jp [0x5F53, 0x671F, 0x7D14, 0x640D, 0x5931, 0x306F, 0x7E70, 0x8D8A, 0x5229, 0x76CA, 0x5270,
        0x4F59, 0x91D1, 0x3092, 0x6E1B, 0x3089, 0x3059, 0x65B9, 0x5411, 0x3078, 0x632F, 0x308A,
        0x66FF, 0x3048, 0x308B], '' ('', jp [0x501F, 0x65B9], '': '', jp [0x7E70, 0x8D8A, 0x5229,
        0x76CA, 0x5270, 0x4F59, 0x91D1], '')'', jp [0x3002]],
      pt_build = (\<lambda>i. do {
        b \<leftarrow> pick i [120000, 250000];
        Some (sprintf (cat [jp [0x6C7A, 0x7B97, 0x306E, 0x7D50, 0x679C, 0x3001, 0x5F53, 0x671F, 0x7D14, 0x640D,
          0x5931], '' %s '', jp [0x3092, 0x640D, 0x76CA, 0x52D8, 0x5B9A, 0x304B, 0x3089, 0x7E70,
          0x8D8A, 0x5229, 0x76CA, 0x5270, 0x4F59, 0x91D1, 0x52D8, 0x5B9A, 0x3078, 0x632F, 0x308A,
          0x66FF, 0x3048, 0x305F, 0x3002]])
          [Str (format_yen b)],
          [je (jp [0x7E70, 0x8D8A, 0x5229, 0x76CA, 0x5270, 0x4F59, 0x91D1]) b],
          [je (jp [0x640D, 0x76CA]) b])
      })\<rparr>]"

definition tax_wage_capital_patterns :: "bank_pattern list" where
  "tax_wage_capital_patterns = tx_patterns_1 @ tx_patterns_2 @ wg_patterns_1 @ cp_patterns_1"

lemma tax_wage_capital_pattern_keys [bank_keys]:
  "map pattern_key tax_wage_capital_patterns = [(''tx-cons-purch'', ''tax'', 2), (''tx-cons-sale'', ''tax'', 2), (''tx-cons-close'', ''tax'',
     2), (''tx-cons-pay'', ''tax'', 2), (''tx-corp-interim'', ''tax'', 2), (''tx-corp-close'',
     ''tax'', 2), (''tx-corp-pay'', ''tax'', 2), (''tx-property'', ''tax'', 2), (''tx-stamp'',
     ''tax'', 2), (''wg-pay'', ''wages'', 2), (''wg-pay-social'', ''wages'', 2), (''wg-remit-tax'',
     ''wages'', 2), (''wg-social-pay'', ''wages'', 2), (''wg-offset-advance'', ''wages'', 2),
     (''cp-founding'', ''capital'', 2), (''cp-increase'', ''capital'', 2), (''cp-dividend'',
     ''capital'', 2), (''cp-dividend-pay'', ''capital'', 2), (''cp-profit-close'', ''capital'', 2),
     (''cp-loss-close'', ''capital'', 2)]"
  by (simp add: tax_wage_capital_patterns_def tx_patterns_1_def tx_patterns_2_def wg_patterns_1_def cp_patterns_1_def pattern_key_def)

lemma tax_wage_capital_pattern_sound [bank_sound]:
  "list_all pattern_sound tax_wage_capital_patterns"
  by (simp add: tax_wage_capital_patterns_def tx_patterns_1_def tx_patterns_2_def wg_patterns_1_def cp_patterns_1_def pattern_sound_simps)

end
