(* ===== verification/BankAdjust.thy ===== *)
theory BankAdjust
  imports Generator
begin

text \<open>
  \<^verbatim>\<open>seed/bank_adjust.go\<close>: the patterns of closing adjustments and transfers.
\<close>

definition ad_patterns_1 :: "bank_pattern list" where
  "ad_patterns_1 =
   [\<lparr>pt_prefix = ''ad-dep-annual'', pt_topic = ''adjustment'', pt_diff = 2, pt_n = 2,
      pt_expl = cat [jp [0x5B9A, 0x984D, 0x6CD5, 0x306E, 0x6E1B, 0x4FA1, 0x511F, 0x5374, 0x8CBB], '' = ('', jp
        [0x53D6, 0x5F97, 0x539F, 0x4FA1], '' '', jp [0x2212], '' '', jp [0x6B8B, 0x5B58, 0x4FA1,
        0x984D], '') / '', jp [0x8010, 0x7528, 0x5E74, 0x6570, 0x3002, 0x9593, 0x63A5, 0x6CD5,
        0x3067, 0x306F, 0x5099, 0x54C1, 0x6E1B, 0x4FA1, 0x511F, 0x5374, 0x7D2F, 0x8A08, 0x984D,
        0x3092, 0x8CB8, 0x65B9, 0x306B, 0x8A08, 0x4E0A, 0x3059, 0x308B, 0x3002]],
      pt_build = (\<lambda>i. do {
        c \<leftarrow> pick i [600000, 800000];
        years \<leftarrow> pick i [5, 8];
        let dep = c div years;
        Some (sprintf (cat [jp [0x6C7A, 0x7B97, 0x6574, 0x7406], '': '', jp [0x5099, 0x54C1], '' ('', jp [0x53D6,
          0x5F97, 0x539F, 0x4FA1], '' %s'', jp [0x3001, 0x8010, 0x7528, 0x5E74, 0x6570], '' %d '',
          jp [0x5E74, 0x3001, 0x6B8B, 0x5B58, 0x4FA1, 0x984D, 0x30BC, 0x30ED, 0x3001, 0x5B9A,
          0x984D, 0x6CD5, 0x30FB, 0x9593, 0x63A5, 0x6CD5], '') '', jp [0x306E, 0x6E1B, 0x4FA1,
          0x511F, 0x5374, 0x3092, 0x884C, 0x3046, 0x3002]])
          [Str (format_yen c), Num years],
          [je (jp [0x6E1B, 0x4FA1, 0x511F, 0x5374, 0x8CBB]) dep],
          [je (jp [0x5099, 0x54C1, 0x6E1B, 0x4FA1, 0x511F, 0x5374, 0x7D2F, 0x8A08, 0x984D]) dep])
      })\<rparr>,
    \<lparr>pt_prefix = ''ad-dep-month'', pt_topic = ''adjustment'', pt_diff = 2, pt_n = 2,
      pt_expl = cat [jp [0x671F, 0x4E2D, 0x53D6, 0x5F97, 0x306E, 0x56FA, 0x5B9A, 0x8CC7, 0x7523, 0x306F, 0x6708,
        0x5272, 0x3067, 0x6E1B, 0x4FA1, 0x511F, 0x5374, 0x3059, 0x308B, 0x3002, 0x5E74, 0x9593,
        0x511F, 0x5374, 0x8CBB], '' '', jp [0x00D7], '' '', jp [0x4F7F, 0x7528, 0x6708, 0x6570],
        '' / 12'', jp [0x3002]],
      pt_build = (\<lambda>i. do {
        c \<leftarrow> pick i [480000, 360000];
        years \<leftarrow> pick i [8, 6];
        months \<leftarrow> pick i [6, 4];
        let dep = c div years * months div 12;
        Some (sprintf (cat [jp [0x6C7A, 0x7B97, 0x6574, 0x7406], '': '', jp [0x671F, 0x4E2D, 0x306B, 0x53D6, 0x5F97,
          0x3057, 0x305F, 0x5099, 0x54C1], '' ('', jp [0x53D6, 0x5F97, 0x539F, 0x4FA1], '' %s'', jp
          [0x3001, 0x8010, 0x7528, 0x5E74, 0x6570], '' %d '', jp [0x5E74, 0x3001, 0x6B8B, 0x5B58,
          0x4FA1, 0x984D, 0x30BC, 0x30ED, 0x3001, 0x5B9A, 0x984D, 0x6CD5, 0x30FB, 0x9593, 0x63A5,
          0x6CD5], '') '', jp [0x306B, 0x3064, 0x3044, 0x3066, 0x3001, 0x4F7F, 0x7528, 0x671F,
          0x9593], '' %d '', jp [0x304B, 0x6708, 0x5206, 0x306E, 0x6E1B, 0x4FA1, 0x511F, 0x5374,
          0x3092, 0x6708, 0x5272, 0x3067, 0x884C, 0x3046, 0x3002]])
          [Str (format_yen c), Num years, Num months],
          [je (jp [0x6E1B, 0x4FA1, 0x511F, 0x5374, 0x8CBB]) dep],
          [je (jp [0x5099, 0x54C1, 0x6E1B, 0x4FA1, 0x511F, 0x5374, 0x7D2F, 0x8A08, 0x984D]) dep])
      })\<rparr>,
    \<lparr>pt_prefix = ''ad-prepaid-ins'', pt_topic = ''adjustment'', pt_diff = 2, pt_n = 2,
      pt_expl = cat [jp [0x5F53, 0x671F, 0x306B, 0x652F, 0x6255, 0x3063, 0x305F, 0x4FDD, 0x967A, 0x6599, 0x306E,
        0x3046, 0x3061, 0x7FCC, 0x671F, 0x5206, 0x306F, 0x3001, 0x524D, 0x6255, 0x4FDD, 0x967A,
        0x6599], '' ('', jp [0x8CC7, 0x7523], '') '', jp [0x3068, 0x3057, 0x3066, 0x8CBB, 0x7528,
        0x304B, 0x3089, 0x63A7, 0x9664, 0x3059, 0x308B, 0x3002]],
      pt_build = (\<lambda>i. do {
        b \<leftarrow> pick i [12000, 18000];
        Some (sprintf (cat [jp [0x6C7A, 0x7B97, 0x6574, 0x7406], '': '', jp [0x652F, 0x6255, 0x6E08, 0x307F, 0x306E,
          0x4FDD, 0x967A, 0x6599, 0x306E, 0x3046, 0x3061], '' %s '', jp [0x306F, 0x7FCC, 0x671F,
          0x5206, 0x306E, 0x524D, 0x6255, 0x3044, 0x3067, 0x3042, 0x308B, 0x3002]])
          [Str (format_yen b)],
          [je (jp [0x524D, 0x6255, 0x4FDD, 0x967A, 0x6599]) b],
          [je (jp [0x4FDD, 0x967A, 0x6599]) b])
      })\<rparr>,
    \<lparr>pt_prefix = ''ad-accrued-int'', pt_topic = ''adjustment'', pt_diff = 2, pt_n = 2,
      pt_expl = cat [jp [0x5F53, 0x671F, 0x306B, 0x5C5E, 0x3059, 0x308B, 0x672A, 0x6255, 0x3044, 0x306E, 0x5229,
        0x606F, 0x306F, 0x3001, 0x652F, 0x6255, 0x5229, 0x606F, 0x3092, 0x8FFD, 0x52A0, 0x8A08,
        0x4E0A, 0x3057, 0x672A, 0x6255, 0x5229, 0x606F], '' ('', jp [0x8CA0, 0x50B5], '') '', jp
        [0x3092, 0x7ACB, 0x3066, 0x308B, 0x3002]],
      pt_build = (\<lambda>i. do {
        b \<leftarrow> pick i [6000, 9000];
        Some (sprintf (cat [jp [0x6C7A, 0x7B97, 0x6574, 0x7406], '': '', jp [0x501F, 0x5165, 0x91D1, 0x306E, 0x5229,
          0x606F, 0x306E, 0x3046, 0x3061, 0x3001, 0x5F53, 0x671F, 0x5206, 0x306E, 0x672A, 0x6255,
          0x984D], '' %s '', jp [0x3092, 0x8A08, 0x4E0A, 0x3059, 0x308B, 0x3002]])
          [Str (format_yen b)],
          [je (jp [0x652F, 0x6255, 0x5229, 0x606F]) b],
          [je (jp [0x672A, 0x6255, 0x5229, 0x606F]) b])
      })\<rparr>,
    \<lparr>pt_prefix = ''ad-deferred-rent'', pt_topic = ''adjustment'', pt_diff = 2, pt_n = 2,
      pt_expl = cat [jp [0x53D7, 0x3051, 0x53D6, 0x3063, 0x305F, 0x5BB6, 0x8CC3, 0x306E, 0x3046, 0x3061, 0x7FCC,
        0x671F, 0x5206, 0x306F, 0x3001, 0x524D, 0x53D7, 0x5BB6, 0x8CC3], '' ('', jp [0x8CA0,
        0x50B5], '') '', jp [0x3068, 0x3057, 0x3066, 0x53CE, 0x76CA, 0x304B, 0x3089, 0x63A7, 0x9664,
        0x3059, 0x308B, 0x3002]],
      pt_build = (\<lambda>i. do {
        b \<leftarrow> pick i [30000, 45000];
        Some (sprintf (cat [jp [0x6C7A, 0x7B97, 0x6574, 0x7406], '': '', jp [0x53D7, 0x53D6, 0x6E08, 0x307F, 0x306E,
          0x5BB6, 0x8CC3, 0x306E, 0x3046, 0x3061], '' %s '', jp [0x306F, 0x7FCC, 0x671F, 0x5206,
          0x306E, 0x524D, 0x53D7, 0x3051, 0x3067, 0x3042, 0x308B, 0x3002]])
          [Str (format_yen b)],
          [je (jp [0x53D7, 0x53D6, 0x5BB6, 0x8CC3]) b],
          [je (jp [0x524D, 0x53D7, 0x5BB6, 0x8CC3]) b])
      })\<rparr>,
    \<lparr>pt_prefix = ''ad-accrued-recv-int'', pt_topic = ''adjustment'', pt_diff = 2, pt_n = 2,
      pt_expl = cat [jp [0x5F53, 0x671F, 0x306B, 0x5C5E, 0x3059, 0x308B, 0x672A, 0x53CE, 0x306E, 0x5229, 0x606F,
        0x306F, 0x3001, 0x672A, 0x53CE, 0x5229, 0x606F], '' ('', jp [0x8CC7, 0x7523], '') '', jp
        [0x3092, 0x7ACB, 0x3066, 0x3066, 0x53D7, 0x53D6, 0x5229, 0x606F, 0x3092, 0x8FFD, 0x52A0,
        0x8A08, 0x4E0A, 0x3059, 0x308B, 0x3002]],
      pt_build = (\<lambda>i. do {
        b \<leftarrow> pick i [5000, 8000];
        Some (sprintf (cat [jp [0x6C7A, 0x7B97, 0x6574, 0x7406], '': '', jp [0x8CB8, 0x4ED8, 0x91D1, 0x306E, 0x5229,
          0x606F, 0x306E, 0x3046, 0x3061, 0x3001, 0x5F53, 0x671F, 0x5206, 0x306E, 0x672A, 0x53CE,
          0x984D], '' %s '', jp [0x3092, 0x8A08, 0x4E0A, 0x3059, 0x308B, 0x3002]])
          [Str (format_yen b)],
          [je (jp [0x672A, 0x53CE, 0x5229, 0x606F]) b],
          [je (jp [0x53D7, 0x53D6, 0x5229, 0x606F]) b])
      })\<rparr>]"

definition ad_patterns_2 :: "bank_pattern list" where
  "ad_patterns_2 =
   [\<lparr>pt_prefix = ''ad-stamp-stock'', pt_topic = ''adjustment'', pt_diff = 2, pt_n = 2,
      pt_expl = cat [jp [0x671F, 0x672B, 0x306B, 0x672A, 0x4F7F, 0x7528, 0x306E, 0x53CE, 0x5165, 0x5370, 0x7D19,
        0x306F, 0x3001, 0x8CAF, 0x8535, 0x54C1], '' ('', jp [0x8CC7, 0x7523], '') '', jp [0x3078,
        0x632F, 0x308A, 0x66FF, 0x3048, 0x3066, 0x8CBB, 0x7528, 0x304B, 0x3089, 0x63A7, 0x9664,
        0x3059, 0x308B, 0x3002]],
      pt_build = (\<lambda>i. do {
        b \<leftarrow> pick i [3000, 7000];
        Some (sprintf (cat [jp [0x6C7A, 0x7B97, 0x6574, 0x7406], '': '', jp [0x79DF, 0x7A0E, 0x516C, 0x8AB2, 0x3068,
          0x3057, 0x3066, 0x51E6, 0x7406, 0x3057, 0x3066, 0x3044, 0x305F, 0x53CE, 0x5165, 0x5370,
          0x7D19, 0x306E, 0x3046, 0x3061], '' %s '', jp [0x304C, 0x672A, 0x4F7F, 0x7528, 0x306E,
          0x307E, 0x307E, 0x6B8B, 0x3063, 0x3066, 0x3044, 0x308B, 0x3002]])
          [Str (format_yen b)],
          [je (jp [0x8CAF, 0x8535, 0x54C1]) b],
          [je (jp [0x79DF, 0x7A0E, 0x516C, 0x8AB2]) b])
      })\<rparr>,
    \<lparr>pt_prefix = ''ad-postage-stock'', pt_topic = ''adjustment'', pt_diff = 2, pt_n = 2,
      pt_expl = cat [jp [0x671F, 0x672B, 0x306B, 0x672A, 0x4F7F, 0x7528, 0x306E, 0x90F5, 0x4FBF, 0x5207, 0x624B,
        0x306F, 0x3001, 0x8CAF, 0x8535, 0x54C1], '' ('', jp [0x8CC7, 0x7523], '') '', jp [0x3078,
        0x632F, 0x308A, 0x66FF, 0x3048, 0x3066, 0x901A, 0x4FE1, 0x8CBB, 0x304B, 0x3089, 0x63A7,
        0x9664, 0x3059, 0x308B, 0x3002]],
      pt_build = (\<lambda>i. do {
        b \<leftarrow> pick i [2000, 5000];
        Some (sprintf (cat [jp [0x6C7A, 0x7B97, 0x6574, 0x7406], '': '', jp [0x901A, 0x4FE1, 0x8CBB, 0x3068, 0x3057,
          0x3066, 0x51E6, 0x7406, 0x3057, 0x3066, 0x3044, 0x305F, 0x90F5, 0x4FBF, 0x5207, 0x624B,
          0x306E, 0x3046, 0x3061], '' %s '', jp [0x304C, 0x672A, 0x4F7F, 0x7528, 0x306E, 0x307E,
          0x307E, 0x6B8B, 0x3063, 0x3066, 0x3044, 0x308B, 0x3002]])
          [Str (format_yen b)],
          [je (jp [0x8CAF, 0x8535, 0x54C1]) b],
          [je (jp [0x901A, 0x4FE1, 0x8CBB]) b])
      })\<rparr>,
    \<lparr>pt_prefix = ''ad-reversal-ins'', pt_topic = ''adjustment'', pt_diff = 2, pt_n = 2,
      pt_expl = cat [jp [0x7D4C, 0x904E, 0x52D8, 0x5B9A, 0x306F, 0x7FCC, 0x671F, 0x9996, 0x306B, 0x518D, 0x632F,
        0x66FF, 0x4ED5, 0x8A33, 0x3092, 0x884C, 0x3044, 0x3001, 0x524D, 0x6255, 0x4FDD, 0x967A,
        0x6599, 0x3092, 0x4FDD, 0x967A, 0x6599, 0x3078, 0x623B, 0x3059, 0x3002]],
      pt_build = (\<lambda>i. do {
        b \<leftarrow> pick i [12000, 18000];
        Some (sprintf (cat [jp [0x7FCC, 0x671F, 0x9996], '': '', jp [0x524D, 0x671F, 0x672B, 0x306B, 0x8A08, 0x4E0A,
          0x3057, 0x305F, 0x524D, 0x6255, 0x4FDD, 0x967A, 0x6599], '' %s '', jp [0x306B, 0x3064,
          0x3044, 0x3066, 0x518D, 0x632F, 0x66FF, 0x4ED5, 0x8A33, 0x3092, 0x884C, 0x3046, 0x3002]])
          [Str (format_yen b)],
          [je (jp [0x4FDD, 0x967A, 0x6599]) b],
          [je (jp [0x524D, 0x6255, 0x4FDD, 0x967A, 0x6599]) b])
      })\<rparr>,
    \<lparr>pt_prefix = ''ad-short-close'', pt_topic = ''adjustment'', pt_diff = 2, pt_n = 2,
      pt_expl = cat [jp [0x6C7A, 0x7B97, 0x307E, 0x3067, 0x539F, 0x56E0, 0x4E0D, 0x660E, 0x306E, 0x73FE, 0x91D1,
        0x904E, 0x4E0D, 0x8DB3], '' ('', jp [0x501F, 0x65B9, 0x6B8B, 0x9AD8], '') '', jp [0x306F,
        0x3001, 0x5224, 0x660E, 0x5206, 0x3092, 0x8A72, 0x5F53, 0x52D8, 0x5B9A, 0x3078, 0x3001,
        0x6B8B, 0x984D, 0x3092, 0x96D1, 0x640D, 0x3078, 0x632F, 0x308A, 0x66FF, 0x3048, 0x308B,
        0x3002]],
      pt_build = (\<lambda>i. do {
        b \<leftarrow> pick i [5000, 8000];
        x \<leftarrow> pick i [3000, 6000];
        Some (sprintf (cat [jp [0x6C7A, 0x7B97, 0x6574, 0x7406], '': '', jp [0x73FE, 0x91D1, 0x904E, 0x4E0D, 0x8DB3,
          0x52D8, 0x5B9A, 0x306E, 0x501F, 0x65B9, 0x6B8B, 0x9AD8], '' %s '', jp [0x306E, 0x3046,
          0x3061], '' %s '', jp [0x306F, 0x901A, 0x4FE1, 0x8CBB, 0x306E, 0x8A18, 0x5E33, 0x6F0F,
          0x308C, 0x3068, 0x5224, 0x660E, 0x3057, 0x305F, 0x304C, 0x3001, 0x6B8B, 0x984D, 0x306F,
          0x539F, 0x56E0, 0x4E0D, 0x660E, 0x3067, 0x3042, 0x308B, 0x3002]])
          [Str (format_yen b), Str (format_yen x)],
          [je (jp [0x901A, 0x4FE1, 0x8CBB]) x, je (jp [0x96D1, 0x640D]) (b - x)],
          [je (jp [0x73FE, 0x91D1, 0x904E, 0x4E0D, 0x8DB3]) b])
      })\<rparr>,
    \<lparr>pt_prefix = ''ad-over-close'', pt_topic = ''adjustment'', pt_diff = 2, pt_n = 2,
      pt_expl = cat [jp [0x6C7A, 0x7B97, 0x307E, 0x3067, 0x539F, 0x56E0, 0x4E0D, 0x660E, 0x306E, 0x73FE, 0x91D1,
        0x904E, 0x4E0D, 0x8DB3], '' ('', jp [0x8CB8, 0x65B9, 0x6B8B, 0x9AD8], '') '', jp [0x306F,
        0x3001, 0x96D1, 0x76CA, 0x3078, 0x632F, 0x308A, 0x66FF, 0x3048, 0x308B, 0x3002]],
      pt_build = (\<lambda>i. do {
        b \<leftarrow> pick i [4000, 6000];
        Some (sprintf (cat [jp [0x6C7A, 0x7B97, 0x6574, 0x7406], '': '', jp [0x73FE, 0x91D1, 0x904E, 0x4E0D, 0x8DB3,
          0x52D8, 0x5B9A, 0x306E, 0x8CB8, 0x65B9, 0x6B8B, 0x9AD8], '' %s '', jp [0x306F, 0x3001,
          0x539F, 0x56E0, 0x304C, 0x5224, 0x660E, 0x3057, 0x306A, 0x3044, 0x305F, 0x3081, 0x9069,
          0x5207, 0x306A, 0x52D8, 0x5B9A, 0x3078, 0x632F, 0x308A, 0x66FF, 0x3048, 0x308B, 0x3002]])
          [Str (format_yen b)],
          [je (jp [0x73FE, 0x91D1, 0x904E, 0x4E0D, 0x8DB3]) b],
          [je (jp [0x96D1, 0x76CA]) b])
      })\<rparr>,
    \<lparr>pt_prefix = ''ad-overdraft'', pt_topic = ''adjustment'', pt_diff = 2, pt_n = 2,
      pt_expl = cat [jp [0x6C7A, 0x7B97, 0x65E5, 0x306B, 0x5F53, 0x5EA7, 0x9810, 0x91D1, 0x52D8, 0x5B9A, 0x304C,
        0x8CB8, 0x65B9, 0x6B8B, 0x9AD8], '' ('', jp [0x5F15, 0x51FA, 0x8D85, 0x904E], '') '', jp
        [0x306E, 0x5834, 0x5408, 0x3001, 0x5F53, 0x5EA7, 0x501F, 0x8D8A], '' ('', jp [0x8CA0,
        0x50B5], '') '', jp [0x3078, 0x632F, 0x308A, 0x66FF, 0x3048, 0x308B, 0x3002]],
      pt_build = (\<lambda>i. do {
        b \<leftarrow> pick i [150000, 220000];
        Some (sprintf (cat [jp [0x6C7A, 0x7B97, 0x6574, 0x7406], '': '', jp [0x5F53, 0x5EA7, 0x9810, 0x91D1, 0x52D8,
          0x5B9A, 0x304C], '' %s '', jp [0x306E, 0x8CB8, 0x65B9, 0x6B8B, 0x9AD8, 0x3068, 0x306A,
          0x3063, 0x3066, 0x3044, 0x308B, 0x305F, 0x3081, 0x3001, 0x9069, 0x5207, 0x306A, 0x52D8,
          0x5B9A, 0x3078, 0x632F, 0x308A, 0x66FF, 0x3048, 0x308B], '' ('', jp [0x5F53, 0x5EA7,
          0x501F, 0x8D8A, 0x52D8, 0x5B9A, 0x3092, 0x7528, 0x3044, 0x308B, 0x3053, 0x3068], '')'', jp
          [0x3002]])
          [Str (format_yen b)],
          [je (jp [0x5F53, 0x5EA7, 0x9810, 0x91D1]) b],
          [je (jp [0x5F53, 0x5EA7, 0x501F, 0x8D8A]) b])
      })\<rparr>]"

definition iv_patterns_1 :: "bank_pattern list" where
  "iv_patterns_1 =
   [\<lparr>pt_prefix = ''iv-shift'', pt_topic = ''inventory'', pt_diff = 2, pt_n = 2,
      pt_expl = cat [jp [0x4E09, 0x5206, 0x6CD5, 0x306E, 0x58F2, 0x4E0A, 0x539F, 0x4FA1, 0x7B97, 0x5B9A], '': '',
        jp [0x671F, 0x9996, 0x5546, 0x54C1, 0x3092, 0x4ED5, 0x5165, 0x3078, 0x632F, 0x308A, 0x66FF,
        0x3048], '' ('', jp [0x4ED5, 0x5165], ''/'', jp [0x7E70, 0x8D8A, 0x5546, 0x54C1], '')'', jp
        [0x3001, 0x671F, 0x672B, 0x5546, 0x54C1, 0x3092, 0x5728, 0x5EAB, 0x3078, 0x623B, 0x3059],
        '' ('', jp [0x7E70, 0x8D8A, 0x5546, 0x54C1], ''/'', jp [0x4ED5, 0x5165], '')'', jp [0x3002]],
      pt_build = (\<lambda>i. do {
        beginning \<leftarrow> pick i [90000, 120000];
        ending \<leftarrow> pick i [70000, 95000];
        Some (sprintf (cat [jp [0x6C7A, 0x7B97, 0x6574, 0x7406], '': '', jp [0x671F, 0x9996, 0x5546, 0x54C1, 0x68DA,
          0x5378, 0x9AD8, 0x306F], '' %s'', jp [0x3001, 0x671F, 0x672B, 0x5546, 0x54C1, 0x68DA,
          0x5378, 0x9AD8, 0x306F], '' %s '', jp [0x3067, 0x3042, 0x308B, 0x3002, 0x58F2, 0x4E0A,
          0x539F, 0x4FA1, 0x3092, 0x4ED5, 0x5165, 0x52D8, 0x5B9A, 0x3067, 0x7B97, 0x5B9A, 0x3059,
          0x308B], '' ('', jp [0x4E09, 0x5206, 0x6CD5], '')'', jp [0x3002]])
          [Str (format_yen beginning), Str (format_yen ending)],
          [je (jp [0x4ED5, 0x5165]) beginning, je (jp [0x7E70, 0x8D8A, 0x5546, 0x54C1]) ending],
          [je (jp [0x7E70, 0x8D8A, 0x5546, 0x54C1]) beginning, je (jp [0x4ED5, 0x5165]) ending])
      })\<rparr>]"

definition ad_patterns_3 :: "bank_pattern list" where
  "ad_patterns_3 =
   [\<lparr>pt_prefix = ''ad-close-sales'', pt_topic = ''adjustment'', pt_diff = 2, pt_n = 2,
      pt_expl = cat [jp [0x6C7A, 0x7B97, 0x632F, 0x66FF], '': '', jp [0x53CE, 0x76CA, 0x306E, 0x52D8, 0x5B9A],
        '' ('', jp [0x58F2, 0x4E0A], '') '', jp [0x306E, 0x6B8B, 0x9AD8, 0x306F, 0x640D, 0x76CA,
        0x52D8, 0x5B9A, 0x306E, 0x8CB8, 0x65B9, 0x3078, 0x632F, 0x308A, 0x66FF, 0x3048, 0x308B,
        0x3002]],
      pt_build = (\<lambda>i. do {
        b \<leftarrow> pick i [900000, 1500000];
        Some (sprintf (cat [jp [0x6C7A, 0x7B97, 0x632F, 0x66FF], '': '', jp [0x58F2, 0x4E0A, 0x52D8, 0x5B9A, 0x306E,
          0x6B8B, 0x9AD8], '' %s '', jp [0x3092, 0x640D, 0x76CA, 0x52D8, 0x5B9A, 0x3078, 0x632F,
          0x308A, 0x66FF, 0x3048, 0x308B, 0x3002]])
          [Str (format_yen b)],
          [je (jp [0x58F2, 0x4E0A]) b],
          [je (jp [0x640D, 0x76CA]) b])
      })\<rparr>,
    \<lparr>pt_prefix = ''ad-close-purchase'', pt_topic = ''adjustment'', pt_diff = 2, pt_n = 2,
      pt_expl = cat [jp [0x6C7A, 0x7B97, 0x632F, 0x66FF], '': '', jp [0x8CBB, 0x7528, 0x306E, 0x52D8, 0x5B9A],
        '' ('', jp [0x4ED5, 0x5165], '' = '', jp [0x58F2, 0x4E0A, 0x539F, 0x4FA1], '') '', jp
        [0x306E, 0x6B8B, 0x9AD8, 0x306F, 0x640D, 0x76CA, 0x52D8, 0x5B9A, 0x306E, 0x501F, 0x65B9,
        0x3078, 0x632F, 0x308A, 0x66FF, 0x3048, 0x308B, 0x3002]],
      pt_build = (\<lambda>i. do {
        b \<leftarrow> pick i [600000, 1000000];
        Some (sprintf (cat [jp [0x6C7A, 0x7B97, 0x632F, 0x66FF], '': '', jp [0x58F2, 0x4E0A, 0x539F, 0x4FA1, 0x3092,
          0x7B97, 0x5B9A, 0x6E08, 0x307F, 0x306E, 0x4ED5, 0x5165, 0x52D8, 0x5B9A, 0x306E, 0x6B8B,
          0x9AD8], '' %s '', jp [0x3092, 0x640D, 0x76CA, 0x52D8, 0x5B9A, 0x3078, 0x632F, 0x308A,
          0x66FF, 0x3048, 0x308B, 0x3002]])
          [Str (format_yen b)],
          [je (jp [0x640D, 0x76CA]) b],
          [je (jp [0x4ED5, 0x5165]) b])
      })\<rparr>]"

definition adjustment_patterns :: "bank_pattern list" where
  "adjustment_patterns = ad_patterns_1 @ ad_patterns_2 @ iv_patterns_1 @ ad_patterns_3"

lemma adjustment_pattern_keys [bank_keys]:
  "map pattern_key adjustment_patterns = [(''ad-dep-annual'', ''adjustment'', 2), (''ad-dep-month'', ''adjustment'', 2),
     (''ad-prepaid-ins'', ''adjustment'', 2), (''ad-accrued-int'', ''adjustment'', 2),
     (''ad-deferred-rent'', ''adjustment'', 2), (''ad-accrued-recv-int'', ''adjustment'', 2),
     (''ad-stamp-stock'', ''adjustment'', 2), (''ad-postage-stock'', ''adjustment'', 2),
     (''ad-reversal-ins'', ''adjustment'', 2), (''ad-short-close'', ''adjustment'', 2),
     (''ad-over-close'', ''adjustment'', 2), (''ad-overdraft'', ''adjustment'', 2), (''iv-shift'',
     ''inventory'', 2), (''ad-close-sales'', ''adjustment'', 2), (''ad-close-purchase'',
     ''adjustment'', 2)]"
  by (simp add: adjustment_patterns_def ad_patterns_1_def ad_patterns_2_def iv_patterns_1_def ad_patterns_3_def pattern_key_def)

lemma adjustment_pattern_sound [bank_sound]:
  "list_all pattern_sound adjustment_patterns"
  by (simp add: adjustment_patterns_def ad_patterns_1_def ad_patterns_2_def iv_patterns_1_def ad_patterns_3_def pattern_sound_simps)

end
