(* ===== verification/BankChoice.thy ===== *)
theory BankChoice
  imports Generator
begin

text \<open>
  \<^verbatim>\<open>seed/bank_choice.go\<close>: the questions with a choice of answers, by kind.
\<close>

definition tb_questions :: "seed_question list" where
  "tb_questions =
   [choice_question ''tb-balance-01'' ''trial_balance'' qt_trial_balance 2
      (cat [jp [0x8A66, 0x7B97, 0x8868, 0x306E, 0x501F, 0x65B9, 0x5408, 0x8A08, 0x3068, 0x8CB8, 0x65B9,
        0x5408, 0x8A08, 0x304C, 0x5FC5, 0x305A, 0x4E00, 0x81F4, 0x3059, 0x308B, 0x6839, 0x62E0,
        0x306F, 0x3069, 0x308C, 0x304B, 0x3002]])
      [cat [''A: '', jp [0x8CB8, 0x501F, 0x5E73, 0x5747, 0x306E, 0x539F, 0x7406], '' ('', jp [0x3059,
         0x3079, 0x3066, 0x306E, 0x53D6, 0x5F15, 0x3092, 0x501F, 0x65B9, 0x30FB, 0x8CB8, 0x65B9,
         0x306B, 0x540C, 0x984D, 0x3067, 0x8A18, 0x9332, 0x3059, 0x308B, 0x305F, 0x3081], '')''],
       cat [''B: '', jp [0x8CC7, 0x7523, 0x3068, 0x8CA0, 0x50B5, 0x304C, 0x5E38, 0x306B, 0x7B49,
         0x3057, 0x3044, 0x305F, 0x3081]],
       cat [''C: '', jp [0x73FE, 0x91D1, 0x6B8B, 0x9AD8, 0x3092, 0x57FA, 0x6E96, 0x306B, 0x4F5C,
         0x6210, 0x3059, 0x308B, 0x305F, 0x3081]]]
      ''A'' (cat [jp [0x8907, 0x5F0F, 0x7C3F, 0x8A18, 0x3067, 0x306F], '' 1 '', jp [0x3064, 0x306E, 0x53D6,
        0x5F15, 0x3092, 0x5FC5, 0x305A, 0x501F, 0x65B9, 0x30FB, 0x8CB8, 0x65B9, 0x306B, 0x540C,
        0x3058, 0x91D1, 0x984D, 0x3067, 0x8A18, 0x9332, 0x3059, 0x308B, 0x305F, 0x3081, 0x3001,
        0x5168, 0x52D8, 0x5B9A, 0x3092, 0x96C6, 0x8A08, 0x3057, 0x305F, 0x8A66, 0x7B97, 0x8868,
        0x306E, 0x8CB8, 0x501F, 0x5408, 0x8A08, 0x306F, 0x4E00, 0x81F4, 0x3059, 0x308B], '' ('', jp
        [0x8CB8, 0x501F, 0x5E73, 0x5747, 0x306E, 0x539F, 0x7406], '')'', jp [0x3002]]),
    choice_question ''tb-mismatch-02'' ''trial_balance'' qt_trial_balance 2
      (cat [jp [0x8A66, 0x7B97, 0x8868, 0x306E, 0x501F, 0x65B9, 0x5408, 0x8A08, 0x3068, 0x8CB8, 0x65B9,
        0x5408, 0x8A08, 0x304C, 0x4E00, 0x81F4, 0x3057, 0x306A, 0x3044, 0x5834, 0x5408, 0x306B,
        0x3001, 0x6700, 0x521D, 0x306B, 0x7591, 0x3046, 0x3079, 0x304D, 0x8AA4, 0x308A, 0x306F,
        0x3069, 0x308C, 0x304B, 0x3002]])
      [cat [''A: '', jp [0x4ED5, 0x8A33, 0x3084, 0x8EE2, 0x8A18, 0x306B, 0x304A, 0x3051, 0x308B,
         0x8CB8, 0x501F, 0x91D1, 0x984D, 0x306E, 0x4E0D, 0x4E00, 0x81F4]],
       cat [''B: '', jp [0x671F, 0x672B, 0x5546, 0x54C1, 0x68DA, 0x5378, 0x9AD8, 0x306E, 0x8AA4,
         0x308A]],
       cat [''C: '', jp [0x6E1B, 0x4FA1, 0x511F, 0x5374, 0x65B9, 0x6CD5, 0x306E, 0x9078, 0x629E,
         0x8AA4, 0x308A]]]
      ''A'' (cat [jp [0x8CB8, 0x501F, 0x4E0D, 0x4E00, 0x81F4, 0x306F, 0x4ED5, 0x8A33, 0x6BB5, 0x968E, 0x306E,
        0x91D1, 0x984D, 0x30DF, 0x30B9, 0x307E, 0x305F, 0x306F, 0x7247, 0x5074, 0x3060, 0x3051,
        0x306E, 0x8EE2, 0x8A18, 0x6F0F, 0x308C, 0x306B, 0x8D77, 0x56E0, 0x3059, 0x308B, 0x3053,
        0x3068, 0x304C, 0x6700, 0x3082, 0x591A, 0x3044, 0x3002, 0x68DA, 0x5378, 0x9AD8, 0x3084,
        0x511F, 0x5374, 0x65B9, 0x6CD5, 0x306E, 0x8AA4, 0x308A, 0x306F, 0x8CB8, 0x501F, 0x4E00,
        0x81F4, 0x306E, 0x307E, 0x307E, 0x751F, 0x3058, 0x308B, 0x3002]]),
    choice_question ''tb-kinds-03'' ''trial_balance'' qt_trial_balance 2
      (cat [jp [0x6B8B, 0x9AD8, 0x8A66, 0x7B97, 0x8868, 0x306E, 0x8AAC, 0x660E, 0x3068, 0x3057, 0x3066,
        0x6B63, 0x3057, 0x3044, 0x3082, 0x306E, 0x306F, 0x3069, 0x308C, 0x304B, 0x3002]])
      [cat [''A: '', jp [0x5404, 0x52D8, 0x5B9A, 0x306E, 0x501F, 0x65B9, 0x5408, 0x8A08, 0x3068,
         0x8CB8, 0x65B9, 0x5408, 0x8A08, 0x3092, 0x305D, 0x306E, 0x307E, 0x307E, 0x4E26, 0x3079,
         0x305F, 0x8868]],
       cat [''B: '', jp [0x5404, 0x52D8, 0x5B9A, 0x306E, 0x6B8B, 0x9AD8, 0x3060, 0x3051, 0x3092,
         0x96C6, 0x3081, 0x305F, 0x8868]],
       cat [''C: '', jp [0x6C7A, 0x7B97, 0x6574, 0x7406, 0x4ED5, 0x8A33, 0x3092, 0x53CD, 0x6620,
         0x3057, 0x305F, 0x5F8C, 0x306E, 0x8CA1, 0x52D9, 0x8AF8, 0x8868]]]
      ''B'' (cat [jp [0x6B8B, 0x9AD8, 0x8A66, 0x7B97, 0x8868, 0x306F, 0x5404, 0x52D8, 0x5B9A, 0x306E, 0x8CB8,
        0x501F, 0x5DEE, 0x984D], '' ('', jp [0x6B8B, 0x9AD8], '') '', jp [0x3092, 0x96C6, 0x8A08,
        0x3057, 0x305F, 0x8868, 0x3002, 0x5408, 0x8A08, 0x3092, 0x4E26, 0x3079, 0x308B, 0x306E,
        0x306F, 0x5408, 0x8A08, 0x8A66, 0x7B97, 0x8868, 0x3067, 0x3042, 0x308A, 0x3001, 0x4E21,
        0x65B9, 0x3092, 0x793A, 0x3059, 0x306E, 0x304C, 0x5408, 0x8A08, 0x6B8B, 0x9AD8, 0x8A66,
        0x7B97, 0x8868, 0x3067, 0x3042, 0x308B, 0x3002]]),
    choice_question ''tb-undetectable-04'' ''trial_balance'' qt_trial_balance 2
      (cat [jp [0x8A66, 0x7B97, 0x8868, 0x3092, 0x4F5C, 0x6210, 0x3057, 0x3066, 0x3082, 0x767A, 0x898B,
        0x3067, 0x304D, 0x306A, 0x3044, 0x8AA4, 0x308A, 0x306F, 0x3069, 0x308C, 0x304B, 0x3002]])
      [cat [''A: '', jp [0x7247, 0x5074, 0x3060, 0x3051, 0x306E, 0x8EE2, 0x8A18, 0x6F0F, 0x308C]],
       cat [''B: '', jp [0x501F, 0x65B9, 0x3068, 0x8CB8, 0x65B9, 0x306E, 0x91D1, 0x984D, 0x3092,
         0x9055, 0x3048, 0x305F, 0x8EE2, 0x8A18]],
       cat [''C: '', jp [0x6B63, 0x3057, 0x3044, 0x91D1, 0x984D, 0x3067, 0x501F, 0x65B9, 0x30FB,
         0x8CB8, 0x65B9, 0x3068, 0x3082, 0x8AA4, 0x3063, 0x305F, 0x52D8, 0x5B9A, 0x79D1, 0x76EE,
         0x306B, 0x8EE2, 0x8A18, 0x3057, 0x305F, 0x8AA4, 0x308A]]]
      ''C'' (cat [jp [0x8CB8, 0x501F, 0x3068, 0x3082, 0x540C, 0x984D, 0x3067, 0x8A18, 0x9332, 0x3055, 0x308C,
        0x3066, 0x3044, 0x308B, 0x8AA4, 0x308A], '' ('', jp [0x52D8, 0x5B9A, 0x79D1, 0x76EE, 0x306E,
        0x53D6, 0x308A, 0x9055, 0x3048, 0x3001, 0x53D6, 0x5F15, 0x5168, 0x4F53, 0x306E, 0x8A18,
        0x5E33, 0x6F0F, 0x308C, 0x3001, 0x4E8C, 0x91CD, 0x8A18, 0x5E33], '') '', jp [0x306F, 0x8CB8,
        0x501F, 0x5408, 0x8A08, 0x304C, 0x4E00, 0x81F4, 0x3059, 0x308B, 0x305F, 0x3081, 0x8A66,
        0x7B97, 0x8868, 0x3067, 0x306F, 0x767A, 0x898B, 0x3067, 0x304D, 0x306A, 0x3044, 0x3002]]),
    choice_question ''tb-source-05'' ''trial_balance'' qt_trial_balance 1
      (cat [jp [0x7DCF, 0x52D8, 0x5B9A, 0x5143, 0x5E33, 0x3078, 0x306E, 0x8EE2, 0x8A18, 0x306E, 0x3082,
        0x3068, 0x3068, 0x306A, 0x308B, 0x5E33, 0x7C3F, 0x306F, 0x3069, 0x308C, 0x304B, 0x3002]])
      [cat [''A: '', jp [0x4ED5, 0x8A33, 0x5E33]],
       cat [''B: '', jp [0x58F2, 0x639B, 0x91D1, 0x5143, 0x5E33]],
       cat [''C: '', jp [0x5546, 0x54C1, 0x6709, 0x9AD8, 0x5E33]]]
      ''A'' (cat [jp [0x53D6, 0x5F15, 0x306F, 0x307E, 0x305A, 0x4ED5, 0x8A33, 0x5E33, 0x306B, 0x4ED5, 0x8A33,
        0x3055, 0x308C, 0x3001, 0x305D, 0x3053, 0x304B, 0x3089, 0x7DCF, 0x52D8, 0x5B9A, 0x5143,
        0x5E33, 0x306E, 0x5404, 0x52D8, 0x5B9A, 0x53E3, 0x5EA7, 0x3078, 0x8EE2, 0x8A18, 0x3055,
        0x308C, 0x308B, 0x3002, 0x58F2, 0x639B, 0x91D1, 0x5143, 0x5E33, 0x3084, 0x5546, 0x54C1,
        0x6709, 0x9AD8, 0x5E33, 0x306F, 0x88DC, 0x52A9, 0x7C3F, 0x3067, 0x3042, 0x308B, 0x3002]]),
    choice_question ''tb-total-06'' ''trial_balance'' qt_trial_balance 2
      (cat [jp [0x5408, 0x8A08, 0x8A66, 0x7B97, 0x8868, 0x306E, 0x501F, 0x65B9, 0x5408, 0x8A08],
        '' (='', jp [0x8CB8, 0x65B9, 0x5408, 0x8A08], '') '', jp [0x3068, 0x4E00, 0x81F4, 0x3059,
        0x308B, 0x91D1, 0x984D, 0x306F, 0x3069, 0x308C, 0x304B, 0x3002]])
      [cat [''A: '', jp [0x4ED5, 0x8A33, 0x5E33, 0x306E, 0x53D6, 0x5F15, 0x5408, 0x8A08, 0x91D1,
         0x984D]],
       cat [''B: '', jp [0x5F53, 0x671F, 0x306E, 0x58F2, 0x4E0A, 0x9AD8, 0x5408, 0x8A08]],
       cat [''C: '', jp [0x671F, 0x672B, 0x306E, 0x8CC7, 0x7523, 0x5408, 0x8A08]]]
      ''A'' (cat [jp [0x5408, 0x8A08, 0x8A66, 0x7B97, 0x8868, 0x306F, 0x5168, 0x52D8, 0x5B9A, 0x306E, 0x501F,
        0x65B9, 0x30FB, 0x8CB8, 0x65B9, 0x306E, 0x5408, 0x8A08, 0x3092, 0x96C6, 0x8A08, 0x3057,
        0x305F, 0x3082, 0x306E, 0x306A, 0x306E, 0x3067, 0x3001, 0x305D, 0x306E, 0x7DCF, 0x5408,
        0x8A08, 0x306F, 0x4ED5, 0x8A33, 0x5E33, 0x306B, 0x8A18, 0x9332, 0x3055, 0x308C, 0x305F,
        0x53D6, 0x5F15, 0x5408, 0x8A08, 0x91D1, 0x984D, 0x3068, 0x4E00, 0x81F4, 0x3059, 0x308B,
        0x3002]])]"

definition lg_questions :: "seed_question list" where
  "lg_questions =
   [choice_question ''lg-cash-01'' ''trial_balance'' qt_ledger 1
      (cat [jp [0x73FE, 0x91D1, 0x52D8, 0x5B9A, 0x306E, 0x501F, 0x65B9, 0x306B, 0x8A18, 0x5165, 0x3055,
        0x308C, 0x308B, 0x53D6, 0x5F15, 0x306F, 0x3069, 0x308C, 0x304B, 0x3002]])
      [cat [''A: '', jp [0x58F2, 0x639B, 0x91D1, 0x3092, 0x73FE, 0x91D1, 0x3067, 0x56DE, 0x53CE,
         0x3057, 0x305F]],
       cat [''B: '', jp [0x8CB7, 0x639B, 0x91D1, 0x3092, 0x73FE, 0x91D1, 0x3067, 0x652F, 0x6255,
         0x3063, 0x305F]],
       cat [''C: '', jp [0x73FE, 0x91D1, 0x3092, 0x5F53, 0x5EA7, 0x9810, 0x91D1, 0x306B, 0x9810,
         0x3051, 0x5165, 0x308C, 0x305F]]]
      ''A'' (cat [jp [0x73FE, 0x91D1], '' ('', jp [0x8CC7, 0x7523], '') '', jp [0x306E, 0x5897, 0x52A0,
        0x306F, 0x501F, 0x65B9, 0x306B, 0x8A18, 0x5165, 0x3059, 0x308B, 0x3002], ''B '', jp
        [0x3068], '' C '', jp [0x306F, 0x3044, 0x305A, 0x308C, 0x3082, 0x73FE, 0x91D1, 0x306E,
        0x6E1B, 0x5C11, 0x3067, 0x3042, 0x308A, 0x8CB8, 0x65B9, 0x306B, 0x8A18, 0x5165, 0x3055,
        0x308C, 0x308B, 0x3002]]),
    choice_question ''lg-payable-02'' ''trial_balance'' qt_ledger 1
      (cat [jp [0x8CB7, 0x639B, 0x91D1, 0x52D8, 0x5B9A, 0x306E, 0x501F, 0x65B9, 0x306B, 0x8A18, 0x5165,
        0x3055, 0x308C, 0x308B, 0x53D6, 0x5F15, 0x306F, 0x3069, 0x308C, 0x304B, 0x3002]])
      [cat [''A: '', jp [0x5546, 0x54C1, 0x3092, 0x639B, 0x3051, 0x3067, 0x4ED5, 0x5165, 0x308C,
         0x305F]],
       cat [''B: '', jp [0x8CB7, 0x639B, 0x91D1, 0x3092, 0x5C0F, 0x5207, 0x624B, 0x3092, 0x632F,
         0x308A, 0x51FA, 0x3057, 0x3066, 0x652F, 0x6255, 0x3063, 0x305F]],
       cat [''C: '', jp [0x8CB7, 0x639B, 0x91D1, 0x306B, 0x3064, 0x3044, 0x3066, 0x96FB, 0x5B50,
         0x8A18, 0x9332, 0x50B5, 0x52D9, 0x306E, 0x767A, 0x751F, 0x8A18, 0x9332, 0x304C, 0x884C,
         0x308F, 0x308C, 0x305F, 0x5834, 0x5408, 0x306E, 0x50B5, 0x6A29, 0x8005, 0x5074, 0x306E,
         0x51E6, 0x7406]]]
      ''B'' (cat [jp [0x8CB7, 0x639B, 0x91D1], '' ('', jp [0x8CA0, 0x50B5], '') '', jp [0x306E, 0x6E1B,
        0x5C11, 0x306F, 0x501F, 0x65B9, 0x306B, 0x8A18, 0x5165, 0x3059, 0x308B, 0x3002, 0x639B,
        0x4ED5, 0x5165, 0x306F, 0x8CB7, 0x639B, 0x91D1, 0x306E, 0x5897, 0x52A0], '' ('', jp [0x8CB8,
        0x65B9], '') '', jp [0x3067, 0x3042, 0x308B, 0x3002]]),
    choice_question ''lg-revenue-03'' ''trial_balance'' qt_ledger 1
      (cat [jp [0x58F2, 0x4E0A, 0x52D8, 0x5B9A, 0x3078, 0x306E, 0x8A18, 0x5165, 0x306B, 0x3064, 0x3044,
        0x3066, 0x6B63, 0x3057, 0x3044, 0x3082, 0x306E, 0x306F, 0x3069, 0x308C, 0x304B, 0x3002]])
      [cat [''A: '', jp [0x58F2, 0x4E0A, 0x306E, 0x767A, 0x751F, 0x306F, 0x501F, 0x65B9, 0x306B,
         0x8A18, 0x5165, 0x3059, 0x308B]],
       cat [''B: '', jp [0x58F2, 0x4E0A, 0x306E, 0x767A, 0x751F, 0x306F, 0x8CB8, 0x65B9, 0x306B,
         0x8A18, 0x5165, 0x3057, 0x3001, 0x8FD4, 0x54C1, 0x306F, 0x501F, 0x65B9, 0x306B, 0x8A18,
         0x5165, 0x3059, 0x308B]],
       cat [''C: '', jp [0x58F2, 0x4E0A, 0x306E, 0x767A, 0x751F, 0x3082, 0x8FD4, 0x54C1, 0x3082,
         0x8CB8, 0x65B9, 0x306B, 0x8A18, 0x5165, 0x3059, 0x308B]]]
      ''B'' (cat [jp [0x53CE, 0x76CA, 0x306E, 0x767A, 0x751F, 0x306F, 0x8CB8, 0x65B9, 0x306B, 0x8A18, 0x5165,
        0x3059, 0x308B, 0x3002, 0x58F2, 0x4E0A, 0x623B, 0x308A], '' ('', jp [0x8FD4, 0x54C1],
        '') '', jp [0x306F, 0x58F2, 0x4E0A, 0x306E, 0x53D6, 0x6D88, 0x3057, 0x306A, 0x306E, 0x3067,
        0x501F, 0x65B9, 0x306B, 0x8A18, 0x5165, 0x3059, 0x308B, 0x3002]])]"

definition ws_questions :: "seed_question list" where
  "ws_questions =
   [choice_question ''ws-diff-01'' ''worksheet'' qt_worksheet 2
      (cat [jp [0x7CBE, 0x7B97, 0x8868, 0x306E, 0x640D, 0x76CA, 0x8A08, 0x7B97, 0x66F8, 0x6B04, 0x3067,
        0x3001, 0x501F, 0x65B9, 0x5408, 0x8A08, 0x3068, 0x8CB8, 0x65B9, 0x5408, 0x8A08, 0x306E,
        0x5DEE, 0x984D, 0x304C, 0x610F, 0x5473, 0x3059, 0x308B, 0x3082, 0x306E, 0x306F, 0x3069,
        0x308C, 0x304B, 0x3002]])
      [cat [''A: '', jp [0x5F53, 0x671F, 0x7D14, 0x5229, 0x76CA, 0x307E, 0x305F, 0x306F, 0x5F53,
         0x671F, 0x7D14, 0x640D, 0x5931]],
       cat [''B: '', jp [0x58F2, 0x4E0A, 0x7DCF, 0x5229, 0x76CA]],
       cat [''C: '', jp [0x7FCC, 0x671F, 0x7E70, 0x8D8A, 0x984D]]]
      ''A'' (cat [jp [0x640D, 0x76CA, 0x8A08, 0x7B97, 0x66F8, 0x6B04, 0x306E, 0x8CB8, 0x501F, 0x5DEE, 0x984D,
        0x306F, 0x5F53, 0x671F, 0x7D14, 0x5229, 0x76CA], '' ('', jp [0x8CB8, 0x65B9], '' > '', jp
        [0x501F, 0x65B9], '') '', jp [0x307E, 0x305F, 0x306F, 0x5F53, 0x671F, 0x7D14, 0x640D,
        0x5931], '' ('', jp [0x501F, 0x65B9], '' > '', jp [0x8CB8, 0x65B9], '') '', jp [0x3092,
        0x793A, 0x3057, 0x3001, 0x8CB8, 0x501F, 0x5BFE, 0x7167, 0x8868, 0x6B04, 0x3078, 0x540C,
        0x984D, 0x304C, 0x53CD, 0x5BFE, 0x5074, 0x306B, 0x8A18, 0x5165, 0x3055, 0x308C, 0x308B,
        0x3002]]),
    choice_question ''ws-column-02'' ''worksheet'' qt_worksheet 2
      (cat [jp [0x6C7A, 0x7B97, 0x6574, 0x7406, 0x4ED5, 0x8A33, 0x306E, 0x91D1, 0x984D, 0x306F, 0x3001],
        ''8 '', jp [0x6841, 0x7CBE, 0x7B97, 0x8868, 0x306E, 0x3069, 0x306E, 0x6B04, 0x306B, 0x8A18,
        0x5165, 0x3055, 0x308C, 0x308B, 0x304B, 0x3002]])
      [cat [''A: '', jp [0x4FEE, 0x6B63, 0x8A18, 0x5165, 0x6B04]],
       cat [''B: '', jp [0x6B8B, 0x9AD8, 0x8A66, 0x7B97, 0x8868, 0x6B04]],
       cat [''C: '', jp [0x640D, 0x76CA, 0x8A08, 0x7B97, 0x66F8, 0x6B04, 0x306B, 0x76F4, 0x63A5,
         0x8A18, 0x5165, 0x3059, 0x308B]]]
      ''A'' (cat [jp [0x6C7A, 0x7B97, 0x6574, 0x7406, 0x4ED5, 0x8A33, 0x306F, 0x4FEE, 0x6B63, 0x8A18, 0x5165,
        0x6B04, 0x306B, 0x8A18, 0x5165, 0x3057, 0x3001, 0x6B8B, 0x9AD8, 0x8A66, 0x7B97, 0x8868,
        0x6B04, 0x306E, 0x91D1, 0x984D, 0x3068, 0x52A0, 0x6E1B, 0x7B97, 0x3057, 0x305F, 0x7D50,
        0x679C, 0x3092, 0x640D, 0x76CA, 0x8A08, 0x7B97, 0x66F8, 0x6B04, 0x30FB, 0x8CB8, 0x501F,
        0x5BFE, 0x7167, 0x8868, 0x6B04, 0x3078, 0x79FB, 0x8A18, 0x3059, 0x308B, 0x3002]]),
    choice_question ''ws-profit-side-03'' ''worksheet'' qt_worksheet 2
      (cat [jp [0x5F53, 0x671F, 0x7D14, 0x5229, 0x76CA, 0x304C, 0x751F, 0x3058, 0x305F, 0x5834, 0x5408,
        0x3001, 0x7CBE, 0x7B97, 0x8868, 0x306E, 0x8CB8, 0x501F, 0x5BFE, 0x7167, 0x8868, 0x6B04,
        0x3067, 0x306F, 0x3069, 0x3061, 0x3089, 0x5074, 0x306B, 0x8A18, 0x5165, 0x3055, 0x308C,
        0x308B, 0x304B, 0x3002]])
      [cat [''A: '', jp [0x501F, 0x65B9]],
       cat [''B: '', jp [0x8CB8, 0x65B9]],
       cat [''C: '', jp [0x8A18, 0x5165, 0x3055, 0x308C, 0x306A, 0x3044]]]
      ''B'' (cat [jp [0x5F53, 0x671F, 0x7D14, 0x5229, 0x76CA, 0x306F, 0x7D14, 0x8CC7, 0x7523, 0x306E, 0x5897,
        0x52A0, 0x306A, 0x306E, 0x3067, 0x8CB8, 0x501F, 0x5BFE, 0x7167, 0x8868, 0x6B04, 0x3067,
        0x306F, 0x8CB8, 0x65B9, 0x306B, 0x8A18, 0x5165, 0x3055, 0x308C, 0x308B], '' ('', jp [0x640D,
        0x76CA, 0x8A08, 0x7B97, 0x66F8, 0x6B04, 0x3067, 0x306F, 0x501F, 0x65B9, 0x306B, 0x8A18,
        0x5165, 0x3055, 0x308C, 0x3001, 0x8CB8, 0x501F, 0x304C, 0x5E73, 0x5747, 0x3059, 0x308B],
        '')'', jp [0x3002]]),
    choice_question ''ws-flow-04'' ''worksheet'' qt_worksheet 2
      (cat [jp [0x7CBE, 0x7B97, 0x8868, 0x3067, 0x4FEE, 0x6B63, 0x8A18, 0x5165, 0x5F8C, 0x306E, 0x6B8B,
        0x9AD8, 0x3092, 0x640D, 0x76CA, 0x8A08, 0x7B97, 0x66F8, 0x6B04, 0x3078, 0x79FB, 0x8A18,
        0x3059, 0x308B, 0x52D8, 0x5B9A, 0x306F, 0x3069, 0x308C, 0x304B, 0x3002]])
      [cat [''A: '', jp [0x8CC7, 0x7523, 0x30FB, 0x8CA0, 0x50B5, 0x30FB, 0x7D14, 0x8CC7, 0x7523,
         0x306E, 0x52D8, 0x5B9A]],
       cat [''B: '', jp [0x53CE, 0x76CA, 0x30FB, 0x8CBB, 0x7528, 0x306E, 0x52D8, 0x5B9A]],
       cat [''C: '', jp [0x3059, 0x3079, 0x3066, 0x306E, 0x52D8, 0x5B9A]]]
      ''B'' (cat [jp [0x53CE, 0x76CA, 0x30FB, 0x8CBB, 0x7528, 0x306E, 0x52D8, 0x5B9A, 0x306F, 0x640D, 0x76CA,
        0x8A08, 0x7B97, 0x66F8, 0x6B04, 0x3078, 0x3001, 0x8CC7, 0x7523, 0x30FB, 0x8CA0, 0x50B5,
        0x30FB, 0x7D14, 0x8CC7, 0x7523, 0x306E, 0x52D8, 0x5B9A, 0x306F, 0x8CB8, 0x501F, 0x5BFE,
        0x7167, 0x8868, 0x6B04, 0x3078, 0x79FB, 0x8A18, 0x3059, 0x308B, 0x3002]]),
    choice_question ''ws-order-05'' ''worksheet'' qt_worksheet 2
      (cat [''8 '', jp [0x6841, 0x7CBE, 0x7B97, 0x8868, 0x306E, 0x4F5C, 0x6210, 0x624B, 0x9806, 0x3068,
        0x3057, 0x3066, 0x6B63, 0x3057, 0x3044, 0x3082, 0x306E, 0x306F, 0x3069, 0x308C, 0x304B,
        0x3002]])
      [cat [''A: '', jp [0x6B8B, 0x9AD8, 0x8A66, 0x7B97, 0x8868, 0x6B04], '' '', jp [0x2192], '' '', jp
         [0x4FEE, 0x6B63, 0x8A18, 0x5165, 0x6B04], '' '', jp [0x2192], '' '', jp [0x640D, 0x76CA,
         0x8A08, 0x7B97, 0x66F8, 0x6B04, 0x30FB, 0x8CB8, 0x501F, 0x5BFE, 0x7167, 0x8868, 0x6B04]],
       cat [''B: '', jp [0x640D, 0x76CA, 0x8A08, 0x7B97, 0x66F8, 0x6B04], '' '', jp [0x2192], '' '', jp
         [0x6B8B, 0x9AD8, 0x8A66, 0x7B97, 0x8868, 0x6B04], '' '', jp [0x2192], '' '', jp [0x4FEE,
         0x6B63, 0x8A18, 0x5165, 0x6B04]],
       cat [''C: '', jp [0x4FEE, 0x6B63, 0x8A18, 0x5165, 0x6B04], '' '', jp [0x2192], '' '', jp
         [0x6B8B, 0x9AD8, 0x8A66, 0x7B97, 0x8868, 0x6B04], '' '', jp [0x2192], '' '', jp [0x8CB8,
         0x501F, 0x5BFE, 0x7167, 0x8868, 0x6B04]]]
      ''A'' (cat [jp [0x6C7A, 0x7B97, 0x6574, 0x7406, 0x524D, 0x6B8B, 0x9AD8, 0x8A66, 0x7B97, 0x8868, 0x3092,
        0x66F8, 0x304D, 0x5199, 0x3057, 0x3001, 0x6C7A, 0x7B97, 0x6574, 0x7406, 0x4ED5, 0x8A33,
        0x3092, 0x4FEE, 0x6B63, 0x8A18, 0x5165, 0x6B04, 0x306B, 0x8A18, 0x5165, 0x3057, 0x3066,
        0x304B, 0x3089, 0x3001, 0x5404, 0x52D8, 0x5B9A, 0x3092, 0x640D, 0x76CA, 0x8A08, 0x7B97,
        0x66F8, 0x6B04, 0x30FB, 0x8CB8, 0x501F, 0x5BFE, 0x7167, 0x8868, 0x6B04, 0x3078, 0x632F,
        0x308A, 0x5206, 0x3051, 0x308B, 0x3002]])]"

definition fs_questions :: "seed_question list" where
  "fs_questions =
   [choice_question ''fs-allowance-01'' ''worksheet'' qt_fs 2
      (cat [jp [0x8CB8, 0x501F, 0x5BFE, 0x7167, 0x8868, 0x306B, 0x304A, 0x3051, 0x308B, 0x8CB8, 0x5012,
        0x5F15, 0x5F53, 0x91D1, 0x306E, 0x8868, 0x793A, 0x65B9, 0x6CD5, 0x3068, 0x3057, 0x3066,
        0x6B63, 0x3057, 0x3044, 0x3082, 0x306E, 0x306F, 0x3069, 0x308C, 0x304B, 0x3002]])
      [cat [''A: '', jp [0x8CA0, 0x50B5, 0x306E, 0x90E8, 0x306B, 0x8868, 0x793A, 0x3059, 0x308B]],
       cat [''B: '', jp [0x58F2, 0x639B, 0x91D1, 0x306A, 0x3069, 0x306E, 0x50B5, 0x6A29, 0x304B,
         0x3089, 0x63A7, 0x9664, 0x3059, 0x308B, 0x5F62, 0x5F0F, 0x3067, 0x8868, 0x793A, 0x3059,
         0x308B]],
       cat [''C: '', jp [0x7D14, 0x8CC7, 0x7523, 0x306E, 0x90E8, 0x306B, 0x8868, 0x793A, 0x3059,
         0x308B]]]
      ''B'' (cat [jp [0x8CB8, 0x5012, 0x5F15, 0x5F53, 0x91D1, 0x306F, 0x8CC7, 0x7523, 0x306E, 0x8A55, 0x4FA1,
        0x52D8, 0x5B9A, 0x3067, 0x3042, 0x308A, 0x3001, 0x8CB8, 0x501F, 0x5BFE, 0x7167, 0x8868,
        0x3067, 0x306F, 0x58F2, 0x639B, 0x91D1, 0x306A, 0x3069, 0x306E, 0x50B5, 0x6A29, 0x304B,
        0x3089, 0x63A7, 0x9664, 0x3059, 0x308B, 0x5F62, 0x5F0F, 0x3067, 0x8868, 0x793A, 0x3059,
        0x308B, 0x3002]]),
    choice_question ''fs-accdep-02'' ''worksheet'' qt_fs 2
      (cat [jp [0x8CB8, 0x501F, 0x5BFE, 0x7167, 0x8868, 0x306B, 0x304A, 0x3051, 0x308B, 0x6E1B, 0x4FA1,
        0x511F, 0x5374, 0x7D2F, 0x8A08, 0x984D, 0x306E, 0x8868, 0x793A, 0x65B9, 0x6CD5, 0x3068,
        0x3057, 0x3066, 0x6B63, 0x3057, 0x3044, 0x3082, 0x306E, 0x306F, 0x3069, 0x308C, 0x304B,
        0x3002]])
      [cat [''A: '', jp [0x6709, 0x5F62, 0x56FA, 0x5B9A, 0x8CC7, 0x7523, 0x306E, 0x53D6, 0x5F97,
         0x539F, 0x4FA1, 0x304B, 0x3089, 0x63A7, 0x9664, 0x3059, 0x308B, 0x5F62, 0x5F0F, 0x3067,
         0x8868, 0x793A, 0x3059, 0x308B]],
       cat [''B: '', jp [0x8CA0, 0x50B5, 0x306E, 0x90E8, 0x306B, 0x8868, 0x793A, 0x3059, 0x308B]],
       cat [''C: '', jp [0x8CBB, 0x7528, 0x3068, 0x3057, 0x3066, 0x640D, 0x76CA, 0x8A08, 0x7B97,
         0x66F8, 0x306B, 0x8868, 0x793A, 0x3059, 0x308B]]]
      ''A'' (cat [jp [0x6E1B, 0x4FA1, 0x511F, 0x5374, 0x7D2F, 0x8A08, 0x984D, 0x306F, 0x56FA, 0x5B9A, 0x8CC7,
        0x7523, 0x306E, 0x8A55, 0x4FA1, 0x52D8, 0x5B9A, 0x3067, 0x3042, 0x308A, 0x3001, 0x8CB8,
        0x501F, 0x5BFE, 0x7167, 0x8868, 0x3067, 0x306F, 0x5099, 0x54C1, 0x306A, 0x3069, 0x306E,
        0x53D6, 0x5F97, 0x539F, 0x4FA1, 0x304B, 0x3089, 0x63A7, 0x9664, 0x3059, 0x308B, 0x5F62,
        0x5F0F, 0x3067, 0x8868, 0x793A, 0x3059, 0x308B, 0x3002]]),
    choice_question ''fs-cogs-03'' ''worksheet'' qt_fs 2
      (cat [jp [0x4E09, 0x5206, 0x6CD5, 0x3067, 0x4ED5, 0x5165, 0x52D8, 0x5B9A, 0x306B, 0x3088, 0x308A,
        0x7B97, 0x5B9A, 0x3057, 0x305F, 0x58F2, 0x4E0A, 0x539F, 0x4FA1, 0x306F, 0x3001, 0x640D,
        0x76CA, 0x8A08, 0x7B97, 0x66F8, 0x3067, 0x306F, 0x3069, 0x306E, 0x79D1, 0x76EE, 0x3067,
        0x8868, 0x793A, 0x3055, 0x308C, 0x308B, 0x304B, 0x3002]])
      [cat [''A: '', jp [0x4ED5, 0x5165]],
       cat [''B: '', jp [0x58F2, 0x4E0A, 0x539F, 0x4FA1]],
       cat [''C: '', jp [0x7E70, 0x8D8A, 0x5546, 0x54C1]]]
      ''B'' (cat [jp [0x5E33, 0x7C3F, 0x4E0A, 0x306F, 0x4ED5, 0x5165, 0x52D8, 0x5B9A, 0x3067, 0x7B97, 0x5B9A,
        0x3059, 0x308B, 0x304C, 0x3001, 0x640D, 0x76CA, 0x8A08, 0x7B97, 0x66F8], '' ('', jp [0x5831,
        0x544A, 0x5F0F, 0x30FB, 0x52D8, 0x5B9A, 0x5F0F, 0x3068, 0x3082], '') '', jp [0x3067, 0x306F,
        0x300C, 0x58F2, 0x4E0A, 0x539F, 0x4FA1, 0x300D, 0x3068, 0x3057, 0x3066, 0x8868, 0x793A,
        0x3059, 0x308B, 0x3002]])]"

definition sl_questions :: "seed_question list" where
  "sl_questions =
   [choice_question ''sl-cash-in-01'' ''slip'' qt_slip 1
      (cat [''3 '', jp [0x4F1D, 0x7968, 0x5236], '' ('', jp [0x5165, 0x91D1, 0x30FB, 0x51FA, 0x91D1,
        0x30FB, 0x632F, 0x66FF], '') '', jp [0x306B, 0x304A, 0x3044, 0x3066, 0x3001, 0x5546, 0x54C1,
        0x306E, 0x73FE, 0x91D1, 0x58F2, 0x4E0A, 0x3092, 0x8D77, 0x7968, 0x3059, 0x308B, 0x4F1D,
        0x7968, 0x306F, 0x3069, 0x308C, 0x304B, 0x3002]])
      [cat [''A: '', jp [0x5165, 0x91D1, 0x4F1D, 0x7968]],
       cat [''B: '', jp [0x51FA, 0x91D1, 0x4F1D, 0x7968]],
       cat [''C: '', jp [0x632F, 0x66FF, 0x4F1D, 0x7968]]]
      ''A'' (cat [jp [0x73FE, 0x91D1, 0x306E, 0x53CE, 0x5165, 0x3092, 0x4F34, 0x3046, 0x53D6, 0x5F15, 0x306F,
        0x5165, 0x91D1, 0x4F1D, 0x7968, 0x3067, 0x8D77, 0x7968, 0x3059, 0x308B, 0x3002, 0x51FA,
        0x91D1, 0x4F1D, 0x7968, 0x306F, 0x73FE, 0x91D1, 0x652F, 0x51FA, 0x3001, 0x632F, 0x66FF,
        0x4F1D, 0x7968, 0x306F, 0x73FE, 0x91D1, 0x306E, 0x53CE, 0x652F, 0x3092, 0x4F34, 0x308F,
        0x306A, 0x3044, 0x53D6, 0x5F15, 0x306B, 0x7528, 0x3044, 0x308B, 0x3002]]),
    choice_question ''sl-cash-out-02'' ''slip'' qt_slip 1
      (cat [''3 '', jp [0x4F1D, 0x7968, 0x5236, 0x306B, 0x304A, 0x3044, 0x3066, 0x3001, 0x8CB7, 0x639B,
        0x91D1, 0x3092, 0x73FE, 0x91D1, 0x3067, 0x652F, 0x6255, 0x3063, 0x305F, 0x53D6, 0x5F15,
        0x3092, 0x8D77, 0x7968, 0x3059, 0x308B, 0x4F1D, 0x7968, 0x306F, 0x3069, 0x308C, 0x304B,
        0x3002]])
      [cat [''A: '', jp [0x5165, 0x91D1, 0x4F1D, 0x7968]],
       cat [''B: '', jp [0x51FA, 0x91D1, 0x4F1D, 0x7968]],
       cat [''C: '', jp [0x632F, 0x66FF, 0x4F1D, 0x7968]]]
      ''B'' (cat [jp [0x73FE, 0x91D1, 0x306E, 0x652F, 0x51FA, 0x3092, 0x4F34, 0x3046, 0x53D6, 0x5F15, 0x306F,
        0x51FA, 0x91D1, 0x4F1D, 0x7968, 0x3067, 0x8D77, 0x7968, 0x3059, 0x308B, 0x3002]]),
    choice_question ''sl-transfer-03'' ''slip'' qt_slip 1
      (cat [''3 '', jp [0x4F1D, 0x7968, 0x5236, 0x306B, 0x304A, 0x3044, 0x3066, 0x3001, 0x5546, 0x54C1,
        0x3092, 0x639B, 0x3051, 0x3067, 0x58F2, 0x308A, 0x4E0A, 0x3052, 0x305F, 0x53D6, 0x5F15,
        0x3092, 0x8D77, 0x7968, 0x3059, 0x308B, 0x4F1D, 0x7968, 0x306F, 0x3069, 0x308C, 0x304B,
        0x3002]])
      [cat [''A: '', jp [0x5165, 0x91D1, 0x4F1D, 0x7968]],
       cat [''B: '', jp [0x51FA, 0x91D1, 0x4F1D, 0x7968]],
       cat [''C: '', jp [0x632F, 0x66FF, 0x4F1D, 0x7968]]]
      ''C'' (cat [jp [0x73FE, 0x91D1, 0x306E, 0x53CE, 0x652F, 0x3092, 0x4F34, 0x308F, 0x306A, 0x3044, 0x53D6,
        0x5F15], '' ('', jp [0x639B, 0x58F2, 0x4E0A, 0x30FB, 0x639B, 0x4ED5, 0x5165, 0x306A,
        0x3069], '') '', jp [0x306F, 0x632F, 0x66FF, 0x4F1D, 0x7968, 0x3067, 0x8D77, 0x7968, 0x3059,
        0x308B, 0x3002]]),
    choice_question ''sl-partial-split-04'' ''slip'' qt_slip 2
      (cat [jp [0x5546, 0x54C1], '' 100,000 '', jp [0x5186, 0x3092, 0x58F2, 0x308A, 0x4E0A, 0x3052,
        0x3001], ''50,000 '', jp [0x5186, 0x306F, 0x73FE, 0x91D1, 0x3067, 0x53D7, 0x3051, 0x53D6,
        0x308A, 0x6B8B, 0x984D, 0x3092, 0x639B, 0x3051, 0x3068, 0x3057, 0x305F, 0x3002, 0x300C,
        0x53D6, 0x5F15, 0x3092, 0x5206, 0x89E3, 0x3059, 0x308B, 0x65B9, 0x6CD5, 0x300D, 0x3067,
        0x8D77, 0x7968, 0x3059, 0x308B, 0x5834, 0x5408, 0x306E, 0x6B63, 0x3057, 0x3044, 0x7D44,
        0x5408, 0x305B, 0x306F, 0x3069, 0x308C, 0x304B, 0x3002]])
      [cat [''A: '', jp [0x5165, 0x91D1, 0x4F1D, 0x7968], '' ('', jp [0x58F2, 0x4E0A], '' 50,000) '',
         jp [0x3068, 0x632F, 0x66FF, 0x4F1D, 0x7968], '' ('', jp [0x58F2, 0x639B, 0x91D1],
         '' 50,000 / '', jp [0x58F2, 0x4E0A], '' 50,000)''],
       cat [''B: '', jp [0x632F, 0x66FF, 0x4F1D, 0x7968], '' ('', jp [0x58F2, 0x639B, 0x91D1],
         '' 100,000 / '', jp [0x58F2, 0x4E0A], '' 100,000) '', jp [0x306E, 0x307F]],
       cat [''C: '', jp [0x5165, 0x91D1, 0x4F1D, 0x7968], '' ('', jp [0x58F2, 0x4E0A], '' 100,000) '',
         jp [0x306E, 0x307F]]]
      ''A'' (cat [jp [0x53D6, 0x5F15, 0x3092, 0x5206, 0x89E3, 0x3059, 0x308B, 0x65B9, 0x6CD5, 0x3067, 0x306F,
        0x3001, 0x73FE, 0x91D1, 0x90E8, 0x5206, 0x3092, 0x5165, 0x91D1, 0x4F1D, 0x7968], '' ('', jp
        [0x58F2, 0x4E0A], '' 50,000)'', jp [0x3001, 0x639B, 0x3051, 0x90E8, 0x5206, 0x3092, 0x632F,
        0x66FF, 0x4F1D, 0x7968], '' ('', jp [0x58F2, 0x639B, 0x91D1], '' 50,000 / '', jp [0x58F2,
        0x4E0A], '' 50,000) '', jp [0x306B, 0x5206, 0x3051, 0x3066, 0x8D77, 0x7968, 0x3059, 0x308B,
        0x3002]]),
    choice_question ''sl-partial-fiction-05'' ''slip'' qt_slip 2
      (cat [jp [0x540C, 0x3058, 0x53D6, 0x5F15], '' ('', jp [0x58F2, 0x4E0A], '' 100,000 '', jp [0x5186,
        0x306E, 0x3046, 0x3061, 0x73FE, 0x91D1], '' 50,000 '', jp [0x5186, 0x30FB, 0x6B8B, 0x984D,
        0x639B, 0x3051], '') '', jp [0x3092, 0x300C, 0x3044, 0x3063, 0x305F, 0x3093, 0x5168, 0x984D,
        0x3092, 0x639B, 0x3051, 0x53D6, 0x5F15, 0x3068, 0x307F, 0x306A, 0x3059, 0x65B9, 0x6CD5,
        0x300D, 0x3067, 0x8D77, 0x7968, 0x3059, 0x308B, 0x5834, 0x5408, 0x306E, 0x6B63, 0x3057,
        0x3044, 0x7D44, 0x5408, 0x305B, 0x306F, 0x3069, 0x308C, 0x304B, 0x3002]])
      [cat [''A: '', jp [0x632F, 0x66FF, 0x4F1D, 0x7968], '' ('', jp [0x58F2, 0x639B, 0x91D1],
         '' 100,000 / '', jp [0x58F2, 0x4E0A], '' 100,000) '', jp [0x3068, 0x5165, 0x91D1, 0x4F1D,
         0x7968], '' ('', jp [0x58F2, 0x639B, 0x91D1], '' 50,000)''],
       cat [''B: '', jp [0x5165, 0x91D1, 0x4F1D, 0x7968], '' ('', jp [0x58F2, 0x4E0A], '' 50,000) '',
         jp [0x3068, 0x51FA, 0x91D1, 0x4F1D, 0x7968], '' ('', jp [0x58F2, 0x639B, 0x91D1],
         '' 50,000)''],
       cat [''C: '', jp [0x632F, 0x66FF, 0x4F1D, 0x7968], '' ('', jp [0x73FE, 0x91D1], '' 50,000 / '',
         jp [0x58F2, 0x4E0A], '' 100,000)'']]
      ''A'' (cat [jp [0x64EC, 0x5236, 0x6CD5, 0x3067, 0x306F, 0x5168, 0x984D, 0x3092, 0x3044, 0x3063, 0x305F,
        0x3093, 0x639B, 0x58F2, 0x4E0A, 0x3068, 0x3057, 0x3066, 0x632F, 0x66FF, 0x4F1D, 0x7968,
        0x306B, 0x8D77, 0x7968, 0x3057, 0x3001, 0x73FE, 0x91D1, 0x53D7, 0x53D6, 0x5206, 0x3092,
        0x58F2, 0x639B, 0x91D1, 0x306E, 0x56DE, 0x53CE, 0x3068, 0x3057, 0x3066, 0x5165, 0x91D1,
        0x4F1D, 0x7968, 0x306B, 0x8D77, 0x7968, 0x3059, 0x308B, 0x3002]])]"

definition sb_questions :: "seed_question list" where
  "sb_questions =
   [choice_question ''sb-credit-purch-01'' ''slip'' qt_subbook 2
      (cat [jp [0x5546, 0x54C1, 0x3092, 0x639B, 0x3051, 0x3067, 0x4ED5, 0x5165, 0x308C, 0x305F, 0x5834,
        0x5408, 0x306B, 0x8A18, 0x5165, 0x3055, 0x308C, 0x308B, 0x88DC, 0x52A9, 0x7C3F, 0x306E,
        0x7D44, 0x5408, 0x305B, 0x3068, 0x3057, 0x3066, 0x6B63, 0x3057, 0x3044, 0x3082, 0x306E,
        0x306F, 0x3069, 0x308C, 0x304B, 0x3002]])
      [cat [''A: '', jp [0x4ED5, 0x5165, 0x5E33, 0x30FB, 0x8CB7, 0x639B, 0x91D1, 0x5143, 0x5E33,
         0x30FB, 0x5546, 0x54C1, 0x6709, 0x9AD8, 0x5E33]],
       cat [''B: '', jp [0x73FE, 0x91D1, 0x51FA, 0x7D0D, 0x5E33, 0x30FB, 0x4ED5, 0x5165, 0x5E33]],
       cat [''C: '', jp [0x58F2, 0x4E0A, 0x5E33, 0x30FB, 0x58F2, 0x639B, 0x91D1, 0x5143, 0x5E33]]]
      ''A'' (cat [jp [0x639B, 0x4ED5, 0x5165, 0x3067, 0x306F, 0x4ED5, 0x5165, 0x5E33, 0x3068, 0x8CB7, 0x639B,
        0x91D1, 0x5143, 0x5E33], '' ('', jp [0x4ED5, 0x5165, 0x5148, 0x5143, 0x5E33], '')'', jp
        [0x3001, 0x304A, 0x3088, 0x3073, 0x5546, 0x54C1, 0x306E, 0x53D7, 0x5165, 0x308C, 0x3068,
        0x3057, 0x3066, 0x5546, 0x54C1, 0x6709, 0x9AD8, 0x5E33, 0x306B, 0x8A18, 0x5165, 0x3059,
        0x308B, 0x3002, 0x73FE, 0x91D1, 0x306E, 0x52D5, 0x304D, 0x306F, 0x306A, 0x3044, 0x305F,
        0x3081, 0x73FE, 0x91D1, 0x51FA, 0x7D0D, 0x5E33, 0x306B, 0x306F, 0x8A18, 0x5165, 0x3057,
        0x306A, 0x3044, 0x3002]]),
    choice_question ''sb-collect-02'' ''slip'' qt_subbook 2
      (cat [jp [0x58F2, 0x639B, 0x91D1, 0x3092, 0x73FE, 0x91D1, 0x3067, 0x56DE, 0x53CE, 0x3057, 0x305F,
        0x5834, 0x5408, 0x306B, 0x8A18, 0x5165, 0x3055, 0x308C, 0x308B, 0x88DC, 0x52A9, 0x7C3F,
        0x306E, 0x7D44, 0x5408, 0x305B, 0x3068, 0x3057, 0x3066, 0x6B63, 0x3057, 0x3044, 0x3082,
        0x306E, 0x306F, 0x3069, 0x308C, 0x304B, 0x3002]])
      [cat [''A: '', jp [0x73FE, 0x91D1, 0x51FA, 0x7D0D, 0x5E33, 0x30FB, 0x58F2, 0x639B, 0x91D1,
         0x5143, 0x5E33]],
       cat [''B: '', jp [0x58F2, 0x4E0A, 0x5E33, 0x30FB, 0x5546, 0x54C1, 0x6709, 0x9AD8, 0x5E33]],
       cat [''C: '', jp [0x5F53, 0x5EA7, 0x9810, 0x91D1, 0x51FA, 0x7D0D, 0x5E33, 0x30FB, 0x8CB7,
         0x639B, 0x91D1, 0x5143, 0x5E33]]]
      ''A'' (cat [jp [0x73FE, 0x91D1, 0x306E, 0x5897, 0x52A0, 0x3092, 0x73FE, 0x91D1, 0x51FA, 0x7D0D, 0x5E33,
        0x306B, 0x3001, 0x58F2, 0x639B, 0x91D1, 0x306E, 0x6E1B, 0x5C11, 0x3092, 0x58F2, 0x639B,
        0x91D1, 0x5143, 0x5E33], '' ('', jp [0x5F97, 0x610F, 0x5148, 0x5143, 0x5E33], '') '', jp
        [0x306B, 0x8A18, 0x5165, 0x3059, 0x308B, 0x3002, 0x5546, 0x54C1, 0x306F, 0x52D5, 0x304B,
        0x306A, 0x3044, 0x305F, 0x3081, 0x58F2, 0x4E0A, 0x5E33, 0x30FB, 0x5546, 0x54C1, 0x6709,
        0x9AD8, 0x5E33, 0x306B, 0x306F, 0x8A18, 0x5165, 0x3057, 0x306A, 0x3044, 0x3002]]),
    choice_question ''sb-note-sale-03'' ''slip'' qt_subbook 2
      (cat [jp [0x5546, 0x54C1, 0x3092, 0x58F2, 0x308A, 0x4E0A, 0x3052, 0x3001, 0x4EE3, 0x91D1, 0x3068,
        0x3057, 0x3066, 0x7D04, 0x675F, 0x624B, 0x5F62, 0x3092, 0x53D7, 0x3051, 0x53D6, 0x3063,
        0x305F, 0x5834, 0x5408, 0x306B, 0x8A18, 0x5165, 0x3055, 0x308C, 0x308B, 0x88DC, 0x52A9,
        0x7C3F, 0x306E, 0x7D44, 0x5408, 0x305B, 0x3068, 0x3057, 0x3066, 0x6B63, 0x3057, 0x3044,
        0x3082, 0x306E, 0x306F, 0x3069, 0x308C, 0x304B, 0x3002]])
      [cat [''A: '', jp [0x58F2, 0x4E0A, 0x5E33, 0x30FB, 0x5546, 0x54C1, 0x6709, 0x9AD8, 0x5E33,
         0x30FB, 0x53D7, 0x53D6, 0x624B, 0x5F62, 0x8A18, 0x5165, 0x5E33]],
       cat [''B: '', jp [0x73FE, 0x91D1, 0x51FA, 0x7D0D, 0x5E33, 0x30FB, 0x58F2, 0x4E0A, 0x5E33]],
       cat [''C: '', jp [0x652F, 0x6255, 0x624B, 0x5F62, 0x8A18, 0x5165, 0x5E33, 0x30FB, 0x8CB7,
         0x639B, 0x91D1, 0x5143, 0x5E33]]]
      ''A'' (cat [jp [0x58F2, 0x4E0A, 0x53D6, 0x5F15, 0x306A, 0x306E, 0x3067, 0x58F2, 0x4E0A, 0x5E33, 0x3068,
        0x5546, 0x54C1, 0x6709, 0x9AD8, 0x5E33], '' ('', jp [0x6255, 0x51FA, 0x3057], '')'', jp
        [0x3001, 0x624B, 0x5F62, 0x50B5, 0x6A29, 0x306E, 0x767A, 0x751F, 0x3068, 0x3057, 0x3066,
        0x53D7, 0x53D6, 0x624B, 0x5F62, 0x8A18, 0x5165, 0x5E33, 0x306B, 0x8A18, 0x5165, 0x3059,
        0x308B, 0x3002]]),
    choice_question ''sb-checking-04'' ''slip'' qt_subbook 2
      (cat [jp [0x8CB7, 0x639B, 0x91D1, 0x3092, 0x5C0F, 0x5207, 0x624B, 0x3092, 0x632F, 0x308A, 0x51FA,
        0x3057, 0x3066, 0x652F, 0x6255, 0x3063, 0x305F, 0x5834, 0x5408, 0x306B, 0x8A18, 0x5165,
        0x3055, 0x308C, 0x308B, 0x88DC, 0x52A9, 0x7C3F, 0x306E, 0x7D44, 0x5408, 0x305B, 0x3068,
        0x3057, 0x3066, 0x6B63, 0x3057, 0x3044, 0x3082, 0x306E, 0x306F, 0x3069, 0x308C, 0x304B,
        0x3002]])
      [cat [''A: '', jp [0x5F53, 0x5EA7, 0x9810, 0x91D1, 0x51FA, 0x7D0D, 0x5E33, 0x30FB, 0x8CB7,
         0x639B, 0x91D1, 0x5143, 0x5E33]],
       cat [''B: '', jp [0x73FE, 0x91D1, 0x51FA, 0x7D0D, 0x5E33, 0x30FB, 0x8CB7, 0x639B, 0x91D1,
         0x5143, 0x5E33]],
       cat [''C: '', jp [0x5F53, 0x5EA7, 0x9810, 0x91D1, 0x51FA, 0x7D0D, 0x5E33, 0x30FB, 0x58F2,
         0x639B, 0x91D1, 0x5143, 0x5E33]]]
      ''A'' (cat [jp [0x5C0F, 0x5207, 0x624B, 0x306E, 0x632F, 0x51FA, 0x3057, 0x306F, 0x5F53, 0x5EA7, 0x9810,
        0x91D1, 0x306E, 0x6E1B, 0x5C11, 0x306A, 0x306E, 0x3067, 0x5F53, 0x5EA7, 0x9810, 0x91D1,
        0x51FA, 0x7D0D, 0x5E33, 0x306B, 0x3001, 0x8CB7, 0x639B, 0x91D1, 0x306E, 0x6E1B, 0x5C11,
        0x306F, 0x8CB7, 0x639B, 0x91D1, 0x5143, 0x5E33, 0x306B, 0x8A18, 0x5165, 0x3059, 0x308B,
        0x3002]]),
    choice_question ''sb-asset-05'' ''slip'' qt_subbook 2
      (cat [jp [0x5099, 0x54C1, 0x3092, 0x73FE, 0x91D1, 0x3067, 0x8CFC, 0x5165, 0x3057, 0x305F, 0x5834,
        0x5408, 0x306B, 0x8A18, 0x5165, 0x3055, 0x308C, 0x308B, 0x88DC, 0x52A9, 0x7C3F, 0x3068,
        0x3057, 0x3066, 0x6B63, 0x3057, 0x3044, 0x3082, 0x306E, 0x306F, 0x3069, 0x308C, 0x304B,
        0x3002]])
      [cat [''A: '', jp [0x73FE, 0x91D1, 0x51FA, 0x7D0D, 0x5E33, 0x3068, 0x56FA, 0x5B9A, 0x8CC7,
         0x7523, 0x53F0, 0x5E33]],
       cat [''B: '', jp [0x4ED5, 0x5165, 0x5E33, 0x3068, 0x5546, 0x54C1, 0x6709, 0x9AD8, 0x5E33]],
       cat [''C: '', jp [0x8CB7, 0x639B, 0x91D1, 0x5143, 0x5E33, 0x306E, 0x307F]]]
      ''A'' (cat [jp [0x73FE, 0x91D1, 0x306E, 0x652F, 0x51FA, 0x3092, 0x73FE, 0x91D1, 0x51FA, 0x7D0D, 0x5E33,
        0x306B, 0x3001, 0x56FA, 0x5B9A, 0x8CC7, 0x7523, 0x306E, 0x53D6, 0x5F97, 0x3092, 0x56FA,
        0x5B9A, 0x8CC7, 0x7523, 0x53F0, 0x5E33, 0x306B, 0x8A18, 0x5165, 0x3059, 0x308B, 0x3002,
        0x5099, 0x54C1, 0x306F, 0x5546, 0x54C1, 0x3067, 0x306F, 0x306A, 0x3044, 0x305F, 0x3081,
        0x4ED5, 0x5165, 0x5E33, 0x30FB, 0x5546, 0x54C1, 0x6709, 0x9AD8, 0x5E33, 0x306B, 0x306F,
        0x8A18, 0x5165, 0x3057, 0x306A, 0x3044, 0x3002]]),
    choice_question ''sb-kinds-06'' ''slip'' qt_subbook 2
      (cat [jp [0x88DC, 0x52A9, 0x7C3F, 0x306E, 0x5206, 0x985E, 0x3068, 0x3057, 0x3066, 0x6B63, 0x3057,
        0x3044, 0x3082, 0x306E, 0x306F, 0x3069, 0x308C, 0x304B, 0x3002]])
      [cat [''A: '', jp [0x73FE, 0x91D1, 0x51FA, 0x7D0D, 0x5E33, 0x306F, 0x88DC, 0x52A9, 0x8A18,
         0x5165, 0x5E33, 0x3001, 0x58F2, 0x639B, 0x91D1, 0x5143, 0x5E33, 0x306F, 0x88DC, 0x52A9,
         0x5143, 0x5E33, 0x3067, 0x3042, 0x308B]],
       cat [''B: '', jp [0x73FE, 0x91D1, 0x51FA, 0x7D0D, 0x5E33, 0x306F, 0x88DC, 0x52A9, 0x5143,
         0x5E33, 0x3001, 0x58F2, 0x639B, 0x91D1, 0x5143, 0x5E33, 0x306F, 0x88DC, 0x52A9, 0x8A18,
         0x5165, 0x5E33, 0x3067, 0x3042, 0x308B]],
       cat [''C: '', jp [0x3069, 0x3061, 0x3089, 0x3082, 0x4E3B, 0x8981, 0x7C3F, 0x3067, 0x3042,
         0x308B]]]
      ''A'' (cat [jp [0x53D6, 0x5F15, 0x306E, 0x660E, 0x7D30, 0x3092, 0x767A, 0x751F, 0x9806, 0x306B, 0x8A18,
        0x9332, 0x3059, 0x308B, 0x306E, 0x304C, 0x88DC, 0x52A9, 0x8A18, 0x5165, 0x5E33], '' ('', jp
        [0x73FE, 0x91D1, 0x51FA, 0x7D0D, 0x5E33, 0x30FB, 0x4ED5, 0x5165, 0x5E33, 0x306A, 0x3069],
        '')'', jp [0x3001, 0x7279, 0x5B9A, 0x306E, 0x52D8, 0x5B9A, 0x306E, 0x5185, 0x8A33, 0x3092,
        0x53E3, 0x5EA7, 0x5225, 0x306B, 0x8A18, 0x9332, 0x3059, 0x308B, 0x306E, 0x304C, 0x88DC,
        0x52A9, 0x5143, 0x5E33], '' ('', jp [0x58F2, 0x639B, 0x91D1, 0x5143, 0x5E33, 0x30FB, 0x8CB7,
        0x639B, 0x91D1, 0x5143, 0x5E33, 0x306A, 0x3069], '')'', jp [0x3002, 0x4E3B, 0x8981, 0x7C3F,
        0x306F, 0x4ED5, 0x8A33, 0x5E33, 0x3068, 0x7DCF, 0x52D8, 0x5B9A, 0x5143, 0x5E33, 0x3067,
        0x3042, 0x308B, 0x3002]])]"

definition iv_questions :: "seed_question list" where
  "iv_questions =
   [choice_question ''iv-fifo-price-01'' ''inventory'' qt_subbook 2
      (cat [jp [0x5148, 0x5165, 0x5148, 0x51FA, 0x6CD5, 0x3092, 0x63A1, 0x7528, 0x3057, 0x3066, 0x3044,
        0x308B, 0x5834, 0x5408, 0x3001, 0x6708, 0x672B, 0x5728, 0x5EAB, 0x306E, 0x5358, 0x4FA1,
        0x306F, 0x3069, 0x306E, 0x5358, 0x4FA1, 0x306B, 0x306A, 0x308B, 0x304B, 0x3002]])
      [cat [''A: '', jp [0x6700, 0x3082, 0x65B0, 0x3057, 0x3044, 0x4ED5, 0x5165, 0x5358, 0x4FA1,
         0x304B, 0x3089, 0x9806, 0x306B, 0x69CB, 0x6210, 0x3055, 0x308C, 0x308B]],
       cat [''B: '', jp [0x6700, 0x3082, 0x53E4, 0x3044, 0x4ED5, 0x5165, 0x5358, 0x4FA1, 0x304B,
         0x3089, 0x9806, 0x306B, 0x69CB, 0x6210, 0x3055, 0x308C, 0x308B]],
       cat [''C: '', jp [0x671F, 0x9593, 0x4E2D, 0x306E, 0x5E73, 0x5747, 0x5358, 0x4FA1, 0x306B,
         0x306A, 0x308B]]]
      ''A'' (cat [jp [0x5148, 0x5165, 0x5148, 0x51FA, 0x6CD5, 0x3067, 0x306F, 0x5148, 0x306B, 0x4ED5, 0x5165,
        0x308C, 0x305F, 0x5546, 0x54C1, 0x304B, 0x3089, 0x6255, 0x3044, 0x51FA, 0x3059, 0x3068,
        0x4EEE, 0x5B9A, 0x3059, 0x308B, 0x305F, 0x3081, 0x3001, 0x6708, 0x672B, 0x5728, 0x5EAB,
        0x306F, 0x65B0, 0x3057, 0x3044, 0x4ED5, 0x5165, 0x5358, 0x4FA1, 0x306E, 0x3082, 0x306E,
        0x304B, 0x3089, 0x69CB, 0x6210, 0x3055, 0x308C, 0x308B, 0x3002]]),
    choice_question ''iv-fifo-calc-02'' ''inventory'' qt_subbook 2
      (cat [jp [0x671F, 0x9996, 0x5728, 0x5EAB], '' 10 '', jp [0x500B], '' (@100 '', jp [0x5186], '')'',
        jp [0x3001, 0x5F53, 0x6708, 0x4ED5, 0x5165], '' 20 '', jp [0x500B], '' (@130 '', jp
        [0x5186], '') '', jp [0x306E, 0x3068, 0x304D, 0x3001, 0x5148, 0x5165, 0x5148, 0x51FA,
        0x6CD5, 0x3067], '' 15 '', jp [0x500B, 0x3092, 0x6255, 0x3044, 0x51FA, 0x3057, 0x305F,
        0x5834, 0x5408, 0x306E, 0x6255, 0x51FA, 0x539F, 0x4FA1, 0x306F, 0x3044, 0x304F, 0x3089,
        0x304B, 0x3002]])
      [cat [''A: 1,650 '', jp [0x5186]],
       cat [''B: 1,950 '', jp [0x5186]],
       cat [''C: 1,800 '', jp [0x5186]]]
      ''A'' (cat [jp [0x5148, 0x5165, 0x5148, 0x51FA, 0x6CD5, 0x3067, 0x306F, 0x671F, 0x9996, 0x306E],
        '' 10 '', jp [0x500B], '' (@100 '', jp [0x5186], '' = 1,000 '', jp [0x5186], '') '', jp
        [0x3092, 0x5148, 0x306B, 0x6255, 0x3044, 0x51FA, 0x3057, 0x3001, 0x6B8B, 0x308A], '' 5 '',
        jp [0x500B, 0x306F, 0x5F53, 0x6708, 0x4ED5, 0x5165, 0x5206], '' (@130 '', jp [0x5186],
        '' = 650 '', jp [0x5186], '')'', jp [0x3002, 0x5408, 0x8A08], '' 1,650 '', jp [0x5186,
        0x3002]]),
    choice_question ''iv-moving-03'' ''inventory'' qt_subbook 2
      (cat [jp [0x79FB, 0x52D5, 0x5E73, 0x5747, 0x6CD5, 0x306B, 0x304A, 0x3044, 0x3066, 0x5E73, 0x5747,
        0x5358, 0x4FA1, 0x3092, 0x8A08, 0x7B97, 0x3057, 0x76F4, 0x3059, 0x30BF, 0x30A4, 0x30DF,
        0x30F3, 0x30B0, 0x306F, 0x3044, 0x3064, 0x304B, 0x3002]])
      [cat [''A: '', jp [0x5546, 0x54C1, 0x3092, 0x4ED5, 0x5165, 0x308C, 0x308B, 0x305F, 0x3073]],
       cat [''B: '', jp [0x5546, 0x54C1, 0x3092, 0x58F2, 0x308A, 0x4E0A, 0x3052, 0x308B, 0x305F,
         0x3073]],
       cat [''C: '', jp [0x6708, 0x672B, 0x306B, 0x4E00, 0x62EC, 0x3057, 0x3066]]]
      ''A'' (cat [jp [0x79FB, 0x52D5, 0x5E73, 0x5747, 0x6CD5, 0x3067, 0x306F, 0x4ED5, 0x5165, 0x306E, 0x3064,
        0x3069], '' ('', jp [0x53D7, 0x5165, 0x306E, 0x3064, 0x3069], '') '', jp [0x5728, 0x5EAB,
        0x91D1, 0x984D, 0x3068, 0x6570, 0x91CF, 0x304B, 0x3089, 0x5E73, 0x5747, 0x5358, 0x4FA1,
        0x3092, 0x8A08, 0x7B97, 0x3057, 0x76F4, 0x3057, 0x3001, 0x6255, 0x51FA, 0x5358, 0x4FA1,
        0x306B, 0x7528, 0x3044, 0x308B, 0x3002]]),
    choice_question ''iv-cost-04'' ''inventory'' qt_subbook 2
      (cat [jp [0x5546, 0x54C1, 0x6709, 0x9AD8, 0x5E33, 0x306B, 0x8A18, 0x5165, 0x3059, 0x308B, 0x91D1,
        0x984D, 0x306B, 0x3064, 0x3044, 0x3066, 0x6B63, 0x3057, 0x3044, 0x3082, 0x306E, 0x306F,
        0x3069, 0x308C, 0x304B, 0x3002]])
      [cat [''A: '', jp [0x53D7, 0x5165, 0x30FB, 0x6255, 0x51FA, 0x3068, 0x3082, 0x539F, 0x4FA1,
         0x3067, 0x8A18, 0x5165, 0x3059, 0x308B]],
       cat [''B: '', jp [0x6255, 0x51FA, 0x306F, 0x58F2, 0x4FA1, 0x3067, 0x8A18, 0x5165, 0x3059,
         0x308B]],
       cat [''C: '', jp [0x53D7, 0x5165, 0x306F, 0x58F2, 0x4FA1, 0x3001, 0x6255, 0x51FA, 0x306F,
         0x539F, 0x4FA1, 0x3067, 0x8A18, 0x5165, 0x3059, 0x308B]]]
      ''A'' (cat [jp [0x5546, 0x54C1, 0x6709, 0x9AD8, 0x5E33, 0x306F, 0x5546, 0x54C1, 0x306E, 0x5728, 0x5EAB,
        0x7BA1, 0x7406, 0x306E, 0x305F, 0x3081, 0x306E, 0x5E33, 0x7C3F, 0x3067, 0x3042, 0x308A,
        0x3001, 0x53D7, 0x5165, 0x30FB, 0x6255, 0x51FA, 0x30FB, 0x6B8B, 0x9AD8, 0x306E, 0x3059,
        0x3079, 0x3066, 0x3092, 0x539F, 0x4FA1, 0x3067, 0x8A18, 0x5165, 0x3059, 0x308B, 0x3002,
        0x58F2, 0x4FA1, 0x306F, 0x7528, 0x3044, 0x306A, 0x3044, 0x3002]])]"

definition choice_questions :: "seed_question list" where
  "choice_questions =
     tb_questions @ lg_questions @ ws_questions @ fs_questions @ sl_questions @ sb_questions @
     iv_questions"

lemma choice_questions_keys:
  "map (\<lambda>q. (sq_code q, sq_topic_code q)) choice_questions =
    [(''tb-balance-01'', ''trial_balance''), (''tb-mismatch-02'', ''trial_balance''),
     (''tb-kinds-03'', ''trial_balance''), (''tb-undetectable-04'', ''trial_balance''),
     (''tb-source-05'', ''trial_balance''), (''tb-total-06'', ''trial_balance''), (''lg-cash-01'',
     ''trial_balance''), (''lg-payable-02'', ''trial_balance''), (''lg-revenue-03'',
     ''trial_balance''), (''ws-diff-01'', ''worksheet''), (''ws-column-02'', ''worksheet''),
     (''ws-profit-side-03'', ''worksheet''), (''ws-flow-04'', ''worksheet''), (''ws-order-05'',
     ''worksheet''), (''fs-allowance-01'', ''worksheet''), (''fs-accdep-02'', ''worksheet''),
     (''fs-cogs-03'', ''worksheet''), (''sl-cash-in-01'', ''slip''), (''sl-cash-out-02'', ''slip''),
     (''sl-transfer-03'', ''slip''), (''sl-partial-split-04'', ''slip''),
     (''sl-partial-fiction-05'', ''slip''), (''sb-credit-purch-01'', ''slip''), (''sb-collect-02'',
     ''slip''), (''sb-note-sale-03'', ''slip''), (''sb-checking-04'', ''slip''), (''sb-asset-05'',
     ''slip''), (''sb-kinds-06'', ''slip''), (''iv-fifo-price-01'', ''inventory''),
     (''iv-fifo-calc-02'', ''inventory''), (''iv-moving-03'', ''inventory''), (''iv-cost-04'',
     ''inventory'')]"
  by (simp add: choice_questions_def choice_question_def tb_questions_def lg_questions_def ws_questions_def fs_questions_def sl_questions_def sb_questions_def iv_questions_def)

lemma choice_questions_sound: "list_all choice_sound choice_questions"
  unfolding choice_questions_def tb_questions_def lg_questions_def ws_questions_def fs_questions_def sl_questions_def sb_questions_def iv_questions_def list_all_append list.pred_inject
  by (intro conjI TrueI choice_question_sound) (simp_all add: cat_def has_prefix_def question_type_is_valid_def qt_defs byte_def)

end
