(* ===== verification/Bank.thy ===== *)
theory Bank
  imports BankMerch BankCash BankReceivable BankNotesLoans BankFixedOther BankTaxWageCapital BankAdjust BankChoice
begin

text \<open>
  The whole question bank (\<^verbatim>\<open>Generate\<close> in \<^verbatim>\<open>seed/generator.go\<close>) and what makes it sound: it can
  be built, its codes are unique, its journal entries balance in standard accounts, its choice
  questions offer their answer.
\<close>

definition generate :: "seed_question list option" where
  "generate =
     do {
       merch \<leftarrow> expand_patterns merch_patterns;
       cash \<leftarrow> expand_patterns cash_patterns;
       receivable \<leftarrow> expand_patterns receivable_patterns;
       notes_loan \<leftarrow> expand_patterns notes_loan_patterns;
       fixed_other \<leftarrow> expand_patterns fixed_other_patterns;
       tax_wage_capital \<leftarrow> expand_patterns tax_wage_capital_patterns;
       adjustment \<leftarrow> expand_patterns adjustment_patterns;
       Some (merch @ cash @ receivable @ notes_loan @ fixed_other @ tax_wage_capital @ adjustment
         @ choice_questions)
     }"

section \<open>Expansion\<close>

definition all_patterns :: "bank_pattern list" where
  "all_patterns = merch_patterns @ cash_patterns @ receivable_patterns @ notes_loan_patterns
     @ fixed_other_patterns @ tax_wage_capital_patterns @ adjustment_patterns"

definition variants :: "bank_pattern \<Rightarrow> seed_question list" where
  "variants p = map (\<lambda>i. the (variant p i)) [0..<pt_n p]"

definition variant_code :: "string \<times> nat \<Rightarrow> string" where
  "variant_code k = fst k @ ''-'' @ pad3 (int (snd k) + 1)"

lemma sprintf_code [simp]: "sprintf ''%s-%03d'' [Str p, Num k] = p @ ''-'' @ pad3 k"
  by (simp add: sprintf.simps verb_def)

lemma variant_built:
  assumes "pattern_sound p" "i < pt_n p"
  obtains t ds cs where "variant p i = Some ((journal_question (variant_code (pt_prefix p, i)) (pt_topic p) t (pt_expl p) ds cs
      ([set_code_journal, set_code_comprehensive] @ (if i = 0 then [set_code_core] else [])))\<lparr>sq_difficulty := pt_diff p\<rparr>)"
    "balanced ds cs"
proof -
  have "case pt_build p (int i) of None \<Rightarrow> False | Some (_, ds, cs) \<Rightarrow> balanced ds cs"
    using assms by (simp add: pattern_sound_def list_all_iff)
  then obtain t ds cs where "pt_build p (int i) = Some (t, ds, cs)" "balanced ds cs"
    by (auto split: option.splits prod.splits)
  then show thesis by (intro that [of t ds cs]) (simp_all add: variant_def variant_code_def)
qed

lemma those_map: "(\<And>x. x \<in> set xs \<Longrightarrow> f x \<noteq> None) \<Longrightarrow> those (map f xs) = Some (map (\<lambda>x. the (f x)) xs)"
  by (induction xs) (auto split: option.split)

lemma expand_sound: "list_all pattern_sound ps \<Longrightarrow> expand_patterns ps = Some (concat (map variants ps))"
proof -
  assume ps: "list_all pattern_sound ps"
  have "those (map (variant p) [0..<pt_n p]) = Some (variants p)" if "p \<in> set ps" for p
    unfolding variants_def
  proof (rule those_map)
    fix i assume "i \<in> set [0..<pt_n p]"
    moreover have "pattern_sound p" using ps that by (simp add: list_all_iff)
    ultimately show "variant p i \<noteq> None" using variant_built [of p i] by (metis atLeastLessThan_iff option.distinct(1) set_upt)
  qed
  then have "those (map (\<lambda>p. those (map (variant p) [0..<pt_n p])) ps) = Some (map variants ps)"
    by (subst those_map) auto
  then show ?thesis by (simp add: expand_patterns_def)
qed

lemma all_patterns_sound: "list_all pattern_sound all_patterns"
  by (simp add: all_patterns_def bank_sound)

lemma generate_eq: "generate = Some (concat (map variants all_patterns) @ choice_questions)"
  by (simp add: generate_def expand_sound bank_sound all_patterns_def)

lemma bank_question_cases:
  assumes "generate = Some qs" "q \<in> set qs"
  obtains (journal) p i t ds cs where "p \<in> set all_patterns" "i < pt_n p" "balanced ds cs"
      "q = (journal_question (variant_code (pt_prefix p, i)) (pt_topic p) t (pt_expl p) ds cs
        ([set_code_journal, set_code_comprehensive] @ (if i = 0 then [set_code_core] else [])))\<lparr>sq_difficulty := pt_diff p\<rparr>"
  | (choice) "choice_sound q" "q \<in> set choice_questions"
proof -
  consider "q \<in> set choice_questions" | p i where "p \<in> set all_patterns" "i < pt_n p" "q = the (variant p i)"
    using assms by (auto simp: generate_eq variants_def)
  then show thesis
  proof cases
    case 1
    then show thesis using choice choice_questions_sound by (simp add: list_all_iff)
  next
    case 2
    then have "pattern_sound p" using all_patterns_sound by (simp add: list_all_iff)
    from variant_built [OF this 2(2)] obtain t ds cs where
      "variant p i = Some ((journal_question (variant_code (pt_prefix p, i)) (pt_topic p) t (pt_expl p) ds cs
        ([set_code_journal, set_code_comprehensive] @ (if i = 0 then [set_code_core] else [])))\<lparr>sq_difficulty := pt_diff p\<rparr>)"
      "balanced ds cs" .
    with 2 show thesis by (intro journal) auto
  qed
qed

section \<open>Codes\<close>

lemma pad3_small: "0 \<le> k \<Longrightarrow> k < 3 \<Longrightarrow> pad3 (k + 1) = [CHR ''0'', CHR ''0'', digit (k + 1)]"
proof -
  assume "0 \<le> k" "k < 3"
  then consider "k = 0" | "k = 1" | "k = 2" by linarith
  then show ?thesis by cases (simp_all add: pad3_def itoa_def digits.simps Let_def numeral_3_eq_3)
qed

lemma variant_code_inject:
  assumes "i < 3" "j < 3" "variant_code (p, i) = variant_code (q, j)"
  shows "p = q \<and> i = j"
proof -
  have "digit (int i + 1) = digit (int j + 1) \<longleftrightarrow> i = j"
    using assms(1,2) by (auto simp: digit_def dest!: arg_cong [where f = byte])
  with assms show ?thesis by (simp add: variant_code_def pad3_small)
qed

definition code_keys :: "(string \<times> nat) list" where
  "code_keys = concat (map (\<lambda>(pre, _, n). map (Pair pre) [0..<n]) (map pattern_key all_patterns))"

definition variant_sets :: "nat \<Rightarrow> string list" where
  "variant_sets i = [set_code_journal, set_code_comprehensive] @ (if i = 0 then [set_code_core] else [])"

abbreviation code_sets :: "seed_question \<Rightarrow> string \<times> string list" where
  "code_sets q \<equiv> (sq_code q, sq_sets q)"

lemma bank_fields:
  assumes "generate = Some qs"
  shows "map code_sets qs = map (\<lambda>k. (variant_code k, variant_sets (snd k))) code_keys @ map code_sets choice_questions"
proof -
  have "map code_sets (variants p) = map (\<lambda>i. (variant_code (pt_prefix p, i), variant_sets i)) [0..<pt_n p]"
    if "p \<in> set all_patterns" for p
  proof -
    have "pattern_sound p" using that all_patterns_sound by (simp add: list_all_iff)
    then have "code_sets (the (variant p i)) = (variant_code (pt_prefix p, i), variant_sets i)" if "i < pt_n p" for i
      using that by (rule variant_built) (simp add: journal_question_def variant_sets_def)
    then show ?thesis by (simp add: variants_def)
  qed
  then have fields: "map (\<lambda>p. map code_sets (variants p)) all_patterns
      = map (\<lambda>p. map (\<lambda>i. (variant_code (pt_prefix p, i), variant_sets i)) [0..<pt_n p]) all_patterns"
    by (rule map_cong [OF refl])
  have "qs = concat (map variants all_patterns) @ choice_questions" using assms by (simp add: generate_eq)
  then show ?thesis
    by (simp add: code_keys_def map_concat comp_def pattern_key_def fields del: map_eq_conv)
qed

lemmas all_keys = all_patterns_def bank_keys

lemma distinct_pairs: "distinct (map fst ks) \<Longrightarrow> distinct (concat (map (\<lambda>(pre, _, n). map (Pair pre) [0..<n]) ks))"
proof (induction ks)
  case (Cons k ks)
  then show ?case by (force simp: distinct_map inj_on_def split: prod.splits)
qed simp

lemma distinct_prefixes: "distinct (map fst (map pattern_key all_patterns))"
  by (simp add: all_keys)

lemma variant_code_mark: "i < 3 \<Longrightarrow> rev (variant_code (p, i)) ! 2 = CHR ''0''"
  by (simp add: variant_code_def pad3_small numeral_2_eq_2)

lemma code_keys_counts:
  "length code_keys = 257" "length (filter (\<lambda>k. snd k = 0) code_keys) = 101" "list_all (\<lambda>k. snd k < 3) code_keys"
  by (simp_all add: code_keys_def all_keys upt_simps)

lemma choice_fields:
  "length choice_questions = 32" "distinct (map sq_code choice_questions)"
  "list_all (\<lambda>q. rev (sq_code q) ! 2 = CHR ''-'') choice_questions"
  "map sq_sets choice_questions = replicate 32 [set_code_core, set_code_comprehensive]"
proof -
  have "length (map (\<lambda>q. (sq_code q, sq_topic_code q)) choice_questions) = 32"
    by (simp add: choice_questions_keys)
  then show n: "length choice_questions = 32" by simp
  have codes: "map sq_code choice_questions = map fst (map (\<lambda>q. (sq_code q, sq_topic_code q)) choice_questions)" by simp
  show "distinct (map sq_code choice_questions)"
    unfolding codes choice_questions_keys by simp
  have "list_all (\<lambda>c. rev c ! 2 = CHR ''-'') (map sq_code choice_questions)"
    unfolding codes choice_questions_keys by (simp add: numeral_2_eq_2)
  then show "list_all (\<lambda>q. rev (sq_code q) ! 2 = CHR ''-'') choice_questions" by (simp add: list.pred_map comp_def)
  have "map sq_sets choice_questions = replicate (length choice_questions) [set_code_core, set_code_comprehensive]"
    using choice_questions_sound by (simp add: list_all_iff choice_sound_def map_replicate_const [symmetric] map_eq_conv)
  then show "map sq_sets choice_questions = replicate 32 [set_code_core, set_code_comprehensive]" using n by simp
qed

lemma bank_codes_distinct:
  assumes "generate = Some qs"
  shows "distinct (map sq_code qs)"
proof -
  have small: "snd k < 3" if "k \<in> set code_keys" for k using that code_keys_counts(3) by (simp add: list_all_iff)
  have "distinct code_keys"
    unfolding code_keys_def using distinct_prefixes by (rule distinct_pairs)
  moreover have "inj_on variant_code (set code_keys)"
    by (rule inj_onI) (metis small prod.collapse variant_code_inject)
  moreover have "variant_code k \<noteq> sq_code q" if "k \<in> set code_keys" "q \<in> set choice_questions" for k q
    using that choice_fields(3) variant_code_mark [OF small [OF that(1)], of "fst k"] by (auto simp: list_all_iff)
  moreover have "map sq_code qs = map variant_code code_keys @ map sq_code choice_questions"
    using arg_cong [OF bank_fields [OF assms], of "map fst"] by (simp add: comp_def)
  ultimately show ?thesis
    using choice_fields(2) by (auto simp: distinct_map)
qed

lemma bank_set_sizes:
  assumes "generate = Some qs"
  shows "length (filter (\<lambda>q. c \<in> set (sq_sets q)) qs)
    = length (filter (\<lambda>k. c \<in> set (variant_sets (snd k))) code_keys)
      + (if c \<in> {set_code_core, set_code_comprehensive} then 32 else 0)"
proof -
  have "map sq_sets qs = map (\<lambda>k. variant_sets (snd k)) code_keys @ replicate 32 [set_code_core, set_code_comprehensive]"
    using arg_cong [OF bank_fields [OF assms], of "map snd"] by (simp add: comp_def choice_fields(4))
  from arg_cong [OF this, of "\<lambda>xs. length (filter (\<lambda>s. c \<in> set s) xs)"] show ?thesis
    by (simp add: filter_map comp_def filter_replicate)
qed

section \<open>Properties\<close>

text \<open>
  C26: every question of the bank is sound: a journal question has balanced debits and credits of
  positive amounts in standard accounts; any other question offers at least three choices, among
  them the one its answer names; and the answer of every question is graded correct.
\<close>

theorem bank_questions_sound:
  "\<exists>qs. generate = Some qs \<and> list_all (\<lambda>q.
     (sq_type q = qt_journal \<and> balanced (ans_debits (sq_answer q)) (ans_credits (sq_answer q)) \<or> choice_sound q)
     \<and> ans_type (sq_answer q) = sq_type q \<and> is_correct f (sq_answer q) (sq_answer q)) qs"
proof -
  obtain qs where qs: "generate = Some qs" using generate_eq by blast
  have "(sq_type q = qt_journal \<and> balanced (ans_debits (sq_answer q)) (ans_credits (sq_answer q)) \<or> choice_sound q)
     \<and> ans_type (sq_answer q) = sq_type q \<and> question_type_is_valid (sq_type q)" if "q \<in> set qs" for q
    using bank_question_cases [OF qs that]
    by cases (auto simp: journal_question_def choice_sound_def question_type_is_valid_def)
  with qs show ?thesis by (intro exI [of _ qs]) (simp add: list_all_iff is_correct_refl)
qed


end
