(* ===== verification/Bootstrap.thy ===== *)
theory Bootstrap
  imports Bank Study
begin

text \<open>
  \<^verbatim>\<open>seed/bootstrap.go\<close>: bringing the tables of topics, sets and questions up to the question
  bank, in one transaction.
\<close>

section \<open>Seeds\<close>

record topic_seed =
  td_code :: string
  td_name :: string
  td_ord :: int

record set_seed =
  sd_code :: string
  sd_name :: string
  sd_description :: string
  sd_target_size :: int

text \<open>The values that the embedded files \<^verbatim>\<open>seed/topics.json\<close> and \<^verbatim>\<open>seed/sets.json\<close> decode to.\<close>

definition load_topics :: "topic_seed list" where
  "load_topics =
   [\<lparr>td_code = ''cash'', td_name = cat [jp [0x73FE, 0x91D1, 0x9810, 0x91D1]], td_ord = 1\<rparr>,
    \<lparr>td_code = ''receivable'', td_name = cat [jp [0x58F2, 0x639B, 0x91D1, 0x30FB, 0x8CB7, 0x639B, 0x91D1]], td_ord = 2\<rparr>,
    \<lparr>td_code = ''notes'', td_name = cat [jp [0x624B, 0x5F62]], td_ord = 3\<rparr>,
    \<lparr>td_code = ''merch_sale'', td_name = cat [jp [0x5546, 0x54C1, 0x58F2, 0x8CB7]], td_ord = 4\<rparr>,
    \<lparr>td_code = ''inventory'', td_name = cat [jp [0x5546, 0x54C1, 0x6709, 0x9AD8, 0x5E33, 0x30FB, 0x68DA, 0x5378]], td_ord = 5\<rparr>,
    \<lparr>td_code = ''fixed_asset'', td_name = cat [jp [0x56FA, 0x5B9A, 0x8CC7, 0x7523]], td_ord = 6\<rparr>,
    \<lparr>td_code = ''loans'', td_name = cat [jp [0x8CB8, 0x4ED8, 0x91D1, 0x30FB, 0x501F, 0x5165, 0x91D1]], td_ord = 7\<rparr>,
    \<lparr>td_code = ''other_recv'', td_name = cat [jp [0x305D, 0x306E, 0x4ED6, 0x50B5, 0x6A29, 0x50B5, 0x52D9]], td_ord = 8\<rparr>,
    \<lparr>td_code = ''tax'', td_name = cat [jp [0x7A0E, 0x91D1]], td_ord = 9\<rparr>,
    \<lparr>td_code = ''wages'', td_name = cat [jp [0x7D66, 0x4E0E, 0x30FB, 0x8CDE, 0x4E0E]], td_ord = 10\<rparr>,
    \<lparr>td_code = ''capital'', td_name = cat [jp [0x8CC7, 0x672C]], td_ord = 11\<rparr>,
    \<lparr>td_code = ''adjustment'', td_name = cat [jp [0x6C7A, 0x7B97, 0x6574, 0x7406]], td_ord = 12\<rparr>,
    \<lparr>td_code = ''trial_balance'', td_name = cat [jp [0x8A66, 0x7B97, 0x8868, 0x30FB, 0x52D8, 0x5B9A, 0x8A18, 0x5165]], td_ord = 13\<rparr>,
    \<lparr>td_code = ''worksheet'', td_name = cat [jp [0x7CBE, 0x7B97, 0x8868, 0x30FB, 0x8CA1, 0x52D9, 0x8AF8, 0x8868]], td_ord = 14\<rparr>,
    \<lparr>td_code = ''slip'', td_name = cat [jp [0x4F1D, 0x7968, 0x30FB, 0x88DC, 0x52A9, 0x7C3F]], td_ord = 15\<rparr>]"

definition load_sets :: "set_seed list" where
  "load_sets =
   [\<lparr>sd_code = ''core_300'', sd_name = cat [jp [0x30B3, 0x30A2], '' ('', jp [0x5168, 0x8AD6, 0x70B9], ''1'', jp [0x5468], '')''],
      sd_description = cat [jp [0x5168, 0x6587, 0x578B, 0x306E, 0x4EE3, 0x8868], ''1'', jp [0x554F, 0x3068, 0x9078,
        0x629E, 0x5F0F, 0x3067, 0x5168, 0x8AD6, 0x70B9, 0x3092, 0x4E00, 0x5468, 0x3059, 0x308B],
        ''133'', jp [0x554F]], sd_target_size = 133\<rparr>,
    \<lparr>sd_code = ''journal_240'', sd_name = cat [jp [0x4ED5, 0x8A33, 0x7DCF, 0x5408]],
      sd_description = cat [jp [0x4ED5, 0x8A33, 0x554F, 0x984C, 0x3092, 0x5168, 0x30D0, 0x30EA, 0x30A2, 0x30F3, 0x30C8,
        0x53CE, 0x9332, 0x3057, 0x305F], ''257'', jp [0x554F]], sd_target_size = 257\<rparr>,
    \<lparr>sd_code = ''comprehensive_300'', sd_name = cat [jp [0x5168, 0x554F, 0x7DB2, 0x7F85]],
      sd_description = cat [jp [0x9078, 0x629E, 0x5F0F, 0x3092, 0x542B, 0x3080, 0x5168], ''289'', jp [0x554F]], sd_target_size = 289\<rparr>]"

section \<open>Statements of the transaction\<close>

text \<open>\<^verbatim>\<open>INSERT ... ON CONFLICT(code) DO UPDATE\<close>\<close>

definition put :: "('r \<Rightarrow> string) \<Rightarrow> string \<Rightarrow> ('r \<Rightarrow> 'r) \<Rightarrow> 'r \<Rightarrow> 'r list \<Rightarrow> 'r list" where
  "put key k upd fresh rows =
     (if k \<in> key ` set rows then map (\<lambda>r. if key r = k then upd r else r) rows else rows @ [fresh])"

definition put_topic :: "topic_seed \<Rightarrow> db \<Rightarrow> db" where
  "put_topic s d = d\<lparr>topic_rows :=
     put t_code (td_code s) (\<lambda>r. r\<lparr>t_name := td_name s, t_ord := td_ord s\<rparr>)
       \<lparr>t_id = next_id (map t_id (topic_rows d)), t_code = td_code s, t_name = td_name s, t_ord = td_ord s\<rparr>
       (topic_rows d)\<rparr>"

definition put_set :: "set_seed \<Rightarrow> db \<Rightarrow> db" where
  "put_set s d = d\<lparr>question_sets :=
     put qs_code (sd_code s)
       (\<lambda>r. r\<lparr>qs_name := sd_name s, qs_description := sd_description s, qs_target_size := sd_target_size s\<rparr>)
       \<lparr>qs_id = next_id (map qs_id (question_sets d)), qs_code = sd_code s, qs_name = sd_name s,
        qs_description = sd_description s, qs_target_size = sd_target_size s\<rparr>
       (question_sets d)\<rparr>"

text \<open>The JSON columns; the slices of an answer are nil where they are empty.\<close>

definition seed_answer :: "seed_question \<Rightarrow> string" where
  "seed_answer q = (let a = sq_answer q in print_json (answer_json (ans_debits a = []) (ans_credits a = []) a))"

definition seed_references :: "seed_question \<Rightarrow> string" where
  "seed_references q = print_json (JArr (map JStr (sq_references q)))"

definition put_question :: "int \<Rightarrow> seed_question \<Rightarrow> int \<Rightarrow> db \<Rightarrow> db" where
  "put_question now q tid d = d\<lparr>questions :=
     put q_code (sq_code q)
       (\<lambda>r. r\<lparr>q_topic_id := tid, q_type := sq_type q, q_difficulty := sq_difficulty q, q_prompt := sq_prompt q,
          q_payload_json := print_json (sq_payload q), q_answer_json := seed_answer q,
          q_explanation := sq_explanation q, q_references_json := seed_references q\<rparr>)
       \<lparr>q_id = next_id (map q_id (questions d)), q_code = sq_code q, q_topic_id = tid, q_type = sq_type q,
        q_difficulty = sq_difficulty q, q_prompt = sq_prompt q, q_payload_json = print_json (sq_payload q),
        q_answer_json = seed_answer q, q_explanation = sq_explanation q,
        q_references_json = seed_references q, q_created_at = of_unix now\<rparr>
       (questions d)\<rparr>"

definition put_member :: "int \<Rightarrow> int \<Rightarrow> db \<Rightarrow> db" where
  "put_member sid qid d =
     (if \<exists>m\<in>set (members d). m_set_id m = sid \<and> m_question_id m = qid then d
      else d\<lparr>members := members d @ [\<lparr>m_set_id = sid, m_question_id = qid, m_ord = 0\<rparr>]\<rparr>)"

text \<open>A statement without a result; the foreign keys it writes are checked.\<close>

definition exec :: "string \<Rightarrow> (db \<Rightarrow> bool) \<Rightarrow> (db \<Rightarrow> db) \<Rightarrow> db \<Rightarrow> unit res \<times> db" where
  "exec ctx keys_ok f d =
     apfst (wrap_err ctx) (statement (\<lambda>d. if keys_ok d then (Inr (), f d) else (Inl err_foreign_key, d)) d)"

definition lookup_one :: "(db \<Rightarrow> int option) \<Rightarrow> db \<Rightarrow> int res \<times> db" where
  "lookup_one sel d = (case query_row sel d of
     (Inl e, d') \<Rightarrow> (Inl e, d')
   | (Inr None, d') \<Rightarrow> (Inl (ErrText ''sql: no rows in result set''), d')
   | (Inr (Some i), d') \<Rightarrow> (Inr i, d'))"

text \<open>A loop that returns at the first error.\<close>

fun each :: "('a \<Rightarrow> db \<Rightarrow> unit res \<times> db) \<Rightarrow> 'a list \<Rightarrow> db \<Rightarrow> unit res \<times> db" where
  "each f [] d = (Inr (), d)"
| "each f (x # xs) d = (case f x d of (Inl e, d') \<Rightarrow> (Inl e, d') | (Inr _, d') \<Rightarrow> each f xs d')"

section \<open>The transaction\<close>

definition upsert_topics :: "topic_seed list \<Rightarrow> db \<Rightarrow> unit res \<times> db" where
  "upsert_topics = each (\<lambda>s. exec (''upsert topic '' @ td_code s) (\<lambda>_. True) (put_topic s))"

definition upsert_sets :: "set_seed list \<Rightarrow> db \<Rightarrow> unit res \<times> db" where
  "upsert_sets = each (\<lambda>s. exec (''upsert set '' @ sd_code s) (\<lambda>_. True) (put_set s))"

definition upsert_member :: "string \<Rightarrow> int \<Rightarrow> string \<Rightarrow> db \<Rightarrow> unit res \<times> db" where
  "upsert_member code qid set_code d =
     (case lookup_one (\<lambda>d. map_option qs_id (row qs_code (question_sets d) set_code)) d of
        (Inl e, d1) \<Rightarrow> (Inl (ErrWrap (''set '' @ set_code @ '' missing'') e), d1)
      | (Inr sid, d1) \<Rightarrow>
          exec (''upsert member '' @ set_code @ ''/'' @ code)
            (\<lambda>d. sid \<in> qs_id ` set (question_sets d) \<and> qid \<in> q_id ` set (questions d)) (put_member sid qid) d1)"

definition upsert_question :: "int \<Rightarrow> seed_question \<Rightarrow> db \<Rightarrow> unit res \<times> db" where
  "upsert_question now q d =
     (case lookup_one (\<lambda>d. map_option t_id (row t_code (topic_rows d) (sq_topic_code q))) d of
        (Inl e, d1) \<Rightarrow> (Inl (ErrWrap (''topic '' @ sq_topic_code q @ '' missing'') e), d1)
      | (Inr tid, d1) \<Rightarrow>
          (case exec (''upsert question '' @ sq_code q) (\<lambda>d. tid \<in> t_id ` set (topic_rows d))
                  (put_question now q tid) d1 of
             (Inl e, d2) \<Rightarrow> (Inl e, d2)
           | (Inr _, d2) \<Rightarrow>
               (case lookup_one (\<lambda>d. map_option q_id (row q_code (questions d) (sq_code q))) d2 of
                  (Inl e, d3) \<Rightarrow> (Inl e, d3)
                | (Inr qid, d3) \<Rightarrow> each (upsert_member (sq_code q) qid) (sq_sets q) d3)))"

definition upsert_questions :: "time \<Rightarrow> seed_question list \<Rightarrow> db \<Rightarrow> unit res \<times> db" where
  "upsert_questions wall qs = each (upsert_question (unix wall)) qs"

text \<open>Questions that are not in the bank any more leave the sets and the reviews.\<close>

definition stale_ids :: "string list \<Rightarrow> db \<Rightarrow> int set" where
  "stale_ids codes d = q_id ` set (filter (\<lambda>q. q_code q \<notin> set codes) (questions d))"

definition retire_members :: "string list \<Rightarrow> db \<Rightarrow> db" where
  "retire_members codes d = d\<lparr>members := filter (\<lambda>m. m_question_id m \<notin> stale_ids codes d) (members d)\<rparr>"

definition retire_reviews :: "string list \<Rightarrow> db \<Rightarrow> db" where
  "retire_reviews codes d = d\<lparr>srs_states := filter (\<lambda>s. sr_question_id s \<notin> stale_ids codes d) (srs_states d)\<rparr>"

definition retire_stale :: "seed_question list \<Rightarrow> db \<Rightarrow> unit res \<times> db" where
  "retire_stale qs d =
     (case exec ''retire stale members'' (\<lambda>_. True) (retire_members (map sq_code qs)) d of
        (Inl e, d1) \<Rightarrow> (Inl e, d1)
      | (Inr _, d1) \<Rightarrow> exec ''retire stale srs'' (\<lambda>_. True) (retire_reviews (map sq_code qs)) d1)"

definition roll_back :: "db \<Rightarrow> db \<Rightarrow> db" where
  "roll_back d d' = d\<lparr>faults := faults d'\<rparr>"

definition sync_with :: "seed_question list \<Rightarrow> time \<Rightarrow> db \<Rightarrow> unit res \<times> db" where
  "sync_with qs wall d =
     (case tick d of
        (Some e, d0) \<Rightarrow> (Inl (ErrWrap ''sync begin'' e), d0)
      | (None, d0) \<Rightarrow>
          (let fail = (\<lambda>e d1. (Inl e, roll_back d0 d1)) in
           case upsert_topics load_topics d0 of (Inl e, d1) \<Rightarrow> fail e d1
           | (Inr _, d1) \<Rightarrow>
          (case upsert_sets load_sets d1 of (Inl e, d2) \<Rightarrow> fail e d2
           | (Inr _, d2) \<Rightarrow>
          (case upsert_questions wall qs d2 of (Inl e, d3) \<Rightarrow> fail e d3
           | (Inr _, d3) \<Rightarrow>
          (case retire_stale qs d3 of (Inl e, d4) \<Rightarrow> fail e d4
           | (Inr _, d4) \<Rightarrow>
          (case tick d4 of (Some e, d5) \<Rightarrow> fail (ErrWrap ''sync commit'' e) d5
           | (None, d5) \<Rightarrow> (Inr (), d5)))))))"

definition sync :: "time \<Rightarrow> db \<Rightarrow> (unit res \<times> db) option" where
  "sync wall d = map_option (\<lambda>qs. sync_with qs wall d) generate"

end
