(* ===== verification/Syncing.thy ===== *)
theory Syncing
  imports Bootstrap Learning
begin

text \<open>
  What the synchronisation of the question bank achieves: it can be undone as a whole, brings the
  tables to the bank whatever they held, and does nothing the second time.
\<close>

section \<open>Rows that are up to date\<close>

definition settled :: "('r \<Rightarrow> string) \<Rightarrow> string \<Rightarrow> ('r \<Rightarrow> 'r) \<Rightarrow> 'r list \<Rightarrow> bool" where
  "settled key k upd rows \<longleftrightarrow> k \<in> key ` set rows \<and> (\<forall>r\<in>set rows. key r = k \<longrightarrow> upd r = r)"

lemma settled_id: "settled key k upd rows \<Longrightarrow> put key k upd fresh rows = rows"
  by (auto simp: settled_def put_def intro!: map_idI)

lemma put_cases:
  obtains (update) "k \<in> key ` set rows" "put key k upd fresh rows = map (\<lambda>r. if key r = k then upd r else r) rows"
  | (insert) "k \<notin> key ` set rows" "put key k upd fresh rows = rows @ [fresh]"
  by (cases "k \<in> key ` set rows") (simp_all add: put_def)

lemma settled_put:
  assumes "\<And>r. key (upd r) = key r" "\<And>r. upd (upd r) = upd r" "key fresh = k" "upd fresh = fresh"
  shows "settled key k upd (put key k upd fresh rows)"
proof (cases rule: put_cases [of k key rows upd fresh])
  case update
  have "map key (map (\<lambda>r. if key r = k then upd r else r) rows) = map key rows"
    by (rule map_update_keys) (rule assms(1))
  then have "key ` set (map (\<lambda>r. if key r = k then upd r else r) rows) = key ` set rows"
    unfolding list.set_map [symmetric] by (rule arg_cong)
  then show ?thesis unfolding update(2) settled_def using update(1) assms(1,2) by auto
next
  case insert
  have "r \<in> set rows \<Longrightarrow> key r \<noteq> k" for r using insert(1) by auto
  then show ?thesis unfolding insert(2) settled_def using assms(3,4) by auto
qed

lemma settled_other:
  assumes "settled key k upd rows" "k \<noteq> k'" "\<And>r. key (upd' r) = key r" "key fresh = k'"
  shows "settled key k upd (put key k' upd' fresh rows)"
proof -
  obtain r where "r \<in> set rows" "key r = k" using assms(1) by (auto simp: settled_def)
  then have "k \<in> key ` set (put key k' upd' fresh rows)"
    using assms(2) by (intro image_eqI [of _ _ r]) (simp_all add: put_def)
  moreover have "r \<in> set rows" if "r \<in> set (put key k' upd' fresh rows)" "key r = k" for r
    using that assms(2-4) by (auto simp: put_def split: if_splits)
  ultimately show ?thesis using assms(1) by (simp add: settled_def)
qed

lemma put_map:
  "(\<And>r. f (upd r) = f r) \<Longrightarrow> map f (put key k upd fresh rows) = map f rows @ (if k \<in> key ` set rows then [] else [f fresh])"
  by (induction rows) (auto simp: put_def)

lemma put_image:
  "(\<And>r. f (upd r) = f r) \<Longrightarrow> f ` set (put key k upd fresh rows) = f ` set rows \<union> (if k \<in> key ` set rows then {} else {f fresh})"
  using arg_cong [OF put_map, of f upd set key k fresh rows] by simp

lemma put_distinct:
  assumes "\<And>r. f (upd r) = f r" "distinct (map f rows)" "k \<notin> key ` set rows \<Longrightarrow> f fresh \<notin> f ` set rows"
  shows "distinct (map f (put key k upd fresh rows))"
  using assms by (subst put_map) auto

lemma put_all:
  assumes "\<forall>r\<in>set rows. P r" "\<And>r. P r \<Longrightarrow> P (upd r)" "P fresh"
  shows "\<forall>r\<in>set (put key k upd fresh rows). P r"
  using assms by (auto simp: put_def)

section \<open>Loops\<close>

lemma each_same: "(\<And>x. x \<in> set xs \<Longrightarrow> f x d = (Inr (), d)) \<Longrightarrow> each f xs d = (Inr (), d)"
  by (induction xs) auto

lemma each_run:
  assumes "\<And>x d. x \<in> set xs \<Longrightarrow> P d \<Longrightarrow> \<exists>d'. f x d = (Inr (), d') \<and> P d' \<and> S x d'
      \<and> (\<forall>y\<in>set xs. y \<noteq> x \<longrightarrow> S y d \<longrightarrow> S y d') \<and> \<alpha> d' = \<alpha> d \<union> \<beta> x"
    and "P d" "distinct xs"
  shows "\<exists>d'. each f xs d = (Inr (), d') \<and> P d' \<and> (\<forall>x\<in>set xs. S x d') \<and> \<alpha> d' = \<alpha> d \<union> (\<Union>x\<in>set xs. \<beta> x)"
proof -
  have "\<exists>d'. each f ys d = (Inr (), d') \<and> P d' \<and> (\<forall>x\<in>set ys. S x d') \<and> \<alpha> d' = \<alpha> d \<union> (\<Union>x\<in>set ys. \<beta> x)
      \<and> (\<forall>y\<in>set xs - set ys. S y d \<longrightarrow> S y d')"
    if "set ys \<subseteq> set xs" "P d" "distinct ys" for ys d
    using that
  proof (induction ys arbitrary: d)
    case (Cons x ys)
    from assms(1) [of x d] Cons.prems obtain d1 where d1: "f x d = (Inr (), d1)" "P d1" "S x d1"
      "\<forall>y\<in>set xs. y \<noteq> x \<longrightarrow> S y d \<longrightarrow> S y d1" "\<alpha> d1 = \<alpha> d \<union> \<beta> x" by auto
    from Cons.IH [of d1] Cons.prems d1(2) obtain d2 where d2: "each f ys d1 = (Inr (), d2)" "P d2"
      "\<forall>x\<in>set ys. S x d2" "\<alpha> d2 = \<alpha> d1 \<union> (\<Union>x\<in>set ys. \<beta> x)" "\<forall>y\<in>set xs - set ys. S y d1 \<longrightarrow> S y d2" by auto
    show ?case
      using d1 d2 Cons.prems by (intro exI [of _ d2]) auto
  qed auto
  from this [of xs d] assms(2,3) show ?thesis by auto
qed

section \<open>Statements on a working engine\<close>

lemma exec_runs: "faults d = [] \<Longrightarrow> keys_ok d \<Longrightarrow> exec c keys_ok f d = (Inr (), f d)"
  by (simp add: exec_def statement_no_faults)

lemma lookup_runs: "faults d = [] \<Longrightarrow> sel d = Some i \<Longrightarrow> lookup_one sel d = (Inr i, d)"
  by (simp add: lookup_one_def query_row_no_faults)

lemma find_key: "distinct (map f xs) \<Longrightarrow> x \<in> set xs \<Longrightarrow> f x = k \<Longrightarrow> row f xs k = Some x"
  using row_key by fastforce

section \<open>Topics and sets\<close>

abbreviation topic_update :: "topic_seed \<Rightarrow> topic \<Rightarrow> topic" where
  "topic_update s r \<equiv> r\<lparr>t_name := td_name s, t_ord := td_ord s\<rparr>"

abbreviation set_update :: "set_seed \<Rightarrow> question_set \<Rightarrow> question_set" where
  "set_update s r \<equiv> r\<lparr>qs_name := sd_name s, qs_description := sd_description s, qs_target_size := sd_target_size s\<rparr>"

abbreviation topic_settled :: "topic_seed \<Rightarrow> db \<Rightarrow> bool" where
  "topic_settled s d \<equiv> settled t_code (td_code s) (topic_update s) (topic_rows d)"

abbreviation set_settled :: "set_seed \<Rightarrow> db \<Rightarrow> bool" where
  "set_settled s d \<equiv> settled qs_code (sd_code s) (set_update s) (question_sets d)"

lemma put_topic_ok:
  assumes "quiz_ok d"
  shows "quiz_ok (put_topic s d)"
proof -
  have ids: "t_id ` set (topic_rows d) \<subseteq> t_id ` set (topic_rows (put_topic s d))"
    by (simp add: put_topic_def put_image)
  have "distinct (map t_id (topic_rows (put_topic s d)))" "distinct (map t_code (topic_rows (put_topic s d)))"
    using assms next_id_fresh [of "map t_id (topic_rows d)"]
    by (auto simp: put_topic_def quiz_ok_def intro!: put_distinct)
  then show ?thesis
    using assms ids unfolding quiz_ok_def by (simp add: put_topic_def) blast
qed

lemma put_set_ok:
  assumes "quiz_ok d"
  shows "quiz_ok (put_set s d)"
proof -
  have ids: "qs_id ` set (question_sets d) \<subseteq> qs_id ` set (question_sets (put_set s d))"
    by (simp add: put_set_def put_image)
  have "distinct (map qs_id (question_sets (put_set s d)))" "distinct (map qs_code (question_sets (put_set s d)))"
    using assms next_id_fresh [of "map qs_id (question_sets d)"]
    by (auto simp: put_set_def quiz_ok_def intro!: put_distinct)
  then show ?thesis
    using assms ids unfolding quiz_ok_def by (simp add: put_set_def) blast
qed

text \<open>Which question codes are in which sets\<close>

definition placed :: "db \<Rightarrow> (string \<times> string) set" where
  "placed d = {(qs_code s, q_code q) | s q. s \<in> set (question_sets d) \<and> q \<in> set (questions d)
     \<and> (\<exists>m\<in>set (members d). m_set_id m = qs_id s \<and> m_question_id m = q_id q)}"

lemma placed_set_questions: "set (map q_code (set_questions c d)) = {code. (c, code) \<in> placed d}"
proof -
  have rows: "(m, q) \<in> set (set_rows c d) \<longleftrightarrow> q \<in> set (questions d) \<and> m \<in> set (members d) \<and> m_question_id m = q_id q
      \<and> (\<exists>s\<in>set (question_sets d). qs_id s = m_set_id m \<and> qs_code s = c)" for m q
    by (auto simp: set_rows_def)
  have "code \<in> set (map q_code (set_questions c d)) \<longleftrightarrow> (\<exists>m q. (m, q) \<in> set (set_rows c d) \<and> q_code q = code)" for code
    by (force simp: set_questions_def)
  then have "set (map q_code (set_questions c d)) = {code. \<exists>m q. (m, q) \<in> set (set_rows c d) \<and> q_code q = code}" by blast
  then show ?thesis unfolding rows placed_def by fastforce
qed

lemma placed_images:
  "placed d = {(c, code). \<exists>m\<in>set (members d). (m_set_id m, c) \<in> (\<lambda>s. (qs_id s, qs_code s)) ` set (question_sets d)
     \<and> (m_question_id m, code) \<in> (\<lambda>q. (q_id q, q_code q)) ` set (questions d)}"
  by (auto simp: placed_def image_iff)

lemma put_set_placed:
  assumes "quiz_ok d"
  shows "placed (put_set s d) = placed d"
proof -
  have "m_set_id m \<noteq> next_id (map qs_id (question_sets d))" if "m \<in> set (members d)" for m
  proof -
    have "m_set_id m \<in> qs_id ` set (question_sets d)" using assms that by (simp add: quiz_ok_def)
    then show ?thesis using next_id_fresh [of "map qs_id (question_sets d)"] by auto
  qed
  then show ?thesis by (auto simp: placed_images put_set_def put_image split: if_splits)
qed

lemma load_topics_distinct: "distinct (map td_code load_topics)"
  by (simp add: load_topics_def)

lemma load_sets_distinct: "distinct (map sd_code load_sets)"
  by (simp add: load_sets_def)

lemma upsert_topics_runs:
  assumes "quiz_ok d" "faults d = []"
  shows "\<exists>d'. upsert_topics load_topics d = (Inr (), d') \<and> (quiz_ok d' \<and> (\<exists>rows. d' = d\<lparr>topic_rows := rows\<rparr>))
    \<and> (\<forall>s\<in>set load_topics. topic_settled s d') \<and> {} = {} \<union> (\<Union>s\<in>set load_topics. {})"
  unfolding upsert_topics_def
proof (rule each_run)
  fix s d1 assume s: "s \<in> set load_topics" and P: "quiz_ok d1 \<and> (\<exists>rows. d1 = d\<lparr>topic_rows := rows\<rparr>)"
  let ?d = "put_topic s d1"
  have "faults d1 = []" using P assms(2) by auto
  moreover have "\<exists>rows. ?d = d\<lparr>topic_rows := rows\<rparr>" using P by (auto simp: put_topic_def)
  moreover have "topic_settled s ?d"
    unfolding put_topic_def by (simp, rule settled_put) simp_all
  moreover have "\<forall>y\<in>set load_topics. y \<noteq> s \<longrightarrow> topic_settled y d1 \<longrightarrow> topic_settled y ?d"
  proof (intro ballI impI)
    fix y assume y: "y \<in> set load_topics" "y \<noteq> s" "topic_settled y d1"
    with s load_topics_distinct have "td_code y \<noteq> td_code s" by (auto simp: distinct_map inj_on_def)
    with y(3) show "topic_settled y ?d" unfolding put_topic_def by (simp add: settled_other)
  qed
  ultimately show "\<exists>d'. exec (''upsert topic '' @ td_code s) (\<lambda>_. True) (put_topic s) d1 = (Inr (), d')
      \<and> (quiz_ok d' \<and> (\<exists>rows. d' = d\<lparr>topic_rows := rows\<rparr>)) \<and> topic_settled s d'
      \<and> (\<forall>y\<in>set load_topics. y \<noteq> s \<longrightarrow> topic_settled y d1 \<longrightarrow> topic_settled y d') \<and> {} = {} \<union> {}"
    using P by (intro exI [of _ ?d]) (simp add: exec_runs put_topic_ok)
next
  show "quiz_ok d \<and> (\<exists>rows. d = d\<lparr>topic_rows := rows\<rparr>)" using assms(1) by (metis db.surjective db.update_convs(4))
  show "distinct load_topics" using load_topics_distinct by (simp add: distinct_map)
qed

lemma upsert_sets_runs:
  assumes "quiz_ok d" "faults d = []"
  shows "\<exists>d'. upsert_sets load_sets d = (Inr (), d') \<and> (quiz_ok d' \<and> (\<exists>rows. d' = d\<lparr>question_sets := rows\<rparr>))
    \<and> (\<forall>s\<in>set load_sets. set_settled s d') \<and> placed d' = placed d \<union> (\<Union>s\<in>set load_sets. {})"
  unfolding upsert_sets_def
proof (rule each_run)
  fix s d1 assume s: "s \<in> set load_sets" and P: "quiz_ok d1 \<and> (\<exists>rows. d1 = d\<lparr>question_sets := rows\<rparr>)"
  let ?d = "put_set s d1"
  have "faults d1 = []" using P assms(2) by auto
  moreover have "\<exists>rows. ?d = d\<lparr>question_sets := rows\<rparr>" using P by (auto simp: put_set_def)
  moreover have "set_settled s ?d"
    unfolding put_set_def by (simp, rule settled_put) simp_all
  moreover have "\<forall>y\<in>set load_sets. y \<noteq> s \<longrightarrow> set_settled y d1 \<longrightarrow> set_settled y ?d"
  proof (intro ballI impI)
    fix y assume y: "y \<in> set load_sets" "y \<noteq> s" "set_settled y d1"
    with s load_sets_distinct have "sd_code y \<noteq> sd_code s" by (auto simp: distinct_map inj_on_def)
    with y(3) show "set_settled y ?d" unfolding put_set_def by (simp add: settled_other)
  qed
  ultimately show "\<exists>d'. exec (''upsert set '' @ sd_code s) (\<lambda>_. True) (put_set s) d1 = (Inr (), d')
      \<and> (quiz_ok d' \<and> (\<exists>rows. d' = d\<lparr>question_sets := rows\<rparr>)) \<and> set_settled s d'
      \<and> (\<forall>y\<in>set load_sets. y \<noteq> s \<longrightarrow> set_settled y d1 \<longrightarrow> set_settled y d') \<and> placed d' = placed d1 \<union> {}"
    using P by (intro exI [of _ ?d]) (simp add: exec_runs put_set_ok put_set_placed)
next
  show "quiz_ok d \<and> (\<exists>rows. d = d\<lparr>question_sets := rows\<rparr>)" using assms(1) by (metis db.surjective db.update_convs(6))
  show "distinct load_sets" using load_sets_distinct by (simp add: distinct_map)
qed

section \<open>Questions\<close>

abbreviation question_update :: "seed_question \<Rightarrow> int \<Rightarrow> question \<Rightarrow> question" where
  "question_update q tid r \<equiv> r\<lparr>q_topic_id := tid, q_type := sq_type q, q_difficulty := sq_difficulty q, q_prompt := sq_prompt q,
     q_payload_json := print_json (sq_payload q), q_answer_json := seed_answer q,
     q_explanation := sq_explanation q, q_references_json := seed_references q\<rparr>"

lemma put_question_ok:
  assumes "quiz_ok d" "tid \<in> t_id ` set (topic_rows d)"
  shows "quiz_ok (put_question now q tid d)"
proof -
  let ?d = "put_question now q tid d"
  have tables: "topic_rows ?d = topic_rows d" "question_sets ?d = question_sets d" "members ?d = members d"
    "attempts ?d = attempts d" "srs_states ?d = srs_states d" "users ?d = users d"
    by (simp_all add: put_question_def)
  have ids: "i \<in> q_id ` set (questions ?d)" if "i \<in> q_id ` set (questions d)" for i
    using that by (simp add: put_question_def put_image)
  have "distinct (map q_id (questions ?d))" "distinct (map q_code (questions ?d))"
    using assms(1) next_id_fresh [of "map q_id (questions d)"]
    by (auto simp: put_question_def quiz_ok_def intro!: put_distinct)
  moreover have "\<forall>r\<in>set (questions ?d). q_topic_id r \<in> t_id ` set (topic_rows d)"
    using assms by (simp add: put_question_def quiz_ok_def, intro put_all) simp_all
  ultimately show ?thesis
    using assms(1) by (simp add: quiz_ok_def tables ids)
qed

lemma put_question_placed:
  assumes "quiz_ok d"
  shows "placed (put_question now q tid d) = placed d"
proof -
  have "m_question_id m \<noteq> next_id (map q_id (questions d))" if "m \<in> set (members d)" for m
  proof -
    have "m_question_id m \<in> q_id ` set (questions d)" using assms that by (simp add: quiz_ok_def)
    then show ?thesis using next_id_fresh [of "map q_id (questions d)"] by auto
  qed
  then show ?thesis by (auto simp: placed_images put_question_def put_image split: if_splits)
qed

lemma put_member_ok:
  assumes "quiz_ok d" "sid \<in> qs_id ` set (question_sets d)" "qid \<in> q_id ` set (questions d)"
  shows "quiz_ok (put_member sid qid d)"
  using assms by (auto simp: put_member_def quiz_ok_def)

lemma put_member_placed:
  assumes "quiz_ok d" "s \<in> set (question_sets d)" "r \<in> set (questions d)"
  shows "placed (put_member (qs_id s) (q_id r) d) = placed d \<union> {(qs_code s, q_code r)}"
proof -
  have s: "(qs_id s, c) \<in> (\<lambda>s. (qs_id s, qs_code s)) ` set (question_sets d) \<longleftrightarrow> c = qs_code s" for c
    using assms(1,2) by (auto simp: quiz_ok_def distinct_map inj_on_def)
  have r: "(q_id r, c) \<in> (\<lambda>q. (q_id q, q_code q)) ` set (questions d) \<longleftrightarrow> c = q_code r" for c
    using assms(1,3) by (auto simp: quiz_ok_def distinct_map inj_on_def)
  show ?thesis
  proof (cases "\<exists>m\<in>set (members d). m_set_id m = qs_id s \<and> m_question_id m = q_id r")
    case True
    then have "(qs_code s, q_code r) \<in> placed d" using assms(2,3) by (auto simp: placed_def)
    with True show ?thesis by (auto simp: put_member_def)
  next
    case False
    then have "put_member (qs_id s) (q_id r) d = d\<lparr>members := members d @ [\<lparr>m_set_id = qs_id s, m_question_id = q_id r, m_ord = 0\<rparr>]\<rparr>"
      by (simp add: put_member_def)
    then show ?thesis by (auto simp: placed_images s r)
  qed
qed

text \<open>The tables the loop over the questions works on\<close>

definition syncing :: "db \<Rightarrow> db \<Rightarrow> bool" where
  "syncing d0 d \<longleftrightarrow> quiz_ok d \<and> users d = users d0 \<and> sessions d = sessions d0 \<and> revocations d = revocations d0
     \<and> topic_rows d = topic_rows d0 \<and> question_sets d = question_sets d0 \<and> attempts d = attempts d0
     \<and> srs_states d = srs_states d0 \<and> prefs d = prefs d0 \<and> faults d = faults d0"

lemma syncingD:
  assumes "syncing d0 d"
  shows "quiz_ok d" "topic_rows d = topic_rows d0" "question_sets d = question_sets d0" "faults d = faults d0"
  using assms by (auto simp: syncing_def)

lemma upsert_member_runs:
  assumes d: "syncing d0 d" "faults d0 = []" and "c \<in> qs_code ` set (question_sets d0)" "r \<in> set (questions d)"
  shows "\<exists>d'. upsert_member (q_code r) (q_id r) c d = (Inr (), d')
    \<and> (syncing d0 d' \<and> questions d' = questions d) \<and> placed d' = placed d \<union> {(c, q_code r)}"
proof -
  note D = syncingD [OF d(1)]
  obtain s where s: "s \<in> set (question_sets d)" "qs_code s = c" using assms(3) D(3) by auto
  have found: "row qs_code (question_sets d) c = Some s"
    using D(1) s by (intro find_key) (simp_all add: quiz_ok_def)
  let ?d = "put_member (qs_id s) (q_id r) d"
  have "upsert_member (q_code r) (q_id r) c d = (Inr (), ?d)"
    using d(2) D(4) s assms(4) by (simp add: upsert_member_def lookup_runs found exec_runs)
  moreover have "syncing d0 ?d"
    using d(1) put_member_ok [OF D(1), of "qs_id s" "q_id r"] s assms(4) by (auto simp: syncing_def put_member_def)
  moreover have "questions ?d = questions d" by (simp add: put_member_def)
  ultimately show ?thesis
    using put_member_placed [OF D(1) s(1) assms(4)] s(2) by blast
qed

definition question_settled :: "db \<Rightarrow> seed_question \<Rightarrow> db \<Rightarrow> bool" where
  "question_settled d0 q d \<longleftrightarrow>
     (\<exists>t\<in>set (topic_rows d0). t_code t = sq_topic_code q
        \<and> settled q_code (sq_code q) (question_update q (t_id t)) (questions d))
     \<and> (\<forall>c\<in>set (sq_sets q). (c, sq_code q) \<in> placed d)"

text \<open>A bank whose questions belong to known topics and sets\<close>

definition bank_ok :: "seed_question list \<Rightarrow> bool" where
  "bank_ok qs \<longleftrightarrow> distinct (map sq_code qs)
     \<and> list_all (\<lambda>q. sq_topic_code q \<in> td_code ` set load_topics \<and> set (sq_sets q) \<subseteq> sd_code ` set load_sets
          \<and> distinct (sq_sets q)) qs"

lemma upsert_question_runs:
  assumes d: "syncing d0 d" "faults d0 = []" and t: "sq_topic_code q \<in> t_code ` set (topic_rows d0)"
    and sets: "set (sq_sets q) \<subseteq> qs_code ` set (question_sets d0)" "distinct (sq_sets q)"
  shows "\<exists>d'. upsert_question now q d = (Inr (), d') \<and> syncing d0 d' \<and> question_settled d0 q d'
    \<and> (\<forall>y. sq_code y \<noteq> sq_code q \<longrightarrow> question_settled d0 y d \<longrightarrow> question_settled d0 y d')
    \<and> placed d' = placed d \<union> (\<lambda>c. (c, sq_code q)) ` set (sq_sets q)"
proof -
  note D = syncingD [OF d(1)]
  obtain t where t: "t \<in> set (topic_rows d)" "t_code t = sq_topic_code q" using t D(2) by auto
  have found: "row t_code (topic_rows d) (sq_topic_code q) = Some t"
    using D(1) t by (intro find_key) (simp_all add: quiz_ok_def)
  let ?d = "put_question now q (t_id t) d"
  have ok: "quiz_ok ?d" using D(1) t(1) by (intro put_question_ok) auto
  have sync: "syncing d0 ?d" using d(1) ok by (auto simp: syncing_def put_question_def)
  have settled: "settled q_code (sq_code q) (question_update q (t_id t)) (questions ?d)"
    unfolding put_question_def by (simp, rule settled_put) simp_all
  then obtain r where r: "r \<in> set (questions ?d)" "q_code r = sq_code q" by (auto simp: settled_def)
  have qid: "row q_code (questions ?d) (sq_code q) = Some r"
    using ok r by (intro find_key) (simp_all add: quiz_ok_def)
  have "\<exists>d'. each (upsert_member (q_code r) (q_id r)) (sq_sets q) ?d = (Inr (), d')
      \<and> (syncing d0 d' \<and> questions d' = questions ?d) \<and> (\<forall>c\<in>set (sq_sets q). True)
      \<and> placed d' = placed ?d \<union> (\<Union>c\<in>set (sq_sets q). {(c, q_code r)})"
  proof (rule each_run)
    fix c d1 assume "c \<in> set (sq_sets q)" "syncing d0 d1 \<and> questions d1 = questions ?d"
    then show "\<exists>d'. upsert_member (q_code r) (q_id r) c d1 = (Inr (), d') \<and> (syncing d0 d' \<and> questions d' = questions ?d)
        \<and> True \<and> (\<forall>y\<in>set (sq_sets q). y \<noteq> c \<longrightarrow> True \<longrightarrow> True) \<and> placed d' = placed d1 \<union> {(c, q_code r)}"
      using upsert_member_runs [OF _ d(2), of d1 c r] sets(1) r(1) by auto
  qed (use sync sets(2) in simp_all)
  then obtain d' where d': "each (upsert_member (q_code r) (q_id r)) (sq_sets q) ?d = (Inr (), d')" "syncing d0 d'"
    "questions d' = questions ?d" "placed d' = placed d \<union> (\<lambda>c. (c, sq_code q)) ` set (sq_sets q)"
    using put_question_placed [OF D(1), of now q "t_id t"] r(2) by (auto simp: UNION_singleton_eq_range)
  have run: "upsert_question now q d = (Inr (), d')"
    using d(2) D(4) t(1) d'(1) r(2) syncingD(4) [OF sync]
    by (simp add: upsert_question_def lookup_runs found exec_runs qid)
  have "question_settled d0 q d'"
    using t settled d'(3,4) D(2) by (auto simp: question_settled_def)
  moreover have "question_settled d0 y d'" if "sq_code y \<noteq> sq_code q" "question_settled d0 y d" for y
  proof -
    have "settled q_code (sq_code y) (question_update y k) (questions d) \<Longrightarrow>
        settled q_code (sq_code y) (question_update y k) (questions d')" for k
      unfolding d'(3) put_question_def using that(1) by (simp add: settled_other)
    then show ?thesis using that(2) d'(4) unfolding question_settled_def by blast
  qed
  ultimately show ?thesis using run d'(2,4) by blast
qed

definition bank_places :: "seed_question list \<Rightarrow> (string \<times> string) set" where
  "bank_places qs = (\<Union>q\<in>set qs. (\<lambda>c. (c, sq_code q)) ` set (sq_sets q))"

lemma settled_codes: "settled key k upd rows \<Longrightarrow> k \<in> key ` set rows"
  by (simp add: settled_def)

lemma upsert_questions_runs:
  assumes d: "quiz_ok d" "faults d = []" and qs: "bank_ok qs"
    and seeds: "td_code ` set load_topics \<subseteq> t_code ` set (topic_rows d)" "sd_code ` set load_sets \<subseteq> qs_code ` set (question_sets d)"
  shows "\<exists>d'. upsert_questions wall qs d = (Inr (), d') \<and> syncing d d' \<and> (\<forall>q\<in>set qs. question_settled d q d')
    \<and> placed d' = placed d \<union> bank_places qs"
  unfolding upsert_questions_def bank_places_def
proof (rule each_run)
  fix q d1 assume q: "q \<in> set qs" and d1: "syncing d d1"
  have known: "sq_topic_code q \<in> td_code ` set load_topics" "set (sq_sets q) \<subseteq> sd_code ` set load_sets" "distinct (sq_sets q)"
    using qs q by (simp_all add: bank_ok_def list_all_iff)
  have other: "sq_code y \<noteq> sq_code q" if "y \<in> set qs" "y \<noteq> q" for y
    using qs that q by (auto simp: bank_ok_def distinct_map inj_on_def)
  from upsert_question_runs [OF d1 d(2) subsetD [OF seeds(1) known(1)] subset_trans [OF known(2) seeds(2)] known(3), of "unix wall"]
  obtain d' where "upsert_question (unix wall) q d1 = (Inr (), d')" "syncing d d'" "question_settled d q d'"
    "\<forall>y. sq_code y \<noteq> sq_code q \<longrightarrow> question_settled d y d1 \<longrightarrow> question_settled d y d'"
    "placed d' = placed d1 \<union> (\<lambda>c. (c, sq_code q)) ` set (sq_sets q)" by (elim exE conjE)
  with other show "\<exists>d'. upsert_question (unix wall) q d1 = (Inr (), d') \<and> syncing d d' \<and> question_settled d q d'
      \<and> (\<forall>y\<in>set qs. y \<noteq> q \<longrightarrow> question_settled d y d1 \<longrightarrow> question_settled d y d')
      \<and> placed d' = placed d1 \<union> (\<lambda>c. (c, sq_code q)) ` set (sq_sets q)"
    by (intro exI [of _ d']) simp
next
  show "syncing d d" using d(1) by (simp add: syncing_def)
  show "distinct qs" using qs by (simp add: bank_ok_def distinct_map)
qed

section \<open>Retired questions\<close>

lemma stale_id:
  assumes "quiz_ok d" "q \<in> set (questions d)"
  shows "q_id q \<in> stale_ids codes d \<longleftrightarrow> q_code q \<notin> set codes"
  using assms by (auto simp: stale_ids_def quiz_ok_def distinct_map inj_on_def)

definition retired :: "string list \<Rightarrow> db \<Rightarrow> db" where
  "retired codes d = retire_reviews codes (retire_members codes d)"

lemma retired_tables:
  "topic_rows (retired codes d) = topic_rows d" "question_sets (retired codes d) = question_sets d"
  "questions (retired codes d) = questions d" "faults (retired codes d) = faults d" "users (retired codes d) = users d"
  "sessions (retired codes d) = sessions d" "revocations (retired codes d) = revocations d"
  "attempts (retired codes d) = attempts d" "prefs (retired codes d) = prefs d"
  "stale_ids codes (retired codes d) = stale_ids codes d"
  "srs_states (retired codes d) = filter (\<lambda>s. sr_question_id s \<notin> stale_ids codes d) (srs_states d)"
  by (simp_all add: retired_def retire_reviews_def retire_members_def stale_ids_def)

lemma retired_ok: "quiz_ok d \<Longrightarrow> quiz_ok (retired codes d)"
  by (auto simp: retired_def retire_reviews_def retire_members_def quiz_ok_def intro: distinct_map_filter)

lemma retired_placed:
  assumes "quiz_ok d"
  shows "placed (retired codes d) = {(c, code) \<in> placed d. code \<in> set codes}"
proof -
  have "placed (retired codes d) = {(qs_code s, q_code q) | s q. s \<in> set (question_sets d) \<and> q \<in> set (questions d)
     \<and> (\<exists>m\<in>set (members d). m_set_id m = qs_id s \<and> m_question_id m = q_id q \<and> q_id q \<notin> stale_ids codes d)}"
    by (fastforce simp: placed_def retired_def retire_reviews_def retire_members_def)
  also have "\<dots> = {(c, code) \<in> placed d. code \<in> set codes}"
    using stale_id [OF assms] by (fastforce simp: placed_def)
  finally show ?thesis .
qed

lemma retire_runs: "faults d = [] \<Longrightarrow> retire_stale qs d = (Inr (), retired (map sq_code qs) d)"
  by (simp add: retire_stale_def exec_runs retired_def retire_members_def)

section \<open>A run of the transaction\<close>

text \<open>The tables hold the bank, and no review or membership of other questions.\<close>

definition holds_bank :: "seed_question list \<Rightarrow> db \<Rightarrow> bool" where
  "holds_bank qs d \<longleftrightarrow> quiz_ok d \<and> (\<forall>s\<in>set load_topics. topic_settled s d) \<and> (\<forall>s\<in>set load_sets. set_settled s d)
     \<and> (\<forall>q\<in>set qs. question_settled d q d) \<and> retired (map sq_code qs) d = d"

lemma retired_idem: "retired codes (retired codes d) = retired codes d"
  by (simp add: retired_def retire_reviews_def retire_members_def stale_ids_def)

lemma sync_runs:
  assumes d: "quiz_ok d" "faults d = []" and qs: "bank_ok qs"
  shows "\<exists>d'. sync_with qs wall d = (Inr (), d') \<and> holds_bank qs d' \<and> faults d' = []
    \<and> users d' = users d \<and> sessions d' = sessions d \<and> revocations d' = revocations d \<and> attempts d' = attempts d
    \<and> prefs d' = prefs d
    \<and> srs_states d' = filter (\<lambda>s. sr_question_id s \<notin> stale_ids (map sq_code qs) d') (srs_states d)
    \<and> placed d' = {(c, code) \<in> placed d. code \<in> sq_code ` set qs} \<union> bank_places qs"
proof -
  obtain d1 rows1 where d1: "upsert_topics load_topics d = (Inr (), d1)" "quiz_ok d1" "d1 = d\<lparr>topic_rows := rows1\<rparr>"
    "\<forall>s\<in>set load_topics. topic_settled s d1"
    using upsert_topics_runs [OF d] by (elim exE conjE)
  have "faults d1 = []" using d(2) d1(3) by simp
  from upsert_sets_runs [OF d1(2) this] obtain d2 rows2 where d2: "upsert_sets load_sets d1 = (Inr (), d2)" "quiz_ok d2"
    "d2 = d1\<lparr>question_sets := rows2\<rparr>" "\<forall>s\<in>set load_sets. set_settled s d2" "placed d2 = placed d1"
    by (elim exE conjE) simp
  have t2: "\<forall>s\<in>set load_topics. topic_settled s d2" "faults d2 = []" using d1(4) d(2) by (simp_all add: d1(3) d2(3))
  have seeds: "td_code ` set load_topics \<subseteq> t_code ` set (topic_rows d2)" "sd_code ` set load_sets \<subseteq> qs_code ` set (question_sets d2)"
    by (rule image_subsetI, erule t2(1) [rule_format, THEN settled_codes],
        rule image_subsetI, erule d2(4) [rule_format, THEN settled_codes])
  from upsert_questions_runs [OF d2(2) t2(2) qs seeds, of wall] obtain d3 where
    d3: "upsert_questions wall qs d2 = (Inr (), d3)" "syncing d2 d3" "\<forall>q\<in>set qs. question_settled d2 q d3"
      "placed d3 = placed d2 \<union> bank_places qs" by (elim exE conjE)
  note s3 = d3(2) [unfolded syncing_def]
  let ?d = "retired (map sq_code qs) d3"
  note same = retired_tables [of "map sq_code qs" d3]
  have run: "sync_with qs wall d = (Inr (), ?d)"
    using s3 t2 d(2) by (simp add: sync_with_def tick_no_faults d1(1) d2(1) d3(1) retire_runs same(4))
  have "placed d1 = placed d" by (simp add: d1(3) placed_def)
  then have "placed d3 = placed d \<union> bank_places qs" using d3(4) d2(5) by simp
  moreover have "quiz_ok d3" using s3 by simp
  ultimately have placed: "placed ?d = {(c, code) \<in> placed d. code \<in> sq_code ` set qs} \<union> bank_places qs"
    by (auto simp: retired_placed bank_places_def)
  have "question_settled ?d q ?d" if q: "q \<in> set qs" for q
  proof -
    have "(c, sq_code q) \<in> placed ?d" if "c \<in> set (sq_sets q)" for c
      unfolding placed bank_places_def using q that by blast
    then show ?thesis using d3(3) q s3 by (simp add: question_settled_def same)
  qed
  then have "holds_bank qs ?d"
    using t2(1) d2(4) s3 by (simp add: holds_bank_def same retired_ok retired_idem)
  moreover have "users ?d = users d" "sessions ?d = sessions d" "revocations ?d = revocations d" "attempts ?d = attempts d"
    "prefs ?d = prefs d" "faults ?d = []" "srs_states d3 = srs_states d"
    using s3 d(2) by (simp_all add: same d2(3) d1(3))
  ultimately show ?thesis using run placed by (intro exI [of _ ?d] conjI) (simp_all add: same(10,11))
qed


lemma upsert_question_again:
  assumes "quiz_ok d" "faults d = []" and q: "question_settled d q d" "set (sq_sets q) \<subseteq> qs_code ` set (question_sets d)"
  shows "upsert_question now q d = (Inr (), d)"
proof -
  obtain t where t: "t \<in> set (topic_rows d)" "t_code t = sq_topic_code q"
    "settled q_code (sq_code q) (question_update q (t_id t)) (questions d)"
    using q(1) by (auto simp: question_settled_def)
  have found: "row t_code (topic_rows d) (sq_topic_code q) = Some t"
    using assms(1) t by (intro find_key) (simp_all add: quiz_ok_def)
  have same: "put_question now q (t_id t) d = d"
    unfolding put_question_def by (subst settled_id [OF t(3)]) simp
  obtain r where r: "r \<in> set (questions d)" "q_code r = sq_code q" using t(3) by (auto simp: settled_def)
  have qid: "row q_code (questions d) (sq_code q) = Some r"
    using assms(1) r by (intro find_key) (simp_all add: quiz_ok_def)
  have "upsert_member (sq_code q) (q_id r) c d = (Inr (), d)" if c: "c \<in> set (sq_sets q)" for c
  proof -
    obtain s where s: "s \<in> set (question_sets d)" "qs_code s = c" using q(2) c by auto
    have set_found: "row qs_code (question_sets d) c = Some s"
      using assms(1) s by (intro find_key) (simp_all add: quiz_ok_def)
    have "(c, sq_code q) \<in> placed d" using q(1) c by (simp add: question_settled_def)
    then obtain s' q' m where m: "s' \<in> set (question_sets d)" "qs_code s' = c" "q' \<in> set (questions d)" "q_code q' = sq_code q"
      "m \<in> set (members d)" "m_set_id m = qs_id s'" "m_question_id m = q_id q'"
      by (auto simp: placed_def)
    have "row qs_code (question_sets d) c = Some s'" "row q_code (questions d) (sq_code q) = Some q'"
      using assms(1) m by (auto intro!: find_key simp: quiz_ok_def)
    then have "s' = s" "q' = r" using set_found qid by simp_all
    then have "put_member (qs_id s) (q_id r) d = d" using m by (auto simp: put_member_def)
    then show ?thesis using assms(2) s r(1) by (simp add: upsert_member_def lookup_runs set_found exec_runs)
  qed
  then show ?thesis
    using assms(2) t(1) by (simp add: upsert_question_def lookup_runs found exec_runs same qid each_same)
qed

lemma sync_held:
  assumes held: "quiz_ok d" "\<forall>s\<in>set load_topics. topic_settled s d" "\<forall>s\<in>set load_sets. set_settled s d"
      "\<forall>q\<in>set qs. question_settled d q d"
    and "faults d = []" "bank_ok qs"
  shows "sync_with qs wall d = (Inr (), retired (map sq_code qs) d)"
proof -
  have topics: "upsert_topics load_topics d = (Inr (), d)"
    unfolding upsert_topics_def
  proof (rule each_same)
    fix s assume "s \<in> set load_topics"
    with held(2) have "topic_settled s d" by blast
    then have "put_topic s d = d" unfolding put_topic_def by (subst settled_id) simp_all
    then show "exec (''upsert topic '' @ td_code s) (\<lambda>_. True) (put_topic s) d = (Inr (), d)"
      using assms(5) by (simp add: exec_runs)
  qed
  have sets: "upsert_sets load_sets d = (Inr (), d)"
    unfolding upsert_sets_def
  proof (rule each_same)
    fix s assume "s \<in> set load_sets"
    with held(3) have "set_settled s d" by blast
    then have "put_set s d = d" unfolding put_set_def by (subst settled_id) simp_all
    then show "exec (''upsert set '' @ sd_code s) (\<lambda>_. True) (put_set s) d = (Inr (), d)"
      using assms(5) by (simp add: exec_runs)
  qed
  have "sd_code ` set load_sets \<subseteq> qs_code ` set (question_sets d)"
    using held(3) by (meson image_subsetI settled_codes)
  then have known: "set (sq_sets q) \<subseteq> qs_code ` set (question_sets d)" if "q \<in> set qs" for q
    using assms(6) that by (fastforce simp: bank_ok_def list_all_iff)
  have "upsert_questions wall qs d = (Inr (), d)"
    unfolding upsert_questions_def
    by (rule each_same, rule upsert_question_again) (use held(1,4) assms(5) known in auto)
  then show ?thesis
    using assms(5) by (simp add: sync_with_def tick_no_faults topics sets retire_runs retired_tables)
qed

lemma sync_again:
  assumes "holds_bank qs d" "faults d = []" "bank_ok qs"
  shows "sync_with qs wall d = (Inr (), d)"
  using sync_held [of d qs wall] assms by (simp add: holds_bank_def)

section \<open>The bank itself\<close>

lemma seed_codes: "td_code ` set load_topics = set (map td_code load_topics)" "sd_code ` set load_sets = set (map sd_code load_sets)"
  by simp_all

lemma load_sets_codes: "map sd_code load_sets = default_set_codes"
  by (simp add: load_sets_def default_set_codes_def set_code_core_def set_code_journal_def set_code_comprehensive_def)

lemma bank_topics:
  "\<forall>p\<in>set all_patterns. pt_topic p \<in> td_code ` set load_topics"
  "\<forall>q\<in>set choice_questions. sq_topic_code q \<in> td_code ` set load_topics"
proof -
  have "\<forall>k\<in>set (map pattern_key all_patterns). fst (snd k) \<in> set (map td_code load_topics)"
    by (simp add: all_keys load_topics_def)
  then show "\<forall>p\<in>set all_patterns. pt_topic p \<in> td_code ` set load_topics" by (simp add: pattern_key_def)
  have "\<forall>k\<in>set (map (\<lambda>q. (sq_code q, sq_topic_code q)) choice_questions). snd k \<in> set (map td_code load_topics)"
    unfolding choice_questions_keys by (simp add: load_topics_def)
  then show "\<forall>q\<in>set choice_questions. sq_topic_code q \<in> td_code ` set load_topics" by simp
qed

lemma generated_bank_ok:
  assumes "generate = Some qs"
  shows "bank_ok qs"
proof -
  have sets: "sd_code ` set load_sets = {set_code_core, set_code_journal, set_code_comprehensive}"
    unfolding seed_codes load_sets_codes by (simp add: default_set_codes_def)
  have "sq_topic_code q \<in> td_code ` set load_topics \<and> set (sq_sets q) \<subseteq> sd_code ` set load_sets \<and> distinct (sq_sets q)"
    if "q \<in> set qs" for q
  proof (cases rule: bank_question_cases [OF assms that])
    case (1 p i t ds cs)
    then show ?thesis
      using bank_topics(1) default_set_codes_distinct unfolding sets by (auto simp: journal_question_def default_set_codes_def)
  next
    case 2
    then show ?thesis
      using bank_topics(2) default_set_codes_distinct unfolding sets by (auto simp: choice_sound_def default_set_codes_def)
  qed
  then show ?thesis using bank_codes_distinct [OF assms] by (simp add: bank_ok_def list_all_iff)
qed

section \<open>Properties\<close>

text \<open>
  C27: the bank can be built (no pattern asks for an amount it does not have), it has 289 questions
  with different codes, all of its topics and sets are among the embedded ones, and each question
  set gets exactly as many questions as \<^verbatim>\<open>sets.json\<close> announces.
\<close>

theorem bank_complete:
  "\<exists>qs. generate = Some qs \<and> length qs = 289 \<and> bank_ok qs
     \<and> list_all (\<lambda>s. int (length (filter (\<lambda>q. sd_code s \<in> set (sq_sets q)) qs)) = sd_target_size s) load_sets"
proof -
  obtain qs where qs: "generate = Some qs" using generate_eq by blast
  have names: "set_code_core \<noteq> set_code_journal" "set_code_core \<noteq> set_code_comprehensive" "set_code_journal \<noteq> set_code_comprehensive"
    using default_set_codes_distinct by (simp_all add: default_set_codes_def)
  have size: "length qs = 289"
    using arg_cong [OF bank_fields [OF qs], of length] by (simp add: code_keys_counts choice_fields)
  have "length (filter (\<lambda>k. set_code_core \<in> set (variant_sets (snd k))) code_keys) = 101"
    "length (filter (\<lambda>k. set_code_journal \<in> set (variant_sets (snd k))) code_keys) = 257"
    "length (filter (\<lambda>k. set_code_comprehensive \<in> set (variant_sets (snd k))) code_keys) = 257"
    using code_keys_counts names by (simp_all add: variant_sets_def if_distrib cong: if_cong)
  then have "list_all (\<lambda>(c, n). int (length (filter (\<lambda>q. c \<in> set (sq_sets q)) qs)) = n)
      [(set_code_core, 133), (set_code_journal, 257), (set_code_comprehensive, 289)]"
    using names by (simp add: bank_set_sizes [OF qs])
  moreover have "map (\<lambda>s. (sd_code s, sd_target_size s)) load_sets
      = [(set_code_core, 133), (set_code_journal, 257), (set_code_comprehensive, 289)]"
    by (simp add: load_sets_def set_code_core_def set_code_journal_def set_code_comprehensive_def)
  ultimately have "list_all (\<lambda>(c, n). int (length (filter (\<lambda>q. c \<in> set (sq_sets q)) qs)) = n)
      (map (\<lambda>s. (sd_code s, sd_target_size s)) load_sets)" by (simp only:)
  then have "list_all (\<lambda>s. int (length (filter (\<lambda>q. sd_code s \<in> set (sq_sets q)) qs)) = sd_target_size s) load_sets"
    by (simp add: list.pred_map comp_def)
  with qs size generated_bank_ok [OF qs] show ?thesis by (intro exI conjI)
qed

text \<open>
  C29: a synchronisation that fails, wherever it fails, leaves every table as it was.
\<close>

theorem sync_atomic:
  assumes "sync wall d = Some (Inl e, d')"
  shows "same_tables d d'"
proof -
  have undone: "same_tables d (roll_back d0 d1)" if "same_tables d d0" for d0 d1
    using that by (rule same_tables_trans) (simp add: roll_back_def same_tables_def)
  obtain qs where "sync_with qs wall d = (Inl e, d')" using assms by (auto simp: sync_def)
  then show ?thesis
    by (auto simp: sync_with_def Let_def intro!: undone dest: tick_tables
        split: prod.splits option.splits sum.splits)
qed

lemma sync_atomic_witness:
  "\<exists>e d'. sync 0 (study_db\<lparr>faults := [Some ''disk I/O error'']\<rparr>) = Some (Inl e, d') \<and> questions d' = questions study_db"
proof -
  let ?d = "study_db\<lparr>faults := [Some ''disk I/O error'']\<rparr>"
  obtain qs where "generate = Some qs" using generate_eq by blast
  then have "sync 0 ?d = Some (Inl (ErrWrap ''sync begin'' (ErrText ''disk I/O error'')), ?d\<lparr>faults := []\<rparr>)"
    by (auto simp: sync_def sync_with_def tick_def)
  with sync_atomic [OF this] show ?thesis by (auto dest: same_tablesD)
qed

lemma sync_eq:
  assumes "generate = Some qs"
  shows "sync wall d = Some (sync_with qs wall d)"
  unfolding sync_def assms by simp

text \<open>The row shows the question: its topic, its texts and its answer.\<close>

definition row_shows :: "db \<Rightarrow> seed_question \<Rightarrow> question \<Rightarrow> bool" where
  "row_shows d q r \<longleftrightarrow> (\<exists>t\<in>set (topic_rows d). t_id t = q_topic_id r \<and> t_code t = sq_topic_code q)
     \<and> q_type r = sq_type q \<and> q_difficulty r = sq_difficulty q \<and> q_prompt r = sq_prompt q
     \<and> q_payload_json r = print_json (sq_payload q) \<and> q_answer_json r = seed_answer q
     \<and> q_explanation r = sq_explanation q \<and> q_references_json r = seed_references q"

lemma held_row:
  assumes "holds_bank qs d" "q \<in> set qs"
  obtains r where "row q_code (questions d) (sq_code q) = Some r" "row_shows d q r"
proof -
  obtain t where t: "t \<in> set (topic_rows d)" "t_code t = sq_topic_code q"
    "settled q_code (sq_code q) (question_update q (t_id t)) (questions d)"
    using assms by (auto simp: holds_bank_def question_settled_def)
  then obtain r where r: "r \<in> set (questions d)" "q_code r = sq_code q" "question_update q (t_id t) r = r"
    by (auto simp: settled_def)
  have "row q_code (questions d) (sq_code q) = Some r"
    using assms(1) r by (intro find_key) (simp_all add: holds_bank_def quiz_ok_def)
  moreover have "row_shows d q (question_update q (t_id t) r)" using t(1,2) by (auto simp: row_shows_def)
  ultimately show thesis by (intro that) (simp_all add: r(3))
qed

text \<open>
  C8: whatever a sound database holds, a synchronisation on a working engine succeeds and brings
  it to the bank: every question of the bank has a row that shows it, and the questions of each set
  are those the bank puts there, and of the others in the bank those that were there before.  The
  reviews of questions in the bank stay; accounts, sessions and attempts are not touched.
\<close>

theorem sync_converges:
  assumes "quiz_ok d" "faults d = []"
  shows "\<exists>qs d'. generate = Some qs \<and> sync wall d = Some (Inr (), d') \<and> quiz_ok d'
    \<and> (\<forall>q\<in>set qs. \<exists>r. row q_code (questions d') (sq_code q) = Some r \<and> row_shows d' q r)
    \<and> (\<forall>c. set (map q_code (set_questions c d')) = {sq_code q | q. q \<in> set qs \<and> c \<in> set (sq_sets q)}
         \<union> set (map q_code (set_questions c d)) \<inter> sq_code ` set qs)
    \<and> srs_states d' = filter (\<lambda>s. sr_question_id s \<notin> stale_ids (map sq_code qs) d') (srs_states d)
    \<and> users d' = users d \<and> sessions d' = sessions d \<and> attempts d' = attempts d"
proof -
  obtain qs where qs: "generate = Some qs" using generate_eq by blast
  obtain d' where d': "sync_with qs wall d = (Inr (), d')" "holds_bank qs d'" "users d' = users d" "sessions d' = sessions d"
    "attempts d' = attempts d" "srs_states d' = filter (\<lambda>s. sr_question_id s \<notin> stale_ids (map sq_code qs) d') (srs_states d)"
    "placed d' = {(c, code) \<in> placed d. code \<in> sq_code ` set qs} \<union> bank_places qs"
    using sync_runs [OF assms generated_bank_ok [OF qs], of wall] by (elim exE conjE)
  have "set (map q_code (set_questions c d')) = {sq_code q | q. q \<in> set qs \<and> c \<in> set (sq_sets q)}
      \<union> set (map q_code (set_questions c d)) \<inter> sq_code ` set qs" for c
    unfolding placed_set_questions d'(7) bank_places_def by auto
  moreover have "\<exists>r. row q_code (questions d') (sq_code q) = Some r \<and> row_shows d' q r" if "q \<in> set qs" for q
    using held_row [OF d'(2) that] by blast
  moreover have "quiz_ok d'" using d'(2) by (simp add: holds_bank_def)
  ultimately show ?thesis
    using qs d'(1,3-6) by (intro exI [of _ qs] exI [of _ d'] conjI) (simp_all add: sync_eq [OF qs])
qed

lemma sync_converges_witness:
  "\<exists>d'. sync 0 study_db = Some (Inr (), d') \<and> quiz_ok d' \<and> users d' = [demo_user]"
  using sync_converges [OF study_db_ok study_db_tables(6), of 0] by (auto simp: study_db_tables)

text \<open>
  C28: synchronising again, at any later time, changes nothing.
\<close>

theorem sync_idempotent:
  assumes "quiz_ok d" "faults d = []" "sync wall d = Some (Inr (), d')"
  shows "sync wall' d' = Some (Inr (), d')"
proof -
  obtain qs where qs: "generate = Some qs" using generate_eq by blast
  note ok = generated_bank_ok [OF qs]
  obtain d1 where "sync_with qs wall d = (Inr (), d1)" "holds_bank qs d1" "faults d1 = []"
    using sync_runs [OF assms(1,2) ok, of wall] by (elim exE conjE)
  with assms(3) show ?thesis using sync_again [OF _ _ ok] by (simp add: sync_eq [OF qs])
qed

lemma sync_idempotent_witness:
  "\<exists>d'. sync 0 study_db = Some (Inr (), d') \<and> sync second d' = Some (Inr (), d')"
proof -
  obtain qs where qs: "generate = Some qs" using generate_eq by blast
  obtain d1 where "sync_with qs 0 study_db = (Inr (), d1)"
    using sync_runs [OF study_db_ok study_db_tables(6) generated_bank_ok [OF qs], of 0] by (elim exE conjE)
  then have "sync 0 study_db = Some (Inr (), d1)" by (simp add: sync_eq [OF qs])
  with sync_idempotent [OF study_db_ok study_db_tables(6) this] show ?thesis by blast
qed

lemma standard_well_formed: "a \<in> set standard \<Longrightarrow> well_formed a"
  by (erule standard_rune_cases) simp

lemma bank_answer_ok:
  assumes "generate = Some qs" "q \<in> set qs"
  shows "answer_ok (sq_answer q) \<and> question_type_is_valid (ans_type (sq_answer q))"
proof (cases rule: bank_question_cases [OF assms])
  case (1 p i t ds cs)
  then have a: "sq_answer q = \<lparr>ans_type = qt_journal, ans_debits = ds, ans_credits = cs, ans_choice = [], ans_text = []\<rparr>"
    by (simp add: journal_question_def)
  have "well_formed (account e) \<and> in_i64 (amount e)" if "e \<in> set (ds @ cs)" for e
  proof -
    have "account e \<in> set standard" "0 < amount e" "amount e < 2 ^ 40"
      using 1(3) that by (auto simp: balanced_def list_all_iff)
    then show ?thesis by (simp add: standard_well_formed in_i64_def)
  qed
  then have "list_all (\<lambda>e. well_formed (account e) \<and> in_i64 (amount e)) (ds @ cs)"
    by (simp add: list_all_iff)
  moreover have "well_formed qt_journal" "well_formed []"
    by (simp_all add: qt_journal_def well_formed_def clean_text_ascii byte_def)
  ultimately show ?thesis by (simp add: a answer_ok_def question_type_is_valid_def)
next
  case 2
  then obtain a where a: "sq_answer q = \<lparr>ans_type = sq_type q, ans_debits = [], ans_credits = [], ans_choice = a, ans_text = []\<rparr>"
    "list_all (\<lambda>c. byte c < 0x80) a" and qt: "question_type_is_valid (sq_type q)"
    by (auto simp: choice_sound_def)
  have "well_formed (sq_type q)"
    using qt by (auto simp: question_type_is_valid_def qt_defs well_formed_def clean_text_ascii byte_def)
  with a qt show ?thesis by (simp add: answer_ok_def well_formed_def clean_text_ascii list_all_iff)
qed

text \<open>
  C9: after a synchronisation every learner can answer every question of the bank, in any set the
  bank puts it in or in none: submitting the answer of the bank is accepted and graded correct.
\<close>

theorem bank_answers_accepted:
  assumes "quiz_ok d" "faults d = []" "uid \<in> u_id ` set (users d)" "\<not> is_zero_time now"
  shows "\<exists>qs d'. generate = Some qs \<and> sync wall d = Some (Inr (), d') \<and> (\<forall>q\<in>set qs. \<forall>c\<in>set ([] # sq_sets q).
    \<exists>r g d''. row q_code (questions d') (sq_code q) = Some r
      \<and> submit cf (new_quiz_service wall) now uid \<lparr>si_question_id = q_id r, si_set_code = c, si_answer = sq_answer q,
           si_debits_nil = False, si_credits_nil = False, si_duration_ms = ms\<rparr> d' = (Inr g, d'')
      \<and> a_is_correct (ga_attempt g))"
proof -
  obtain qs where qs: "generate = Some qs" using generate_eq by blast
  note ok = generated_bank_ok [OF qs]
  obtain d' where d': "sync_with qs wall d = (Inr (), d')" "holds_bank qs d'" "faults d' = []" "users d' = users d"
    using sync_runs [OF assms(1,2) ok, of wall] by (elim exE conjE)
  have quiz: "quiz_ok d'" using d'(2) by (simp add: holds_bank_def)
  have "\<exists>r g d''. row q_code (questions d') (sq_code q) = Some r
      \<and> submit cf (new_quiz_service wall) now uid \<lparr>si_question_id = q_id r, si_set_code = c, si_answer = sq_answer q,
           si_debits_nil = False, si_credits_nil = False, si_duration_ms = ms\<rparr> d' = (Inr g, d'')
      \<and> a_is_correct (ga_attempt g)" if q: "q \<in> set qs" and c: "c \<in> set ([] # sq_sets q)" for q c
  proof -
    obtain r where r: "row q_code (questions d') (sq_code q) = Some r" "row_shows d' q r"
      using held_row [OF d'(2) q] .
    have r_in: "question_of d' (q_id r) = Some r"
      using quiz row_Some [OF r(1)] by (auto simp: question_of_def quiz_ok_def intro: row_key)
    have want: "read_answer (q_answer_json r) = Inr (sq_answer q)"
      using r(2) bank_answer_ok [OF qs q] by (simp add: row_shows_def seed_answer_def Let_def read_write_answer)
    let ?i = "\<lparr>si_question_id = q_id r, si_set_code = c, si_answer = sq_answer q,
       si_debits_nil = False, si_credits_nil = False, si_duration_ms = ms\<rparr>"
    have "c = [] \<or> (\<exists>s. set_of d' c = Some s)"
    proof (cases "c = []")
      case False
      then have "c \<in> sd_code ` set load_sets" using c ok q by (auto simp: bank_ok_def list_all_iff)
      then obtain s where s: "s \<in> set load_sets" "c = sd_code s" by blast
      with d'(2) have "set_settled s d'" by (simp add: holds_bank_def)
      then have "c \<in> qs_code ` set (question_sets d')" unfolding s(2) by (rule settled_codes)
      then show ?thesis using row_None [of qs_code c "question_sets d'"] by (auto simp: set_of_def)
    qed simp
    then have can: "can_submit d' uid ?i"
      using assms(3) d'(4) r_in want by (simp add: can_submit_def)
    obtain g d'' where s: "submit cf (new_quiz_service wall) now uid ?i d' = (Inr g, d'')"
      using submit_runs [OF quiz d'(3) can] by blast
    have "a_is_correct (ga_attempt g)"
      using sqlite_quiz_store.submit_outcome [OF quiz assms(4) new_quiz_service_ports s] r_in want
        bank_answer_ok [OF qs q]
      by (elim conjE disjE exE) (auto simp: Let_def is_correct_refl dest: arg_cong [where f = a_is_correct])
    with r(1) s show ?thesis by blast
  qed
  with qs d'(1) show ?thesis by (intro exI [of _ qs] exI [of _ d']) (simp add: sync_eq [OF qs])
qed

lemma bank_answers_accepted_witness:
  "\<exists>qs d'. generate = Some qs \<and> sync 0 study_db = Some (Inr (), d')"
  using bank_answers_accepted [OF study_db_ok study_db_tables(6), of 1 second 0 "\<lambda>c. c" 0]
  by (auto simp: study_db_tables demo_user_def demo_time)

end
