(* ===== verification/Http.thy ===== *)
theory Http
  imports Ports Json
begin

text \<open>
  What the transport layer uses of \<^verbatim>\<open>net/http\<close>: requests, the headers collected on a response
  writer, cookies, \<^verbatim>\<open>http.Error\<close> and \<^verbatim>\<open>http.Redirect\<close>; and the request-independent helpers of
  \<^verbatim>\<open>internal/transport/middleware\<close>.

  A request gives access to its header fields, cookies, query and form values by name, the empty
  text standing for an absent one, as the \<^verbatim>\<open>Get\<close> and \<^verbatim>\<open>FormValue\<close> methods return it.  What the
  standard library makes of the body depends on how many bytes of it can be read.
\<close>

section \<open>Requests\<close>

record request_context =
  cx_request_id :: string
  cx_session :: "session option"
  cx_user :: "user option"
  cx_jwt_user_id :: int
  cx_csp_nonce :: string

definition background :: request_context where
  "background = \<lparr>cx_request_id = [], cx_session = None, cx_user = None, cx_jwt_user_id = 0, cx_csp_nonce = []\<rparr>"

record request =
  rq_method :: string
  rq_path :: string
  rq_remote_addr :: string
  rq_header :: "string \<Rightarrow> string"
  rq_cookie :: "string \<Rightarrow> string option"
  rq_query :: "string \<Rightarrow> string"
  rq_path_value :: "string \<Rightarrow> string"
  rq_form :: "bool \<Rightarrow> int option \<Rightarrow> (string \<Rightarrow> string) \<times> bool"
  rq_body :: string
  rq_body_limit :: "int option"
  rq_parsed :: "bool option"
  rq_ctx :: request_context

text \<open>
  The form of a request is parsed once, by \<^verbatim>\<open>ParseForm\<close> without the parts of a multipart body or by
  \<^verbatim>\<open>FormValue\<close> with them.  An error is reported by the \<^verbatim>\<open>ParseForm\<close> that meets it; \<^verbatim>\<open>FormValue\<close>
  ignores it, and a later \<^verbatim>\<open>ParseForm\<close> finds the form parsed already.
\<close>

definition parse_form :: "request \<Rightarrow> bool \<times> request" where
  "parse_form r =
     (case rq_parsed r of
        Some _ \<Rightarrow> (True, r)
      | None \<Rightarrow> (snd (rq_form r False (rq_body_limit r)), r\<lparr>rq_parsed := Some False\<rparr>))"

definition form_value :: "request \<Rightarrow> string \<Rightarrow> string" where
  "form_value r k =
     fst (rq_form r (case rq_parsed r of None \<Rightarrow> True | Some m \<Rightarrow> m) (rq_body_limit r)) k"

definition after_form_value :: "request \<Rightarrow> request" where
  "after_form_value r = (if rq_parsed r = None then r\<lparr>rq_parsed := Some True\<rparr> else r)"

text \<open>The bytes of the body that can be read.\<close>

definition readable_body :: "request \<Rightarrow> string" where
  "readable_body r = (case rq_body_limit r of None \<Rightarrow> rq_body r | Some n \<Rightarrow> take (nat n) (rq_body r))"

section \<open>Responses\<close>

record cookie =
  ck_name :: string
  ck_value :: string
  ck_path :: string
  ck_domain :: string
  ck_max_age :: int
  ck_http_only :: bool
  ck_secure :: bool
  ck_same_site :: string

text \<open>The header of a response writer: \<^verbatim>\<open>Header().Set\<close> replaces a field, \<^verbatim>\<open>SetCookie\<close> adds one.\<close>

record writer =
  wr_header :: "string \<Rightarrow> string option"
  wr_cookies :: "cookie list"

definition new_writer :: writer where
  "new_writer = \<lparr>wr_header = Map.empty, wr_cookies = []\<rparr>"

definition set_header :: "string \<Rightarrow> string \<Rightarrow> writer \<Rightarrow> writer" where
  "set_header k v w = w\<lparr>wr_header := (wr_header w)(k \<mapsto> v)\<rparr>"

definition set_cookie :: "cookie \<Rightarrow> writer \<Rightarrow> writer" where
  "set_cookie c w = w\<lparr>wr_cookies := wr_cookies w @ [c]\<rparr>"

datatype 'p body = NoBody | Plain string | JsonBody json | PageBody 'p

record 'p reply =
  rp_status :: int
  rp_writer :: writer
  rp_body :: "'p body"

text \<open>A handler finishes with a reply or panics, leaving the headers it had set.\<close>

datatype 'p outcome = Replied "'p reply" | Panicked writer

definition newline :: string where "newline = [chr 10]"

definition reply :: "int \<Rightarrow> 'p body \<Rightarrow> writer \<Rightarrow> 'p outcome" where
  "reply status body w = Replied \<lparr>rp_status = status, rp_writer = w, rp_body = body\<rparr>"

text \<open>\<^verbatim>\<open>http.Error\<close> and \<^verbatim>\<open>http.Redirect\<close> to a path of this server\<close>

definition http_error :: "string \<Rightarrow> int \<Rightarrow> writer \<Rightarrow> 'p outcome" where
  "http_error msg status w = reply status (Plain (msg @ newline))
     (set_header ''Content-Type'' ''text/plain; charset=utf-8''
       (set_header ''X-Content-Type-Options'' ''nosniff'' w))"

definition http_redirect :: "request \<Rightarrow> string \<Rightarrow> int \<Rightarrow> writer \<Rightarrow> 'p outcome" where
  "http_redirect r url status w =
     (let w1 = set_header ''Location'' url w;
          untyped = wr_header w ''Content-Type'' = None;
          w2 = (if untyped \<and> (rq_method r = ''GET'' \<or> rq_method r = ''HEAD'')
                then set_header ''Content-Type'' ''text/html; charset=utf-8'' w1 else w1)
      in reply status
           (if untyped \<and> rq_method r = ''GET''
            then Plain (''<a href=\"'' @ url @ ''\">See Other</a>.'' @ newline @ newline) else NoBody) w2)"

text \<open>
  A handler works on the state \<open>'s\<close> behind the interfaces it was built with.  What it reads of the
  outside world while it serves one request is a moment: the readings of the clock, the random
  bytes and the draws, each use of them naming its place; \<open>later\<close> are the places not used yet.
\<close>

record moment =
  mo_now :: "nat \<Rightarrow> time"
  mo_rand :: "nat \<Rightarrow> int \<Rightarrow> string res"
  mo_draws :: "nat \<Rightarrow> int list"
  mo_wall :: "nat \<Rightarrow> time"

definition later :: "moment \<Rightarrow> moment" where
  "later mo = \<lparr>mo_now = (\<lambda>n. mo_now mo (n + 2)), mo_rand = (\<lambda>n. mo_rand mo (n + 2)),
     mo_draws = (\<lambda>n. mo_draws mo (n + 2)), mo_wall = (\<lambda>n. mo_wall mo (n + 2))\<rparr>"

type_synonym ('p, 's) handler = "moment \<Rightarrow> request \<Rightarrow> writer \<Rightarrow> 's \<Rightarrow> 'p outcome \<times> 's"
type_synonym ('p, 's) middleware = "('p, 's) handler \<Rightarrow> ('p, 's) handler"

section \<open>The interfaces of the services\<close>

record 's auth_port =
  ath_register :: "moment \<Rightarrow> string \<Rightarrow> string \<Rightarrow> 's \<Rightarrow> user res \<times> 's"
  ath_login :: "moment \<Rightarrow> string \<Rightarrow> string \<Rightarrow> string \<Rightarrow> string \<Rightarrow> 's \<Rightarrow> session res \<times> 's"
  ath_logout :: "moment \<Rightarrow> string \<Rightarrow> 's \<Rightarrow> unit res \<times> 's"
  ath_change_password :: "moment \<Rightarrow> int \<Rightarrow> string \<Rightarrow> string \<Rightarrow> string \<Rightarrow> 's \<Rightarrow> unit res \<times> 's"
  ath_session_by_id :: "moment \<Rightarrow> string \<Rightarrow> 's \<Rightarrow> (session \<times> user) res \<times> 's"

record 's api_auth_port =
  aat_issue_token :: "moment \<Rightarrow> int \<Rightarrow> duration \<Rightarrow> 's \<Rightarrow> (string \<times> string \<times> time) res \<times> 's"
  aat_verify_token :: "moment \<Rightarrow> string \<Rightarrow> 's \<Rightarrow> int res \<times> 's"
  aat_extract_jti :: "moment \<Rightarrow> string \<Rightarrow> 's \<Rightarrow> (string \<times> time) res \<times> 's"
  aat_revoke :: "moment \<Rightarrow> string \<Rightarrow> int \<Rightarrow> time \<Rightarrow> 's \<Rightarrow> unit res \<times> 's"

record 's quiz_port =
  qzp_next_question :: "moment \<Rightarrow> int \<Rightarrow> string \<Rightarrow> quiz_mode \<Rightarrow> 's \<Rightarrow> question res \<times> 's"
  qzp_submit :: "moment \<Rightarrow> int \<Rightarrow> submit_input \<Rightarrow> 's \<Rightarrow> graded_attempt res \<times> 's"
  qzp_delete_attempt :: "moment \<Rightarrow> int \<Rightarrow> int \<Rightarrow> 's \<Rightarrow> unit res \<times> 's"
  qzp_delete_all_for_user :: "moment \<Rightarrow> int \<Rightarrow> 's \<Rightarrow> unit res \<times> 's"
  qzp_history :: "moment \<Rightarrow> int \<Rightarrow> int \<Rightarrow> int \<Rightarrow> 's \<Rightarrow> attempt list res \<times> 's"

record 's stats_port =
  stp_summary :: "moment \<Rightarrow> int \<Rightarrow> 's \<Rightarrow> stats_summary res \<times> 's"
  stp_topic_stats :: "moment \<Rightarrow> int \<Rightarrow> 's \<Rightarrow> topic_stat list res \<times> 's"
  stp_daily_accuracy :: "moment \<Rightarrow> int \<Rightarrow> int \<Rightarrow> 's \<Rightarrow> daily_accuracy list res \<times> 's"

record 's rate_limiter =
  rl_allow :: "moment \<Rightarrow> string \<Rightarrow> 's \<Rightarrow> bool \<times> 's"

section \<open>Helpers of the middleware\<close>

definition is_safe_method :: "string \<Rightarrow> bool" where
  "is_safe_method m \<longleftrightarrow> m = ''GET'' \<or> m = ''HEAD'' \<or> m = ''OPTIONS''"

text \<open>\<^verbatim>\<open>net.SplitHostPort\<close>, the host only; \<open>None\<close> is its error\<close>

definition split_host :: "string \<Rightarrow> string option" where
  "split_host s =
     (let i = last_index_byte s (CHR '':'') in
      if i < 0 then None
      else if s \<noteq> [] \<and> hd s = CHR ''['' then
        (let e = index_byte s (CHR '']'') in
         if e < 0 \<or> e + 1 \<noteq> i then None
         else let host = take (nat e - 1) (drop 1 s) in
           if CHR ''['' \<in> set (drop 1 s) \<or> CHR '']'' \<in> set (drop (nat e + 1) s) then None else Some host)
      else
        (let host = take (nat i) s in
         if CHR '':'' \<in> set host \<or> CHR ''['' \<in> set s \<or> CHR '']'' \<in> set s then None else Some host))"

definition forwarded_for :: "string \<Rightarrow> string" where
  "forwarded_for v =
     (let i = index_byte v (CHR '','') in trim_space (if 0 < i then take (nat i) v else v))"

definition client_ip :: "request \<Rightarrow> string" where
  "client_ip r =
     (if rq_header r ''X-Forwarded-For'' \<noteq> [] then forwarded_for (rq_header r ''X-Forwarded-For'')
      else if rq_header r ''X-Real-IP'' \<noteq> [] then rq_header r ''X-Real-IP''
      else case split_host (rq_remote_addr r) of None \<Rightarrow> rq_remote_addr r | Some host \<Rightarrow> host)"

definition redirect_or_json :: "request \<Rightarrow> string \<Rightarrow> string \<Rightarrow> int \<Rightarrow> writer \<Rightarrow> 'p outcome" where
  "redirect_or_json r html_path msg status w =
     (if has_prefix (rq_path r) ''/api/'' \<or> rq_header r ''Accept'' = ''application/json''
      then http_error (''{\"error\":\"'' @ msg @ ''\"}'') status w
      else http_redirect r html_path 303 w)"

definition defaulted :: "'a list \<Rightarrow> 'a list \<Rightarrow> 'a list" where
  "defaulted v d = (if v = [] then d else v)"

text \<open>The loop of \<^verbatim>\<open>intToASCII\<close> writes the digits from the right.\<close>

function ascii_loop :: "int \<Rightarrow> string \<Rightarrow> string" where
  "ascii_loop n buf = (if n \<le> 0 then buf else ascii_loop (n div 10) (digit (n mod 10) # buf))"
  by pat_completeness auto
termination
  by (relation "measure (nat \<circ> fst)") auto

declare ascii_loop.simps [simp del]

definition int_to_ascii :: "int \<Rightarrow> string" where
  "int_to_ascii n =
     (if n = 0 then ''0''
      else let m = (if n < 0 then i64 (- n) else n); ds = ascii_loop m []
           in if n < 0 then CHR ''-'' # ds else ds)"

lemma ascii_loop_digits: "ascii_loop n buf = digits n @ buf"
proof (induction n buf rule: ascii_loop.induct)
  case (1 n buf)
  then show ?case by (subst ascii_loop.simps, subst digits.simps) simp
qed

text \<open>
  \<^verbatim>\<open>intToASCII\<close> is \<^verbatim>\<open>strconv.Itoa\<close> on every 64-bit integer but the least one, whose negation
  overflows: for that it returns a bare minus sign.
\<close>

theorem int_to_ascii_itoa:
  assumes "in_i64 n"
  shows "int_to_ascii n = (if n = - (2 ^ 63) then ''-'' else itoa n)"
proof (cases "n = - (2 ^ 63)")
  case True
  have "i64 (2 ^ 63) = - (2 ^ 63)" by (simp add: i64_def)
  with True show ?thesis by (simp add: int_to_ascii_def ascii_loop.simps)
next
  case False
  with assms have "n < 0 \<Longrightarrow> in_i64 (- n)" by (simp add: in_i64_def)
  with False show ?thesis by (simp add: int_to_ascii_def itoa_def ascii_loop_digits Let_def)
qed

theorem int_to_ascii_itoa_witness:
  "int_to_ascii (- (2 ^ 63)) = ''-'' \<and> int_to_ascii 600 = ''600''"
proof -
  have "in_i64 (- (2 ^ 63))" "in_i64 600" by (simp_all add: in_i64_def)
  moreover have "itoa 600 = ''600''" by code_simp
  ultimately show ?thesis using int_to_ascii_itoa [of "- (2 ^ 63)"] int_to_ascii_itoa [of 600] by simp
qed

lemma writer_simps [simp]:
  "wr_header (set_header k v w) = (wr_header w)(k \<mapsto> v)" "wr_cookies (set_header k v w) = wr_cookies w"
  "wr_header (set_cookie c w) = wr_header w" "wr_cookies (set_cookie c w) = wr_cookies w @ [c]"
  by (simp_all add: set_header_def set_cookie_def)

end
