(* ===== verification/Middleware.thy ===== *)
theory Middleware
  imports Http
begin

text \<open>
  \<^verbatim>\<open>internal/transport/middleware\<close>: handlers around handlers.  Logging is not modelled, so
  \<^verbatim>\<open>AccessLog\<close> passes its reply through.  Every use of the clock and of
  random bytes takes the next places of the moment.
\<close>

definition recover_panic :: "('p, 's) middleware" where
  "recover_panic next mo r w s =
     (case next mo r w s of
        (Panicked w', s') \<Rightarrow> (http_error ''Internal Server Error'' 500 w', s')
      | (Replied x, s') \<Rightarrow> (Replied x, s'))"

definition request_id :: "('p, 's) middleware" where
  "request_id next mo r w s =
     (let given = rq_header r ''X-Request-ID'';
          i = (if given = [] \<or> 64 < length given
               then (case mo_rand mo 0 16 of Inr b \<Rightarrow> hex_encode b | Inl _ \<Rightarrow> ''unknown'') else given)
      in next (later mo) (r\<lparr>rq_ctx := (rq_ctx r)\<lparr>cx_request_id := i\<rparr>\<rparr>) (set_header ''X-Request-ID'' i w) s)"

definition access_log :: "('p, 's) middleware" where
  "access_log next = next"

definition csp_of :: "string \<Rightarrow> string" where
  "csp_of nonce =
     (let q = (\<lambda>t. [chr 39] @ t @ [chr 39]) in
      ''default-src '' @ q ''self'' @ ''; '' @
      ''script-src '' @ q ''self'' @ '' '' @ q (''nonce-'' @ nonce) @ ''; '' @
      ''style-src '' @ q ''self'' @ '' '' @ q ''unsafe-inline'' @ ''; '' @
      ''img-src '' @ q ''self'' @ '' data:; '' @
      ''font-src '' @ q ''self'' @ ''; '' @
      ''connect-src '' @ q ''self'' @ ''; '' @
      ''frame-ancestors '' @ q ''none'' @ ''; '' @
      ''base-uri '' @ q ''self'' @ ''; '' @
      ''object-src '' @ q ''none'')"

definition security_headers :: "('p, 's) middleware" where
  "security_headers next mo r w s =
     (case mo_rand mo 0 16 of
        Inl _ \<Rightarrow> (http_error ''Internal Server Error'' 500 w, s)
      | Inr b \<Rightarrow>
          (let nonce = hex_encode b;
               w1 = set_header ''Content-Security-Policy'' (csp_of nonce) w;
               w2 = set_header ''X-Content-Type-Options'' ''nosniff'' w1;
               w3 = set_header ''X-Frame-Options'' ''DENY'' w2;
               w4 = set_header ''Referrer-Policy'' ''strict-origin-when-cross-origin'' w3;
               w5 = set_header ''Permissions-Policy'' ''camera=(), microphone=(), geolocation=()'' w4;
               w6 = set_header ''Strict-Transport-Security'' ''max-age=31536000; includeSubDomains'' w5
           in next (later mo) (r\<lparr>rq_ctx := (rq_ctx r)\<lparr>cx_csp_nonce := nonce\<rparr>\<rparr>) w6 s))"

definition body_limit :: "int \<Rightarrow> ('p, 's) middleware" where
  "body_limit n next mo r w s = next mo (r\<lparr>rq_body_limit := Some n\<rparr>) w s"

record cors_config =
  co_origins :: "string list"
  co_methods :: "string list"
  co_headers :: "string list"
  co_max_age :: int
  co_creds :: bool

definition cors_headers :: "cors_config \<Rightarrow> string \<Rightarrow> writer \<Rightarrow> writer" where
  "cors_headers cfg origin w =
     (let methods = join '', '' (defaulted (co_methods cfg) [''GET'', ''POST'', ''PUT'', ''DELETE'', ''OPTIONS'']);
          headers = join '', '' (defaulted (co_headers cfg)
            [''Authorization'', ''Content-Type'', ''X-CSRF-Token'', ''X-Requested-With'']);
          w1 = set_header ''Access-Control-Allow-Origin'' origin w;
          w2 = set_header ''Vary'' ''Origin'' w1;
          w3 = (if co_creds cfg then set_header ''Access-Control-Allow-Credentials'' ''true'' w2 else w2);
          w4 = set_header ''Access-Control-Allow-Methods'' methods w3;
          w5 = set_header ''Access-Control-Allow-Headers'' headers w4
      in if 0 < co_max_age cfg then set_header ''Access-Control-Max-Age'' (int_to_ascii (co_max_age cfg)) w5 else w5)"

definition cors :: "cors_config \<Rightarrow> ('p, 's) middleware" where
  "cors cfg next mo r w s =
     (let origin = rq_header r ''Origin'';
          w1 = (if origin \<noteq> [] \<and> origin \<in> set (co_origins cfg) then cors_headers cfg origin w else w)
      in if rq_method r = ''OPTIONS'' then (reply 204 NoBody w1, s) else next mo r w1 s)"

definition rate_limit_by_ip :: "'s rate_limiter \<Rightarrow> ('p, 's) middleware" where
  "rate_limit_by_ip rl next mo r w s =
     (case rl_allow rl mo (client_ip r) s of
        (False, s') \<Rightarrow> (http_error ''Too Many Requests'' 429 (set_header ''Retry-After'' ''1'' w), s')
      | (True, s') \<Rightarrow> next (later mo) r w s')"

definition session_guard ::
    "'s auth_port \<Rightarrow> string \<Rightarrow> string \<Rightarrow> ('p, 's) middleware" where
  "session_guard auth cookie_name login_path next mo r w s =
     (let refuse = redirect_or_json r login_path ''unauthenticated'' 401 w in
      case rq_cookie r cookie_name of
        None \<Rightarrow> (refuse, s)
      | Some v \<Rightarrow>
          if v = [] then (refuse, s)
          else (case ath_session_by_id auth mo v s of
                  (Inl _, s') \<Rightarrow> (refuse, s')
                | (Inr (x, u), s') \<Rightarrow>
                    next (later mo) (r\<lparr>rq_ctx := (rq_ctx r)\<lparr>cx_session := Some x, cx_user := Some u\<rparr>\<rparr>) w s'))"

definition csrf_guard :: "string \<Rightarrow> ('p, 's) middleware" where
  "csrf_guard cookie_name next mo r w s =
     (let refuse = (http_error ''Forbidden'' 403 w, s) in
      if is_safe_method (rq_method r) then next mo r w s
      else (case cx_session (rq_ctx r) of
          None \<Rightarrow> refuse
        | Some x \<Rightarrow>
            (let field = rq_header r ''X-CSRF-Token'';
                 submitted = (if field = [] then form_value r ''csrf_token'' else field);
                 r' = (if field = [] then after_form_value r else r)
             in case rq_cookie r cookie_name of
                  None \<Rightarrow> refuse
                | Some v \<Rightarrow>
                    if v = [] then refuse
                    else if submitted \<noteq> v \<or> v \<noteq> s_csrf_token x then refuse
                    else next mo r' w s)))"

definition jwt_bearer :: "'s api_auth_port \<Rightarrow> ('p, 's) middleware" where
  "jwt_bearer api next mo r w s =
     (let field = rq_header r ''Authorization'';
          refuse = (\<lambda>code. reply 401 (JsonBody (JObj [(''error'', JStr code)]))
            (set_header ''Content-Type'' ''application/json; charset=utf-8'' w))
      in if \<not> has_prefix field ''Bearer '' then (refuse ''unauthenticated'', s)
         else (case aat_verify_token api mo (trim_prefix field ''Bearer '') s of
            (Inl e, s') \<Rightarrow>
              (if errors_is e ErrTokenExpired then refuse ''token_expired'' else refuse ''unauthenticated'', s')
          | (Inr uid, s') \<Rightarrow> next (later mo) (r\<lparr>rq_ctx := (rq_ctx r)\<lparr>cx_jwt_user_id := uid\<rparr>\<rparr>) w s'))"

text \<open>The loop of \<^verbatim>\<open>Chain\<close> wraps from the last middleware to the first.\<close>

definition chain :: "('p, 's) handler \<Rightarrow> ('p, 's) middleware list \<Rightarrow> ('p, 's) handler" where
  "chain h ms = fold (\<lambda>m h. m h) (rev ms) h"

lemma chain_simps [simp]: "chain h [] = h" "chain h (m # ms) = m (chain h ms)"
  by (simp_all add: chain_def)

end
