(* ===== verification/Calendar.thy ===== *)
theory Calendar
  imports GoText
begin

text \<open>
  Dates of the Gregorian calendar and the two layouts of \<^verbatim>\<open>time.Format\<close> the program uses: the
  month and day of the chart labels and RFC 3339 with nanoseconds, which is how times appear in
  JSON.  All times are in UTC.
\<close>

text \<open>Year, month and day of a day number (days since 1970)\<close>

definition civil :: "int \<Rightarrow> int \<times> int \<times> int" where
  "civil days =
     (let z = days + 719468; era = z div 146097; e = z mod 146097;
          y = (e - e div 1460 + e div 36524 - e div 146096) div 365;
          doy = e - (365 * y + y div 4 - y div 100);
          mp = (5 * doy + 2) div 153;
          m = (if mp < 10 then mp + 3 else mp - 9)
      in (era * 400 + y + (if m \<le> 2 then 1 else 0), m, doy - (153 * mp + 2) div 5 + 1))"

definition two_digits :: "int \<Rightarrow> string" where
  "two_digits n = [digit (n div 10), digit (n mod 10)]"

definition four_digits :: "int \<Rightarrow> string" where
  "four_digits n = two_digits (n div 100) @ two_digits (n mod 100)"

text \<open>The layout \<^verbatim>\<open>"01/02"\<close>\<close>

definition format_month_day :: "time \<Rightarrow> string" where
  "format_month_day t =
     (case civil (unix t div 86400) of (_, m, d) \<Rightarrow> two_digits m @ ''/'' @ two_digits d)"

text \<open>The fraction of a second without its trailing zeros, and without the point when it is zero\<close>

fun trim_zeros :: "nat \<Rightarrow> int \<Rightarrow> string" where
  "trim_zeros 0 n = []"
| "trim_zeros (Suc k) n =
     (if n = 0 then [] else digit (n div 10 ^ k) # trim_zeros k (n mod 10 ^ k))"

definition fraction :: "int \<Rightarrow> string" where
  "fraction nanos = (if nanos = 0 then [] else CHR ''.'' # trim_zeros 9 nanos)"

text \<open>\<^verbatim>\<open>MarshalJSON\<close> of a time fails for a year that does not have four digits.\<close>

definition rfc3339 :: "time \<Rightarrow> string option" where
  "rfc3339 t =
     (let s = unix t; r = s mod 86400 in
      case civil (s div 86400) of (y, m, d) \<Rightarrow>
        if y < 0 \<or> 9999 < y then None
        else Some (four_digits y @ ''-'' @ two_digits m @ ''-'' @ two_digits d @ ''T''
               @ two_digits (r div 3600) @ '':'' @ two_digits (r div 60 mod 60) @ '':'' @ two_digits (r mod 60)
               @ fraction (t mod second) @ ''Z''))"

end
