(* ===== verification/Svg.thy ===== *)
theory Svg
  imports Http Calendar
begin

text \<open>
  \<^verbatim>\<open>internal/transport/svg\<close>: the two charts of the progress page, assembled as text.  The
  coordinates are integers; with the sizes the pages use (720 and 240) their products stay far
  below the width of an \<^verbatim>\<open>int\<close>.
\<close>

section \<open>Helpers\<close>

text \<open>Go's integer division, which truncates, by a positive divisor\<close>

definition quot :: "int \<Rightarrow> int \<Rightarrow> int" where
  "quot a b = (if 0 \<le> a then a div b else - ((- a) div b))"

definition escape_byte :: "char \<Rightarrow> string" where
  "escape_byte c =
     (if c = CHR ''&'' then ''&amp;''
      else if c = CHR ''<'' then ''&lt;''
      else if c = CHR ''>'' then ''&gt;''
      else if c = CHR 0x22 then ''&quot;''
      else if c = CHR 0x27 then ''&#39;''
      else [c])"

definition html_escape :: "string \<Rightarrow> string" where
  "html_escape s = concat (map escape_byte s)"

definition no_data :: string where
  "no_data = of_runes [0x30C7, 0x30FC, 0x30BF, 0x306A, 0x3057]"

section \<open>The accuracy by day\<close>

definition day_rate :: "daily_accuracy \<Rightarrow> float64" where
  "day_rate d = (if 0 < da_total d then fdiv (float_of_int (da_correct d)) (float_of_int (da_total d)) else 0)"

definition chart_x :: "int \<Rightarrow> int \<Rightarrow> int \<Rightarrow> int" where
  "chart_x plot_w n i = (if 1 < n then 40 + quot (plot_w * i) (n - 1) else 40)"

definition chart_y :: "int \<Rightarrow> daily_accuracy \<Rightarrow> int" where
  "chart_y plot_h d = 16 + plot_h - int_of_float (fmul (day_rate d) (float_of_int plot_h))"

definition chart_points :: "int \<Rightarrow> int \<Rightarrow> daily_accuracy list \<Rightarrow> (int \<times> int) list" where
  "chart_points plot_w plot_h ds =
     map (\<lambda>(i, d). (chart_x plot_w (int (length ds)) (int i), chart_y plot_h d)) (enumerate 0 ds)"

definition grid_line :: "int \<Rightarrow> int \<Rightarrow> int \<Rightarrow> string" where
  "grid_line plot_w plot_h i =
     (let y = 16 + quot (plot_h * i) 4 in
      ''<line x1=\"'' @ itoa 40 @ ''\" y1=\"'' @ itoa y @ ''\" x2=\"'' @ itoa (40 + plot_w) @ ''\" y2=\"'' @ itoa y
        @ ''\" stroke=\"#e6e1d6\" stroke-width=\"1\"/>''
      @ ''<text x=\"'' @ itoa (40 - 6) @ ''\" y=\"'' @ itoa (y + 4)
        @ ''\" text-anchor=\"end\" font-size=\"10\" fill=\"#3a3a3a\">'' @ itoa (100 - 25 * i) @ ''%</text>'')"

definition label_x :: "int \<Rightarrow> int \<Rightarrow> int \<Rightarrow> int" where
  "label_x plot_w n i = (if n \<le> 1 then 40 + quot plot_w 2 else 40 + quot (plot_w * i) (n - 1))"

definition date_label :: "int \<Rightarrow> int \<Rightarrow> daily_accuracy list \<Rightarrow> nat \<Rightarrow> string" where
  "date_label plot_w plot_h ds i =
     ''<text x=\"'' @ itoa (label_x plot_w (int (length ds)) (int i)) @ ''\" y=\"'' @ itoa (16 + plot_h + 16)
       @ ''\" text-anchor=\"middle\" font-size=\"10\" fill=\"#3a3a3a\">''
       @ format_month_day (da_date (ds ! i)) @ ''</text>''"

definition label_places :: "nat \<Rightarrow> nat list" where
  "label_places n = [0, n - 1] @ (if 3 \<le> n then [n div 2] else [])"

definition daily_accuracy_chart :: "daily_accuracy list \<Rightarrow> int \<Rightarrow> int \<Rightarrow> string" where
  "daily_accuracy_chart ds width0 height0 =
     (let width = (if width0 \<le> 0 then 720 else width0);
          height = (if height0 \<le> 0 then 240 else height0);
          plot_w = width - 40 - 12;
          plot_h = height - 16 - 28;
          points = chart_points plot_w plot_h ds
      in ''<svg xmlns=\"http://www.w3.org/2000/svg\" viewBox=\"0 0 '' @ itoa width @ '' '' @ itoa height
           @ ''\" role=\"img\" aria-label=\"'' @ (of_runes [0x65E5, 0x6B21, 0x6B63, 0x89E3, 0x7387, 0x30B0, 0x30E9, 0x30D5]) @ ''\">''
         @ concat (map (grid_line plot_w plot_h) [0, 1, 2, 3, 4])
         @ (if ds = [] then
              ''<text x=\"'' @ itoa (40 + quot plot_w 2) @ ''\" y=\"'' @ itoa (16 + quot plot_h 2)
                @ ''\" text-anchor=\"middle\" font-size=\"14\" fill=\"#7a7a7a\">'' @ no_data @ ''</text>''
            else
              ''<polyline fill=\"none\" stroke=\"#b80f0a\" stroke-width=\"2\" points=\"''
                @ join '' '' (map (\<lambda>(x, y). itoa x @ '','' @ itoa y) points) @ ''\"/>''
              @ concat (map (\<lambda>(x, y). ''<circle cx=\"'' @ itoa x @ ''\" cy=\"'' @ itoa y
                  @ ''\" r=\"3\" fill=\"#b80f0a\"/>'') points)
              @ concat (map (date_label plot_w plot_h ds) (label_places (length ds))))
         @ ''</svg>'')"

section \<open>The accuracy by topic\<close>

definition topics_title :: string where
  "topics_title = of_runes [0x8AD6, 0x70B9, 0x5225, 0x6B63, 0x89E3, 0x7387]"

definition bar_width :: "int \<Rightarrow> topic_stat \<Rightarrow> int" where
  "bar_width plot_w s = int_of_float (fmul (float_of_int plot_w) (accuracy s))"

definition bar_percent :: "topic_stat \<Rightarrow> int" where
  "bar_percent s = int_of_float (fmul (accuracy s) 100)"

definition topic_bar :: "int \<Rightarrow> int \<Rightarrow> topic_stat \<Rightarrow> string" where
  "topic_bar plot_w i s =
     (let y = 12 + 26 * i + 13; bar_w = bar_width plot_w s in
      ''<text x=\"'' @ itoa (140 - 6) @ ''\" y=\"'' @ itoa (y + 4)
        @ ''\" text-anchor=\"end\" font-size=\"12\" fill=\"#3a3a3a\">'' @ html_escape (ts_name s) @ ''</text>''
      @ ''<rect x=\"'' @ itoa 140 @ ''\" y=\"'' @ itoa (y - 7) @ ''\" width=\"'' @ itoa plot_w
        @ ''\" height=\"14\" fill=\"#efe9dc\"/>''
      @ ''<rect x=\"'' @ itoa 140 @ ''\" y=\"'' @ itoa (y - 7) @ ''\" width=\"'' @ itoa bar_w
        @ ''\" height=\"14\" fill=\"#b80f0a\"/>''
      @ ''<text x=\"'' @ itoa (140 + bar_w + 4) @ ''\" y=\"'' @ itoa (y + 4)
        @ ''\" text-anchor=\"start\" font-size=\"11\" fill=\"#3a3a3a\">'' @ itoa (bar_percent s) @ ''%</text>'')"

definition topic_accuracy_bars :: "topic_stat list \<Rightarrow> int \<Rightarrow> string" where
  "topic_accuracy_bars ss width0 =
     (let width = (if width0 \<le> 0 then 720 else width0);
          height = 12 + 12 + 26 * max 1 (int (length ss));
          plot_w = width - 140 - 20
      in ''<svg xmlns=\"http://www.w3.org/2000/svg\" viewBox=\"0 0 '' @ itoa width @ '' '' @ itoa height
           @ ''\" role=\"img\" aria-label=\"'' @ topics_title @ ''\">''
         @ (if ss = [] then
              ''<text x=\"'' @ itoa (quot width 2) @ ''\" y=\"'' @ itoa (quot height 2)
                @ ''\" text-anchor=\"middle\" font-size=\"14\" fill=\"#7a7a7a\">'' @ no_data @ ''</text></svg>''
            else concat (map (\<lambda>(i, s). topic_bar plot_w (int i) s) (enumerate 0 ss)) @ ''</svg>''))"

section \<open>Escaping\<close>

lemma escape_byte_specials: "set (escape_byte c) \<inter> {CHR ''<'', CHR ''>'', CHR 0x22, CHR 0x27} = {}"
  by (simp add: escape_byte_def)

lemma escape_byte_prefix_free: "escape_byte c @ xs = escape_byte d @ ys \<Longrightarrow> c = d \<and> xs = ys"
  by (auto simp: escape_byte_def split: if_splits)

text \<open>
  an escaped text contains none of the characters that open or close markup or a quoted
  value, and different texts stay different.
\<close>

theorem html_escape_safe:
  "set (html_escape s) \<inter> {CHR ''<'', CHR ''>'', CHR 0x22, CHR 0x27} = {}
   \<and> (html_escape s = html_escape t \<longleftrightarrow> s = t)"
proof
  show "set (html_escape s) \<inter> {CHR ''<'', CHR ''>'', CHR 0x22, CHR 0x27} = {}"
    using escape_byte_specials by (auto simp: html_escape_def)
  have nonempty: "escape_byte c \<noteq> []" for c by (simp add: escape_byte_def)
  have "html_escape s = html_escape t \<Longrightarrow> s = t"
  proof (induction s arbitrary: t)
    case Nil
    then show ?case by (cases t) (simp_all add: html_escape_def nonempty)
  next
    case (Cons c s)
    then obtain d u where t: "t = d # u" by (cases t) (simp_all add: html_escape_def nonempty)
    have "escape_byte c @ html_escape s = escape_byte d @ html_escape u"
      using Cons.prems by (simp add: html_escape_def t)
    from escape_byte_prefix_free [OF this] Cons.IH [of u] show ?case by (simp add: t)
  qed
  then show "html_escape s = html_escape t \<longleftrightarrow> s = t" by blast
qed

section \<open>Markup\<close>

abbreviation tags :: "string \<Rightarrow> nat" where
  "tags s \<equiv> count_list s (CHR ''<'')"

lemma digit_inj: "0 \<le> d \<Longrightarrow> d < 10 \<Longrightarrow> digit d \<noteq> CHR ''<''"
  using digit_props(1) [of d] by (auto simp: is_digit_def byte_def)

lemma tags_digits: "tags (digits n) = 0"
proof (induction n rule: digits.induct)
  case (1 n)
  then show ?case by (subst digits.simps) (simp add: digit_inj)
qed

lemma tags_itoa [simp]: "tags (itoa n) = 0"
  by (simp add: itoa_def tags_digits)

lemma tags_escape [simp]: "tags (html_escape s) = 0"
  using escape_byte_specials by (auto simp: html_escape_def count_list_0_iff)

lemma tags_bar: "tags (topic_bar w i s) = 6"
  by (simp add: topic_bar_def Let_def)

lemma tags_bars: "tags (concat (map (\<lambda>(i, s). topic_bar w (int i) s) (enumerate n ss))) = 6 * length ss"
  by (induction ss arbitrary: n) (simp_all add: tags_bar)

lemma tags_titles: "tags no_data = 0" "tags topics_title = 0"
  by code_simp+

text \<open>
  C36: whatever the topics are called, their chart has one \<^verbatim>\<open>svg\<close> element with two rectangles and
  two texts for each topic: a name cannot add a tag.
\<close>

theorem topic_bars_markup:
  "tags (topic_accuracy_bars ss w) = (if ss = [] then 4 else 2 + 6 * length ss)"
  by (simp add: topic_accuracy_bars_def Let_def tags_bars tags_titles)

section \<open>Geometry\<close>

lemma int_of_float_range:
  assumes "0 \<le> x" "x \<le> of_int b" "b < 2 ^ 63"
  shows "0 \<le> int_of_float x" "int_of_float x \<le> b"
proof -
  have t: "trunc x = \<lfloor>x\<rfloor>" using assms(1) by (simp add: trunc_def)
  have f: "0 \<le> \<lfloor>x\<rfloor>" "\<lfloor>x\<rfloor> \<le> b" using assms(1,2) by linarith+
  then have "in_i64 \<lfloor>x\<rfloor>" unfolding in_i64_def using assms(3) by linarith
  with f show "0 \<le> int_of_float x" "int_of_float x \<le> b" by (simp_all add: int_of_float_def t)
qed

lemma scaled_range:
  assumes "0 \<le> r" "r \<le> 1" "0 \<le> b" "b < 2 ^ 53"
  shows "0 \<le> int_of_float (fmul r (of_int b))" "int_of_float (fmul r (of_int b)) \<le> b"
proof -
  have "0 \<le> fmul r (of_int b)" using assms by (simp add: fmul_def rnd_nonneg)
  moreover have "r * of_int b \<le> of_int b" using assms by (simp add: mult_left_le_one_le)
  then have "fmul r (of_int b) \<le> of_int b" using rnd_mono rnd_of_int [of b] assms by (fastforce simp: fmul_def)
  moreover have "b < 2 ^ 63" using assms(4) by simp
  ultimately show "0 \<le> int_of_float (fmul r (of_int b))" "int_of_float (fmul r (of_int b)) \<le> b"
    using int_of_float_range by blast+
qed

lemma rate_range:
  assumes "0 \<le> c" "c \<le> n" "0 < n"
  shows "0 \<le> fdiv (float_of_int c) (float_of_int n)" "fdiv (float_of_int c) (float_of_int n) \<le> 1"
proof -
  have "0 \<le> float_of_int c" using assms by (simp add: float_of_int_def rnd_nonneg)
  moreover have "float_of_int c \<le> float_of_int n" using assms by (simp add: float_of_int_def rnd_mono)
  moreover have "1 \<le> float_of_int n" using rnd_mono [of 1 "of_int n"] assms by (simp add: float_of_int_def)
  ultimately show "0 \<le> fdiv (float_of_int c) (float_of_int n)" "fdiv (float_of_int c) (float_of_int n) \<le> 1"
    by (simp_all add: fdiv_rate)
qed

lemma day_rate_range: "0 \<le> da_correct d \<Longrightarrow> da_correct d \<le> da_total d \<Longrightarrow> 0 \<le> day_rate d \<and> day_rate d \<le> 1"
  by (simp add: day_rate_def rate_range)

lemma topic_rate_range: "0 \<le> ts_correct s \<Longrightarrow> ts_correct s \<le> ts_total s \<Longrightarrow> 0 \<le> accuracy s \<and> accuracy s \<le> 1"
  by (simp add: accuracy_def rate_range)

lemma chart_x_range:
  assumes "0 \<le> w" "0 \<le> i" "i < n"
  shows "40 \<le> chart_x w n i" "chart_x w n i \<le> 40 + w"
proof -
  have "w * i \<le> w * (n - 1)" using assms by (intro mult_left_mono) simp_all
  then have "w * i div (n - 1) \<le> w" if "1 < n"
    using that zdiv_mono1 [of "w * i" "w * (n - 1)" "n - 1"] by simp
  then show "40 \<le> chart_x w n i" "chart_x w n i \<le> 40 + w"
    using assms by (auto simp: chart_x_def quot_def intro!: pos_imp_zdiv_nonneg_iff [THEN iffD2])
qed

lemma chart_x_mono: "0 \<le> w \<Longrightarrow> 0 \<le> i \<Longrightarrow> i \<le> j \<Longrightarrow> chart_x w n i \<le> chart_x w n j"
  by (simp add: chart_x_def quot_def zdiv_mono1 mult_left_mono)

lemma chart_y_range:
  assumes "0 \<le> da_correct d" "da_correct d \<le> da_total d" "0 \<le> h" "h < 2 ^ 53"
  shows "16 \<le> chart_y h d" "chart_y h d \<le> 16 + h"
  using scaled_range [of "day_rate d" h] day_rate_range [of d] assms
  by (simp_all add: chart_y_def float_of_int_exact)

text \<open>
  from counts of correct answers that do not exceed the totals, the points of the daily chart
  lie in the plotting area in the order of the days, a perfect day at its top and a day without
  a correct answer at its bottom; the bars of the topics are at most as wide as their track, and
  the percentages are between 0 and 100.
\<close>

theorem charts_in_frame:
  assumes days: "\<forall>d\<in>set ds. 0 \<le> da_correct d \<and> da_correct d \<le> da_total d"
    and size: "0 \<le> w" "w < 2 ^ 53" "0 \<le> h" "h < 2 ^ 53"
    and stat: "0 \<le> ts_correct s" "ts_correct s \<le> ts_total s"
  shows "(\<forall>(x, y)\<in>set (chart_points w h ds). 40 \<le> x \<and> x \<le> 40 + w \<and> 16 \<le> y \<and> y \<le> 16 + h)
    \<and> sorted (map fst (chart_points w h ds)) \<and> length (chart_points w h ds) = length ds
    \<and> (\<forall>d\<in>set ds. (da_correct d = da_total d \<and> 0 < da_total d \<and> da_total d < 2 ^ 53 \<longrightarrow> chart_y h d = 16)
           \<and> (da_correct d = 0 \<longrightarrow> chart_y h d = 16 + h))
    \<and> 0 \<le> bar_width w s \<and> bar_width w s \<le> w \<and> 0 \<le> bar_percent s \<and> bar_percent s \<le> 100"
proof -
  have in_range: "i < length ds \<and> d \<in> set ds" if "(i, d) \<in> set (enumerate 0 ds)" for i d
    using that by (auto simp: in_set_enumerate_eq)
  have "\<forall>(x, y)\<in>set (chart_points w h ds). 40 \<le> x \<and> x \<le> 40 + w \<and> 16 \<le> y \<and> y \<le> 16 + h"
    using in_range days size by (auto simp: chart_points_def chart_x_range chart_y_range)
  moreover have "map fst (chart_points w h ds) = map (\<lambda>i. chart_x w (int (length ds)) (int i)) [0..<length ds]"
    by (auto simp: chart_points_def intro!: nth_equalityI simp: nth_enumerate_eq)
  then have "sorted (map fst (chart_points w h ds)) \<and> length (chart_points w h ds) = length ds"
    using size by (simp add: sorted_iff_nth_mono_less chart_x_mono chart_points_def)
  moreover have zero: "fmul 0 x = 0" "fdiv (float_of_int 0) x = 0" for x
    by (simp_all add: fmul_def fdiv_def float_of_int_def)
  moreover have "chart_y h d = 16" if "da_correct d = da_total d" "0 < da_total d" "da_total d < 2 ^ 53" for d
    using that size rnd_of_int [of h]
    by (simp add: chart_y_def day_rate_def fdiv_def fmul_def float_of_int_exact int_of_float_def in_i64_def)
  moreover have "chart_y h d = 16 + h" if "da_correct d = 0" for d
    using that by (simp add: chart_y_def day_rate_def zero int_of_float_def trunc_def in_i64_def)
  moreover have "0 \<le> bar_width w s \<and> bar_width w s \<le> w \<and> 0 \<le> bar_percent s \<and> bar_percent s \<le> 100"
    using scaled_range [of "accuracy s" w] scaled_range [of "accuracy s" 100] topic_rate_range [OF stat] size
    by (simp add: bar_width_def bar_percent_def float_of_int_exact fmul_def mult.commute)
  ultimately show ?thesis by blast
qed

theorem charts_in_frame_witness:
  "chart_y 196 \<lparr>da_date = 0, da_total = 4, da_correct = 4\<rparr> = 16
   \<and> chart_y 196 \<lparr>da_date = 0, da_total = 4, da_correct = 0\<rparr> = 212
   \<and> bar_percent \<lparr>ts_code = [], ts_name = [], ts_total = 3, ts_correct = 1\<rparr> \<le> 100"
proof -
  let ?ds = "[\<lparr>da_date = 0, da_total = 4, da_correct = 4\<rparr>, \<lparr>da_date = 0, da_total = 4, da_correct = 0\<rparr>]"
  have "\<forall>d\<in>set ?ds. 0 \<le> da_correct d \<and> da_correct d \<le> da_total d" by simp
  from charts_in_frame [OF this, of 668 196 "\<lparr>ts_code = [], ts_name = [], ts_total = 3, ts_correct = 1\<rparr>"]
  show ?thesis by simp
qed

end
