(* ===== verification/Web.thy ===== *)
theory Web
  imports Middleware Svg Accounts Quiz Sha256
begin

text \<open>
  \<^verbatim>\<open>internal/transport/web\<close>: the pages.  A page is the name of a template and the data it is
  executed with; the templates themselves are HTML.  The handlers are parameterised by the
  services and repositories of their configuration, as in the code; what they log is left out.
\<close>

section \<open>Texts\<close>

definition title_home :: string where
  "title_home = of_runes [0x30DB, 0x30FC, 0x30E0]"

definition title_login :: string where
  "title_login = of_runes [0x30ED, 0x30B0, 0x30A4, 0x30F3]"

definition title_register :: string where
  "title_register = of_runes [0x65B0, 0x898F, 0x767B, 0x9332]"

definition title_study :: string where
  "title_study = of_runes [0x5B66, 0x7FD2]"

definition title_result :: string where
  "title_result = of_runes [0x63A1, 0x70B9, 0x7D50, 0x679C]"

definition title_progress :: string where
  "title_progress = of_runes [0x9032, 0x6357]"

definition title_history :: string where
  "title_history = of_runes [0x5C65, 0x6B74]"

definition title_settings :: string where
  "title_settings = of_runes [0x8A2D, 0x5B9A]"

definition msg_too_many :: string where
  "msg_too_many = of_runes [0x8A66, 0x884C, 0x56DE, 0x6570, 0x304C, 0x591A, 0x3059, 0x304E, 0x307E, 0x3059,
     0x3002, 0x5C11, 0x3057, 0x6642, 0x9593, 0x3092, 0x7F6E, 0x3044, 0x3066, 0x304A, 0x8A66,
     0x3057, 0x304F, 0x3060, 0x3055, 0x3044, 0x3002]"

definition msg_bad_login :: string where
  "msg_bad_login = of_runes [0x30E6, 0x30FC, 0x30B6, 0x30FC, 0x540D, 0x307E, 0x305F, 0x306F, 0x30D1, 0x30B9,
     0x30EF, 0x30FC, 0x30C9, 0x304C, 0x9055, 0x3044, 0x307E, 0x3059, 0x3002]"

definition msg_bad_name :: string where
  "msg_bad_name = of_runes [0x30E6, 0x30FC, 0x30B6, 0x30FC, 0x540D, 0x306E, 0x5F62, 0x5F0F, 0x304C, 0x4E0D,
     0x6B63, 0x3067, 0x3059, 0x20, 0x28, 0x33, 0x301C, 0x33, 0x32, 0x20, 0x6587, 0x5B57,
     0x3001, 0x82F1, 0x6570, 0x20, 0x5F, 0x20, 0x2D, 0x29, 0x3002]"

definition msg_weak :: string where
  "msg_weak = of_runes [0x30D1, 0x30B9, 0x30EF, 0x30FC, 0x30C9, 0x306F, 0x20, 0x31, 0x32, 0x20, 0x6587,
     0x5B57, 0x4EE5, 0x4E0A, 0x3067, 0x3001, 0x82F1, 0x5927, 0x5C0F, 0x6570, 0x8A18, 0x53F7,
     0x306E, 0x3046, 0x3061, 0x33, 0x7A2E, 0x4EE5, 0x4E0A, 0x3092, 0x542B, 0x3081, 0x3066,
     0x304F, 0x3060, 0x3055, 0x3044, 0x3002]"

definition msg_taken :: string where
  "msg_taken = of_runes [0x305D, 0x306E, 0x30E6, 0x30FC, 0x30B6, 0x30FC, 0x540D, 0x306F, 0x65E2, 0x306B,
     0x4F7F, 0x308F, 0x308C, 0x3066, 0x3044, 0x307E, 0x3059, 0x3002]"

definition msg_register_failed :: string where
  "msg_register_failed = of_runes [0x767B, 0x9332, 0x306B, 0x5931, 0x6557, 0x3057, 0x307E, 0x3057, 0x305F, 0x3002]"

definition msg_bad_current :: string where
  "msg_bad_current = of_runes [0x73FE, 0x5728, 0x306E, 0x30D1, 0x30B9, 0x30EF, 0x30FC, 0x30C9, 0x304C, 0x9055,
     0x3044, 0x307E, 0x3059, 0x3002]"

definition msg_change_failed :: string where
  "msg_change_failed = of_runes [0x5909, 0x66F4, 0x306B, 0x5931, 0x6557, 0x3057, 0x307E, 0x3057, 0x305F, 0x3002]"

definition msg_changed :: string where
  "msg_changed = of_runes [0x30D1, 0x30B9, 0x30EF, 0x30FC, 0x30C9, 0x3092, 0x5909, 0x66F4, 0x3057, 0x307E,
     0x3057, 0x305F, 0x3002, 0x4ED6, 0x30C7, 0x30D0, 0x30A4, 0x30B9, 0x306E, 0x30BB, 0x30C3,
     0x30B7, 0x30E7, 0x30F3, 0x306F, 0x7121, 0x52B9, 0x306B, 0x306A, 0x3063, 0x3066, 0x3044,
     0x307E, 0x3059, 0x3002]"

section \<open>Configuration and page data\<close>

record cookie_config =
  cc_session_name :: string
  cc_csrf_name :: string
  cc_secure :: bool
  cc_domain :: string

record 's web_config =
  wc_auth :: "'s auth_port"
  wc_quiz :: "'s quiz_port"
  wc_stats :: "'s stats_port"
  wc_sets :: "'s set_port"
  wc_prefs :: "'s user_prefs_port"
  wc_questions :: "'s question_port"
  wc_topics :: "'s topic_port option"
  wc_login_limit :: "'s rate_limiter option"
  wc_cookie :: cookie_config
  wc_started_at_secret :: string

record 's web_handler =
  wh_cfg :: "'s web_config"
  wh_topic_name_of :: "int \<Rightarrow> string option"

definition new_web_handler :: "'s web_config \<Rightarrow> 's \<Rightarrow> 's web_handler \<times> 's" where
  "new_web_handler cfg s =
     (case wc_topics cfg of
        None \<Rightarrow> (\<lparr>wh_cfg = cfg, wh_topic_name_of = Map.empty\<rparr>, s)
      | Some p \<Rightarrow>
          (case tpc_list_all p s of
             (Inl _, s') \<Rightarrow> (\<lparr>wh_cfg = cfg, wh_topic_name_of = Map.empty\<rparr>, s')
           | (Inr ts, s') \<Rightarrow>
               (\<lparr>wh_cfg = cfg, wh_topic_name_of = fold (\<lambda>t m. m(t_id t \<mapsto> t_name t)) ts Map.empty\<rparr>, s')))"

record view =
  vw_title :: string
  vw_user :: "user option"
  vw_csrf_token :: string
  vw_csp_nonce :: string
  vw_flash_error :: string
  vw_flash_ok :: string
  vw_summary :: "stats_summary option"
  vw_sets :: "question_set list"
  vw_active_set :: string
  vw_mode :: string
  vw_question :: "question option"
  vw_topic_name :: string
  vw_started_at_ms :: int
  vw_started_at_sig :: string
  vw_account_options :: "string list"
  vw_correct :: bool
  vw_explanation :: string
  vw_next_due_at :: time
  vw_daily_chart :: string
  vw_topic_bars :: string
  vw_attempts :: "attempt list"

type_synonym page = "string \<times> view"

definition base_view :: "request \<Rightarrow> string \<Rightarrow> view" where
  "base_view r title =
     \<lparr>vw_title = title, vw_user = cx_user (rq_ctx r),
      vw_csrf_token = (case cx_session (rq_ctx r) of None \<Rightarrow> [] | Some x \<Rightarrow> s_csrf_token x),
      vw_csp_nonce = cx_csp_nonce (rq_ctx r), vw_flash_error = [], vw_flash_ok = [], vw_summary = None,
      vw_sets = [], vw_active_set = [], vw_mode = [], vw_question = None, vw_topic_name = [],
      vw_started_at_ms = 0, vw_started_at_sig = [], vw_account_options = [], vw_correct = False,
      vw_explanation = [], vw_next_due_at = zero_time, vw_daily_chart = [], vw_topic_bars = [],
      vw_attempts = []\<rparr>"

definition page_names :: "string list" where
  "page_names = [''home'', ''login'', ''register'', ''quiz'', ''answer'', ''progress'', ''history'', ''settings'']"

text \<open>Executing one of the loaded templates on its page data does not fail.\<close>

definition render :: "writer \<Rightarrow> string \<Rightarrow> view \<Rightarrow> page outcome" where
  "render w name v =
     (let w1 = set_header ''Content-Type'' ''text/html; charset=utf-8'' w in
      if name \<in> set page_names then reply 200 (PageBody (name, v)) w1
      else http_error ''internal error'' 500 w1)"

section \<open>Cookies\<close>

definition session_cookie :: "cookie_config \<Rightarrow> string \<Rightarrow> cookie" where
  "session_cookie c v = \<lparr>ck_name = cc_session_name c, ck_value = v, ck_path = ''/'', ck_domain = cc_domain c,
     ck_max_age = 0, ck_http_only = True, ck_secure = cc_secure c, ck_same_site = ''Lax''\<rparr>"

definition csrf_cookie :: "cookie_config \<Rightarrow> string \<Rightarrow> cookie" where
  "csrf_cookie c v = \<lparr>ck_name = cc_csrf_name c, ck_value = v, ck_path = ''/'', ck_domain = cc_domain c,
     ck_max_age = 0, ck_http_only = False, ck_secure = cc_secure c, ck_same_site = ''Lax''\<rparr>"

definition set_session_cookies :: "cookie_config \<Rightarrow> session \<Rightarrow> writer \<Rightarrow> writer" where
  "set_session_cookies c x w =
     set_cookie (csrf_cookie c (s_csrf_token x)) (set_cookie (session_cookie c (s_id x)) w)"

definition clear_session_cookies :: "cookie_config \<Rightarrow> writer \<Rightarrow> writer" where
  "clear_session_cookies c w =
     set_cookie \<lparr>ck_name = cc_csrf_name c, ck_value = [], ck_path = ''/'', ck_domain = [], ck_max_age = -1,
        ck_http_only = False, ck_secure = cc_secure c, ck_same_site = ''Lax''\<rparr>
       (set_cookie \<lparr>ck_name = cc_session_name c, ck_value = [], ck_path = ''/'', ck_domain = [], ck_max_age = -1,
          ck_http_only = True, ck_secure = cc_secure c, ck_same_site = ''Lax''\<rparr> w)"

text \<open>\<^verbatim>\<open>randomToken\<close> panics when there are no random bytes; \<open>Inl\<close> is that panic.\<close>

definition random_token :: "(int \<Rightarrow> string res) \<Rightarrow> int \<Rightarrow> string res" where
  "random_token rand n = (case rand n of Inl e \<Rightarrow> Inl e | Inr b \<Rightarrow> Inr (hex_encode b))"

definition ensure_csrf_cookie :: "cookie_config \<Rightarrow> moment \<Rightarrow> request \<Rightarrow> writer \<Rightarrow> (string \<times> writer) res" where
  "ensure_csrf_cookie c mo r w =
     (let fresh = (case random_token (mo_rand mo 0) 32 of
                     Inl e \<Rightarrow> Inl e | Inr t \<Rightarrow> Inr (t, set_cookie (csrf_cookie c t) w))
      in case rq_cookie r (cc_csrf_name c) of
           None \<Rightarrow> fresh
         | Some v \<Rightarrow> if 32 \<le> length v then Inr (v, w) else fresh)"

definition web_client_ip :: "request \<Rightarrow> string" where
  "web_client_ip r =
     (if rq_header r ''X-Forwarded-For'' \<noteq> [] then forwarded_for (rq_header r ''X-Forwarded-For'')
      else if rq_header r ''X-Real-IP'' \<noteq> [] then rq_header r ''X-Real-IP''
      else let i = last_index_byte (rq_remote_addr r) (CHR '':'') in
        if 0 < i then take (nat i) (rq_remote_addr r) else rq_remote_addr r)"

section \<open>The start of an answer\<close>

definition sign_started_at :: "string \<Rightarrow> int \<Rightarrow> int \<Rightarrow> string" where
  "sign_started_at secret qid ms = hex_encode (hmac_sha256 secret (itoa qid @ '':'' @ itoa ms))"

definition verify_started_at :: "string \<Rightarrow> int \<Rightarrow> int \<Rightarrow> string \<Rightarrow> time \<Rightarrow> bool" where
  "verify_started_at secret qid ms sig now =
     (if sign_started_at secret qid ms \<noteq> sig then False
      else let delta = i64 (unix_milli now - ms) in \<not> (delta < - (10 * 1000) \<or> 5 * 60 * 1000 < delta))"

definition answer_duration :: "string \<Rightarrow> int \<Rightarrow> int \<Rightarrow> string \<Rightarrow> time \<Rightarrow> int" where
  "answer_duration secret qid ms sig now =
     (if \<not> verify_started_at secret qid ms sig now then 8000 else max (i64 (unix_milli now - ms)) 0)"

section \<open>Set and mode of the study page\<close>

fun first_non_empty :: "string list \<Rightarrow> string" where
  "first_non_empty [] = []"
| "first_non_empty (v # vs) = (if v \<noteq> [] then v else first_non_empty vs)"

definition resolve_quiz_prefs ::
    "string \<Rightarrow> string \<Rightarrow> user_prefs option \<Rightarrow> (string \<Rightarrow> bool) \<Rightarrow> string \<times> quiz_mode \<times> bool" where
  "resolve_quiz_prefs query_set0 query_mode0 stored set_exists =
     (let query_set = (if query_set0 \<noteq> [] \<and> \<not> set_exists query_set0 then [] else query_set0);
          query_mode = (if query_mode0 \<noteq> [] \<and> \<not> quiz_mode_is_valid query_mode0 then [] else query_mode0);
          stored_set = (case stored of None \<Rightarrow> []
                        | Some p \<Rightarrow> if set_exists (up_quiz_set p) then up_quiz_set p else []);
          stored_mode = (case stored of None \<Rightarrow> []
                         | Some p \<Rightarrow> if quiz_mode_is_valid (up_quiz_mode p) then up_quiz_mode p else []);
          set_code = first_non_empty [query_set, stored_set, set_code_core];
          mode = first_non_empty [query_mode, stored_mode, mode_srs];
          explicit = (query_set \<noteq> [] \<or> query_mode \<noteq> []);
          changed = (case stored of None \<Rightarrow> True | Some p \<Rightarrow> up_quiz_set p \<noteq> set_code \<or> up_quiz_mode p \<noteq> mode)
      in (set_code, mode, explicit \<and> changed))"

section \<open>Answers\<close>

definition read_entries :: "request \<Rightarrow> string \<Rightarrow> string \<Rightarrow> int \<Rightarrow> journal_entry list" where
  "read_entries r account_prefix amount_prefix max_rows =
     concat (map (\<lambda>i.
       let acc = trim_space (form_value r (account_prefix @ itoa i));
           amt = fst (parse_int (form_value r (amount_prefix @ itoa i)))
       in if acc = [] \<and> amt = 0 then [] else [JournalEntry acc amt]) [1..max_rows])"

definition build_answer_from_form :: "request \<Rightarrow> question_type \<Rightarrow> answer_payload" where
  "build_answer_from_form r qt =
     (if qt = qt_journal
      then empty_answer\<lparr>ans_type := qt,
             ans_debits := read_entries r ''debit_account_'' ''debit_amount_'' 4,
             ans_credits := read_entries r ''credit_account_'' ''credit_amount_'' 4\<rparr>
      else empty_answer\<lparr>ans_type := qt, ans_choice := trim_space (form_value r ''choice'')\<rparr>)"

section \<open>Handlers\<close>

type_synonym 's page_handler = "(page, 's) handler"

text \<open>The user of a request behind the session check; without one its use panics.\<close>

definition with_user :: "request \<Rightarrow> writer \<Rightarrow> 's \<Rightarrow> (user \<Rightarrow> 'p outcome \<times> 's) \<Rightarrow> 'p outcome \<times> 's" where
  "with_user r w s f = (case cx_user (rq_ctx r) of None \<Rightarrow> (Panicked w, s) | Some u \<Rightarrow> f u)"

definition home :: "'s web_handler \<Rightarrow> 's page_handler" where
  "home h mo r w s =
     (let v = base_view r title_home in
      case vw_user v of
        None \<Rightarrow> (render w ''home'' v, s)
      | Some u \<Rightarrow>
          (case stp_summary (wc_stats (wh_cfg h)) mo (u_id u) s of
             (Inl _, s') \<Rightarrow> (render w ''home'' v, s')
           | (Inr x, s') \<Rightarrow> (render w ''home'' (v\<lparr>vw_summary := Some x\<rparr>), s')))"

definition get_form :: "string \<Rightarrow> string \<Rightarrow> 's web_handler \<Rightarrow> 's page_handler" where
  "get_form title name h mo r w s =
     (case ensure_csrf_cookie (wc_cookie (wh_cfg h)) mo r w of
        Inl _ \<Rightarrow> (Panicked w, s)
      | Inr (t, w1) \<Rightarrow> (render w1 name ((base_view r title)\<lparr>vw_csrf_token := t\<rparr>), s))"

definition get_login :: "'s web_handler \<Rightarrow> 's page_handler" where
  "get_login = get_form title_login ''login''"

definition get_register :: "'s web_handler \<Rightarrow> 's page_handler" where
  "get_register = get_form title_register ''register''"

definition login_allowed :: "'s rate_limiter option \<Rightarrow> moment \<Rightarrow> string \<Rightarrow> 's \<Rightarrow> bool \<times> 's" where
  "login_allowed rl mo key s = (case rl of None \<Rightarrow> (True, s) | Some l \<Rightarrow> rl_allow l mo key s)"

definition post_login :: "'s web_handler \<Rightarrow> 's page_handler" where
  "post_login h mo r0 w s =
     (let cfg = wh_cfg h; (ok, r) = parse_form r0;
          failed = (\<lambda>msg. render w ''login'' ((base_view r title_login)\<lparr>vw_flash_error := msg\<rparr>))
      in if \<not> ok then (http_error ''bad form'' 400 w, s)
         else let username = trim_space (form_value r ''username'');
                  pwd = form_value r ''password'';
                  ip = web_client_ip r
              in case login_allowed (wc_login_limit cfg) mo (username @ ''|'' @ ip) s of
                (False, s1) \<Rightarrow> (failed msg_too_many, s1)
              | (True, s1) \<Rightarrow>
                  (case ath_login (wc_auth cfg) (later mo) username pwd (rq_header r ''User-Agent'') ip s1 of
                     (Inl _, s2) \<Rightarrow> (failed msg_bad_login, s2)
                   | (Inr x, s2) \<Rightarrow>
                       (http_redirect r ''/quiz'' 303 (set_session_cookies (wc_cookie cfg) x w), s2)))"

definition register_error_message :: "gerror \<Rightarrow> string" where
  "register_error_message e =
     (if errors_is e ErrUsernameInvalid then msg_bad_name
      else if errors_is e ErrPasswordTooWeak then msg_weak
      else if errors_is e ErrAlreadyExists then msg_taken
      else msg_register_failed)"

definition post_register :: "'s web_handler \<Rightarrow> 's page_handler" where
  "post_register h mo r0 w s =
     (let cfg = wh_cfg h; (ok, r) = parse_form r0
      in if \<not> ok then (http_error ''bad form'' 400 w, s)
         else let username = trim_space (form_value r ''username'');
                  pwd = form_value r ''password''
              in case ath_register (wc_auth cfg) mo username pwd s of
                (Inl e, s1) \<Rightarrow>
                  (render w ''register''
                     ((base_view r title_register)\<lparr>vw_flash_error := register_error_message e\<rparr>), s1)
              | (Inr _, s1) \<Rightarrow>
                  (case ath_login (wc_auth cfg) (later mo) username pwd (rq_header r ''User-Agent'')
                          (web_client_ip r) s1 of
                     (Inl _, s2) \<Rightarrow> (http_redirect r ''/login'' 303 w, s2)
                   | (Inr x, s2) \<Rightarrow>
                       (http_redirect r ''/quiz'' 303 (set_session_cookies (wc_cookie cfg) x w), s2)))"

definition post_logout :: "'s web_handler \<Rightarrow> 's page_handler" where
  "post_logout h mo r w s =
     (let s' = (case cx_session (rq_ctx r) of
                  None \<Rightarrow> s | Some x \<Rightarrow> snd (ath_logout (wc_auth (wh_cfg h)) mo (s_id x) s))
      in (http_redirect r ''/'' 303 (clear_session_cookies (wc_cookie (wh_cfg h)) w), s'))"

text \<open>
  The study page: the stored preferences, the choice of set and mode, the question with its
  signed start, the summary.
\<close>

definition load_prefs :: "'s web_config \<Rightarrow> int \<Rightarrow> 's \<Rightarrow> user_prefs option \<times> 's" where
  "load_prefs cfg uid s =
     (case prf_get (wc_prefs cfg) uid s of (Inr p, s') \<Rightarrow> (Some p, s') | (Inl _, s') \<Rightarrow> (None, s'))"

definition save_prefs :: "'s web_config \<Rightarrow> bool \<Rightarrow> user_prefs \<Rightarrow> 's \<Rightarrow> 's" where
  "save_prefs cfg save p s = (if save then snd (prf_upsert (wc_prefs cfg) p s) else s)"

definition show_question :: "'s web_handler \<Rightarrow> moment \<Rightarrow> question \<Rightarrow> view \<Rightarrow> view" where
  "show_question h mo q v =
     (let ms = unix_milli (mo_now mo 1) in
      v\<lparr>vw_question := Some q,
        vw_topic_name := (case wh_topic_name_of h (q_topic_id q) of None \<Rightarrow> [] | Some n \<Rightarrow> n),
        vw_started_at_ms := ms,
        vw_started_at_sig := sign_started_at (wc_started_at_secret (wh_cfg h)) (q_id q) ms,
        vw_account_options := (if q_type q = qt_journal then standard else [])\<rparr>)"

definition add_summary :: "stats_summary res \<Rightarrow> view \<Rightarrow> view" where
  "add_summary r v = (case r of Inl _ \<Rightarrow> v | Inr x \<Rightarrow> v\<lparr>vw_summary := Some x\<rparr>)"

definition get_quiz :: "'s web_handler \<Rightarrow> 's page_handler" where
  "get_quiz h mo r w s =
     (let cfg = wh_cfg h in
      case set_list_all (wc_sets cfg) s of (rsets, s1) \<Rightarrow>
      with_user r w s1 (\<lambda>u.
        let sets = (case rsets of Inl _ \<Rightarrow> [] | Inr xs \<Rightarrow> xs); uid = u_id u in
        case load_prefs cfg uid s1 of (stored, s2) \<Rightarrow>
        case resolve_quiz_prefs (rq_query r ''set'') (rq_query r ''mode'') stored
               (\<lambda>code. code \<in> qs_code ` set sets) of (set_code, mode, save) \<Rightarrow>
        let s3 = save_prefs cfg save \<lparr>up_user_id = uid, up_quiz_set = set_code, up_quiz_mode = mode,
                   up_updated_at = mo_now mo 0\<rparr> s2;
            v = (base_view r title_study)\<lparr>vw_sets := sets, vw_active_set := set_code, vw_mode := mode\<rparr>
        in case qzp_next_question (wc_quiz cfg) (later mo) uid set_code mode s3 of (rq, s4) \<Rightarrow>
           let v1 = (case rq of Inl _ \<Rightarrow> v | Inr q \<Rightarrow> show_question h mo q v) in
           case stp_summary (wc_stats cfg) (later (later mo)) uid s4 of (rs, s5) \<Rightarrow>
           (render w ''quiz'' (add_summary rs v1), s5)))"

definition post_quiz_answer :: "'s web_handler \<Rightarrow> 's page_handler" where
  "post_quiz_answer h mo r0 w s =
     (let cfg = wh_cfg h; (ok, r) = parse_form r0
      in if \<not> ok then (http_error ''bad form'' 400 w, s)
         else
           let qid = fst (parse_int (form_value r ''question_id''));
               set_code = form_value r ''set'';
               started = fst (parse_int (form_value r ''started_at''));
               dur = answer_duration (wc_started_at_secret cfg) qid started (form_value r ''started_sig'')
                       (mo_now mo 0)
           in case qst_get_by_id (wc_questions cfg) qid s of
             (Inl _, s1) \<Rightarrow> (http_error ''not found'' 404 w, s1)
           | (Inr q, s1) \<Rightarrow>
               with_user r w s1 (\<lambda>u.
                 let journal = (q_type q = qt_journal);
                     i = \<lparr>si_question_id = qid, si_set_code = set_code,
                          si_answer = build_answer_from_form r (q_type q),
                          si_debits_nil = (\<not> journal), si_credits_nil = (\<not> journal), si_duration_ms = dur\<rparr>
                 in case qzp_submit (wc_quiz cfg) (later mo) (u_id u) i s1 of
                   (Inl _, s2) \<Rightarrow> (http_error ''internal error'' 500 w, s2)
                 | (Inr g, s2) \<Rightarrow>
                     (render w ''answer''
                        ((base_view r title_result)\<lparr>vw_active_set := set_code, vw_mode := form_value r ''mode'',
                           vw_correct := graded_is_correct g, vw_explanation := ga_explanation g,
                           vw_next_due_at := ga_next_due_at g\<rparr>), s2)))"

definition get_progress :: "'s web_handler \<Rightarrow> 's page_handler" where
  "get_progress h mo r w s =
     with_user r w s (\<lambda>u.
       case stp_daily_accuracy (wc_stats (wh_cfg h)) mo (u_id u) 30 s of (rd, s1) \<Rightarrow>
       case stp_topic_stats (wc_stats (wh_cfg h)) (later mo) (u_id u) s1 of (rt, s2) \<Rightarrow>
       let ds = (case rd of Inl _ \<Rightarrow> [] | Inr xs \<Rightarrow> xs); ts = (case rt of Inl _ \<Rightarrow> [] | Inr xs \<Rightarrow> xs)
       in (render w ''progress'' ((base_view r title_progress)\<lparr>vw_daily_chart := daily_accuracy_chart ds 720 240,
             vw_topic_bars := topic_accuracy_bars ts 720\<rparr>), s2))"

definition get_history :: "'s web_handler \<Rightarrow> 's page_handler" where
  "get_history h mo r w s =
     with_user r w s (\<lambda>u.
       case qzp_history (wc_quiz (wh_cfg h)) mo (u_id u) 100 0 s of (ra, s1) \<Rightarrow>
       (render w ''history'' ((base_view r title_history)\<lparr>
          vw_attempts := (case ra of Inl _ \<Rightarrow> [] | Inr xs \<Rightarrow> xs)\<rparr>), s1))"

definition post_history_clear :: "'s web_handler \<Rightarrow> 's page_handler" where
  "post_history_clear h mo r w s =
     with_user r w s (\<lambda>u.
       case qzp_delete_all_for_user (wc_quiz (wh_cfg h)) mo (u_id u) s of
         (Inl _, s1) \<Rightarrow> (http_error ''internal'' 500 w, s1)
       | (Inr _, s1) \<Rightarrow> (http_redirect r ''/history'' 303 w, s1))"

definition post_history_delete :: "'s web_handler \<Rightarrow> 's page_handler" where
  "post_history_delete h mo r w s =
     (case parse_int (rq_path_value r ''id'') of
        (_, Some _) \<Rightarrow> (http_error ''bad id'' 400 w, s)
      | (i, None) \<Rightarrow>
          with_user r w s (\<lambda>u.
            case qzp_delete_attempt (wc_quiz (wh_cfg h)) mo (u_id u) i s of
              (Inl _, s1) \<Rightarrow> (http_error ''not found'' 404 w, s1)
            | (Inr _, s1) \<Rightarrow> (http_redirect r ''/history'' 303 w, s1)))"

definition get_settings :: "'s web_handler \<Rightarrow> 's page_handler" where
  "get_settings h mo r w s = (render w ''settings'' (base_view r title_settings), s)"

definition change_error_message :: "gerror \<Rightarrow> string" where
  "change_error_message e =
     (if errors_is e ErrPasswordMismatch then msg_bad_current
      else if errors_is e ErrPasswordTooWeak then msg_weak
      else msg_change_failed)"

definition post_settings_password :: "'s web_handler \<Rightarrow> 's page_handler" where
  "post_settings_password h mo r0 w s =
     (let (ok, r) = parse_form r0; v = base_view r title_settings
      in if \<not> ok then (http_error ''bad form'' 400 w, s)
         else with_user r w s (\<lambda>u.
           case cx_session (rq_ctx r) of
             None \<Rightarrow> (Panicked w, s)
           | Some x \<Rightarrow>
               (case ath_change_password (wc_auth (wh_cfg h)) mo (u_id u) (form_value r ''current'')
                       (form_value r ''new'') (s_id x) s of
                  (Inl e, s1) \<Rightarrow> (render w ''settings'' (v\<lparr>vw_flash_error := change_error_message e\<rparr>), s1)
                | (Inr _, s1) \<Rightarrow> (render w ''settings'' (v\<lparr>vw_flash_ok := msg_changed\<rparr>), s1))))"

text \<open>The routes behind the session and CSRF checks\<close>

definition web_authed :: "'s web_handler \<Rightarrow> 's page_handler \<Rightarrow> 's page_handler" where
  "web_authed h inner =
     session_guard (wc_auth (wh_cfg h)) (cc_session_name (wc_cookie (wh_cfg h))) ''/login''
       (csrf_guard (cc_csrf_name (wc_cookie (wh_cfg h))) inner)"

end
