(* ===== verification/Migrate.thy ===== *)
theory Migrate
  imports Store "HOL-Library.List_Lexorder" "HOL-Library.Sublist"
begin

text \<open>
  \<^verbatim>\<open>internal/pkg/sqlitex/sqlitex.go\<close>: opening a database and bringing its schema up to date.  What a
  script does to the schema is up to the engine and a parameter; the rest (the table of applied
  versions, the order of the files, the transaction around each script) is written out.
\<close>

section \<open>The database under migration\<close>

text \<open>
  The table \<^verbatim>\<open>schema_migrations\<close> holds versions and times and may not exist yet.  The statements
  that fail are a list, as in \<^verbatim>\<open>Store\<close>.
\<close>

record 's schema_db =
  sm_schema :: 's
  sm_versions :: "(int \<times> int) list option"
  sm_faults :: "string option list"

definition engine :: "'s schema_db \<Rightarrow> gerror option \<times> 's schema_db" where
  "engine d = (case sm_faults d of [] \<Rightarrow> (None, d) | f # fs \<Rightarrow> (map_option ErrText f, d\<lparr>sm_faults := fs\<rparr>))"

definition versions :: "'s schema_db \<Rightarrow> (int \<times> int) list" where
  "versions d = (case sm_versions d of None \<Rightarrow> [] | Some vs \<Rightarrow> vs)"

section \<open>Opening\<close>

definition pragmas :: "string list" where
  "pragmas = [''PRAGMA journal_mode=WAL'', ''PRAGMA foreign_keys=ON'', ''PRAGMA busy_timeout=5000'',
     ''PRAGMA synchronous=NORMAL'']"

fun apply_pragmas :: "string list \<Rightarrow> 's schema_db \<Rightarrow> unit res \<times> 's schema_db" where
  "apply_pragmas [] d = (Inr (), d)"
| "apply_pragmas (p # ps) d =
     (case engine d of
        (Some e, d') \<Rightarrow> (Inl (ErrWrap (''sqlitex.ApplyPragmas '' @ quoted p) e), d')
      | (None, d') \<Rightarrow> apply_pragmas ps d')"

text \<open>The first argument is the error of \<^verbatim>\<open>sql.Open\<close>, if any.\<close>

definition open_db :: "gerror option \<Rightarrow> 's schema_db \<Rightarrow> unit res \<times> 's schema_db" where
  "open_db err d = (case err of Some e \<Rightarrow> (Inl (ErrWrap ''sqlitex.Open'' e), d) | None \<Rightarrow> apply_pragmas pragmas d)"

section \<open>Migrating\<close>

text \<open>An entry of the embedded directory: its name, whether it is a directory, what reading it gives.\<close>

record dir_entry =
  de_name :: string
  de_is_dir :: bool
  de_content :: "string res"

text \<open>Names are sorted by their bytes.\<close>

definition list_sql :: "string \<Rightarrow> dir_entry list res \<Rightarrow> string list res" where
  "list_sql dir entries = (case entries of
     Inl e \<Rightarrow> Inl (ErrWrap (''sqlitex.Migrate: read dir '' @ quoted dir) e)
   | Inr es \<Rightarrow> Inr (sort_key (map byte) (map de_name (filter (\<lambda>e. \<not> de_is_dir e \<and> has_suffix (de_name e) ''.sql'') es))))"

definition read_file :: "dir_entry list res \<Rightarrow> string \<Rightarrow> string res" where
  "read_file entries name = (case entries of
     Inl e \<Rightarrow> Inl e
   | Inr es \<Rightarrow> (case row de_name es name of
         None \<Rightarrow> Inl (ErrText ''file does not exist'') | Some e \<Rightarrow> de_content e))"

definition load_applied_versions :: "'s schema_db \<Rightarrow> int list res \<times> 's schema_db" where
  "load_applied_versions d =
     (case engine d of
        (Some e, d1) \<Rightarrow> (Inl (ErrWrap ''sqlitex.Migrate: load applied'' e), d1)
      | (None, d1) \<Rightarrow>
          (case engine d1 of
             (Some e, d2) \<Rightarrow> (Inl (ErrWrap ''sqlitex.Migrate: iterate applied'' e), d2)
           | (None, d2) \<Rightarrow> (Inr (map fst (versions d2)), d2)))"

definition parse_version :: "string \<Rightarrow> int res" where
  "parse_version name =
     (let digits = takeWhile (\<lambda>c. c \<noteq> CHR ''_'') name in
      if digits = [] \<or> digits = name then Inl (ErrText ''migration filename must be <int>_<name>.sql'')
      else wrap_err ''parse version'' (atoi digits))"

text \<open>
  One script and the record of its version, in a transaction; a version is recorded once.  The
  arguments are what a script does to the schema, and the time.
\<close>

definition apply_one :: "(string \<Rightarrow> 's \<Rightarrow> 's res) \<Rightarrow> time \<Rightarrow> int \<Rightarrow> string \<Rightarrow> 's schema_db \<Rightarrow> unit res \<times> 's schema_db" where
  "apply_one script now version sql d =
     (case engine d of
        (Some e, d0) \<Rightarrow> (Inl (ErrWrap ''begin'' e), d0)
      | (None, d0) \<Rightarrow>
          (let fail = (\<lambda>ctx e d'. (Inl (ErrWrap ctx e), d0\<lparr>sm_faults := sm_faults d'\<rparr>)) in
           case engine d0 of
             (Some e, d1) \<Rightarrow> fail ''exec'' e d1
           | (None, d1) \<Rightarrow>
               (case script sql (sm_schema d1) of
                  Inl e \<Rightarrow> fail ''exec'' e d1
                | Inr s \<Rightarrow>
                    (case engine (d1\<lparr>sm_schema := s\<rparr>) of
                       (Some e, d2) \<Rightarrow> fail ''record'' e d2
                     | (None, d2) \<Rightarrow>
                         if version \<in> fst ` set (versions d2) then fail ''record'' err_unique d2
                         else (case engine (d2\<lparr>sm_versions := Some (versions d2 @ [(version, unix now)])\<rparr>) of
                             (Some e, d3) \<Rightarrow> fail ''commit'' e d3
                           | (None, d3) \<Rightarrow> (Inr (), d3))))))"

text \<open>The loop over the files: what was applied is read once, before it.\<close>

fun migrate_files :: "(string \<Rightarrow> 's \<Rightarrow> 's res) \<Rightarrow> (string \<Rightarrow> time) \<Rightarrow> dir_entry list res \<Rightarrow> int list \<Rightarrow> string list \<Rightarrow>
    's schema_db \<Rightarrow> unit res \<times> 's schema_db" where
  "migrate_files script now entries applied [] d = (Inr (), d)"
| "migrate_files script now entries applied (name # names) d =
     (case parse_version name of
        Inl e \<Rightarrow> (Inl (ErrWrap (''sqlitex.Migrate: '' @ quoted name) e), d)
      | Inr version \<Rightarrow>
          if version \<in> set applied then migrate_files script now entries applied names d
          else (case read_file entries name of
              Inl e \<Rightarrow> (Inl (ErrWrap (''sqlitex.Migrate: read '' @ quoted name) e), d)
            | Inr content \<Rightarrow>
                (case apply_one script (now name) version content d of
                   (Inl e, d1) \<Rightarrow> (Inl (ErrWrap (''sqlitex.Migrate: apply '' @ quoted name) e), d1)
                 | (Inr _, d1) \<Rightarrow> migrate_files script now entries applied names d1)))"

definition migrate :: "(string \<Rightarrow> 's \<Rightarrow> 's res) \<Rightarrow> (string \<Rightarrow> time) \<Rightarrow> string \<Rightarrow> dir_entry list res \<Rightarrow> 's schema_db \<Rightarrow>
    unit res \<times> 's schema_db" where
  "migrate script now dir entries d =
     (case engine d of
        (Some e, d1) \<Rightarrow> (Inl (ErrWrap ''sqlitex.Migrate: ensure schema_migrations'' e), d1)
      | (None, d1) \<Rightarrow>
          (let d2 = d1\<lparr>sm_versions := Some (versions d1)\<rparr> in
           case list_sql dir entries of
             Inl e \<Rightarrow> (Inl e, d2)
           | Inr files \<Rightarrow>
               (case load_applied_versions d2 of
                  (Inl e, d3) \<Rightarrow> (Inl e, d3)
                | (Inr applied, d3) \<Rightarrow> migrate_files script now entries applied files d3)))"

section \<open>What a migration does\<close>

definition version_of :: "string \<Rightarrow> int" where
  "version_of name = (case parse_version name of Inl _ \<Rightarrow> 0 | Inr v \<Rightarrow> v)"

definition versioned :: "(string \<Rightarrow> time) \<Rightarrow> string list \<Rightarrow> (int \<times> int) list" where
  "versioned now names = map (\<lambda>n. (version_of n, unix (now n))) names"

text \<open>The scripts of some files, one after the other\<close>

fun run_files :: "(string \<Rightarrow> 's \<Rightarrow> 's res) \<Rightarrow> dir_entry list res \<Rightarrow> string list \<Rightarrow> 's \<Rightarrow> 's res" where
  "run_files script entries [] s = Inr s"
| "run_files script entries (n # ns) s =
     (case read_file entries n of Inl e \<Rightarrow> Inl e
      | Inr c \<Rightarrow> (case script c s of Inl e \<Rightarrow> Inl e | Inr s' \<Rightarrow> run_files script entries ns s'))"

lemma engine_tables: "engine d = (x, d') \<Longrightarrow> sm_schema d' = sm_schema d \<and> sm_versions d' = sm_versions d"
  by (auto simp: engine_def split: list.splits)

lemma versions_same: "sm_versions d' = sm_versions d \<Longrightarrow> versions d' = versions d"
  by (simp add: versions_def)

lemma versions_is: "sm_versions d = Some vs \<Longrightarrow> versions d = vs"
  by (simp add: versions_def)

lemma versions_Some [simp]: "versions (d\<lparr>sm_versions := Some vs\<rparr>) = vs" "versions (d\<lparr>sm_schema := s\<rparr>) = versions d"
  by (simp_all add: versions_def)

lemma engine_works: "sm_faults d = [] \<Longrightarrow> engine d = (None, d)"
  by (simp add: engine_def)

lemma apply_one_cases:
  assumes "apply_one script now v sql d = (r, d')"
  obtains (failed) e where "r = Inl e" "sm_schema d' = sm_schema d" "sm_versions d' = sm_versions d"
  | (applied) "r = Inr ()" "script sql (sm_schema d) = Inr (sm_schema d')" "v \<notin> fst ` set (versions d)"
      "versions d' = versions d @ [(v, unix now)]"
proof -
  obtain f0 d0 f1 d1 where 0: "engine d = (f0, d0)" and 1: "engine d0 = (f1, d1)" by fastforce
  note t1 = engine_tables [OF 0] engine_tables [OF 1]
  show thesis
  proof (cases "f0 = None \<and> f1 = None \<and> (\<exists>s. script sql (sm_schema d1) = Inr s)")
    case False
    with assms 0 1 t1 show thesis
      by (cases f0; cases f1; cases "script sql (sm_schema d1)") (auto simp: apply_one_def Let_def intro!: failed)
  next
    case True
    then obtain s where s: "f0 = None" "f1 = None" "script sql (sm_schema d1) = Inr s" by blast
    obtain f2 d2 where 2: "engine (d1\<lparr>sm_schema := s\<rparr>) = (f2, d2)" by fastforce
    obtain f3 d3 where 3: "engine (d2\<lparr>sm_versions := Some (versions d2 @ [(v, unix now)])\<rparr>) = (f3, d3)" by fastforce
    note t2 = engine_tables [OF 2] engine_tables [OF 3]
    show thesis
    proof (cases "f2 = None \<and> v \<notin> fst ` set (versions d2) \<and> f3 = None")
      case False
      with assms 0 1 2 3 s t1 show thesis
        by (cases f2; cases f3) (auto simp: apply_one_def Let_def intro!: failed split: if_splits)
    next
      case True
      then have "r = Inr ()" "d' = d3" using assms 0 1 2 3 s by (auto simp: apply_one_def Let_def)
      moreover have "versions d2 = versions d" using t1 t2 by (intro versions_same) simp
      ultimately show thesis using t1 t2 s True by (intro applied) (simp_all add: versions_is)
    qed
  qed
qed

lemma migrate_files_history:
  assumes "migrate_files script now entries applied names d = (r, d')"
  shows "\<exists>ns. prefix ns (filter (\<lambda>n. version_of n \<notin> set applied) names)
    \<and> versions d' = versions d @ versioned now ns \<and> run_files script entries ns (sm_schema d) = Inr (sm_schema d')
    \<and> (distinct (map fst (versions d)) \<longrightarrow> distinct (map fst (versions d')))
    \<and> (r = Inr () \<longrightarrow> ns = filter (\<lambda>n. version_of n \<notin> set applied) names \<and> (\<forall>n\<in>set names. parse_version n = Inr (version_of n)))"
  using assms
proof (induction names arbitrary: d)
  case Nil
  then have "r = Inr ()" "d' = d" by simp_all
  then show ?case by (intro exI [of _ "[]"]) (simp add: versioned_def)
next
  case (Cons name names)
  let ?case = "\<exists>ns. prefix ns (filter (\<lambda>n. version_of n \<notin> set applied) (name # names))
    \<and> versions d' = versions d @ versioned now ns \<and> run_files script entries ns (sm_schema d) = Inr (sm_schema d')
    \<and> (distinct (map fst (versions d)) \<longrightarrow> distinct (map fst (versions d')))
    \<and> (r = Inr () \<longrightarrow> ns = filter (\<lambda>n. version_of n \<notin> set applied) (name # names)
        \<and> (\<forall>n\<in>set (name # names). parse_version n = Inr (version_of n)))"
  have stop: ?case if "r = Inl e" "sm_schema d' = sm_schema d" "versions d' = versions d" for e
    using that by (intro exI [of _ "[]"]) (simp add: versioned_def)
  show ?case
  proof (cases "parse_version name")
    case (Inl e)
    with Cons.prems show ?thesis by (intro stop) auto
  next
    case (Inr v)
    note parsed = Inr
    have v: "version_of name = v" by (simp add: version_of_def parsed)
    show ?thesis
    proof (cases "v \<in> set applied")
      case True
      with Cons.prems parsed have "migrate_files script now entries applied names d = (r, d')" by simp
      from Cons.IH [OF this] True v parsed show ?thesis by simp
    next
      case new: False
      show ?thesis
      proof (cases "read_file entries name")
        case (Inl e)
        with Cons.prems parsed new show ?thesis by (intro stop) auto
      next
        case (Inr c)
        obtain r1 d1 where one: "apply_one script (now name) v c d = (r1, d1)" by fastforce
        then show ?thesis
        proof (cases rule: apply_one_cases)
          case (failed e)
          with Cons.prems parsed new Inr one show ?thesis by (intro stop versions_same) auto
        next
          case applied
          with Cons.prems parsed new Inr one have "migrate_files script now entries applied names d1 = (r, d')" by simp
          from Cons.IH [OF this] obtain ns where ns: "prefix ns (filter (\<lambda>n. version_of n \<notin> set applied) names)"
            "versions d' = versions d1 @ versioned now ns" "run_files script entries ns (sm_schema d1) = Inr (sm_schema d')"
            "distinct (map fst (versions d1)) \<longrightarrow> distinct (map fst (versions d'))"
            "r = Inr () \<longrightarrow> ns = filter (\<lambda>n. version_of n \<notin> set applied) names \<and> (\<forall>n\<in>set names. parse_version n = Inr (version_of n))"
            by (elim exE conjE)
          have "prefix (name # ns) (filter (\<lambda>n. version_of n \<notin> set applied) (name # names))"
            using ns(1) new v by simp
          moreover have "versions d' = versions d @ versioned now (name # ns)"
            using ns(2) applied(4) v by (simp add: versioned_def)
          moreover have "run_files script entries (name # ns) (sm_schema d) = Inr (sm_schema d')"
            using ns(3) applied(2) Inr by simp
          moreover have "distinct (map fst (versions d)) \<longrightarrow> distinct (map fst (versions d'))"
            using ns(4) applied(3,4) by simp
          ultimately show ?thesis
            using ns(5) new v parsed by (intro exI [of _ "name # ns"]) simp
        qed
      qed
    qed
  qed
qed

lemma migrate_files_table:
  "migrate_files script now entries applied names d = (r, d') \<Longrightarrow> sm_versions d \<noteq> None \<Longrightarrow> sm_versions d' \<noteq> None"
proof (induction names arbitrary: d)
  case (Cons name names)
  have "sm_versions d1 \<noteq> None" if "apply_one script (now name) v c d = (q, d1)" for v c q d1
    using that Cons.prems(2)
    by (auto simp: apply_one_def Let_def dest!: engine_tables split: prod.splits option.splits sum.splits if_splits)
  with Cons show ?case by (auto split: sum.splits if_splits prod.splits)
qed simp

lemma migrate_cases:
  assumes "migrate script now dir entries d = (r, d')"
  obtains (stopped) e where "r = Inl e" "sm_schema d' = sm_schema d" "versions d' = versions d"
  | (files) names d1 where "list_sql dir entries = Inr names" "sm_schema d1 = sm_schema d" "sm_versions d1 = Some (versions d)"
      "migrate_files script now entries (map fst (versions d)) names d1 = (r, d')"
proof -
  obtain f d1 where 1: "engine d = (f, d1)" by fastforce
  note same1 = engine_tables [OF 1] versions_same [of d1 d]
  let ?d2 = "d1\<lparr>sm_versions := Some (versions d1)\<rparr>"
  obtain q d3 where load: "load_applied_versions ?d2 = (q, d3)" by fastforce
  then have same3: "sm_schema d3 = sm_schema ?d2 \<and> sm_versions d3 = sm_versions ?d2 \<and> (\<forall>vs. q = Inr vs \<longrightarrow> vs = map fst (versions d1))"
    by (auto simp: load_applied_versions_def versions_is dest!: engine_tables split: prod.splits option.splits)
  then have "versions d3 = versions ?d2" by (intro versions_same) simp
  with 1 load same1 same3 assms that show thesis
    by (cases f; cases "list_sql dir entries"; cases q) (auto simp: migrate_def)
qed

text \<open>After a migration that succeeded, migrating again changes nothing and runs no script.\<close>

lemma migrate_again:
  assumes "migrate script now dir entries d = (Inr (), d')" "sm_faults d' = []"
  shows "migrate script' now' dir entries d' = (Inr (), d')"
  using assms(1)
proof (cases rule: migrate_cases)
  case (files names d1)
  have d1: "versions d1 = versions d" using files(3) by (simp add: versions_def)
  from migrate_files_history [OF files(4)]
  have versions: "versions d' = versions d @ versioned now (filter (\<lambda>n. version_of n \<notin> set (map fst (versions d))) names)"
    and names: "\<forall>n\<in>set names. parse_version n = Inr (version_of n)" by (auto simp: d1)
  have skip: "migrate_files script' now' entries applied ns d' = (Inr (), d')"
    if "\<forall>n\<in>set ns. parse_version n = Inr (version_of n) \<and> version_of n \<in> set applied" for ns applied
    using that by (induction ns) auto
  have "version_of n \<in> set (map fst (versions d'))" if "n \<in> set names" for n
    using that by (auto simp: versions versioned_def image_iff)
  then have again: "migrate_files script' now' entries (map fst (versions d')) names d' = (Inr (), d')"
    using names by (intro skip) blast
  have "sm_versions d' \<noteq> None" using migrate_files_table [OF files(4)] files(3) by simp
  then have "d'\<lparr>sm_versions := Some (versions d')\<rparr> = d'" by (auto simp: versions_def)
  then show ?thesis
    using assms(2) again files(1) by (simp add: migrate_def load_applied_versions_def engine_works versions_def)
qed simp

section \<open>Properties\<close>

text \<open>
  C30: however a migration ends, the schema is the result of running some first ones of the pending
  scripts, in the order of their names, and exactly these are recorded as applied, none of them
  twice; a migration that succeeds has run all of them.
\<close>

theorem migrate_history:
  assumes "migrate script now dir entries d = (r, d')" "names = (case list_sql dir entries of Inl _ \<Rightarrow> [] | Inr ns \<Rightarrow> ns)"
    and "pending = filter (\<lambda>n. version_of n \<notin> fst ` set (versions d)) names"
  shows "\<exists>ns. prefix ns pending \<and> versions d' = versions d @ versioned now ns
    \<and> run_files script entries ns (sm_schema d) = Inr (sm_schema d')
    \<and> (distinct (map fst (versions d)) \<longrightarrow> distinct (map fst (versions d')))
    \<and> (r = Inr () \<longrightarrow> ns = pending)"
  using assms(1)
proof (cases rule: migrate_cases)
  case (stopped e)
  then show ?thesis by (intro exI [of _ "[]"]) (simp add: versioned_def)
next
  case (files fs d1)
  then have "versions d1 = versions d" by (simp add: versions_def)
  with migrate_files_history [OF files(4)] files(1,2) show ?thesis by (auto simp: assms(2,3))
qed

definition demo_dir :: "dir_entry list res" where
  "demo_dir = Inr [\<lparr>de_name = ''0002_user_prefs.sql'', de_is_dir = False, de_content = Inr ''prefs''\<rparr>,
     \<lparr>de_name = ''README.md'', de_is_dir = False, de_content = Inr []\<rparr>,
     \<lparr>de_name = ''0001_init.sql'', de_is_dir = False, de_content = Inr ''init''\<rparr>]"

definition demo_script :: "string \<Rightarrow> string list \<Rightarrow> string list res" where
  "demo_script sql done_before = Inr (done_before @ [sql])"

lemma demo_migrate:
  "migrate demo_script (\<lambda>_. 0) ''migrations'' demo_dir \<lparr>sm_schema = [], sm_versions = None, sm_faults = []\<rparr>
   = (Inr (), \<lparr>sm_schema = [''init'', ''prefs''],
        sm_versions = Some (versioned (\<lambda>_. 0) [''0001_init.sql'', ''0002_user_prefs.sql'']), sm_faults = []\<rparr>)"
  by code_simp

lemma migrate_history_witness:
  "\<exists>ns. run_files demo_script demo_dir ns [] = Inr [''init'', ''prefs'']"
  using migrate_history [OF demo_migrate refl refl] by auto

end
