(* ===== verification/Assets.thy ===== *)
theory Assets
  imports Web Migrate
begin

text \<open>
  \<^verbatim>\<open>internal/transport/web/view.go\<close> and the end of \<^verbatim>\<open>cmd/boki3-quiz/main.go\<close>: the embedded templates
  and static files, the settings of the HTTP server, and what the program returns.  Parsing and
  executing a template is a parameter.
\<close>

section \<open>Templates\<close>

text \<open>
  The arguments are what reading an embedded file gives, a new template of a name with the helper
  functions, and parsing a text into a template.
\<close>

fun load_pages :: "(string \<Rightarrow> string res) \<Rightarrow> (string \<Rightarrow> 't) \<Rightarrow> (string \<Rightarrow> 't \<Rightarrow> 't res) \<Rightarrow> string \<Rightarrow> string list \<Rightarrow>
    (string \<rightharpoonup> 't) \<Rightarrow> (string \<rightharpoonup> 't) res" where
  "load_pages rd fresh parse layout [] pages = Inr pages"
| "load_pages rd fresh parse layout (n # ns) pages =
     (case rd (''templates/'' @ n @ ''.html'') of
        Inl e \<Rightarrow> Inl (ErrWrap (''read '' @ n) e)
      | Inr page \<Rightarrow>
          (case parse layout (fresh n) of
             Inl e \<Rightarrow> Inl (ErrWrap (''parse layout for '' @ n) e)
           | Inr t1 \<Rightarrow>
               (case parse page t1 of
                  Inl e \<Rightarrow> Inl (ErrWrap (''parse '' @ n) e)
                | Inr t2 \<Rightarrow> load_pages rd fresh parse layout ns (pages(n \<mapsto> t2)))))"

definition load_templates :: "(string \<Rightarrow> string res) \<Rightarrow> (string \<Rightarrow> 't) \<Rightarrow> (string \<Rightarrow> 't \<Rightarrow> 't res) \<Rightarrow> (string \<rightharpoonup> 't) res" where
  "load_templates rd fresh parse =
     (case rd ''templates/layout.html'' of
        Inl e \<Rightarrow> Inl (ErrWrap ''read layout'' e)
      | Inr layout \<Rightarrow> load_pages rd fresh parse layout page_names Map.empty)"

definition render_template :: "('t \<Rightarrow> 'd \<Rightarrow> string res) \<Rightarrow> (string \<rightharpoonup> 't) \<Rightarrow> string \<Rightarrow> 'd \<Rightarrow> string res" where
  "render_template execute pages name d =
     (case pages name of
        None \<Rightarrow> Inl (ErrText (''template '' @ quoted name @ '' not found''))
      | Some t \<Rightarrow> execute t d)"

lemma load_pages_dom:
  "load_pages rd fresh parse layout ns pages = Inr pages' \<Longrightarrow> dom pages' = dom pages \<union> set ns"
  by (induction ns arbitrary: pages) (auto split: sum.splits)

text \<open>
  The pages of the handlers stand for what \<^verbatim>\<open>Templates.Render\<close> writes: where executing does not fail,
  the two agree on which names are an internal error.
\<close>

lemma render_loaded:
  assumes "load_templates rd fresh parse = Inr pages" "\<And>t d. is_ok (execute t d)"
  shows "render w name v =
    (let w1 = set_header ''Content-Type'' ''text/html; charset=utf-8'' w in
     case render_template execute pages name v of
       Inl _ \<Rightarrow> http_error ''internal error'' 500 w1
     | Inr _ \<Rightarrow> reply 200 (PageBody (name, v)) w1)"
proof -
  have "dom pages = set page_names"
    using assms(1) by (auto simp: load_templates_def dest!: load_pages_dom split: sum.splits)
  then have "name \<in> set page_names \<longleftrightarrow> pages name \<noteq> None" by auto
  moreover have "render_template execute pages name v = execute t v" "\<exists>x. execute t v = Inr x" if "pages name = Some t" for t
    using assms(2) [of t v] that by (auto simp: render_template_def elim: is_ok.elims(2))
  ultimately show ?thesis
    by (cases "pages name") (fastforce simp: render_def render_template_def Let_def)+
qed

section \<open>Static files\<close>

text \<open>Opening a name of the embedded directory, but not with a slash at its end\<close>

definition no_list_open :: "(string \<Rightarrow> 'f res) \<Rightarrow> string \<Rightarrow> 'f res" where
  "no_list_open files name =
     (if has_suffix name ''/'' then Inl (ErrText ''file does not exist'') else files name)"

section \<open>The listener\<close>

record http_server =
  hs_addr :: string
  hs_read_header_timeout :: time
  hs_read_timeout :: time
  hs_write_timeout :: time
  hs_idle_timeout :: time

definition http_server_at :: "string \<Rightarrow> http_server" where
  "http_server_at addr = \<lparr>hs_addr = addr, hs_read_header_timeout = 5 * second, hs_read_timeout = 15 * second,
     hs_write_timeout = 30 * second, hs_idle_timeout = 60 * second\<rparr>"

text \<open>The server ends by a signal, with the result of its shutdown, or because listening ends.\<close>

datatype ending = Signalled "unit res" | Listened "gerror option"

definition err_server_closed :: gerror where
  "err_server_closed = ErrText ''http: Server closed''"

definition run_result :: "ending \<Rightarrow> unit res" where
  "run_result e = (case e of
     Signalled r \<Rightarrow> r
   | Listened None \<Rightarrow> Inr ()
   | Listened (Some err) \<Rightarrow> if errors_is err err_server_closed then Inr () else Inl err)"

definition exit_code :: "unit res \<Rightarrow> int" where
  "exit_code r = (case r of Inl _ \<Rightarrow> 1 | Inr _ \<Rightarrow> 0)"

end
