(* ===== verification/Frames.thy ===== *)
theory Frames
  imports Auth Quiz
begin

text \<open>
  What the services cannot change: a relation between states that every operation of the
  repositories respects is respected by every operation of the services over them.  The
  operations that change rows of a user need to respect it for the users in \<open>mine\<close> only.
\<close>

locale framed =
  fixes R :: "'s \<Rightarrow> 's \<Rightarrow> bool"
  assumes R_refl: "R s s" and R_trans: "R s s' \<Longrightarrow> R s' s'' \<Longrightarrow> R s s''"
begin

lemma R_leaf: "R s (snd (x, s))" "R s (snd (snd (x, y, s)))"
  by (simp_all add: R_refl)

lemma R_bind:
  "R s (snd p) \<Longrightarrow> (\<And>x s'. R s' (snd (f x s'))) \<Longrightarrow> R s (snd (case p of (x, s') \<Rightarrow> f x s'))"
  "R s (snd p) \<Longrightarrow> (\<And>x s'. R s' (snd (snd (g x s')))) \<Longrightarrow> R s (snd (snd (case p of (x, s') \<Rightarrow> g x s')))"
  by (cases p; auto intro: R_trans)+

lemma R_bind3:
  "R s (snd (snd q)) \<Longrightarrow> (\<And>x y s'. R s' (snd (f x y s'))) \<Longrightarrow> R s (snd (case q of (x, y, s') \<Rightarrow> f x y s'))"
  by (cases q; auto intro: R_trans)

lemma R_option3:
  "R s (snd (snd q)) \<Longrightarrow> (\<And>y s'. R s' (snd (f y s'))) \<Longrightarrow> (\<And>v y s'. R s' (snd (g v y s')))
   \<Longrightarrow> R s (snd (case q of (x, b) \<Rightarrow> (case x of None \<Rightarrow> (case b of (y, s') \<Rightarrow> f y s')
        | Some v \<Rightarrow> (case b of (y, s') \<Rightarrow> g v y s'))))"
  by (cases q; cases "fst q"; auto intro: R_trans)

lemma R_pure:
  "(\<And>x y. R s (snd (f x y))) \<Longrightarrow> R s (snd (case p of (x, y) \<Rightarrow> f x y))"
  "(\<And>x y. R s (snd (snd (g x y)))) \<Longrightarrow> R s (snd (snd (case p of (x, y) \<Rightarrow> g x y)))"
  by (cases p; simp)+

lemma R_sum:
  "(\<And>e. R s (snd (f e))) \<Longrightarrow> (\<And>x. R s (snd (g x))) \<Longrightarrow> R s (snd (case r of Inl e \<Rightarrow> f e | Inr x \<Rightarrow> g x))"
  "(\<And>e. R s (snd (snd (h e)))) \<Longrightarrow> (\<And>x. R s (snd (snd (k x))))
   \<Longrightarrow> R s (snd (snd (case r of Inl e \<Rightarrow> h e | Inr x \<Rightarrow> k x)))"
  by (cases r; simp)+

lemma R_option:
  "R s (snd y) \<Longrightarrow> (\<And>x. R s (snd (g x))) \<Longrightarrow> R s (snd (case q of None \<Rightarrow> y | Some x \<Rightarrow> g x))"
  by (cases q; simp)

lemma R_list:
  "R s (snd y) \<Longrightarrow> (\<And>x xs. R s (snd (g x xs))) \<Longrightarrow> R s (snd (case l of [] \<Rightarrow> y | x # xs \<Rightarrow> g x xs))"
  by (cases l; simp)

lemma R_bool:
  "R s (snd x) \<Longrightarrow> R s (snd y) \<Longrightarrow> R s (snd (case b of True \<Rightarrow> x | False \<Rightarrow> y))"
  by (cases b; simp)

lemma R_if:
  "R s (snd x) \<Longrightarrow> R s (snd y) \<Longrightarrow> R s (snd (if b then x else y))"
  "R s (snd (snd v)) \<Longrightarrow> R s (snd (snd w)) \<Longrightarrow> R s (snd (snd (if b then v else w)))"
  by simp_all

text \<open>The same with the intermediate result known\<close>

lemma R_bind_eq:
  "R s (snd p) \<Longrightarrow> (\<And>x s'. p = (x, s') \<Longrightarrow> R s' (snd (f x s'))) \<Longrightarrow> R s (snd (case p of (x, s') \<Rightarrow> f x s'))"
  by (cases p; auto intro: R_trans)

lemma R_sum_eq:
  "(\<And>e. r = Inl e \<Longrightarrow> R s (snd (f e))) \<Longrightarrow> (\<And>x. r = Inr x \<Longrightarrow> R s (snd (g x)))
   \<Longrightarrow> R s (snd (case r of Inl e \<Rightarrow> f e | Inr x \<Rightarrow> g x))"
  by (cases r; simp)

lemmas R_rules = R_leaf R_option3 R_bind3 R_bind R_sum R_option R_list R_bool R_if R_pure

end

section \<open>Accounts\<close>

locale account_frame = framed R for R :: "'s \<Rightarrow> 's \<Rightarrow> bool" +
  fixes mine :: "int \<Rightarrow> bool"
    and repo :: "'s user_port" and sess :: "'s session_port" and jwts :: "'s jwt_revocation_port"
  assumes user_ops: "R s (snd (usr_create repo u s))" "R s (snd (usr_find_by_username repo n s))"
      "R s (snd (usr_find_by_id repo i s))"
    and password_op: "mine i \<Longrightarrow> R s (snd (usr_update_password repo i h sa pa t s))"
    and session_ops: "R s (snd (ses_create sess x s))" "R s (snd (ses_find_by_id sess k s))"
      "R s (snd (ses_touch sess k t s))" "R s (snd (ses_delete sess k s))"
      "R s (snd (ses_delete_all_for_user sess i s))" "R s (snd (ses_delete_all_for_user_except sess i k s))"
    and jwt_ops: "R s (snd (jrv_revoke jwts j i t s))" "R s (snd (jrv_is_revoked jwts j s))"
      "R s (snd (jrv_revoke_all_for_user jwts i t s))"
begin

lemmas account_ops = user_ops password_op session_ops jwt_ops

lemma auth_frames:
  assumes "au_users a = repo" "au_sessions a = sess" "au_jwts a = jwts"
  shows "R s (snd (register a now rand name plain s))"
    "R s (snd (login a now r1 r2 name plain ua ip s))"
    "R s (snd (logout a sid s))"
    "mine uid \<Longrightarrow> R s (snd (change_password a now rand uid cur new keep s))"
    "R s (snd (session_by_id a now now' sid s))"
proof -
  show "R s (snd (register a now rand name plain s))"
    unfolding register_def assms by (intro R_rules account_ops)
  show "R s (snd (login a now r1 r2 name plain ua ip s))"
    unfolding login_def assms by (intro R_rules account_ops)
  show "R s (snd (logout a sid s))"
    unfolding logout_def assms by (intro account_ops)
  show "R s (snd (change_password a now rand uid cur new keep s))" if "mine uid"
    unfolding change_password_def assms by (intro R_rules account_ops that)
  show "R s (snd (session_by_id a now now' sid s))"
    unfolding session_by_id_def assms by (intro R_rules account_ops; simp add: account_ops)
qed

lemma token_frames:
  assumes "aa_jwts b = jwts"
  shows "R s (snd (verify_token b now now' tok s))" "R s (snd (revoke_token b jti uid t s))"
  unfolding verify_token_def revoke_token_def assms by (intro R_rules account_ops)+

end

section \<open>The quiz\<close>

locale quiz_frame = framed R for R :: "'s \<Rightarrow> 's \<Rightarrow> bool" +
  fixes mine :: "int \<Rightarrow> bool"
    and bank :: "'s question_port" and sets :: "'s set_port" and atts :: "'s attempt_port"
    and states :: "'s srs_state_port"
  assumes bank_ops: "R s (snd (qst_get_by_id bank i s))" "R s (snd (qst_list_by_set bank c s))"
      "R s (snd (set_get_by_code sets c s))"
    and attempt_writes: "mine (a_user_id x) \<Longrightarrow> R s (snd (att_create atts x s))"
      "mine i \<Longrightarrow> R s (snd (att_delete_by_id atts i k s))"
      "mine i \<Longrightarrow> R s (snd (att_delete_all_for_user atts i s))"
    and attempt_ops: "R s (snd (att_list_by_user atts i l o' s))"
      "R s (snd (att_stats_by_topic atts i s))" "R s (snd (att_daily_accuracy atts i k t s))"
      "R s (snd (att_summary_for_user atts i s))" "R s (snd (att_last_question_id_in_set atts i k s))"
      "R s (snd (att_weak_topic_ids atts i t l s))" "R s (snd (att_attempted_question_ids atts i s))"
    and srs_writes: "mine (sr_user_id st) \<Longrightarrow> R s (snd (srs_upsert states st s))"
      "mine i \<Longrightarrow> R s (snd (srs_delete_all_for_user states i s))"
    and srs_own: "srs_get states i k s = (Inr st, s') \<Longrightarrow> sr_user_id st = i"
    and srs_ops: "R s (snd (srs_due_for_user states i t l s))"
      "R s (snd (srs_get states i k s))"
      "R s (snd (srs_count_due_for_user states i t s))"
begin

lemmas quiz_ops = bank_ops attempt_ops srs_ops attempt_writes srs_writes

lemma try_due_frame: "qz_questions z = bank \<Longrightarrow> R s (snd (snd (try_due z n cands ds s)))"
proof (induction n arbitrary: ds s)
  case (Suc n)
  show ?case
    unfolding try_due.simps Let_def Suc.prems by (intro R_rules quiz_ops Suc.IH [OF Suc.prems])
qed (simp add: R_refl)

lemma quiz_frames:
  assumes "qz_questions z = bank" "qz_sets z = sets" "qz_attempts z = atts" "qz_srs z = states"
  shows "R s (snd (next_question z now ds uid c m s))" "mine uid \<Longrightarrow> R s (snd (submit cf z now uid i s))"
    "mine uid \<Longrightarrow> R s (snd (delete_attempt z uid aid s))" "mine uid \<Longrightarrow> R s (snd (delete_all_for_user z uid s))"
    "R s (snd (history z uid limit offset s))"
proof -
  have steps: "R s (snd (last_question z uid s))"
    "R s (snd (snd (srs_due_step z due recent ds s)))" 
    "R s (snd (snd (srs_weak_step z uid all recent now ds s)))"
    "R s (snd (snd (pick_unattempted z uid all ds s)))" for s due recent all ds
    unfolding last_question_def srs_due_step_def srs_weak_step_def pick_unattempted_def pick_due_avoid_def
      pick_weak_topic_avoid_def Let_def assms
    by (intro R_rules quiz_ops try_due_frame [OF assms(1)])+
  have srs: "R s (snd (pick_srs z now ds uid all s))" for s all
    unfolding pick_srs_def Let_def assms by (intro R_rules quiz_ops steps)
  have seq: "R s (snd (pick_sequential z uid c all s))" for s all
    unfolding pick_sequential_def assms by (intro R_rules quiz_ops)
  show "R s (snd (next_question z now ds uid c m s))"
    unfolding next_question_def assms by (intro R_rules quiz_ops seq srs)
  have "R s (snd (submit_set z code s))" for s code
    unfolding submit_set_def assms by (intro R_rules quiz_ops)
  then show "R s (snd (submit cf z now uid i s))" if m: "mine uid"
    unfolding submit_def Let_def assms
    using m
    by (intro R_bind_eq R_sum_eq quiz_ops R_leaf)
      (auto simp: next_state_def Let_def dest: srs_own split: sum.splits if_splits)
  show "R s (snd (delete_attempt z uid aid s))" "R s (snd (delete_all_for_user z uid s))" if "mine uid"
    unfolding delete_attempt_def delete_all_for_user_def assms by (intro R_rules quiz_ops that)+
  show "R s (snd (history z uid limit offset s))"
    unfolding history_def assms by (intro R_rules quiz_ops)
qed

lemma stats_frames:
  assumes "st_attempts z = atts" "st_srs z = states"
  shows "R s (snd (stats_summary_of z now uid s))" "R s (snd (topic_stats_of z uid s))"
    "R s (snd (daily_accuracy_of z now uid days s))"
  unfolding stats_summary_of_def topic_stats_of_def daily_accuracy_of_def assms
  by (intro R_rules quiz_ops)+

end

end
