(* ===== verification/Program.thy ===== *)
theory Program
  imports Frames Learning
begin

text \<open>
  The whole server on one database: the requests of all users, in any order, keep the invariants
  of both halves of the store, and neither half disturbs the other.
\<close>

section \<open>Reads and writes of the repositories\<close>

locale framed_store = framed R for R :: "db \<Rightarrow> db \<Rightarrow> bool" +
  assumes R_same: "same_tables d d' \<Longrightarrow> R d d'"
begin

lemma R_statement: "(\<And>d1. R d1 (snd (body d1))) \<Longrightarrow> R d (snd (statement body d))"
proof -
  assume body: "\<And>d1. R d1 (snd (body d1))"
  obtain f d1 where t: "tick d = (f, d1)" by fastforce
  then have "R d d1" using tick_tables R_same by blast
  then show ?thesis using t body [of d1] R_trans by (cases f) (auto simp: statement_def)
qed

lemma R_query_row: "R d (snd (query_row sel d))"
  unfolding query_row_def by (rule R_statement) (simp add: R_refl)

lemma R_query_rows: "R d (snd (query_rows c i sel d))"
proof -
  have "R s (snd (tick s))" for s using tick_tables [of s "fst (tick s)" "snd (tick s)"] R_same by simp
  then show ?thesis
    unfolding query_rows_def by (intro R_rules R_statement) (simp_all add: R_refl)
qed

lemma R_apfst: "R d (snd p) \<Longrightarrow> R d (snd (apfst f p))"
  by simp

lemmas R_reads = R_query_row R_query_rows R_apfst

lemma quiz_reads:
  "R d (snd (question_get_by_id i d))" "R d (snd (question_list_by_set c d))"
  "R d (snd (question_set_get_by_code c d))" "R d (snd (attempt_list_by_user i l k d))"
  "R d (snd (attempt_stats_by_topic i d))" "R d (snd (attempt_daily_accuracy i l t d))"
  "R d (snd (attempt_summary_for_user i d))" "R d (snd (attempt_last_question_id_in_set i k d))"
  "R d (snd (attempt_weak_topic_ids i t l d))" "R d (snd (attempt_attempted_question_ids i d))"
  "R d (snd (state_due_for_user i t l d))" "R d (snd (state_get i k d))"
  "R d (snd (state_count_due_for_user i t d))" "R d (snd (question_set_list_all d))"
  "R d (snd (topic_list_all d))"
  unfolding question_set_list_all_def topic_list_all_def question_get_by_id_def question_list_by_set_def question_set_get_by_code_def attempt_list_by_user_def
    attempt_stats_by_topic_def attempt_daily_accuracy_def attempt_summary_for_user_def
    attempt_last_question_id_in_set_def attempt_weak_topic_ids_def attempt_attempted_question_ids_def
    state_due_for_user_def state_get_def state_count_due_for_user_def Let_def
  by (intro R_reads R_rules)+

lemma account_reads:
  "R d (snd (user_find_by_username n d))" "R d (snd (user_find_by_id i d))"
  "R d (snd (session_find_by_id k d))" "R d (snd (jwt_is_revoked j d))" "R d (snd (prefs_get i d))"
  unfolding prefs_get_def user_find_by_username_def user_find_by_id_def session_find_by_id_def jwt_is_revoked_def
  by (intro R_reads R_rules)+

end

text \<open>A review that is found belongs to the user it was asked for.\<close>

lemma state_get_own: "state_get i k d = (Inr st, d') \<Longrightarrow> sr_user_id st = i"
  by (auto simp: state_get_def query_row_def statement_def srs_key_def dest!: find_Some_iff_in split: prod.splits option.splits sum.splits if_splits)

text \<open>What the account operations leave alone, and what the quiz operations leave alone.\<close>

definition keeps_quiz :: "db \<Rightarrow> db \<Rightarrow> bool" where
  "keeps_quiz d d' \<longleftrightarrow> topic_rows d' = topic_rows d \<and> questions d' = questions d
     \<and> question_sets d' = question_sets d \<and> members d' = members d \<and> attempts d' = attempts d
     \<and> srs_states d' = srs_states d \<and> u_id ` set (users d) \<subseteq> u_id ` set (users d')"

definition keeps_accounts :: "db \<Rightarrow> db \<Rightarrow> bool" where
  "keeps_accounts d d' \<longleftrightarrow> users d' = users d \<and> sessions d' = sessions d \<and> revocations d' = revocations d
     \<and> prefs d' = prefs d \<and> topic_rows d' = topic_rows d \<and> questions d' = questions d
     \<and> question_sets d' = question_sets d \<and> members d' = members d"

interpretation quiz_kept: framed_store keeps_quiz
  by unfold_locales (auto simp: keeps_quiz_def dest!: same_tablesD)

interpretation accounts_kept: framed_store keeps_accounts
  by unfold_locales (auto simp: keeps_accounts_def dest!: same_tablesD)

lemma update_ids:
  "(\<And>u. u_id (f u) = u_id u) \<Longrightarrow> u_id ` set (map (\<lambda>u. if u_id u = i then f u else u) us) = u_id ` set us"
  by (induction us) simp_all

lemma account_writes_keep_quiz:
  "keeps_quiz d (snd (user_create wall u d))" "keeps_quiz d (snd (user_update_password i h sa pa t d))"
  "keeps_quiz d (snd (session_create wall x d))" "keeps_quiz d (snd (session_touch k t d))"
  "keeps_quiz d (snd (session_delete k d))" "keeps_quiz d (snd (session_delete_all_for_user i d))"
  "keeps_quiz d (snd (session_delete_all_for_user_except i k d))" "keeps_quiz d (snd (session_purge_expired t d))"
  "keeps_quiz d (snd (jwt_revoke wall j i t d))" "keeps_quiz d (snd (jwt_revoke_all_for_user i t d))"
  "keeps_quiz d (snd (jwt_purge_expired t d))" "keeps_quiz d (snd (prefs_upsert p d))"
proof -
  have ins: "keeps_quiz d1 (snd (insert_user v d1))" "keeps_quiz d1 (snd (insert_session w d1))"
    "keeps_quiz d1 (snd (upsert_revocation r d1))" "keeps_quiz d1 (snd (upsert_prefs q d1))" for d1 v w r q
    by (auto simp: insert_user_def insert_session_def upsert_revocation_def upsert_prefs_def keeps_quiz_def Let_def)
  show "keeps_quiz d (snd (user_create wall u d))"
    unfolding user_create_def Let_def by (intro quiz_kept.R_rules quiz_kept.R_statement ins)
  show "keeps_quiz d (snd (user_update_password i h sa pa t d))"
    unfolding user_update_password_def Let_def
    by (intro quiz_kept.R_rules quiz_kept.R_statement) (simp add: keeps_quiz_def update_ids del: set_map)
  show "keeps_quiz d (snd (session_create wall x d))"
    unfolding session_create_def Let_def by (intro quiz_kept.R_rules quiz_kept.R_statement ins)
  show "keeps_quiz d (snd (session_touch k t d))" "keeps_quiz d (snd (session_delete k d))"
    "keeps_quiz d (snd (session_delete_all_for_user i d))"
    "keeps_quiz d (snd (session_delete_all_for_user_except i k d))" "keeps_quiz d (snd (session_purge_expired t d))"
    "keeps_quiz d (snd (jwt_purge_expired t d))"
    unfolding session_touch_def session_delete_def session_delete_all_for_user_def jwt_purge_expired_def
      session_delete_all_for_user_except_def session_purge_expired_def delete_sessions_def Let_def
    by (intro quiz_kept.R_rules quiz_kept.R_statement; simp add: keeps_quiz_def)+
  show "keeps_quiz d (snd (jwt_revoke wall j i t d))" "keeps_quiz d (snd (jwt_revoke_all_for_user i t d))"
    "keeps_quiz d (snd (prefs_upsert p d))"
    unfolding jwt_revoke_def jwt_revoke_all_for_user_def prefs_upsert_def
    by (intro quiz_kept.R_rules quiz_kept.R_statement ins)+
qed

lemma quiz_writes_keep_accounts:
  "keeps_accounts d (snd (attempt_create wall a d))" "keeps_accounts d (snd (attempt_delete_by_id i k d))"
  "keeps_accounts d (snd (attempt_delete_all_for_user i d))" "keeps_accounts d (snd (state_upsert wall s d))"
  "keeps_accounts d (snd (state_delete_all_for_user i d))"
proof -
  have ins: "keeps_accounts d1 (snd (insert_attempt b d1))" "keeps_accounts d1 (snd (upsert_state t d1))" for d1 b t
    by (auto simp: insert_attempt_def upsert_state_def keeps_accounts_def Let_def)
  have del: "keeps_accounts d1 (snd (delete_attempts P d1))" for d1 P
    unfolding delete_attempts_def by (rule accounts_kept.R_statement) (simp add: keeps_accounts_def)
  show "keeps_accounts d (snd (attempt_create wall a d))" "keeps_accounts d (snd (state_upsert wall s d))"
    unfolding attempt_create_def state_upsert_def Let_def
    by (intro accounts_kept.R_rules accounts_kept.R_statement ins)+
  show "keeps_accounts d (snd (attempt_delete_by_id i k d))"
    "keeps_accounts d (snd (attempt_delete_all_for_user i d))"
    unfolding attempt_delete_by_id_def attempt_delete_all_for_user_def
    by (intro accounts_kept.R_rules del)+
  show "keeps_accounts d (snd (state_delete_all_for_user i d))"
    unfolding state_delete_all_for_user_def
    by (intro accounts_kept.R_rules accounts_kept.R_statement; simp add: keeps_accounts_def)
qed

interpretation account_requests: account_frame keeps_quiz "\<lambda>_. True" "sqlite_users wall" "sqlite_sessions wall" "sqlite_jwts wall"
  by unfold_locales (simp_all add: sqlite_users_def sqlite_sessions_def sqlite_jwts_def
      account_writes_keep_quiz quiz_kept.account_reads)

interpretation quiz_requests: quiz_frame keeps_accounts "\<lambda>_. True" sqlite_questions sqlite_sets "sqlite_attempts wall" "sqlite_states wall"
  by unfold_locales (simp_all add: sqlite_questions_def sqlite_sets_def sqlite_attempts_def sqlite_states_def
      quiz_writes_keep_accounts accounts_kept.quiz_reads state_get_own)

section \<open>All requests\<close>

inductive program_step :: "kdf \<Rightarrow> scrypt_params \<Rightarrow> auth_config \<Rightarrow> (int \<Rightarrow> int) \<Rightarrow> db \<Rightarrow> db \<Rightarrow> bool"
  for k :: kdf and p :: scrypt_params and cfg :: auth_config and cf :: "int \<Rightarrow> int" where
  on_account: "account_step k p cfg d d' \<Longrightarrow> program_step k p cfg cf d d'"
| on_next:
    "next_question (new_quiz_service wall) now ds uid c m d = (rq, d') \<Longrightarrow> program_step k p cfg cf d d'"
| on_submit:
    "submit cf (new_quiz_service wall) now uid i d = (rg, d') \<Longrightarrow> program_step k p cfg cf d d'"
| on_delete: "delete_attempt (new_quiz_service wall) uid aid d = (ru, d') \<Longrightarrow> program_step k p cfg cf d d'"
| on_reset: "delete_all_for_user (new_quiz_service wall) uid d = (ru, d') \<Longrightarrow> program_step k p cfg cf d d'"
| on_history: "history (new_quiz_service wall) uid l o' d = (rl, d') \<Longrightarrow> program_step k p cfg cf d d'"
| on_summary: "stats_summary_of (new_stats_service wall) now uid d = (rs, d') \<Longrightarrow> program_step k p cfg cf d d'"
| on_topics: "topic_stats_of (new_stats_service wall) uid d = (rt, d') \<Longrightarrow> program_step k p cfg cf d d'"
| on_sets: "question_set_list_all d = (rss, d') \<Longrightarrow> program_step k p cfg cf d d'"
| on_topic_list: "topic_list_all d = (rtl, d') \<Longrightarrow> program_step k p cfg cf d d'"
| on_question: "question_get_by_id i' d = (rqu, d') \<Longrightarrow> program_step k p cfg cf d d'"
| on_prefs: "prefs_get uid d = (rp, d') \<Longrightarrow> program_step k p cfg cf d d'"
| on_days: "daily_accuracy_of (new_stats_service wall) now uid n d = (rd, d') \<Longrightarrow> program_step k p cfg cf d d'"

lemma account_step_keeps_quiz: "account_step k p cfg d d' \<Longrightarrow> keeps_quiz d d'"
proof (induction rule: account_step.induct)
  case (step_register wall now rand name plain d ru d')
  then show ?case using account_requests.auth_frames(1) [of "new_auth_service k p cfg wall" wall d now rand name plain] by simp
next
  case (step_login wall now r1 r2 name plain ua ip d rx d')
  then show ?case using account_requests.auth_frames(2) [of "new_auth_service k p cfg wall" wall d now r1 r2 name plain ua ip] by simp
next
  case (step_logout wall sid d rn d')
  then show ?case using account_requests.auth_frames(3) [of "new_auth_service k p cfg wall" wall d sid] by simp
next
  case (step_change wall now rand uid cur new keep d rn d')
  then show ?case using account_requests.auth_frames(4) [of "new_auth_service k p cfg wall" wall d now rand uid cur new keep] by simp
next
  case (step_session wall now now' sid d rp d')
  then show ?case using account_requests.auth_frames(5) [of "new_auth_service k p cfg wall" wall d now now' sid] by simp
next
  case (step_verify s iss aud wall now now' tok d ri d')
  then show ?case using account_requests.token_frames(1) [of "new_api_auth_service s iss aud wall" wall d now now' tok] by simp
next
  case (step_revoke s iss aud wall jti uid t d rn d')
  then show ?case using account_requests.token_frames(2) [of "new_api_auth_service s iss aud wall" wall d jti uid t] by simp
next
  case (step_prefs q d rn d')
  then show ?case using account_writes_keep_quiz(12) [of d q] by simp
next
  case (step_purge_sessions now d ri d')
  then show ?case using account_writes_keep_quiz(8) [of d now] by simp
next
  case (step_purge_tokens now d ri d')
  then show ?case using account_writes_keep_quiz(11) [of d now] by simp
qed

text \<open>The constraints on the quiz tables are kept by every operation on them.\<close>

definition keeps_quiz_ok :: "db \<Rightarrow> db \<Rightarrow> bool" where
  "keeps_quiz_ok d d' \<longleftrightarrow> (quiz_ok d \<longrightarrow> quiz_ok d')"

interpretation quiz_ok_kept: framed_store keeps_quiz_ok
  by unfold_locales (auto simp: keeps_quiz_ok_def intro: quiz_ok_same)

lemma delete_attempts_ok: "quiz_ok d \<Longrightarrow> quiz_ok (snd (delete_attempts P d))"
  using delete_attempts_frame [of d P "fst (delete_attempts P d)" "snd (delete_attempts P d)"] by simp

lemma quiz_writes_keep_ok:
  "keeps_quiz_ok d (snd (attempt_create wall a d))" "keeps_quiz_ok d (snd (attempt_delete_by_id i k d))"
  "keeps_quiz_ok d (snd (attempt_delete_all_for_user i d))" "keeps_quiz_ok d (snd (state_upsert wall s d))"
  "keeps_quiz_ok d (snd (state_delete_all_for_user i d))"
proof -
  show "keeps_quiz_ok d (snd (attempt_create wall a d))"
    using attempt_create_frame [of d wall a "fst (attempt_create wall a d)" "snd (attempt_create wall a d)"]
    by (simp add: keeps_quiz_ok_def)
  show "keeps_quiz_ok d (snd (state_upsert wall s d))"
    using state_upsert_frame [of d wall s "fst (state_upsert wall s d)" "snd (state_upsert wall s d)"]
    by (simp add: keeps_quiz_ok_def)
  show "keeps_quiz_ok d (snd (state_delete_all_for_user i d))"
    using state_forget_frame [of d i "fst (state_delete_all_for_user i d)" "snd (state_delete_all_for_user i d)"]
    by (simp add: keeps_quiz_ok_def)
  have del: "keeps_quiz_ok d (snd (delete_attempts P d))" for P
    by (simp add: keeps_quiz_ok_def delete_attempts_ok)
  show "keeps_quiz_ok d (snd (attempt_delete_by_id i k d))"
    "keeps_quiz_ok d (snd (attempt_delete_all_for_user i d))"
    unfolding attempt_delete_by_id_def attempt_delete_all_for_user_def
    by (intro quiz_ok_kept.R_rules del)+
qed

interpretation ok_requests: quiz_frame keeps_quiz_ok "\<lambda>_. True" sqlite_questions sqlite_sets "sqlite_attempts wall" "sqlite_states wall"
  by unfold_locales (simp_all add: sqlite_questions_def sqlite_sets_def sqlite_attempts_def sqlite_states_def
      quiz_writes_keep_ok quiz_ok_kept.quiz_reads state_get_own)

text \<open>One request: the invariants, the accounts and the bank.\<close>

definition program_kept :: "db \<Rightarrow> db \<Rightarrow> bool" where
  "program_kept d d' \<longleftrightarrow> (accounts_ok d \<longrightarrow> accounts_ok d' \<and> u_id ` set (users d) \<subseteq> u_id ` set (users d'))
     \<and> (quiz_ok d \<longrightarrow> quiz_ok d') \<and> questions d' = questions d \<and> (\<lambda>c. set_questions c d') = (\<lambda>c. set_questions c d)"

lemma keeps_quizD:
  "keeps_quiz d d' \<Longrightarrow> (quiz_ok d \<longrightarrow> quiz_ok d') \<and> questions d' = questions d
     \<and> (\<lambda>c. set_questions c d') = (\<lambda>c. set_questions c d) \<and> u_id ` set (users d) \<subseteq> u_id ` set (users d')"
proof -
  assume k: "keeps_quiz d d'"
  then have eqs: "topic_rows d' = topic_rows d" "questions d' = questions d" "question_sets d' = question_sets d"
      "members d' = members d" "attempts d' = attempts d" "srs_states d' = srs_states d"
    and sub: "u_id ` set (users d) \<subseteq> u_id ` set (users d')" by (simp_all add: keeps_quiz_def)
  have "quiz_ok d'" if ok: "quiz_ok d"
  proof -
    have "\<forall>a\<in>set (attempts d). a_user_id a \<in> u_id ` set (users d)"
      "\<forall>s\<in>set (srs_states d). sr_user_id s \<in> u_id ` set (users d)" using ok by (simp_all add: quiz_ok_def)
    then have "\<forall>a\<in>set (attempts d). a_user_id a \<in> u_id ` set (users d')"
      "\<forall>s\<in>set (srs_states d). sr_user_id s \<in> u_id ` set (users d')" using sub by blast+
    then show ?thesis using ok by (simp add: quiz_ok_def eqs)
  qed
  moreover have "(\<lambda>c. set_questions c d') = (\<lambda>c. set_questions c d)"
    by (simp add: set_questions_def set_rows_def eqs cong: if_cong)
  ultimately show ?thesis using eqs(2) sub by simp
qed

lemma quiz_request_kept: "keeps_accounts d d' \<Longrightarrow> keeps_quiz_ok d d' \<Longrightarrow> program_kept d d'"
  by (simp add: program_kept_def keeps_accounts_def keeps_quiz_ok_def accounts_ok_def set_questions_def set_rows_def cong: if_cong)

lemma read_kept:
  "program_kept d (snd (question_set_list_all d))" "program_kept d (snd (topic_list_all d))"
  "program_kept d (snd (question_get_by_id i d))" "program_kept d (snd (prefs_get i d))"
  by (intro quiz_request_kept accounts_kept.quiz_reads quiz_ok_kept.quiz_reads accounts_kept.account_reads
      quiz_ok_kept.account_reads)+

lemma program_step_kept:
  assumes "program_step k p cfg cf d d'"
  shows "program_kept d d'"
  using assms
proof cases
  case on_account
  with account_step_ok [OF on_account] keeps_quizD [OF account_step_keeps_quiz [OF on_account]]
  show ?thesis by (simp add: program_kept_def)
next
  case (on_next wall now ds uid c m rq)
  then show ?thesis
    using quiz_request_kept [OF quiz_requests.quiz_frames(1) ok_requests.quiz_frames(1),
        OF new_quiz_service_ports new_quiz_service_ports, of d wall now ds uid c m] by simp
next
  case (on_submit wall now uid i rg)
  then show ?thesis
    using quiz_request_kept [OF quiz_requests.quiz_frames(2) ok_requests.quiz_frames(2),
        OF new_quiz_service_ports TrueI new_quiz_service_ports TrueI, of d cf wall now uid i] by simp
next
  case (on_delete wall uid aid ru)
  then show ?thesis
    using quiz_request_kept [OF quiz_requests.quiz_frames(3) ok_requests.quiz_frames(3),
        OF new_quiz_service_ports TrueI new_quiz_service_ports TrueI, of d wall uid aid] by simp
next
  case (on_reset wall uid ru)
  then show ?thesis
    using quiz_request_kept [OF quiz_requests.quiz_frames(4) ok_requests.quiz_frames(4),
        OF new_quiz_service_ports TrueI new_quiz_service_ports TrueI, of d wall uid] by simp
next
  case (on_history wall uid l o' rl)
  then show ?thesis
    using quiz_request_kept [OF quiz_requests.quiz_frames(5) ok_requests.quiz_frames(5),
        OF new_quiz_service_ports new_quiz_service_ports, of d wall uid l o'] by simp
next
  case (on_summary wall now uid rs)
  then show ?thesis
    using quiz_request_kept [OF quiz_requests.stats_frames(1) ok_requests.stats_frames(1),
        OF new_quiz_service_simps(5,6) new_quiz_service_simps(5,6), of d wall now uid] by simp
next
  case (on_topics wall uid rt)
  then show ?thesis
    using quiz_request_kept [OF quiz_requests.stats_frames(2) ok_requests.stats_frames(2),
        OF new_quiz_service_simps(5,6) new_quiz_service_simps(5,6), of d wall uid] by simp
next
  case (on_sets rss)
  then show ?thesis using read_kept(1) [of d] by simp
next
  case (on_topic_list rtl)
  then show ?thesis using read_kept(2) [of d] by simp
next
  case (on_question i' rqu)
  then show ?thesis using read_kept(3) [of d i'] by simp
next
  case (on_prefs uid rp)
  then show ?thesis using read_kept(4) [of d uid] by simp
next
  case (on_days wall now uid n rd)
  then show ?thesis
    using quiz_request_kept [OF quiz_requests.stats_frames(3) ok_requests.stats_frames(3),
        OF new_quiz_service_simps(5,6) new_quiz_service_simps(5,6), of d wall now uid n] by simp
qed

lemma program_steps_kept: "(program_step k p cfg cf)\<^sup>*\<^sup>* d d' \<Longrightarrow> program_kept d d'"
proof (induction rule: rtranclp_induct)
  case (step d1 d2)
  with program_step_kept [OF step(2)] show ?case by (auto simp: program_kept_def)
qed (simp add: program_kept_def)

text \<open>
  Whatever requests arrive, in whatever order and whichever of them fail on the way: from a
  store that obeys the constraints of its schema (unique names, ids and memberships, no row that
  refers to a missing one) only such stores are reached, no account disappears, and the question
  bank stays the same.
\<close>

theorem program_invariant:
  assumes "(program_step k p cfg cf)\<^sup>*\<^sup>* d d'" "accounts_ok d" "quiz_ok d"
  shows "accounts_ok d' \<and> quiz_ok d' \<and> u_id ` set (users d) \<subseteq> u_id ` set (users d')
    \<and> questions d' = questions d \<and> set_questions c d' = set_questions c d"
proof -
  have "program_kept d d'" using assms(1) by (rule program_steps_kept)
  with assms(2,3) show ?thesis by (auto simp: program_kept_def fun_eq_iff)
qed

lemma study_accounts_ok: "accounts_ok study_db"
  by (simp add: accounts_ok_def study_db_def demo_db_def empty_db_def)

theorem program_invariant_witness:
  "\<exists>d'. (program_step demo_kdf default_params default_auth_config (\<lambda>c. c))\<^sup>*\<^sup>* study_db d'
     \<and> length (attempts d') = 1 \<and> quiz_ok d' \<and> accounts_ok d'"
proof -
  obtain g d' where s: "submit (\<lambda>c. c) demo_quiz second 1 (demo_input 1) study_db = (Inr g, d')"
    by (rule demo_submit)
  have "program_step demo_kdf default_params default_auth_config (\<lambda>c. c) study_db d'" using s by (rule on_submit)
  then have r: "(program_step demo_kdf default_params default_auth_config (\<lambda>c. c))\<^sup>*\<^sup>* study_db d'" by blast
  have "attempts d' = attempts study_db @ [stored_attempt (ga_attempt g)]"
    by (rule sqlite_quiz_store.submit_done [OF study_db_ok demo_time(2) new_quiz_service_ports s]) simp
  with r program_invariant [OF r study_accounts_ok study_db_ok] show ?thesis by (auto simp: study_db_tables)
qed

end
