(* ===== verification/Api.thy ===== *)
theory Api
  imports Middleware Calendar Quiz
begin

text \<open>
  \<^verbatim>\<open>internal/transport/api\<close>: the JSON interface under \<^verbatim>\<open>/api/v1\<close>, authenticated by a bearer token.
\<close>

section \<open>Values as JSON\<close>

text \<open>
  \<^verbatim>\<open>encoding/json\<close> writes a float with the fewest digits that read back as the same float; from
  \<open>10^-6\<close> on, which a rate of fewer than a million attempts exceeds, without an exponent.
\<close>

fun places :: "nat \<Rightarrow> nat \<Rightarrow> float64 \<Rightarrow> nat" where
  "places 0 p x = p"
| "places (Suc n) p x = (if rnd (of_int (rhe (x * 10 ^ p)) / 10 ^ p) = x then p else places n (p + 1) x)"

fun pad_digits :: "nat \<Rightarrow> int \<Rightarrow> string" where
  "pad_digits 0 n = []"
| "pad_digits (Suc k) n = digit (n div 10 ^ k) # pad_digits k (n mod 10 ^ k)"

definition float_text :: "float64 \<Rightarrow> string" where
  "float_text x =
     (let p = places 25 0 x; n = rhe (x * 10 ^ p)
      in itoa (n div 10 ^ p) @ (if p = 0 then [] else CHR ''.'' # pad_digits p (n mod 10 ^ p)))"

definition question_json :: "question \<Rightarrow> json option" where
  "question_json q = map_option (\<lambda>t. JObj [(''ID'', JNum (itoa (q_id q))), (''Code'', JStr (q_code q)),
     (''TopicID'', JNum (itoa (q_topic_id q))), (''QuestionType'', JStr (q_type q)),
     (''Difficulty'', JNum (itoa (q_difficulty q))), (''Prompt'', JStr (q_prompt q)),
     (''PayloadJSON'', JStr (q_payload_json q)), (''AnswerJSON'', JStr (q_answer_json q)),
     (''Explanation'', JStr (q_explanation q)), (''ReferencesJSON'', JStr (q_references_json q)),
     (''CreatedAt'', JStr t)]) (rfc3339 (q_created_at q))"

definition attempt_json :: "attempt \<Rightarrow> json option" where
  "attempt_json a = map_option (\<lambda>t. JObj [(''ID'', JNum (itoa (a_id a))), (''UserID'', JNum (itoa (a_user_id a))),
     (''QuestionID'', JNum (itoa (a_question_id a))),
     (''SetID'', (case a_set_id a of None \<Rightarrow> JNull | Some i \<Rightarrow> JNum (itoa i))),
     (''IsCorrect'', JBool (a_is_correct a)), (''DurationMs'', JNum (itoa (a_duration_ms a))),
     (''SubmittedAnswerJSON'', JStr (a_submitted_json a)), (''AnsweredAt'', JStr t)]) (rfc3339 (a_answered_at a))"

definition graded_json :: "graded_attempt \<Rightarrow> json option" where
  "graded_json g =
     (case (attempt_json (ga_attempt g), rfc3339 (ga_next_due_at g)) of
        (Some a, Some t) \<Rightarrow>
          Some (JObj [(''Attempt'', a), (''Explanation'', JStr (ga_explanation g)), (''NextDueAt'', JStr t)])
      | _ \<Rightarrow> None)"

definition attempts_json :: "attempt list \<Rightarrow> json option" where
  "attempts_json as =
     (if None \<in> attempt_json ` set as then None
      else Some (JArr (map (the \<circ> attempt_json) as)))"

definition summary_json :: "stats_summary \<Rightarrow> json" where
  "summary_json x = JObj [(''TotalAttempts'', JNum (itoa (ss_total_attempts x))),
     (''TotalCorrect'', JNum (itoa (ss_total_correct x))), (''OverallRate'', JNum (float_text (ss_overall_rate x))),
     (''DueCount'', JNum (itoa (ss_due_count x)))]"

definition error_json :: "string \<Rightarrow> json" where
  "error_json code = JObj [(''error'', JStr code)]"

section \<open>Configuration\<close>

record 's api_config =
  apc_auth :: "'s auth_port"
  apc_api :: "'s api_auth_port"
  apc_quiz :: "'s quiz_port"
  apc_stats :: "'s stats_port"
  apc_token_ttl :: duration
  apc_user_limit :: "'s rate_limiter option"

text \<open>A value that cannot be encoded leaves the body empty; the status is out by then.\<close>

definition write_json :: "int \<Rightarrow> json option \<Rightarrow> writer \<Rightarrow> 'p outcome" where
  "write_json status j w =
     reply status (case j of None \<Rightarrow> NoBody | Some v \<Rightarrow> JsonBody v)
       (set_header ''Content-Type'' ''application/json; charset=utf-8'' w)"

definition write_error :: "int \<Rightarrow> string \<Rightarrow> writer \<Rightarrow> 'p outcome" where
  "write_error status code = write_json status (Some (error_json code))"

definition api_client_ip :: "request \<Rightarrow> string" where
  "api_client_ip r =
     (if rq_header r ''X-Forwarded-For'' \<noteq> [] then forwarded_for (rq_header r ''X-Forwarded-For'')
      else let i = last_index_byte (rq_remote_addr r) (CHR '':'') in
        if 0 < i then take (nat i) (rq_remote_addr r) else rq_remote_addr r)"

text \<open>\<^verbatim>\<open>Decoder.Decode\<close> reads the first value of the body and ignores what follows it.\<close>

definition decode_body :: "(string \<times> (json \<Rightarrow> 'r \<Rightarrow> 'r option)) list \<Rightarrow> 'r \<Rightarrow> request \<Rightarrow> 'r res" where
  "decode_body fs zero r =
     (let s = readable_body r in
      case read_value (2 * length s + 1) s of
        None \<Rightarrow> Inl err_json
      | Some (v, _) \<Rightarrow> (case decode_struct fs v zero of None \<Rightarrow> Inl err_json | Some x \<Rightarrow> Inr x))"

section \<open>Tokens\<close>

record login_req =
  lr_username :: string
  lr_password :: string

definition login_fields :: "(string \<times> (json \<Rightarrow> login_req \<Rightarrow> login_req option)) list" where
  "login_fields = [(''username'', string_field (\<lambda>s x. x\<lparr>lr_username := s\<rparr>)),
     (''password'', string_field (\<lambda>s x. x\<lparr>lr_password := s\<rparr>))]"

definition login_json :: "string \<Rightarrow> time \<Rightarrow> json option" where
  "login_json tok t = map_option (\<lambda>e. JObj [(''token'', JStr tok), (''expires_at'', JStr e)]) (rfc3339 t)"

definition ttl_or_hour :: "duration \<Rightarrow> duration" where
  "ttl_or_hour d = (if d \<le> 0 then 3600 * second else d)"

definition api_login :: "'s api_config \<Rightarrow> ('p, 's) handler" where
  "api_login c mo r w s =
     (case decode_body login_fields \<lparr>lr_username = [], lr_password = []\<rparr> r of
        Inl _ \<Rightarrow> (write_error 400 ''bad_request'' w, s)
      | Inr i \<Rightarrow>
          (case ath_login (apc_auth c) mo (lr_username i) (lr_password i) (rq_header r ''User-Agent'')
                  (api_client_ip r) s of
             (Inl _, s1) \<Rightarrow> (write_error 401 ''unauthorized'' w, s1)
           | (Inr x, s1) \<Rightarrow>
               (case aat_issue_token (apc_api c) (later mo) (s_user_id x) (ttl_or_hour (apc_token_ttl c)) s1 of
                  (Inl _, s2) \<Rightarrow> (write_error 500 ''internal'' w, s2)
                | (Inr (tok, _, t), s2) \<Rightarrow>
                    (case ath_logout (apc_auth c) (later (later mo)) (s_id x) s2 of
                       (_, s3) \<Rightarrow> (write_json 200 (login_json tok t) w, s3)))))"

definition api_logout :: "'s api_config \<Rightarrow> ('p, 's) handler" where
  "api_logout c mo r w s =
     (let field = rq_header r ''Authorization''; tok = trim_prefix field ''Bearer '';
          done_reply = write_json 200 (Some (JObj [(''ok'', JBool True)])) w
      in if \<not> has_prefix field ''Bearer '' then (done_reply, s)
         else (case aat_extract_jti (apc_api c) mo tok s of
             (Inl _, s1) \<Rightarrow> (done_reply, s1)
           | (Inr (jti, t), s1) \<Rightarrow>
               (case aat_verify_token (apc_api c) (later mo) tok s1 of
                  (ru, s2) \<Rightarrow>
                    let uid = (case ru of Inl _ \<Rightarrow> 0 | Inr i \<Rightarrow> i) in
                    (case aat_revoke (apc_api c) (later (later mo)) jti uid t s2 of
                       (_, s3) \<Rightarrow> (done_reply, s3)))))"

section \<open>The quiz\<close>

definition api_next :: "'s api_config \<Rightarrow> ('p, 's) handler" where
  "api_next c mo r w s =
     (let set_code = (if rq_query r ''set'' = [] then set_code_core else rq_query r ''set'');
          mode = (if rq_query r ''mode'' = [] then ''srs'' else rq_query r ''mode'')
      in case qzp_next_question (apc_quiz c) mo (cx_jwt_user_id (rq_ctx r)) set_code mode s of
        (Inl _, s1) \<Rightarrow> (write_error 404 ''not_found'' w, s1)
      | (Inr q, s1) \<Rightarrow> (write_json 200 (map_option (\<lambda>j. JObj [(''question'', j)]) (question_json q)) w, s1))"

text \<open>
  The body of an answer is decoded straight into the submission it stands for; an absent or null
  side of the answer is a nil slice.
\<close>

definition side_field ::
    "(journal_entry list \<Rightarrow> answer_payload \<Rightarrow> answer_payload) \<Rightarrow> (bool \<Rightarrow> submit_input \<Rightarrow> submit_input)
     \<Rightarrow> json \<Rightarrow> submit_input \<Rightarrow> submit_input option" where
  "side_field put flag v i =
     map_option (\<lambda>j. flag (v = JNull) j)
       (list_field read_entry (\<lambda>es j. j\<lparr>si_answer := put es (si_answer j)\<rparr>) v i)"

definition answer_req_fields :: "(string \<times> (json \<Rightarrow> submit_input \<Rightarrow> submit_input option)) list" where
  "answer_req_fields =
     [(''question_id'', int_field (\<lambda>n i. i\<lparr>si_question_id := n\<rparr>)),
      (''set_code'', string_field (\<lambda>s i. i\<lparr>si_set_code := s\<rparr>)),
      (''duration_ms'', int_field (\<lambda>n i. i\<lparr>si_duration_ms := n\<rparr>)),
      (''answer'', decode_struct
         [(''Type'', string_field (\<lambda>s i. i\<lparr>si_answer := (si_answer i)\<lparr>ans_type := s\<rparr>\<rparr>)),
          (''Debits'', side_field (\<lambda>es a. a\<lparr>ans_debits := es\<rparr>) (\<lambda>b i. i\<lparr>si_debits_nil := b\<rparr>)),
          (''Credits'', side_field (\<lambda>es a. a\<lparr>ans_credits := es\<rparr>) (\<lambda>b i. i\<lparr>si_credits_nil := b\<rparr>)),
          (''Choice'', string_field (\<lambda>s i. i\<lparr>si_answer := (si_answer i)\<lparr>ans_choice := s\<rparr>\<rparr>)),
          (''Text'', string_field (\<lambda>s i. i\<lparr>si_answer := (si_answer i)\<lparr>ans_text := s\<rparr>\<rparr>))])]"

definition empty_submit :: submit_input where
  "empty_submit = \<lparr>si_question_id = 0, si_set_code = [], si_answer = empty_answer, si_debits_nil = True,
     si_credits_nil = True, si_duration_ms = 0\<rparr>"

definition api_answer :: "'s api_config \<Rightarrow> ('p, 's) handler" where
  "api_answer c mo r w s =
     (case decode_body answer_req_fields empty_submit r of
        Inl _ \<Rightarrow> (write_error 400 ''bad_request'' w, s)
      | Inr i \<Rightarrow>
          (case qzp_submit (apc_quiz c) mo (cx_jwt_user_id (rq_ctx r)) i s of
             (Inl e, s1) \<Rightarrow>
               (if errors_is e ErrNotFound then write_error 404 ''not_found'' w
                else write_error 500 ''internal'' w, s1)
           | (Inr g, s1) \<Rightarrow> (write_json 200 (graded_json g) w, s1)))"

definition api_history :: "'s api_config \<Rightarrow> ('p, 's) handler" where
  "api_history c mo r w s =
     (let limit = fst (parse_int (rq_query r ''limit'')); offset = fst (parse_int (rq_query r ''offset'')) in
      case qzp_history (apc_quiz c) mo (cx_jwt_user_id (rq_ctx r)) limit offset s of
        (Inl _, s1) \<Rightarrow> (write_error 500 ''internal'' w, s1)
      | (Inr xs, s1) \<Rightarrow>
          (write_json 200 (map_option (\<lambda>j. JObj [(''attempts'', j)]) (attempts_json xs)) w, s1))"

definition api_delete_attempt :: "'s api_config \<Rightarrow> ('p, 's) handler" where
  "api_delete_attempt c mo r w s =
     (case parse_int (rq_path_value r ''id'') of
        (_, Some _) \<Rightarrow> (write_error 400 ''bad_id'' w, s)
      | (i, None) \<Rightarrow>
          (case qzp_delete_attempt (apc_quiz c) mo (cx_jwt_user_id (rq_ctx r)) i s of
             (Inl _, s1) \<Rightarrow> (write_error 404 ''not_found'' w, s1)
           | (Inr _, s1) \<Rightarrow> (reply 204 NoBody w, s1)))"

definition api_summary :: "'s api_config \<Rightarrow> ('p, 's) handler" where
  "api_summary c mo r w s =
     (case stp_summary (apc_stats c) mo (cx_jwt_user_id (rq_ctx r)) s of
        (Inl _, s1) \<Rightarrow> (write_error 500 ''internal'' w, s1)
      | (Inr x, s1) \<Rightarrow> (write_json 200 (Some (summary_json x)) w, s1))"

section \<open>Authentication\<close>

definition limit_user :: "'s rate_limiter \<Rightarrow> ('p, 's) middleware" where
  "limit_user rl next mo r w s =
     (case rl_allow rl mo (itoa (cx_jwt_user_id (rq_ctx r))) s of
        (False, s1) \<Rightarrow> (write_error 429 ''rate_limited'' w, s1)
      | (True, s1) \<Rightarrow> next (later mo) r w s1)"

definition api_authed :: "'s api_config \<Rightarrow> ('p, 's) middleware" where
  "api_authed c inner =
     jwt_bearer (apc_api c) (case apc_user_limit c of None \<Rightarrow> inner | Some rl \<Rightarrow> limit_user rl inner)"

end
