(* ===== verification/Server.thy ===== *)
theory Server
  imports Web Api SignIn Study Ratelimit
begin

text \<open>
  \<^verbatim>\<open>cmd/boki3-quiz/main.go\<close>: the settings read from the environment, the services and limiters
  wired to the handlers, the routes and the chain of middleware around them.  The state of the
  server is the database and the memory of the three limiters.
\<close>

section \<open>Settings\<close>

type_synonym env = "string \<Rightarrow> string"

definition env_or :: "env \<Rightarrow> string \<Rightarrow> string \<Rightarrow> string" where
  "env_or env key dflt = (if env key \<noteq> [] then env key else dflt)"

definition env_int :: "env \<Rightarrow> string \<Rightarrow> int \<Rightarrow> int" where
  "env_int env key dflt =
     (if env key \<noteq> [] then (case atoi (env key) of Inr n \<Rightarrow> n | Inl _ \<Rightarrow> dflt) else dflt)"

text \<open>
  \<^verbatim>\<open>strings.ToLower\<close> on ASCII letters; no other letter becomes one of those of the words it is
  compared with.
\<close>

definition lower_ascii :: "string \<Rightarrow> string" where
  "lower_ascii s = map (\<lambda>c. if 0x41 \<le> byte c \<and> byte c \<le> 0x5A then chr (byte c + 0x20) else c) s"

definition env_bool :: "env \<Rightarrow> string \<Rightarrow> bool \<Rightarrow> bool" where
  "env_bool env key dflt =
     (let v = lower_ascii (env key) in
      if v \<in> {''1'', ''true'', ''yes''} then True
      else if v \<in> {''0'', ''false'', ''no''} then False
      else dflt)"

definition split_env :: "env \<Rightarrow> string \<Rightarrow> string list" where
  "split_env env key =
     (if env key = [] then []
      else filter (\<lambda>p. p \<noteq> []) (map trim_space (split_at CHR '','' (env key))))"

definition hasher_params :: "string \<Rightarrow> scrypt_params" where
  "hasher_params n_str =
     (if n_str = [] then default_params
      else case atoi n_str of
        Inl _ \<Rightarrow> default_params
      | Inr n \<Rightarrow> if 1024 \<le> n then default_params\<lparr>sp_n := n\<rparr> else default_params)"

definition err_secret_hex :: gerror where
  "err_secret_hex = ErrText ''BOKI3_JWT_SECRET must be hex-encoded''"

definition err_secret_short :: gerror where
  "err_secret_short = ErrText ''BOKI3_JWT_SECRET must be >= 32 bytes''"

definition err_secret_unset :: gerror where
  "err_secret_unset =
     ErrText ''BOKI3_JWT_SECRET must be set in production (generate with: openssl rand -hex 32)''"

definition load_jwt_secret :: "(int \<Rightarrow> int) \<Rightarrow> env \<Rightarrow> (int \<Rightarrow> string res) \<Rightarrow> string \<Rightarrow> string res" where
  "load_jwt_secret cf env rand v =
     (if v \<noteq> [] then
        (case hex_decode v of
           Inl _ \<Rightarrow> Inl err_secret_hex
         | Inr b \<Rightarrow> if length b < 32 then Inl err_secret_short else Inr b)
      else if equal_fold cf (env ''BOKI3_ENV'') ''production'' then Inl err_secret_unset
      else rand 32)"

section \<open>The state\<close>

record world =
  wd_db :: db
  wd_global :: sliding_window
  wd_login :: fixed_window
  wd_api :: token_bucket

definition new_world :: "env \<Rightarrow> db \<Rightarrow> world" where
  "new_world env d = \<lparr>wd_db = d,
     wd_global = new_sliding_window (env_int env ''BOKI3_RL_GLOBAL_MAX'' 120) (60 * second),
     wd_login = new_fixed_window (env_int env ''BOKI3_RL_LOGIN_MAX'' 5) (10 * 60 * second),
     wd_api = new_token_bucket (float_of_int (env_int env ''BOKI3_RL_API_BURST'' 60)) 1\<rparr>"

definition on_db :: "(db \<Rightarrow> 'a \<times> db) \<Rightarrow> world \<Rightarrow> 'a \<times> world" where
  "on_db f wd = (case f (wd_db wd) of (x, d) \<Rightarrow> (x, wd\<lparr>wd_db := d\<rparr>))"

definition global_limiter :: "world rate_limiter" where
  "global_limiter = \<lparr>rl_allow = \<lambda>mo key wd.
     (case sw_allow (wd_global wd) (mo_now mo 0) key of (b, l) \<Rightarrow> (b, wd\<lparr>wd_global := l\<rparr>))\<rparr>"

definition login_limiter :: "world rate_limiter" where
  "login_limiter = \<lparr>rl_allow = \<lambda>mo key wd.
     (case fw_allow (wd_login wd) (mo_now mo 0) key of (b, l) \<Rightarrow> (b, wd\<lparr>wd_login := l\<rparr>))\<rparr>"

definition api_limiter :: "world rate_limiter" where
  "api_limiter = \<lparr>rl_allow = \<lambda>mo key wd.
     (case tb_allow (wd_api wd) (mo_now mo 0) key of (b, l) \<Rightarrow> (b, wd\<lparr>wd_api := l\<rparr>))\<rparr>"

section \<open>The services\<close>

text \<open>
  What does not change while the server runs.  The key derivation and the table of case folding
  are parameters; static files and the version are fixed when the program is built.
\<close>

record server =
  sv_kdf :: kdf
  sv_fold :: "int \<Rightarrow> int"
  sv_params :: scrypt_params
  sv_signer :: hs256_signer
  sv_secret :: string
  sv_cookie :: cookie_config
  sv_origins :: "string list"
  sv_topics :: "int \<Rightarrow> string option"
  sv_static :: "request \<Rightarrow> writer \<Rightarrow> page outcome"
  sv_version :: string

definition auth_of :: "server \<Rightarrow> moment \<Rightarrow> db auth_service" where
  "auth_of sv mo = new_auth_service (sv_kdf sv) (sv_params sv) default_auth_config (mo_wall mo 0)"

definition api_auth_of :: "server \<Rightarrow> moment \<Rightarrow> db api_auth_service" where
  "api_auth_of sv mo = new_api_auth_service (sv_signer sv) ''boki3-quiz'' ''api'' (mo_wall mo 0)"

definition server_auth :: "server \<Rightarrow> world auth_port" where
  "server_auth sv =
     \<lparr>ath_register = \<lambda>mo name pwd.
        on_db (register (auth_of sv mo) (mo_now mo 0) (mo_rand mo 0) name pwd),
      ath_login = \<lambda>mo name pwd ua ip.
        on_db (login (auth_of sv mo) (mo_now mo 0) (mo_rand mo 0) (mo_rand mo 1) name pwd ua ip),
      ath_logout = \<lambda>mo sid. on_db (logout (auth_of sv mo) sid),
      ath_change_password = \<lambda>mo uid cur new keep.
        on_db (change_password (auth_of sv mo) (mo_now mo 0) (mo_rand mo 0) uid cur new keep),
      ath_session_by_id = \<lambda>mo sid. on_db (session_by_id (auth_of sv mo) (mo_now mo 0) (mo_now mo 1) sid)\<rparr>"

definition server_api_auth :: "server \<Rightarrow> world api_auth_port" where
  "server_api_auth sv =
     \<lparr>aat_issue_token = \<lambda>mo uid ttl wd.
        (issue_token (api_auth_of sv mo) (mo_now mo 0) (mo_rand mo 0) uid ttl, wd),
      aat_verify_token = \<lambda>mo tok. on_db (verify_token (api_auth_of sv mo) (mo_now mo 0) (mo_now mo 1) tok),
      aat_extract_jti = \<lambda>mo tok wd. (extract_jti (api_auth_of sv mo) (mo_now mo 0) tok, wd),
      aat_revoke = \<lambda>mo jti uid t. on_db (revoke_token (api_auth_of sv mo) jti uid t)\<rparr>"

definition server_quiz :: "server \<Rightarrow> world quiz_port" where
  "server_quiz sv =
     \<lparr>qzp_next_question = \<lambda>mo uid c m.
        on_db (next_question (new_quiz_service (mo_wall mo 0)) (mo_now mo 0) (mo_draws mo 0) uid c m),
      qzp_submit = \<lambda>mo uid i.
        on_db (submit (sv_fold sv) (new_quiz_service (mo_wall mo 0)) (mo_now mo 0) uid i),
      qzp_delete_attempt = \<lambda>mo uid i. on_db (delete_attempt (new_quiz_service (mo_wall mo 0)) uid i),
      qzp_delete_all_for_user = \<lambda>mo uid. on_db (delete_all_for_user (new_quiz_service (mo_wall mo 0)) uid),
      qzp_history = \<lambda>mo uid l k. on_db (history (new_quiz_service (mo_wall mo 0)) uid l k)\<rparr>"

definition server_stats :: "world stats_port" where
  "server_stats =
     \<lparr>stp_summary = \<lambda>mo uid.
        on_db (stats_summary_of (new_stats_service (mo_wall mo 0)) (mo_now mo 0) uid),
      stp_topic_stats = \<lambda>mo uid. on_db (topic_stats_of (new_stats_service (mo_wall mo 0)) uid),
      stp_daily_accuracy = \<lambda>mo uid n.
        on_db (daily_accuracy_of (new_stats_service (mo_wall mo 0)) (mo_now mo 0) uid n)\<rparr>"

definition server_sets :: "world set_port" where
  "server_sets = \<lparr>set_get_by_code = \<lambda>c. on_db (set_get_by_code sqlite_sets c),
     set_list_all = on_db (set_list_all sqlite_sets)\<rparr>"

definition server_prefs :: "world user_prefs_port" where
  "server_prefs = \<lparr>prf_get = \<lambda>uid. on_db (prf_get sqlite_prefs uid),
     prf_upsert = \<lambda>p. on_db (prf_upsert sqlite_prefs p)\<rparr>"

definition server_questions :: "world question_port" where
  "server_questions = \<lparr>qst_get_by_id = \<lambda>i. on_db (qst_get_by_id sqlite_questions i),
     qst_get_by_code = \<lambda>c. on_db (qst_get_by_code sqlite_questions c),
     qst_list_by_set = \<lambda>c. on_db (qst_list_by_set sqlite_questions c),
     qst_search = \<lambda>f. on_db (qst_search sqlite_questions f)\<rparr>"

definition server_topics :: "world topic_port" where
  "server_topics = \<lparr>tpc_list_all = on_db (tpc_list_all sqlite_topics)\<rparr>"

definition server_web_config :: "server \<Rightarrow> world web_config" where
  "server_web_config sv = \<lparr>wc_auth = server_auth sv, wc_quiz = server_quiz sv, wc_stats = server_stats,
     wc_sets = server_sets, wc_prefs = server_prefs, wc_questions = server_questions,
     wc_topics = Some server_topics, wc_login_limit = Some login_limiter, wc_cookie = sv_cookie sv,
     wc_started_at_secret = sv_secret sv\<rparr>"

definition server_web :: "server \<Rightarrow> world web_handler" where
  "server_web sv = \<lparr>wh_cfg = server_web_config sv, wh_topic_name_of = sv_topics sv\<rparr>"

definition server_api :: "server \<Rightarrow> world api_config" where
  "server_api sv = \<lparr>apc_auth = server_auth sv, apc_api = server_api_auth sv, apc_quiz = server_quiz sv,
     apc_stats = server_stats, apc_token_ttl = 3600 * second, apc_user_limit = Some api_limiter\<rparr>"

section \<open>Routes\<close>

text \<open>
  A pattern of \<^verbatim>\<open>http.ServeMux\<close> as the program uses it: a method and the segments of a path, of
  which one may be a wildcard, or everything below a prefix.  The path of a request is taken to
  be clean; the mux redirects others before a handler sees them.
\<close>

datatype segment = Lit string | Wild string
datatype pattern = Path "segment list" | Below string

type_synonym 's route = "string \<times> pattern \<times> (page, 's) handler"

fun match_segments :: "segment list \<Rightarrow> string list \<Rightarrow> (string \<times> string) list option" where
  "match_segments [] [] = Some []"
| "match_segments (Lit a # ps) (b # bs) = (if a = b then match_segments ps bs else None)"
| "match_segments (Wild n # ps) (b # bs) =
     (if b = [] then None else map_option (\<lambda>bd. (n, b) # bd) (match_segments ps bs))"
| "match_segments _ _ = None"

definition path_segments :: "string \<Rightarrow> string list" where
  "path_segments p = split_at CHR ''/'' (drop 1 p)"

definition match_pattern :: "pattern \<Rightarrow> string \<Rightarrow> (string \<times> string) list option" where
  "match_pattern pat path =
     (case pat of
        Path ps \<Rightarrow> match_segments ps (path_segments path)
      | Below pre \<Rightarrow> if has_prefix path pre then Some [] else None)"

definition method_matches :: "string \<Rightarrow> string \<Rightarrow> bool" where
  "method_matches m method \<longleftrightarrow> method = m \<or> m = ''GET'' \<and> method = ''HEAD''"

definition bind_path :: "(string \<times> string) list \<Rightarrow> request \<Rightarrow> request" where
  "bind_path bd r = r\<lparr>rq_path_value := (\<lambda>n. case map_of bd n of None \<Rightarrow> [] | Some v \<Rightarrow> v)\<rparr>"

text \<open>No route: 405 with the methods the path has routes for, 404 otherwise.\<close>

fun allowed_methods :: "'s route list \<Rightarrow> string \<Rightarrow> string list" where
  "allowed_methods [] path = []"
| "allowed_methods ((m, pat, h) # rs) path =
     (if match_pattern pat path = None then [] else if m = ''GET'' then [m, ''HEAD''] else [m])
     @ allowed_methods rs path"

definition no_route :: "'s route list \<Rightarrow> (page, 's) handler" where
  "no_route rs mo r w s =
     (let ms = allowed_methods rs (rq_path r) in
      if ms = [] then (http_error ''404 page not found'' 404 w, s)
      else (http_error ''Method Not Allowed'' 405 (set_header ''Allow'' (join '', '' (sort (remdups ms))) w), s))"

fun pick_route :: "'s route list \<Rightarrow> request \<Rightarrow> ((string \<times> string) list \<times> (page, 's) handler) option" where
  "pick_route [] r = None"
| "pick_route ((m, pat, h) # rs) r =
     (if method_matches m (rq_method r) then
        (case match_pattern pat (rq_path r) of Some bd \<Rightarrow> Some (bd, h) | None \<Rightarrow> pick_route rs r)
      else pick_route rs r)"

definition mux :: "'s route list \<Rightarrow> (page, 's) handler" where
  "mux rs mo r w s =
     (case pick_route rs r of
        None \<Rightarrow> no_route rs mo r w s
      | Some (bd, h) \<Rightarrow> h mo (bind_path bd r) w s)"

definition web_routes :: "'s web_handler \<Rightarrow> 's route list" where
  "web_routes h =
     [(''GET'', Path [Lit []], home h),
      (''GET'', Path [Lit ''login''], get_login h),
      (''POST'', Path [Lit ''login''], post_login h),
      (''GET'', Path [Lit ''register''], get_register h),
      (''POST'', Path [Lit ''register''], post_register h),
      (''GET'', Path [Lit ''quiz''], web_authed h (get_quiz h)),
      (''POST'', Path [Lit ''quiz'', Lit ''answer''], web_authed h (post_quiz_answer h)),
      (''GET'', Path [Lit ''progress''], web_authed h (get_progress h)),
      (''GET'', Path [Lit ''history''], web_authed h (get_history h)),
      (''POST'', Path [Lit ''history'', Lit ''clear''], web_authed h (post_history_clear h)),
      (''POST'', Path [Lit ''history'', Wild ''id'', Lit ''delete''], web_authed h (post_history_delete h)),
      (''GET'', Path [Lit ''settings''], web_authed h (get_settings h)),
      (''POST'', Path [Lit ''settings'', Lit ''password''], web_authed h (post_settings_password h)),
      (''POST'', Path [Lit ''logout''], web_authed h (post_logout h))]"

definition api_path :: "segment list \<Rightarrow> pattern" where
  "api_path ps = Path (Lit ''api'' # Lit ''v1'' # ps)"

definition api_routes :: "'s api_config \<Rightarrow> 's route list" where
  "api_routes c =
     [(''POST'', api_path [Lit ''auth'', Lit ''login''], api_login c),
      (''POST'', api_path [Lit ''auth'', Lit ''logout''], api_authed c (api_logout c)),
      (''GET'', api_path [Lit ''quiz'', Lit ''next''], api_authed c (api_next c)),
      (''POST'', api_path [Lit ''quiz'', Lit ''answer''], api_authed c (api_answer c)),
      (''GET'', api_path [Lit ''history''], api_authed c (api_history c)),
      (''DELETE'', api_path [Lit ''history'', Wild ''id''], api_authed c (api_delete_attempt c)),
      (''GET'', api_path [Lit ''stats'', Lit ''summary''], api_authed c (api_summary c))]"

definition plain_page :: "string \<Rightarrow> ('p, 's) handler" where
  "plain_page txt mo r w s =
     (reply 200 (Plain (txt @ newline)) (set_header ''Content-Type'' ''text/plain; charset=utf-8'' w), s)"

definition healthz :: "('p, 's) handler" where
  "healthz = plain_page ''ok''"

definition version_handler :: "string \<Rightarrow> ('p, 's) handler" where
  "version_handler v = plain_page v"

definition server_routes :: "server \<Rightarrow> world route list" where
  "server_routes sv = web_routes (server_web sv) @ api_routes (server_api sv) @
     [(''GET'', Below ''/static/'', \<lambda>mo r w s. (sv_static sv r w, s)),
      (''GET'', Path [Lit ''healthz''], healthz),
      (''GET'', Path [Lit ''readyz''], healthz),
      (''GET'', Path [Lit ''version''], version_handler (sv_version sv))]"

section \<open>Serving\<close>

definition cors_settings :: "server \<Rightarrow> cors_config" where
  "cors_settings sv = \<lparr>co_origins = sv_origins sv, co_methods = [], co_headers = [], co_max_age = 600,
     co_creds = True\<rparr>"

definition server_handler :: "server \<Rightarrow> (page, world) handler" where
  "server_handler sv = chain (mux (server_routes sv))
     [recover_panic, request_id, access_log, security_headers, body_limit (2 ^ 20),
      rate_limit_by_ip global_limiter, cors (cors_settings sv)]"

text \<open>One request, from a fresh response writer\<close>

definition serve :: "server \<Rightarrow> moment \<Rightarrow> request \<Rightarrow> world \<Rightarrow> page outcome \<times> world" where
  "serve sv mo r wd = server_handler sv mo r new_writer wd"

text \<open>Starting up: the secret, the topics for the page headings, the empty limiters\<close>

definition start_server ::
    "kdf \<Rightarrow> (int \<Rightarrow> int) \<Rightarrow> (request \<Rightarrow> writer \<Rightarrow> page outcome) \<Rightarrow> string \<Rightarrow> env
     \<Rightarrow> (int \<Rightarrow> string res) \<Rightarrow> db \<Rightarrow> (server \<times> world) res" where
  "start_server k cf static version env rand d =
     (case load_jwt_secret cf env rand (env ''BOKI3_JWT_SECRET'') of
        Inl e \<Rightarrow> Inl e
      | Inr secret_key \<Rightarrow>
          (case new_hs256 secret_key of
             Inl e \<Rightarrow> Inl e
           | Inr sg \<Rightarrow>
               (let sv = \<lparr>sv_kdf = k, sv_fold = cf, sv_params = hasher_params (env ''BOKI3_SCRYPT_N''),
                      sv_signer = sg, sv_secret = secret_key,
                      sv_cookie = \<lparr>cc_session_name = ''boki3_session'', cc_csrf_name = ''boki3_csrf'',
                         cc_secure = env_bool env ''BOKI3_COOKIE_SECURE'' False,
                         cc_domain = env ''BOKI3_COOKIE_DOMAIN''\<rparr>,
                      sv_origins = split_env env ''BOKI3_CORS_ORIGINS'', sv_topics = Map.empty,
                      sv_static = static, sv_version = version\<rparr>
                in case new_web_handler (server_web_config sv) (new_world env d) of
                     (h, wd) \<Rightarrow> Inr (sv\<lparr>sv_topics := wh_topic_name_of h\<rparr>, wd))))"

end
