(* ===== verification/Serving.thy ===== *)
theory Serving
  imports Program Server
begin

text \<open>
  What a request to the server can do to its state: the handlers over any services that respect
  a relation between states respect it too, and so does the whole server.
\<close>

section \<open>Handlers\<close>

text \<open>What the CSRF guard asks of a request in a session\<close>

definition token_matches :: "cookie_config \<Rightarrow> request \<Rightarrow> session \<Rightarrow> bool" where
  "token_matches c r x \<longleftrightarrow> s_csrf_token x \<noteq> [] \<and> rq_cookie r (cc_csrf_name c) = Some (s_csrf_token x)
     \<and> (if rq_header r ''X-CSRF-Token'' = [] then form_value r ''csrf_token'' else rq_header r ''X-CSRF-Token'')
       = s_csrf_token x"

text \<open>
  The services behind the handlers respect the relation \<open>R\<close>; those that write rows of a user have
  to do so for the users in \<open>mine\<close> only.
\<close>

locale service_frame = framed R for R :: "'s \<Rightarrow> 's \<Rightarrow> bool" +
  fixes mine :: "int \<Rightarrow> bool" and limits :: "'s rate_limiter set"
    and auth :: "'s auth_port" and tokens :: "'s api_auth_port" and quiz :: "'s quiz_port"
    and stats :: "'s stats_port" and sets :: "'s set_port" and learner_prefs :: "'s user_prefs_port"
    and bank :: "'s question_port"
  assumes limit_op: "l \<in> limits \<Longrightarrow> R s (snd (rl_allow l mo key s))"
    and auth_ops: "R s (snd (ath_register auth mo name pw s))" "R s (snd (ath_login auth mo name pw ua ip s))"
      "R s (snd (ath_logout auth mo sid s))" "R s (snd (ath_session_by_id auth mo sid s))"
    and password_op: "mine i \<Longrightarrow> R s (snd (ath_change_password auth mo i cur new sid s))"
    and token_ops: "R s (snd (aat_issue_token tokens mo i t s))" "R s (snd (aat_verify_token tokens mo tok s))"
      "R s (snd (aat_extract_jti tokens mo tok s))" "R s (snd (aat_revoke tokens mo j i t s))"
    and quiz_reads: "R s (snd (qzp_next_question quiz mo i c m s))" "R s (snd (qzp_history quiz mo i n k s))"
    and quiz_writes: "mine i \<Longrightarrow> R s (snd (qzp_submit quiz mo i x s))"
      "mine i \<Longrightarrow> R s (snd (qzp_delete_attempt quiz mo i a s))"
      "mine i \<Longrightarrow> R s (snd (qzp_delete_all_for_user quiz mo i s))"
    and stats_ops: "R s (snd (stp_summary stats mo i s))" "R s (snd (stp_topic_stats stats mo i s))"
      "R s (snd (stp_daily_accuracy stats mo i n s))"
    and set_op: "R s (snd (set_list_all sets s))"
    and prefs_get_op: "R s (snd (prf_get learner_prefs i s))"
    and prefs_put_op: "mine (up_user_id p) \<Longrightarrow> R s (snd (prf_upsert learner_prefs p s))"
    and bank_op: "R s (snd (qst_get_by_id bank i s))"
begin

lemmas service_ops = limit_op auth_ops password_op token_ops quiz_reads quiz_writes stats_ops set_op
  prefs_get_op prefs_put_op bank_op

definition wired :: "'s web_handler \<Rightarrow> bool" where
  "wired h \<longleftrightarrow> wc_auth (wh_cfg h) = auth \<and> wc_quiz (wh_cfg h) = quiz \<and> wc_stats (wh_cfg h) = stats
     \<and> wc_sets (wh_cfg h) = sets \<and> wc_prefs (wh_cfg h) = learner_prefs \<and> wc_questions (wh_cfg h) = bank
     \<and> set_option (wc_login_limit (wh_cfg h)) \<subseteq> limits"

lemma wiredD:
  "wired h \<Longrightarrow> wc_auth (wh_cfg h) = auth" "wired h \<Longrightarrow> wc_quiz (wh_cfg h) = quiz"
  "wired h \<Longrightarrow> wc_stats (wh_cfg h) = stats" "wired h \<Longrightarrow> wc_sets (wh_cfg h) = sets"
  "wired h \<Longrightarrow> wc_prefs (wh_cfg h) = learner_prefs" "wired h \<Longrightarrow> wc_questions (wh_cfg h) = bank"
  by (simp_all add: wired_def)

definition user_mine :: "request \<Rightarrow> bool" where
  "user_mine r \<longleftrightarrow> (\<forall>u. cx_user (rq_ctx r) = Some u \<longrightarrow> mine (u_id u))"

lemma with_user_frame:
  "user_mine r \<Longrightarrow> (\<And>u. mine (u_id u) \<Longrightarrow> R s (snd (f u))) \<Longrightarrow> R s (snd (with_user r w s f))"
  by (auto simp: with_user_def user_mine_def R_refl split: option.split)

lemma user_mine_parse: "user_mine r \<Longrightarrow> parse_form r = (b, r') \<Longrightarrow> user_mine r'"
  by (auto simp: user_mine_def parse_form_def split: option.splits)

lemma R_parse:
  "user_mine r \<Longrightarrow> (\<And>b r'. user_mine r' \<Longrightarrow> R s (snd (f b r'))) \<Longrightarrow>
   R s (snd (case parse_form r of (b, r') \<Rightarrow> f b r'))"
  using user_mine_parse by (cases "parse_form r") fastforce

lemma login_allowed_frame:
  "wired h \<Longrightarrow> R s (snd (login_allowed (wc_login_limit (wh_cfg h)) mo key s))"
  by (auto simp: login_allowed_def wired_def R_refl limit_op split: option.split)

lemma public_frames:
  assumes "wired h"
  shows "R s (snd (home h mo r w s))" "R s (snd (get_login h mo r w s))" "R s (snd (get_register h mo r w s))"
    "R s (snd (post_login h mo r w s))" "R s (snd (post_register h mo r w s))"
  unfolding home_def get_login_def get_register_def get_form_def post_login_def post_register_def Let_def
    wiredD [OF assms]
  by (intro R_rules service_ops login_allowed_frame assms)+

lemma R_logout: "R s (snd (x, case q of None \<Rightarrow> s | Some y \<Rightarrow> snd (ath_logout auth mo (f y) s)))"
  by (simp add: R_refl auth_ops split: option.split)

lemma R_save: "mine (up_user_id p) \<Longrightarrow> R s (if b then snd (prf_upsert learner_prefs p s) else s)"
  by (simp add: R_refl prefs_put_op)

lemma page_frames:
  assumes h: "wired h" and u: "user_mine r"
  shows "R s (snd (get_progress h mo r w s))" "R s (snd (get_history h mo r w s))"
    "R s (snd (post_history_clear h mo r w s))" "R s (snd (post_history_delete h mo r w s))"
    "R s (snd (get_settings h mo r w s))" "R s (snd (post_logout h mo r w s))"
    "R s (snd (post_quiz_answer h mo r w s))" "R s (snd (post_settings_password h mo r w s))"
proof -
  show "R s (snd (get_progress h mo r w s))" "R s (snd (get_history h mo r w s))"
    "R s (snd (post_history_clear h mo r w s))" "R s (snd (post_history_delete h mo r w s))"
    "R s (snd (get_settings h mo r w s))" "R s (snd (post_logout h mo r w s))"
    unfolding get_progress_def get_history_def post_history_clear_def post_history_delete_def get_settings_def
      post_logout_def Let_def wiredD [OF h]
    by (intro R_logout R_rules with_user_frame u service_ops; assumption?)+
  show "R s (snd (post_quiz_answer h mo r w s))"
    unfolding post_quiz_answer_def Let_def wiredD [OF h]
    by (rule R_parse [OF u], intro R_rules with_user_frame service_ops; assumption?)
  show "R s (snd (post_settings_password h mo r w s))"
    unfolding post_settings_password_def Let_def wiredD [OF h]
    by (rule R_parse [OF u], intro R_rules with_user_frame service_ops; assumption?)
qed

lemma quiz_page_frame:
  assumes h: "wired h" and u: "user_mine r"
  shows "R s (snd (get_quiz h mo r w s))"
proof -
  have step: "R s2 (snd (qzp_next_question quiz m1 i c m (save_prefs (wh_cfg h) b p s2)))"
    if "mine (up_user_id p)" for m1 i c m b p s2
    unfolding save_prefs_def wiredD [OF h] using R_save [OF that] quiz_reads(1) by (rule R_trans)
  show ?thesis
    unfolding get_quiz_def load_prefs_def Let_def wiredD [OF h]
    by (intro R_rules with_user_frame u service_ops step; simp)
qed

section \<open>Tokens\<close>

lemma api_frames:
  assumes "apc_auth c = auth" "apc_api c = tokens" "apc_quiz c = quiz" "apc_stats c = stats"
    and "mine (cx_jwt_user_id (rq_ctx r))"
  shows "R s (snd (api_logout c mo r w s))" "R s (snd (api_next c mo r w s))" "R s (snd (api_answer c mo r w s))"
    "R s (snd (api_history c mo r w s))" "R s (snd (api_delete_attempt c mo r w s))"
    "R s (snd (api_summary c mo r w s))"
  unfolding api_logout_def api_next_def api_answer_def api_history_def api_delete_attempt_def api_summary_def
    Let_def assms(1-4)
  by (intro R_rules service_ops assms(5))+

lemma api_login_frame:
  assumes "apc_auth c = auth" "apc_api c = tokens"
  shows "R s (snd (api_login c mo r w s))"
  unfolding api_login_def Let_def assms by (intro R_rules service_ops)

section \<open>Guards\<close>

lemma R_refuse: "R s (snd (redirect_or_json r p m c w, s))" "R s (snd (http_error m c w, s))" "R s (snd (reply c b w, s))"
  by (simp_all add: R_refl)

lemma csrf_guard_frame:
  assumes "\<And>mo r w s. user_mine r \<Longrightarrow> R s (snd (inner mo r w s))" "user_mine r"
  shows "R s (snd (csrf_guard name inner mo r w s))"
proof -
  have "user_mine (after_form_value r)" using assms(2) by (simp add: user_mine_def after_form_value_def)
  then show ?thesis
    using assms by (auto simp: csrf_guard_def Let_def R_refl split: option.split)
qed

lemma session_guard_step:
  assumes inner: "\<And>v x u s1. rq_cookie r name = Some v \<Longrightarrow> ath_session_by_id auth mo v s = (Inr (x, u), s1) \<Longrightarrow>
      R s1 (snd (inner (later mo) (r\<lparr>rq_ctx := (rq_ctx r)\<lparr>cx_session := Some x, cx_user := Some u\<rparr>\<rparr>) w s1))"
  shows "R s (snd (session_guard auth name path inner mo r w s))"
proof -
  have "R s (snd (case ath_session_by_id auth mo v s of (Inl _, s') \<Rightarrow> (f, s')
      | (Inr (x, u), s') \<Rightarrow> inner (later mo) (r\<lparr>rq_ctx := (rq_ctx r)\<lparr>cx_session := Some x, cx_user := Some u\<rparr>\<rparr>) w s'))"
    if v: "rq_cookie r name = Some v" for v f
  proof (cases "ath_session_by_id auth mo v s")
    case (Pair q s1)
    then have step: "R s s1" using auth_ops(4) [of s mo v] by simp
    show ?thesis
    proof (cases q)
      case (Inr y)
      obtain x u where y: "y = (x, u)" by fastforce
      have "ath_session_by_id auth mo v s = (Inr (x, u), s1)" using Pair Inr y by simp
      from R_trans [OF step inner [OF v this]] show ?thesis by (simp add: Pair Inr y)
    qed (simp add: Pair step)
  qed
  then show ?thesis
    by (auto simp: session_guard_def Let_def R_refl split: option.split)
qed

lemma web_authed_frame:
  assumes h: "wired h" and inner: "\<And>mo r w s. user_mine r \<Longrightarrow> R s (snd (inner mo r w s))"
    and who: "\<And>v x u s'. rq_cookie r (cc_session_name (wc_cookie (wh_cfg h))) = Some v \<Longrightarrow>
           ath_session_by_id auth mo v s = (Inr (x, u), s') \<Longrightarrow> mine (u_id u)"
  shows "R s (snd (web_authed h inner mo r w s))"
  unfolding web_authed_def wiredD [OF h]
proof (rule session_guard_step)
  fix v x u s1
  assume "rq_cookie r (cc_session_name (wc_cookie (wh_cfg h))) = Some v" "ath_session_by_id auth mo v s = (Inr (x, u), s1)"
  then have "mine (u_id u)" by (rule who)
  then have "user_mine (r\<lparr>rq_ctx := (rq_ctx r)\<lparr>cx_session := Some x, cx_user := Some u\<rparr>\<rparr>)"
    by (simp add: user_mine_def)
  then show "R s1 (snd (csrf_guard (cc_csrf_name (wc_cookie (wh_cfg h))) inner (later mo)
      (r\<lparr>rq_ctx := (rq_ctx r)\<lparr>cx_session := Some x, cx_user := Some u\<rparr>\<rparr>) w s1))"
    by (intro csrf_guard_frame inner)
qed

lemma api_authed_frame:
  assumes inner: "\<And>mo r w s. mine (cx_jwt_user_id (rq_ctx r)) \<Longrightarrow> R s (snd (inner mo r w s))"
    and c: "apc_api c = tokens" "set_option (apc_user_limit c) \<subseteq> limits"
    and who: "\<And>i s'. has_prefix (rq_header r ''Authorization'') ''Bearer '' \<Longrightarrow>
        aat_verify_token tokens mo (trim_prefix (rq_header r ''Authorization'') ''Bearer '') s = (Inr i, s') \<Longrightarrow> mine i"
  shows "R s (snd (api_authed c inner mo r w s))"
proof -
  define hd where "hd = (case apc_user_limit c of None \<Rightarrow> inner | Some rl \<Rightarrow> limit_user rl inner)"
  have hd: "R s (snd (hd mo r w s))" if "mine (cx_jwt_user_id (rq_ctx r))" for mo r w s
  proof (cases "apc_user_limit c")
    case (Some rl)
    then have "rl \<in> limits" using c(2) by simp
    then show ?thesis
      unfolding hd_def Some limit_user_def option.case by (intro R_rules limit_op inner that) (simp add: write_error_def write_json_def R_refl)
  qed (simp add: hd_def inner that)
  show ?thesis
    unfolding api_authed_def jwt_bearer_def Let_def c(1) hd_def [symmetric]
    using who by (auto simp: R_refl intro!: R_bind_eq token_ops R_sum_eq hd)
qed

section \<open>Routes\<close>

text \<open>Whoever the credentials of a request stand for is in \<open>mine\<close>.\<close>

definition cookie_mine :: "string \<Rightarrow> request \<Rightarrow> 's \<Rightarrow> bool" where
  "cookie_mine name r s \<longleftrightarrow> (\<forall>mo v x u s'. rq_cookie r name = Some v \<longrightarrow>
     ath_session_by_id auth mo v s = (Inr (x, u), s') \<longrightarrow> mine (u_id u))"

definition token_mine :: "request \<Rightarrow> 's \<Rightarrow> bool" where
  "token_mine r s \<longleftrightarrow> (\<forall>mo i s'. has_prefix (rq_header r ''Authorization'') ''Bearer '' \<longrightarrow>
     aat_verify_token tokens mo (trim_prefix (rq_header r ''Authorization'') ''Bearer '') s = (Inr i, s') \<longrightarrow> mine i)"

lemma web_routes_frame:
  assumes h: "wired h" and who: "cookie_mine (cc_session_name (wc_cookie (wh_cfg h))) r s"
    and "(m, pat, hl) \<in> set (web_routes h)"
  shows "R s (snd (hl mo r w s))"
proof -
  have authed: "R s (snd (web_authed h inner mo r w s))"
    if "\<And>mo r w s. user_mine r \<Longrightarrow> R s (snd (inner mo r w s))" for inner
    using who by (intro web_authed_frame h that) (auto simp: cookie_mine_def)
  show ?thesis
    using assms(3) by (auto simp: web_routes_def intro!: public_frames h authed page_frames quiz_page_frame)
qed

lemma api_routes_frame:
  assumes c: "apc_auth c = auth" "apc_api c = tokens" "apc_quiz c = quiz" "apc_stats c = stats"
      "set_option (apc_user_limit c) \<subseteq> limits"
    and who: "token_mine r s" and "(m, pat, hl) \<in> set (api_routes c)"
  shows "R s (snd (hl mo r w s))"
proof -
  have authed: "R s (snd (api_authed c inner mo r w s))"
    if "\<And>mo r w s. mine (cx_jwt_user_id (rq_ctx r)) \<Longrightarrow> R s (snd (inner mo r w s))" for inner
    using who by (intro api_authed_frame c that) (auto simp: token_mine_def)
  show ?thesis
    using assms(7) by (auto simp: api_routes_def intro!: api_login_frame c authed api_frames)
qed

end

section \<open>Middleware\<close>

context framed
begin

lemma mux_frame:
  assumes "\<And>m pat hl bd. (m, pat, hl) \<in> set rs \<Longrightarrow> R s (snd (hl mo (bind_path bd r) w s))"
  shows "R s (snd (mux rs mo r w s))"
proof -
  have "\<exists>m pat. (m, pat, hl) \<in> set rs" if "pick_route rs r = Some (bd, hl)" for bd hl
    using that by (induction rs) (fastforce split: if_splits option.splits)+
  then show ?thesis
    using assms by (fastforce simp: mux_def no_route_def Let_def R_refl split: option.split)
qed

lemma stack_frame:
  assumes limit: "\<And>m k. R s (snd (rl_allow rl m k s))"
    and inner: "\<And>mo r' w m k. rq_cookie r' = rq_cookie r \<Longrightarrow> rq_header r' = rq_header r \<Longrightarrow>
      rq_method r' = rq_method r \<Longrightarrow> rq_form r' = rq_form r \<Longrightarrow> rq_parsed r' = rq_parsed r \<Longrightarrow>
      rq_body_limit r' = Some n \<Longrightarrow> R (snd (rl_allow rl m k s)) (snd (h mo r' w (snd (rl_allow rl m k s))))"
  shows "R s (snd (chain h [recover_panic, request_id, access_log, security_headers, body_limit n,
           rate_limit_by_ip rl, cors cfg] mo r w s))"
proof -
  have cors: "R (snd (rl_allow rl m k s)) (snd (cors cfg h mo r' w (snd (rl_allow rl m k s))))"
    if "rq_cookie r' = rq_cookie r" "rq_header r' = rq_header r" "rq_method r' = rq_method r"
      "rq_form r' = rq_form r" "rq_parsed r' = rq_parsed r" "rq_body_limit r' = Some n" for mo r' w m k
    using inner [OF that] by (simp add: cors_def Let_def R_refl)
  have limited: "R s (snd (rate_limit_by_ip rl (cors cfg h) mo r' w s))"
    if "rq_cookie r' = rq_cookie r" "rq_header r' = rq_header r" "rq_method r' = rq_method r"
      "rq_form r' = rq_form r" "rq_parsed r' = rq_parsed r" "rq_body_limit r' = Some n" for mo r' w
  proof (cases "rl_allow rl mo (client_ip r') s")
    case (Pair b s1)
    with limit [of mo "client_ip r'"] cors [OF that, of mo "client_ip r'"] show ?thesis
      by (cases b) (auto simp: rate_limit_by_ip_def intro: R_trans)
  qed
  have headed: "R s (snd (security_headers (body_limit n (rate_limit_by_ip rl (cors cfg h))) mo r' w s))"
    if "rq_cookie r' = rq_cookie r" "rq_header r' = rq_header r" "rq_method r' = rq_method r"
      "rq_form r' = rq_form r" "rq_parsed r' = rq_parsed r" for mo r' w
    using limited that by (simp add: security_headers_def body_limit_def Let_def R_refl split: sum.split)
  have recover: "snd (recover_panic g mo r w s) = snd (g mo r w s)" for g mo r w s
    by (simp add: recover_panic_def split: prod.split outcome.split)
  show ?thesis
    by (simp add: recover request_id_def access_log_def Let_def headed)
qed

end

end
