(* ===== verification/Demo.thy ===== *)
theory Demo
  imports Server Learning
begin

text \<open>A small server with one learner and two questions, on which the properties are tried.\<close>

definition demo_server :: server where
  "demo_server = \<lparr>sv_kdf = demo_kdf, sv_fold = (\<lambda>c. c), sv_params = default_params,
     sv_signer = \<lparr>secret = replicate 32 CHR ''s''\<rparr>, sv_secret = replicate 32 CHR ''s'',
     sv_cookie = \<lparr>cc_session_name = ''boki3_session'', cc_csrf_name = ''boki3_csrf'', cc_secure = False,
       cc_domain = []\<rparr>,
     sv_origins = [''https://app.example.com''], sv_topics = Map.empty,
     sv_static = (\<lambda>r w. reply 200 NoBody w), sv_version = ''dev''\<rparr>"

definition demo_moment :: moment where
  "demo_moment = \<lparr>mo_now = (\<lambda>_. second), mo_rand = (\<lambda>_ n. Inr (replicate (nat n) CHR ''r'')), mo_draws = (\<lambda>_. []),
     mo_wall = (\<lambda>_. second)\<rparr>"

definition demo_request :: "string \<Rightarrow> string \<Rightarrow> request" where
  "demo_request method path = \<lparr>rq_method = method, rq_path = path, rq_remote_addr = ''192.0.2.1:1234'',
     rq_header = (\<lambda>_. []), rq_cookie = (\<lambda>_. None), rq_query = (\<lambda>_. []), rq_path_value = (\<lambda>_. []),
     rq_form = (\<lambda>_ _. (\<lambda>_. [], True)), rq_body = [], rq_body_limit = None, rq_parsed = None,
     rq_ctx = background\<rparr>"

definition demo_world :: world where
  "demo_world = new_world (\<lambda>_. []) study_db"

lemma later_demo [simp]: "later demo_moment = demo_moment"
  by (simp add: later_def demo_moment_def)

lemma demo_moment_simps [simp]:
  "mo_now demo_moment n = second" "mo_rand demo_moment n k = Inr (replicate (nat k) CHR ''r'')"
  "mo_draws demo_moment n = []" "mo_wall demo_moment n = second"
  by (simp_all add: demo_moment_def)

lemma demo_world_db [simp]: "wd_db demo_world = study_db"
  by (simp add: demo_world_def new_world_def)

text \<open>The learner is signed in, and a request arrives with the cookies but a guessed token.\<close>

definition signed_in_session :: session where
  "signed_in_session = \<lparr>s_id = ''sid'', s_user_id = 1, s_csrf_token = ''token'', s_user_agent = [], s_ip = [],
     s_created_at = second, s_expires_at = 3600 * second, s_last_seen_at = second\<rparr>"

definition signed_in_world :: world where
  "signed_in_world = new_world (\<lambda>_. []) (study_db\<lparr>sessions := [signed_in_session]\<rparr>)"

definition forged_request :: request where
  "forged_request = (demo_request ''POST'' ''/history/clear'')
     \<lparr>rq_cookie := (\<lambda>n. if n = ''boki3_session'' then Some ''sid'' else if n = ''boki3_csrf'' then Some ''token'' else None),
      rq_header := (\<lambda>n. if n = ''X-CSRF-Token'' then ''guess'' else [])\<rparr>"

end
