(* ===== verification/Requests.thy ===== *)
theory Requests
  imports Serving Demo
begin

text \<open>
  The requests the server answers: each is a sequence of operations of the services on the
  database, and it changes rows of those users only that its credentials stand for.
\<close>

section \<open>The server over a relation\<close>

locale server_frame =
  service_frame R mine "{global_limiter, login_limiter, api_limiter}" "server_auth sv" "server_api_auth sv"
    "server_quiz sv" server_stats server_sets server_prefs server_questions
  for R :: "world \<Rightarrow> world \<Rightarrow> bool" and mine :: "int \<Rightarrow> bool" and sv :: server
begin

lemma server_web_cookie [simp]: "wc_cookie (wh_cfg (server_web sv)) = sv_cookie sv"
  by (simp add: server_web_def server_web_config_def)

lemma server_wired: "wired (server_web sv)"
  by (simp add: wired_def server_web_def server_web_config_def)

lemma token_same:
  "rq_header r' = rq_header r \<Longrightarrow> token_mine r' s = token_mine r s"
  "rq_cookie r' = rq_cookie r \<Longrightarrow> cookie_mine name r' s = cookie_mine name r s"
  by (simp_all add: token_mine_def cookie_mine_def)

text \<open>It is enough to look at the handlers of the pages, on the state after the limiter per address.\<close>

lemma serve_routes:
  assumes web: "\<And>m pat hl mo r' w m1 k. (m, pat, hl) \<in> set (web_routes (server_web sv)) \<Longrightarrow>
        rq_cookie r' = rq_cookie r \<Longrightarrow> rq_header r' = rq_header r \<Longrightarrow> rq_method r' = rq_method r \<Longrightarrow>
        rq_form r' = rq_form r \<Longrightarrow> rq_parsed r' = rq_parsed r \<Longrightarrow> rq_body_limit r' = Some (2 ^ 20) \<Longrightarrow>
        R (snd (rl_allow global_limiter m1 k wd)) (snd (hl mo r' w (snd (rl_allow global_limiter m1 k wd))))"
    and tokens: "\<And>m k. token_mine r (snd (rl_allow global_limiter m k wd))"
  shows "R wd (snd (serve sv mo r wd))"
  unfolding serve_def server_handler_def
proof (rule stack_frame)
  show "R wd (snd (rl_allow global_limiter m k wd))" for m k by (rule limit_op) simp
  fix mo w m k and r' :: request
  let ?s = "snd (rl_allow global_limiter m k wd)"
  assume same: "rq_cookie r' = rq_cookie r" "rq_header r' = rq_header r" "rq_method r' = rq_method r"
    "rq_form r' = rq_form r" "rq_parsed r' = rq_parsed r" "rq_body_limit r' = Some (2 ^ 20)"
  have bound: "rq_cookie (bind_path bd r') = rq_cookie r" "rq_header (bind_path bd r') = rq_header r"
    "rq_method (bind_path bd r') = rq_method r" "rq_form (bind_path bd r') = rq_form r"
    "rq_parsed (bind_path bd r') = rq_parsed r" "rq_body_limit (bind_path bd r') = Some (2 ^ 20)" for bd
    by (simp_all add: bind_path_def same)
  have api: "apc_auth (server_api sv) = server_auth sv" "apc_api (server_api sv) = server_api_auth sv"
    "apc_quiz (server_api sv) = server_quiz sv" "apc_stats (server_api sv) = server_stats"
    "set_option (apc_user_limit (server_api sv)) \<subseteq> {global_limiter, login_limiter, api_limiter}"
    by (simp_all add: server_api_def)
  have token: "token_mine (bind_path bd r') ?s" for bd
    using tokens [of m k] by (simp add: token_same(1) [OF bound(2)])
  show "R ?s (snd (mux (server_routes sv) mo r' w ?s))"
  proof (rule mux_frame)
    fix m' pat hl bd
    assume "(m', pat, hl) \<in> set (server_routes sv)"
    then consider "(m', pat, hl) \<in> set (web_routes (server_web sv))" | "(m', pat, hl) \<in> set (api_routes (server_api sv))"
      | "\<forall>mo r w s. snd (hl mo r w s) = s"
      by (auto simp: server_routes_def healthz_def version_handler_def plain_page_def)
    then show "R ?s (snd (hl mo (bind_path bd r') w ?s))"
      using web [OF _ bound] api_routes_frame [OF api token] by cases (blast, blast, simp add: R_refl)
  qed
qed

lemma serve_frame:
  assumes who: "\<And>m k. cookie_mine (cc_session_name (sv_cookie sv)) r (snd (rl_allow global_limiter m k wd))"
      "\<And>m k. token_mine r (snd (rl_allow global_limiter m k wd))"
  shows "R wd (snd (serve sv mo r wd))"
proof (rule serve_routes [OF _ who(2)])
  fix m pat hl mo w m1 k and r' :: request
  let ?s = "snd (rl_allow global_limiter m1 k wd)"
  assume hl: "(m, pat, hl) \<in> set (web_routes (server_web sv))" and "rq_cookie r' = rq_cookie r"
  then have "cookie_mine (cc_session_name (wc_cookie (wh_cfg (server_web sv)))) r' ?s"
    using who(1) [of m1 k] by (simp add: cookie_mine_def)
  from web_routes_frame [OF server_wired this hl] show "R ?s (snd (hl mo r' w ?s))" .
qed

end

section \<open>Operations of the services\<close>

definition runs :: "server \<Rightarrow> world \<Rightarrow> world \<Rightarrow> bool" where
  "runs sv wd wd' \<longleftrightarrow>
     (program_step (sv_kdf sv) (sv_params sv) default_auth_config (sv_fold sv))\<^sup>*\<^sup>* (wd_db wd) (wd_db wd')"

lemma on_db_db [simp]: "wd_db (snd (on_db f wd)) = snd (f (wd_db wd))"
  by (simp add: on_db_def split: prod.split)

lemma limiters_db [simp]:
  "wd_db (snd (rl_allow global_limiter mo k wd)) = wd_db wd"
  "wd_db (snd (rl_allow login_limiter mo k wd)) = wd_db wd"
  "wd_db (snd (rl_allow api_limiter mo k wd)) = wd_db wd"
  by (simp_all add: global_limiter_def login_limiter_def api_limiter_def split: prod.split)

lemma runs_on_db:
  "(\<And>r d d'. f d = (r, d') \<Longrightarrow> program_step (sv_kdf sv) (sv_params sv) default_auth_config (sv_fold sv) d d')
   \<Longrightarrow> runs sv wd (snd (on_db f wd))"
  unfolding runs_def by (simp add: r_into_rtranclp prod_eq_iff)

lemmas port_defs = server_auth_def server_api_auth_def server_quiz_def server_stats_def server_sets_def
  server_prefs_def server_questions_def auth_of_def api_auth_of_def sqlite_sets_def sqlite_prefs_def
  sqlite_questions_def

lemmas step_rules = account_step.intros [THEN on_account] program_step.intros(2-)

lemma runs_same: "wd_db wd' = wd_db wd \<Longrightarrow> runs sv wd wd'"
  by (simp add: runs_def)

interpretation run_frame: server_frame "runs sv" "\<lambda>_. True" sv for sv
proof
  show "runs sv s s" for s by (simp add: runs_def)
  show "runs sv s s' \<Longrightarrow> runs sv s' s'' \<Longrightarrow> runs sv s s''" for s s' s'' by (simp add: runs_def)
  show "l \<in> {global_limiter, login_limiter, api_limiter} \<Longrightarrow> runs sv s (snd (rl_allow l mo key s))" for l s mo key
    by (auto intro: runs_same)
qed (simp_all add: port_defs, (rule runs_same, simp; fail | rule runs_on_db, erule step_rules)+)

text \<open>Requests one after the other\<close>

fun serve_all :: "server \<Rightarrow> (moment \<times> request) list \<Rightarrow> world \<Rightarrow> world" where
  "serve_all sv [] wd = wd"
| "serve_all sv ((mo, r) # rs) wd = serve_all sv rs (snd (serve sv mo r wd))"

lemma serve_all_runs: "runs sv wd (serve_all sv rs wd)"
proof (induction rs arbitrary: wd)
  case (Cons a rs)
  obtain mo r where a: "a = (mo, r)" by fastforce
  have "runs sv wd (snd (serve sv mo r wd))"
    by (rule run_frame.serve_frame) (simp_all add: run_frame.cookie_mine_def run_frame.token_mine_def)
  with Cons.IH [of "snd (serve sv mo r wd)"] run_frame.R_trans a show ?case by fastforce
qed (simp add: runs_def)

text \<open>
  C1: whatever requests reach the server: from a database that obeys the constraints of its schema
  it only gets to such databases, no account disappears, and the question bank stays the same.
\<close>

theorem server_invariant:
  assumes "accounts_ok (wd_db wd)" "quiz_ok (wd_db wd)"
  shows "accounts_ok (wd_db (serve_all sv rs wd)) \<and> quiz_ok (wd_db (serve_all sv rs wd))
    \<and> u_id ` set (users (wd_db wd)) \<subseteq> u_id ` set (users (wd_db (serve_all sv rs wd)))
    \<and> questions (wd_db (serve_all sv rs wd)) = questions (wd_db wd)
    \<and> set_questions c (wd_db (serve_all sv rs wd)) = set_questions c (wd_db wd)"
proof -
  have "program_kept (wd_db wd) (wd_db (serve_all sv rs wd))"
    using serve_all_runs [of sv wd rs] unfolding runs_def by (rule program_steps_kept)
  with assms show ?thesis by (auto simp: program_kept_def fun_eq_iff)
qed

lemma server_invariant_witness:
  "accounts_ok (wd_db (serve_all demo_server [(demo_moment, demo_request ''GET'' ''/quiz'')] demo_world))"
  using server_invariant [of demo_world demo_server "[(demo_moment, demo_request ''GET'' ''/quiz'')]"]
    study_accounts_ok study_db_ok by simp

section \<open>Rows of other users\<close>

text \<open>
  Every existing account outside \<open>S\<close> stays as it is, and so do the preferences, attempts and reviews
  of the users outside \<open>S\<close> and the question bank.
\<close>

definition own :: "int set \<Rightarrow> db \<Rightarrow> db \<Rightarrow> bool" where
  "own S d d' \<longleftrightarrow>
     (\<forall>u\<in>set (users d). u_id u \<notin> S \<longrightarrow> u \<in> set (users d'))
     \<and> filter (\<lambda>p. up_user_id p \<notin> S) (prefs d') = filter (\<lambda>p. up_user_id p \<notin> S) (prefs d)
     \<and> filter (\<lambda>a. a_user_id a \<notin> S) (attempts d') = filter (\<lambda>a. a_user_id a \<notin> S) (attempts d)
     \<and> filter (\<lambda>st. sr_user_id st \<notin> S) (srs_states d') = filter (\<lambda>st. sr_user_id st \<notin> S) (srs_states d)
     \<and> topic_rows d' = topic_rows d \<and> questions d' = questions d \<and> question_sets d' = question_sets d
     \<and> members d' = members d"

interpretation own_kept: framed_store "own S" for S
  by unfold_locales (auto simp: own_def dest!: same_tablesD)

lemma own_other_tables:
  "users d' = users d \<Longrightarrow> prefs d' = prefs d \<Longrightarrow> attempts d' = attempts d \<Longrightarrow> srs_states d' = srs_states d
   \<Longrightarrow> topic_rows d' = topic_rows d \<Longrightarrow> questions d' = questions d \<Longrightarrow> question_sets d' = question_sets d
   \<Longrightarrow> members d' = members d \<Longrightarrow> own S d d'"
  by (simp add: own_def)

lemma filter_map_other:
  "(\<And>x. P x \<Longrightarrow> f x = x) \<Longrightarrow> (\<And>x. P (f x) = P x) \<Longrightarrow> filter P (map f xs) = filter P xs"
  by (induction xs) auto

lemma own_account_writes:
  "own S d (snd (user_create wall u d))" "i \<in> S \<Longrightarrow> own S d (snd (user_update_password i h sa pa t d))"
  "own S d (snd (session_create wall x d))" "own S d (snd (session_touch k t d))"
  "own S d (snd (session_delete k d))" "own S d (snd (session_delete_all_for_user i d))"
  "own S d (snd (session_delete_all_for_user_except i k d))"
  "own S d (snd (jwt_revoke wall j i t d))" "own S d (snd (jwt_revoke_all_for_user i t d))"
  "up_user_id p \<in> S \<Longrightarrow> own S d (snd (prefs_upsert p d))"
proof -
  have ins: "own S d1 (snd (insert_user v d1))" "own S d1 (snd (insert_session w d1))"
    "own S d1 (snd (upsert_revocation r d1))" for d1 v w r
    by (auto simp: insert_user_def insert_session_def upsert_revocation_def own_def Let_def)
  show "own S d (snd (user_create wall u d))"
    unfolding user_create_def Let_def by (intro own_kept.R_rules own_kept.R_statement ins)
  show "own S d (snd (user_update_password i h sa pa t d))" if "i \<in> S"
    unfolding user_update_password_def Let_def
    by (intro own_kept.R_rules own_kept.R_statement) (use that in \<open>force simp: own_def\<close>)
  show "own S d (snd (session_create wall x d))"
    unfolding session_create_def Let_def by (intro own_kept.R_rules own_kept.R_statement ins)
  show "own S d (snd (session_touch k t d))" "own S d (snd (session_delete k d))"
    "own S d (snd (session_delete_all_for_user i d))" "own S d (snd (session_delete_all_for_user_except i k d))"
    unfolding session_touch_def session_delete_def session_delete_all_for_user_def
      session_delete_all_for_user_except_def delete_sessions_def Let_def
    by (intro own_kept.R_rules own_kept.R_statement; simp add: own_other_tables)+
  show "own S d (snd (jwt_revoke wall j i t d))" "own S d (snd (jwt_revoke_all_for_user i t d))"
    unfolding jwt_revoke_def jwt_revoke_all_for_user_def
    by (intro own_kept.R_rules own_kept.R_statement ins)+
  show "own S d (snd (prefs_upsert p d))" if "up_user_id p \<in> S"
  proof -
    have "own S d1 (snd (upsert_prefs p d1))" for d1
      using that by (auto simp: upsert_prefs_def own_def Let_def intro!: filter_map_other split: if_splits)
    then show ?thesis
      unfolding prefs_upsert_def by (intro own_kept.R_rules own_kept.R_statement)
  qed
qed

lemma own_quiz_writes:
  "a_user_id a \<in> S \<Longrightarrow> own S d (snd (attempt_create wall a d))"
  "i \<in> S \<Longrightarrow> own S d (snd (attempt_delete_by_id i k d))"
  "i \<in> S \<Longrightarrow> own S d (snd (attempt_delete_all_for_user i d))"
  "sr_user_id st \<in> S \<Longrightarrow> own S d (snd (state_upsert wall st d))"
  "i \<in> S \<Longrightarrow> own S d (snd (state_delete_all_for_user i d))"
proof -
  show "own S d (snd (attempt_create wall a d))" if "a_user_id a \<in> S"
  proof -
    have "own S d1 (snd (insert_attempt b d1))" if "a_user_id b \<in> S" for d1 b
      using that by (auto simp: insert_attempt_def own_def Let_def)
    then show ?thesis
      unfolding attempt_create_def Let_def using that by (intro own_kept.R_rules own_kept.R_statement) simp
  qed
  have del: "own S d1 (snd (delete_attempts P d1))" if "\<And>a. P a \<Longrightarrow> a_user_id a \<in> S" for d1 P
    unfolding delete_attempts_def
    by (rule own_kept.R_statement) (use that in \<open>auto simp: own_def intro!: filter_cong\<close>)
  show "own S d (snd (attempt_delete_by_id i k d))" "own S d (snd (attempt_delete_all_for_user i d))" if "i \<in> S"
    unfolding attempt_delete_by_id_def attempt_delete_all_for_user_def
    using that by (intro own_kept.R_rules del; simp)+
  show "own S d (snd (state_upsert wall st d))" if "sr_user_id st \<in> S"
  proof -
    have "own S d1 (snd (upsert_state b d1))" if "sr_user_id b \<in> S" for d1 b
      using that by (auto simp: upsert_state_def own_def Let_def srs_key_def stored_state_def intro!: filter_map_other split: if_splits)
    then show ?thesis
      unfolding state_upsert_def Let_def using that by (intro own_kept.R_rules own_kept.R_statement) simp
  qed
  show "own S d (snd (state_delete_all_for_user i d))" if "i \<in> S"
    unfolding state_delete_all_for_user_def
    by (intro own_kept.R_rules own_kept.R_statement) (use that in \<open>auto simp: own_def intro!: filter_cong\<close>)
qed

interpretation own_accounts: account_frame "own S" "\<lambda>i. i \<in> S" "sqlite_users wall" "sqlite_sessions wall"
    "sqlite_jwts wall" for S wall
  by unfold_locales (simp_all add: sqlite_users_def sqlite_sessions_def sqlite_jwts_def own_account_writes
      own_kept.account_reads)

interpretation own_quiz: quiz_frame "own S" "\<lambda>i. i \<in> S" sqlite_questions sqlite_sets "sqlite_attempts wall"
    "sqlite_states wall" for S wall
  by unfold_locales (simp_all add: sqlite_questions_def sqlite_sets_def sqlite_attempts_def sqlite_states_def
      own_quiz_writes own_kept.quiz_reads state_get_own)

definition own_world :: "int set \<Rightarrow> world \<Rightarrow> world \<Rightarrow> bool" where
  "own_world S wd wd' \<longleftrightarrow> own S (wd_db wd) (wd_db wd')"

interpretation own_frame: server_frame "own_world S" "\<lambda>i. i \<in> S" sv for S sv
proof
  show "own_world S s s" for s by (simp add: own_world_def own_kept.R_refl)
  show "own_world S s s' \<Longrightarrow> own_world S s' s'' \<Longrightarrow> own_world S s s''" for s s' s''
    unfolding own_world_def by (rule own_kept.R_trans)
  show "l \<in> {global_limiter, login_limiter, api_limiter} \<Longrightarrow> own_world S s (snd (rl_allow l mo key s))" for l s mo key
    by (auto simp: own_world_def own_kept.R_refl)
qed (simp_all add: port_defs own_world_def own_kept.R_refl own_kept.quiz_reads own_kept.account_reads
    own_account_writes own_accounts.auth_frames own_accounts.token_frames own_quiz.stats_frames
    own_quiz.quiz_frames [OF new_quiz_service_ports])

text \<open>
  The users a request authenticates as: the owner of the session its cookie names, the subject of
  a bearer token under the server's signature.
\<close>

definition named :: "server \<Rightarrow> request \<Rightarrow> db \<Rightarrow> int set" where
  "named sv r d =
     {s_user_id x | x. x \<in> set (sessions d) \<and> rq_cookie r (cc_session_name (sv_cookie sv)) = Some (s_id x)}
     \<union> {jc_subject c | c now. has_prefix (rq_header r ''Authorization'') ''Bearer ''
          \<and> parse (sv_signer sv) now (trim_prefix (rq_header r ''Authorization'') ''Bearer '') = Inr c}"

lemma find_session_row: "session_find_by_id k d = (Inr x, d') \<Longrightarrow> x \<in> set (sessions d) \<and> s_id x = k"
  by (auto simp: session_find_by_id_def query_row_def statement_def dest!: find_Some_iff_in tick_tables dest: same_tablesD
      split: prod.splits option.splits sum.splits if_splits)

lemma find_user_row: "user_find_by_id i d = (Inr u, d') \<Longrightarrow> u_id u = i"
  by (auto simp: user_find_by_id_def query_row_def statement_def scan_user_def dest!: find_Some_iff_in
      split: prod.splits option.splits sum.splits if_splits)

lemma session_by_id_rows:
  "session_by_id (auth_of sv mo) now now' k d = (Inr (x, u), d') \<Longrightarrow>
   x \<in> set (sessions d) \<and> s_id x = k \<and> u_id u = s_user_id x"
  by (auto simp: session_by_id_def auth_of_def sqlite_sessions_def sqlite_users_def split: prod.splits sum.splits if_splits
      dest: find_session_row find_user_row)

lemma verify_token_parse:
  "verify_token (api_auth_of sv mo) now now' tok d = (Inr i, d') \<Longrightarrow>
   \<exists>c. parse (sv_signer sv) now tok = Inr c \<and> jc_subject c = i"
  by (auto simp: verify_token_def api_auth_of_def split: prod.splits sum.splits if_splits bool.splits)

text \<open>
  C2: serving a request changes accounts, preferences, attempts and reviews of those users only
  that its credentials stand for; a request without valid credentials changes nothing of any
  existing user.  The question bank is never written.
\<close>

theorem request_isolation:
  "own (named sv r (wd_db wd)) (wd_db wd) (wd_db (snd (serve sv mo r wd)))"
proof -
  let ?S = "named sv r (wd_db wd)"
  have "own_world ?S wd (snd (serve sv mo r wd))"
  proof (rule own_frame.serve_frame)
    show "own_frame.cookie_mine ?S sv (cc_session_name (sv_cookie sv)) r (snd (rl_allow global_limiter m k wd))" for m k
      unfolding own_frame.cookie_mine_def
      by (auto simp: server_auth_def on_db_def named_def split: prod.splits
          dest!: session_by_id_rows)
    show "own_frame.token_mine ?S sv r (snd (rl_allow global_limiter m k wd))" for m k
      unfolding own_frame.token_mine_def
      by (auto simp: server_api_auth_def on_db_def named_def split: prod.splits
          dest!: verify_token_parse)
  qed
  then show ?thesis by (simp add: own_world_def)
qed

end
