(* ===== verification/Boot.thy ===== *)
theory Boot
  imports Syncing Assets Requests
begin

text \<open>
  The two programs around the database: the start of the server in \<^verbatim>\<open>cmd/boki3-quiz/main.go\<close> up to
  the point where it listens, and the seed loader \<^verbatim>\<open>cmd/seed-loader/main.go\<close>.  A database file is
  its schema with the applied migrations, and its tables.
\<close>

record 's disk =
  dk_schema :: "'s schema_db"
  dk_tables :: db

text \<open>
  The embedded migrations and templates, and what is outside of the program: the engine, the clock
  and the template package
\<close>

record ('s, 't) host =
  ho_open :: "gerror option"
  ho_script :: "string \<Rightarrow> 's \<Rightarrow> 's res"
  ho_clock :: "string \<Rightarrow> time"
  ho_migrations :: "dir_entry list res"
  ho_wall :: time
  ho_assets :: "string \<Rightarrow> string res"
  ho_template :: "string \<Rightarrow> 't"
  ho_parse :: "string \<Rightarrow> 't \<Rightarrow> 't res"

definition repo_migrate :: "('s, 't) host \<Rightarrow> 's disk \<Rightarrow> unit res \<times> 's disk" where
  "repo_migrate ho dk = (case migrate (ho_script ho) (ho_clock ho) ''migrations'' (ho_migrations ho) (dk_schema dk) of
     (r, d) \<Rightarrow> (r, dk\<lparr>dk_schema := d\<rparr>))"

definition open_disk :: "('s, 't) host \<Rightarrow> 's disk \<Rightarrow> unit res \<times> 's disk" where
  "open_disk ho dk = (case open_db (ho_open ho) (dk_schema dk) of (r, d) \<Rightarrow> (r, dk\<lparr>dk_schema := d\<rparr>))"

definition sync_disk :: "('s, 't) host \<Rightarrow> 's disk \<Rightarrow> (unit res \<times> 's disk) option" where
  "sync_disk ho dk = map_option (\<lambda>(r, d). (r, dk\<lparr>dk_tables := d\<rparr>)) (sync (ho_wall ho) (dk_tables dk))"

section \<open>The server\<close>

text \<open>
  The secret first, then the file, the migrations, the question bank unless it is skipped, the
  wiring and the templates.  A panic is \<open>None\<close>.
\<close>

definition boot :: "kdf \<Rightarrow> (int \<Rightarrow> int) \<Rightarrow> (request \<Rightarrow> writer \<Rightarrow> page outcome) \<Rightarrow> string \<Rightarrow> env \<Rightarrow> (int \<Rightarrow> string res) \<Rightarrow>
    ('s, 't) host \<Rightarrow> 's disk \<Rightarrow> ((server \<times> world) res \<times> 's disk) option" where
  "boot k cf static version env rand ho dk =
     (case load_jwt_secret cf env rand (env ''BOKI3_JWT_SECRET'') of Inl e \<Rightarrow> Some (Inl e, dk)
      | Inr _ \<Rightarrow>
     (case open_disk ho dk of (Inl e, dk1) \<Rightarrow> Some (Inl e, dk1)
      | (Inr _, dk1) \<Rightarrow>
     (case repo_migrate ho dk1 of (Inl e, dk2) \<Rightarrow> Some (Inl e, dk2)
      | (Inr _, dk2) \<Rightarrow>
     (case (if env_bool env ''BOKI3_SKIP_SEED'' False then Some (Inr (), dk2) else sync_disk ho dk2) of
        None \<Rightarrow> None
      | Some (Inl e, dk3) \<Rightarrow> Some (Inl e, dk3)
      | Some (Inr _, dk3) \<Rightarrow>
     (case start_server k cf static version env rand (dk_tables dk3) of Inl e \<Rightarrow> Some (Inl e, dk3)
      | Inr x \<Rightarrow>
     (case load_templates (ho_assets ho) (ho_template ho) (ho_parse ho) of Inl e \<Rightarrow> Some (Inl e, dk3)
      | Inr _ \<Rightarrow> Some (Inr x, dk3)))))))"

text \<open>
  A whole run: the requests it serves, and how it ends.  What the server leaves in its tables is in
  the file.
\<close>

definition run_program :: "kdf \<Rightarrow> (int \<Rightarrow> int) \<Rightarrow> (request \<Rightarrow> writer \<Rightarrow> page outcome) \<Rightarrow> string \<Rightarrow> env \<Rightarrow> (int \<Rightarrow> string res) \<Rightarrow>
    ('s, 't) host \<Rightarrow> (moment \<times> request) list \<Rightarrow> ending \<Rightarrow> 's disk \<Rightarrow> (unit res \<times> 's disk) option" where
  "run_program k cf static version env rand ho rs e dk =
     (case boot k cf static version env rand ho dk of
        None \<Rightarrow> None
      | Some (Inl err, dk1) \<Rightarrow> Some (Inl err, dk1)
      | Some (Inr (sv, wd), dk1) \<Rightarrow> Some (run_result e, dk1\<lparr>dk_tables := wd_db (serve_all sv rs wd)\<rparr>))"

section \<open>The seed loader\<close>

text \<open>
  With the flag \<^verbatim>\<open>-force\<close> the tables of the bank are emptied first.  The foreign keys of the schema
  take the attempts and reviews of the deleted questions with them, and unset the deleted sets.
\<close>

definition delete_members :: "db \<Rightarrow> db" where
  "delete_members d = d\<lparr>members := []\<rparr>"

definition delete_questions :: "db \<Rightarrow> db" where
  "delete_questions d =
     (let gone = q_id ` set (questions d) in
      d\<lparr>questions := [], members := filter (\<lambda>m. m_question_id m \<notin> gone) (members d),
        attempts := filter (\<lambda>a. a_question_id a \<notin> gone) (attempts d),
        srs_states := filter (\<lambda>s. sr_question_id s \<notin> gone) (srs_states d)\<rparr>)"

definition delete_sets :: "db \<Rightarrow> db" where
  "delete_sets d =
     (let gone = qs_id ` set (question_sets d) in
      d\<lparr>question_sets := [], members := filter (\<lambda>m. m_set_id m \<notin> gone) (members d),
        attempts := map (\<lambda>a. case a_set_id a of None \<Rightarrow> a
          | Some s \<Rightarrow> if s \<in> gone then a\<lparr>a_set_id := None\<rparr> else a) (attempts d)\<rparr>)"

definition delete_topics :: "db \<Rightarrow> db" where
  "delete_topics d = d\<lparr>topic_rows := []\<rparr>"

definition wipe :: "db \<Rightarrow> unit res \<times> db" where
  "wipe = each (\<lambda>(ok, f). exec ''wipe'' ok f)
     [(\<lambda>_. True, delete_members), (\<lambda>_. True, delete_questions), (\<lambda>_. True, delete_sets),
      (\<lambda>d. q_topic_id ` set (questions d) \<inter> t_id ` set (topic_rows d) = {}, delete_topics)]"

text \<open>The flags are parsed already; the counts that are printed in the end are left out.\<close>

definition load_seed :: "bool \<Rightarrow> ('s, 't) host \<Rightarrow> 's disk \<Rightarrow> (unit res \<times> 's disk) option" where
  "load_seed force ho dk =
     (case open_disk ho dk of (Inl e, dk1) \<Rightarrow> Some (Inl e, dk1)
      | (Inr _, dk1) \<Rightarrow>
     (case repo_migrate ho dk1 of (Inl e, dk2) \<Rightarrow> Some (Inl e, dk2)
      | (Inr _, dk2) \<Rightarrow>
     (case (if force then wipe (dk_tables dk2) else (Inr (), dk_tables dk2)) of
        (Inl e, d) \<Rightarrow> Some (Inl e, dk2\<lparr>dk_tables := d\<rparr>)
      | (Inr _, d) \<Rightarrow> sync_disk ho (dk2\<lparr>dk_tables := d\<rparr>))))"

section \<open>A server that does not start\<close>

definition demo_host :: "(string list, string list) host" where
  "demo_host = \<lparr>ho_open = None, ho_script = demo_script, ho_clock = (\<lambda>_. 0), ho_migrations = demo_dir, ho_wall = 0,
     ho_assets = (\<lambda>n. Inr (''text of '' @ n)), ho_template = (\<lambda>n. [n]), ho_parse = (\<lambda>s t. Inr (t @ [s]))\<rparr>"

definition demo_disk :: "string list disk" where
  "demo_disk = \<lparr>dk_schema = \<lparr>sm_schema = [], sm_versions = None, sm_faults = []\<rparr>, dk_tables = study_db\<rparr>"

text \<open>
  C32: the server does not start with a secret that is not hexadecimal or shorter than 32 bytes, nor
  without one in production; it does not touch the database then.
\<close>

theorem boot_refuses:
  assumes "env ''BOKI3_JWT_SECRET'' \<noteq> [] \<and> (\<forall>b. hex_decode (env ''BOKI3_JWT_SECRET'') = Inr b \<longrightarrow> length b < 32)
    \<or> env ''BOKI3_JWT_SECRET'' = [] \<and> equal_fold cf (env ''BOKI3_ENV'') ''production''"
  shows "\<exists>e. boot k cf static version env rand ho dk = Some (Inl e, dk)"
proof (cases "load_jwt_secret cf env rand (env ''BOKI3_JWT_SECRET'')")
  case (Inl e)
  then show ?thesis by (simp add: boot_def)
next
  case (Inr b)
  with assms show ?thesis by (auto simp: load_jwt_secret_def split: if_splits sum.splits)
qed

lemma boot_refuses_witness:
  "\<exists>e. boot demo_kdf (\<lambda>c. c) (\<lambda>r w. reply 200 NoBody w) ''dev'' (\<lambda>n. if n = ''BOKI3_JWT_SECRET'' then ''c0ffee'' else []) (\<lambda>_. Inr [])
     demo_host demo_disk = Some (Inl e, demo_disk)"
  by (rule boot_refuses) (simp add: hex_decode.simps hex_val_def byte_def)

definition demo_migrated :: "string list disk" where
  "demo_migrated = demo_disk\<lparr>dk_schema := \<lparr>sm_schema = [''init'', ''prefs''],
     sm_versions = Some (versioned (\<lambda>_. 0) [''0001_init.sql'', ''0002_user_prefs.sql'']), sm_faults = []\<rparr>\<rparr>"

lemma demo_disk_migrates: "repo_migrate demo_host demo_disk = (Inr (), demo_migrated)"
  by (simp add: repo_migrate_def demo_host_def demo_disk_def demo_migrate demo_migrated_def)

definition demo_rand :: "int \<Rightarrow> string res" where
  "demo_rand n = Inr (replicate (nat n) CHR ''r'')"

lemma demo_secret:
  "load_jwt_secret (\<lambda>c. c) (\<lambda>_. []) demo_rand ((\<lambda>_. []) ''BOKI3_JWT_SECRET'') = Inr (replicate 32 CHR ''r'')"
  by code_simp

lemma demo_working:
  "ho_open demo_host = None" "sm_faults (dk_schema demo_disk) = []" "\<not> env_bool (\<lambda>_. []) ''BOKI3_SKIP_SEED'' False"
  "accounts_ok (dk_tables demo_disk)" "quiz_ok (dk_tables demo_disk)" "faults (dk_tables demo_disk) = []"
  by (simp_all add: demo_host_def demo_disk_def study_accounts_ok study_db_ok study_db_tables, code_simp)

lemma demo_templates:
  obtains pages where "load_templates (ho_assets demo_host) (ho_template demo_host) (ho_parse demo_host) = Inr pages"
  by (simp add: load_templates_def demo_host_def page_names_def)

section \<open>The first requests\<close>

lemma open_disk_runs:
  assumes "ho_open ho = None" "sm_faults (dk_schema dk) = []"
  shows "open_disk ho dk = (Inr (), dk)"
  using assms by (simp add: open_disk_def open_db_def pragmas_def engine_works)

lemma migrated_tables: "repo_migrate ho dk = (r, dk') \<Longrightarrow> dk_tables dk' = dk_tables dk"
  by (auto simp: repo_migrate_def split: prod.splits)

lemma sync_disk_runs:
  assumes "quiz_ok (dk_tables dk)" "faults (dk_tables dk) = []" "generate = Some qs"
  obtains d where "sync_disk ho dk = Some (Inr (), dk\<lparr>dk_tables := d\<rparr>)" "holds_bank qs d" "faults d = []"
    "users d = users (dk_tables dk)" "sessions d = sessions (dk_tables dk)" "revocations d = revocations (dk_tables dk)"
    "attempts d = attempts (dk_tables dk)" "prefs d = prefs (dk_tables dk)"
    "srs_states d = filter (\<lambda>s. sr_question_id s \<notin> stale_ids (map sq_code qs) d) (srs_states (dk_tables dk))"
    "placed d = {(c, code) \<in> placed (dk_tables dk). code \<in> sq_code ` set qs} \<union> bank_places qs"
proof -
  obtain d where d: "sync_with qs (ho_wall ho) (dk_tables dk) = (Inr (), d)" "holds_bank qs d" "faults d = []"
    "users d = users (dk_tables dk)" "sessions d = sessions (dk_tables dk)" "revocations d = revocations (dk_tables dk)"
    "attempts d = attempts (dk_tables dk)" "prefs d = prefs (dk_tables dk)"
    "srs_states d = filter (\<lambda>s. sr_question_id s \<notin> stale_ids (map sq_code qs) d) (srs_states (dk_tables dk))"
    "placed d = {(c, code) \<in> placed (dk_tables dk). code \<in> sq_code ` set qs} \<union> bank_places qs"
    using sync_runs [OF assms(1,2) generated_bank_ok [OF assms(3)], of "ho_wall ho"] by (elim exE conjE)
  show thesis
    by (rule that [of d]) (use d in \<open>simp_all add: sync_disk_def sync_eq [OF assms(3)]\<close>)
qed

lemma start_server_runs:
  assumes "load_jwt_secret cf env rand (env ''BOKI3_JWT_SECRET'') = Inr key" "32 \<le> length key" "faults d = []"
  obtains sv wd where "start_server k cf static version env rand d = Inr (sv, wd)" "sv_secret sv = key" "wd_db wd = d"
proof -
  have quiet: "wd_db (snd (new_web_handler (server_web_config sv) wd)) = wd_db wd" if "faults (wd_db wd) = []" for sv wd
    using that
    by (simp add: new_web_handler_def server_web_config_def server_topics_def sqlite_topics_def on_db_def topic_list_all_def
        query_rows_no_faults split: prod.split sum.split)
  show thesis
    using assms that quiet [of "new_world env d"]
    by (simp add: start_server_def new_hs256_def Let_def new_world_def prod_eq_iff split: prod.splits)
qed

lemma held_everywhere:
  assumes "holds_bank qs d" "placed d = P \<union> bank_places qs"
  shows "\<forall>q\<in>set qs. \<exists>r. row q_code (questions d) (sq_code q) = Some r \<and> q_prompt r = sq_prompt q
    \<and> q_answer_json r = seed_answer q \<and> (\<forall>c\<in>set (sq_sets q). sq_code q \<in> q_code ` set (set_questions c d))"
proof
  fix q assume q: "q \<in> set qs"
  obtain r where r: "row q_code (questions d) (sq_code q) = Some r" "row_shows d q r" using held_row [OF assms(1) q] .
  have "sq_code q \<in> set (map q_code (set_questions c d))" if "c \<in> set (sq_sets q)" for c
    unfolding placed_set_questions assms(2) bank_places_def using q that by blast
  then show "\<exists>r. row q_code (questions d) (sq_code q) = Some r \<and> q_prompt r = sq_prompt q
      \<and> q_answer_json r = seed_answer q \<and> (\<forall>c\<in>set (sq_sets q). sq_code q \<in> q_code ` set (set_questions c d))"
    using r by (intro exI [of _ r]) (simp add: row_shows_def)
qed

lemma boot_runs:
  assumes "load_jwt_secret cf env rand (env ''BOKI3_JWT_SECRET'') = Inr key" "32 \<le> length key"
    and "ho_open ho = None" "sm_faults (dk_schema dk) = []" "repo_migrate ho dk = (Inr (), dk1)"
    and "load_templates (ho_assets ho) (ho_template ho) (ho_parse ho) = Inr pages" "\<not> env_bool env ''BOKI3_SKIP_SEED'' False"
    and "quiz_ok (dk_tables dk)" "faults (dk_tables dk) = []" "generate = Some qs"
  obtains d sv wd where "sync_disk ho dk1 = Some (Inr (), dk1\<lparr>dk_tables := d\<rparr>)"
    "boot k cf static version env rand ho dk = Some (Inr (sv, wd), dk1\<lparr>dk_tables := d\<rparr>)" "sv_secret sv = key" "wd_db wd = d"
    "holds_bank qs d" "faults d = []" "users d = users (dk_tables dk)" "accounts_ok (dk_tables dk) \<longrightarrow> accounts_ok d"
    "placed d = {(c, code) \<in> placed (dk_tables dk). code \<in> sq_code ` set qs} \<union> bank_places qs"
proof -
  have same: "dk_tables dk1 = dk_tables dk" by (rule migrated_tables) (rule assms(5))
  obtain d where d: "sync_disk ho dk1 = Some (Inr (), dk1\<lparr>dk_tables := d\<rparr>)" "holds_bank qs d" "faults d = []"
    "users d = users (dk_tables dk)" "sessions d = sessions (dk_tables dk)" "revocations d = revocations (dk_tables dk)"
    "prefs d = prefs (dk_tables dk)" "placed d = {(c, code) \<in> placed (dk_tables dk). code \<in> sq_code ` set qs} \<union> bank_places qs"
    by (rule sync_disk_runs [of dk1 qs ho, unfolded same, OF assms(8-10)])
  obtain sv wd where sv: "start_server k cf static version env rand d = Inr (sv, wd)" "sv_secret sv = key" "wd_db wd = d"
    using start_server_runs [OF assms(1,2) d(3)] .
  have started: "boot k cf static version env rand ho dk = Some (Inr (sv, wd), dk1\<lparr>dk_tables := d\<rparr>)"
    using assms(7) by (simp add: boot_def assms(1) open_disk_runs [OF assms(3,4)] assms(5,6) d(1) sv(1))
  have "accounts_ok (dk_tables dk) \<longrightarrow> accounts_ok d" using d(4-7) by (simp add: accounts_ok_def)
  with d sv started show thesis by (intro that)
qed

text \<open>
  C6: with a secret of 32 bytes or more, a working engine, scripts that succeed and templates that
  parse, the server starts and has the whole question bank; whatever requests it serves then, each
  question keeps its row and its sets, and the tables obey the constraints of the schema.
\<close>

theorem boot_serves_bank:
  assumes "load_jwt_secret cf env rand (env ''BOKI3_JWT_SECRET'') = Inr key" "32 \<le> length key"
    and "ho_open ho = None" "sm_faults (dk_schema dk) = []" "repo_migrate ho dk = (Inr (), dk1)"
    and "load_templates (ho_assets ho) (ho_template ho) (ho_parse ho) = Inr pages" "\<not> env_bool env ''BOKI3_SKIP_SEED'' False"
    and "accounts_ok (dk_tables dk)" "quiz_ok (dk_tables dk)" "faults (dk_tables dk) = []"
  shows "\<exists>qs sv wd dk2. generate = Some qs \<and> boot k cf static version env rand ho dk = Some (Inr (sv, wd), dk2)
    \<and> sv_secret sv = key \<and> users (wd_db wd) = users (dk_tables dk)
    \<and> (\<forall>rs. let d = wd_db (serve_all sv rs wd) in accounts_ok d \<and> quiz_ok d
         \<and> (\<forall>q\<in>set qs. \<exists>r. row q_code (questions d) (sq_code q) = Some r \<and> q_prompt r = sq_prompt q
              \<and> q_answer_json r = seed_answer q \<and> (\<forall>c\<in>set (sq_sets q). sq_code q \<in> q_code ` set (set_questions c d))))"
proof -
  obtain qs where qs: "generate = Some qs" using generate_eq by blast
  obtain d sv wd where run: "boot k cf static version env rand ho dk = Some (Inr (sv, wd), dk1\<lparr>dk_tables := d\<rparr>)"
    "sv_secret sv = key" "wd_db wd = d" and d: "holds_bank qs d" "users d = users (dk_tables dk)"
      "accounts_ok (dk_tables dk) \<longrightarrow> accounts_ok d"
      "placed d = {(c, code) \<in> placed (dk_tables dk). code \<in> sq_code ` set qs} \<union> bank_places qs"
    by (rule boot_runs [OF assms(1-7,9,10) qs])
  have "let d' = wd_db (serve_all sv rs wd) in accounts_ok d' \<and> quiz_ok d'
      \<and> (\<forall>q\<in>set qs. \<exists>r. row q_code (questions d') (sq_code q) = Some r \<and> q_prompt r = sq_prompt q
           \<and> q_answer_json r = seed_answer q \<and> (\<forall>c\<in>set (sq_sets q). sq_code q \<in> q_code ` set (set_questions c d')))" for rs
  proof -
    have kept: "program_kept d (wd_db (serve_all sv rs wd))"
      using serve_all_runs [of sv wd rs] unfolding runs_def run(3) by (rule program_steps_kept)
    then have eqs: "questions (wd_db (serve_all sv rs wd)) = questions d" "set_questions c (wd_db (serve_all sv rs wd)) = set_questions c d" for c
      by (simp_all add: program_kept_def fun_eq_iff)
    have "accounts_ok (wd_db (serve_all sv rs wd))" "quiz_ok (wd_db (serve_all sv rs wd))"
      using kept d(1,3) assms(8) by (simp_all add: program_kept_def holds_bank_def)
    then show ?thesis using held_everywhere [OF d(1,4)] unfolding Let_def eqs by blast
  qed
  moreover have "users (wd_db wd) = users (dk_tables dk)" by (simp add: run(3) d(2))
  ultimately show ?thesis using qs run(1,2) by (intro exI conjI allI) assumption+
qed

lemma boot_serves_bank_witness:
  "\<exists>sv wd dk. boot demo_kdf (\<lambda>c. c) (\<lambda>r w. reply 200 NoBody w) ''dev'' (\<lambda>_. []) demo_rand demo_host demo_disk
     = Some (Inr (sv, wd), dk) \<and> users (wd_db wd) = [demo_user]"
proof -
  obtain pages where pages: "load_templates (ho_assets demo_host) (ho_template demo_host) (ho_parse demo_host) = Inr pages"
    by (rule demo_templates)
  have "32 \<le> length (replicate 32 CHR ''r'')" by simp
  from boot_serves_bank [OF demo_secret this demo_working(1,2) demo_disk_migrates pages demo_working(3-6),
      of demo_kdf "\<lambda>r w. reply 200 NoBody w" "''dev''"]
  obtain sv wd dk where "boot demo_kdf (\<lambda>c. c) (\<lambda>r w. reply 200 NoBody w) ''dev'' (\<lambda>_. []) demo_rand demo_host demo_disk
      = Some (Inr (sv, wd), dk)" "users (wd_db wd) = users (dk_tables demo_disk)" by (elim exE conjE)
  then show ?thesis by (intro exI [of _ sv] exI [of _ wd] exI [of _ dk]) (simp add: demo_disk_def study_db_tables)
qed

section \<open>A restart\<close>

text \<open>The tables of the question bank are only written by the synchronisation.\<close>

lemma serve_all_own: "own_world UNIV wd (serve_all sv rs wd)"
proof (induction rs arbitrary: wd)
  case Nil
  show ?case by (simp add: own_world_def own_kept.R_refl)
next
  case (Cons a rs)
  obtain mo r where a: "a = (mo, r)" by fastforce
  have "own_world UNIV wd (snd (serve sv mo r wd))"
    by (rule own_frame.serve_frame) (simp_all add: run_frame.cookie_mine_def run_frame.token_mine_def)
  from own_frame.R_trans [OF this Cons.IH [of "snd (serve sv mo r wd)"]] show ?case by (simp add: a)
qed

lemma served_bank:
  assumes "holds_bank qs (wd_db wd)" "d = wd_db (serve_all sv rs wd)"
  shows "quiz_ok d" "\<forall>s\<in>set load_topics. topic_settled s d" "\<forall>s\<in>set load_sets. set_settled s d"
    "\<forall>q\<in>set qs. question_settled d q d" "retire_members (map sq_code qs) d = d"
proof -
  have bank: "topic_rows d = topic_rows (wd_db wd)" "questions d = questions (wd_db wd)"
    "question_sets d = question_sets (wd_db wd)" "members d = members (wd_db wd)"
    using serve_all_own [of wd sv rs] by (simp_all add: own_world_def own_def assms(2))
  have "placed d = placed (wd_db wd)" by (simp add: placed_def bank)
  then show "\<forall>s\<in>set load_topics. topic_settled s d" "\<forall>s\<in>set load_sets. set_settled s d"
    "\<forall>q\<in>set qs. question_settled d q d"
    using assms(1) by (simp_all add: holds_bank_def bank question_settled_def)
  have "program_kept (wd_db wd) d"
    using serve_all_runs [of sv wd rs] unfolding runs_def assms(2) by (rule program_steps_kept)
  then show "quiz_ok d" using assms(1) by (simp add: program_kept_def holds_bank_def)
  have "members (retired (map sq_code qs) (wd_db wd)) = members (wd_db wd)" using assms(1) by (simp add: holds_bank_def)
  then have "members (retire_members (map sq_code qs) d) = members d"
    by (simp add: retired_def retire_reviews_def retire_members_def stale_ids_def bank)
  then show "retire_members (map sq_code qs) d = d" by (simp add: retire_members_def)
qed

text \<open>
  C7: when the server is started again on the file a first run has left, after whatever requests and
  with the same migration files, it starts without running a script and leaves the tables as they
  are; only reviews of questions that are not in the bank go.
\<close>

theorem restart_keeps:
  assumes "load_jwt_secret cf env rand (env ''BOKI3_JWT_SECRET'') = Inr key" "32 \<le> length key"
    and "ho_open ho = None" "sm_faults (dk_schema dk) = []" "repo_migrate ho dk = (Inr (), dk1)"
    and "load_templates (ho_assets ho) (ho_template ho) (ho_parse ho) = Inr pages" "\<not> env_bool env ''BOKI3_SKIP_SEED'' False"
    and "quiz_ok (dk_tables dk)" "faults (dk_tables dk) = []"
    and "run_program k cf static version env rand ho rs e dk = Some (r, dk2)"
    and "sm_faults (dk_schema dk2) = []" "faults (dk_tables dk2) = []"
  shows "\<exists>qs sv wd. generate = Some qs
    \<and> boot k cf static version env rand (ho\<lparr>ho_script := script', ho_clock := clock', ho_wall := wall'\<rparr>) dk2
        = Some (Inr (sv, wd), dk2\<lparr>dk_tables := retire_reviews (map sq_code qs) (dk_tables dk2)\<rparr>)
    \<and> sv_secret sv = key \<and> wd_db wd = retire_reviews (map sq_code qs) (dk_tables dk2)"
proof -
  let ?ho = "ho\<lparr>ho_script := script', ho_clock := clock', ho_wall := wall'\<rparr>"
  obtain qs where qs: "generate = Some qs" using generate_eq by blast
  obtain d sv wd where run: "boot k cf static version env rand ho dk = Some (Inr (sv, wd), dk1\<lparr>dk_tables := d\<rparr>)"
    "wd_db wd = d" "holds_bank qs d"
    by (rule boot_runs [OF assms(1-9) qs])
  let ?d = "wd_db (serve_all sv rs wd)" and ?d2 = "retire_reviews (map sq_code qs) (dk_tables dk2)"
  have dk2: "dk2 = dk1\<lparr>dk_tables := ?d\<rparr>" using assms(10) by (simp add: run_program_def run(1))
  have left: "dk_tables dk2 = ?d" by (simp add: dk2)
  have "holds_bank qs (wd_db wd)" using run(2,3) by simp
  note held = served_bank [OF this left]
  have "migrate (ho_script ho) (ho_clock ho) ''migrations'' (ho_migrations ho) (dk_schema dk) = (Inr (), dk_schema dk2)"
    using assms(5) by (auto simp: repo_migrate_def dk2 split: prod.splits)
  from migrate_again [OF this assms(11), of script' clock']
  have migrated: "repo_migrate ?ho dk2 = (Inr (), dk2)" by (simp add: repo_migrate_def)
  have synced: "sync_disk ?ho dk2 = Some (Inr (), dk2\<lparr>dk_tables := ?d2\<rparr>)"
    using sync_held [OF held(1-4) assms(12) generated_bank_ok [OF qs], of wall'] held(5)
    by (simp add: sync_disk_def sync_eq [OF qs] retired_def retire_reviews_def retire_members_def stale_ids_def)
  obtain d' sv' wd' where again: "sync_disk ?ho dk2 = Some (Inr (), dk2\<lparr>dk_tables := d'\<rparr>)"
    "boot k cf static version env rand ?ho dk2 = Some (Inr (sv', wd'), dk2\<lparr>dk_tables := d'\<rparr>)"
    "sv_secret sv' = key" "wd_db wd' = d'"
    by (rule boot_runs [of cf env rand key ?ho dk2 dk2 pages qs k static version, OF assms(1,2) _ assms(11) migrated _ assms(7)
          held(1) assms(12) qs]) (use assms(3,6) in simp_all)
  have "dk2\<lparr>dk_tables := d'\<rparr> = dk2\<lparr>dk_tables := ?d2\<rparr>" using again(1) synced by simp
  from arg_cong [OF this, of dk_tables] have "d' = ?d2" by simp
  with again(2-4) have "boot k cf static version env rand ?ho dk2 = Some (Inr (sv', wd'), dk2\<lparr>dk_tables := ?d2\<rparr>)"
    "sv_secret sv' = key" "wd_db wd' = ?d2" by simp_all
  with qs show ?thesis by blast
qed

lemma restart_keeps_witness:
  "\<exists>dk sv wd d. run_program demo_kdf (\<lambda>c. c) (\<lambda>r w. reply 200 NoBody w) ''dev'' (\<lambda>_. []) demo_rand
      demo_host [] (Signalled (Inr ())) demo_disk = Some (Inr (), dk)
    \<and> boot demo_kdf (\<lambda>c. c) (\<lambda>r w. reply 200 NoBody w) ''dev'' (\<lambda>_. []) demo_rand
        (demo_host\<lparr>ho_script := \<lambda>_ _. Inl ErrInvalidInput, ho_clock := \<lambda>_. 1, ho_wall := 1\<rparr>) dk
        = Some (Inr (sv, wd), dk\<lparr>dk_tables := d\<rparr>)"
proof -
  obtain pages where pages: "load_templates (ho_assets demo_host) (ho_template demo_host) (ho_parse demo_host) = Inr pages"
    by (rule demo_templates)
  obtain qs where qs: "generate = Some qs" using generate_eq by blast
  have long: "32 \<le> length (replicate 32 CHR ''r'')" by simp
  obtain d sv wd where run: "boot demo_kdf (\<lambda>c. c) (\<lambda>r w. reply 200 NoBody w) ''dev'' (\<lambda>_. []) demo_rand demo_host demo_disk
      = Some (Inr (sv, wd), demo_migrated\<lparr>dk_tables := d\<rparr>)" "wd_db wd = d" "faults d = []"
    by (rule boot_runs [OF demo_secret long demo_working(1,2) demo_disk_migrates pages demo_working(3,5,6) qs])
  let ?dk = "demo_migrated\<lparr>dk_tables := d\<rparr>"
  have "run_program demo_kdf (\<lambda>c. c) (\<lambda>r w. reply 200 NoBody w) ''dev'' (\<lambda>_. []) demo_rand
      demo_host [] (Signalled (Inr ())) demo_disk = Some (Inr (), ?dk)"
    by (simp add: run_program_def run run_result_def)
  moreover from restart_keeps [OF demo_secret long demo_working(1,2) demo_disk_migrates pages demo_working(3,5,6) this,
      where script' = "\<lambda>_ _. Inl ErrInvalidInput" and clock' = "\<lambda>_. 1" and wall' = 1]
  obtain sv' wd' d' where "boot demo_kdf (\<lambda>c. c) (\<lambda>r w. reply 200 NoBody w) ''dev'' (\<lambda>_. []) demo_rand
        (demo_host\<lparr>ho_script := \<lambda>_ _. Inl ErrInvalidInput, ho_clock := \<lambda>_. 1, ho_wall := 1\<rparr>) ?dk
        = Some (Inr (sv', wd'), ?dk\<lparr>dk_tables := d'\<rparr>)"
    using run(3) by (auto simp: demo_migrated_def)
  ultimately show ?thesis by blast
qed

section \<open>A forced reload\<close>

definition emptied :: "db \<Rightarrow> db" where
  "emptied d = d\<lparr>topic_rows := [], questions := [], question_sets := [], members := [], attempts := [], srs_states := []\<rparr>"

lemma wipe_runs:
  assumes "quiz_ok d" "faults d = []"
  shows "wipe d = (Inr (), emptied d)"
proof -
  have gone: "filter (\<lambda>a. a_question_id a \<notin> q_id ` set (questions d)) (attempts d) = []"
    "filter (\<lambda>s. sr_question_id s \<notin> q_id ` set (questions d)) (srs_states d) = []"
    using assms(1) by (auto simp: quiz_ok_def filter_empty_conv)
  show ?thesis
    by (simp add: wipe_def exec_runs assms(2) delete_members_def delete_questions_def delete_sets_def delete_topics_def
        emptied_def gone)
qed

lemma emptied_ok: "quiz_ok (emptied d)" "placed (emptied d) = {}"
  by (simp_all add: quiz_ok_def emptied_def placed_def)

text \<open>
  C31: the seed loader with \<^verbatim>\<open>-force\<close> throws away the learning of every user: on a sound database it
  succeeds, no attempt and no review is left, and each set has exactly the questions of the bank;
  accounts, sessions and preferences stay.
\<close>

theorem force_reload_resets:
  assumes "ho_open ho = None" "sm_faults (dk_schema dk) = []" "repo_migrate ho dk = (Inr (), dk1)"
    and "quiz_ok (dk_tables dk)" "faults (dk_tables dk) = []"
  shows "\<exists>qs d. generate = Some qs \<and> load_seed True ho dk = Some (Inr (), dk1\<lparr>dk_tables := d\<rparr>) \<and> quiz_ok d
    \<and> attempts d = [] \<and> srs_states d = []
    \<and> (\<forall>c. set (map q_code (set_questions c d)) = {sq_code q | q. q \<in> set qs \<and> c \<in> set (sq_sets q)})
    \<and> users d = users (dk_tables dk) \<and> sessions d = sessions (dk_tables dk) \<and> prefs d = prefs (dk_tables dk)"
proof -
  obtain qs where qs: "generate = Some qs" using generate_eq by blast
  have same: "dk_tables dk1 = dk_tables dk" by (rule migrated_tables) (rule assms(3))
  let ?dk = "dk1\<lparr>dk_tables := emptied (dk_tables dk)\<rparr>"
  have w: "quiz_ok (dk_tables ?dk)" "faults (dk_tables ?dk) = []"
    using assms(5) by (simp_all add: emptied_ok) (simp add: emptied_def)
  obtain d where d: "sync_disk ho ?dk = Some (Inr (), ?dk\<lparr>dk_tables := d\<rparr>)" "holds_bank qs d"
    "users d = users (dk_tables ?dk)" "sessions d = sessions (dk_tables ?dk)" "attempts d = attempts (dk_tables ?dk)"
    "prefs d = prefs (dk_tables ?dk)"
    "srs_states d = filter (\<lambda>s. sr_question_id s \<notin> stale_ids (map sq_code qs) d) (srs_states (dk_tables ?dk))"
    "placed d = {(c, code) \<in> placed (dk_tables ?dk). code \<in> sq_code ` set qs} \<union> bank_places qs"
    by (rule sync_disk_runs [OF w qs, of ho])
  have "load_seed True ho dk = Some (Inr (), dk1\<lparr>dk_tables := d\<rparr>)"
    using d(1) by (simp add: load_seed_def open_disk_runs [OF assms(1,2)] assms(3) same wipe_runs [OF assms(4,5)])
  moreover have "set (map q_code (set_questions c d)) = {sq_code q | q. q \<in> set qs \<and> c \<in> set (sq_sets q)}" for c
    unfolding placed_set_questions d(8) bank_places_def by (auto simp: emptied_ok)
  moreover have "quiz_ok d" using d(2) by (simp add: holds_bank_def)
  moreover have "attempts d = []" "srs_states d = []" "users d = users (dk_tables dk)" "sessions d = sessions (dk_tables dk)"
    "prefs d = prefs (dk_tables dk)" using d(3-7) by (simp_all add: emptied_def)
  ultimately show ?thesis using qs by (intro exI conjI allI)
qed

lemma force_reload_resets_witness:
  "\<exists>dk. load_seed True demo_host demo_disk = Some (Inr (), dk) \<and> users (dk_tables dk) = [demo_user]"
  using force_reload_resets [OF demo_working(1,2) demo_disk_migrates demo_working(5,6)]
  by (force simp: demo_disk_def study_db_tables)

end
