(* ===== verification/Replies.thy ===== *)
theory Replies
  imports Demo
begin

text \<open>
  The replies of the server: there always is one, and it carries the security headers.
\<close>

section \<open>Headers that stay\<close>

definition security_fields :: "string \<Rightarrow> (string \<times> string) list" where
  "security_fields nonce =
     [(''Content-Security-Policy'', csp_of nonce), (''X-Content-Type-Options'', ''nosniff''),
      (''X-Frame-Options'', ''DENY''), (''Referrer-Policy'', ''strict-origin-when-cross-origin''),
      (''Permissions-Policy'', ''camera=(), microphone=(), geolocation=()''),
      (''Strict-Transport-Security'', ''max-age=31536000; includeSubDomains'')]"

definition secured :: "string \<Rightarrow> writer \<Rightarrow> bool" where
  "secured nonce w \<longleftrightarrow> (\<forall>(k, v)\<in>set (security_fields nonce). wr_header w k = Some v)"

fun writer_of :: "'p outcome \<Rightarrow> writer" where
  "writer_of (Replied x) = rp_writer x"
| "writer_of (Panicked w) = w"

definition kept :: "string \<Rightarrow> 'p outcome \<Rightarrow> bool" where
  "kept nonce out \<longleftrightarrow> secured nonce (writer_of out)"

lemma secured_cookie [simp]: "secured n (set_cookie c w) = secured n w"
  by (simp add: secured_def)

lemma secured_plain [simp]:
  "secured n w \<Longrightarrow> secured n (set_header ''Content-Type'' v w)"
  "secured n w \<Longrightarrow> secured n (set_header ''Location'' v w)"
  "secured n w \<Longrightarrow> secured n (set_header ''Allow'' v w)"
  "secured n w \<Longrightarrow> secured n (set_header ''Retry-After'' v w)"
  "secured n w \<Longrightarrow> secured n (set_header ''X-Content-Type-Options'' ''nosniff'' w)"
  "secured n w \<Longrightarrow> secured n (set_header ''Vary'' v w)"
  "secured n w \<Longrightarrow> secured n (set_header ''Access-Control-Allow-Origin'' v w)"
  "secured n w \<Longrightarrow> secured n (set_header ''Access-Control-Allow-Credentials'' v w)"
  "secured n w \<Longrightarrow> secured n (set_header ''Access-Control-Allow-Methods'' v w)"
  "secured n w \<Longrightarrow> secured n (set_header ''Access-Control-Allow-Headers'' v w)"
  "secured n w \<Longrightarrow> secured n (set_header ''Access-Control-Max-Age'' v w)"
  by (auto simp: secured_def security_fields_def)

lemma kept_reply: "secured n w \<Longrightarrow> kept n (reply c b w)"
  by (simp add: kept_def reply_def)

lemma kept_leaf:
  assumes "secured n w"
  shows "kept n (http_error m c w)" "kept n (http_redirect r u c w)" "kept n (redirect_or_json r p m c w)"
    "kept n (render w name v)" "kept n (write_json c j w)" "kept n (write_error c m w)" "kept n (Panicked w)"
  using assms
  by (auto simp: http_error_def http_redirect_def redirect_or_json_def render_def write_json_def write_error_def
      Let_def kept_reply kept_def [of n "Panicked w"])

lemma kept_if: "kept n a \<Longrightarrow> kept n b \<Longrightarrow> kept n (if c then a else b)"
  by simp

lemma kept_rules:
  "kept n (fst (x, s)) = kept n x"
  "(\<And>y z. kept n (fst (f y z))) \<Longrightarrow> kept n (fst (case p of (y, z) \<Rightarrow> f y z))"
  "(\<And>e. kept n (fst (g e))) \<Longrightarrow> (\<And>y. kept n (fst (h y))) \<Longrightarrow> kept n (fst (case q of Inl e \<Rightarrow> g e | Inr y \<Rightarrow> h y))"
  "kept n (fst a) \<Longrightarrow> (\<And>y. kept n (fst (k y))) \<Longrightarrow> kept n (fst (case o' of None \<Rightarrow> a | Some y \<Rightarrow> k y))"
  "kept n (fst a) \<Longrightarrow> kept n (fst b) \<Longrightarrow> kept n (fst (if c then a else b))"
  "kept n (fst a) \<Longrightarrow> kept n (fst b) \<Longrightarrow> kept n (fst (case c of True \<Rightarrow> a | False \<Rightarrow> b))"
  by (simp_all split: prod.split sum.split option.split bool.split)

lemmas kept_intros = kept_rules(2-) kept_if kept_rules(1) [THEN iffD2] kept_leaf kept_reply

lemma secured_session_cookies: "secured n w \<Longrightarrow> secured n (set_session_cookies c x w)"
  "secured n w \<Longrightarrow> secured n (clear_session_cookies c w)"
  by (simp_all add: set_session_cookies_def clear_session_cookies_def)

section \<open>Handlers\<close>

lemma public_kept:
  assumes "secured n w"
  shows "kept n (fst (home h mo r w s))" "kept n (fst (post_login h mo r w s))"
    "kept n (fst (post_register h mo r w s))"
  unfolding home_def post_login_def post_register_def Let_def
  by (intro kept_intros secured_session_cookies assms)+

lemma form_kept:
  assumes "secured n w"
  shows "kept n (fst (get_login h mo r w s))" "kept n (fst (get_register h mo r w s))"
proof -
  have "secured n w1" if "ensure_csrf_cookie c mo r w = Inr (t, w1)" for c t w1
    using that assms by (auto simp: ensure_csrf_cookie_def Let_def split: option.splits sum.splits if_splits)
  then have "kept n (fst (get_form a b h mo r w s))" for a b
    unfolding get_form_def using assms
    by (auto split: sum.split prod.split intro!: kept_leaf)
  then show "kept n (fst (get_login h mo r w s))" "kept n (fst (get_register h mo r w s))"
    by (simp_all add: get_login_def get_register_def)
qed

lemma page_kept:
  assumes "secured n w"
  shows "kept n (fst (get_quiz h mo r w s))" "kept n (fst (post_quiz_answer h mo r w s))"
    "kept n (fst (get_progress h mo r w s))" "kept n (fst (get_history h mo r w s))"
    "kept n (fst (post_history_clear h mo r w s))" "kept n (fst (post_history_delete h mo r w s))"
    "kept n (fst (get_settings h mo r w s))" "kept n (fst (post_settings_password h mo r w s))"
    "kept n (fst (post_logout h mo r w s))"
  unfolding get_quiz_def post_quiz_answer_def get_progress_def get_history_def post_history_clear_def
    post_history_delete_def get_settings_def post_settings_password_def post_logout_def with_user_def Let_def
  by (intro kept_intros secured_session_cookies assms)+

lemma api_kept:
  assumes "secured n w"
  shows "kept n (fst (api_login c mo r w s))" "kept n (fst (api_logout c mo r w s))"
    "kept n (fst (api_next c mo r w s))" "kept n (fst (api_answer c mo r w s))"
    "kept n (fst (api_history c mo r w s))" "kept n (fst (api_delete_attempt c mo r w s))"
    "kept n (fst (api_summary c mo r w s))"
  unfolding api_login_def api_logout_def api_next_def api_answer_def api_history_def api_delete_attempt_def
    api_summary_def Let_def
  by (intro kept_intros assms)+

section \<open>Guards and routes\<close>

lemma web_authed_kept:
  assumes inner: "\<And>mo r w s. secured n w \<Longrightarrow> kept n (fst (inner mo r w s))" and w: "secured n w"
  shows "kept n (fst (web_authed h inner mo r w s))"
proof -
  have "kept n (fst (csrf_guard c inner mo r w s))" for c mo r s
    unfolding csrf_guard_def Let_def by (intro kept_intros w inner)
  then show ?thesis
    unfolding web_authed_def session_guard_def Let_def by (intro kept_intros w)
qed

lemma api_authed_kept:
  assumes inner: "\<And>mo r w s. secured n w \<Longrightarrow> kept n (fst (inner mo r w s))" and w: "secured n w"
  shows "kept n (fst (api_authed c inner mo r w s))"
proof -
  define hl where "hl = (case apc_user_limit c of None \<Rightarrow> inner | Some rl \<Rightarrow> limit_user rl inner)"
  have "kept n (fst (limit_user rl inner mo r w s))" for rl mo r s
    unfolding limit_user_def by (intro kept_intros w inner)
  then have hl: "kept n (fst (hl mo r w s))" for mo r s
    using inner [OF w] by (simp add: hl_def split: option.split)
  show ?thesis
    unfolding api_authed_def jwt_bearer_def Let_def hl_def [symmetric] by (intro kept_intros w hl secured_plain)
qed

lemma routes_kept:
  assumes w: "secured n w" and static: "kept n (sv_static sv r w)" and "(m, pat, hl) \<in> set (server_routes sv)"
  shows "kept n (fst (hl mo r w s))"
proof -
  have "kept n (fst (plain_page t mo r w s))" for t :: string
    unfolding plain_page_def by (intro kept_intros w secured_plain)
  then show ?thesis
    using assms(2,3) w
    by (auto simp: server_routes_def web_routes_def api_routes_def healthz_def version_handler_def
        intro!: public_kept form_kept web_authed_kept page_kept api_authed_kept api_kept)
qed

lemma mux_kept:
  assumes w: "secured n w" and static: "\<And>r. kept n (sv_static sv r w)"
  shows "kept n (fst (mux (server_routes sv) mo r w s))"
proof -
  have "\<exists>m pat. (m, pat, hl) \<in> set rs" if "pick_route rs r = Some (bd, hl)" for bd hl and rs :: "world route list"
    using that by (induction rs) (fastforce split: if_splits option.splits)+
  then show ?thesis
    using routes_kept [OF w static] w
    by (fastforce simp: mux_def no_route_def Let_def intro!: kept_leaf split: option.split)
qed

text \<open>
  C5: every request gets a reply, a handler that panics included.  With random bytes for the nonce
  the reply carries the security headers, whatever it is a reply to; without them it is an
  internal error.  The handler of the static files is taken to leave those headers alone.
\<close>

theorem secure_replies:
  assumes static: "\<And>r w. secured (hex_encode b) w \<Longrightarrow> kept (hex_encode b) (sv_static sv r w)"
  shows "\<exists>x. fst (serve sv mo r wd) = Replied x
     \<and> (mo_rand (later mo) 0 16 = Inr b \<longrightarrow> secured (hex_encode b) (rp_writer x))
     \<and> (\<forall>e. mo_rand (later mo) 0 16 = Inl e \<longrightarrow> rp_status x = 500)"
proof -
  let ?n = "hex_encode b"
  have cors: "kept ?n (fst (cors cfg (mux (server_routes sv)) mo r w s))" if "secured ?n w" for cfg mo r w s
  proof -
    have "secured ?n (cors_headers cfg t w)" for t
      using that by (simp add: cors_headers_def Let_def)
    then show ?thesis
      using that static by (auto simp: cors_def Let_def intro!: mux_kept kept_reply)
  qed
  have limited: "kept ?n (fst (rate_limit_by_ip rl (cors cfg (mux (server_routes sv))) mo r w s))"
    if w: "secured ?n w" for rl cfg mo r w s
    unfolding rate_limit_by_ip_def by (intro kept_intros cors w secured_plain)
  have recover: "\<exists>x. fst (recover_panic g mo r w s) = Replied x \<and> (kept ?n (fst (g mo r w s)) \<longrightarrow> secured ?n (rp_writer x))
      \<and> (\<forall>y. fst (g mo r w s) = Replied y \<longrightarrow> x = y)" for g :: "(page, world) handler" and mo r w s
    by (auto simp: recover_panic_def kept_def http_error_def reply_def split: prod.split outcome.split)
  let ?w = "set_header ''X-Request-ID''"
  have outer: "kept ?n (fst (security_headers (body_limit n (rate_limit_by_ip rl (cors cfg (mux (server_routes sv))))) m r w s))"
    if "mo_rand m 0 16 = Inr b" for n rl cfg m r w s
  proof -
    have "secured ?n (set_header ''Strict-Transport-Security'' ''max-age=31536000; includeSubDomains''
      (set_header ''Permissions-Policy'' ''camera=(), microphone=(), geolocation=()''
      (set_header ''Referrer-Policy'' ''strict-origin-when-cross-origin''
      (set_header ''X-Frame-Options'' ''DENY'' (set_header ''X-Content-Type-Options'' ''nosniff''
      (set_header ''Content-Security-Policy'' (csp_of ?n) w))))))"
      by (simp add: secured_def security_fields_def)
    then show ?thesis
      by (simp add: security_headers_def body_limit_def that Let_def limited)
  qed
  obtain r1 w1 where step: "request_id (access_log (security_headers (body_limit (2 ^ 20)
      (rate_limit_by_ip global_limiter (cors (cors_settings sv) (mux (server_routes sv))))))) mo r new_writer wd
    = security_headers (body_limit (2 ^ 20)
      (rate_limit_by_ip global_limiter (cors (cors_settings sv) (mux (server_routes sv))))) (later mo) r1 w1 wd"
    by (simp add: request_id_def access_log_def Let_def)
  have failing: "\<exists>y. fst (security_headers g m r w s) = Replied y \<and> rp_status y = 500"
    if "mo_rand m 0 16 = Inl e" for g m r w s e
    using that by (simp add: security_headers_def http_error_def reply_def)
  show ?thesis
    unfolding serve_def server_handler_def chain_simps
    using recover [of "request_id (access_log (security_headers (body_limit (2 ^ 20)
      (rate_limit_by_ip global_limiter (cors (cors_settings sv) (mux (server_routes sv)))))))" mo r new_writer wd]
    unfolding step
    using outer failing by fastforce
qed

theorem secure_replies_witness:
  "\<exists>x. fst (serve demo_server demo_moment (demo_request ''GET'' ''/quiz'') demo_world) = Replied x
     \<and> wr_header (rp_writer x) ''X-Frame-Options'' = Some ''DENY''"
proof -
  let ?b = "replicate 16 (CHR ''r'')"
  have "secured (hex_encode ?b) w \<Longrightarrow> kept (hex_encode ?b) (sv_static demo_server r w)" for r w
    by (simp add: demo_server_def kept_reply)
  from secure_replies [OF this, of demo_moment "demo_request ''GET'' ''/quiz''" demo_world]
  show ?thesis by (auto simp: secured_def security_fields_def)
qed

end
