(* ===== verification/Guards.thy ===== *)
theory Guards
  imports Requests
begin

text \<open>
  What the guards before the handlers keep out: requests without credentials, and forged requests
  with the cookies of somebody who is signed in.
\<close>

section \<open>The way to a handler\<close>

lemma pick_routeD:
  "pick_route rs r = Some (bd, hl) \<Longrightarrow>
   \<exists>m pat. (m, pat, hl) \<in> set rs \<and> method_matches m (rq_method r) \<and> match_pattern pat (rq_path r) = Some bd"
  by (induction rs) (fastforce split: if_splits option.splits)+

definition past_middleware :: "request \<Rightarrow> request_context \<Rightarrow> request" where
  "past_middleware r c = r\<lparr>rq_ctx := c, rq_body_limit := Some (2 ^ 20)\<rparr>"

lemma past_middleware_simps [simp]:
  "rq_method (past_middleware r c) = rq_method r" "rq_path (past_middleware r c) = rq_path r"
  "rq_header (past_middleware r c) = rq_header r" "rq_cookie (past_middleware r c) = rq_cookie r"
  "rq_form (past_middleware r c) = rq_form r" "rq_parsed (past_middleware r c) = rq_parsed r"
  "rq_body_limit (past_middleware r c) = Some (2 ^ 20)"
  by (simp_all add: past_middleware_def)

text \<open>The second moment comes after the first.\<close>

definition follows :: "moment \<Rightarrow> moment \<Rightarrow> bool" where
  "follows mo mo' \<longleftrightarrow> (\<exists>k. \<forall>n. mo_now mo' n = mo_now mo (n + k))"

lemma follows_later: "follows mo mo' \<Longrightarrow> follows mo (later mo')"
  by (auto simp: follows_def later_def add.assoc intro: exI [of _ "_ + 2"])

lemma follows_refl: "follows mo mo"
  unfolding follows_def by (rule exI [of _ 0]) simp

lemma followsD: "follows mo mo' \<Longrightarrow> mo_now mo' n \<in> range (mo_now mo)"
  by (auto simp: follows_def)

text \<open>What a reply that shows nothing looks like\<close>

definition bare :: "page body \<Rightarrow> bool" where
  "bare b \<longleftrightarrow> (case b of NoBody \<Rightarrow> True | Plain _ \<Rightarrow> True | PageBody _ \<Rightarrow> False
     | JsonBody j \<Rightarrow> (case j of JObj [(k, JStr _)] \<Rightarrow> k = ''error'' | _ \<Rightarrow> False))"

lemma bare_simps [simp]: "bare NoBody" "bare (Plain t)" "bare (JsonBody (JObj [(''error'', JStr e)]))"
  by (simp_all add: bare_def)

lemma serve_cases:
  obtains (turned_away) x where "fst (serve sv mo r wd) = Replied x" "rp_status x \<in> {204, 429, 500}" "bare (rp_body x)"
      "wd_db (snd (serve sv mo r wd)) = wd_db wd"
  | (routed) mo' c w s where "wd_db s = wd_db wd" "follows mo mo'"
      "snd (serve sv mo r wd) = snd (mux (server_routes sv) mo' (past_middleware r c) w s)"
      "\<And>x. fst (mux (server_routes sv) mo' (past_middleware r c) w s) = Replied x \<Longrightarrow> fst (serve sv mo r wd) = Replied x"
proof -
  define inner where "inner = rate_limit_by_ip global_limiter (cors (cors_settings sv) (mux (server_routes sv)))"
  have serve: "serve sv mo r wd = recover_panic (request_id (access_log (security_headers (body_limit (2 ^ 20) inner)))) mo r new_writer wd"
    by (simp add: serve_def server_handler_def inner_def)
  obtain c1 w1 where step: "request_id (access_log (security_headers (body_limit (2 ^ 20) inner))) mo r new_writer wd
    = security_headers (body_limit (2 ^ 20) inner) (later mo) (r\<lparr>rq_ctx := c1\<rparr>) w1 wd"
    by (simp add: request_id_def access_log_def Let_def)
  have recover: "snd (recover_panic g m q w s) = snd (g m q w s)"
    "fst (g m q w s) = Replied x \<Longrightarrow> fst (recover_panic g m q w s) = Replied x" for g :: "(page, world) handler" and m q w s x
    by (cases "g m q w s"; auto simp: recover_panic_def split: outcome.split)+
  note out = recover [of "request_id (access_log (security_headers (body_limit (2 ^ 20) inner)))" mo r new_writer wd,
      unfolded step, folded serve]
  show thesis
  proof (cases "mo_rand (later mo) 0 16")
    case (Inl e)
    then show thesis
      using out by (intro turned_away) (auto simp: security_headers_def http_error_def reply_def)
  next
    case (Inr b)
    obtain c2 w2 where nonce: "security_headers (body_limit (2 ^ 20) inner) (later mo) (r\<lparr>rq_ctx := c1\<rparr>) w1 wd
        = inner (later (later mo)) (past_middleware r c2) w2 wd"
      by (simp add: security_headers_def body_limit_def Inr Let_def past_middleware_def)
    let ?m = "later (later mo)" and ?r = "past_middleware r c2"
    obtain ok s where lim: "rl_allow global_limiter ?m (client_ip ?r) wd = (ok, s)" by fastforce
    have s: "wd_db s = wd_db wd" using limiters_db(1) [of ?m "client_ip ?r" wd] by (simp add: lim)
    show thesis
    proof (cases "ok \<and> rq_method r \<noteq> ''OPTIONS''")
      case True
      then obtain w3 where "inner ?m ?r w2 wd = mux (server_routes sv) (later ?m) ?r w3 s"
        by (simp add: inner_def rate_limit_by_ip_def lim cors_def Let_def)
      then show thesis
        using out s unfolding nonce by (intro routed) (auto intro: follows_later follows_refl)
    next
      case False
      then obtain x where "inner ?m ?r w2 wd = (Replied x, s)" "rp_status x \<in> {204, 429}" "bare (rp_body x)"
        by (cases ok) (auto simp: inner_def rate_limit_by_ip_def lim cors_def http_error_def reply_def Let_def)
      then show thesis
        using out s unfolding nonce by (intro turned_away) auto
    qed
  qed
qed

section \<open>Requests without credentials\<close>

text \<open>The paths whose routes stand without a guard\<close>

definition entry_paths :: "string list set" where
  "entry_paths = {[''login''], [''register''], [''api'', ''v1'', ''auth'', ''login'']}"

definition public_path :: "string \<Rightarrow> bool" where
  "public_path p \<longleftrightarrow> has_prefix p ''/static/''
     \<or> path_segments p \<in> entry_paths \<union> {[[]], [''healthz''], [''readyz''], [''version'']}"

lemma match_lits:
  "match_segments (map Lit ls) bs = Some bd \<longleftrightarrow> bs = ls \<and> bd = []"
proof (induction ls arbitrary: bs)
  case Nil
  then show ?case by (cases bs) auto
next
  case (Cons l ls)
  then show ?case by (cases bs) auto
qed

lemma match_one: "match_segments [Lit a] bs = Some bd \<Longrightarrow> bs = [a]"
  using match_lits [of "[a]" bs bd] by simp

lemma match_login: "match_segments [Lit ''api'', Lit ''v1'', Lit ''auth'', Lit ''login''] bs = Some bd
    \<Longrightarrow> bs = [''api'', ''v1'', ''auth'', ''login'']"
  using match_lits [of "[''api'', ''v1'', ''auth'', ''login'']" bs bd] by simp

text \<open>The routes behind the guards, and those in front of them\<close>

lemma route_cases:
  assumes "(m, pat, hl) \<in> set (server_routes sv)" "match_pattern pat p = Some bd"
  obtains (web) inner where "hl = web_authed (server_web sv) inner"
  | (api) inner where "hl = api_authed (server_api sv) inner"
  | (entry) "m = ''POST''" "path_segments p \<in> entry_paths"
      "hl \<in> {post_login (server_web sv), post_register (server_web sv), api_login (server_api sv)}"
  | (public) "m = ''GET''" "public_path p"
proof -
  have "(\<exists>inner. hl = web_authed (server_web sv) inner) \<or> (\<exists>inner. hl = api_authed (server_api sv) inner)
    \<or> m = ''GET'' \<and> pat \<in> {Path [Lit []], Path [Lit ''login''], Path [Lit ''register''], Below ''/static/'',
        Path [Lit ''healthz''], Path [Lit ''readyz''], Path [Lit ''version'']}
    \<or> m = ''POST'' \<and> pat \<in> {Path [Lit ''login''], Path [Lit ''register''], api_path [Lit ''auth'', Lit ''login'']}
        \<and> hl \<in> {post_login (server_web sv), post_register (server_web sv), api_login (server_api sv)}"
    using assms(1)
    unfolding server_routes_def web_routes_def api_routes_def set_append set_simps Un_iff insert_iff empty_iff prod.inject
    apply (elim disjE conjE)
    apply ((rule disjI1, rule exI, assumption) | (rule disjI2, rule disjI1, rule exI, assumption) | simp)+
    done
  then show thesis
  proof (elim disjE exE conjE)
    assume get: "m = ''GET''" "pat \<in> {Path [Lit []], Path [Lit ''login''], Path [Lit ''register''], Below ''/static/'',
        Path [Lit ''healthz''], Path [Lit ''readyz''], Path [Lit ''version'']}"
    then have "public_path p"
      using assms(2)
      by (auto simp: match_pattern_def public_path_def entry_paths_def split: if_splits dest!: match_one)
    with get(1) show thesis by (rule public)
  next
    assume post: "m = ''POST''" "pat \<in> {Path [Lit ''login''], Path [Lit ''register''], api_path [Lit ''auth'', Lit ''login'']}"
      "hl \<in> {post_login (server_web sv), post_register (server_web sv), api_login (server_api sv)}"
    then have "path_segments p \<in> entry_paths"
      using assms(2) by (auto simp: match_pattern_def api_path_def entry_paths_def dest!: match_one match_login)
    with post(1) show thesis using post(3) by (rule entry)
  qed (erule web api)+
qed

lemma entry_route:
  assumes "(m, pat, hl) \<in> set (server_routes sv)" "match_pattern pat p = Some bd" "path_segments p \<in> entry_paths" "m \<noteq> ''GET''"
  shows "hl \<in> {post_login (server_web sv), post_register (server_web sv), api_login (server_api sv)}"
  using assms(1)
  unfolding server_routes_def web_routes_def api_routes_def set_append set_simps Un_iff insert_iff empty_iff prod.inject
  apply (elim disjE conjE)
  apply (use assms(2-4) in \<open>auto simp: match_pattern_def api_path_def entry_paths_def\<close>)
  done


lemma unknown_token:
  assumes "\<And>now c. parse (sv_signer sv) now tok \<noteq> Inr c"
  shows "aat_verify_token (server_api_auth sv) mo tok s = (Inl ErrTokenInvalid, s)"
  using assms
  by (auto simp: server_api_auth_def on_db_def verify_token_def api_auth_of_def split: sum.split)


lemma token_refused:
  assumes "has_prefix (rq_header r ''Authorization'') ''Bearer '' \<Longrightarrow>
    \<forall>now c. parse (sv_signer sv) now (trim_prefix (rq_header r ''Authorization'') ''Bearer '') \<noteq> Inr c"
  shows "\<exists>w'. api_authed (server_api sv) inner mo r w s
    = (reply 401 (JsonBody (JObj [(''error'', JStr ''unauthenticated'')])) w', s)"
  using assms unknown_token [of sv "trim_prefix (rq_header r ''Authorization'') ''Bearer ''" mo s]
  by (auto simp: api_authed_def jwt_bearer_def server_api_def Let_def)





section \<open>Forged requests\<close>

text \<open>
  Signing in or up adds a session and at most an account, and leaves the other tables alone.
\<close>

definition entered :: "db \<Rightarrow> db \<Rightarrow> bool" where
  "entered d d' \<longleftrightarrow> (\<exists>us ss fs. d' = d\<lparr>users := users d @ us, sessions := sessions d @ ss, faults := fs\<rparr>)"

text \<open>
  The guard of the sessions only touches the session \<open>c\<close>: it notes when it was seen last, or removes
  it when it has expired at one of the times \<open>T\<close>.
\<close>

definition upkept :: "time set \<Rightarrow> string option \<Rightarrow> db \<Rightarrow> db \<Rightarrow> bool" where
  "upkept T c d d' \<longleftrightarrow> (\<exists>ss fs. d' = d\<lparr>sessions := ss, faults := fs\<rparr>
     \<and> filter (\<lambda>x. c \<noteq> Some (s_id x)) ss = filter (\<lambda>x. c \<noteq> Some (s_id x)) (sessions d)
     \<and> (\<forall>y\<in>set ss. \<exists>x\<in>set (sessions d). y = x\<lparr>s_last_seen_at := s_last_seen_at y\<rparr>)
     \<and> (\<forall>i\<in>s_id ` set (sessions d) - s_id ` set ss. \<exists>x\<in>set (sessions d). s_id x = i \<and> (\<exists>t\<in>T. is_expired x t)))"

lemma same_tables_eq:
  assumes "same_tables d d'"
  obtains fs where "d' = d\<lparr>faults := fs\<rparr>"
  using assms unfolding same_tables_def by blast

lemma entered_same: "same_tables d d' \<Longrightarrow> entered d d'"
  unfolding entered_def
  by (erule same_tables_eq, rule exI [of _ "[]"], rule exI [of _ "[]"]) auto

lemma upkept_id: "upkept T c d (d\<lparr>faults := fs\<rparr>)"
proof -
  have "\<forall>y\<in>set (sessions d). \<exists>x\<in>set (sessions d). y = x\<lparr>s_last_seen_at := s_last_seen_at y\<rparr>"
    by (intro ballI, rule bexI) auto
  then show ?thesis unfolding upkept_def by (intro exI [of _ "sessions d"] exI [of _ fs]) simp
qed

lemma upkept_same: "same_tables d d' \<Longrightarrow> upkept T c d d'"
  by (erule same_tables_eq) (simp add: upkept_id)

lemma entered_own: "entered d d' \<Longrightarrow> own {} d d'"
  by (auto simp: entered_def own_def)

lemma upkept_own: "upkept T c d d' \<Longrightarrow> own {} d d'"
  by (auto simp: upkept_def own_def)

interpretation entering: framed_store entered
proof
  show "entered d d" for d by (simp add: entered_same)
  show "entered d d2" if "entered d d1" "entered d1 d2" for d d1 d2
  proof -
    from that obtain us ss fs us' ss' fs' where "d1 = d\<lparr>users := users d @ us, sessions := sessions d @ ss, faults := fs\<rparr>"
      "d2 = d1\<lparr>users := users d1 @ us', sessions := sessions d1 @ ss', faults := fs'\<rparr>"
      unfolding entered_def by (elim exE)
    then have "d2 = d\<lparr>users := users d @ us @ us', sessions := sessions d @ ss @ ss', faults := fs'\<rparr>" by simp
    then show ?thesis unfolding entered_def by blast
  qed
qed (rule entered_same)

lemma entered_inserts:
  "entered d (snd (insert_user v d))" "entered d (snd (insert_session z d))"
proof -
  have "entered d (d\<lparr>users := users d @ us\<rparr>)" "entered d (d\<lparr>sessions := sessions d @ ss\<rparr>)" for us ss
    unfolding entered_def
    by (rule exI [of _ us], rule exI [of _ "[]"], rule exI [of _ "faults d"], simp,
        rule exI [of _ "[]"], rule exI [of _ ss], rule exI [of _ "faults d"], simp)
  then show "entered d (snd (insert_user v d))" "entered d (snd (insert_session z d))"
    by (simp_all add: insert_user_def insert_session_def Let_def entering.R_refl)
qed

lemma entered_writes:
  "entered d (snd (user_create wall u d))" "entered d (snd (session_create wall x d))"
  unfolding user_create_def session_create_def Let_def
  by (intro entering.R_rules entering.R_statement entered_inserts)+

lemma entered_auth:
  "entered d (snd (register (new_auth_service k p cfg wall) now rand name plain d))"
  "entered d (snd (login (new_auth_service k p cfg wall) now r1 r2 name plain ua ip d))"
  unfolding register_def login_def new_auth_service_simps
  by (intro entering.R_rules; simp add: sqlite_users_def sqlite_sessions_def entered_writes entering.account_reads)+

text \<open>A session that is logged out right after signing in is the new one.\<close>

lemma session_create_fresh:
  assumes "session_create wall x d = (Inr x', d')"
  shows "s_id x' = s_id x \<and> s_id x \<notin> s_id ` set (sessions d)"
  using assms
proof (cases rule: session_create_cases)
  case (created d1 y)
  then show ?thesis by (auto simp: insert_session_def dest!: same_tablesD split: if_splits)
qed simp

lemma user_lookup_same: "same_tables d (snd (user_find_by_username n d))" "same_tables d (snd (user_find_by_id i d))"
  "same_tables d (snd (session_find_by_id v d))"
  using query_row_same [OF prod.collapse [symmetric]]
  by (auto simp: user_find_by_username_def user_find_by_id_def session_find_by_id_def
      split: prod.splits sum.splits option.splits dest: query_row_same)

lemma login_session:
  assumes "login (new_auth_service k p cfg wall) now r1 r2 name plain ua ip d = (Inr x, d')"
  shows "s_id x \<notin> s_id ` set (sessions d)"
proof -
  obtain q d1 where find: "user_find_by_username name d = (q, d1)" by fastforce
  then have "sessions d1 = sessions d" using user_lookup_same(1) [of d name] same_tablesD by simp
  then show ?thesis
    using assms find
    by (auto simp: login_def sqlite_users_def sqlite_sessions_def dest!: session_create_fresh
        split: prod.splits sum.splits bool.splits)
qed

lemma upkept_delete:
  assumes "x \<in> set (sessions d)" "s_id x = v" "is_expired x t" "t \<in> T"
  shows "upkept T (Some v) d (d\<lparr>faults := fs, sessions := filter (\<lambda>x. s_id x \<noteq> v) (sessions d)\<rparr>)"
  unfolding upkept_def
proof (intro exI conjI)
  show "d\<lparr>faults := fs, sessions := filter (\<lambda>x. s_id x \<noteq> v) (sessions d)\<rparr>
      = d\<lparr>sessions := filter (\<lambda>x. s_id x \<noteq> v) (sessions d), faults := fs\<rparr>" by simp
  show "\<forall>i\<in>s_id ` set (sessions d) - s_id ` set (filter (\<lambda>x. s_id x \<noteq> v) (sessions d)).
      \<exists>x\<in>set (sessions d). s_id x = i \<and> (\<exists>t\<in>T. is_expired x t)"
    using assms by auto
  show "\<forall>y\<in>set (filter (\<lambda>x. s_id x \<noteq> v) (sessions d)). \<exists>x\<in>set (sessions d). y = x\<lparr>s_last_seen_at := s_last_seen_at y\<rparr>"
    by (intro ballI, rule bexI) auto
qed (auto intro: filter_cong)

lemma upkept_touch:
  "upkept T (Some v) d (d\<lparr>faults := fs, sessions := map (\<lambda>x. if s_id x = v then x\<lparr>s_last_seen_at := t\<rparr> else x) (sessions d)\<rparr>)"
  (is "upkept T _ d (d\<lparr>faults := fs, sessions := map ?f _\<rparr>)")
  unfolding upkept_def
proof (intro exI conjI)
  show "d\<lparr>faults := fs, sessions := map ?f (sessions d)\<rparr> = d\<lparr>sessions := map ?f (sessions d), faults := fs\<rparr>" by simp
  show "filter (\<lambda>x. Some v \<noteq> Some (s_id x)) (map ?f (sessions d)) = filter (\<lambda>x. Some v \<noteq> Some (s_id x)) (sessions d)"
    by (rule filter_map_other) auto
  show "\<forall>y\<in>set (map ?f (sessions d)). \<exists>x\<in>set (sessions d). y = x\<lparr>s_last_seen_at := s_last_seen_at y\<rparr>"
  proof
    fix y assume "y \<in> set (map ?f (sessions d))"
    then obtain x where "x \<in> set (sessions d)" "y = ?f x" by auto
    then show "\<exists>x\<in>set (sessions d). y = x\<lparr>s_last_seen_at := s_last_seen_at y\<rparr>" by (intro bexI [of _ x]) auto
  qed
  have "map s_id (map ?f (sessions d)) = map s_id (sessions d)" by simp
  then have "s_id ` set (map ?f (sessions d)) = s_id ` set (sessions d)" by (metis list.set_map)
  then show "\<forall>i\<in>s_id ` set (sessions d) - s_id ` set (map ?f (sessions d)).
      \<exists>x\<in>set (sessions d). s_id x = i \<and> (\<exists>t\<in>T. is_expired x t)" by blast
qed

lemma session_by_id_upkept:
  assumes "session_by_id (new_auth_service k p cfg wall) now now' v d = (q, d')" "now \<in> T"
  shows "upkept T (Some v) d d'"
proof -
  obtain q1 d1 where find: "session_find_by_id v d = (q1, d1)" by fastforce
  have d1: "same_tables d d1" using user_lookup_same(3) [of d v] by (simp add: find)
  show ?thesis
  proof (cases q1)
    case (Inl e)
    with assms(1) find d1 show ?thesis
      by (simp add: session_by_id_def sqlite_sessions_def upkept_same)
  next
    case (Inr x)
    have x: "x \<in> set (sessions d)" "s_id x = v"
      using find_session_row [of v d x d1] find Inr by auto
    show ?thesis
    proof (cases "is_expired x now")
      case True
      then have "d' = snd (session_delete v d1)"
        using assms(1) find Inr by (simp add: session_by_id_def sqlite_sessions_def)
      then obtain n where "delete_sessions (\<lambda>s. s_id s = v) d1 = (n, d')"
        by (cases "delete_sessions (\<lambda>s. s_id s = v) d1") (auto simp: session_delete_def split: sum.splits)
      then show ?thesis
        unfolding delete_sessions_def
      proof (cases rule: statement_cases)
        case (fault m)
        then show ?thesis using d1 same_tables_trans upkept_same by blast
      next
        case (run d2)
        then obtain fs where "d2 = d\<lparr>faults := fs\<rparr>" using d1 same_tables_trans same_tables_eq by metis
        with run show ?thesis using upkept_delete [OF x True assms(2)] by auto
      qed
    next
      case False
      obtain q2 d2 where user: "user_find_by_id (s_user_id x) d1 = (q2, d2)" by fastforce
      have d2: "same_tables d d2" using same_tables_trans [OF d1] user_lookup_same(2) [of d1 "s_user_id x"] by (simp add: user)
      show ?thesis
      proof (cases q2)
        case (Inl e)
        with assms(1) find Inr False user d2 show ?thesis
          by (simp add: session_by_id_def sqlite_sessions_def sqlite_users_def upkept_same)
      next
        case (Inr u)
        then have "d' = snd (session_touch v now' d2)"
          using assms(1) find \<open>q1 = Inr x\<close> False user by (simp add: session_by_id_def sqlite_sessions_def sqlite_users_def)
        then obtain n where "statement (\<lambda>d. (Inr (length (filter (\<lambda>s. s_id s = v) (sessions d))),
            d\<lparr>sessions := map (\<lambda>s. if s_id s = v then s\<lparr>s_last_seen_at := secs now'\<rparr> else s) (sessions d)\<rparr>)) d2 = (n, d')"
          by (auto simp: session_touch_def split: prod.splits sum.splits if_splits)
        then show ?thesis
        proof (cases rule: statement_cases)
          case (fault m)
          then show ?thesis using d2 same_tables_trans upkept_same by blast
        next
          case (run d3)
          then obtain fs where "d3 = d\<lparr>faults := fs\<rparr>" using d2 same_tables_trans same_tables_eq by metis
          with run show ?thesis using upkept_touch by auto
        qed
      qed
    qed
  qed
qed

definition entered_world :: "world \<Rightarrow> world \<Rightarrow> bool" where
  "entered_world wd wd' \<longleftrightarrow> entered (wd_db wd) (wd_db wd')"

interpretation entering_world: framed entered_world
  by unfold_locales (auto simp: entered_world_def entering.R_refl intro: entering.R_trans)

lemma entered_world_auth:
  "entered_world s (snd (ath_register (server_auth sv) mo name pw s))"
  "entered_world s (snd (ath_login (server_auth sv) mo name pw ua ip s))"
  "entered_world s (snd (login_allowed (Some login_limiter) mo key s))"
  by (simp_all add: entered_world_def server_auth_def auth_of_def entered_auth login_allowed_def entering.R_refl)

lemma entered_forms:
  "entered_world s (snd (post_login (server_web sv) mo r w s))"
  "entered_world s (snd (post_register (server_web sv) mo r w s))"
  unfolding post_login_def post_register_def Let_def
  by (simp only: server_web_def server_web_config_def web_handler.simps web_config.simps,
      intro entering_world.R_rules entered_world_auth)+

lemma entered_api_login: "entered_world s (snd (api_login (server_api sv) mo r w s))"
proof (cases "decode_body login_fields \<lparr>lr_username = [], lr_password = []\<rparr> r")
  case (Inl e)
  then show ?thesis by (simp add: api_login_def entering_world.R_refl)
next
  case (Inr i)
  obtain q s1 where login: "ath_login (server_auth sv) mo (lr_username i) (lr_password i) (rq_header r ''User-Agent'')
      (api_client_ip r) s = (q, s1)" by fastforce
  have s1: "entered_world s s1" using entered_world_auth(2) [of s sv mo] login by (metis snd_conv)
  show ?thesis
  proof (cases "(\<exists>x. q = Inr x) \<and> (\<exists>t. fst (aat_issue_token (server_api_auth sv) (later mo) (s_user_id (projr q))
      (ttl_or_hour (3600 * second)) s1) = Inr t)")
    case False
    then show ?thesis
      using s1 login Inr
      by (auto simp: api_login_def server_api_def server_api_auth_def split: sum.split prod.split)
  next
    case True
    then obtain x where q: "q = Inr x" by blast
    let ?s2 = "snd (ath_logout (server_auth sv) (later (later mo)) (s_id x) s1)"
    have out: "snd (api_login (server_api sv) mo r w s) = ?s2"
      using True login Inr q
      by (auto simp: api_login_def server_api_def server_api_auth_def split: sum.split prod.split)
    have fresh: "s_id x \<notin> s_id ` set (sessions (wd_db s))"
      using login q by (auto simp: server_auth_def on_db_def auth_of_def split: prod.splits dest: login_session)
    obtain us ss fs where d1: "wd_db s1 = (wd_db s)\<lparr>users := users (wd_db s) @ us, sessions := sessions (wd_db s) @ ss, faults := fs\<rparr>"
      using s1 by (auto simp: entered_world_def entered_def)
    have "wd_db ?s2 = snd (session_delete (s_id x) (wd_db s1))"
      by (simp add: server_auth_def auth_of_def logout_def sqlite_sessions_def)
    then obtain n where "delete_sessions (\<lambda>z. s_id z = s_id x) (wd_db s1) = (n, wd_db ?s2)"
      by (cases "delete_sessions (\<lambda>z. s_id z = s_id x) (wd_db s1)") (auto simp: session_delete_def split: sum.splits)
    then have "entered (wd_db s) (wd_db ?s2)"
      unfolding delete_sessions_def
    proof (cases rule: statement_cases)
      case (fault m)
      then show ?thesis using s1 entering.R_trans entered_same unfolding entered_world_def by blast
    next
      case (run d2)
      then obtain fs' where d2: "d2 = (wd_db s1)\<lparr>faults := fs'\<rparr>" by (elim same_tables_eq)
      have "filter (\<lambda>z. s_id z \<noteq> s_id x) (sessions (wd_db s)) = sessions (wd_db s)"
        using fresh by (intro filter_True ballI) (metis imageI)
      then have "wd_db ?s2 = (wd_db s)\<lparr>users := users (wd_db s) @ us, faults := fs',
          sessions := sessions (wd_db s) @ filter (\<lambda>z. s_id z \<noteq> s_id x) ss\<rparr>"
        using run(2) by (simp add: d2 d1)
      then show ?thesis
        unfolding entered_def by (intro exI [of _ us] exI [of _ "filter (\<lambda>z. s_id z \<noteq> s_id x) ss"] exI [of _ fs']) simp
    qed
    then show ?thesis by (simp add: entered_world_def out)
  qed
qed

lemma forged_authed:
  assumes "\<not> is_safe_method (rq_method r)" "follows mo0 mo"
    and "\<And>x. x \<in> set (sessions (wd_db s)) \<Longrightarrow> rq_cookie r (cc_session_name (sv_cookie sv)) = Some (s_id x) \<Longrightarrow>
           \<not> token_matches (sv_cookie sv) r x"
  shows "upkept (range (mo_now mo0)) (rq_cookie r (cc_session_name (sv_cookie sv))) (wd_db s)
    (wd_db (snd (web_authed (server_web sv) inner mo r w s)))"
proof (cases "rq_cookie r (cc_session_name (sv_cookie sv))")
  case None
  then show ?thesis
    by (simp add: web_authed_def session_guard_def server_web_def server_web_config_def upkept_same)
next
  case (Some v)
  obtain q s1 where find: "ath_session_by_id (server_auth sv) mo v s = (q, s1)" by fastforce
  then have d1: "session_by_id (auth_of sv mo) (mo_now mo 0) (mo_now mo 1) v (wd_db s) = (q, wd_db s1)"
    by (auto simp: server_auth_def on_db_def split: prod.splits)
  have up: "upkept (range (mo_now mo0)) (Some v) (wd_db s) (wd_db s1)"
    using session_by_id_upkept [OF d1 [unfolded auth_of_def] followsD [OF assms(2)]] .
  have "snd (web_authed (server_web sv) inner mo r w s) \<in> {s, s1}"
  proof (cases q)
    case (Inr y)
    obtain x u where y: "y = (x, u)" by fastforce
    then have "x \<in> set (sessions (wd_db s))" "s_id x = v" using d1 Inr session_by_id_rows by auto
    then have "\<not> token_matches (sv_cookie sv) r x" using assms(3) Some by simp
    then have "snd (csrf_guard (cc_csrf_name (sv_cookie sv)) inner (later mo)
        (r\<lparr>rq_ctx := (rq_ctx r)\<lparr>cx_session := Some x, cx_user := Some u\<rparr>\<rparr>) w s1) = s1"
      using assms(1) by (auto simp: csrf_guard_def Let_def token_matches_def form_value_def split: option.split)
    then show ?thesis
      by (simp add: web_authed_def session_guard_def server_web_def server_web_config_def Some find Inr y Let_def)
  qed (simp add: web_authed_def session_guard_def server_web_def server_web_config_def Some find Let_def)
  then show ?thesis using up upkept_same [of "wd_db s" "wd_db s"] by (auto simp: Some)
qed

text \<open>
  C3: a request with a method that is not safe and without a bearer token, which does not carry the
  CSRF token of the session its cookie names twice (in the CSRF cookie and in the header or the
  form), changes no account, preference, attempt or review of an existing user.  It logs nobody
  out: of the sessions it only touches the one of the cookie, which is noted as seen, or removed if
  it has expired.  The three paths to sign in or up have no such guard: there a request can add
  a session, and an account, but still changes no existing row.
\<close>

theorem csrf_safety:
  assumes "\<not> is_safe_method (rq_method r)" "\<not> has_prefix (rq_header r ''Authorization'') ''Bearer ''"
    and "\<And>x. x \<in> set (sessions (wd_db wd)) \<Longrightarrow> rq_cookie r (cc_session_name (sv_cookie sv)) = Some (s_id x) \<Longrightarrow>
           \<not> token_matches (sv_cookie sv) (r\<lparr>rq_body_limit := Some (2 ^ 20)\<rparr>) x"
  shows "own {} (wd_db wd) (wd_db (snd (serve sv mo r wd)))
    \<and> (if path_segments (rq_path r) \<in> entry_paths then entered (wd_db wd) (wd_db (snd (serve sv mo r wd)))
       else upkept (range (mo_now mo)) (rq_cookie r (cc_session_name (sv_cookie sv)))
              (wd_db wd) (wd_db (snd (serve sv mo r wd))))"
proof -
  let ?c = "rq_cookie r (cc_session_name (sv_cookie sv))" and ?d = "wd_db wd" and ?d' = "wd_db (snd (serve sv mo r wd))"
  let ?goal = "\<lambda>d'. if path_segments (rq_path r) \<in> entry_paths then entered ?d d' else upkept (range (mo_now mo)) ?c ?d d'"
  have same: "?goal ?d" by (simp add: entering.R_refl upkept_same)
  have "?goal ?d'"
  proof (cases rule: serve_cases [of sv mo r wd])
    case (routed mo' c w s)
    let ?r = "past_middleware r c"
    have "?goal (wd_db (snd (mux (server_routes sv) mo' ?r w s)))"
    proof (cases "pick_route (server_routes sv) ?r")
      case None
      then show ?thesis using same routed(1) by (simp add: mux_def no_route_def Let_def)
    next
      case (Some y)
      obtain bd hl where y: "y = (bd, hl)" by fastforce
      let ?b = "bind_path bd ?r"
      have mux: "mux (server_routes sv) mo' ?r w s = hl mo' ?b w s" by (simp add: mux_def Some y)
      obtain m pat where route: "(m, pat, hl) \<in> set (server_routes sv)" "match_pattern pat (rq_path r) = Some bd"
        and m: "method_matches m (rq_method r)"
        using pick_routeD [OF Some [unfolded y]] by auto
      have get: "m \<noteq> ''GET''" using m assms(1) by (auto simp: method_matches_def is_safe_method_def)
      show ?thesis
      proof (cases "path_segments (rq_path r) \<in> entry_paths")
        case True
        then have "entered_world s (snd (hl mo' ?b w s))"
          using entry_route [OF route True get] entered_forms entered_api_login by auto
        then show ?thesis using True routed(1) by (simp add: mux entered_world_def)
      next
        case False
        have matches: "token_matches (sv_cookie sv) ?b x = token_matches (sv_cookie sv) (r\<lparr>rq_body_limit := Some (2 ^ 20)\<rparr>) x" for x
          by (simp add: token_matches_def form_value_def bind_path_def)
        from route have "upkept (range (mo_now mo)) ?c (wd_db s) (wd_db (snd (hl mo' ?b w s)))"
        proof (cases rule: route_cases)
          case (web inner)
          have "\<not> is_safe_method (rq_method ?b)" "rq_cookie ?b = rq_cookie r" using assms(1) by (simp_all add: bind_path_def)
          with forged_authed [of ?b mo mo' s sv inner w] routed(1,2) assms(3) matches show ?thesis by (simp add: web)
        next
          case (api inner)
          have "\<exists>w'. hl mo' ?b w s = (reply 401 (JsonBody (JObj [(''error'', JStr ''unauthenticated'')])) w', s)"
            unfolding api by (rule token_refused) (use assms(2) in \<open>simp add: bind_path_def\<close>)
          then show ?thesis by (auto simp: upkept_same)
        qed (use False get in simp_all)
        then show ?thesis using False routed(1) by (simp add: mux)
      qed
    qed
    then show ?thesis by (simp add: routed(3))
  qed (use same in simp)
  then show ?thesis by (auto split: if_splits intro: entered_own upkept_own)
qed

lemma csrf_safety_witness:
  "upkept (range (mo_now demo_moment)) (Some ''sid'') (wd_db signed_in_world)
     (wd_db (snd (serve demo_server demo_moment forged_request signed_in_world)))"
proof -
  have path: "path_segments (rq_path forged_request) \<notin> entry_paths" by code_simp
  have cookie: "rq_cookie forged_request (cc_session_name (sv_cookie demo_server)) = Some ''sid''"
    by (simp add: forged_request_def demo_server_def)
  have "own {} (wd_db signed_in_world) (wd_db (snd (serve demo_server demo_moment forged_request signed_in_world)))
    \<and> (if path_segments (rq_path forged_request) \<in> entry_paths
       then entered (wd_db signed_in_world) (wd_db (snd (serve demo_server demo_moment forged_request signed_in_world)))
       else upkept (range (mo_now demo_moment)) (rq_cookie forged_request (cc_session_name (sv_cookie demo_server)))
         (wd_db signed_in_world) (wd_db (snd (serve demo_server demo_moment forged_request signed_in_world))))"
    by (rule csrf_safety)
      (simp_all add: forged_request_def demo_request_def is_safe_method_def has_prefix_def signed_in_world_def
        new_world_def token_matches_def signed_in_session_def demo_server_def)
  with path cookie show ?thesis by simp
qed

end
